(* ===== verification/Prelude.thy ===== *)
theory Prelude
  imports Main "HOL-Library.Word" "HOL-Library.AList" "HOL-Library.List_Lexorder" "HOL-Library.Char_ord"
begin

text \<open>
  Shared vocabulary of the development: the machine integers and identifiers of the Go
  code, the model of its maps as association lists, results that carry an error, the
  interfaces (locales) several components satisfy, and the generic lemmas their proofs use.

  \<^item> \<open>u64\<close>, \<open>u32\<close> are the wrapping unsigned integers of Go; comparison is unsigned.
  \<^item> Opaque identifiers are Go structs around one string: here \<open>string\<close> itself, the zero
    value being the empty string.
  \<^item> A Go map is an association list: \<open>map_of m k\<close> reads, \<open>AList.update k v m\<close> writes.
  \<^item> A Go pair of a value and an error is \<open>'e + 'a\<close>, \<open>Inl\<close> being the error.
\<close>

type_synonym u64 = "64 word"
type_synonym u32 = "32 word"
type_synonym ident = string
type_synonym digest = string

named_theorems result_simps \<open>rewriting of results: errors stop, values go on\<close>
named_theorems frame_simps \<open>what an operation leaves unchanged\<close>
named_theorems step_defs \<open>definitions of the single steps of a component\<close>

section \<open>Results\<close>

definition result_bind :: "'e + 'a \<Rightarrow> ('a \<Rightarrow> 'e + 'b) \<Rightarrow> 'e + 'b" where
  "result_bind r f = (case r of Inl e \<Rightarrow> Inl e | Inr x \<Rightarrow> f x)"

lemma result_bind_Inl [simp, result_simps]: "result_bind (Inl e) f = Inl e"
  by (simp add: result_bind_def)

lemma result_bind_Inr [simp, result_simps]: "result_bind (Inr x) f = f x"
  by (simp add: result_bind_def)

lemma result_bind_eq_Inr [result_simps]:
  "result_bind r f = Inr y \<longleftrightarrow> (\<exists>x. r = Inr x \<and> f x = Inr y)"
  by (cases r) auto

lemma result_bind_eq_Inl [result_simps]:
  "result_bind r f = Inl e \<longleftrightarrow> r = Inl e \<or> (\<exists>x. r = Inr x \<and> f x = Inl e)"
  by (cases r) auto

lemma case_sum_eq_Inr [result_simps]:
  "(case r of Inl _ \<Rightarrow> Inl e | Inr x \<Rightarrow> f x) = Inr y \<longleftrightarrow> (\<exists>x. r = Inr x \<and> f x = Inr y)"
  by (cases r) auto

lemma case_option_eq_Inr [result_simps]:
  "(case p of None \<Rightarrow> Inl e | Some x \<Rightarrow> f x) = Inr y \<longleftrightarrow> (\<exists>x. p = Some x \<and> f x = Inr y)"
  by (cases p) auto

lemma if_eq_Inr [result_simps]:
  "(if b then Inl e else r) = Inr y \<longleftrightarrow> \<not> b \<and> r = Inr y"
  by simp

text \<open>A guard: the error when the condition holds, as an early return.\<close>

definition reject_if :: "bool \<Rightarrow> 'e \<Rightarrow> 'e + unit" where
  "reject_if b e = (if b then Inl e else Inr ())"

lemma reject_if_simps [simp, result_simps]:
  "reject_if True e = Inl e"
  "reject_if False e = Inr ()"
  "reject_if b e = Inr u \<longleftrightarrow> \<not> b"
  "reject_if b e = Inl e' \<longleftrightarrow> b \<and> e' = e"
  by (auto simp: reject_if_def)

section \<open>Go maps\<close>

lemma map_of_update [simp]:
  "map_of (AList.update k v m) k' = (if k' = k then Some v else map_of m k')"
  by (simp add: update_conv')

lemma map_of_update_same: "map_of (AList.update k v m) k = Some v"
  by simp

text \<open>Writing every key of a list that is not yet there (Go: \<open>if _, exists := m[k]; !exists\<close>).\<close>

definition put_new :: "'k \<Rightarrow> 'v \<Rightarrow> ('k \<times> 'v) list \<Rightarrow> ('k \<times> 'v) list" where
  "put_new k v m = (case map_of m k of None \<Rightarrow> AList.update k v m | Some _ \<Rightarrow> m)"

lemma map_of_put_new [simp]:
  "map_of (put_new k v m) k' =
     (if k' = k then (case map_of m k of None \<Rightarrow> Some v | Some w \<Rightarrow> Some w) else map_of m k')"
  by (auto simp: put_new_def split: option.splits)

lemma put_new_keeps: "map_of m k' = Some w \<Longrightarrow> map_of (put_new k v m) k' = Some w"
  by auto

lemma distinct_put_new [simp]: "distinct (map fst m) \<Longrightarrow> distinct (map fst (put_new k v m))"
  by (auto simp: put_new_def distinct_update split: option.splits)

section \<open>Lists\<close>

text \<open>First element that satisfies a test: Go's search loops with an early return.\<close>

definition find_elem :: "('a \<Rightarrow> bool) \<Rightarrow> 'a list \<Rightarrow> 'a option" where
  "find_elem P xs = List.find P xs"

lemma find_elem_Some: "find_elem P xs = Some x \<Longrightarrow> x \<in> set xs \<and> P x"
  by (auto simp: find_elem_def find_Some_iff)

lemma find_elem_None: "find_elem P xs = None \<longleftrightarrow> (\<forall>x \<in> set xs. \<not> P x)"
  by (auto simp: find_elem_def find_None_iff)

lemma find_elem_simps [simp]:
  "find_elem P [] = None"
  "find_elem P (x # xs) = (if P x then Some x else find_elem P xs)"
  by (simp_all add: find_elem_def)

text \<open>Updating in place every row that a SQL \<open>WHERE\<close> selects, and counting them.\<close>

definition rows_affected :: "('a \<Rightarrow> bool) \<Rightarrow> 'a list \<Rightarrow> nat" where
  "rows_affected P xs = length (filter P xs)"

definition update_rows :: "('a \<Rightarrow> bool) \<Rightarrow> ('a \<Rightarrow> 'a) \<Rightarrow> 'a list \<Rightarrow> 'a list" where
  "update_rows P f xs = map (\<lambda>x. if P x then f x else x) xs"

lemma length_update_rows [simp]: "length (update_rows P f xs) = length xs"
  by (simp add: update_rows_def)

lemma update_rows_none: "rows_affected P xs = 0 \<Longrightarrow> update_rows P f xs = xs"
  by (induction xs) (auto simp: update_rows_def rows_affected_def split: if_splits)

lemma map_update_rows:
  "(\<And>x. P x \<Longrightarrow> g (f x) = g x) \<Longrightarrow> map g (update_rows P f xs) = map g xs"
  by (simp add: update_rows_def)

lemma rows_affected_update_rows:
  "rows_affected Q (update_rows P f xs) = rows_affected (\<lambda>x. Q (if P x then f x else x)) xs"
  by (induction xs) (auto simp: update_rows_def rows_affected_def)

lemma rows_affected_mono:
  "(\<And>x. x \<in> set xs \<Longrightarrow> P x \<Longrightarrow> Q x) \<Longrightarrow> rows_affected P xs \<le> rows_affected Q xs"
  by (induction xs) (auto simp: rows_affected_def)

lemma rows_affected_append [simp]:
  "rows_affected P (xs @ ys) = rows_affected P xs + rows_affected P ys"
  by (simp add: rows_affected_def)

lemma rows_affected_simps [simp]:
  "rows_affected P [] = 0"
  "rows_affected P (x # xs) = (if P x then Suc (rows_affected P xs) else rows_affected P xs)"
  by (simp_all add: rows_affected_def)

section \<open>Digests and numbers as text\<close>

text \<open>The zero value of a \<open>[32]byte\<close>, which the code uses for an absent digest.\<close>

definition zero_digest :: digest where
  "zero_digest = replicate 32 CHR 0x00"

text \<open>\<open>hex.EncodeToString\<close> and \<open>hex.DecodeString\<close>; decoding accepts both cases.\<close>

definition hex_digit :: "nat \<Rightarrow> char" where
  "hex_digit n = (if n < 10 then char_of (48 + n) else char_of (87 + n))"

definition hex_value :: "char \<Rightarrow> nat option" where
  "hex_value c =
     (let n = (of_char c :: nat) in
      if 48 \<le> n \<and> n \<le> 57 then Some (n - 48)
      else if 97 \<le> n \<and> n \<le> 102 then Some (n - 87)
      else if 65 \<le> n \<and> n \<le> 70 then Some (n - 55) else None)"

fun hex_encode :: "string \<Rightarrow> string" where
  "hex_encode [] = []"
| "hex_encode (c # cs) =
     (let n = (of_char c :: nat) in hex_digit (n div 16) # hex_digit (n mod 16) # hex_encode cs)"

fun hex_decode :: "string \<Rightarrow> string option" where
  "hex_decode [] = Some []"
| "hex_decode [_] = None"
| "hex_decode (h # l # cs) =
     (case (hex_value h, hex_value l, hex_decode cs) of
        (Some a, Some b, Some rest) \<Rightarrow> Some (char_of (16 * a + b) # rest)
      | _ \<Rightarrow> None)"

lemma hex_value_digit: "n < 16 \<Longrightarrow> hex_value (hex_digit n) = Some n"
  by (auto simp: hex_value_def hex_digit_def of_char_of Let_def)

lemma hex_decode_encode: "hex_decode (hex_encode s) = Some s"
proof (induction s)
  case Nil
  then show ?case by simp
next
  case (Cons c cs)
  have "of_char c < (256 :: nat)" by simp
  then have "(of_char c :: nat) div 16 < 16" by linarith
  with Cons show ?case
    by (simp add: Let_def hex_value_digit)
qed

lemma length_hex_encode [simp]: "length (hex_encode s) = 2 * length s"
  by (induction s) (simp_all add: Let_def)

lemma hex_encode_inject [simp]: "hex_encode s = hex_encode t \<longleftrightarrow> s = t"
  by (metis hex_decode_encode option.inject)

text \<open>Zero padded decimals, as \<open>fmt.Sprintf("%0kd")\<close> prints a sequence value.\<close>

fun decimal :: "nat \<Rightarrow> string" where
  "decimal n = (if n < 10 then [char_of (48 + n)] else decimal (n div 10) @ [char_of (48 + n mod 10)])"

declare decimal.simps [simp del]

definition padded :: "nat \<Rightarrow> nat \<Rightarrow> string" where
  "padded k n = replicate (k - length (decimal n)) CHR ''0'' @ decimal n"

text \<open>The digits read back: different sequence values get different identifiers.\<close>

definition undecimal :: "string \<Rightarrow> nat" where
  "undecimal s = foldl (\<lambda>n c. n * 10 + (of_char c - 48)) 0 s"

lemma undecimal_decimal: "undecimal (decimal n) = n"
proof (induction n rule: decimal.induct)
  case (1 n)
  show ?case
  proof (cases "n < 10")
    case True
    then show ?thesis by (subst decimal.simps) (simp add: undecimal_def of_char_of)
  next
    case False
    with 1 have "undecimal (decimal (n div 10)) = n div 10" by blast
    moreover have "(48 + n mod 10) mod 256 = 48 + n mod 10"
    proof -
      have "n mod 10 < 10" by simp
      then show ?thesis by (intro mod_less) linarith
    qed
    ultimately show ?thesis
      using False by (subst decimal.simps) (simp add: undecimal_def of_char_of)
  qed
qed

lemma undecimal_padded: "undecimal (padded k n) = n"
proof -
  have "foldl (\<lambda>n c. n * 10 + (of_char c - 48)) 0 (replicate j CHR ''0'') = (0 :: nat)" for j
    by (induction j) simp_all
  then show ?thesis
    using undecimal_decimal [of n] by (simp add: padded_def undecimal_def)
qed

lemma padded_inject [simp]: "padded k m = padded k n \<longleftrightarrow> m = n"
  by (metis undecimal_padded)

section \<open>Interfaces\<close>

text \<open>
  A transition table: which states a state may move to. The clients are the task services,
  which only ever move a task along the table; \<open>settled\<close> states are the ones no move leaves.
\<close>

locale transition_table =
  fixes allowed :: "'s \<Rightarrow> 's \<Rightarrow> bool"
    and settled :: "'s \<Rightarrow> bool"
  assumes settled_stays: "settled s \<Longrightarrow> allowed s t \<Longrightarrow> t = s"
begin

text \<open>A run: a list of states, each reached from the one before by an allowed move.\<close>

fun run_ok :: "'s \<Rightarrow> 's list \<Rightarrow> bool" where
  "run_ok s [] = True"
| "run_ok s (t # ts) = (allowed s t \<and> run_ok t ts)"

lemma run_ok_append: "run_ok s (xs @ ys) \<longleftrightarrow> run_ok s xs \<and> run_ok (last (s # xs)) ys"
  by (induction xs arbitrary: s) auto

lemma settled_run: "settled s \<Longrightarrow> run_ok s ts \<Longrightarrow> t \<in> set ts \<Longrightarrow> t = s"
proof (induction ts arbitrary: s)
  case Nil
  then show ?case by simp
next
  case (Cons u us)
  then have "u = s" by (auto dest: settled_stays)
  with Cons show ?case by auto
qed

text \<open>
  A state that can only be entered from a gate is entered in a run only after the gate.
\<close>

lemma run_through_gate:
  assumes gate: "\<And>s t. allowed s t \<Longrightarrow> goal t \<Longrightarrow> goal s \<or> gate s"
    and "\<not> goal s" and "run_ok s ts" and "t \<in> set ts" and "goal t"
  shows "gate s \<or> (\<exists>u \<in> set ts. gate u)"
  using assms(2-)
proof (induction ts arbitrary: s)
  case Nil
  then show ?case by simp
next
  case (Cons u us)
  show ?case
  proof (cases "goal u")
    case True
    with Cons.prems gate show ?thesis by auto
  next
    case False
    with Cons.prems Cons.IH [of u] show ?thesis by auto
  qed
qed

end

text \<open>
  A counted reservation: every step of the provider keeps a counter at or below its limit,
  because it only raises it below the limit. Clients are the admission decisions.
\<close>

locale counted_admission =
  fixes occupied :: "'st \<Rightarrow> 'key \<Rightarrow> nat"
    and limit :: "'key \<Rightarrow> nat"
    and step :: "'st \<Rightarrow> 'st \<Rightarrow> bool"
  assumes raises_below_limit:
    "step s t \<Longrightarrow> occupied t k \<le> occupied s k \<or> occupied s k < limit k \<and> occupied t k \<le> Suc (occupied s k)"
begin

lemma step_within: "step s t \<Longrightarrow> occupied s k \<le> limit k \<Longrightarrow> occupied t k \<le> limit k"
  using raises_below_limit [of s t k] by linarith

lemma steps_within: "step\<^sup>*\<^sup>* s t \<Longrightarrow> occupied s k \<le> limit k \<Longrightarrow> occupied t k \<le> limit k"
  by (induction rule: rtranclp_induct) (auto intro: step_within)

end

text \<open>
  An idempotent command: what was answered to a request is kept under the request's key, no
  later command changes it, and the same request is answered from it without a new effect.
\<close>

locale replayed_command =
  fixes exec :: "'q \<Rightarrow> 's \<Rightarrow> ('e + 'r) \<times> 's"
    and recorded :: "'s \<Rightarrow> 'q \<Rightarrow> 'r option"
  assumes records: "exec q s = (Inr r, s') \<Longrightarrow> recorded s' q = Some r"
    and keeps: "recorded s q = Some r \<Longrightarrow> exec q' s = (out, s') \<Longrightarrow> recorded s' q = Some r"
    and replays: "recorded s q = Some r \<Longrightarrow> exec q s = (Inr r, s)"
begin

fun exec_all :: "'q list \<Rightarrow> 's \<Rightarrow> 's" where
  "exec_all [] s = s"
| "exec_all (q # qs) s = exec_all qs (snd (exec q s))"

lemma exec_all_keeps: "recorded s q = Some r \<Longrightarrow> recorded (exec_all qs s) q = Some r"
proof (induction qs arbitrary: s)
  case Nil
  then show ?case by simp
next
  case (Cons q' qs)
  have "exec q' s = (fst (exec q' s), snd (exec q' s))" by simp
  from keeps [OF Cons.prems this] Cons.IH show ?case by simp
qed

theorem replay_after_any:
  assumes "exec q s = (Inr r, s')"
  shows "exec q (exec_all qs s') = (Inr r, exec_all qs s')"
  using exec_all_keeps [OF records [OF assms]] by (rule replays)

end

end
