(* ===== verification/Service_Pipeline.thy ===== *)
theory Service_Pipeline
  imports Prelude
begin

text \<open>
  The task service's static control tables (backend/internal/service): the task status
  machine of state_machine.go, the pipeline phase registry and the phase orders of
  pipeline_phase.go, and the route execution policy of route_policy.go. Statuses, phases
  and routes are Go strings and stay strings here.

  The lemmas show that completed and cancelled are final, that completion is only reached
  through publishing, that a phase's declared status change is a legal transition, that the
  phase orders are walked from first to last by the successor function, and which routes
  the policy lets run.
\<close>

section \<open>Names\<close>

abbreviation TaskStatusCreated :: string where "TaskStatusCreated \<equiv> ''created''"
abbreviation TaskStatusUploaded :: string where "TaskStatusUploaded \<equiv> ''uploaded''"
abbreviation TaskStatusRuntimePreparing :: string where "TaskStatusRuntimePreparing \<equiv> ''runtime_preparing''"
abbreviation TaskStatusSourceConverting :: string where "TaskStatusSourceConverting \<equiv> ''source_converting''"
abbreviation TaskStatusAwaitingConfirm :: string where "TaskStatusAwaitingConfirm \<equiv> ''awaiting_confirm''"
abbreviation TaskStatusAwaitingAnchorConfirm :: string where "TaskStatusAwaitingAnchorConfirm \<equiv> ''awaiting_anchor_confirm''"
abbreviation TaskStatusRealizationDeriving :: string where "TaskStatusRealizationDeriving \<equiv> ''realization_deriving''"
abbreviation TaskStatusAwaitingRealizationConfirm :: string where "TaskStatusAwaitingRealizationConfirm \<equiv> ''awaiting_realization_confirm''"
abbreviation TaskStatusSpecGenerating :: string where "TaskStatusSpecGenerating \<equiv> ''spec_generating''"
abbreviation TaskStatusAwaitingSpecConfirm :: string where "TaskStatusAwaitingSpecConfirm \<equiv> ''awaiting_spec_confirm''"
abbreviation TaskStatusImageAcquiring :: string where "TaskStatusImageAcquiring \<equiv> ''image_acquiring''"
abbreviation TaskStatusSVGGenerating :: string where "TaskStatusSVGGenerating \<equiv> ''svg_generating''"
abbreviation TaskStatusQualityChecking :: string where "TaskStatusQualityChecking \<equiv> ''quality_checking''"
abbreviation TaskStatusExporting :: string where "TaskStatusExporting \<equiv> ''exporting''"
abbreviation TaskStatusPPTXValidating :: string where "TaskStatusPPTXValidating \<equiv> ''pptx_validating''"
abbreviation TaskStatusPublishing :: string where "TaskStatusPublishing \<equiv> ''publishing''"
abbreviation TaskStatusCompleted :: string where "TaskStatusCompleted \<equiv> ''completed''"
abbreviation TaskStatusFailed :: string where "TaskStatusFailed \<equiv> ''failed''"
abbreviation TaskStatusCancelled :: string where "TaskStatusCancelled \<equiv> ''cancelled''"
abbreviation TaskStatusTemplateFillPlanning :: string where "TaskStatusTemplateFillPlanning \<equiv> ''template_fill_planning''"
abbreviation TaskStatusAwaitingTemplateFillConfirm :: string where "TaskStatusAwaitingTemplateFillConfirm \<equiv> ''awaiting_template_fill_confirm''"
abbreviation TaskStatusTemplateFillChecking :: string where "TaskStatusTemplateFillChecking \<equiv> ''template_fill_checking''"
abbreviation TaskStatusTemplateFillApplying :: string where "TaskStatusTemplateFillApplying \<equiv> ''template_fill_applying''"
abbreviation TaskStatusTemplateFillValidating :: string where "TaskStatusTemplateFillValidating \<equiv> ''template_fill_validating''"
abbreviation TaskStatusBeautifyInventoryBuilding :: string where "TaskStatusBeautifyInventoryBuilding \<equiv> ''beautify_inventory_building''"
abbreviation TaskStatusBeautifyPlanning :: string where "TaskStatusBeautifyPlanning \<equiv> ''beautify_planning''"
abbreviation TaskStatusAwaitingBeautifyConfirm :: string where "TaskStatusAwaitingBeautifyConfirm \<equiv> ''awaiting_beautify_confirm''"
abbreviation TaskRouteMain :: string where "TaskRouteMain \<equiv> ''main''"
abbreviation TaskRouteBeautify :: string where "TaskRouteBeautify \<equiv> ''beautify''"
abbreviation TaskRouteTemplateFill :: string where "TaskRouteTemplateFill \<equiv> ''template-fill''"
abbreviation ArtifactKindSource :: string where "ArtifactKindSource \<equiv> ''source''"
abbreviation ArtifactKindSourceMarkdown :: string where "ArtifactKindSourceMarkdown \<equiv> ''source_markdown''"
abbreviation ArtifactKindPPTX :: string where "ArtifactKindPPTX \<equiv> ''pptx''"
abbreviation ArtifactKindPPTXIdentity :: string where "ArtifactKindPPTXIdentity \<equiv> ''pptx_identity''"
abbreviation ArtifactKindPPTXSlideLibrary :: string where "ArtifactKindPPTXSlideLibrary \<equiv> ''pptx_slide_library''"
abbreviation ArtifactKindBeautifyInventory :: string where "ArtifactKindBeautifyInventory \<equiv> ''beautify_inventory''"
abbreviation ArtifactKindBeautifyRiskReport :: string where "ArtifactKindBeautifyRiskReport \<equiv> ''beautify_risk_report''"
abbreviation PhaseRouteSelect :: string where "PhaseRouteSelect \<equiv> ''route_select''"
abbreviation PhaseSourcePrepare :: string where "PhaseSourcePrepare \<equiv> ''source_prepare''"
abbreviation PhaseProjectInit :: string where "PhaseProjectInit \<equiv> ''project_init''"
abbreviation PhaseTemplateResolve :: string where "PhaseTemplateResolve \<equiv> ''template_resolve''"
abbreviation PhaseAnchorConfirm :: string where "PhaseAnchorConfirm \<equiv> ''anchor_confirm''"
abbreviation PhaseRealizationConfirm :: string where "PhaseRealizationConfirm \<equiv> ''realization_confirm''"
abbreviation PhaseSpecGenerate :: string where "PhaseSpecGenerate \<equiv> ''spec_generate''"
abbreviation PhaseSpecRefine :: string where "PhaseSpecRefine \<equiv> ''spec_refine''"
abbreviation PhaseImageAcquire :: string where "PhaseImageAcquire \<equiv> ''image_acquire''"
abbreviation PhaseSVGExecute :: string where "PhaseSVGExecute \<equiv> ''svg_execute''"
abbreviation PhaseQualityCheck :: string where "PhaseQualityCheck \<equiv> ''quality_check''"
abbreviation PhaseFinalizeExport :: string where "PhaseFinalizeExport \<equiv> ''finalize_export''"
abbreviation PhasePPTXValidate :: string where "PhasePPTXValidate \<equiv> ''pptx_validate''"
abbreviation PhasePublish :: string where "PhasePublish \<equiv> ''publish''"
abbreviation PhaseBeautifyInventory :: string where "PhaseBeautifyInventory \<equiv> ''beautify_inventory''"
abbreviation PhaseBeautifyPlan :: string where "PhaseBeautifyPlan \<equiv> ''beautify_plan''"
abbreviation PhaseTemplateFillPlan :: string where "PhaseTemplateFillPlan \<equiv> ''template_fill_plan''"
abbreviation PhaseTemplateFillCheck :: string where "PhaseTemplateFillCheck \<equiv> ''template_fill_check''"
abbreviation PhaseTemplateFillApply :: string where "PhaseTemplateFillApply \<equiv> ''template_fill_apply''"
abbreviation PhaseTemplateFillValidate :: string where "PhaseTemplateFillValidate \<equiv> ''template_fill_validate''"
abbreviation PhaseRunnerRule :: string where "PhaseRunnerRule \<equiv> ''rule''"
abbreviation PhaseRunnerWorker :: string where "PhaseRunnerWorker \<equiv> ''worker''"
abbreviation PhaseRunnerAgent :: string where "PhaseRunnerAgent \<equiv> ''agent''"
abbreviation PhaseRunnerLegacyAgentBundle :: string where "PhaseRunnerLegacyAgentBundle \<equiv> ''legacy-agent-bundle''"
abbreviation PhaseRunnerPublisher :: string where "PhaseRunnerPublisher \<equiv> ''publisher''"

section \<open>The task status machine\<close>

text \<open>
  The transition table, first for the intake, beautify and template-fill statuses, then for
  the confirmation and generation statuses, in the order of the source.
\<close>

definition intake_transitions :: "(string \<times> string list) list" where
  "intake_transitions = [
  (TaskStatusCreated, [TaskStatusUploaded, TaskStatusCancelled, TaskStatusFailed]),
  (TaskStatusUploaded, [TaskStatusRuntimePreparing, TaskStatusCancelled, TaskStatusFailed]),
  (TaskStatusRuntimePreparing, [TaskStatusSourceConverting, TaskStatusCancelled, TaskStatusFailed]),
  (TaskStatusSourceConverting, [TaskStatusAwaitingConfirm, TaskStatusAwaitingAnchorConfirm, TaskStatusBeautifyInventoryBuilding, TaskStatusTemplateFillPlanning, TaskStatusCancelled, TaskStatusFailed]),
  (TaskStatusBeautifyInventoryBuilding, [TaskStatusAwaitingAnchorConfirm, TaskStatusCancelled, TaskStatusFailed]),
  (TaskStatusTemplateFillPlanning, [TaskStatusAwaitingTemplateFillConfirm, TaskStatusCancelled, TaskStatusFailed]),
  (TaskStatusAwaitingTemplateFillConfirm, [TaskStatusTemplateFillPlanning, TaskStatusTemplateFillChecking, TaskStatusCancelled, TaskStatusFailed]),
  (TaskStatusTemplateFillChecking, [TaskStatusAwaitingTemplateFillConfirm, TaskStatusTemplateFillApplying, TaskStatusCancelled, TaskStatusFailed]),
  (TaskStatusTemplateFillApplying, [TaskStatusTemplateFillValidating, TaskStatusCancelled, TaskStatusFailed]),
  (TaskStatusTemplateFillValidating, [TaskStatusPublishing, TaskStatusCancelled, TaskStatusFailed])]"

definition generation_transitions :: "(string \<times> string list) list" where
  "generation_transitions = [
  (TaskStatusAwaitingConfirm, [TaskStatusSpecGenerating, TaskStatusCancelled, TaskStatusFailed]),
  (TaskStatusAwaitingAnchorConfirm, [TaskStatusRealizationDeriving, TaskStatusCancelled, TaskStatusFailed]),
  (TaskStatusRealizationDeriving, [TaskStatusAwaitingRealizationConfirm, TaskStatusCancelled, TaskStatusFailed]),
  (TaskStatusAwaitingRealizationConfirm, [TaskStatusSpecGenerating, TaskStatusBeautifyPlanning, TaskStatusCancelled, TaskStatusFailed]),
  (TaskStatusBeautifyPlanning, [TaskStatusAwaitingBeautifyConfirm, TaskStatusCancelled, TaskStatusFailed]),
  (TaskStatusAwaitingBeautifyConfirm, [TaskStatusBeautifyPlanning, TaskStatusSpecGenerating, TaskStatusCancelled, TaskStatusFailed]),
  (TaskStatusSpecGenerating, [TaskStatusAwaitingSpecConfirm, TaskStatusImageAcquiring, TaskStatusCancelled, TaskStatusFailed]),
  (TaskStatusAwaitingSpecConfirm, [TaskStatusSpecGenerating, TaskStatusImageAcquiring, TaskStatusCancelled, TaskStatusFailed]),
  (TaskStatusImageAcquiring, [TaskStatusSVGGenerating, TaskStatusCancelled, TaskStatusFailed]),
  (TaskStatusSVGGenerating, [TaskStatusQualityChecking, TaskStatusCancelled, TaskStatusFailed]),
  (TaskStatusQualityChecking, [TaskStatusExporting, TaskStatusCancelled, TaskStatusFailed]),
  (TaskStatusExporting, [TaskStatusPPTXValidating, TaskStatusCancelled, TaskStatusFailed]),
  (TaskStatusPPTXValidating, [TaskStatusPublishing, TaskStatusCancelled, TaskStatusFailed]),
  (TaskStatusPublishing, [TaskStatusCompleted, TaskStatusCancelled, TaskStatusFailed]),
  (TaskStatusFailed, [TaskStatusRuntimePreparing, TaskStatusBeautifyInventoryBuilding, TaskStatusBeautifyPlanning, TaskStatusTemplateFillPlanning, TaskStatusTemplateFillChecking, TaskStatusTemplateFillApplying, TaskStatusTemplateFillValidating, TaskStatusSpecGenerating, TaskStatusImageAcquiring, TaskStatusSVGGenerating, TaskStatusQualityChecking, TaskStatusExporting, TaskStatusPPTXValidating, TaskStatusPublishing, TaskStatusCancelled])]"

definition NewStateMachine :: "(string \<times> string list) list" where
  "NewStateMachine = intake_transitions @ generation_transitions"

text \<open>A missing row of the Go map is the nil map, which allows nothing.\<close>

definition CanTransition :: "string \<Rightarrow> string \<Rightarrow> bool" where
  "CanTransition frm to \<longleftrightarrow>
     (if frm = to then True
      else case map_of NewStateMachine frm of None \<Rightarrow> False | Some tos \<Rightarrow> to \<in> set tos)"

definition Validate :: "string \<Rightarrow> string \<Rightarrow> (string \<times> string) + unit" where
  "Validate frm to = (if CanTransition frm to then Inr () else Inl (frm, to))"

section \<open>Pipeline phases\<close>

record PipelinePhaseDefinition =
  pd_Phase :: string
  pd_DisplayName :: string
  pd_RequiredStatuses :: "string list"
  pd_NextStatus :: string
  pd_Runner :: string
  pd_Retryable :: bool
  pd_BlockingUserGate :: bool
  pd_RequiredArtifacts :: "string list"
  pd_OutputArtifacts :: "string list"

definition intake_phases :: "(string \<times> PipelinePhaseDefinition) list" where
  "intake_phases = [
  (PhaseRouteSelect, \<lparr>pd_Phase = PhaseRouteSelect, pd_DisplayName = ''Route Select'', pd_RequiredStatuses = [TaskStatusRuntimePreparing, TaskStatusSourceConverting],
     pd_NextStatus = TaskStatusSourceConverting, pd_Runner = PhaseRunnerRule, pd_Retryable = True, pd_BlockingUserGate = False,
     pd_RequiredArtifacts = [ArtifactKindSource],
     pd_OutputArtifacts = [''.slidesmith/route.json'']\<rparr>),
  (PhaseSourcePrepare, \<lparr>pd_Phase = PhaseSourcePrepare, pd_DisplayName = ''Source Prepare'', pd_RequiredStatuses = [TaskStatusSourceConverting],
     pd_NextStatus = TaskStatusAwaitingAnchorConfirm, pd_Runner = PhaseRunnerAgent, pd_Retryable = True, pd_BlockingUserGate = False,
     pd_RequiredArtifacts = [ArtifactKindSource],
     pd_OutputArtifacts = [''normalized markdown'', ''source metadata'']\<rparr>),
  (PhaseBeautifyInventory, \<lparr>pd_Phase = PhaseBeautifyInventory, pd_DisplayName = ''Beautify Inventory'', pd_RequiredStatuses = [TaskStatusBeautifyInventoryBuilding],
     pd_NextStatus = TaskStatusAwaitingAnchorConfirm, pd_Runner = PhaseRunnerWorker, pd_Retryable = True, pd_BlockingUserGate = False,
     pd_RequiredArtifacts = [ArtifactKindSource, ArtifactKindPPTXIdentity, ArtifactKindPPTXSlideLibrary],
     pd_OutputArtifacts = [''.slidesmith/contracts/beautify_inputs.json'', ''analysis/beautify_inventory.json'', ''analysis/beautify_risk_report.json'', ''.slidesmith/contracts/beautify_inventory.json'']\<rparr>),
  (PhaseBeautifyPlan, \<lparr>pd_Phase = PhaseBeautifyPlan, pd_DisplayName = ''Beautify Plan'', pd_RequiredStatuses = [TaskStatusBeautifyPlanning],
     pd_NextStatus = TaskStatusAwaitingBeautifyConfirm, pd_Runner = PhaseRunnerAgent, pd_Retryable = True, pd_BlockingUserGate = False,
     pd_RequiredArtifacts = [ArtifactKindBeautifyInventory, ArtifactKindBeautifyRiskReport],
     pd_OutputArtifacts = [''analysis/beautify_plan.json'', ''.slidesmith/contracts/beautify_plan.json'']\<rparr>),
  (PhaseTemplateFillPlan, \<lparr>pd_Phase = PhaseTemplateFillPlan, pd_DisplayName = ''Template Fill Plan'', pd_RequiredStatuses = [TaskStatusTemplateFillPlanning],
     pd_NextStatus = TaskStatusAwaitingTemplateFillConfirm, pd_Runner = PhaseRunnerAgent, pd_Retryable = True, pd_BlockingUserGate = False,
     pd_RequiredArtifacts = [ArtifactKindPPTXSlideLibrary, ArtifactKindSourceMarkdown],
     pd_OutputArtifacts = [''analysis/fill_plan.json'', ''analysis/check_report.json'']\<rparr>),
  (PhaseTemplateFillCheck, \<lparr>pd_Phase = PhaseTemplateFillCheck, pd_DisplayName = ''Template Fill Check'', pd_RequiredStatuses = [TaskStatusTemplateFillChecking],
     pd_NextStatus = TaskStatusTemplateFillApplying, pd_Runner = PhaseRunnerWorker, pd_Retryable = True, pd_BlockingUserGate = True,
     pd_RequiredArtifacts = [],
     pd_OutputArtifacts = [''analysis/check_report.json'']\<rparr>),
  (PhaseTemplateFillApply, \<lparr>pd_Phase = PhaseTemplateFillApply, pd_DisplayName = ''Template Fill Apply'', pd_RequiredStatuses = [TaskStatusTemplateFillApplying],
     pd_NextStatus = TaskStatusTemplateFillValidating, pd_Runner = PhaseRunnerWorker, pd_Retryable = True, pd_BlockingUserGate = False,
     pd_RequiredArtifacts = [''analysis/fill_plan.json'', ''analysis/check_report.json''],
     pd_OutputArtifacts = [''exports/*.pptx'']\<rparr>),
  (PhaseTemplateFillValidate, \<lparr>pd_Phase = PhaseTemplateFillValidate, pd_DisplayName = ''Template Fill Validate'', pd_RequiredStatuses = [TaskStatusTemplateFillValidating],
     pd_NextStatus = TaskStatusPublishing, pd_Runner = PhaseRunnerWorker, pd_Retryable = True, pd_BlockingUserGate = False,
     pd_RequiredArtifacts = [''exports/*.pptx''],
     pd_OutputArtifacts = [''validation/readback.md'', ''validation/validate_report.json'']\<rparr>)]"

definition planning_phases :: "(string \<times> PipelinePhaseDefinition) list" where
  "planning_phases = [
  (PhaseProjectInit, \<lparr>pd_Phase = PhaseProjectInit, pd_DisplayName = ''Project Init'', pd_RequiredStatuses = [TaskStatusSourceConverting],
     pd_NextStatus = TaskStatusAwaitingAnchorConfirm, pd_Runner = PhaseRunnerWorker, pd_Retryable = True, pd_BlockingUserGate = False,
     pd_RequiredArtifacts = [],
     pd_OutputArtifacts = [''projects/<runtime_project>_ppt169_<date>/'', ''.slidesmith/runtime_manifest.json'', ''.slidesmith/skill_lock.json'']\<rparr>),
  (PhaseTemplateResolve, \<lparr>pd_Phase = PhaseTemplateResolve, pd_DisplayName = ''Template Resolve'', pd_RequiredStatuses = [TaskStatusSourceConverting],
     pd_NextStatus = TaskStatusAwaitingAnchorConfirm, pd_Runner = PhaseRunnerRule, pd_Retryable = True, pd_BlockingUserGate = False,
     pd_RequiredArtifacts = [],
     pd_OutputArtifacts = [''.slidesmith/template_resolution.json'']\<rparr>),
  (PhaseAnchorConfirm, \<lparr>pd_Phase = PhaseAnchorConfirm, pd_DisplayName = ''Anchor Confirm'', pd_RequiredStatuses = [TaskStatusAwaitingAnchorConfirm],
     pd_NextStatus = TaskStatusRealizationDeriving, pd_Runner = PhaseRunnerAgent, pd_Retryable = False, pd_BlockingUserGate = True,
     pd_RequiredArtifacts = [],
     pd_OutputArtifacts = [''confirm_ui/recommendations.json'', ''confirm_ui/result.json'']\<rparr>),
  (PhaseRealizationConfirm, \<lparr>pd_Phase = PhaseRealizationConfirm, pd_DisplayName = ''Realization Confirm'', pd_RequiredStatuses = [TaskStatusAwaitingRealizationConfirm],
     pd_NextStatus = TaskStatusSpecGenerating, pd_Runner = PhaseRunnerAgent, pd_Retryable = False, pd_BlockingUserGate = True,
     pd_RequiredArtifacts = [],
     pd_OutputArtifacts = [''confirm_ui/recommendations.json'', ''confirm_ui/result.json'']\<rparr>),
  (PhaseSpecGenerate, \<lparr>pd_Phase = PhaseSpecGenerate, pd_DisplayName = ''Spec Generate'', pd_RequiredStatuses = [TaskStatusSpecGenerating],
     pd_NextStatus = TaskStatusAwaitingSpecConfirm, pd_Runner = PhaseRunnerAgent, pd_Retryable = True, pd_BlockingUserGate = False,
     pd_RequiredArtifacts = [''confirm_ui/result.json''],
     pd_OutputArtifacts = [''design_spec.md'', ''spec_lock.md'', ''.slidesmith/resource_plan.json'', ''.slidesmith/spec_contract.json'']\<rparr>),
  (PhaseSpecRefine, \<lparr>pd_Phase = PhaseSpecRefine, pd_DisplayName = ''Spec Refine'', pd_RequiredStatuses = [TaskStatusSpecGenerating],
     pd_NextStatus = TaskStatusImageAcquiring, pd_Runner = PhaseRunnerAgent, pd_Retryable = True, pd_BlockingUserGate = True,
     pd_RequiredArtifacts = [''design_spec.md'', ''spec_lock.md''],
     pd_OutputArtifacts = [''design_spec.md'', ''spec_lock.md'']\<rparr>)]"

definition production_phases :: "(string \<times> PipelinePhaseDefinition) list" where
  "production_phases = [
  (PhaseImageAcquire, \<lparr>pd_Phase = PhaseImageAcquire, pd_DisplayName = ''Resource Acquire'', pd_RequiredStatuses = [TaskStatusImageAcquiring],
     pd_NextStatus = TaskStatusSVGGenerating, pd_Runner = PhaseRunnerWorker, pd_Retryable = True, pd_BlockingUserGate = False,
     pd_RequiredArtifacts = [''design_spec.md'', ''spec_lock.md'', ''confirm_ui/result.json'', ''.slidesmith/resource_plan.json''],
     pd_OutputArtifacts = [''.slidesmith/resource_policy.json'', ''analysis/resource_requirements.json'', ''.slidesmith/resources_manifest.json'', ''.slidesmith/contracts/image_acquire.json'', ''images/'', ''icons/'', ''charts/'', ''analysis/image_analysis.csv'']\<rparr>),
  (PhaseSVGExecute, \<lparr>pd_Phase = PhaseSVGExecute, pd_DisplayName = ''SVG Execute'', pd_RequiredStatuses = [TaskStatusSVGGenerating],
     pd_NextStatus = TaskStatusQualityChecking, pd_Runner = PhaseRunnerAgent, pd_Retryable = True, pd_BlockingUserGate = False,
     pd_RequiredArtifacts = [''design_spec.md'', ''spec_lock.md'', ''.slidesmith/resources_manifest.json'', ''.slidesmith/contracts/image_acquire.json''],
     pd_OutputArtifacts = [''svg_output/*.svg'', ''notes/total.md'', ''analysis/svg_inventory.json'', ''analysis/svg_resource_usage.json'', ''analysis/chart_usage.json'', ''analysis/notes_inventory.json'', ''.slidesmith/contracts/svg_execute.json'']\<rparr>),
  (PhaseQualityCheck, \<lparr>pd_Phase = PhaseQualityCheck, pd_DisplayName = ''Quality Check'', pd_RequiredStatuses = [TaskStatusQualityChecking],
     pd_NextStatus = TaskStatusExporting, pd_Runner = PhaseRunnerWorker, pd_Retryable = True, pd_BlockingUserGate = False,
     pd_RequiredArtifacts = [''svg_output/*.svg'', ''analysis/svg_inventory.json'', ''analysis/svg_resource_usage.json'', ''analysis/chart_usage.json'', ''analysis/notes_inventory.json'', ''.slidesmith/contracts/svg_execute.json''],
     pd_OutputArtifacts = [''validation/svg_quality_report.json'', ''validation/chart_verify_report.json'', ''validation/quality_summary.json'', ''.slidesmith/quality_report.json'', ''.slidesmith/contracts/quality_check.json'']\<rparr>),
  (PhaseFinalizeExport, \<lparr>pd_Phase = PhaseFinalizeExport, pd_DisplayName = ''Finalize Export'', pd_RequiredStatuses = [TaskStatusExporting],
     pd_NextStatus = TaskStatusPPTXValidating, pd_Runner = PhaseRunnerWorker, pd_Retryable = True, pd_BlockingUserGate = False,
     pd_RequiredArtifacts = [''svg_output/*.svg'', ''.slidesmith/contracts/quality_check.json''],
     pd_OutputArtifacts = [''svg_final/*.svg'', ''exports/*.pptx'', ''exports/export_manifest.json'', ''.slidesmith/contracts/finalize_export.json'']\<rparr>),
  (PhasePPTXValidate, \<lparr>pd_Phase = PhasePPTXValidate, pd_DisplayName = ''PPTX Validate'', pd_RequiredStatuses = [TaskStatusPPTXValidating],
     pd_NextStatus = TaskStatusPublishing, pd_Runner = PhaseRunnerWorker, pd_Retryable = True, pd_BlockingUserGate = False,
     pd_RequiredArtifacts = [''exports/*.pptx'', ''.slidesmith/contracts/finalize_export.json'', ''validation/quality_summary.json''],
     pd_OutputArtifacts = [''validation/pptx_readback.md'', ''validation/pptx_text_inventory.json'', ''validation/pptx_validate_report.json'', ''validation/render/*.png'', ''validation/render/contact_sheet.png'', ''.slidesmith/contracts/pptx_validate.json'']\<rparr>),
  (PhasePublish, \<lparr>pd_Phase = PhasePublish, pd_DisplayName = ''Publish'', pd_RequiredStatuses = [TaskStatusPublishing],
     pd_NextStatus = TaskStatusCompleted, pd_Runner = PhaseRunnerPublisher, pd_Retryable = True, pd_BlockingUserGate = False,
     pd_RequiredArtifacts = [''exports/*.pptx''],
     pd_OutputArtifacts = [''.slidesmith/artifacts.json'', ''platform artifacts'']\<rparr>)]"

definition pipelinePhaseRegistry :: "(string \<times> PipelinePhaseDefinition) list" where
  "pipelinePhaseRegistry = intake_phases @ planning_phases @ production_phases"

definition pipelinePhaseOrder :: "string list" where
  "pipelinePhaseOrder =
     [PhaseRouteSelect, PhaseSourcePrepare, PhaseProjectInit, PhaseTemplateResolve,
      PhaseAnchorConfirm, PhaseRealizationConfirm, PhaseSpecGenerate, PhaseSpecRefine,
      PhaseImageAcquire, PhaseSVGExecute, PhaseQualityCheck, PhaseFinalizeExport,
      PhasePPTXValidate, PhasePublish]"

definition pipelinePhaseOrderByRoute :: "(string \<times> string list) list" where
  "pipelinePhaseOrderByRoute = [
     (TaskRouteMain, pipelinePhaseOrder),
     (TaskRouteBeautify,
       [PhaseRouteSelect, PhaseSourcePrepare, PhaseBeautifyInventory, PhaseAnchorConfirm,
        PhaseRealizationConfirm, PhaseBeautifyPlan, PhaseSpecGenerate, PhaseImageAcquire,
        PhaseSVGExecute, PhaseQualityCheck, PhaseFinalizeExport, PhasePPTXValidate,
        PhasePublish]),
     (TaskRouteTemplateFill,
       [PhaseRouteSelect, PhaseSourcePrepare, PhaseTemplateFillPlan, PhaseTemplateFillCheck,
        PhaseTemplateFillApply, PhaseTemplateFillValidate, PhasePublish])]"

text \<open>Indexing a Go map with an unknown route gives the nil slice.\<close>

definition orderForRoute :: "string \<Rightarrow> string list" where
  "orderForRoute route =
     (case map_of pipelinePhaseOrderByRoute route of None \<Rightarrow> [] | Some order \<Rightarrow> order)"

text \<open>Indexing the registry with an unknown phase gives the zero definition.\<close>

definition zeroPhaseDefinition :: PipelinePhaseDefinition where
  "zeroPhaseDefinition =
     \<lparr>pd_Phase = [], pd_DisplayName = [], pd_RequiredStatuses = [], pd_NextStatus = [],
      pd_Runner = [], pd_Retryable = False, pd_BlockingUserGate = False,
      pd_RequiredArtifacts = [], pd_OutputArtifacts = []\<rparr>"

definition PipelinePhaseDefinitionFor :: "string \<Rightarrow> PipelinePhaseDefinition option" where
  "PipelinePhaseDefinitionFor phase = map_of pipelinePhaseRegistry phase"

definition pipelinePhaseDefinitionsForOrder :: "string list \<Rightarrow> PipelinePhaseDefinition list" where
  "pipelinePhaseDefinitionsForOrder order =
     map (\<lambda>phase. case map_of pipelinePhaseRegistry phase of
                    None \<Rightarrow> zeroPhaseDefinition | Some d \<Rightarrow> d) order"

definition PipelinePhaseDefinitions :: "PipelinePhaseDefinition list" where
  "PipelinePhaseDefinitions = pipelinePhaseDefinitionsForOrder pipelinePhaseOrder"

definition PipelinePhaseDefinitionsForRoute :: "string \<Rightarrow> PipelinePhaseDefinition list" where
  "PipelinePhaseDefinitionsForRoute route = pipelinePhaseDefinitionsForOrder (orderForRoute route)"

text \<open>The search loop: the first position that holds the phase and has a successor.\<close>

fun nextPipelinePhaseInOrder :: "string list \<Rightarrow> string \<Rightarrow> string option" where
  "nextPipelinePhaseInOrder [] phase = None"
| "nextPipelinePhaseInOrder [current] phase = None"
| "nextPipelinePhaseInOrder (current # nxt # rest) phase =
     (if current = phase then Some nxt else nextPipelinePhaseInOrder (nxt # rest) phase)"

definition NextPipelinePhase :: "string \<Rightarrow> string option" where
  "NextPipelinePhase phase = nextPipelinePhaseInOrder pipelinePhaseOrder phase"

definition NextPipelinePhaseForRoute :: "string \<Rightarrow> string \<Rightarrow> string option" where
  "NextPipelinePhaseForRoute route phase = nextPipelinePhaseInOrder (orderForRoute route) phase"

section \<open>Route execution policy\<close>

record routeCapabilitySnapshot =
  rcs_Captured :: bool
  rcs_BeautifyEnabled :: bool
  rcs_BeautifyFidelityStrict :: bool
  rcs_BeautifySourceSVGReferenceEnabled :: bool

text \<open>
  The fields of a route selection the policy reads (the descriptive ones, and the floating
  point confidence, play no role in it).
\<close>

record routeSelection =
  rs_Route :: string
  rs_CapabilitySnapshot :: routeCapabilitySnapshot

record routeExecutionPolicy =
  rp_Route :: string
  rp_Executable :: bool
  rp_WorkflowExecutable :: bool
  rp_FailurePhase :: string
  rp_FailureMessage :: string
  rp_UnsupportedAfter :: string
  rp_NextSpec :: string
  rp_SupportedRoutes :: "string list"
  rp_KnownRoutes :: "string list"
  rp_NextStatus :: string
  rp_NextPhase :: string

abbreviation routeFailureUnsupportedRoute :: string where
  "routeFailureUnsupportedRoute \<equiv> ''route_select.unsupported_route''"
abbreviation routeFailureWorkflowNotEnabled :: string where
  "routeFailureWorkflowNotEnabled \<equiv> ''source_prepare.workflow_not_enabled''"

text \<open>The policy of a route that runs to the end.\<close>

definition executableRoutePolicy :: "string \<Rightarrow> routeExecutionPolicy" where
  "executableRoutePolicy route =
     \<lparr>rp_Route = route, rp_Executable = True, rp_WorkflowExecutable = True,
      rp_FailurePhase = [], rp_FailureMessage = [], rp_UnsupportedAfter = [], rp_NextSpec = [],
      rp_SupportedRoutes = [TaskRouteMain, TaskRouteTemplateFill, TaskRouteBeautify],
      rp_KnownRoutes = [TaskRouteMain, TaskRouteTemplateFill, TaskRouteBeautify],
      rp_NextStatus = TaskStatusSourceConverting, rp_NextPhase = PhaseSourcePrepare\<rparr>"

definition refusedRoutePolicy :: "string \<Rightarrow> string \<Rightarrow> routeExecutionPolicy" where
  "refusedRoutePolicy route message =
     \<lparr>rp_Route = route, rp_Executable = False, rp_WorkflowExecutable = False,
      rp_FailurePhase = routeFailureUnsupportedRoute, rp_FailureMessage = message,
      rp_UnsupportedAfter = [], rp_NextSpec = [],
      rp_SupportedRoutes = [TaskRouteMain, TaskRouteTemplateFill, TaskRouteBeautify],
      rp_KnownRoutes = [TaskRouteMain, TaskRouteTemplateFill, TaskRouteBeautify],
      rp_NextStatus = [], rp_NextPhase = []\<rparr>"

definition routeExecutionPolicyFor :: "routeSelection option \<Rightarrow> bool \<Rightarrow> routeExecutionPolicy" where
  "routeExecutionPolicyFor selection beautifyEnabled =
     (case selection of
        None \<Rightarrow> refusedRoutePolicy [] ''route selection is missing''
      | Some sel \<Rightarrow>
          if rs_Route sel = TaskRouteMain then executableRoutePolicy TaskRouteMain
          else if rs_Route sel = TaskRouteTemplateFill then executableRoutePolicy TaskRouteTemplateFill
          else if rs_Route sel = TaskRouteBeautify then
            let enabled = (if rcs_Captured (rs_CapabilitySnapshot sel)
                           then rcs_BeautifyEnabled (rs_CapabilitySnapshot sel)
                           else beautifyEnabled)
            in if \<not> enabled then
                 (executableRoutePolicy TaskRouteBeautify)
                   \<lparr>rp_WorkflowExecutable := False,
                    rp_FailurePhase := routeFailureWorkflowNotEnabled,
                    rp_FailureMessage := ''route beautify is disabled by SLIDESMITH_BEAUTIFY_ENABLED'',
                    rp_UnsupportedAfter := PhaseSourcePrepare\<rparr>
               else executableRoutePolicy TaskRouteBeautify
          else refusedRoutePolicy (rs_Route sel)
                 (''route '' @ rs_Route sel @ '' is not recognized by SlideSmith''))"

section \<open>Facts about the tables\<close>

lemma CanTransition_refl [simp]: "CanTransition s s"
  by (simp add: CanTransition_def)

lemma CanTransition_row:
  assumes "CanTransition s t" and "s \<noteq> t"
  shows "\<exists>tos. (s, tos) \<in> set NewStateMachine \<and> t \<in> set tos"
  using assms by (auto simp: CanTransition_def dest: map_of_SomeD split: option.splits)

text \<open>A fact about every row of the table is one evaluation.\<close>

lemma NewStateMachine_rows:
  "\<forall>(s, tos) \<in> set NewStateMachine.
     (TaskStatusCompleted \<in> set tos \<longrightarrow> s = TaskStatusPublishing) \<and>
     TaskStatusCancelled \<in> set tos \<and> (s = TaskStatusFailed \<or> TaskStatusFailed \<in> set tos)"
  by code_simp

lemma settled_rows:
  "map_of NewStateMachine TaskStatusCompleted = None"
  "map_of NewStateMachine TaskStatusCancelled = None"
  by code_simp+

interpretation status_table: transition_table CanTransition
  "\<lambda>s. s = TaskStatusCompleted \<or> s = TaskStatusCancelled"
  by unfold_locales (auto simp: CanTransition_def settled_rows split: if_splits)

lemma completed_only_from_publishing:
  assumes "CanTransition s t" and "t = TaskStatusCompleted"
  shows "s = TaskStatusCompleted \<or> s = TaskStatusPublishing"
  using CanTransition_row [OF assms(1)] NewStateMachine_rows assms(2) by fastforce

lemma nextPhase_in_order:
  "distinct xs \<Longrightarrow> nextPipelinePhaseInOrder xs p = Some q \<longleftrightarrow> (\<exists>as bs. xs = as @ p # q # bs)"
proof (induction xs p rule: nextPipelinePhaseInOrder.induct)
  case (3 c n rest p)
  show ?case
  proof (cases "c = p")
    case True
    with "3.prems" show ?thesis
      by (auto simp: Cons_eq_append_conv)
  next
    case False
    with "3" show ?thesis
      by (auto simp: Cons_eq_append_conv)
  qed
qed (auto simp: Cons_eq_append_conv)

lemma nextPhase_None_last: "distinct (xs @ [p]) \<Longrightarrow> nextPipelinePhaseInOrder (xs @ [p]) p = None"
  by (cases "nextPipelinePhaseInOrder (xs @ [p]) p")
    (auto simp: nextPhase_in_order append_eq_append_conv2 append_eq_Cons_conv Cons_eq_append_conv)

lemma orders_distinct: "distinct (orderForRoute route)"
proof -
  have "\<forall>(r, order) \<in> set pipelinePhaseOrderByRoute. distinct order" by code_simp
  then show ?thesis
    by (auto simp: orderForRoute_def dest!: map_of_SomeD split: option.splits)
qed

lemma next_phase_order:
  "NextPipelinePhaseForRoute route p = Some q \<longleftrightarrow>
     (\<exists>before after. orderForRoute route = before @ p # q # after)"
  by (simp add: NextPipelinePhaseForRoute_def nextPhase_in_order [OF orders_distinct])

text \<open>
  The statuses a task can move through without failing or being cancelled, with a bounded
  search that finds them.
\<close>

definition forward :: "string \<Rightarrow> string \<Rightarrow> bool" where
  "forward s t \<longleftrightarrow> CanTransition s t \<and> t \<noteq> TaskStatusFailed \<and> t \<noteq> TaskStatusCancelled"

fun forward_within :: "nat \<Rightarrow> string \<Rightarrow> string \<Rightarrow> bool" where
  "forward_within 0 s t = (s = t)"
| "forward_within (Suc n) s t =
     (s = t \<or> (case map_of NewStateMachine s of
                None \<Rightarrow> False
              | Some tos \<Rightarrow> list_ex (\<lambda>u. u \<noteq> TaskStatusFailed \<and> u \<noteq> TaskStatusCancelled \<and>
                                         forward_within n u t) tos))"

lemma forward_within_sound: "forward_within n s t \<Longrightarrow> forward\<^sup>*\<^sup>* s t"
proof (induction n s t rule: forward_within.induct)
  case (2 n s t)
  show ?case
  proof (cases "s = t")
    case False
    with "2.prems" obtain tos u where row: "map_of NewStateMachine s = Some tos" "u \<in> set tos"
      and u: "u \<noteq> TaskStatusFailed" "u \<noteq> TaskStatusCancelled" and rest: "forward_within n u t"
      by (auto simp: list_ex_iff split: option.splits)
    from row u have "forward s u" by (simp add: forward_def CanTransition_def)
    moreover from "2.IH" [OF row rest] have "forward\<^sup>*\<^sup>* u t" .
    ultimately show ?thesis by (rule converse_rtranclp_into_rtranclp)
  qed simp
qed simp

section \<open>Properties of the control tables\<close>

text \<open>
  A completed or a cancelled task never changes status again: the only transition the
  status machine accepts out of these two statuses is to stay.
\<close>

theorem settled_statuses_are_final:
  "CanTransition TaskStatusCompleted t = (t = TaskStatusCompleted) \<and>
   CanTransition TaskStatusCancelled t = (t = TaskStatusCancelled)"
  by (auto simp: CanTransition_def settled_rows)

text \<open>
  However a task moves along accepted transitions, if it becomes completed it went
  through publishing on the way (retries out of failed included).
\<close>

theorem completion_requires_publishing:
  assumes "status_table.run_ok s ts" and "TaskStatusCompleted \<in> set ts"
    and "s \<noteq> TaskStatusCompleted"
  shows "s = TaskStatusPublishing \<or> TaskStatusPublishing \<in> set ts"
  using status_table.run_through_gate
    [of "\<lambda>t. t = TaskStatusCompleted" "\<lambda>t. t = TaskStatusPublishing" s ts TaskStatusCompleted]
    assms completed_only_from_publishing by auto

theorem completion_requires_publishing_witness:
  "TaskStatusFailed = TaskStatusPublishing \<or>
   TaskStatusPublishing \<in> set [TaskStatusPublishing, TaskStatusCompleted]"
proof (rule completion_requires_publishing)
  have "CanTransition TaskStatusFailed TaskStatusPublishing"
    "CanTransition TaskStatusPublishing TaskStatusCompleted"
    by code_simp+
  then show "status_table.run_ok TaskStatusFailed [TaskStatusPublishing, TaskStatusCompleted]"
    by simp
qed simp_all

text \<open>
  The status change a phase definition declares is one the status machine accepts, from
  every status in which the phase may run; and a registered definition is filed under its
  own phase name.
\<close>

theorem phase_status_change_is_valid:
  assumes "PipelinePhaseDefinitionFor p = Some d" and "s \<in> set (pd_RequiredStatuses d)"
  shows "Validate s (pd_NextStatus d) = Inr () \<and> pd_Phase d = p"
proof -
  have "\<forall>(p, d) \<in> set pipelinePhaseRegistry. pd_Phase d = p \<and>
          list_all (\<lambda>s. Validate s (pd_NextStatus d) = Inr ()) (pd_RequiredStatuses d)"
    by code_simp
  with assms show ?thesis
    by (fastforce simp: PipelinePhaseDefinitionFor_def list_all_iff dest!: map_of_SomeD)
qed

theorem phase_status_change_is_valid_witness:
  "Validate TaskStatusPublishing TaskStatusCompleted = Inr ()"
proof -
  obtain d where d: "PipelinePhaseDefinitionFor PhasePublish = Some d"
    "pd_RequiredStatuses d = [TaskStatusPublishing]" "pd_NextStatus d = TaskStatusCompleted"
    by (simp add: PipelinePhaseDefinitionFor_def pipelinePhaseRegistry_def intake_phases_def
      planning_phases_def production_phases_def)
  with phase_status_change_is_valid [OF d(1), of TaskStatusPublishing] show ?thesis by simp
qed

text \<open>
  The successor function walks each route's phase order: it answers \<open>q\<close> for \<open>p\<close>
  exactly when \<open>q\<close> directly follows \<open>p\<close> in the order of the route. So an unknown route or
  phase and the last phase have no successor, and no phase has two.
\<close>

theorem next_phase_follows_order:
  "NextPipelinePhaseForRoute route p = Some q \<longleftrightarrow>
     (\<exists>before after. orderForRoute route = before @ p # q # after)"
  by (rule next_phase_order)

text \<open>
  The phase orders fit the status machine: from every status in which a phase of a route
  may run, a task can move on to a status in which the route's next phase may run, without
  failing or being cancelled in between.
\<close>

theorem next_phase_is_reachable:
  assumes "NextPipelinePhaseForRoute route p = Some q"
    and "PipelinePhaseDefinitionFor p = Some d" and "s \<in> set (pd_RequiredStatuses d)"
  shows "\<exists>e t. PipelinePhaseDefinitionFor q = Some e \<and> t \<in> set (pd_RequiredStatuses e) \<and>
           forward\<^sup>*\<^sup>* s t"
proof -
  have walk: "\<forall>(r, order) \<in> set pipelinePhaseOrderByRoute.
      list_all (\<lambda>(p, q). case (map_of pipelinePhaseRegistry p, map_of pipelinePhaseRegistry q) of
          (Some d, Some e) \<Rightarrow> list_all (\<lambda>s. list_ex (forward_within 4 s) (pd_RequiredStatuses e))
                                 (pd_RequiredStatuses d)
        | _ \<Rightarrow> False) (zip order (tl order))"
    by code_simp
  from assms(1) obtain before after where "orderForRoute route = before @ p # q # after"
    by (auto simp: next_phase_order)
  then obtain order where order: "(route, order) \<in> set pipelinePhaseOrderByRoute"
    and split: "order = before @ p # q # after"
    by (auto simp: orderForRoute_def dest!: map_of_SomeD split: option.splits)
  have "(p, q) \<in> set (zip order (tl order))"
    by (cases before) (auto simp: split zip_append1 in_set_zip nth_append intro!: exI [of _ "length before"])
  with walk order assms(2,3) obtain e t where "map_of pipelinePhaseRegistry q = Some e"
    "t \<in> set (pd_RequiredStatuses e)" "forward_within 4 s t"
    by (fastforce simp: list_all_iff list_ex_iff PipelinePhaseDefinitionFor_def split: option.splits)
  then show ?thesis
    by (auto simp: PipelinePhaseDefinitionFor_def dest: forward_within_sound)
qed

theorem next_phase_is_reachable_witness:
  "\<exists>e t. PipelinePhaseDefinitionFor PhaseSourcePrepare = Some e \<and>
     t \<in> set (pd_RequiredStatuses e) \<and> forward\<^sup>*\<^sup>* TaskStatusRuntimePreparing t"
proof -
  have nxt: "NextPipelinePhaseForRoute TaskRouteMain PhaseRouteSelect = Some PhaseSourcePrepare"
    by code_simp
  obtain d where d: "PipelinePhaseDefinitionFor PhaseRouteSelect = Some d"
    "TaskStatusRuntimePreparing \<in> set (pd_RequiredStatuses d)"
    by (simp add: PipelinePhaseDefinitionFor_def pipelinePhaseRegistry_def intake_phases_def)
  show ?thesis by (rule next_phase_is_reachable [OF nxt d])
qed

text \<open>
  Which routes the policy runs. A workflow is executable exactly for the main and the
  template-fill route, and for beautify when it is enabled; once a capability snapshot was
  captured for the task, the decision is the snapshot's and the deployment switch no longer
  matters. Every refusal names a failure phase.
\<close>

theorem route_policy_decision:
  "rp_WorkflowExecutable (routeExecutionPolicyFor (Some sel) deployment) =
     (rs_Route sel \<in> {TaskRouteMain, TaskRouteTemplateFill} \<or>
      rs_Route sel = TaskRouteBeautify \<and>
        (if rcs_Captured (rs_CapabilitySnapshot sel)
         then rcs_BeautifyEnabled (rs_CapabilitySnapshot sel) else deployment))
   \<and> routeExecutionPolicyFor
        (Some (sel\<lparr>rs_CapabilitySnapshot := (rs_CapabilitySnapshot sel)\<lparr>rcs_Captured := True\<rparr>\<rparr>)) deployment =
      routeExecutionPolicyFor
        (Some (sel\<lparr>rs_CapabilitySnapshot := (rs_CapabilitySnapshot sel)\<lparr>rcs_Captured := True\<rparr>\<rparr>)) (\<not> deployment)
   \<and> (rp_WorkflowExecutable (routeExecutionPolicyFor (Some sel) deployment) =
        (rp_FailurePhase (routeExecutionPolicyFor (Some sel) deployment) = []))"
  by (simp add: routeExecutionPolicyFor_def executableRoutePolicy_def refusedRoutePolicy_def Let_def)

end
