(* ===== verification/Sched_State.thy ===== *)
theory Sched_State
  imports Prelude "HOL-Library.Product_Lexorder"
begin

text \<open>
  The scheduler's durable state (backend/internal/scheduler): one record per row of each
  table that \<open>migrationStatements\<close> creates in postgres.go, the configuration, the typed
  identifiers and status codes of types.go, and the validators. A table is the list of its
  rows in insertion order.

  Status codes are the integers the code stores: the reservation tables hold codes of both
  \<open>GrantState\<close> and \<open>ReservationState\<close>, which agree on what is written. Counts of rows and
  the configured limits are natural numbers. A time is an \<open>int\<close>, in the database's
  microseconds. Text is ordered bytewise.
\<close>

section \<open>Status codes\<close>

abbreviation (input) WorkItemQueued :: nat where "WorkItemQueued \<equiv> 1"
abbreviation (input) WorkItemDelivering :: nat where "WorkItemDelivering \<equiv> 2"
abbreviation (input) WorkItemAccepted :: nat where "WorkItemAccepted \<equiv> 3"
abbreviation (input) WorkItemCancelled :: nat where "WorkItemCancelled \<equiv> 4"

abbreviation (input) GrantReservedUnbound :: nat where "GrantReservedUnbound \<equiv> 1"
abbreviation (input) GrantBound :: nat where "GrantBound \<equiv> 2"
abbreviation (input) GrantExpiredUnbound :: nat where "GrantExpiredUnbound \<equiv> 3"
abbreviation (input) GrantTerminalNoLease :: nat where "GrantTerminalNoLease \<equiv> 4"
abbreviation (input) GrantReleased :: nat where "GrantReleased \<equiv> 5"
abbreviation (input) GrantLeaseAttached :: nat where "GrantLeaseAttached \<equiv> 6"

abbreviation (input) ReservationReservedUnbound :: nat where "ReservationReservedUnbound \<equiv> 1"
abbreviation (input) ReservationBound :: nat where "ReservationBound \<equiv> 2"
abbreviation (input) ReservationLeaseAttached :: nat where "ReservationLeaseAttached \<equiv> 3"
abbreviation (input) ReservationReleased :: nat where "ReservationReleased \<equiv> 5"

abbreviation (input) PhysicalOccupancyNone :: nat where "PhysicalOccupancyNone \<equiv> 0"
abbreviation (input) PhysicalOccupancyHeld :: nat where "PhysicalOccupancyHeld \<equiv> 1"
abbreviation (input) PhysicalOccupancyReleased :: nat where "PhysicalOccupancyReleased \<equiv> 2"

datatype sched_error =
    ErrorInvalidRequest
  | ErrorNoEligibleWork
  | ErrorIntegrityConflict
  | ErrorDependencyUnavailable
  | ErrorAuthorizationDenied

section \<open>Rows\<close>

record work_item =
  wi_id :: ident
  wi_generation :: u64
  wi_operation_id :: ident
  wi_personal_workspace_id :: ident
  wi_task_id :: ident
  wi_phase_run_id :: ident
  wi_runtime_run_id :: ident
  wi_decision_id :: ident
  wi_task_revision :: u64
  wi_kind :: nat
  wi_runtime_request_kind :: nat
  wi_payload_digest :: digest
  wi_canonical_payload :: string
  wi_activity_generation :: u64
  wi_fence_kind :: nat
  wi_fence :: u64
  wi_causation_id :: ident
  wi_priority_class :: nat
  wi_state :: nat
  wi_current_grant_generation :: u64
  wi_last_grant_generation :: u64
  wi_accepted_decision_id :: ident
  wi_accepted_runtime_revision :: u64
  wi_accepted_runtime_fence :: u64
  wi_enqueued_at :: int

record admission_grant =
  ag_id :: ident
  ag_work_item_id :: ident
  ag_work_item_generation :: u64
  ag_generation :: u64
  ag_delivery_claim_id :: ident
  ag_operation_id :: ident
  ag_payload_digest :: digest
  ag_runtime_run_id :: ident
  ag_personal_workspace_id :: ident
  ag_execution_node_id :: ident
  ag_node_capacity_generation :: u64
  ag_resource_class_id :: ident
  ag_execution_policy_id :: ident
  ag_scheduler_epoch :: u64
  ag_policy_version :: u64
  ag_expires_at :: int
  ag_state :: nat
  ag_bound_decision_id :: ident
  ag_bound_runtime_revision :: u64
  ag_bound_runtime_fence :: u64
  ag_terminal_decision_id :: ident
  ag_terminal_runtime_revision :: u64
  ag_terminal_runtime_fence :: u64
  ag_terminal_scheduler_epoch :: u64
  ag_terminal_policy_version :: u64
  ag_lease_acquire_operation_id :: ident
  ag_lease_acquire_digest :: "digest option"
  ag_lease_acquire_by :: "int option"
  ag_sandbox_lease_id :: ident
  ag_lease_generation :: u64
  ag_lease_fence :: u64

record delivery_claim =
  dc_id :: ident
  dc_work_item_id :: ident
  dc_grant_generation :: u64
  dc_claim_generation :: u64
  dc_state :: nat
  dc_expires_at :: int

record logical_reservation =
  lr_grant_id :: ident
  lr_counter_kind :: nat
  lr_counter_key :: string
  lr_grant_generation :: u64
  lr_state :: nat

record node_reservation =
  nr_grant_id :: ident
  nr_execution_node_id :: ident
  nr_node_capacity_generation :: u64
  nr_grant_generation :: u64
  nr_state :: nat

record physical_occupancy =
  po_sandbox_lease_id :: ident
  po_grant_id :: ident
  po_work_item_id :: ident
  po_grant_generation :: u64
  po_runtime_run_id :: ident
  po_start_operation_id :: ident
  po_start_digest :: digest
  po_lease_acquire_operation_id :: ident
  po_lease_acquire_digest :: digest
  po_lease_generation :: u64
  po_lease_fence :: u64
  po_sandbox_id :: ident
  po_sandbox_generation :: u64
  po_sandbox_fence :: u64
  po_execution_node_id :: ident
  po_node_capacity_generation :: u64
  po_resource_class_id :: ident
  po_execution_policy_id :: ident
  po_scheduler_epoch :: u64
  po_policy_version :: u64
  po_state :: nat
  po_release_operation_id :: ident
  po_release_operation_digest :: "digest option"
  po_reset_evidence_id :: ident
  po_reset_evidence_digest :: "digest option"

text \<open>
  The database. The two sequences are not transactional: a rolled back transaction keeps
  their advance.
\<close>

record sched_db =
  db_work_items :: "work_item list"
  db_grants :: "admission_grant list"
  db_claims :: "delivery_claim list"
  db_logical :: "logical_reservation list"
  db_node :: "node_reservation list"
  db_physical :: "physical_occupancy list"
  db_last_workspace :: ident
  db_grant_sequence :: nat
  db_claim_sequence :: nat

definition rollback :: "sched_db \<Rightarrow> sched_db \<Rightarrow> sched_db" where
  "rollback old now =
     old\<lparr>db_grant_sequence := db_grant_sequence now, db_claim_sequence := db_claim_sequence now\<rparr>"

definition empty_db :: sched_db where
  "empty_db = \<lparr>db_work_items = [], db_grants = [], db_claims = [], db_logical = [], db_node = [],
     db_physical = [], db_last_workspace = [], db_grant_sequence = 1, db_claim_sequence = 1\<rparr>"

section \<open>Configuration and identifiers\<close>

record admission_limits =
  al_Global :: nat
  al_PersonalWorkspace :: nat
  al_WorkerClass :: nat
  al_ResourceClass :: nat

record node_config =
  nc_ExecutionNodeID :: ident
  nc_CapacityGeneration :: u64
  nc_ResourceClassID :: ident
  nc_ExecutionPolicyID :: ident
  nc_AvailableRuntimeSlots :: nat

record admission_config =
  ac_SchedulerEpoch :: u64
  ac_PolicyVersion :: u64
  ac_GrantTTL :: int
  ac_Limits :: admission_limits
  ac_Node :: node_config

text \<open>
  A byte at most \<open>0x20\<close>, or \<open>0x7f\<close>, is an ASCII character of its own wherever it occurs
  in a Go string, so the loop over runes and a loop over bytes refuse the same strings.
\<close>

definition sched_validOpaqueID :: "string \<Rightarrow> bool" where
  "sched_validOpaqueID value \<longleftrightarrow>
     (if length value = 0 \<or> length value > 255 then False
      else \<forall>c \<in> set value. \<not> (of_char c \<le> (0x20 :: nat) \<or> of_char c = (0x7f :: nat)))"

definition validAdmissionConfig :: "admission_config \<Rightarrow> bool" where
  "validAdmissionConfig config \<longleftrightarrow>
     ac_SchedulerEpoch config > 0 \<and> ac_PolicyVersion config > 0 \<and> ac_GrantTTL config > 0 \<and>
     al_Global (ac_Limits config) > 0 \<and> al_PersonalWorkspace (ac_Limits config) > 0 \<and>
     al_WorkerClass (ac_Limits config) > 0 \<and> al_ResourceClass (ac_Limits config) > 0 \<and>
     sched_validOpaqueID (nc_ExecutionNodeID (ac_Node config)) \<and>
     nc_CapacityGeneration (ac_Node config) > 0 \<and>
     sched_validOpaqueID (nc_ResourceClassID (ac_Node config)) \<and>
     sched_validOpaqueID (nc_ExecutionPolicyID (ac_Node config)) \<and>
     nc_AvailableRuntimeSlots (ac_Node config) > 0"

definition is_lower_or_underscore :: "char \<Rightarrow> bool" where
  "is_lower_or_underscore c \<longleftrightarrow>
     (let n = (of_char c :: nat) in 0x61 \<le> n \<and> n \<le> 0x7a \<or> n = 0x5f)"

definition is_digit :: "char \<Rightarrow> bool" where
  "is_digit c \<longleftrightarrow> (let n = (of_char c :: nat) in 0x30 \<le> n \<and> n \<le> 0x39)"

definition validPostgresIdentifier :: "string \<Rightarrow> bool" where
  "validPostgresIdentifier value \<longleftrightarrow>
     (if length value = 0 \<or> length value > 63 then False
      else is_lower_or_underscore (hd value) \<and>
           (\<forall>c \<in> set (tl value). is_lower_or_underscore c \<or> is_digit c))"

definition grant_id_of :: "nat \<Rightarrow> ident" where
  "grant_id_of n = ''admission-grant-'' @ padded 12 n"

definition claim_id_of :: "nat \<Rightarrow> ident" where
  "claim_id_of n = ''delivery-claim-'' @ padded 12 n"

lemma grant_id_of_inject [simp]: "grant_id_of m = grant_id_of n \<longleftrightarrow> m = n"
  unfolding grant_id_of_def by (metis same_append_eq undecimal_padded)

lemma claim_id_of_inject [simp]: "claim_id_of m = claim_id_of n \<longleftrightarrow> m = n"
  unfolding claim_id_of_def by (metis same_append_eq undecimal_padded)

section \<open>Occupancy\<close>

text \<open>
  A logical counter (site, workspace, worker class, resource class) counts its reservations
  that are reserved or bound; a node counts its reservations in the same two states and the
  physical occupancies still held.
\<close>

definition logicalReservationOccupancy :: "sched_db \<Rightarrow> nat \<Rightarrow> string \<Rightarrow> nat" where
  "logicalReservationOccupancy db kind key =
     rows_affected (\<lambda>r. lr_counter_kind r = kind \<and> lr_counter_key r = key \<and>
        lr_state r \<in> {ReservationReservedUnbound, ReservationBound}) (db_logical db)"

definition nodeOccupancy :: "sched_db \<Rightarrow> ident \<Rightarrow> u64 \<Rightarrow> nat" where
  "nodeOccupancy db node generation =
     rows_affected (\<lambda>r. nr_execution_node_id r = node \<and> nr_node_capacity_generation r = generation \<and>
        nr_state r \<in> {ReservationReservedUnbound, ReservationBound}) (db_node db) +
     rows_affected (\<lambda>r. po_execution_node_id r = node \<and> po_node_capacity_generation r = generation \<and>
        po_state r = PhysicalOccupancyHeld) (db_physical db)"

text \<open>\<open>ORDER BY key LIMIT 1\<close>: the first row with the least key.\<close>

definition sql_first :: "('a \<Rightarrow> 'k::linorder) \<Rightarrow> 'a list \<Rightarrow> 'a option" where
  "sql_first key rows = (case sort_key key rows of [] \<Rightarrow> None | r # _ \<Rightarrow> Some r)"

lemma sql_first_None [simp]: "sql_first key rows = None \<longleftrightarrow> rows = []"
proof -
  have "sort_key key rows = [] \<longleftrightarrow> rows = []"
    by (metis length_0_conv length_sort)
  then show ?thesis by (auto simp: sql_first_def split: list.splits)
qed

lemma sql_first_Some:
  assumes "sql_first key rows = Some r"
  shows "r \<in> set rows" and "\<forall>s \<in> set rows. key r \<le> key s"
proof -
  from assms obtain rest where sorted: "sort_key key rows = r # rest"
    by (auto simp: sql_first_def split: list.splits)
  have rows: "set rows = set (r # rest)"
    using sorted set_sort [of key rows] by simp
  then show "r \<in> set rows" by simp
  have "sorted (map key (r # rest))"
    using sorted_sort_key [of key rows] sorted by simp
  then show "\<forall>s \<in> set rows. key r \<le> key s"
    unfolding rows by auto
qed

end
