(* ===== verification/Sched_Admission.thy ===== *)
theory Sched_Admission
  imports Sched_State
begin

text \<open>
  Admission (backend/internal/scheduler/postgres.go): the SQL functions other modules call in
  their own transactions (enqueue, runtime acceptance, lease attachment, cancellation), and
  \<open>ClaimAndAdmit\<close> with its helpers. An operation takes the database and gives its result and
  the database after the transaction ended; an error rolls back.

  SHA-256, the JSON decoding of a canonical start payload and the runtime's node fact
  function are arguments (\<open>sched_env\<close>). Failures of the database driver are not modelled;
  a violated constraint is.
\<close>

section \<open>Environment\<close>

record canonicalStartEnvelope =
  ce_Kind :: string
  ce_OperationID :: ident
  ce_PersonalWorkspaceID :: ident
  ce_TaskID :: ident
  ce_PhaseRunID :: ident
  ce_RuntimeRunID :: ident
  ce_WorkerClass :: ident
  ce_ResourceClassID :: ident
  ce_ExecutionPolicyID :: ident
  ce_Deadline :: int

text \<open>A row of the node fact function; the status codes are those of runtimeexecution/types.go.\<close>

abbreviation (input) NodeReady :: nat where "NodeReady \<equiv> 1"
abbreviation (input) NodeUnoccupied :: nat where "NodeUnoccupied \<equiv> 1"
abbreviation (input) ContainmentEstablished :: nat where "ContainmentEstablished \<equiv> 2"
abbreviation (input) ResetCompleted :: nat where "ResetCompleted \<equiv> 2"

record node_fact =
  nf_generation :: u64
  nf_readiness :: nat
  nf_quarantined :: bool
  nf_occupancy :: nat
  nf_containment :: nat
  nf_reset :: nat
  nf_attestationExpiresAt :: int
  nf_authorizationExpiresAt :: int

record sched_env =
  se_sha256 :: "string \<Rightarrow> digest"
  se_decode_start :: "string \<Rightarrow> canonicalStartEnvelope option"
  se_admission :: admission_config
  se_node_fact :: "(ident \<Rightarrow> node_fact option) option"

text \<open>The Go value handed out for a grant, and the decision around it.\<close>

record AdmissionGrant =
  gr_AdmissionGrantID :: ident
  gr_WorkItemID :: ident
  gr_Generation :: u64
  gr_DeliveryClaimID :: ident
  gr_ExecutionNodeID :: ident
  gr_NodeCapacityGeneration :: u64
  gr_ResourceClassID :: ident
  gr_ExecutionPolicyID :: ident
  gr_SchedulerEpoch :: u64
  gr_PolicyVersion :: u64
  gr_ExpiresAt :: int

record AdmissionDecision =
  ad_WorkItemID :: ident
  ad_PersonalWorkspaceID :: ident
  ad_OperationID :: ident
  ad_TaskID :: ident
  ad_PhaseRunID :: ident
  ad_RuntimeRunID :: ident
  ad_PayloadDigest :: digest
  ad_CanonicalPayload :: string
  ad_Grant :: AdmissionGrant

text \<open>A positive \<open>bigint\<close>, as the table constraints ask for.\<close>

definition bigint_positive :: "u64 \<Rightarrow> bool" where
  "bigint_positive v \<longleftrightarrow> 0 < v \<and> v < 0x8000000000000000"

section \<open>SQL functions\<close>

subsection \<open>Enqueue\<close>

record enqueue_request =
  eq_operation_id :: ident
  eq_personal_workspace_id :: ident
  eq_task_id :: ident
  eq_phase_run_id :: ident
  eq_runtime_run_id :: ident
  eq_decision_id :: ident
  eq_task_revision :: u64
  eq_kind :: nat
  eq_payload_digest :: digest
  eq_canonical_payload :: string
  eq_runtime_request_kind :: nat
  eq_activity_generation :: u64
  eq_fence_kind :: nat
  eq_fence :: u64
  eq_causation_id :: ident

definition enqueue_candidate_id :: "ident \<Rightarrow> ident" where
  "enqueue_candidate_id operation_id = ''scheduler-work-item-'' @ operation_id"

definition enqueue_row :: "enqueue_request \<Rightarrow> int \<Rightarrow> work_item" where
  "enqueue_row p now =
     \<lparr>wi_id = enqueue_candidate_id (eq_operation_id p), wi_generation = 1,
      wi_operation_id = eq_operation_id p, wi_personal_workspace_id = eq_personal_workspace_id p,
      wi_task_id = eq_task_id p, wi_phase_run_id = eq_phase_run_id p,
      wi_runtime_run_id = eq_runtime_run_id p, wi_decision_id = eq_decision_id p,
      wi_task_revision = eq_task_revision p, wi_kind = eq_kind p,
      wi_runtime_request_kind = eq_runtime_request_kind p,
      wi_payload_digest = eq_payload_digest p, wi_canonical_payload = eq_canonical_payload p,
      wi_activity_generation = eq_activity_generation p, wi_fence_kind = eq_fence_kind p,
      wi_fence = eq_fence p, wi_causation_id = eq_causation_id p,
      wi_priority_class = 2, wi_state = WorkItemQueued,
      wi_current_grant_generation = 0, wi_last_grant_generation = 0,
      wi_accepted_decision_id = [], wi_accepted_runtime_revision = 0,
      wi_accepted_runtime_fence = 0, wi_enqueued_at = now\<rparr>"

definition enqueue_row_allowed :: "sched_db \<Rightarrow> work_item \<Rightarrow> bool" where
  "enqueue_row_allowed db w \<longleftrightarrow>
     wi_id w \<notin> wi_id ` set (db_work_items db) \<and>
     bigint_positive (wi_task_revision w) \<and> wi_runtime_request_kind w \<le> 2 \<and>
     length (wi_payload_digest w) = 32 \<and> bigint_positive (wi_activity_generation w) \<and>
     bigint_positive (wi_fence w)"

text \<open>The retained row agrees with every argument (the long \<open>IF\<close> of the function, negated).\<close>

definition enqueue_binding_matches :: "enqueue_request \<Rightarrow> work_item \<Rightarrow> bool" where
  "enqueue_binding_matches p w \<longleftrightarrow>
     wi_id w = enqueue_candidate_id (eq_operation_id p) \<and>
     wi_personal_workspace_id w = eq_personal_workspace_id p \<and>
     wi_task_id w = eq_task_id p \<and> wi_phase_run_id w = eq_phase_run_id p \<and>
     wi_runtime_run_id w = eq_runtime_run_id p \<and> wi_decision_id w = eq_decision_id p \<and>
     wi_task_revision w = eq_task_revision p \<and> wi_kind w = eq_kind p \<and>
     wi_runtime_request_kind w = eq_runtime_request_kind p \<and>
     wi_payload_digest w = eq_payload_digest p \<and> wi_canonical_payload w = eq_canonical_payload p \<and>
     wi_activity_generation w = eq_activity_generation p \<and> wi_fence_kind w = eq_fence_kind p \<and>
     wi_fence w = eq_fence p \<and> wi_causation_id w = eq_causation_id p"

definition scheduler_enqueue_work_item ::
    "enqueue_request \<Rightarrow> int \<Rightarrow> sched_db \<Rightarrow> (sched_error + unit) \<times> sched_db" where
  "scheduler_enqueue_work_item p now db =
     (let conflict = find_elem (\<lambda>w. wi_operation_id w = eq_operation_id p) (db_work_items db);
          row = enqueue_row p now
      in if conflict = None \<and> \<not> enqueue_row_allowed db row
         then (Inl ErrorIntegrityConflict, db)
         else
           let db' = (if conflict = None then db\<lparr>db_work_items := db_work_items db @ [row]\<rparr> else db);
               retained = find_elem (\<lambda>w. wi_operation_id w = eq_operation_id p) (db_work_items db')
           in case retained of
                None \<Rightarrow> (Inl ErrorIntegrityConflict, db)
              | Some w \<Rightarrow> if enqueue_binding_matches p w then (Inr (), db')
                          else (Inl ErrorIntegrityConflict, db))"

subsection \<open>Runtime acceptance\<close>

record accept_request =
  ap_work_item_id :: ident
  ap_admission_grant_id :: ident
  ap_grant_generation :: u64
  ap_operation_id :: ident
  ap_payload_digest :: digest
  ap_runtime_run_id :: ident
  ap_decision_id :: ident
  ap_runtime_revision :: u64
  ap_runtime_fence :: u64
  ap_lease_acquire_operation_id :: ident
  ap_lease_acquire_digest :: digest
  ap_runtime_deadline :: int
  ap_resource_class_id :: ident
  ap_execution_policy_id :: ident
  ap_accepted_at :: int

record grant_binding =
  gb_execution_node_id :: ident
  gb_node_capacity_generation :: u64
  gb_resource_class_id :: ident
  gb_execution_policy_id :: ident
  gb_scheduler_epoch :: u64
  gb_policy_version :: u64
  gb_grant_expires_at :: int
  gb_lease_acquire_by :: int

definition accept_binding_conflict :: "accept_request \<Rightarrow> work_item \<Rightarrow> admission_grant \<Rightarrow> bool" where
  "accept_binding_conflict p w g \<longleftrightarrow>
     wi_operation_id w \<noteq> ap_operation_id p \<or> wi_payload_digest w \<noteq> ap_payload_digest p \<or>
     wi_runtime_run_id w \<noteq> ap_runtime_run_id p \<or> wi_state w \<noteq> WorkItemDelivering \<or>
     wi_current_grant_generation w \<noteq> ap_grant_generation p \<or>
     ag_operation_id g \<noteq> ap_operation_id p \<or> ag_payload_digest g \<noteq> ap_payload_digest p \<or>
     ag_runtime_run_id g \<noteq> ap_runtime_run_id p \<or> ag_state g \<noteq> GrantReservedUnbound \<or>
     ag_resource_class_id g \<noteq> ap_resource_class_id p \<or>
     ag_execution_policy_id g \<noteq> ap_execution_policy_id p \<or>
     ag_expires_at g \<le> ap_accepted_at p \<or> ap_runtime_deadline p \<le> ap_accepted_at p"

definition accept_updates :: "accept_request \<Rightarrow> int \<Rightarrow> sched_db \<Rightarrow> sched_db" where
  "accept_updates p lease_acquire_by db =
     db\<lparr>db_grants := update_rows
          (\<lambda>g. ag_id g = ap_admission_grant_id p \<and> ag_generation g = ap_grant_generation p \<and>
               ag_state g = GrantReservedUnbound)
          (\<lambda>g. g\<lparr>ag_state := GrantBound, ag_bound_decision_id := ap_decision_id p,
                 ag_bound_runtime_revision := ap_runtime_revision p,
                 ag_bound_runtime_fence := ap_runtime_fence p,
                 ag_lease_acquire_operation_id := ap_lease_acquire_operation_id p,
                 ag_lease_acquire_digest := Some (ap_lease_acquire_digest p),
                 ag_lease_acquire_by := Some lease_acquire_by\<rparr>) (db_grants db),
        db_work_items := update_rows
          (\<lambda>w. wi_id w = ap_work_item_id p \<and> wi_state w = WorkItemDelivering \<and>
               wi_current_grant_generation w = ap_grant_generation p)
          (\<lambda>w. w\<lparr>wi_state := WorkItemAccepted, wi_accepted_decision_id := ap_decision_id p,
                 wi_accepted_runtime_revision := ap_runtime_revision p,
                 wi_accepted_runtime_fence := ap_runtime_fence p\<rparr>) (db_work_items db),
        db_logical := update_rows
          (\<lambda>r. lr_grant_id r = ap_admission_grant_id p \<and>
               lr_grant_generation r = ap_grant_generation p \<and> lr_state r = ReservationReservedUnbound)
          (\<lambda>r. r\<lparr>lr_state := ReservationBound\<rparr>) (db_logical db),
        db_node := update_rows
          (\<lambda>r. nr_grant_id r = ap_admission_grant_id p \<and>
               nr_grant_generation r = ap_grant_generation p \<and> nr_state r = ReservationReservedUnbound)
          (\<lambda>r. r\<lparr>nr_state := ReservationBound\<rparr>) (db_node db)\<rparr>"

definition find_grant :: "sched_db \<Rightarrow> ident \<Rightarrow> ident \<Rightarrow> u64 \<Rightarrow> admission_grant option" where
  "find_grant db grant_id work_item_id generation =
     find_elem (\<lambda>g. ag_id g = grant_id \<and> ag_work_item_id g = work_item_id \<and>
                    ag_generation g = generation) (db_grants db)"

definition scheduler_accept_runtime_start ::
    "accept_request \<Rightarrow> sched_db \<Rightarrow> (sched_error + grant_binding) \<times> sched_db" where
  "scheduler_accept_runtime_start p db =
     (case (find_elem (\<lambda>w. wi_id w = ap_work_item_id p) (db_work_items db),
            find_grant db (ap_admission_grant_id p) (ap_work_item_id p) (ap_grant_generation p)) of
        (Some w, Some g) \<Rightarrow>
          if accept_binding_conflict p w g then (Inl ErrorIntegrityConflict, db)
          else let fixed_lease_acquire_by = min (ag_expires_at g) (ap_runtime_deadline p) in
            (Inr \<lparr>gb_execution_node_id = ag_execution_node_id g,
                  gb_node_capacity_generation = ag_node_capacity_generation g,
                  gb_resource_class_id = ag_resource_class_id g,
                  gb_execution_policy_id = ag_execution_policy_id g,
                  gb_scheduler_epoch = ag_scheduler_epoch g,
                  gb_policy_version = ag_policy_version g,
                  gb_grant_expires_at = ag_expires_at g,
                  gb_lease_acquire_by = fixed_lease_acquire_by\<rparr>,
             accept_updates p fixed_lease_acquire_by db)
      | _ \<Rightarrow> (Inl ErrorIntegrityConflict, db))"

subsection \<open>Lease attachment\<close>

record attach_request =
  at_work_item_id :: ident
  at_admission_grant_id :: ident
  at_grant_generation :: u64
  at_runtime_run_id :: ident
  at_start_operation_id :: ident
  at_start_digest :: digest
  at_runtime_revision :: u64
  at_runtime_fence :: u64
  at_lease_acquire_operation_id :: ident
  at_lease_acquire_digest :: digest
  at_sandbox_lease_id :: ident
  at_lease_generation :: u64
  at_lease_fence :: u64
  at_sandbox_id :: ident
  at_sandbox_generation :: u64
  at_sandbox_fence :: u64
  at_execution_node_id :: ident
  at_node_capacity_generation :: u64
  at_resource_class_id :: ident
  at_execution_policy_id :: ident
  at_scheduler_epoch :: u64
  at_policy_version :: u64
  at_attached_at :: int

text \<open>A comparison with a null column is not true, so it does not raise the conflict.\<close>

definition sql_differs :: "'a option \<Rightarrow> 'a \<Rightarrow> bool" where
  "sql_differs column v = (case column of None \<Rightarrow> False | Some c \<Rightarrow> c \<noteq> v)"

definition sql_at_most :: "int option \<Rightarrow> int \<Rightarrow> bool" where
  "sql_at_most column v = (case column of None \<Rightarrow> False | Some c \<Rightarrow> c \<le> v)"

definition attach_binding_conflict :: "attach_request \<Rightarrow> admission_grant \<Rightarrow> bool" where
  "attach_binding_conflict p g \<longleftrightarrow>
     ag_state g \<notin> {GrantBound, GrantLeaseAttached} \<or>
     ag_runtime_run_id g \<noteq> at_runtime_run_id p \<or>
     ag_operation_id g \<noteq> at_start_operation_id p \<or> ag_payload_digest g \<noteq> at_start_digest p \<or>
     at_runtime_revision p \<le> ag_bound_runtime_revision g \<or>
     ag_bound_runtime_fence g \<noteq> at_runtime_fence p \<or>
     ag_lease_acquire_operation_id g \<noteq> at_lease_acquire_operation_id p \<or>
     sql_differs (ag_lease_acquire_digest g) (at_lease_acquire_digest p) \<or>
     ag_execution_node_id g \<noteq> at_execution_node_id p \<or>
     ag_node_capacity_generation g \<noteq> at_node_capacity_generation p \<or>
     ag_resource_class_id g \<noteq> at_resource_class_id p \<or>
     ag_execution_policy_id g \<noteq> at_execution_policy_id p \<or>
     ag_scheduler_epoch g \<noteq> at_scheduler_epoch p \<or> ag_policy_version g \<noteq> at_policy_version p \<or>
     sql_at_most (ag_lease_acquire_by g) (at_attached_at p)"

text \<open>
  The replay check reads the occupancy by its unique grant; if there is none, every
  comparison with it is null, and only the grant's own columns can differ.
\<close>

definition attach_replay_conflict ::
    "attach_request \<Rightarrow> admission_grant \<Rightarrow> physical_occupancy option \<Rightarrow> bool" where
  "attach_replay_conflict p g retained \<longleftrightarrow>
     ag_sandbox_lease_id g \<noteq> at_sandbox_lease_id p \<or>
     ag_lease_generation g \<noteq> at_lease_generation p \<or> ag_lease_fence g \<noteq> at_lease_fence p \<or>
     (case retained of
        None \<Rightarrow> False
      | Some oc \<Rightarrow> po_sandbox_lease_id oc \<noteq> at_sandbox_lease_id p \<or> po_sandbox_id oc \<noteq> at_sandbox_id p \<or>
          po_sandbox_generation oc \<noteq> at_sandbox_generation p \<or>
          po_sandbox_fence oc \<noteq> at_sandbox_fence p \<or> po_state oc \<noteq> PhysicalOccupancyHeld)"

definition attach_occupancy :: "attach_request \<Rightarrow> physical_occupancy" where
  "attach_occupancy p =
     \<lparr>po_sandbox_lease_id = at_sandbox_lease_id p, po_grant_id = at_admission_grant_id p,
      po_work_item_id = at_work_item_id p, po_grant_generation = at_grant_generation p,
      po_runtime_run_id = at_runtime_run_id p, po_start_operation_id = at_start_operation_id p,
      po_start_digest = at_start_digest p,
      po_lease_acquire_operation_id = at_lease_acquire_operation_id p,
      po_lease_acquire_digest = at_lease_acquire_digest p,
      po_lease_generation = at_lease_generation p, po_lease_fence = at_lease_fence p,
      po_sandbox_id = at_sandbox_id p, po_sandbox_generation = at_sandbox_generation p,
      po_sandbox_fence = at_sandbox_fence p, po_execution_node_id = at_execution_node_id p,
      po_node_capacity_generation = at_node_capacity_generation p,
      po_resource_class_id = at_resource_class_id p,
      po_execution_policy_id = at_execution_policy_id p,
      po_scheduler_epoch = at_scheduler_epoch p, po_policy_version = at_policy_version p,
      po_state = PhysicalOccupancyHeld, po_release_operation_id = [],
      po_release_operation_digest = None, po_reset_evidence_id = [],
      po_reset_evidence_digest = None\<rparr>"

definition occupancy_row_allowed :: "sched_db \<Rightarrow> physical_occupancy \<Rightarrow> bool" where
  "occupancy_row_allowed db oc \<longleftrightarrow>
     po_sandbox_lease_id oc \<notin> po_sandbox_lease_id ` set (db_physical db) \<and>
     po_grant_id oc \<notin> po_grant_id ` set (db_physical db) \<and>
     bigint_positive (po_grant_generation oc) \<and> length (po_start_digest oc) = 32 \<and>
     length (po_lease_acquire_digest oc) = 32 \<and>
     bigint_positive (po_lease_generation oc) \<and> bigint_positive (po_lease_fence oc) \<and>
     bigint_positive (po_sandbox_generation oc) \<and> bigint_positive (po_sandbox_fence oc) \<and>
     bigint_positive (po_node_capacity_generation oc) \<and>
     bigint_positive (po_scheduler_epoch oc) \<and> bigint_positive (po_policy_version oc)"

definition attach_grant_row :: "attach_request \<Rightarrow> admission_grant \<Rightarrow> bool" where
  "attach_grant_row p g \<longleftrightarrow>
     ag_id g = at_admission_grant_id p \<and> ag_generation g = at_grant_generation p \<and>
     ag_state g = GrantBound"

definition attach_node_row :: "attach_request \<Rightarrow> node_reservation \<Rightarrow> bool" where
  "attach_node_row p r \<longleftrightarrow>
     nr_grant_id r = at_admission_grant_id p \<and> nr_grant_generation r = at_grant_generation p \<and>
     nr_execution_node_id r = at_execution_node_id p \<and>
     nr_node_capacity_generation r = at_node_capacity_generation p \<and> nr_state r = ReservationBound"

definition attach_updates :: "attach_request \<Rightarrow> sched_db \<Rightarrow> sched_db" where
  "attach_updates p db =
     db\<lparr>db_grants := update_rows (attach_grant_row p)
          (\<lambda>g. g\<lparr>ag_state := GrantLeaseAttached, ag_sandbox_lease_id := at_sandbox_lease_id p,
                 ag_lease_generation := at_lease_generation p,
                 ag_lease_fence := at_lease_fence p\<rparr>) (db_grants db),
        db_node := update_rows (attach_node_row p)
          (\<lambda>r. r\<lparr>nr_state := ReservationLeaseAttached\<rparr>) (db_node db),
        db_physical := db_physical db @ [attach_occupancy p]\<rparr>"

definition scheduler_attach_runtime_lease ::
    "attach_request \<Rightarrow> sched_db \<Rightarrow> (sched_error + unit) \<times> sched_db" where
  "scheduler_attach_runtime_lease p db =
     (case find_grant db (at_admission_grant_id p) (at_work_item_id p) (at_grant_generation p) of
        None \<Rightarrow> (Inl ErrorIntegrityConflict, db)
      | Some g \<Rightarrow>
          if attach_binding_conflict p g then (Inl ErrorIntegrityConflict, db)
          else if ag_state g = GrantLeaseAttached then
            (if attach_replay_conflict p g
                  (find_elem (\<lambda>oc. po_grant_id oc = at_admission_grant_id p) (db_physical db))
             then (Inl ErrorIntegrityConflict, db) else (Inr (), db))
          else if rows_affected (attach_grant_row p) (db_grants db) \<noteq> 1
            then (Inl ErrorIntegrityConflict, db)
          else if rows_affected (attach_node_row p) (db_node db) \<noteq> 1
            then (Inl ErrorIntegrityConflict, db)
          else if \<not> occupancy_row_allowed db (attach_occupancy p)
            then (Inl ErrorIntegrityConflict, db)
          else (Inr (), attach_updates p db))"

subsection \<open>Cancellation\<close>

definition cancel_row :: "ident \<Rightarrow> digest \<Rightarrow> ident \<Rightarrow> work_item \<Rightarrow> bool" where
  "cancel_row operation_id payload_digest runtime_run_id w \<longleftrightarrow>
     wi_operation_id w = operation_id \<and> wi_payload_digest w = payload_digest \<and>
     wi_runtime_run_id w = runtime_run_id \<and> wi_runtime_request_kind w = 2 \<and>
     wi_state w = WorkItemQueued \<and> wi_current_grant_generation w = 0"

definition scheduler_accept_runtime_cancel ::
    "ident \<Rightarrow> digest \<Rightarrow> ident \<Rightarrow> ident \<Rightarrow> u64 \<Rightarrow> u64 \<Rightarrow> sched_db \<Rightarrow>
     (sched_error + unit) \<times> sched_db" where
  "scheduler_accept_runtime_cancel operation_id payload_digest runtime_run_id decision_id
       runtime_revision runtime_fence db =
     (if runtime_revision = 0 \<or> runtime_fence = 0 \<or> decision_id = []
      then (Inl ErrorIntegrityConflict, db)
      else if rows_affected (cancel_row operation_id payload_digest runtime_run_id)
                (db_work_items db) \<noteq> 1
      then (Inl ErrorIntegrityConflict, db)
      else (Inr (), db\<lparr>db_work_items := update_rows
              (cancel_row operation_id payload_digest runtime_run_id)
              (\<lambda>w. w\<lparr>wi_state := WorkItemAccepted, wi_accepted_decision_id := decision_id,
                     wi_accepted_runtime_revision := runtime_revision,
                     wi_accepted_runtime_fence := runtime_fence\<rparr>) (db_work_items db)\<rparr>))"

section \<open>Claim and admit\<close>

subsection \<open>The candidate\<close>

text \<open>Text columns are compared bytewise, timestamps by time.\<close>

definition delivering_candidates :: "sched_db \<Rightarrow> work_item list" where
  "delivering_candidates db =
     filter (\<lambda>w. wi_state w = WorkItemDelivering \<and> wi_runtime_request_kind w = 1 \<and>
                 length (wi_canonical_payload w) > 0) (db_work_items db)"

definition queued_candidates :: "admission_limits \<Rightarrow> sched_db \<Rightarrow> work_item list" where
  "queued_candidates limits db =
     filter (\<lambda>w. wi_state w = WorkItemQueued \<and> wi_runtime_request_kind w = 1 \<and>
                 length (wi_canonical_payload w) > 0 \<and>
                 logicalReservationOccupancy db 2 (wi_personal_workspace_id w)
                   < al_PersonalWorkspace limits) (db_work_items db)"

definition fairness_key :: "ident \<Rightarrow> work_item \<Rightarrow> nat \<times> string \<times> int \<times> string" where
  "fairness_key previous w =
     ((if wi_personal_workspace_id w > previous then 0 else 1), wi_personal_workspace_id w,
      wi_enqueued_at w, wi_id w)"

definition lockAdmissionCandidate :: "sched_env \<Rightarrow> sched_db \<Rightarrow> sched_error + work_item" where
  "lockAdmissionCandidate env db =
     (let candidate =
        (case sql_first (\<lambda>w. (wi_enqueued_at w, wi_id w)) (delivering_candidates db) of
           Some w \<Rightarrow> Some w
         | None \<Rightarrow> sql_first (fairness_key (db_last_workspace db))
                     (queued_candidates (ac_Limits (se_admission env)) db))
      in case candidate of
           None \<Rightarrow> Inl ErrorNoEligibleWork
         | Some w \<Rightarrow> if length (wi_payload_digest w) \<noteq> 32 then Inl ErrorDependencyUnavailable
                     else Inr w)"

abbreviation canonicalStartDomain :: string where
  "canonicalStartDomain \<equiv> ''slidesmith.runtime-execution.request/v1'' @ [CHR 0x0A]"

definition validateCanonicalWork :: "sched_env \<Rightarrow> work_item \<Rightarrow> sched_error + canonicalStartEnvelope" where
  "validateCanonicalWork env w =
     (if se_sha256 env (canonicalStartDomain @ wi_canonical_payload w) \<noteq> wi_payload_digest w
      then Inl ErrorIntegrityConflict
      else case se_decode_start env (wi_canonical_payload w) of
        None \<Rightarrow> Inl ErrorIntegrityConflict
      | Some e \<Rightarrow>
          if ce_Kind e \<noteq> ''start_runtime_run'' \<or> ce_OperationID e \<noteq> wi_operation_id w \<or>
             ce_TaskID e \<noteq> wi_task_id w \<or> ce_PhaseRunID e \<noteq> wi_phase_run_id w \<or>
             ce_RuntimeRunID e \<noteq> wi_runtime_run_id w \<or>
             \<not> sched_validOpaqueID (ce_PersonalWorkspaceID e) \<or>
             ce_PersonalWorkspaceID e \<noteq> wi_personal_workspace_id w \<or>
             ce_ResourceClassID e \<noteq> nc_ResourceClassID (ac_Node (se_admission env)) \<or>
             ce_ExecutionPolicyID e \<noteq> nc_ExecutionPolicyID (ac_Node (se_admission env)) \<or>
             \<not> sched_validOpaqueID (ce_WorkerClass e) \<or> ce_Deadline e = 0
          then Inl ErrorIntegrityConflict else Inr e)"

text \<open>The node fact gate: without a configured function there is nothing to check.\<close>

definition node_fact_gate :: "sched_env \<Rightarrow> int \<Rightarrow> sched_error + unit" where
  "node_fact_gate env now =
     (case se_node_fact env of
        None \<Rightarrow> Inr ()
      | Some lookup \<Rightarrow>
          (case lookup (nc_ExecutionNodeID (ac_Node (se_admission env))) of
             None \<Rightarrow> Inl ErrorNoEligibleWork
           | Some f \<Rightarrow>
               if nf_generation f \<noteq> nc_CapacityGeneration (ac_Node (se_admission env)) \<or>
                  nf_readiness f \<noteq> NodeReady \<or> nf_quarantined f \<or>
                  nf_occupancy f \<noteq> NodeUnoccupied \<or>
                  nf_containment f \<noteq> ContainmentEstablished \<or> nf_reset f \<noteq> ResetCompleted \<or>
                  \<not> now < nf_attestationExpiresAt f \<or> \<not> now < nf_authorizationExpiresAt f
               then Inl ErrorNoEligibleWork else Inr ()))"

subsection \<open>Grants\<close>

definition grant_value :: "admission_grant \<Rightarrow> AdmissionGrant" where
  "grant_value g =
     \<lparr>gr_AdmissionGrantID = ag_id g, gr_WorkItemID = ag_work_item_id g,
      gr_Generation = ag_generation g, gr_DeliveryClaimID = ag_delivery_claim_id g,
      gr_ExecutionNodeID = ag_execution_node_id g,
      gr_NodeCapacityGeneration = ag_node_capacity_generation g,
      gr_ResourceClassID = ag_resource_class_id g, gr_ExecutionPolicyID = ag_execution_policy_id g,
      gr_SchedulerEpoch = ag_scheduler_epoch g, gr_PolicyVersion = ag_policy_version g,
      gr_ExpiresAt = ag_expires_at g\<rparr>"

definition loadGrant :: "sched_db \<Rightarrow> ident \<Rightarrow> u64 \<Rightarrow> sched_error + (AdmissionGrant \<times> nat)" where
  "loadGrant db work_item_id generation =
     (case find_elem (\<lambda>g. ag_work_item_id g = work_item_id \<and> ag_generation g = generation) (db_grants db) of
        None \<Rightarrow> Inl ErrorIntegrityConflict
      | Some g \<Rightarrow> Inr (grant_value g, ag_state g))"

text \<open>An invalid workspace identifier yields the zero value: its error is dropped by the code.\<close>

definition admissionDecision :: "(string \<Rightarrow> bool) \<Rightarrow> work_item \<Rightarrow> AdmissionGrant \<Rightarrow> AdmissionDecision" where
  "admissionDecision workspace_ok w g =
     \<lparr>ad_WorkItemID = wi_id w,
      ad_PersonalWorkspaceID =
        (if workspace_ok (wi_personal_workspace_id w) then wi_personal_workspace_id w else []),
      ad_OperationID = wi_operation_id w, ad_TaskID = wi_task_id w,
      ad_PhaseRunID = wi_phase_run_id w, ad_RuntimeRunID = wi_runtime_run_id w,
      ad_PayloadDigest = wi_payload_digest w, ad_CanonicalPayload = wi_canonical_payload w,
      ad_Grant = g\<rparr>"

text \<open>The identifier check of runtimeexecution, which the workspace identifier goes through.\<close>

definition runtime_validOpaqueID :: "string \<Rightarrow> bool" where
  "runtime_validOpaqueID value \<longleftrightarrow>
     (if length value = 0 \<or> length value > 128 then False
      else \<forall>c \<in> set value. let n = (of_char c :: nat) in
        0x61 \<le> n \<and> n \<le> 0x7a \<or> 0x41 \<le> n \<and> n \<le> 0x5a \<or> 0x30 \<le> n \<and> n \<le> 0x39 \<or>
        c = CHR ''-'' \<or> c = CHR ''_'' \<or> c = CHR ''.'' \<or> c = CHR '':'' \<or> c = CHR ''/'')"

definition earlier :: "int \<Rightarrow> int \<Rightarrow> int" where
  "earlier left right = (if left < right then left else right)"

definition reserved_grant :: "sched_env \<Rightarrow> sched_db \<Rightarrow> work_item \<Rightarrow> canonicalStartEnvelope \<Rightarrow> int \<Rightarrow> admission_grant" where
  "reserved_grant env db w e now =
     \<lparr>ag_id = grant_id_of (db_grant_sequence db), ag_work_item_id = wi_id w,
      ag_work_item_generation = wi_generation w,
      ag_generation = wi_last_grant_generation w + 1,
      ag_delivery_claim_id = claim_id_of (db_claim_sequence db),
      ag_operation_id = wi_operation_id w, ag_payload_digest = wi_payload_digest w,
      ag_runtime_run_id = wi_runtime_run_id w,
      ag_personal_workspace_id = ce_PersonalWorkspaceID e,
      ag_execution_node_id = nc_ExecutionNodeID (ac_Node (se_admission env)),
      ag_node_capacity_generation = nc_CapacityGeneration (ac_Node (se_admission env)),
      ag_resource_class_id = nc_ResourceClassID (ac_Node (se_admission env)),
      ag_execution_policy_id = nc_ExecutionPolicyID (ac_Node (se_admission env)),
      ag_scheduler_epoch = ac_SchedulerEpoch (se_admission env),
      ag_policy_version = ac_PolicyVersion (se_admission env),
      ag_expires_at = earlier (now + ac_GrantTTL (se_admission env)) (ce_Deadline e),
      ag_state = GrantReservedUnbound,
      ag_bound_decision_id = [], ag_bound_runtime_revision = 0, ag_bound_runtime_fence = 0,
      ag_terminal_decision_id = [], ag_terminal_runtime_revision = 0,
      ag_terminal_runtime_fence = 0, ag_terminal_scheduler_epoch = 0,
      ag_terminal_policy_version = 0, ag_lease_acquire_operation_id = [],
      ag_lease_acquire_digest = None, ag_lease_acquire_by = None, ag_sandbox_lease_id = [],
      ag_lease_generation = 0, ag_lease_fence = 0\<rparr>"

definition admission_counters :: "canonicalStartEnvelope \<Rightarrow> (nat \<times> string) list" where
  "admission_counters e =
     [(1, ''site''), (2, ce_PersonalWorkspaceID e), (3, ce_WorkerClass e), (4, ce_ResourceClassID e)]"

definition reserved_logical :: "admission_grant \<Rightarrow> canonicalStartEnvelope \<Rightarrow> logical_reservation list" where
  "reserved_logical g e =
     map (\<lambda>(kind, key). \<lparr>lr_grant_id = ag_id g, lr_counter_kind = kind, lr_counter_key = key,
            lr_grant_generation = ag_generation g, lr_state = GrantReservedUnbound\<rparr>)
       (admission_counters e)"

definition reserved_node :: "admission_grant \<Rightarrow> node_reservation" where
  "reserved_node g =
     \<lparr>nr_grant_id = ag_id g, nr_execution_node_id = ag_execution_node_id g,
      nr_node_capacity_generation = ag_node_capacity_generation g,
      nr_grant_generation = ag_generation g, nr_state = GrantReservedUnbound\<rparr>"

definition reserved_claim :: "admission_grant \<Rightarrow> delivery_claim" where
  "reserved_claim g =
     \<lparr>dc_id = ag_delivery_claim_id g, dc_work_item_id = ag_work_item_id g,
      dc_grant_generation = ag_generation g, dc_claim_generation = ag_generation g,
      dc_state = GrantReservedUnbound, dc_expires_at = ag_expires_at g\<rparr>"

text \<open>Keys and check constraints the five inserts have to meet.\<close>

definition reservation_rows_allowed :: "sched_db \<Rightarrow> admission_grant \<Rightarrow> bool" where
  "reservation_rows_allowed db g \<longleftrightarrow>
     ag_id g \<notin> ag_id ` set (db_grants db) \<and>
     ag_delivery_claim_id g \<notin> ag_delivery_claim_id ` set (db_grants db) \<and>
     (ag_work_item_id g, ag_generation g)
       \<notin> (\<lambda>h. (ag_work_item_id h, ag_generation h)) ` set (db_grants db) \<and>
     ag_delivery_claim_id g \<notin> dc_id ` set (db_claims db) \<and>
     ag_id g \<notin> lr_grant_id ` set (db_logical db) \<and>
     ag_id g \<notin> nr_grant_id ` set (db_node db) \<and>
     bigint_positive (ag_generation g) \<and> length (ag_payload_digest g) = 32 \<and>
     bigint_positive (ag_node_capacity_generation g) \<and>
     bigint_positive (ag_scheduler_epoch g) \<and> bigint_positive (ag_policy_version g)"

definition delivering_row :: "work_item \<Rightarrow> work_item \<Rightarrow> bool" where
  "delivering_row w row \<longleftrightarrow>
     wi_id row = wi_id w \<and> wi_state row = WorkItemQueued \<and> wi_current_grant_generation row = 0 \<and>
     wi_last_grant_generation row = wi_last_grant_generation w"

definition draw_sequences :: "sched_db \<Rightarrow> sched_db" where
  "draw_sequences db =
     db\<lparr>db_grant_sequence := Suc (db_grant_sequence db), db_claim_sequence := Suc (db_claim_sequence db)\<rparr>"

definition reserve_updates :: "work_item \<Rightarrow> canonicalStartEnvelope \<Rightarrow> admission_grant \<Rightarrow> sched_db \<Rightarrow> sched_db" where
  "reserve_updates w e g db =
     db\<lparr>db_grants := db_grants db @ [g],
        db_claims := db_claims db @ [reserved_claim g],
        db_logical := db_logical db @ reserved_logical g e,
        db_node := db_node db @ [reserved_node g],
        db_work_items := update_rows (delivering_row w)
          (\<lambda>row. row\<lparr>wi_state := WorkItemDelivering,
                   wi_current_grant_generation := ag_generation g,
                   wi_last_grant_generation := ag_generation g\<rparr>) (db_work_items db),
        db_last_workspace := wi_personal_workspace_id w\<rparr>"

definition reserveAdmission ::
    "sched_env \<Rightarrow> work_item \<Rightarrow> canonicalStartEnvelope \<Rightarrow> int \<Rightarrow> sched_db \<Rightarrow>
     (sched_error + AdmissionGrant) \<times> sched_db" where
  "reserveAdmission env w e now db =
     (let g = reserved_grant env db w e now; drawn = draw_sequences db
      in if \<not> now < ag_expires_at g then (Inl ErrorNoEligibleWork, drawn)
         else if \<not> reservation_rows_allowed db g then (Inl ErrorDependencyUnavailable, drawn)
         else if rows_affected (delivering_row w) (db_work_items db) \<noteq> 1
           then (Inl ErrorIntegrityConflict, drawn)
         else (Inr (grant_value g), reserve_updates w e g drawn))"

definition expiring_grant_row :: "AdmissionGrant \<Rightarrow> admission_grant \<Rightarrow> bool" where
  "expiring_grant_row grant g \<longleftrightarrow>
     ag_id g = gr_AdmissionGrantID grant \<and> ag_generation g = gr_Generation grant \<and>
     ag_state g = GrantReservedUnbound"

definition expiring_work_row :: "work_item \<Rightarrow> AdmissionGrant \<Rightarrow> work_item \<Rightarrow> bool" where
  "expiring_work_row w grant row \<longleftrightarrow>
     wi_id row = wi_id w \<and> wi_state row = WorkItemDelivering \<and>
     wi_current_grant_generation row = gr_Generation grant \<and>
     wi_last_grant_generation row = gr_Generation grant"

definition expireUnboundGrant ::
    "work_item \<Rightarrow> AdmissionGrant \<Rightarrow> sched_db \<Rightarrow> sched_error + sched_db" where
  "expireUnboundGrant w grant db =
     (if rows_affected (expiring_grant_row grant) (db_grants db) \<noteq> 1
      then Inl ErrorIntegrityConflict
      else if rows_affected (expiring_work_row w grant) (db_work_items db) \<noteq> 1
      then Inl ErrorIntegrityConflict
      else Inr (db\<lparr>
        db_grants := update_rows (expiring_grant_row grant)
          (\<lambda>g. g\<lparr>ag_state := GrantExpiredUnbound\<rparr>) (db_grants db),
        db_logical := update_rows
          (\<lambda>r. lr_grant_id r = gr_AdmissionGrantID grant \<and>
               lr_grant_generation r = gr_Generation grant \<and> lr_state r = GrantReservedUnbound)
          (\<lambda>r. r\<lparr>lr_state := GrantReleased\<rparr>) (db_logical db),
        db_node := update_rows
          (\<lambda>r. nr_grant_id r = gr_AdmissionGrantID grant \<and>
               nr_grant_generation r = gr_Generation grant \<and> nr_state r = GrantReservedUnbound)
          (\<lambda>r. r\<lparr>nr_state := GrantReleased\<rparr>) (db_node db),
        db_work_items := update_rows (expiring_work_row w grant)
          (\<lambda>row. row\<lparr>wi_state := WorkItemQueued, wi_current_grant_generation := 0\<rparr>)
          (db_work_items db)\<rparr>))"

subsection \<open>Limits and the decision\<close>

definition counter_limit :: "admission_limits \<Rightarrow> nat \<Rightarrow> nat" where
  "counter_limit limits kind =
     (if kind = 1 then al_Global limits
      else if kind = 2 then al_PersonalWorkspace limits
      else if kind = 3 then al_WorkerClass limits
      else al_ResourceClass limits)"

text \<open>All four counters below their limit, then the node below its slots.\<close>

definition capacity_gate :: "sched_env \<Rightarrow> canonicalStartEnvelope \<Rightarrow> sched_db \<Rightarrow> sched_error + unit" where
  "capacity_gate env e db =
     (if list_ex (\<lambda>(kind, key). logicalReservationOccupancy db kind key
                    \<ge> counter_limit (ac_Limits (se_admission env)) kind) (admission_counters e)
      then Inl ErrorNoEligibleWork
      else if nodeOccupancy db (nc_ExecutionNodeID (ac_Node (se_admission env)))
                (nc_CapacityGeneration (ac_Node (se_admission env)))
                \<ge> nc_AvailableRuntimeSlots (ac_Node (se_admission env))
      then Inl ErrorNoEligibleWork else Inr ())"

text \<open>The end of the transaction: deadline, limits, reservation.\<close>

definition admit_fresh ::
    "sched_env \<Rightarrow> work_item \<Rightarrow> canonicalStartEnvelope \<Rightarrow> int \<Rightarrow> sched_db \<Rightarrow>
     (sched_error + AdmissionDecision) \<times> sched_db" where
  "admit_fresh env w e now db =
     (if \<not> now < ce_Deadline e then (Inl ErrorNoEligibleWork, db)
      else case capacity_gate env e db of
        Inl failure \<Rightarrow> (Inl failure, db)
      | Inr _ \<Rightarrow>
          (case reserveAdmission env w e now db of
             (Inl failure, db') \<Rightarrow> (Inl failure, db')
           | (Inr grant, db') \<Rightarrow> (Inr (admissionDecision runtime_validOpaqueID w grant), db')))"

text \<open>
  A work item with a current grant gets that grant again while it has not expired; an expired
  grant is expired and the item admitted afresh.
\<close>

definition admit_work ::
    "sched_env \<Rightarrow> work_item \<Rightarrow> canonicalStartEnvelope \<Rightarrow> int \<Rightarrow> sched_db \<Rightarrow>
     (sched_error + AdmissionDecision) \<times> sched_db" where
  "admit_work env w e now db =
     (if wi_current_grant_generation w > 0 then
        (case loadGrant db (wi_id w) (wi_current_grant_generation w) of
           Inl failure \<Rightarrow> (Inl failure, db)
         | Inr (grant, state) \<Rightarrow>
             if state \<noteq> GrantReservedUnbound then (Inl ErrorIntegrityConflict, db)
             else if now < gr_ExpiresAt grant
             then (Inr (admissionDecision runtime_validOpaqueID w grant), db)
             else (case expireUnboundGrant w grant db of
                     Inl failure \<Rightarrow> (Inl failure, db)
                   | Inr expired \<Rightarrow>
                       admit_fresh env
                         (w\<lparr>wi_state := WorkItemQueued, wi_current_grant_generation := 0\<rparr>)
                         e now expired))
      else admit_fresh env w e now db)"

definition claim_checked :: "sched_env \<Rightarrow> int \<Rightarrow> sched_db \<Rightarrow> sched_error + (work_item \<times> canonicalStartEnvelope)" where
  "claim_checked env now db =
     result_bind (lockAdmissionCandidate env db) (\<lambda>w.
     result_bind (validateCanonicalWork env w) (\<lambda>e.
     result_bind (node_fact_gate env now) (\<lambda>_. Inr (w, e))))"

definition ClaimAndAdmit ::
    "sched_env \<Rightarrow> bool \<Rightarrow> int \<Rightarrow> sched_db \<Rightarrow> (sched_error + AdmissionDecision) \<times> sched_db" where
  "ClaimAndAdmit env ctx_live now db =
     (if \<not> ctx_live then (Inl ErrorDependencyUnavailable, db)
      else case claim_checked env now db of
        Inl failure \<Rightarrow> (Inl failure, db)
      | Inr (w, e) \<Rightarrow>
          (case admit_work env w e now db of
             (Inl failure, db') \<Rightarrow> (Inl failure, rollback db db')
           | (Inr decision, db') \<Rightarrow> (Inr decision, db')))"

end
