(* ===== verification/Sched_Release.thy ===== *)
theory Sched_Release
  imports Sched_Admission
begin

text \<open>
  Release of capacity (backend/internal/scheduler/capacity.go): the three operations by which
  the runtime's evidence ends a grant. \<open>ApplyRuntimeFencedOrTerminal\<close> releases the logical
  counters, \<open>ApplyNoLeasePhysicalDisposition\<close> the node reservation of a grant that never got
  a lease, \<open>ApplyPhysicalCapacityReleaseReady\<close> the physical occupancy of one that did.

  The runtime's own release check, a SQL function called by name, is an argument.
\<close>

section \<open>Evidence\<close>

record fenced_evidence =
  fe_WorkItemID :: ident
  fe_AdmissionGrantID :: ident
  fe_GrantGeneration :: u64
  fe_RuntimeRunID :: ident
  fe_StartOperationID :: ident
  fe_StartDigest :: digest
  fe_TerminalDecisionID :: ident
  fe_RuntimeRevision :: u64
  fe_RuntimeFence :: u64
  fe_SchedulerEpoch :: u64
  fe_PolicyVersion :: u64
  fe_LeaseAcquireOperationID :: ident
  fe_LeaseAcquireDigest :: digest

text \<open>The no-lease disposition carries the same facts and the node it frees.\<close>

record no_lease_evidence =
  ne_base :: fenced_evidence
  ne_ExecutionNodeID :: ident
  ne_NodeCapacityGeneration :: u64

record physical_release_evidence =
  pe_WorkItemID :: ident
  pe_AdmissionGrantID :: ident
  pe_GrantGeneration :: u64
  pe_RuntimeRunID :: ident
  pe_StartOperationID :: ident
  pe_StartDigest :: digest
  pe_ReleaseOperationID :: ident
  pe_ReleaseOperationDigest :: digest
  pe_RuntimeRevision :: u64
  pe_RuntimeFence :: u64
  pe_SandboxLeaseID :: ident
  pe_LeaseGeneration :: u64
  pe_LeaseFence :: u64
  pe_SandboxID :: ident
  pe_SandboxGeneration :: u64
  pe_SandboxFence :: u64
  pe_ExecutionNodeID :: ident
  pe_NodeCapacityGeneration :: u64
  pe_ResetEvidenceID :: ident
  pe_ResetEvidenceDigest :: digest

definition validRuntimeFencedEvidence :: "fenced_evidence \<Rightarrow> bool" where
  "validRuntimeFencedEvidence ev \<longleftrightarrow>
     fe_WorkItemID ev \<noteq> [] \<and> fe_AdmissionGrantID ev \<noteq> [] \<and> fe_GrantGeneration ev > 0 \<and>
     fe_RuntimeRunID ev \<noteq> [] \<and> fe_StartOperationID ev \<noteq> [] \<and>
     fe_StartDigest ev \<noteq> zero_digest \<and> fe_TerminalDecisionID ev \<noteq> [] \<and>
     fe_RuntimeRevision ev > 0 \<and> fe_RuntimeFence ev > 0 \<and> fe_SchedulerEpoch ev > 0 \<and>
     fe_PolicyVersion ev > 0 \<and> fe_LeaseAcquireOperationID ev \<noteq> [] \<and>
     fe_LeaseAcquireDigest ev \<noteq> zero_digest"

definition validPhysicalReleaseEvidence :: "physical_release_evidence \<Rightarrow> bool" where
  "validPhysicalReleaseEvidence ev \<longleftrightarrow>
     pe_WorkItemID ev \<noteq> [] \<and> pe_AdmissionGrantID ev \<noteq> [] \<and> pe_GrantGeneration ev > 0 \<and>
     pe_RuntimeRunID ev \<noteq> [] \<and> pe_StartOperationID ev \<noteq> [] \<and>
     pe_StartDigest ev \<noteq> zero_digest \<and> pe_ReleaseOperationID ev \<noteq> [] \<and>
     pe_ReleaseOperationDigest ev \<noteq> zero_digest \<and> pe_RuntimeRevision ev > 0 \<and>
     pe_RuntimeFence ev > 0 \<and> pe_SandboxLeaseID ev \<noteq> [] \<and> pe_LeaseGeneration ev > 0 \<and>
     pe_LeaseFence ev > 0 \<and> pe_SandboxID ev \<noteq> [] \<and> pe_SandboxGeneration ev > 0 \<and>
     pe_SandboxFence ev > 0 \<and> pe_ExecutionNodeID ev \<noteq> [] \<and>
     pe_NodeCapacityGeneration ev > 0 \<and> pe_ResetEvidenceID ev \<noteq> [] \<and>
     pe_ResetEvidenceDigest ev \<noteq> zero_digest"

section \<open>Terminal evidence\<close>

text \<open>
  \<open>lockAndValidateTerminalEvidence\<close>: the locked grant must carry the evidence's identity,
  be bound, and lie one fence before it. The first evidence is recorded on the grant; any
  later one has to be the same.
\<close>

definition terminal_evidence_conflict :: "fenced_evidence \<Rightarrow> admission_grant \<Rightarrow> bool" where
  "terminal_evidence_conflict ev g \<longleftrightarrow>
     ag_operation_id g \<noteq> fe_StartOperationID ev \<or> ag_payload_digest g \<noteq> fe_StartDigest ev \<or>
     ag_runtime_run_id g \<noteq> fe_RuntimeRunID ev \<or> ag_bound_decision_id g = [] \<or>
     fe_RuntimeRevision ev \<le> ag_bound_runtime_revision g \<or>
     fe_RuntimeFence ev \<noteq> ag_bound_runtime_fence g + 1 \<or>
     fe_SchedulerEpoch ev \<noteq> ag_scheduler_epoch g \<or> fe_PolicyVersion ev \<noteq> ag_policy_version g \<or>
     ag_lease_acquire_operation_id g \<noteq> fe_LeaseAcquireOperationID ev \<or>
     ag_lease_acquire_digest g \<noteq> Some (fe_LeaseAcquireDigest ev)"

definition recorded_terminal_conflict :: "fenced_evidence \<Rightarrow> admission_grant \<Rightarrow> bool" where
  "recorded_terminal_conflict ev g \<longleftrightarrow>
     ag_terminal_decision_id g \<noteq> fe_TerminalDecisionID ev \<or>
     ag_terminal_runtime_revision g \<noteq> fe_RuntimeRevision ev \<or>
     ag_terminal_runtime_fence g \<noteq> fe_RuntimeFence ev \<or>
     ag_terminal_scheduler_epoch g \<noteq> fe_SchedulerEpoch ev \<or>
     ag_terminal_policy_version g \<noteq> fe_PolicyVersion ev"

definition terminal_grant_row :: "fenced_evidence \<Rightarrow> admission_grant \<Rightarrow> bool" where
  "terminal_grant_row ev g \<longleftrightarrow>
     ag_id g = fe_AdmissionGrantID ev \<and> ag_generation g = fe_GrantGeneration ev \<and>
     ag_terminal_decision_id g = []"

definition record_terminal :: "fenced_evidence \<Rightarrow> admission_grant \<Rightarrow> admission_grant" where
  "record_terminal ev g =
     g\<lparr>ag_terminal_decision_id := fe_TerminalDecisionID ev,
       ag_terminal_runtime_revision := fe_RuntimeRevision ev,
       ag_terminal_runtime_fence := fe_RuntimeFence ev,
       ag_terminal_scheduler_epoch := fe_SchedulerEpoch ev,
       ag_terminal_policy_version := fe_PolicyVersion ev\<rparr>"

definition lockAndValidateTerminalEvidence ::
    "fenced_evidence \<Rightarrow> sched_db \<Rightarrow> sched_error + (nat \<times> sched_db)" where
  "lockAndValidateTerminalEvidence ev db =
     (case find_grant db (fe_AdmissionGrantID ev) (fe_WorkItemID ev) (fe_GrantGeneration ev) of
        None \<Rightarrow> Inl ErrorIntegrityConflict
      | Some g \<Rightarrow>
          if terminal_evidence_conflict ev g then Inl ErrorIntegrityConflict
          else if ag_terminal_decision_id g = [] then
            (if rows_affected (terminal_grant_row ev) (db_grants db) \<noteq> 1
             then Inl ErrorIntegrityConflict
             else Inr (ag_state g, db\<lparr>db_grants :=
                    update_rows (terminal_grant_row ev) (record_terminal ev) (db_grants db)\<rparr>))
          else if recorded_terminal_conflict ev g then Inl ErrorIntegrityConflict
          else Inr (ag_state g, db))"

section \<open>Shared updates\<close>

text \<open>\<open>SELECT min(state), max(state)\<close> of a grant's logical rows: their common state, if any.\<close>

definition common_logical_state :: "sched_db \<Rightarrow> ident \<Rightarrow> nat option" where
  "common_logical_state db grant_id =
     (case map lr_state (filter (\<lambda>r. lr_grant_id r = grant_id) (db_logical db)) of
        [] \<Rightarrow> None
      | s # ss \<Rightarrow> if Min (set (s # ss)) = Max (set (s # ss)) then Some (Min (set (s # ss))) else None)"

definition node_state_of :: "sched_db \<Rightarrow> ident \<Rightarrow> nat option" where
  "node_state_of db grant_id =
     map_option nr_state (find_elem (\<lambda>r. nr_grant_id r = grant_id) (db_node db))"

definition set_grant_state :: "ident \<Rightarrow> u64 \<Rightarrow> nat set \<Rightarrow> nat \<Rightarrow> sched_db \<Rightarrow> sched_db" where
  "set_grant_state grant_id generation frm to db =
     db\<lparr>db_grants := update_rows
          (\<lambda>g. ag_id g = grant_id \<and> ag_generation g = generation \<and> ag_state g \<in> frm)
          (\<lambda>g. g\<lparr>ag_state := to\<rparr>) (db_grants db)\<rparr>"

definition fenced_logical_row :: "fenced_evidence \<Rightarrow> logical_reservation \<Rightarrow> bool" where
  "fenced_logical_row ev r \<longleftrightarrow>
     lr_grant_id r = fe_AdmissionGrantID ev \<and> lr_grant_generation r = fe_GrantGeneration ev \<and>
     lr_state r = ReservationBound"

definition release_logical :: "fenced_evidence \<Rightarrow> sched_db \<Rightarrow> sched_db" where
  "release_logical ev db =
     db\<lparr>db_logical := update_rows (fenced_logical_row ev)
          (\<lambda>r. r\<lparr>lr_state := ReservationReleased\<rparr>) (db_logical db)\<rparr>"

definition node_row :: "ident \<Rightarrow> ident \<Rightarrow> u64 \<Rightarrow> u64 \<Rightarrow> node_reservation \<Rightarrow> bool" where
  "node_row grant_id node node_generation generation r \<longleftrightarrow>
     nr_grant_id r = grant_id \<and> nr_execution_node_id r = node \<and>
     nr_node_capacity_generation r = node_generation \<and> nr_grant_generation r = generation"

section \<open>The operations\<close>

definition ApplyRuntimeFencedOrTerminal ::
    "fenced_evidence \<Rightarrow> sched_db \<Rightarrow> (sched_error + unit) \<times> sched_db" where
  "ApplyRuntimeFencedOrTerminal ev db =
     (if \<not> validRuntimeFencedEvidence ev then (Inl ErrorInvalidRequest, db)
      else case lockAndValidateTerminalEvidence ev db of
        Inl failure \<Rightarrow> (Inl failure, db)
      | Inr (state, db1) \<Rightarrow>
          if state \<notin> {GrantBound, GrantLeaseAttached, GrantTerminalNoLease, GrantReleased}
          then (Inl ErrorIntegrityConflict, db)
          else if rows_affected (fenced_logical_row ev) (db_logical db1) \<notin> {0, 4}
          then (Inl ErrorIntegrityConflict, db)
          else
            let db2 = release_logical ev db1 in
            (case node_state_of db2 (fe_AdmissionGrantID ev) of
               None \<Rightarrow> (Inl ErrorIntegrityConflict, db)
             | Some node_state \<Rightarrow>
                 (Inr (),
                  if node_state = ReservationReleased
                  then set_grant_state (fe_AdmissionGrantID ev) (fe_GrantGeneration ev)
                         {GrantBound, GrantTerminalNoLease} GrantReleased db2
                  else db2)))"

definition no_lease_node_row :: "no_lease_evidence \<Rightarrow> node_reservation \<Rightarrow> bool" where
  "no_lease_node_row ev =
     node_row (fe_AdmissionGrantID (ne_base ev)) (ne_ExecutionNodeID ev)
       (ne_NodeCapacityGeneration ev) (fe_GrantGeneration (ne_base ev))"

definition no_lease_finish :: "no_lease_evidence \<Rightarrow> sched_db \<Rightarrow> sched_db \<Rightarrow> (sched_error + unit) \<times> sched_db" where
  "no_lease_finish ev old db =
     (case common_logical_state db (fe_AdmissionGrantID (ne_base ev)) of
        None \<Rightarrow> (Inl ErrorIntegrityConflict, old)
      | Some logical \<Rightarrow>
          (Inr (), set_grant_state (fe_AdmissionGrantID (ne_base ev)) (fe_GrantGeneration (ne_base ev))
                     {GrantBound, GrantTerminalNoLease, GrantReleased}
                     (if logical = ReservationReleased then GrantReleased else GrantTerminalNoLease) db))"

definition ApplyNoLeasePhysicalDisposition ::
    "no_lease_evidence \<Rightarrow> sched_db \<Rightarrow> (sched_error + unit) \<times> sched_db" where
  "ApplyNoLeasePhysicalDisposition ev db =
     (if \<not> validRuntimeFencedEvidence (ne_base ev) \<or> ne_ExecutionNodeID ev = [] \<or>
         ne_NodeCapacityGeneration ev = 0 then (Inl ErrorInvalidRequest, db)
      else case lockAndValidateTerminalEvidence (ne_base ev) db of
        Inl failure \<Rightarrow> (Inl failure, db)
      | Inr (state, db1) \<Rightarrow>
          if state \<notin> {GrantBound, GrantTerminalNoLease, GrantReleased}
          then (Inl ErrorIntegrityConflict, db)
          else
            let bound = (\<lambda>r. no_lease_node_row ev r \<and> nr_state r = ReservationBound);
                rows = rows_affected bound (db_node db1)
            in if rows > 1 then (Inl ErrorIntegrityConflict, db)
               else if rows = 0 \<and>
                 map_option nr_state (find_elem (no_lease_node_row ev) (db_node db1))
                   \<noteq> Some ReservationReleased
               then (Inl ErrorIntegrityConflict, db)
               else no_lease_finish ev db
                 (db1\<lparr>db_node := update_rows bound
                        (\<lambda>r. r\<lparr>nr_state := ReservationReleased\<rparr>) (db_node db1)\<rparr>))"

definition physical_identity_conflict :: "physical_release_evidence \<Rightarrow> physical_occupancy \<Rightarrow> bool" where
  "physical_identity_conflict ev oc \<longleftrightarrow>
     po_work_item_id oc \<noteq> pe_WorkItemID ev \<or> po_grant_id oc \<noteq> pe_AdmissionGrantID ev \<or>
     po_grant_generation oc \<noteq> pe_GrantGeneration ev \<or>
     po_runtime_run_id oc \<noteq> pe_RuntimeRunID ev \<or>
     po_start_operation_id oc \<noteq> pe_StartOperationID ev \<or> po_start_digest oc \<noteq> pe_StartDigest ev \<or>
     po_sandbox_lease_id oc \<noteq> pe_SandboxLeaseID ev \<or>
     pe_LeaseGeneration ev < po_lease_generation oc \<or> pe_LeaseFence ev < po_lease_fence oc \<or>
     po_sandbox_id oc \<noteq> pe_SandboxID ev \<or> po_sandbox_generation oc \<noteq> pe_SandboxGeneration ev \<or>
     pe_SandboxFence ev < po_sandbox_fence oc \<or>
     po_execution_node_id oc \<noteq> pe_ExecutionNodeID ev \<or>
     po_node_capacity_generation oc \<noteq> pe_NodeCapacityGeneration ev \<or>
     po_release_operation_id oc \<noteq> [] \<and>
       (po_release_operation_id oc \<noteq> pe_ReleaseOperationID ev \<or>
        po_release_operation_digest oc \<noteq> Some (pe_ReleaseOperationDigest ev) \<or>
        po_reset_evidence_id oc \<noteq> pe_ResetEvidenceID ev \<or>
        po_reset_evidence_digest oc \<noteq> Some (pe_ResetEvidenceDigest ev))"

definition held_row :: "physical_release_evidence \<Rightarrow> physical_occupancy \<Rightarrow> bool" where
  "held_row ev oc \<longleftrightarrow>
     po_sandbox_lease_id oc = pe_SandboxLeaseID ev \<and> po_state oc = PhysicalOccupancyHeld"

definition release_occupancy :: "physical_release_evidence \<Rightarrow> physical_occupancy \<Rightarrow> physical_occupancy" where
  "release_occupancy ev oc =
     oc\<lparr>po_state := PhysicalOccupancyReleased, po_release_operation_id := pe_ReleaseOperationID ev,
        po_release_operation_digest := Some (pe_ReleaseOperationDigest ev),
        po_reset_evidence_id := pe_ResetEvidenceID ev,
        po_reset_evidence_digest := Some (pe_ResetEvidenceDigest ev)\<rparr>"

definition attached_node_row :: "physical_release_evidence \<Rightarrow> node_reservation \<Rightarrow> bool" where
  "attached_node_row ev r \<longleftrightarrow>
     node_row (pe_AdmissionGrantID ev) (pe_ExecutionNodeID ev) (pe_NodeCapacityGeneration ev)
       (pe_GrantGeneration ev) r \<and> nr_state r = ReservationLeaseAttached"

definition attached_grant_row :: "physical_release_evidence \<Rightarrow> admission_grant \<Rightarrow> bool" where
  "attached_grant_row ev g \<longleftrightarrow>
     ag_id g = pe_AdmissionGrantID ev \<and> ag_generation g = pe_GrantGeneration ev \<and>
     ag_state g = GrantLeaseAttached"

definition release_held :: "physical_release_evidence \<Rightarrow> sched_db \<Rightarrow> (sched_error + unit) \<times> sched_db" where
  "release_held ev db =
     (if rows_affected (held_row ev) (db_physical db) \<noteq> 1 then (Inl ErrorIntegrityConflict, db)
      else if rows_affected (attached_node_row ev) (db_node db) \<noteq> 1 then (Inl ErrorIntegrityConflict, db)
      else case common_logical_state db (pe_AdmissionGrantID ev) of
        None \<Rightarrow> (Inl ErrorIntegrityConflict, db)
      | Some logical \<Rightarrow>
          if rows_affected (attached_grant_row ev) (db_grants db) \<noteq> 1
          then (Inl ErrorIntegrityConflict, db)
          else (Inr (),
            db\<lparr>db_physical := update_rows (held_row ev) (release_occupancy ev) (db_physical db),
               db_node := update_rows (attached_node_row ev)
                 (\<lambda>r. r\<lparr>nr_state := ReservationReleased\<rparr>) (db_node db),
               db_grants := update_rows (attached_grant_row ev)
                 (\<lambda>g. g\<lparr>ag_state := if logical = ReservationReleased then GrantReleased
                                     else GrantLeaseAttached\<rparr>) (db_grants db)\<rparr>))"

definition ApplyPhysicalCapacityReleaseReady ::
    "(physical_release_evidence \<Rightarrow> bool) option \<Rightarrow> physical_release_evidence \<Rightarrow> sched_db \<Rightarrow>
     (sched_error + unit) \<times> sched_db" where
  "ApplyPhysicalCapacityReleaseReady runtime_check ev db =
     (if \<not> validPhysicalReleaseEvidence ev then (Inl ErrorInvalidRequest, db)
      else case runtime_check of
        None \<Rightarrow> (Inl ErrorDependencyUnavailable, db)
      | Some check \<Rightarrow>
          if \<not> check ev then (Inl ErrorIntegrityConflict, db)
          else case find_elem (\<lambda>oc. po_sandbox_lease_id oc = pe_SandboxLeaseID ev) (db_physical db) of
            None \<Rightarrow> (Inl ErrorIntegrityConflict, db)
          | Some oc \<Rightarrow>
              if physical_identity_conflict ev oc then (Inl ErrorIntegrityConflict, db)
              else if po_state oc = PhysicalOccupancyReleased then (Inr (), db)
              else if po_state oc \<noteq> PhysicalOccupancyHeld then (Inl ErrorIntegrityConflict, db)
              else release_held ev db)"

section \<open>Inspection\<close>

datatype query_scope = OwnerScope ident | AdministratorScope

definition scope_valid :: "query_scope \<Rightarrow> bool" where
  "scope_valid scope =
     (case scope of AdministratorScope \<Rightarrow> True | OwnerScope ws \<Rightarrow> sched_validOpaqueID ws)"

record work_item_view =
  wv_WorkItemID :: ident
  wv_OperationID :: ident
  wv_TaskID :: ident
  wv_PhaseRunID :: ident
  wv_RuntimeRunID :: ident
  wv_PayloadDigest :: digest
  wv_State :: nat
  wv_Grant :: "(AdmissionGrant \<times> nat) option"
  wv_LogicalReservation :: nat
  wv_SelectedNodeReservation :: nat
  wv_PhysicalOccupancy :: nat

definition scope_sees :: "query_scope \<Rightarrow> work_item \<Rightarrow> bool" where
  "scope_sees scope w =
     (case scope of AdministratorScope \<Rightarrow> True | OwnerScope ws \<Rightarrow> wi_personal_workspace_id w = ws)"

definition inspect_reservations :: "sched_db \<Rightarrow> AdmissionGrant \<Rightarrow> nat \<Rightarrow> sched_error + (nat \<times> nat \<times> nat)" where
  "inspect_reservations db grant state =
     (if filter (\<lambda>r. lr_grant_id r = gr_AdmissionGrantID grant) (db_logical db) = []
      then Inl ErrorDependencyUnavailable
      else case common_logical_state db (gr_AdmissionGrantID grant) of
        None \<Rightarrow> Inl ErrorIntegrityConflict
      | Some logical \<Rightarrow>
          (case node_state_of db (gr_AdmissionGrantID grant) of
             None \<Rightarrow> Inl ErrorDependencyUnavailable
           | Some node \<Rightarrow>
               Inr (logical, node,
                 if state \<in> {GrantLeaseAttached, GrantReleased}
                 then (case find_elem (\<lambda>oc. po_grant_id oc = gr_AdmissionGrantID grant) (db_physical db) of
                         None \<Rightarrow> PhysicalOccupancyNone | Some oc \<Rightarrow> po_state oc)
                 else PhysicalOccupancyNone)))"

definition Inspect :: "bool \<Rightarrow> ident \<Rightarrow> query_scope \<Rightarrow> sched_db \<Rightarrow> sched_error + work_item_view" where
  "Inspect ctx_live work_item_id scope db =
     (if \<not> ctx_live \<or> \<not> sched_validOpaqueID work_item_id \<or> \<not> scope_valid scope
      then Inl ErrorInvalidRequest
      else case find_elem (\<lambda>w. wi_id w = work_item_id \<and> scope_sees scope w) (db_work_items db) of
        None \<Rightarrow> Inl ErrorAuthorizationDenied
      | Some w \<Rightarrow>
          if length (wi_payload_digest w) \<noteq> 32 then Inl ErrorDependencyUnavailable
          else
            let view = \<lparr>wv_WorkItemID = wi_id w, wv_OperationID = wi_operation_id w,
                  wv_TaskID = wi_task_id w, wv_PhaseRunID = wi_phase_run_id w,
                  wv_RuntimeRunID = wi_runtime_run_id w, wv_PayloadDigest = wi_payload_digest w,
                  wv_State = wi_state w, wv_Grant = None, wv_LogicalReservation = 0,
                  wv_SelectedNodeReservation = 0, wv_PhysicalOccupancy = PhysicalOccupancyNone\<rparr>
            in (case sql_first (\<lambda>g. - int (unat (ag_generation g)))
                       (filter (\<lambda>g. ag_work_item_id g = work_item_id) (db_grants db)) of
                  None \<Rightarrow> Inr view
                | Some latest \<Rightarrow>
                    result_bind (loadGrant db work_item_id (ag_generation latest)) (\<lambda>(grant, state).
                    result_bind (inspect_reservations db grant state) (\<lambda>(logical, node, physical).
                      Inr (view\<lparr>wv_Grant := Some (grant, state), wv_LogicalReservation := logical,
                                wv_SelectedNodeReservation := node,
                                wv_PhysicalOccupancy := physical\<rparr>)))))"

end
