(* ===== verification/Sched_Capacity.thy ===== *)
theory Sched_Capacity
  imports Sched_Release
begin

text \<open>
  The capacity guarantee of the scheduler: the steps of the database are all its operations,
  at any arguments, and no sequence of them takes a logical counter over its configured limit
  or the configured node over its slots. Each operation is shown to leave the two occupancies
  alone, to lower them, or to raise them by one below the limit; the interface
  \<open>counted_admission\<close> of the prelude carries that to every reachable database.
\<close>

section \<open>Steps\<close>

inductive sched_step :: "sched_env \<Rightarrow> sched_db \<Rightarrow> sched_db \<Rightarrow> bool" for env where
  enqueue: "sched_step env db (snd (scheduler_enqueue_work_item p now db))"
| claim: "sched_step env db (snd (ClaimAndAdmit env live now db))"
| accept: "sched_step env db (snd (scheduler_accept_runtime_start a db))"
| attach: "sched_step env db (snd (scheduler_attach_runtime_lease t db))"
| cancel: "sched_step env db (snd (scheduler_accept_runtime_cancel op dg rr dec rv fen db))"
| fenced: "sched_step env db (snd (ApplyRuntimeFencedOrTerminal ev db))"
| no_lease: "sched_step env db (snd (ApplyNoLeasePhysicalDisposition ne db))"
| physical: "sched_step env db (snd (ApplyPhysicalCapacityReleaseReady check pe db))"

section \<open>Rows\<close>

lemma rows_affected_update_le:
  "(\<And>x. P x \<Longrightarrow> Q (f x) \<Longrightarrow> Q x) \<Longrightarrow> rows_affected Q (update_rows P f xs) \<le> rows_affected Q xs"
  unfolding rows_affected_update_rows by (rule rows_affected_mono) (auto split: if_splits)

lemma rows_affected_moved:
  "(\<And>x. P x \<Longrightarrow> Q x) \<Longrightarrow> (\<And>x. P x \<Longrightarrow> \<not> Q (f x)) \<Longrightarrow>
   rows_affected Q (update_rows P f xs) + rows_affected P xs = rows_affected Q xs"
  by (induction xs) (auto simp: update_rows_def rows_affected_def)

lemma rows_affected_untouched:
  "(\<And>x. P x \<Longrightarrow> Q (f x) = Q x) \<Longrightarrow> rows_affected Q (update_rows P f xs) = rows_affected Q xs"
  by (induction xs) (auto simp: update_rows_def rows_affected_def)

text \<open>The three tables the occupancies read.\<close>

abbreviation occupancy_tables where
  "occupancy_tables db \<equiv> (db_logical db, db_node db, db_physical db)"

lemma occupancy_cong:
  assumes "occupancy_tables db' = occupancy_tables db"
  shows "logicalReservationOccupancy db' kind key = logicalReservationOccupancy db kind key"
    and "nodeOccupancy db' node gen = nodeOccupancy db node gen"
  using assms by (simp_all add: logicalReservationOccupancy_def nodeOccupancy_def)

section \<open>Operations that leave both occupancies alone or lower them\<close>

definition no_more_occupied :: "sched_db \<Rightarrow> sched_db \<Rightarrow> bool" where
  "no_more_occupied db db' \<longleftrightarrow>
     (\<forall>kind key. logicalReservationOccupancy db' kind key \<le> logicalReservationOccupancy db kind key) \<and>
     (\<forall>node gen. nodeOccupancy db' node gen \<le> nodeOccupancy db node gen)"

lemma no_more_occupied_refl [simp]: "no_more_occupied db db"
  by (simp add: no_more_occupied_def)

lemma no_more_occupied_trans [trans]:
  "no_more_occupied a b \<Longrightarrow> no_more_occupied b c \<Longrightarrow> no_more_occupied a c"
  unfolding no_more_occupied_def by (meson le_trans)

lemma no_more_occupied_frame:
  "occupancy_tables db' = occupancy_tables db \<Longrightarrow> no_more_occupied db db'"
  using occupancy_cong [of db' db] by (simp add: no_more_occupied_def)

text \<open>
  Rewriting rows so that whatever counts afterwards counted before.
\<close>

lemma no_more_occupied_rewrite:
  assumes logical: "db_logical db' = update_rows PL fl (db_logical db)"
    and node: "db_node db' = update_rows PN fn (db_node db)"
    and physical: "db_physical db' = update_rows PP fp (db_physical db)"
    and l: "\<And>r kind key. PL r \<Longrightarrow> lr_counter_kind (fl r) = lr_counter_kind r \<and>
              lr_counter_key (fl r) = lr_counter_key r \<and>
              (lr_state (fl r) \<in> {ReservationReservedUnbound, ReservationBound} \<longrightarrow>
               lr_state r \<in> {ReservationReservedUnbound, ReservationBound})"
    and n: "\<And>r. PN r \<Longrightarrow> nr_execution_node_id (fn r) = nr_execution_node_id r \<and>
              nr_node_capacity_generation (fn r) = nr_node_capacity_generation r \<and>
              (nr_state (fn r) \<in> {ReservationReservedUnbound, ReservationBound} \<longrightarrow>
               nr_state r \<in> {ReservationReservedUnbound, ReservationBound})"
    and p: "\<And>r. PP r \<Longrightarrow> po_execution_node_id (fp r) = po_execution_node_id r \<and>
              po_node_capacity_generation (fp r) = po_node_capacity_generation r \<and>
              (po_state (fp r) = PhysicalOccupancyHeld \<longrightarrow> po_state r = PhysicalOccupancyHeld)"
  shows "no_more_occupied db db'"
  unfolding no_more_occupied_def logicalReservationOccupancy_def nodeOccupancy_def logical node physical
  by (intro conjI allI rows_affected_update_le add_mono) (use l n p in auto)

lemma update_rows_False [simp]: "update_rows (\<lambda>_. False) f xs = xs"
  by (simp add: update_rows_def)

lemma enqueue_occupancy:
  "no_more_occupied db (snd (scheduler_enqueue_work_item p now db))"
  by (rule no_more_occupied_frame)
    (simp add: scheduler_enqueue_work_item_def Let_def split: option.split)

lemma cancel_occupancy:
  "no_more_occupied db (snd (scheduler_accept_runtime_cancel op dg rr dec rv fen db))"
  by (rule no_more_occupied_frame) (simp add: scheduler_accept_runtime_cancel_def)

lemma accept_occupancy:
  "no_more_occupied db (snd (scheduler_accept_runtime_start a db))"
proof -
  have "no_more_occupied db (accept_updates a by db)" for "by"
    by (rule no_more_occupied_rewrite
          [where PL = "\<lambda>r. lr_grant_id r = ap_admission_grant_id a \<and>
                    lr_grant_generation r = ap_grant_generation a \<and> lr_state r = ReservationReservedUnbound"
             and fl = "\<lambda>r. r\<lparr>lr_state := ReservationBound\<rparr>"
             and PN = "\<lambda>r. nr_grant_id r = ap_admission_grant_id a \<and>
                    nr_grant_generation r = ap_grant_generation a \<and> nr_state r = ReservationReservedUnbound"
             and fn = "\<lambda>r. r\<lparr>nr_state := ReservationBound\<rparr>"
             and PP = "\<lambda>_. False" and fp = id])
      (simp_all add: accept_updates_def)
  then show ?thesis
    by (auto simp: scheduler_accept_runtime_start_def Let_def split: option.split)
qed

lemma terminal_evidence_tables:
  "lockAndValidateTerminalEvidence ev db = Inr (state, db1) \<Longrightarrow> occupancy_tables db1 = occupancy_tables db"
  by (auto simp: lockAndValidateTerminalEvidence_def split: option.splits if_splits)

lemma set_grant_state_tables [simp]:
  "db_logical (set_grant_state g n frm to db) = db_logical db"
  "db_node (set_grant_state g n frm to db) = db_node db"
  "db_physical (set_grant_state g n frm to db) = db_physical db"
  by (simp_all add: set_grant_state_def)

lemma set_grant_state_occupancy:
  "no_more_occupied before db \<Longrightarrow> no_more_occupied before (set_grant_state g n frm to db)"
  by (rule no_more_occupied_trans, assumption, rule no_more_occupied_frame) simp

lemma release_logical_occupancy: "no_more_occupied db (release_logical ev db)"
  by (rule no_more_occupied_rewrite
        [where PL = "fenced_logical_row ev" and fl = "\<lambda>r. r\<lparr>lr_state := ReservationReleased\<rparr>"
           and PN = "\<lambda>_. False" and fn = id and PP = "\<lambda>_. False" and fp = id])
    (simp_all add: release_logical_def)

lemma fenced_occupancy:
  "no_more_occupied db (snd (ApplyRuntimeFencedOrTerminal ev db))"
proof -
  have "no_more_occupied db (release_logical ev db1)"
    and "no_more_occupied db (set_grant_state g n frm to (release_logical ev db1))"
    if "lockAndValidateTerminalEvidence ev db = Inr (state, db1)" for state db1 g n frm to
  proof -
    have "no_more_occupied db db1"
      using terminal_evidence_tables [OF that] by (rule no_more_occupied_frame)
    also note release_logical_occupancy [of db1 ev]
    finally show "no_more_occupied db (release_logical ev db1)" .
    then show "no_more_occupied db (set_grant_state g n frm to (release_logical ev db1))"
      by (rule set_grant_state_occupancy)
  qed
  then show ?thesis
    by (auto simp: ApplyRuntimeFencedOrTerminal_def Let_def split: sum.split option.split)
qed

lemma no_lease_finish_occupancy:
  "no_more_occupied before db \<Longrightarrow> no_more_occupied before (snd (no_lease_finish ev before db))"
  unfolding no_lease_finish_def
  by (cases "common_logical_state db (fe_AdmissionGrantID (ne_base ev))")
    (simp_all only: option.case snd_conv set_grant_state_occupancy no_more_occupied_refl)

lemma no_lease_occupancy:
  "no_more_occupied db (snd (ApplyNoLeasePhysicalDisposition ne db))"
proof -
  have "no_more_occupied db (db1\<lparr>db_node := update_rows P (\<lambda>r. r\<lparr>nr_state := ReservationReleased\<rparr>) (db_node db1)\<rparr>)"
    if "lockAndValidateTerminalEvidence (ne_base ne) db = Inr (state, db1)" for state db1 P
  proof -
    have "no_more_occupied db db1"
      using terminal_evidence_tables [OF that] by (rule no_more_occupied_frame)
    also have "no_more_occupied db1 (db1\<lparr>db_node := update_rows P (\<lambda>r. r\<lparr>nr_state := ReservationReleased\<rparr>) (db_node db1)\<rparr>)"
      by (rule no_more_occupied_rewrite
            [where PL = "\<lambda>_. False" and fl = id and PN = P
               and fn = "\<lambda>r. r\<lparr>nr_state := ReservationReleased\<rparr>" and PP = "\<lambda>_. False" and fp = id])
        simp_all
    finally show ?thesis .
  qed
  then show ?thesis
    by (auto simp: ApplyNoLeasePhysicalDisposition_def Let_def split: sum.split
        intro!: no_lease_finish_occupancy)
qed

lemma physical_occupancy_released:
  "no_more_occupied db (snd (ApplyPhysicalCapacityReleaseReady check pe db))"
proof -
  have "no_more_occupied db (snd (release_held pe db))"
    unfolding release_held_def
    by (auto split: option.split intro!: no_more_occupied_rewrite
          [where PL = "\<lambda>_. False" and fl = id and PN = "attached_node_row pe"
             and fn = "\<lambda>r. r\<lparr>nr_state := ReservationReleased\<rparr>" and PP = "held_row pe"
             and fp = "release_occupancy pe"]
        simp: release_occupancy_def)
  then show ?thesis
    by (auto simp: ApplyPhysicalCapacityReleaseReady_def split: option.split)
qed

text \<open>
  Attaching a lease moves one unit of the node's occupancy from the reservation to the lease.
\<close>

lemma attach_occupancy_moved:
  assumes "rows_affected (attach_node_row t) (db_node db) = 1"
  shows "nodeOccupancy (attach_updates t db) node gen = nodeOccupancy db node gen"
proof -
  define counts :: "node_reservation \<Rightarrow> bool" where "counts = (\<lambda>r. nr_execution_node_id r = node \<and>
    nr_node_capacity_generation r = gen \<and> nr_state r \<in> {ReservationReservedUnbound, ReservationBound})"
  let ?moved = "\<lambda>r. r\<lparr>nr_state := ReservationLeaseAttached\<rparr>"
  show ?thesis
  proof (cases "node = at_execution_node_id t \<and> gen = at_node_capacity_generation t")
    case True
    have "rows_affected counts (update_rows (attach_node_row t) ?moved (db_node db)) +
          rows_affected (attach_node_row t) (db_node db) = rows_affected counts (db_node db)"
      by (rule rows_affected_moved) (use True in \<open>auto simp: counts_def attach_node_row_def\<close>)
    with assms True show ?thesis
      unfolding nodeOccupancy_def attach_updates_def counts_def [symmetric]
      by (simp add: attach_occupancy_def)
  next
    case False
    have "rows_affected counts (update_rows (attach_node_row t) ?moved (db_node db)) =
          rows_affected counts (db_node db)"
      by (rule rows_affected_untouched) (use False in \<open>auto simp: counts_def attach_node_row_def\<close>)
    with False show ?thesis
      unfolding nodeOccupancy_def attach_updates_def counts_def [symmetric]
      by (auto simp: attach_occupancy_def)
  qed
qed

lemma attach_occupancy_kept:
  "no_more_occupied db (snd (scheduler_attach_runtime_lease t db))"
proof -
  have "no_more_occupied db (attach_updates t db)"
    if "rows_affected (attach_node_row t) (db_node db) = 1"
    using attach_occupancy_moved [OF that]
    by (simp add: no_more_occupied_def logicalReservationOccupancy_def attach_updates_def)
  then show ?thesis
    by (auto simp: scheduler_attach_runtime_lease_def split: option.split)
qed

section \<open>Admission\<close>

definition node_slots :: "sched_env \<Rightarrow> ident \<times> u64 \<Rightarrow> nat" where
  "node_slots env slot =
     (if slot = (nc_ExecutionNodeID (ac_Node (se_admission env)),
                 nc_CapacityGeneration (ac_Node (se_admission env)))
      then nc_AvailableRuntimeSlots (ac_Node (se_admission env)) else 0)"

text \<open>Raised by at most one, and only where it was below its limit.\<close>

definition admitted_within :: "nat \<Rightarrow> nat \<Rightarrow> nat \<Rightarrow> bool" where
  "admitted_within limit before now \<longleftrightarrow> now \<le> before \<or> before < limit \<and> now \<le> Suc before"

lemma admitted_within_lower:
  "mid \<le> before \<Longrightarrow> admitted_within limit mid now \<Longrightarrow> admitted_within limit before now"
  by (auto simp: admitted_within_def)

definition admission_within :: "sched_env \<Rightarrow> sched_db \<Rightarrow> sched_db \<Rightarrow> bool" where
  "admission_within env db db' \<longleftrightarrow>
     (\<forall>kind key. admitted_within (counter_limit (ac_Limits (se_admission env)) kind)
        (logicalReservationOccupancy db kind key) (logicalReservationOccupancy db' kind key)) \<and>
     (\<forall>node gen. admitted_within (node_slots env (node, gen))
        (nodeOccupancy db node gen) (nodeOccupancy db' node gen))"

lemma admission_within_lower:
  "no_more_occupied db db1 \<Longrightarrow> admission_within env db1 db' \<Longrightarrow> admission_within env db db'"
  unfolding no_more_occupied_def admission_within_def by (meson admitted_within_lower)

lemma no_more_occupied_admission: "no_more_occupied db db' \<Longrightarrow> admission_within env db db'"
  by (simp add: no_more_occupied_def admission_within_def admitted_within_def)

lemma reserved_logical_occupancy:
  "rows_affected (\<lambda>r. lr_counter_kind r = kind \<and> lr_counter_key r = key \<and>
      lr_state r \<in> {ReservationReservedUnbound, ReservationBound}) (reserved_logical g e) =
   (if (kind, key) \<in> set (admission_counters e) then 1 else 0)"
  by (auto simp: reserved_logical_def admission_counters_def)

lemma reserve_updates_occupancy:
  "logicalReservationOccupancy (reserve_updates w e g db) kind key =
     logicalReservationOccupancy db kind key + (if (kind, key) \<in> set (admission_counters e) then 1 else 0)"
  "nodeOccupancy (reserve_updates w e g db) node gen =
     nodeOccupancy db node gen +
     (if node = ag_execution_node_id g \<and> gen = ag_node_capacity_generation g then 1 else 0)"
proof -
  have "db_logical (reserve_updates w e g db) = db_logical db @ reserved_logical g e"
    by (simp add: reserve_updates_def)
  then show "logicalReservationOccupancy (reserve_updates w e g db) kind key =
     logicalReservationOccupancy db kind key + (if (kind, key) \<in> set (admission_counters e) then 1 else 0)"
    unfolding logicalReservationOccupancy_def by (simp only: rows_affected_append reserved_logical_occupancy)
  show "nodeOccupancy (reserve_updates w e g db) node gen =
     nodeOccupancy db node gen +
     (if node = ag_execution_node_id g \<and> gen = ag_node_capacity_generation g then 1 else 0)"
    by (simp add: nodeOccupancy_def reserve_updates_def reserved_node_def)
qed

lemma draw_sequences_tables [simp]: "occupancy_tables (draw_sequences db) = occupancy_tables db"
  by (simp add: draw_sequences_def)

lemma reserveAdmission_within:
  assumes gate: "capacity_gate env e db = Inr ()"
  shows "admission_within env db (snd (reserveAdmission env w e now db))"
proof -
  let ?g = "reserved_grant env db w e now"
  have drawn: "no_more_occupied db (draw_sequences db)"
    by (rule no_more_occupied_frame) (rule draw_sequences_tables)
  have limits: "(kind, key) \<in> set (admission_counters e) \<Longrightarrow>
      logicalReservationOccupancy db kind key < counter_limit (ac_Limits (se_admission env)) kind"
    for kind key
    using gate by (auto simp: capacity_gate_def list_ex_iff split: if_splits)
  have slots: "nodeOccupancy db (ag_execution_node_id ?g) (ag_node_capacity_generation ?g)
      < node_slots env (ag_execution_node_id ?g, ag_node_capacity_generation ?g)"
    using gate by (auto simp: capacity_gate_def reserved_grant_def node_slots_def split: if_splits)
  have "admission_within env db (reserve_updates w e ?g (draw_sequences db))"
    unfolding admission_within_def reserve_updates_occupancy
      occupancy_cong [OF draw_sequences_tables [of db]]
    using limits slots by (auto simp: admitted_within_def)
  with no_more_occupied_admission [OF drawn] show ?thesis
    by (auto simp: reserveAdmission_def Let_def)
qed

lemma admit_fresh_within: "admission_within env db (snd (admit_fresh env w e now db))"
  using reserveAdmission_within [of env e db w now]
  by (auto simp: admit_fresh_def no_more_occupied_admission split: sum.split prod.split)

lemma expireUnboundGrant_occupancy:
  assumes "expireUnboundGrant w grant db = Inr db'"
  shows "no_more_occupied db db'"
  by (rule no_more_occupied_rewrite
        [where PL = "\<lambda>r. lr_grant_id r = gr_AdmissionGrantID grant \<and>
                  lr_grant_generation r = gr_Generation grant \<and> lr_state r = GrantReservedUnbound"
           and fl = "\<lambda>r. r\<lparr>lr_state := GrantReleased\<rparr>"
           and PN = "\<lambda>r. nr_grant_id r = gr_AdmissionGrantID grant \<and>
                  nr_grant_generation r = gr_Generation grant \<and> nr_state r = GrantReservedUnbound"
           and fn = "\<lambda>r. r\<lparr>nr_state := GrantReleased\<rparr>"
           and PP = "\<lambda>_. False" and fp = id])
    (use assms in \<open>auto simp: expireUnboundGrant_def split: if_splits\<close>)

lemma admit_work_within: "admission_within env db (snd (admit_work env w e now db))"
proof -
  have "admission_within env db (snd (admit_fresh env w' e now db'))"
    if "expireUnboundGrant w grant db = Inr db'" for grant w' db'
    using expireUnboundGrant_occupancy [OF that] admit_fresh_within by (rule admission_within_lower)
  then show ?thesis
    by (auto simp: admit_work_def no_more_occupied_admission admit_fresh_within
        split: sum.split prod.split)
qed

lemma rollback_tables [simp]: "occupancy_tables (rollback db db') = occupancy_tables db"
  by (simp add: rollback_def)

lemma ClaimAndAdmit_within: "admission_within env db (snd (ClaimAndAdmit env live now db))"
proof -
  have rolled: "admission_within env db (rollback db db')" for db'
    by (rule no_more_occupied_admission, rule no_more_occupied_frame) (rule rollback_tables)
  have "admission_within env db db'" if "admit_work env w e now db = (r, db')" for w e r db'
    using admit_work_within [of env db w e now] that by simp
  then show ?thesis
    using rolled by (auto simp: ClaimAndAdmit_def no_more_occupied_admission split: sum.split prod.split)
qed

lemma sched_step_within: "sched_step env db db' \<Longrightarrow> admission_within env db db'"
  by (induction rule: sched_step.induct)
    (auto intro: no_more_occupied_admission enqueue_occupancy cancel_occupancy accept_occupancy
      fenced_occupancy no_lease_occupancy physical_occupancy_released attach_occupancy_kept
      ClaimAndAdmit_within)

lemma sched_step_counters:
  assumes "sched_step env s t"
  shows "admitted_within (counter_limit (ac_Limits (se_admission env)) kind)
           (logicalReservationOccupancy s kind key) (logicalReservationOccupancy t kind key)"
    and "admitted_within (node_slots env (node, gen)) (nodeOccupancy s node gen) (nodeOccupancy t node gen)"
  using sched_step_within [OF assms] unfolding admission_within_def by blast+

section \<open>The two counters as counted admissions\<close>

interpretation logical_counters: counted_admission
  "\<lambda>db (kind, key). logicalReservationOccupancy db kind key"
  "\<lambda>(kind, key). counter_limit (ac_Limits (se_admission env)) kind"
  "sched_step env" for env
  by unfold_locales (use sched_step_counters(1) in \<open>simp add: admitted_within_def case_prod_beta\<close>)

interpretation node_counters: counted_admission
  "\<lambda>db (node, gen). nodeOccupancy db node gen" "node_slots env" "sched_step env" for env
  by unfold_locales
    (use sched_step_counters(2) in \<open>clarsimp simp: admitted_within_def split_paired_all\<close>)

text \<open>
  C11. Whatever operations the scheduler runs from an empty database, in any order and with any
  arguments, the reservations held against the site, a personal workspace, a worker class or a
  resource class never exceed the configured limit of that counter.
\<close>

theorem logical_counters_within_limits:
  assumes "(sched_step env)\<^sup>*\<^sup>* empty_db db"
  shows "logicalReservationOccupancy db kind key \<le> counter_limit (ac_Limits (se_admission env)) kind"
  using logical_counters.steps_within [OF assms, of "(kind, key)"]
  by (simp add: empty_db_def logicalReservationOccupancy_def)

text \<open>
  C26. Nor do the reservations and held leases of the configured execution node, at its
  configured capacity generation, exceed its runtime slots.
\<close>

theorem node_occupancy_within_slots:
  assumes "(sched_step env)\<^sup>*\<^sup>* empty_db db"
  shows "nodeOccupancy db (nc_ExecutionNodeID (ac_Node (se_admission env)))
           (nc_CapacityGeneration (ac_Node (se_admission env)))
         \<le> nc_AvailableRuntimeSlots (ac_Node (se_admission env))"
  using node_counters.steps_within [OF assms, of "(nc_ExecutionNodeID (ac_Node (se_admission env)),
      nc_CapacityGeneration (ac_Node (se_admission env)))"]
  by (simp add: empty_db_def nodeOccupancy_def node_slots_def)

end
