(* ===== verification/Sched_Delivery.thy ===== *)
theory Sched_Delivery
  imports Sched_Capacity
begin

text \<open>
  What the scheduler promises to its callers about a work item: which item is admitted next
  and in what order, that an item's binding never changes once enqueued and enqueueing is
  idempotent, and that a claim is delivered again unchanged until its grant expires.
\<close>

section \<open>Rows of the work item table\<close>

text \<open>The columns of a work item no operation writes after the insert.\<close>

definition work_binding :: "work_item \<Rightarrow> work_item" where
  "work_binding w =
     w\<lparr>wi_state := 0, wi_current_grant_generation := 0, wi_last_grant_generation := 0,
       wi_accepted_decision_id := [], wi_accepted_runtime_revision := 0,
       wi_accepted_runtime_fence := 0\<rparr>"

abbreviation bindings :: "sched_db \<Rightarrow> work_item list" where
  "bindings db \<equiv> map work_binding (db_work_items db)"

lemma bindings_update:
  "(\<And>w. P w \<Longrightarrow> work_binding (f w) = work_binding w) \<Longrightarrow>
   map work_binding (update_rows P f ws) = map work_binding ws"
  by (rule map_update_rows)

lemma wi_id_work_binding [simp]: "wi_id (work_binding w) = wi_id w"
  by (simp add: work_binding_def)

lemma wi_ids_bindings: "map wi_id (map work_binding ws) = map wi_id ws"
  by simp

lemma reserveAdmission_bindings:
  "bindings (snd (reserveAdmission env w e now db)) = bindings db"
  by (simp add: reserveAdmission_def Let_def reserve_updates_def draw_sequences_def
      bindings_update work_binding_def)

lemma admit_fresh_bindings: "bindings (snd (admit_fresh env w e now db)) = bindings db"
  using reserveAdmission_bindings [of env w e now db]
  by (auto simp: admit_fresh_def split: sum.split prod.split)

lemma expireUnboundGrant_bindings:
  "expireUnboundGrant w grant db = Inr db' \<Longrightarrow> bindings db' = bindings db"
  by (auto simp: expireUnboundGrant_def bindings_update work_binding_def split: if_splits)

lemma admit_work_bindings: "bindings (snd (admit_work env w e now db)) = bindings db"
proof -
  have "bindings (snd (admit_fresh env w' e now db')) = bindings db"
    if "expireUnboundGrant w grant db = Inr db'" for grant w' db'
    using expireUnboundGrant_bindings [OF that] admit_fresh_bindings [of env w' e now db'] by simp
  then show ?thesis
    by (auto simp: admit_work_def admit_fresh_bindings split: sum.split prod.split)
qed

lemma ClaimAndAdmit_bindings: "bindings (snd (ClaimAndAdmit env live now db)) = bindings db"
proof -
  have "bindings db' = bindings db" if "admit_work env w e now db = (r, db')" for w e r db'
    using admit_work_bindings [of env w e now db] that by simp
  then show ?thesis
    by (auto simp: ClaimAndAdmit_def rollback_def split: sum.split prod.split)
qed

lemma terminal_evidence_bindings:
  "lockAndValidateTerminalEvidence ev db = Inr (state, db1) \<Longrightarrow> db_work_items db1 = db_work_items db"
  by (auto simp: lockAndValidateTerminalEvidence_def split: option.splits if_splits)

lemma release_items [simp]:
  "db_work_items (set_grant_state g n frm to db) = db_work_items db"
  "db_work_items (release_logical ev db) = db_work_items db"
  by (simp_all add: set_grant_state_def release_logical_def)

text \<open>Only an enqueue adds a row; every other step keeps the bindings.\<close>

lemma enqueue_appends:
  "snd (scheduler_enqueue_work_item p now db) = db \<or>
   snd (scheduler_enqueue_work_item p now db)
     = db\<lparr>db_work_items := db_work_items db @ [enqueue_row p now]\<rparr> \<and>
   enqueue_row_allowed db (enqueue_row p now)"
  by (auto simp: scheduler_enqueue_work_item_def Let_def split: option.split)

lemma sched_step_bindings:
  assumes "sched_step env db db'"
  shows "bindings db' = bindings db \<or>
    (\<exists>w. bindings db' = bindings db @ [work_binding w] \<and> wi_id w \<notin> wi_id ` set (db_work_items db))"
  using assms
proof (cases rule: sched_step.cases)
  case (enqueue p now)
  then show ?thesis
    using enqueue_appends [of p now db] by (auto simp: enqueue_row_allowed_def)
next
  case (claim live now)
  then show ?thesis by (simp add: ClaimAndAdmit_bindings)
next
  case (accept a)
  then show ?thesis
    by (auto simp: scheduler_accept_runtime_start_def accept_updates_def Let_def bindings_update
        work_binding_def split: option.split)
next
  case (attach t)
  then show ?thesis
    by (auto simp: scheduler_attach_runtime_lease_def attach_updates_def split: option.split)
next
  case (cancel op dg rr dec rv fen)
  then show ?thesis
    by (auto simp: scheduler_accept_runtime_cancel_def bindings_update work_binding_def)
next
  case (fenced ev)
  then show ?thesis
    by (auto simp: ApplyRuntimeFencedOrTerminal_def Let_def terminal_evidence_bindings
        split: sum.split option.split)
next
  case (no_lease ne)
  then show ?thesis
    by (auto simp: ApplyNoLeasePhysicalDisposition_def no_lease_finish_def Let_def
        terminal_evidence_bindings split: sum.split option.split)
next
  case (physical check pe)
  then show ?thesis
    by (auto simp: ApplyPhysicalCapacityReleaseReady_def release_held_def split: option.split)
qed

lemma sched_steps_bindings:
  "(sched_step env)\<^sup>*\<^sup>* db db' \<Longrightarrow> \<exists>extra. bindings db' = bindings db @ extra"
proof (induction rule: rtranclp_induct)
  case base
  then show ?case by simp
next
  case (step y z)
  then show ?case using sched_step_bindings [OF step.hyps(2)] by auto
qed

lemma sched_steps_distinct:
  "(sched_step env)\<^sup>*\<^sup>* db db' \<Longrightarrow> distinct (map wi_id (db_work_items db)) \<Longrightarrow>
   distinct (map wi_id (db_work_items db'))"
proof (induction rule: rtranclp_induct)
  case base
  then show ?case by simp
next
  case (step y z)
  from sched_step_bindings [OF step.hyps(2)]
  have "map wi_id (bindings z) = map wi_id (bindings y) \<or>
    (\<exists>i. map wi_id (bindings z) = map wi_id (bindings y) @ [i] \<and> i \<notin> wi_id ` set (db_work_items y))"
    by (elim disjE exE conjE) (simp only: simp_thms, simp only: map_append list.map wi_id_work_binding, blast)
  with step show ?case unfolding wi_ids_bindings by auto
qed

lemma reachable_distinct:
  "(sched_step env)\<^sup>*\<^sup>* empty_db db \<Longrightarrow> distinct (map wi_id (db_work_items db))"
  using sched_steps_distinct [of env empty_db db] by (simp add: empty_db_def)

section \<open>Enqueueing is idempotent\<close>

definition enqueued_binding :: "sched_db \<Rightarrow> enqueue_request \<times> int \<Rightarrow> unit option" where
  "enqueued_binding db q =
     (case find_elem (\<lambda>w. wi_operation_id w = eq_operation_id (fst q)) (db_work_items db) of
        None \<Rightarrow> None
      | Some w \<Rightarrow> if enqueue_binding_matches (fst q) w then Some () else None)"

lemma find_elem_append:
  "find_elem P (xs @ ys) = (case find_elem P xs of None \<Rightarrow> find_elem P ys | Some x \<Rightarrow> Some x)"
  by (induction xs) simp_all

lemma enqueue_matches_binding:
  "enqueue_binding_matches p (work_binding w) = enqueue_binding_matches p w"
  by (simp add: enqueue_binding_matches_def work_binding_def)

lemma find_elem_bindings:
  "map_option work_binding (find_elem (\<lambda>w. wi_operation_id w = k) ws)
     = find_elem (\<lambda>w. wi_operation_id w = k) (map work_binding ws)"
  by (induction ws) (simp_all add: work_binding_def)

lemma enqueued_binding_alt:
  "enqueued_binding db q =
     (case find_elem (\<lambda>w. wi_operation_id w = eq_operation_id (fst q)) (bindings db) of
        None \<Rightarrow> None
      | Some w \<Rightarrow> if enqueue_binding_matches (fst q) w then Some () else None)"
  unfolding enqueued_binding_def find_elem_bindings [symmetric]
  by (cases "find_elem (\<lambda>w. wi_operation_id w = eq_operation_id (fst q)) (db_work_items db)")
    (simp_all add: enqueue_matches_binding)

lemma enqueued_binding_prefix:
  "bindings db' = bindings db @ extra \<Longrightarrow> enqueued_binding db q = Some u \<Longrightarrow>
   enqueued_binding db' q = Some u"
  unfolding enqueued_binding_alt
  by (cases "find_elem (\<lambda>w. wi_operation_id w = eq_operation_id (fst q)) (bindings db)")
    (simp_all add: find_elem_append)

lemma enqueue_replays:
  "enqueued_binding db (p, now) = Some u \<Longrightarrow> scheduler_enqueue_work_item p now' db = (Inr (), db)"
  by (auto simp: enqueued_binding_def scheduler_enqueue_work_item_def Let_def
      split: option.splits if_splits)

lemma enqueue_records:
  "scheduler_enqueue_work_item p now db = (Inr (), db') \<Longrightarrow> enqueued_binding db' (p, now') = Some ()"
  by (auto simp: enqueued_binding_def scheduler_enqueue_work_item_def Let_def
      split: option.splits if_splits)

interpretation enqueue_command: replayed_command
  "\<lambda>(p, now). scheduler_enqueue_work_item p now" enqueued_binding
proof
  fix q :: "enqueue_request \<times> int" and db db' r
  assume "(case q of (p, now) \<Rightarrow> scheduler_enqueue_work_item p now) db = (Inr r, db')"
  then show "enqueued_binding db' q = Some r"
    by (cases q) (auto dest: enqueue_records)
next
  fix q q' :: "enqueue_request \<times> int" and db db' r out
  assume kept: "enqueued_binding db q = Some r"
    and ran: "(case q' of (p, now) \<Rightarrow> scheduler_enqueue_work_item p now) db = (out, db')"
  obtain p now where "q' = (p, now)" by (cases q')
  with ran have "bindings db' = bindings db @ [] \<or> bindings db' = bindings db @ [work_binding (enqueue_row p now)]"
    using enqueue_appends [of p now db] by auto
  then obtain extra where "bindings db' = bindings db @ extra" by blast
  then show "enqueued_binding db' q = Some r" using kept by (rule enqueued_binding_prefix)
next
  fix q :: "enqueue_request \<times> int" and db r
  assume "enqueued_binding db q = Some r"
  then show "(case q of (p, now) \<Rightarrow> scheduler_enqueue_work_item p now) db = (Inr r, db)"
    by (cases q) (auto dest: enqueue_replays)
qed

text \<open>
  C27. Enqueueing is idempotent for good: once a request was accepted, the same request at any
  later time, after any operations of the scheduler, succeeds and changes nothing; and a
  request that reuses the operation identifier with any other argument is refused and changes
  nothing.
\<close>

theorem enqueue_is_idempotent:
  assumes "scheduler_enqueue_work_item p now db = (Inr (), db1)"
    and "(sched_step env)\<^sup>*\<^sup>* db1 db2"
    and "eq_operation_id q = eq_operation_id p"
  shows "scheduler_enqueue_work_item q now' db2 =
    (if q = p then Inr () else Inl ErrorIntegrityConflict, db2)"
proof -
  obtain extra where "bindings db2 = bindings db1 @ extra"
    using sched_steps_bindings [OF assms(2)] by blast
  then have recorded: "enqueued_binding db2 (p, now) = Some ()"
    using enqueue_records [OF assms(1)] by (rule enqueued_binding_prefix)
  then obtain w where w: "find_elem (\<lambda>w. wi_operation_id w = eq_operation_id p) (db_work_items db2) = Some w"
    and matches: "enqueue_binding_matches p w"
    by (auto simp: enqueued_binding_def split: option.splits if_splits)
  have op: "wi_operation_id w = eq_operation_id p" using find_elem_Some [OF w] by simp
  show ?thesis
  proof (cases "q = p")
    case True
    with enqueue_command.replays [OF recorded] enqueue_replays [OF recorded] show ?thesis by simp
  next
    case False
    then have "\<not> enqueue_binding_matches q w"
      using matches assms(3) unfolding enqueue_binding_matches_def
      by (auto intro: enqueue_request.equality)
    with False w assms(3) show ?thesis by (simp add: scheduler_enqueue_work_item_def)
  qed
qed

section \<open>The next item\<close>

text \<open>
  C28. The item a claim locks is the oldest one in delivery, if there is any. Otherwise it is
  a queued start whose personal workspace is below its limit, and workspaces take turns: it is
  in the next workspace, in the order of identifiers, after the one admitted last that has such
  an item (in the first one when there is none after it), and no such item of the same
  workspace was enqueued before it.
\<close>

theorem admission_candidate_is_fair:
  assumes "lockAdmissionCandidate env db = Inr w"
  shows "if delivering_candidates db \<noteq> []
    then w \<in> set (delivering_candidates db) \<and>
         (\<forall>v \<in> set (delivering_candidates db). wi_enqueued_at w \<le> wi_enqueued_at v)
    else w \<in> set (queued_candidates (ac_Limits (se_admission env)) db) \<and>
         logicalReservationOccupancy db 2 (wi_personal_workspace_id w)
           < al_PersonalWorkspace (ac_Limits (se_admission env)) \<and>
         (\<forall>v \<in> set (queued_candidates (ac_Limits (se_admission env)) db).
            (wi_personal_workspace_id v = wi_personal_workspace_id w \<longrightarrow>
               wi_enqueued_at w \<le> wi_enqueued_at v) \<and>
            (wi_personal_workspace_id v > db_last_workspace db \<longrightarrow>
               wi_personal_workspace_id w > db_last_workspace db \<and>
               wi_personal_workspace_id w \<le> wi_personal_workspace_id v) \<and>
            (wi_personal_workspace_id w \<le> db_last_workspace db \<longrightarrow>
               wi_personal_workspace_id w \<le> wi_personal_workspace_id v))"
proof (cases "delivering_candidates db = []")
  case False
  with assms have "sql_first (\<lambda>w. (wi_enqueued_at w, wi_id w)) (delivering_candidates db) = Some w"
    by (auto simp: lockAdmissionCandidate_def split: option.splits if_splits)
  from sql_first_Some [OF this] False show ?thesis by auto
next
  case True
  let ?queued = "queued_candidates (ac_Limits (se_admission env)) db"
  from True assms have first: "sql_first (fairness_key (db_last_workspace db)) ?queued = Some w"
    by (auto simp: lockAdmissionCandidate_def sql_first_def split: option.splits list.splits if_splits)
  have w: "w \<in> set ?queued" by (rule sql_first_Some(1) [OF first])
  have least: "fairness_key (db_last_workspace db) w \<le> fairness_key (db_last_workspace db) v"
    if "v \<in> set ?queued" for v
    using sql_first_Some(2) [OF first] that by blast
  show ?thesis
    using True w least
    by (fastforce simp: fairness_key_def queued_candidates_def split: if_splits)
qed

end
