(* ===== verification/Sched_Redelivery.thy ===== *)
theory Sched_Redelivery
  imports Sched_Delivery
begin

text \<open>
  Redelivery: a claim whose delivery was lost is answered again. The admission that produced a
  decision leaves the work item in delivery, first in line, with a grant that the next claim
  finds and returns unchanged until it expires.
\<close>

section \<open>The first row under a rewriting\<close>

lemma insort_key_map:
  "(\<And>x. key (f x) = key x) \<Longrightarrow> insort_key key (f x) (map f xs) = map f (insort_key key x xs)"
  by (induction xs) auto

lemma sort_key_map: "(\<And>x. key (f x) = key x) \<Longrightarrow> sort_key key (map f xs) = map f (sort_key key xs)"
  by (induction xs) (simp_all add: insort_key_map)

lemma sql_first_map:
  "(\<And>x. key (f x) = key x) \<Longrightarrow> sql_first key (map f xs) = map_option f (sql_first key xs)"
  by (simp add: sql_first_def sort_key_map split: list.split)

text \<open>Rewriting the row of one item.\<close>

definition put_item :: "work_item \<Rightarrow> work_item list \<Rightarrow> work_item list" where
  "put_item w ws = map (\<lambda>r. if wi_id r = wi_id w then w else r) ws"

lemma update_rows_put_item:
  assumes "distinct (map wi_id ws)" and "w \<in> set ws" and "P w" and "\<And>r. P r \<Longrightarrow> wi_id r = wi_id w"
    and "wi_id (f w) = wi_id w"
  shows "update_rows P f ws = put_item (f w) ws"
proof -
  have "r = w" if "r \<in> set ws" "wi_id r = wi_id w" for r
    using assms(1,2) that by (metis distinct_map inj_on_def)
  then have "(if P r then f r else r) = (if wi_id r = wi_id (f w) then f w else r)" if "r \<in> set ws" for r
    using that assms(3-5) by metis
  then show ?thesis by (simp add: update_rows_def put_item_def)
qed

lemma put_item_ids [simp]: "map wi_id (put_item w ws) = map wi_id ws"
  by (simp add: put_item_def)

lemma put_item_twice [simp]: "wi_id w = wi_id v \<Longrightarrow> put_item w (put_item v ws) = put_item w ws"
  by (simp add: put_item_def)

lemma put_item_member: "w \<in> set ws \<Longrightarrow> wi_id v = wi_id w \<Longrightarrow> v \<in> set (put_item v ws)"
  by (force simp: put_item_def)

lemma row_selected_once:
  assumes "distinct (map wi_id ws)" and "w \<in> set ws" and "rows_affected P ws = 1"
    and "\<And>r. P r \<Longrightarrow> wi_id r = wi_id w"
  shows "P w"
proof -
  from assms(3) have "filter P ws \<noteq> []" by (auto simp: rows_affected_def)
  then obtain r where "r \<in> set ws" "P r" by (meson filter_False)
  with assms show ?thesis by (metis distinct_map inj_on_def)
qed

section \<open>Two admissions\<close>

abbreviation claimable :: "work_item \<Rightarrow> bool" where
  "claimable w \<equiv> wi_state w = WorkItemDelivering \<and> wi_runtime_request_kind w = 1 \<and>
     length (wi_canonical_payload w) > 0"

text \<open>Everything a decision takes from the work item's row.\<close>

definition same_claim :: "work_item \<Rightarrow> work_item \<Rightarrow> bool" where
  "same_claim v w \<longleftrightarrow> work_binding v = work_binding w"

lemma work_binding_fields:
  "wi_enqueued_at (work_binding w) = wi_enqueued_at w"
  "wi_canonical_payload (work_binding w) = wi_canonical_payload w"
  "wi_runtime_request_kind (work_binding w) = wi_runtime_request_kind w"
  "wi_payload_digest (work_binding w) = wi_payload_digest w"
  "wi_operation_id (work_binding w) = wi_operation_id w"
  "wi_personal_workspace_id (work_binding w) = wi_personal_workspace_id w"
  "wi_task_id (work_binding w) = wi_task_id w"
  "wi_phase_run_id (work_binding w) = wi_phase_run_id w"
  "wi_runtime_run_id (work_binding w) = wi_runtime_run_id w"
  by (simp_all add: work_binding_def)

lemma work_binding_claim:
  "validateCanonicalWork env (work_binding w) = validateCanonicalWork env w"
  "admissionDecision ok (work_binding w) g = admissionDecision ok w g"
  unfolding validateCanonicalWork_def admissionDecision_def work_binding_fields wi_id_work_binding
  by (rule refl)+

lemma same_claim_fields:
  assumes "same_claim v w"
  shows "wi_id v = wi_id w" and "wi_enqueued_at v = wi_enqueued_at w"
    and "wi_canonical_payload v = wi_canonical_payload w"
    and "wi_runtime_request_kind v = wi_runtime_request_kind w"
    and "wi_payload_digest v = wi_payload_digest w"
    and "validateCanonicalWork env v = validateCanonicalWork env w"
    and "admissionDecision ok v g = admissionDecision ok w g"
  using assms unfolding same_claim_def by (metis wi_id_work_binding work_binding_fields work_binding_claim)+

definition delivered_again :: "work_item \<Rightarrow> admission_grant \<Rightarrow> work_item" where
  "delivered_again w g =
     w\<lparr>wi_state := WorkItemDelivering, wi_current_grant_generation := ag_generation g,
       wi_last_grant_generation := ag_generation g\<rparr>"

lemma reserveAdmission_result:
  assumes "reserveAdmission env w e now db = (Inr grant, db')"
    and "distinct (map wi_id (db_work_items db))" and "w \<in> set (db_work_items db)"
  obtains g where "grant = grant_value g" and "ag_state g = GrantReservedUnbound"
    and "ag_work_item_id g = wi_id w" and "ag_generation g > 0"
    and "db_grants db' = db_grants db @ [g]"
    and "(wi_id w, ag_generation g) \<notin> (\<lambda>h. (ag_work_item_id h, ag_generation h)) ` set (db_grants db)"
    and "db_work_items db' = put_item (delivered_again w g) (db_work_items db)"
proof
  let ?g = "reserved_grant env db w e now"
  from assms(1) have db': "db' = reserve_updates w e ?g (draw_sequences db)"
    and allowed: "reservation_rows_allowed db ?g"
    and once: "rows_affected (delivering_row w) (db_work_items db) = 1"
    by (auto simp: reserveAdmission_def Let_def split: if_splits)
  have "delivering_row w w"
    using row_selected_once [OF assms(2,3) once] by (simp add: delivering_row_def)
  then have "update_rows (delivering_row w)
      (\<lambda>row. row\<lparr>wi_state := WorkItemDelivering, wi_current_grant_generation := ag_generation ?g,
                wi_last_grant_generation := ag_generation ?g\<rparr>) (db_work_items db)
    = put_item (delivered_again w ?g) (db_work_items db)"
    unfolding delivered_again_def
    by (intro update_rows_put_item assms) (simp_all add: delivering_row_def)
  then show "db_work_items db' = put_item (delivered_again w ?g) (db_work_items db)"
    by (simp add: db' reserve_updates_def draw_sequences_def)
  show "grant = grant_value ?g"
    using assms(1) by (auto simp: reserveAdmission_def Let_def split: if_splits)
  show "db_grants db' = db_grants db @ [?g]"
    by (simp add: db' reserve_updates_def draw_sequences_def)
  show "ag_generation ?g > 0" and
    "(wi_id w, ag_generation ?g) \<notin> (\<lambda>h. (ag_work_item_id h, ag_generation h)) ` set (db_grants db)"
    using allowed by (auto simp: reservation_rows_allowed_def bigint_positive_def reserved_grant_def)
  show "ag_state ?g = GrantReservedUnbound" "ag_work_item_id ?g = wi_id w"
    by (simp_all add: reserved_grant_def)
qed

lemma loadGrant_reserved:
  assumes "ag_work_item_id g = item"
    and "(item, ag_generation g) \<notin> (\<lambda>h. (ag_work_item_id h, ag_generation h)) ` set gs"
    and "db_grants db' = gs @ [g]"
  shows "loadGrant db' item (ag_generation g) = Inr (grant_value g, ag_state g)"
proof -
  have "find_elem (\<lambda>h. ag_work_item_id h = item \<and> ag_generation h = ag_generation g) gs = None"
    using assms(2) by (auto simp: find_elem_None image_iff)
  with assms(1,3) show ?thesis by (simp add: loadGrant_def find_elem_append)
qed

text \<open>What a fresh admission leaves behind.\<close>

lemma admit_fresh_result:
  assumes "admit_fresh env w e now db = (Inr d, db')"
    and "distinct (map wi_id (db_work_items db))" and "w \<in> set (db_work_items db)"
  obtains g where "d = admissionDecision runtime_validOpaqueID w (grant_value g)"
    and "ag_generation g > 0" and "ag_state g = GrantReservedUnbound"
    and "loadGrant db' (wi_id w) (ag_generation g) = Inr (grant_value g, ag_state g)"
    and "db_work_items db' = put_item (delivered_again w g) (db_work_items db)"
proof -
  from assms(1) obtain grant where r: "reserveAdmission env w e now db = (Inr grant, db')"
    and d: "d = admissionDecision runtime_validOpaqueID w grant"
    by (auto simp: admit_fresh_def split: if_splits sum.splits prod.splits)
  obtain g where "grant = grant_value g" "ag_state g = GrantReservedUnbound"
    "ag_work_item_id g = wi_id w" "ag_generation g > 0"
    "db_grants db' = db_grants db @ [g]"
    "(wi_id w, ag_generation g) \<notin> (\<lambda>h. (ag_work_item_id h, ag_generation h)) ` set (db_grants db)"
    "db_work_items db' = put_item (delivered_again w g) (db_work_items db)"
    by (rule reserveAdmission_result [OF r assms(2,3)])
  with d loadGrant_reserved show ?thesis by (intro that [of g]) auto
qed

text \<open>The candidate is a row; it is in delivery when it has a current grant to repeat.\<close>

lemma candidate_row:
  "lockAdmissionCandidate env db = Inr w \<Longrightarrow> w \<in> set (db_work_items db) \<and> wi_runtime_request_kind w = 1 \<and>
     length (wi_canonical_payload w) > 0 \<and> length (wi_payload_digest w) = 32"
  by (auto simp: lockAdmissionCandidate_def delivering_candidates_def queued_candidates_def
      split: option.splits if_splits dest!: sql_first_Some(1))

lemma candidate_cases:
  assumes "lockAdmissionCandidate env db = Inr w"
  shows "delivering_candidates db = [] \<and> wi_state w = WorkItemQueued \<or>
    sql_first (\<lambda>w. (wi_enqueued_at w, wi_id w)) (delivering_candidates db) = Some w \<and>
    wi_state w = WorkItemDelivering"
  using assms
  by (auto simp: lockAdmissionCandidate_def queued_candidates_def delivering_candidates_def
      split: option.splits if_splits dest: sql_first_Some(1))

text \<open>After an admission the same item is the candidate.\<close>

lemma candidate_after:
  assumes locked: "lockAdmissionCandidate env db = Inr w"
    and items: "db_work_items db' = put_item v (db_work_items db)"
    and distinct: "distinct (map wi_id (db_work_items db))"
    and v: "same_claim v w" "wi_state v = WorkItemDelivering"
  shows "lockAdmissionCandidate env db' = Inr v"
proof -
  let ?key = "\<lambda>w. (wi_enqueued_at w, wi_id w)"
  let ?put = "\<lambda>r. if r = w then v else r"
  note row = candidate_row [OF locked] and fields = same_claim_fields [OF v(1)]
  have rows: "db_work_items db' = map ?put (db_work_items db)"
    unfolding items put_item_def using row distinct fields(1)
    by (auto simp: distinct_map inj_on_def)
  have v_claimable: "claimable v" using row fields v(2) by simp
  have "sql_first ?key (delivering_candidates db') = Some v"
    using candidate_cases [OF locked]
  proof
    assume queued: "delivering_candidates db = [] \<and> wi_state w = WorkItemQueued"
    have none: "filter claimable (map ?put rs) = []" if "set rs \<subseteq> set (db_work_items db) - {w}" for rs
      using that queued by (auto simp: delivering_candidates_def filter_empty_conv)
    obtain xs ys where split: "db_work_items db = xs @ w # ys"
      using row by (meson split_list)
    have "w \<notin> set xs" "w \<notin> set ys" using distinct split by auto
    then have "filter claimable (map ?put xs) = []" "filter claimable (map ?put ys) = []"
      using none [of xs] none [of ys] unfolding split by (simp_all add: subset_Diff_insert)
    moreover have "delivering_candidates db' =
        filter claimable (map ?put xs) @ filter claimable [v] @ filter claimable (map ?put ys)"
      unfolding delivering_candidates_def rows split by simp
    ultimately have "delivering_candidates db' = [v]" using v_claimable by simp
    then show ?thesis by (simp add: sql_first_def)
  next
    assume first: "sql_first ?key (delivering_candidates db) = Some w \<and> wi_state w = WorkItemDelivering"
    have "delivering_candidates db' = map ?put (delivering_candidates db)"
      using v_claimable row first
      by (auto simp: delivering_candidates_def rows filter_map o_def
          intro!: arg_cong [where f = "map ?put"] filter_cong)
    then have "sql_first ?key (delivering_candidates db') = map_option ?put (sql_first ?key (delivering_candidates db))"
      using fields by (simp only:) (rule sql_first_map, simp)
    with first show ?thesis by simp
  qed
  then show ?thesis
    using row fields by (simp add: lockAdmissionCandidate_def)
qed

section \<open>Redelivery\<close>

text \<open>
  What a successful claim leaves: the item of the decision, in delivery and locked next, with
  the grant of the decision current and reserved.
\<close>

lemma admit_fresh_again:
  assumes locked: "lockAdmissionCandidate env db = Inr w"
    and distinct: "distinct (map wi_id (db_work_items db))"
    and ok: "admit_fresh env w1 e now db1 = (Inr d, db')"
    and items: "db_work_items db1 = put_item w1 (db_work_items db)"
    and w1: "same_claim w1 w"
  obtains v grant where "same_claim v w" and "lockAdmissionCandidate env db' = Inr v"
    and "wi_current_grant_generation v > 0"
    and "loadGrant db' (wi_id v) (wi_current_grant_generation v) = Inr (grant, GrantReservedUnbound)"
    and "d = admissionDecision runtime_validOpaqueID w grant"
proof -
  note row = candidate_row [OF locked] and result = that
  note fields = same_claim_fields [OF w1]
  have "distinct (map wi_id (db_work_items db1))" and "w1 \<in> set (db_work_items db1)"
    using distinct row put_item_member [of w _ w1] fields(1) unfolding items by simp_all
  from admit_fresh_result [OF ok this] obtain g where g:
    "d = admissionDecision runtime_validOpaqueID w1 (grant_value g)" "ag_generation g > 0"
    "ag_state g = GrantReservedUnbound"
    "loadGrant db' (wi_id w1) (ag_generation g) = Inr (grant_value g, ag_state g)"
    "db_work_items db' = put_item (delivered_again w1 g) (db_work_items db1)" by blast
  let ?v = "delivered_again w1 g"
  have v: "same_claim ?v w" "wi_state ?v = WorkItemDelivering" "wi_id ?v = wi_id w1"
    "wi_current_grant_generation ?v = ag_generation g"
    using w1 by (simp_all add: delivered_again_def same_claim_def work_binding_def)
  have "db_work_items db' = put_item ?v (db_work_items db)"
    using g(5) v(3) unfolding items by simp
  then have "lockAdmissionCandidate env db' = Inr ?v"
    by (rule candidate_after [OF locked _ distinct v(1,2)])
  then show ?thesis
    using g v fields by (intro result [of ?v "grant_value g"]) simp_all
qed

lemma admit_work_result:
  assumes ok: "admit_work env w e now db = (Inr d, db')"
    and locked: "lockAdmissionCandidate env db = Inr w"
    and distinct: "distinct (map wi_id (db_work_items db))"
  obtains v grant where "same_claim v w" and "lockAdmissionCandidate env db' = Inr v"
    and "wi_current_grant_generation v > 0"
    and "loadGrant db' (wi_id v) (wi_current_grant_generation v) = Inr (grant, GrantReservedUnbound)"
    and "d = admissionDecision runtime_validOpaqueID w grant"
proof -
  note row = candidate_row [OF locked] and result = that
  note fresh = admit_fresh_again [OF locked distinct _ _ _ that]
  have self: "put_item w (db_work_items db) = db_work_items db"
    using row distinct by (auto simp: put_item_def distinct_map inj_on_def intro!: map_idI)
  show ?thesis
  proof (cases "wi_current_grant_generation w > 0")
    case False
    with ok have "admit_fresh env w e now db = (Inr d, db')" by (simp add: admit_work_def)
    then show ?thesis by (rule fresh) (simp_all only: self same_claim_def)
  next
    case True
    with ok obtain grant where loaded:
      "loadGrant db (wi_id w) (wi_current_grant_generation w) = Inr (grant, GrantReservedUnbound)"
      by (auto simp: admit_work_def split: sum.splits prod.splits if_splits)
    show ?thesis
    proof (cases "now < gr_ExpiresAt grant")
      case live: True
      with ok True loaded have "d = admissionDecision runtime_validOpaqueID w grant" "db' = db"
        by (simp_all add: admit_work_def)
      with True loaded locked show ?thesis by (intro result [of w grant]) (simp_all add: same_claim_def)
    next
      case False
      let ?w1 = "w\<lparr>wi_state := WorkItemQueued, wi_current_grant_generation := 0\<rparr>"
      from ok True loaded False obtain db1 where expired: "expireUnboundGrant w grant db = Inr db1"
        and "admit_fresh env ?w1 e now db1 = (Inr d, db')"
        by (auto simp: admit_work_def split: sum.splits)
      from this(2) show ?thesis
      proof (rule fresh)
        have once: "rows_affected (expiring_work_row w grant) (db_work_items db) = 1"
          using expired by (auto simp: expireUnboundGrant_def split: if_splits)
        have "expiring_work_row w grant w"
          using row_selected_once [OF distinct _ once] row by (simp add: expiring_work_row_def)
        then have "update_rows (expiring_work_row w grant)
            (\<lambda>row. row\<lparr>wi_state := WorkItemQueued, wi_current_grant_generation := 0\<rparr>) (db_work_items db)
          = put_item ?w1 (db_work_items db)"
          using row by (intro update_rows_put_item distinct) (simp_all add: expiring_work_row_def)
        with expired show "db_work_items db1 = put_item ?w1 (db_work_items db)"
          by (auto simp: expireUnboundGrant_def split: if_splits)
        show "same_claim ?w1 w" by (simp add: same_claim_def work_binding_def)
      qed
    qed
  qed
qed

text \<open>
  A claim repeated before the grant of its decision has expired, while the node's facts
  still allow it, is answered with the same decision and changes nothing: a lost reply costs
  neither a second grant nor a second unit of capacity.
\<close>

theorem claim_is_redelivered:
  assumes "(sched_step env)\<^sup>*\<^sup>* empty_db db"
    and "ClaimAndAdmit env True now db = (Inr d, db')"
    and "now' < gr_ExpiresAt (ad_Grant d)" and "node_fact_gate env now' = Inr ()"
  shows "ClaimAndAdmit env True now' db' = (Inr d, db')"
proof -
  note distinct = reachable_distinct [OF assms(1)]
  from assms(2) obtain w e where locked: "lockAdmissionCandidate env db = Inr w"
    and valid: "validateCanonicalWork env w = Inr e" and ok: "admit_work env w e now db = (Inr d, db')"
    by (auto simp: ClaimAndAdmit_def claim_checked_def result_simps split: sum.splits prod.splits)
  obtain v grant where v: "same_claim v w" "lockAdmissionCandidate env db' = Inr v"
    "wi_current_grant_generation v > 0"
    "loadGrant db' (wi_id v) (wi_current_grant_generation v) = Inr (grant, GrantReservedUnbound)"
    "d = admissionDecision runtime_validOpaqueID w grant"
    by (rule admit_work_result [OF ok locked distinct])
  have "now' < gr_ExpiresAt grant" using assms(3) v(5) by (simp add: admissionDecision_def)
  with v assms(4) valid same_claim_fields [OF v(1)] show ?thesis
    by (simp add: ClaimAndAdmit_def claim_checked_def admit_work_def)
qed

end
