(* ===== verification/Sched_Lifecycle.thy ===== *)
theory Sched_Lifecycle
  imports Sched_Capacity
begin

text \<open>
  The life of an admission grant across the grant table and the two reservation tables. Every
  operation touches the rows of one grant; the rows of a grant form a group, and in every
  reachable database each group is one of ten combinations of states. From it follow the
  transition table of grants, that a finished grant holds no capacity, and the order
  (in)dependence of the evidence that ends a grant.
\<close>

section \<open>The group of a grant\<close>

type_synonym grant_group =
  "admission_grant list \<times> logical_reservation list \<times> node_reservation list"

definition group_of :: "sched_db \<Rightarrow> ident \<Rightarrow> grant_group" where
  "group_of db gid =
     (filter (\<lambda>g. ag_id g = gid) (db_grants db),
      filter (\<lambda>r. lr_grant_id r = gid) (db_logical db),
      filter (\<lambda>r. nr_grant_id r = gid) (db_node db))"

text \<open>The states a grant, its four logical reservations and its node reservation have together.\<close>

definition grant_states :: "(nat \<times> nat \<times> nat) set" where
  "grant_states =
     {(GrantReservedUnbound, ReservationReservedUnbound, ReservationReservedUnbound),
      (GrantBound, ReservationBound, ReservationBound),
      (GrantBound, ReservationReleased, ReservationBound),
      (GrantExpiredUnbound, ReservationReleased, ReservationReleased),
      (GrantTerminalNoLease, ReservationBound, ReservationReleased),
      (GrantReleased, ReservationReleased, ReservationReleased),
      (GrantLeaseAttached, ReservationBound, ReservationLeaseAttached),
      (GrantLeaseAttached, ReservationReleased, ReservationLeaseAttached),
      (GrantLeaseAttached, ReservationBound, ReservationReleased),
      (GrantLeaseAttached, ReservationReleased, ReservationReleased)}"

definition rows_match :: "admission_grant \<Rightarrow> logical_reservation list \<Rightarrow> nat \<Rightarrow> node_reservation \<Rightarrow> bool" where
  "rows_match g ls s n \<longleftrightarrow>
     length ls = 4 \<and> (\<forall>r \<in> set ls. lr_grant_generation r = ag_generation g \<and> lr_state r = s) \<and>
     nr_grant_generation n = ag_generation g \<and> nr_execution_node_id n = ag_execution_node_id g \<and>
     nr_node_capacity_generation n = ag_node_capacity_generation g \<and>
     (ag_state g, s, nr_state n) \<in> grant_states"

inductive group_ok :: "grant_group \<Rightarrow> bool" where
  no_grant: "group_ok ([], [], [])"
| one_grant: "rows_match g ls s n \<Longrightarrow> group_ok ([g], ls, [n])"

inductive_cases group_okE: "group_ok grp"
inductive_simps group_ok_grant: "group_ok (g # gs, ls, ns)"

definition groups_ok :: "sched_db \<Rightarrow> bool" where
  "groups_ok db \<longleftrightarrow> (\<forall>gid. group_ok (group_of db gid))"

text \<open>
  The transition table of these combinations: acceptance, expiry, attachment of a lease, and the
  three kinds of evidence. Three of them are final; the last is final without being released.
\<close>

definition group_moves :: "((nat \<times> nat \<times> nat) \<times> (nat \<times> nat \<times> nat)) set" where
  "group_moves =
     {((GrantReservedUnbound, ReservationReservedUnbound, ReservationReservedUnbound),
       (GrantBound, ReservationBound, ReservationBound)),
      ((GrantReservedUnbound, ReservationReservedUnbound, ReservationReservedUnbound),
       (GrantExpiredUnbound, ReservationReleased, ReservationReleased)),
      ((GrantBound, ReservationBound, ReservationBound),
       (GrantLeaseAttached, ReservationBound, ReservationLeaseAttached)),
      ((GrantBound, ReservationReleased, ReservationBound),
       (GrantLeaseAttached, ReservationReleased, ReservationLeaseAttached)),
      ((GrantBound, ReservationBound, ReservationBound),
       (GrantBound, ReservationReleased, ReservationBound)),
      ((GrantBound, ReservationBound, ReservationBound),
       (GrantTerminalNoLease, ReservationBound, ReservationReleased)),
      ((GrantBound, ReservationReleased, ReservationBound),
       (GrantReleased, ReservationReleased, ReservationReleased)),
      ((GrantTerminalNoLease, ReservationBound, ReservationReleased),
       (GrantReleased, ReservationReleased, ReservationReleased)),
      ((GrantLeaseAttached, ReservationBound, ReservationLeaseAttached),
       (GrantLeaseAttached, ReservationReleased, ReservationLeaseAttached)),
      ((GrantLeaseAttached, ReservationBound, ReservationReleased),
       (GrantLeaseAttached, ReservationReleased, ReservationReleased)),
      ((GrantLeaseAttached, ReservationBound, ReservationLeaseAttached),
       (GrantLeaseAttached, ReservationBound, ReservationReleased)),
      ((GrantLeaseAttached, ReservationReleased, ReservationLeaseAttached),
       (GrantReleased, ReservationReleased, ReservationReleased))}"

definition group_may_become :: "nat \<times> nat \<times> nat \<Rightarrow> nat \<times> nat \<times> nat \<Rightarrow> bool" where
  "group_may_become t u \<longleftrightarrow> t = u \<or> (t, u) \<in> group_moves"

definition final_states :: "(nat \<times> nat \<times> nat) set" where
  "final_states =
     {(GrantExpiredUnbound, ReservationReleased, ReservationReleased),
      (GrantReleased, ReservationReleased, ReservationReleased),
      (GrantLeaseAttached, ReservationReleased, ReservationReleased)}"

interpretation group_table: transition_table group_may_become "\<lambda>t. t \<in> final_states"
  by unfold_locales (auto simp: group_may_become_def group_moves_def final_states_def)

lemma group_may_become_states: "group_may_become t u \<Longrightarrow> t \<in> grant_states \<Longrightarrow> u \<in> grant_states"
  by (auto simp: group_may_become_def group_moves_def grant_states_def)

fun group_states :: "grant_group \<Rightarrow> (nat \<times> nat \<times> nat) option" where
  "group_states ([g], r # rs, [n]) = Some (ag_state g, lr_state r, nr_state n)"
| "group_states _ = None"

lemma group_states_match: "rows_match g ls s n \<Longrightarrow> group_states ([g], ls, [n]) = Some (ag_state g, s, nr_state n)"
  by (cases ls) (auto simp: rows_match_def)

text \<open>A grant keeps its identity and its group moves along the table.\<close>

definition group_evolves :: "grant_group \<Rightarrow> grant_group \<Rightarrow> bool" where
  "group_evolves grp grp' \<longleftrightarrow> group_ok grp' \<and>
     (\<forall>g \<in> set (fst grp). \<exists>g' \<in> set (fst grp'). ag_id g' = ag_id g \<and> grant_value g' = grant_value g) \<and>
     (\<forall>t. group_states grp = Some t \<longrightarrow>
        (\<exists>u. group_states grp' = Some u \<and> group_may_become t u))"

definition groups_evolve :: "sched_db \<Rightarrow> sched_db \<Rightarrow> bool" where
  "groups_evolve db db' \<longleftrightarrow> (\<forall>gid. group_evolves (group_of db gid) (group_of db' gid))"

lemma group_evolves_refl: "group_ok grp \<Longrightarrow> group_evolves grp grp"
  unfolding group_evolves_def group_may_become_def by blast

lemma group_evolves_trans_left:
  assumes "group_evolves a b" and "group_evolves b c" and "group_states a = group_states b"
  shows "group_evolves a c"
  using assms unfolding group_evolves_def by metis

lemma group_evolves_trans_right:
  assumes "group_evolves a b" and "group_evolves b c" and "group_states b \<noteq> None \<Longrightarrow> group_states c = group_states b"
  shows "group_evolves a c"
  using assms unfolding group_evolves_def by (metis option.distinct(1))

lemma groups_evolve_refl: "groups_ok db \<Longrightarrow> groups_evolve db db"
  by (simp add: groups_evolve_def groups_ok_def group_evolves_refl)

lemma groups_evolve_frame:
  "groups_ok db \<Longrightarrow> (\<And>gid. group_of db' gid = group_of db gid) \<Longrightarrow> groups_evolve db db'"
  by (simp add: groups_evolve_def groups_ok_def group_evolves_refl)

lemma groups_evolve_ok: "groups_evolve db db' \<Longrightarrow> groups_ok db'"
  by (simp add: groups_evolve_def groups_ok_def group_evolves_def)

lemma group_cong:
  "db_grants db' = db_grants db \<Longrightarrow> db_logical db' = db_logical db \<Longrightarrow> db_node db' = db_node db \<Longrightarrow>
   group_of db' gid = group_of db gid"
  by (simp add: group_of_def)

text \<open>Updating the rows of one key.\<close>

lemma filter_update_rows:
  "(\<And>x. P x \<Longrightarrow> key (f x) = key x) \<Longrightarrow>
   filter (\<lambda>x. key x = k) (update_rows P f xs) = update_rows P f (filter (\<lambda>x. key x = k) xs)"
  by (induction xs) (auto simp: update_rows_def)

lemma update_rows_other: "\<forall>x \<in> set xs. \<not> P x \<Longrightarrow> update_rows P f xs = xs"
  by (induction xs) (auto simp: update_rows_def)

lemma rows_affected_filter:
  "(\<And>x. P x \<Longrightarrow> key x = k) \<Longrightarrow> rows_affected P xs = rows_affected P (filter (\<lambda>x. key x = k) xs)"
  by (induction xs) auto

lemma update_rows_Nil [simp]: "update_rows P f [] = []"
  and update_rows_Cons [simp]: "update_rows P f (x # xs) = (if P x then f x else x) # update_rows P f xs"
  by (simp_all add: update_rows_def)

text \<open>An operation that rewrites only rows of the grant \<open>gid\<close>.\<close>

lemma group_of_update:
  assumes grants: "db_grants db' = update_rows PG fg (db_grants db)"
    and logical: "db_logical db' = update_rows PL fl (db_logical db)"
    and node: "db_node db' = update_rows PN fn (db_node db)"
    and keys: "\<And>g. PG g \<Longrightarrow> ag_id (fg g) = ag_id g" "\<And>r. PL r \<Longrightarrow> lr_grant_id (fl r) = lr_grant_id r"
      "\<And>r. PN r \<Longrightarrow> nr_grant_id (fn r) = nr_grant_id r"
  shows "group_of db' k = (update_rows PG fg (fst (group_of db k)),
     update_rows PL fl (fst (snd (group_of db k))), update_rows PN fn (snd (snd (group_of db k))))"
  unfolding group_of_def grants logical node fst_conv snd_conv
  using keys by (simp add: filter_update_rows)

lemma groups_evolve_update:
  assumes ok: "groups_ok db"
    and tables: "db_grants db' = update_rows PG fg (db_grants db)"
      "db_logical db' = update_rows PL fl (db_logical db)"
      "db_node db' = update_rows PN fn (db_node db)"
    and keys: "\<And>g. PG g \<Longrightarrow> ag_id g = gid \<and> ag_id (fg g) = ag_id g"
      "\<And>r. PL r \<Longrightarrow> lr_grant_id r = gid \<and> lr_grant_id (fl r) = lr_grant_id r"
      "\<And>r. PN r \<Longrightarrow> nr_grant_id r = gid \<and> nr_grant_id (fn r) = nr_grant_id r"
    and own: "\<And>g ls s n. group_of db gid = ([g], ls, [n]) \<Longrightarrow> rows_match g ls s n \<Longrightarrow>
      group_evolves ([g], ls, [n]) (update_rows PG fg [g], update_rows PL fl ls, update_rows PN fn [n])"
  shows "groups_evolve db db'"
  unfolding groups_evolve_def
proof
  fix k
  have group: "group_of db' k = (update_rows PG fg (fst (group_of db k)),
     update_rows PL fl (fst (snd (group_of db k))), update_rows PN fn (snd (snd (group_of db k))))" for k
    using keys by (intro group_of_update tables) blast+
  show "group_evolves (group_of db k) (group_of db' k)"
  proof (cases "k = gid")
    case False
    have "group_of db' k = group_of db k"
      unfolding group using keys False
      by (subst (1 2 3) update_rows_other) (auto simp: group_of_def)
    with ok show ?thesis by (simp add: groups_ok_def group_evolves_refl)
  next
    case True
    have "group_ok (group_of db gid)" using ok by (simp add: groups_ok_def)
    then consider "group_of db gid = ([], [], [])"
      | g ls s n where "group_of db gid = ([g], ls, [n])" "rows_match g ls s n"
      by (auto elim: group_okE)
    then have "group_evolves (group_of db gid) (group_of db' gid)"
    proof cases
      case 1
      with group [of gid] show ?thesis by (simp add: group_evolves_refl group_ok.no_grant)
    next
      case (2 g ls s n)
      with own [OF 2] group [of gid] show ?thesis by (simp only: fst_conv snd_conv)
    qed
    with True show ?thesis by simp
  qed
qed

text \<open>The evolved group of a grant, from its new row and the new states.\<close>

lemma group_evolves_update:
  assumes match: "rows_match g ls s n"
    and grant: "ag_id (if PG g then fg g else g) = ag_id g" "grant_value (if PG g then fg g else g) = grant_value g"
    and logical: "\<And>r. r \<in> set ls \<Longrightarrow> lr_grant_generation r = ag_generation g \<Longrightarrow> lr_state r = s \<Longrightarrow>
      lr_grant_generation (if PL r then fl r else r) = ag_generation g \<and>
      lr_state (if PL r then fl r else r) = s'"
    and node: "nr_grant_generation (if PN n then fn n else n) = nr_grant_generation n"
      "nr_execution_node_id (if PN n then fn n else n) = nr_execution_node_id n"
      "nr_node_capacity_generation (if PN n then fn n else n) = nr_node_capacity_generation n"
    and states: "group_may_become (ag_state g, s, nr_state n)
      (ag_state (if PG g then fg g else g), s', nr_state (if PN n then fn n else n))"
  shows "group_evolves ([g], ls, [n]) (update_rows PG fg [g], update_rows PL fl ls, update_rows PN fn [n])"
proof -
  define g' where "g' = (if PG g then fg g else g)"
  define n' where "n' = (if PN n then fn n else n)"
  have rows: "lr_grant_generation r = ag_generation g \<and> lr_state r = s'" if "r \<in> set (update_rows PL fl ls)" for r
  proof -
    from that obtain q where q: "q \<in> set ls" "r = (if PL q then fl q else q)"
      by (auto simp: update_rows_def)
    with match logical [of q] show ?thesis by (simp add: rows_match_def)
  qed
  have may: "group_may_become (ag_state g, s, nr_state n) (ag_state g', s', nr_state n')"
    using states by (simp add: g'_def n'_def)
  then have "(ag_state g', s', nr_state n') \<in> grant_states"
    using match by (auto simp: rows_match_def intro: group_may_become_states)
  then have match': "rows_match g' (update_rows PL fl ls) s' n'"
    using match grant rows node
    unfolding g'_def [symmetric] n'_def [symmetric] by (simp add: rows_match_def grant_value_def)
  have groups: "(update_rows PG fg [g], update_rows PL fl ls, update_rows PN fn [n])
      = ([g'], update_rows PL fl ls, [n'])" by (simp add: g'_def n'_def)
  show ?thesis
    unfolding groups group_evolves_def group_states_match [OF match] group_states_match [OF match']
    using grant may group_ok.one_grant [OF match'] by (simp add: g'_def [symmetric])
qed

lemma rows_match_simps:
  "rows_match g ls s n \<Longrightarrow> length ls = 4"
  "rows_match g ls s n \<Longrightarrow> r \<in> set ls \<Longrightarrow> lr_grant_generation r = ag_generation g \<and> lr_state r = s"
  "rows_match g ls s n \<Longrightarrow> (ag_state g, s, nr_state n) \<in> grant_states"
  "rows_match g ls s n \<Longrightarrow> nr_grant_generation n = ag_generation g"
  "rows_match g ls s n \<Longrightarrow> nr_execution_node_id n = ag_execution_node_id g"
  "rows_match g ls s n \<Longrightarrow> nr_node_capacity_generation n = ag_node_capacity_generation g"
  by (auto simp: rows_match_def)

lemma group_members:
  assumes "group_of db gid = ([g], ls, [n])"
  shows "h \<in> set (db_grants db) \<Longrightarrow> ag_id h = gid \<Longrightarrow> h = g"
    and "g \<in> set (db_grants db)" "ag_id g = gid" "\<forall>r \<in> set ls. lr_grant_id r = gid" "nr_grant_id n = gid"
    and "r \<in> set (db_node db) \<Longrightarrow> nr_grant_id r = gid \<Longrightarrow> r = n"
proof -
  from assms have eqs: "[g] = filter (\<lambda>g. ag_id g = gid) (db_grants db)"
    "ls = filter (\<lambda>r. lr_grant_id r = gid) (db_logical db)"
    "[n] = filter (\<lambda>r. nr_grant_id r = gid) (db_node db)"
    by (simp_all add: group_of_def)
  have "set [g] = {h \<in> set (db_grants db). ag_id h = gid}" unfolding eqs(1) by auto
  then show "h \<in> set (db_grants db) \<Longrightarrow> ag_id h = gid \<Longrightarrow> h = g"
    and "g \<in> set (db_grants db)" "ag_id g = gid" by auto
  show "\<forall>r \<in> set ls. lr_grant_id r = gid" unfolding eqs(2) by simp
  have "set [n] = {r \<in> set (db_node db). nr_grant_id r = gid}" unfolding eqs(3) by auto
  then show "nr_grant_id n = gid" and "r \<in> set (db_node db) \<Longrightarrow> nr_grant_id r = gid \<Longrightarrow> r = n"
    by auto
qed

lemma find_grant_group:
  assumes "find_grant db gid item gen = Some h" and "group_of db gid = ([g], ls, [n])"
  shows "h = g" and "ag_generation g = gen"
  using assms find_elem_Some [OF assms(1) [unfolded find_grant_def]] group_members(1) [OF assms(2)]
  by auto

section \<open>The operations on a group\<close>

lemmas group_state_simps =
  grant_states_def grant_value_def group_may_become_def group_moves_def

lemma accept_evolves:
  assumes "groups_ok db"
  shows "groups_evolve db (snd (scheduler_accept_runtime_start a db))"
proof -
  have "groups_evolve db (accept_updates a lab db)"
    if found: "find_grant db (ap_admission_grant_id a) (ap_work_item_id a) (ap_grant_generation a) = Some h"
      and fine: "\<not> accept_binding_conflict a w h" for w h lab
  proof (rule groups_evolve_update [OF assms, where gid = "ap_admission_grant_id a"])
    fix g ls s n
    assume group: "group_of db (ap_admission_grant_id a) = ([g], ls, [n])" and match: "rows_match g ls s n"
    note members = group_members [OF group] and found = find_grant_group [OF found group]
    have reserved: "ag_state g = GrantReservedUnbound"
      using fine found by (auto simp: accept_binding_conflict_def)
    then have states: "s = ReservationReservedUnbound" "nr_state n = ReservationReservedUnbound"
      using rows_match_simps(3) [OF match] by (auto simp: grant_states_def)
    show "group_evolves ([g], ls, [n])
      (update_rows (\<lambda>g. ag_id g = ap_admission_grant_id a \<and> ag_generation g = ap_grant_generation a \<and>
               ag_state g = GrantReservedUnbound)
          (\<lambda>g. g\<lparr>ag_state := GrantBound, ag_bound_decision_id := ap_decision_id a,
                 ag_bound_runtime_revision := ap_runtime_revision a,
                 ag_bound_runtime_fence := ap_runtime_fence a,
                 ag_lease_acquire_operation_id := ap_lease_acquire_operation_id a,
                 ag_lease_acquire_digest := Some (ap_lease_acquire_digest a),
                 ag_lease_acquire_by := Some lab\<rparr>) [g],
       update_rows (\<lambda>r. lr_grant_id r = ap_admission_grant_id a \<and>
               lr_grant_generation r = ap_grant_generation a \<and> lr_state r = ReservationReservedUnbound)
          (\<lambda>r. r\<lparr>lr_state := ReservationBound\<rparr>) ls,
       update_rows (\<lambda>r. nr_grant_id r = ap_admission_grant_id a \<and>
               nr_grant_generation r = ap_grant_generation a \<and> nr_state r = ReservationReservedUnbound)
          (\<lambda>r. r\<lparr>nr_state := ReservationBound\<rparr>) [n])"
      using members(3-5) found(2) reserved states rows_match_simps(2,4) [OF match]
      by (intro group_evolves_update [OF match, where s' = ReservationBound])
        (simp_all add: group_state_simps)
  qed (auto simp: accept_updates_def)
  with groups_evolve_refl [OF assms] show ?thesis
    by (simp add: scheduler_accept_runtime_start_def Let_def split: option.split)
qed


lemma attach_evolves:
  assumes ok: "groups_ok db"
  shows "groups_evolve db (snd (scheduler_attach_runtime_lease t db))"
proof -
  have "groups_evolve db (attach_updates t db)"
    if found: "find_grant db (at_admission_grant_id t) (at_work_item_id t) (at_grant_generation t) = Some h"
      and fine: "\<not> attach_binding_conflict t h" and "ag_state h \<noteq> GrantLeaseAttached"
  for h
  proof (rule groups_evolve_update [OF ok, where gid = "at_admission_grant_id t"
        and PL = "\<lambda>_. False" and fl = id and PG = "attach_grant_row t" and PN = "attach_node_row t"])
    fix g ls s n
    assume group: "group_of db (at_admission_grant_id t) = ([g], ls, [n])" and match: "rows_match g ls s n"
    note members = group_members [OF group] and found = find_grant_group [OF found group]
    have bound: "ag_state g = GrantBound" "ag_execution_node_id g = at_execution_node_id t"
      "ag_node_capacity_generation g = at_node_capacity_generation t"
      using fine that(3) found by (auto simp: attach_binding_conflict_def)
    then have states: "s = ReservationBound \<or> s = ReservationReleased" "nr_state n = ReservationBound"
      using rows_match_simps(3) [OF match] by (auto simp: grant_states_def)
    show "group_evolves ([g], ls, [n])
        (update_rows (attach_grant_row t)
          (\<lambda>g. g\<lparr>ag_state := GrantLeaseAttached, ag_sandbox_lease_id := at_sandbox_lease_id t,
                 ag_lease_generation := at_lease_generation t,
                 ag_lease_fence := at_lease_fence t\<rparr>) [g],
         update_rows (\<lambda>_. False) id ls,
         update_rows (attach_node_row t) (\<lambda>r. r\<lparr>nr_state := ReservationLeaseAttached\<rparr>) [n])"
      using members(3-5) found(2) bound states rows_match_simps(2,4-6) [OF match]
      by (intro group_evolves_update [OF match, where s' = s])
        (auto simp: group_state_simps attach_grant_row_def attach_node_row_def)
  qed (simp_all add: attach_updates_def attach_grant_row_def attach_node_row_def)
  with groups_evolve_refl [OF ok] show ?thesis
    by (simp add: scheduler_attach_runtime_lease_def split: option.split)
qed

lemma row_of_group:
  assumes "rows_affected P xs = 1" and "\<And>x. P x \<Longrightarrow> key x = gid" and "filter (\<lambda>x. key x = gid) xs = [y]"
  shows "P y"
proof -
  have "rows_affected P [y] = 1"
    using assms(1) unfolding assms(3) [symmetric] by (subst (asm) rows_affected_filter [where key = key and k = gid]) (rule assms(2))
  then show ?thesis by (simp split: if_splits)
qed

lemma expire_evolves:
  assumes ok: "groups_ok db" and ran: "expireUnboundGrant w grant db = Inr db'"
  shows "groups_evolve db db'"
proof (rule groups_evolve_update [OF ok, where gid = "gr_AdmissionGrantID grant"
      and PG = "expiring_grant_row grant" and fg = "\<lambda>g. g\<lparr>ag_state := GrantExpiredUnbound\<rparr>"
      and PL = "\<lambda>r. lr_grant_id r = gr_AdmissionGrantID grant \<and>
               lr_grant_generation r = gr_Generation grant \<and> lr_state r = GrantReservedUnbound"
      and fl = "\<lambda>r. r\<lparr>lr_state := GrantReleased\<rparr>"
      and PN = "\<lambda>r. nr_grant_id r = gr_AdmissionGrantID grant \<and>
               nr_grant_generation r = gr_Generation grant \<and> nr_state r = GrantReservedUnbound"
      and fn = "\<lambda>r. r\<lparr>nr_state := GrantReleased\<rparr>"])
  fix g ls s n
  assume group: "group_of db (gr_AdmissionGrantID grant) = ([g], ls, [n])" and match: "rows_match g ls s n"
  note members = group_members [OF group]
  have "rows_affected (expiring_grant_row grant) (db_grants db) = 1"
    using ran by (auto simp: expireUnboundGrant_def split: if_splits)
  then have row: "expiring_grant_row grant g"
    by (rule row_of_group [where key = ag_id and gid = "gr_AdmissionGrantID grant"])
      (use group in \<open>simp_all add: expiring_grant_row_def group_of_def\<close>)
  then have states: "s = ReservationReservedUnbound" "nr_state n = ReservationReservedUnbound"
    using rows_match_simps(3) [OF match] by (auto simp: grant_states_def expiring_grant_row_def)
  show "group_evolves ([g], ls, [n])
      (update_rows (expiring_grant_row grant) (\<lambda>g. g\<lparr>ag_state := GrantExpiredUnbound\<rparr>) [g],
       update_rows (\<lambda>r. lr_grant_id r = gr_AdmissionGrantID grant \<and>
               lr_grant_generation r = gr_Generation grant \<and> lr_state r = GrantReservedUnbound)
         (\<lambda>r. r\<lparr>lr_state := GrantReleased\<rparr>) ls,
       update_rows (\<lambda>r. nr_grant_id r = gr_AdmissionGrantID grant \<and>
               nr_grant_generation r = gr_Generation grant \<and> nr_state r = GrantReservedUnbound)
         (\<lambda>r. r\<lparr>nr_state := GrantReleased\<rparr>) [n])"
    using members(3-5) states row rows_match_simps(2,4) [OF match]
    by (intro group_evolves_update [OF match, where s' = ReservationReleased])
      (simp_all add: group_state_simps expiring_grant_row_def)
qed (use ran in \<open>auto simp: expireUnboundGrant_def expiring_grant_row_def split: if_splits\<close>)

text \<open>A reservation adds the group of a new grant.\<close>

lemma reserved_logical_keys:
  "filter (\<lambda>r. lr_grant_id r = k) (reserved_logical g e) = (if k = ag_id g then reserved_logical g e else [])"
  by (auto simp: reserved_logical_def admission_counters_def)

lemma new_group:
  "reservation_rows_allowed db g \<Longrightarrow> group_of db (ag_id g) = ([], [], [])"
  unfolding group_of_def reservation_rows_allowed_def image_iff by (auto simp: filter_empty_conv)

lemma reserve_adds_group:
  assumes ok: "groups_ok db" and allowed: "reservation_rows_allowed db g"
    and g: "ag_state g = GrantReservedUnbound"
  shows "groups_evolve db (reserve_updates w e g db)"
  unfolding groups_evolve_def
proof
  fix k
  show "group_evolves (group_of db k) (group_of (reserve_updates w e g db) k)"
  proof (cases "k = ag_id g")
    case False
    then have "group_of (reserve_updates w e g db) k = group_of db k"
      by (auto simp: group_of_def reserve_updates_def reserved_logical_keys reserved_node_def)
    with ok show ?thesis by (simp add: groups_ok_def group_evolves_refl)
  next
    case True
    have "group_of db k = ([], [], [])" using new_group [OF allowed] True by simp
    then have "group_of (reserve_updates w e g db) k = ([g], reserved_logical g e, [reserved_node g])"
      using True by (simp add: group_of_def reserve_updates_def reserved_logical_keys reserved_node_def)
    moreover have "rows_match g (reserved_logical g e) ReservationReservedUnbound (reserved_node g)"
      using g by (auto simp: rows_match_def reserved_logical_def reserved_node_def admission_counters_def
          grant_states_def)
    ultimately show ?thesis
      using \<open>group_of db k = ([], [], [])\<close> by (simp add: group_evolves_def group_ok.one_grant)
  qed
qed

text \<open>Steps before and after that leave the states of every group as they are.\<close>

definition states_kept :: "sched_db \<Rightarrow> sched_db \<Rightarrow> bool" where
  "states_kept db db' \<longleftrightarrow> (\<forall>gid. group_states (group_of db gid) \<noteq> None \<longrightarrow>
     group_states (group_of db' gid) = group_states (group_of db gid))"

lemma set_group_grants: "g \<in> set (fst (group_of db k)) \<longleftrightarrow> g \<in> set (db_grants db) \<and> ag_id g = k"
  by (auto simp: group_of_def)

lemma evolve_then_keep:
  "groups_evolve db db1 \<Longrightarrow> groups_evolve db1 db2 \<Longrightarrow> states_kept db1 db2 \<Longrightarrow> groups_evolve db db2"
  unfolding groups_evolve_def states_kept_def by (blast intro: group_evolves_trans_right)

lemma keep_then_evolve:
  "groups_evolve db db1 \<Longrightarrow> (\<And>gid. group_states (group_of db1 gid) = group_states (group_of db gid)) \<Longrightarrow>
   groups_evolve db1 db2 \<Longrightarrow> groups_evolve db db2"
  unfolding groups_evolve_def by (metis group_evolves_trans_left)

lemma reserveAdmission_evolves:
  assumes ran: "reserveAdmission env w e now db = (Inr grant, db')" and ok: "groups_ok db"
  shows "groups_evolve db db'" and "states_kept db db'"
proof -
  let ?g = "reserved_grant env db w e now"
  have drawn: "group_of (draw_sequences db) gid = group_of db gid" for gid
    by (simp add: group_of_def draw_sequences_def)
  from ran have db': "db' = reserve_updates w e ?g (draw_sequences db)"
    and allowed: "reservation_rows_allowed (draw_sequences db) ?g"
    by (auto simp: reserveAdmission_def Let_def reservation_rows_allowed_def draw_sequences_def
        split: if_splits)
  have "groups_ok (draw_sequences db)" using ok by (simp add: groups_ok_def drawn)
  then show "groups_evolve db db'"
    using reserve_adds_group [of "draw_sequences db" ?g w e] allowed
    by (simp add: db') (simp add: groups_evolve_def drawn reserved_grant_def)
  show "states_kept db db'"
    unfolding states_kept_def
  proof (intro allI impI)
    fix gid
    assume "group_states (group_of db gid) \<noteq> None"
    then have "gid \<noteq> ag_id ?g" using new_group [OF allowed] by (auto simp: drawn)
    then show "group_states (group_of db' gid) = group_states (group_of db gid)"
      by (auto simp: db' group_of_def reserve_updates_def reserved_logical_keys reserved_node_def
          draw_sequences_def)
  qed
qed

lemma admit_fresh_evolves:
  assumes "admit_fresh env w e now db = (Inr d, db')" and "groups_ok db"
  shows "groups_evolve db db'" and "states_kept db db'"
  using assms reserveAdmission_evolves [of env w e now db _ db']
  by (auto simp: admit_fresh_def split: if_splits sum.splits prod.splits)

lemma admit_work_evolves:
  assumes ok: "groups_ok db" and ran: "admit_work env w e now db = (Inr d, db')"
  shows "groups_evolve db db'"
proof (cases "wi_current_grant_generation w > 0")
  case False
  with ran have "admit_fresh env w e now db = (Inr d, db')" by (simp add: admit_work_def)
  then show ?thesis using ok by (rule admit_fresh_evolves)
next
  case True
  with ran consider "db' = db" | w' grant db1 where "expireUnboundGrant w grant db = Inr db1"
      "admit_fresh env w' e now db1 = (Inr d, db')"
    by (auto simp: admit_work_def split: sum.splits prod.splits if_splits)
  then show ?thesis
  proof cases
    case 1
    then show ?thesis by (simp add: groups_evolve_refl ok)
  next
    case (2 w' grant db1)
    note expired = expire_evolves [OF ok 2(1)]
    note fresh = admit_fresh_evolves [OF 2(2) groups_evolve_ok [OF expired]]
    from expired fresh show ?thesis by (rule evolve_then_keep)
  qed
qed

lemma claim_evolves:
  assumes ok: "groups_ok db"
  shows "groups_evolve db (snd (ClaimAndAdmit env live now db))"
proof -
  have "groups_evolve db (rollback db db2)" for db2
    using ok by (rule groups_evolve_frame) (simp add: group_of_def rollback_def)
  with admit_work_evolves [OF ok] groups_evolve_refl [OF ok] show ?thesis
    by (auto simp: ClaimAndAdmit_def split: sum.split prod.split)
qed

section \<open>Evidence on a group\<close>

lemma find_elem_filter: "find_elem P xs = (case filter P xs of [] \<Rightarrow> None | x # _ \<Rightarrow> Some x)"
  by (induction xs) auto

lemma node_state_of_group: "group_of db gid = (gs, ls, [n]) \<Longrightarrow> node_state_of db gid = Some (nr_state n)"
  by (auto simp: node_state_of_def find_elem_filter group_of_def)

lemma common_logical_state_group:
  assumes "group_of db gid = ([g], ls, ns)" and "rows_match g ls s n"
  shows "common_logical_state db gid = Some s"
proof -
  have ls: "filter (\<lambda>r. lr_grant_id r = gid) (db_logical db) = ls"
    using assms(1) by (simp add: group_of_def)
  have "map lr_state ls = replicate 4 s"
    using rows_match_simps(1,2) [OF assms(2)] by (simp add: list_eq_iff_nth_eq)
  then show ?thesis by (simp add: common_logical_state_def ls numeral_eq_Suc)
qed

lemma terminal_evidence_kept:
  assumes ok: "groups_ok db" and ran: "lockAndValidateTerminalEvidence ev db = Inr (state, db1)"
  shows "groups_evolve db db1" and "group_states (group_of db1 gid) = group_states (group_of db gid)"
    and "\<exists>h \<in> set (db_grants db1). ag_id h = fe_AdmissionGrantID ev \<and>
           ag_generation h = fe_GrantGeneration ev \<and> ag_state h = state"
proof -
  define PG where "PG = (if db1 = db then (\<lambda>_. False) else terminal_grant_row ev)"
  have db1: "db1 = db\<lparr>db_grants := update_rows PG (record_terminal ev) (db_grants db)\<rparr>"
    using ran by (auto simp: PG_def lockAndValidateTerminalEvidence_def split: option.splits if_splits)
  have row: "PG g \<Longrightarrow> ag_id g = fe_AdmissionGrantID ev" for g
    by (auto simp: PG_def terminal_grant_row_def split: if_splits)
  have group: "group_of db1 gid = (update_rows PG (record_terminal ev) (fst (group_of db gid)), snd (group_of db gid))" for gid
    using group_of_update [of db1 PG "record_terminal ev" db "\<lambda>_. False" id "\<lambda>_. False" id gid]
    by (simp add: db1 record_terminal_def)
  show "groups_evolve db db1"
  proof (rule groups_evolve_update [OF ok, where gid = "fe_AdmissionGrantID ev"
        and PG = PG and fg = "record_terminal ev" and PL = "\<lambda>_. False" and fl = id and PN = "\<lambda>_. False" and fn = id])
    fix g ls s n
    assume match: "rows_match g ls s n"
    show "group_evolves ([g], ls, [n]) (update_rows PG (record_terminal ev) [g],
        update_rows (\<lambda>_. False) id ls, update_rows (\<lambda>_. False) id [n])"
      by (intro group_evolves_update [OF match, where s' = s])
        (simp_all add: record_terminal_def grant_value_def group_may_become_def)
  qed (simp_all add: db1 row record_terminal_def)
  show "group_states (group_of db1 gid) = group_states (group_of db gid)"
    unfolding group by (cases "group_of db gid" rule: group_states.cases) (auto simp: record_terminal_def)
  from ran obtain h where h: "h \<in> set (db_grants db)" "ag_id h = fe_AdmissionGrantID ev"
      "ag_generation h = fe_GrantGeneration ev" "ag_state h = state"
    by (auto simp: lockAndValidateTerminalEvidence_def find_grant_def split: option.splits if_splits
        dest!: find_elem_Some)
  then have "(if PG h then record_terminal ev h else h) \<in> set (db_grants db1)"
    by (simp add: db1 update_rows_def)
  with h show "\<exists>h \<in> set (db_grants db1). ag_id h = fe_AdmissionGrantID ev \<and>
           ag_generation h = fe_GrantGeneration ev \<and> ag_state h = state"
    by (intro bexI) (auto simp: record_terminal_def)
qed

text \<open>The row of the grant the evidence is about, after it was recorded.\<close>

lemma evidence_grant:
  assumes "groups_ok db" and "lockAndValidateTerminalEvidence ev db = Inr (state, db1)"
    and "group_of db1 (fe_AdmissionGrantID ev) = ([g], ls, [n])"
  shows "ag_state g = state" and "ag_generation g = fe_GrantGeneration ev"
  using terminal_evidence_kept(3) [OF assms(1,2)] group_members(1) [OF assms(3)] by auto

lemma node_state_release_logical [simp]: "node_state_of (release_logical ev db) gid = node_state_of db gid"
  by (simp add: node_state_of_def release_logical_def)

lemma fenced_evolves:
  assumes ok: "groups_ok db"
  shows "groups_evolve db (snd (ApplyRuntimeFencedOrTerminal ev db))"
proof -
  let ?gid = "fe_AdmissionGrantID ev"
  define final where "final db1 node_state =
    (if node_state = ReservationReleased
     then set_grant_state ?gid (fe_GrantGeneration ev) {GrantBound, GrantTerminalNoLease} GrantReleased
            (release_logical ev db1)
     else release_logical ev db1)" for db1 node_state
  define PG :: "nat \<Rightarrow> admission_grant \<Rightarrow> bool" where
    "PG = (\<lambda>node_state g. node_state = ReservationReleased \<and> ag_id g = ?gid \<and>
       ag_generation g = fe_GrantGeneration ev \<and> ag_state g \<in> {GrantBound, GrantTerminalNoLease})"
  have "groups_evolve db (final db1 node_state)"
    if ran: "lockAndValidateTerminalEvidence ev db = Inr (state, db1)"
      and state: "state \<in> {GrantBound, GrantLeaseAttached, GrantTerminalNoLease, GrantReleased}"
      and node: "node_state_of db1 ?gid = Some node_state" for state db1 node_state
  proof (rule keep_then_evolve)
    show "groups_evolve db db1" by (rule terminal_evidence_kept [OF ok ran])
    show "group_states (group_of db1 gid) = group_states (group_of db gid)" for gid
      by (rule terminal_evidence_kept [OF ok ran])
    show "groups_evolve db1 (final db1 node_state)"
    proof (rule groups_evolve_update [OF groups_evolve_ok [OF terminal_evidence_kept(1) [OF ok ran]], where gid = ?gid
          and PG = "PG node_state" and fg = "\<lambda>g. g\<lparr>ag_state := GrantReleased\<rparr>"
          and PL = "fenced_logical_row ev" and fl = "\<lambda>r. r\<lparr>lr_state := ReservationReleased\<rparr>"
          and PN = "\<lambda>_. False" and fn = id])
      fix g ls s n
      assume group: "group_of db1 ?gid = ([g], ls, [n])" and match: "rows_match g ls s n"
      note grant = evidence_grant [OF ok ran group] and members = group_members(3-5) [OF group]
      have "node_state = nr_state n" using node node_state_of_group [OF group] by simp
      with grant members(1) have PG: "PG node_state g \<longleftrightarrow>
          nr_state n = ReservationReleased \<and> (ag_state g = GrantBound \<or> ag_state g = GrantTerminalNoLease)"
        by (simp add: PG_def)
      have bound: "s = ReservationBound \<or> s = ReservationReleased"
        and may: "group_may_become (ag_state g, s, nr_state n)
          (ag_state (if PG node_state g then g\<lparr>ag_state := GrantReleased\<rparr> else g), ReservationReleased, nr_state n)"
        using rows_match_simps(3) [OF match] state unfolding PG grant(1) [symmetric] grant_states_def
        by (elim insertE; simp add: group_may_become_def group_moves_def)+
      show "group_evolves ([g], ls, [n]) (update_rows (PG node_state) (\<lambda>g. g\<lparr>ag_state := GrantReleased\<rparr>) [g],
          update_rows (fenced_logical_row ev) (\<lambda>r. r\<lparr>lr_state := ReservationReleased\<rparr>) ls,
          update_rows (\<lambda>_. False) id [n])"
        using members grant may bound
        by (intro group_evolves_update [OF match, where s' = ReservationReleased])
          (simp_all add: grant_value_def fenced_logical_row_def, blast)
    qed (auto simp: final_def PG_def set_grant_state_def release_logical_def fenced_logical_row_def)
  qed
  then show ?thesis
    using groups_evolve_refl [OF ok]
    by (simp add: ApplyRuntimeFencedOrTerminal_def Let_def final_def [symmetric] split: sum.split option.split)
qed

lemma no_lease_evolves:
  assumes ok: "groups_ok db"
  shows "groups_evolve db (snd (ApplyNoLeasePhysicalDisposition ev db))"
proof -
  let ?gid = "fe_AdmissionGrantID (ne_base ev)"
  let ?gen = "fe_GrantGeneration (ne_base ev)"
  define bound :: "node_reservation \<Rightarrow> bool" where
    "bound = (\<lambda>r. no_lease_node_row ev r \<and> nr_state r = ReservationBound)"
  define freed where "freed db1 = db1\<lparr>db_node := update_rows bound
    (\<lambda>r. r\<lparr>nr_state := ReservationReleased\<rparr>) (db_node db1)\<rparr>" for db1 :: sched_db
  have "groups_evolve db (snd (no_lease_finish ev db (freed db1)))"
    if ran: "lockAndValidateTerminalEvidence (ne_base ev) db = Inr (state, db1)"
      and state: "state \<in> {GrantBound, GrantTerminalNoLease, GrantReleased}"
      and rows: "rows_affected bound (db_node db1) = 0 \<longrightarrow>
        map_option nr_state (find_elem (no_lease_node_row ev) (db_node db1)) = Some ReservationReleased"
    for state db1
  proof (cases "common_logical_state (freed db1) ?gid")
    case None
    then show ?thesis by (simp add: no_lease_finish_def groups_evolve_refl ok)
  next
    case (Some logical)
    let ?to = "if logical = ReservationReleased then GrantReleased else GrantTerminalNoLease"
    let ?final = "set_grant_state ?gid ?gen {GrantBound, GrantTerminalNoLease, GrantReleased} ?to (freed db1)"
    have "groups_evolve db1 ?final"
    proof (rule groups_evolve_update [OF groups_evolve_ok [OF terminal_evidence_kept(1) [OF ok ran]], where gid = ?gid
          and PG = "\<lambda>g. ag_id g = ?gid \<and> ag_generation g = ?gen \<and>
                      ag_state g \<in> {GrantBound, GrantTerminalNoLease, GrantReleased}"
          and fg = "\<lambda>g. g\<lparr>ag_state := ?to\<rparr>" and PL = "\<lambda>_. False" and fl = id
          and PN = bound and fn = "\<lambda>r. r\<lparr>nr_state := ReservationReleased\<rparr>"])
      fix g ls s n
      assume group: "group_of db1 ?gid = ([g], ls, [n])" and match: "rows_match g ls s n"
      note grant = evidence_grant [OF ok ran group] and members = group_members(3-5) [OF group]
      have "common_logical_state db1 ?gid = Some s" by (rule common_logical_state_group [OF group match])
      then have logical: "logical = s" using Some by (simp add: common_logical_state_def freed_def)
      have "bound n \<or> nr_state n = ReservationReleased"
      proof (cases "rows_affected bound (db_node db1) = 0")
        case True
        with rows obtain r where r: "find_elem (no_lease_node_row ev) (db_node db1) = Some r"
          "nr_state r = ReservationReleased" by auto
        have "r = n"
          using find_elem_Some [OF r(1)] group_members(6) [OF group]
          by (simp add: no_lease_node_row_def node_row_def)
        with r show ?thesis by simp
      next
        case False
        then obtain r where "r \<in> set (db_node db1)" "bound r"
          by (auto simp: rows_affected_def filter_empty_conv)
        moreover from this have "r = n"
          using group_members(6) [OF group] by (simp add: bound_def no_lease_node_row_def node_row_def)
        ultimately show ?thesis by simp
      qed
      then have may: "group_may_become (ag_state g, s, nr_state n)
          (if s = ReservationReleased then GrantReleased else GrantTerminalNoLease, s, ReservationReleased)"
        and "bound n \<longleftrightarrow> nr_state n \<noteq> ReservationReleased"
        using rows_match_simps(3) [OF match] state unfolding grant(1) [symmetric] grant_states_def
        by (elim insertE; simp add: group_may_become_def group_moves_def bound_def)+
      then show "group_evolves ([g], ls, [n])
          (update_rows (\<lambda>g. ag_id g = ?gid \<and> ag_generation g = ?gen \<and>
              ag_state g \<in> {GrantBound, GrantTerminalNoLease, GrantReleased}) (\<lambda>g. g\<lparr>ag_state := ?to\<rparr>) [g],
           update_rows (\<lambda>_. False) id ls,
           update_rows bound (\<lambda>r. r\<lparr>nr_state := ReservationReleased\<rparr>) [n])"
        using state grant members
        by (intro group_evolves_update [OF match, where s' = s])
          (auto simp: grant_value_def logical)
    qed (auto simp: set_grant_state_def freed_def bound_def no_lease_node_row_def node_row_def)
    with terminal_evidence_kept(1,2) [OF ok ran] have "groups_evolve db ?final" by (rule keep_then_evolve)
    with Some show ?thesis by (simp add: no_lease_finish_def)
  qed
  then show ?thesis
    using groups_evolve_refl [OF ok]
    by (auto simp: ApplyNoLeasePhysicalDisposition_def Let_def freed_def bound_def
        split: sum.split option.split)
qed


lemma physical_evolves:
  assumes ok: "groups_ok db"
  shows "groups_evolve db (snd (ApplyPhysicalCapacityReleaseReady check ev db))"
proof -
  let ?gid = "pe_AdmissionGrantID ev"
  have "groups_evolve db db'" if ran: "release_held ev db = (Inr (), db')" for db'
  proof -
    from ran obtain logical where one: "rows_affected (attached_node_row ev) (db_node db) = 1"
        "rows_affected (attached_grant_row ev) (db_grants db) = 1"
      and logical: "common_logical_state db ?gid = Some logical"
      and db': "db_grants db' = update_rows (attached_grant_row ev)
          (\<lambda>g. g\<lparr>ag_state := if logical = ReservationReleased then GrantReleased
                              else GrantLeaseAttached\<rparr>) (db_grants db)"
        "db_logical db' = db_logical db"
        "db_node db' = update_rows (attached_node_row ev)
          (\<lambda>r. r\<lparr>nr_state := ReservationReleased\<rparr>) (db_node db)"
      by (auto simp: release_held_def split: if_splits option.splits)
    show ?thesis
    proof (rule groups_evolve_update [OF ok db'(1) _ db'(3), where gid = ?gid
          and PL = "\<lambda>_. False" and fl = id])
      fix g ls s n
      assume group: "group_of db ?gid = ([g], ls, [n])" and match: "rows_match g ls s n"
      have "attached_grant_row ev g"
        by (rule row_of_group [OF one(2), where key = ag_id and gid = ?gid])
          (use group in \<open>simp_all add: group_of_def attached_grant_row_def\<close>)
      moreover have "attached_node_row ev n"
        by (rule row_of_group [OF one(1), where key = nr_grant_id and gid = ?gid])
          (use group in \<open>simp_all add: group_of_def attached_node_row_def node_row_def\<close>)
      moreover note rows = calculation
      have "logical = s" using common_logical_state_group [OF group match] logical by simp
      then show "group_evolves ([g], ls, [n])
          (update_rows (attached_grant_row ev)
            (\<lambda>g. g\<lparr>ag_state := if logical = ReservationReleased then GrantReleased
                                else GrantLeaseAttached\<rparr>) [g],
           update_rows (\<lambda>_. False) id ls,
           update_rows (attached_node_row ev) (\<lambda>r. r\<lparr>nr_state := ReservationReleased\<rparr>) [n])"
        using rows rows_match_simps(3) [OF match]
        by (intro group_evolves_update [OF match, where s' = s])
          (auto simp: group_state_simps attached_grant_row_def attached_node_row_def)
    qed (auto simp: db' attached_grant_row_def attached_node_row_def node_row_def)
  qed
  moreover have "snd (release_held ev db) = db \<or> fst (release_held ev db) = Inr ()"
    by (auto simp: release_held_def split: option.split)
  ultimately have "groups_evolve db (snd (release_held ev db))"
    using groups_evolve_refl [OF ok] by (metis prod.collapse)
  then show ?thesis
    using groups_evolve_refl [OF ok]
    by (simp add: ApplyPhysicalCapacityReleaseReady_def split: option.split)
qed

lemma sched_step_evolves:
  assumes ok: "groups_ok db" and "sched_step env db db'"
  shows "groups_evolve db db'"
  using assms(2)
proof (cases rule: sched_step.cases)
  case (enqueue p now)
  have "group_of db' gid = group_of db gid" for gid
    unfolding enqueue by (rule group_cong) (simp_all add: scheduler_enqueue_work_item_def Let_def split: option.split)
  with ok show ?thesis by (rule groups_evolve_frame)
next
  case (cancel op dg rr dec rv fen)
  have "group_of db' gid = group_of db gid" for gid
    unfolding cancel by (rule group_cong) (simp_all add: scheduler_accept_runtime_cancel_def)
  with ok show ?thesis by (rule groups_evolve_frame)
qed (use ok in \<open>simp_all add: claim_evolves accept_evolves attach_evolves fenced_evolves
    no_lease_evolves physical_evolves\<close>)

lemma reachable_groups:
  "(sched_step env)\<^sup>*\<^sup>* empty_db db \<Longrightarrow> groups_ok db"
proof (induction rule: rtranclp_induct)
  case base
  then show ?case by (simp add: groups_ok_def group_of_def empty_db_def group_ok.no_grant)
next
  case (step y z)
  from groups_evolve_ok [OF sched_step_evolves [OF step.IH step.hyps(2)]] show ?case .
qed

section \<open>Properties\<close>

lemma reachable_group:
  assumes "groups_ok db" and "g \<in> set (db_grants db)"
  obtains ls s n where "group_of db (ag_id g) = ([g], ls, [n])" and "rows_match g ls s n"
proof -
  have "group_ok (group_of db (ag_id g))" using assms(1) by (simp add: groups_ok_def)
  moreover have "g \<in> set (fst (group_of db (ag_id g)))" using assms(2) by (simp add: set_group_grants)
  ultimately show thesis using that by (elim group_okE) auto
qed

lemma evolved_grant:
  assumes ok: "groups_ok db" and evolves: "groups_evolve db db'" and g: "g \<in> set (db_grants db)"
  obtains g' u where "g' \<in> set (db_grants db')" and "ag_id g' = ag_id g" and "grant_value g' = grant_value g"
    and "group_states (group_of db' (ag_id g)) = Some u"
    and "group_may_become (the (group_states (group_of db (ag_id g)))) u" and "fst u = ag_state g'"
proof -
  obtain ls s n where old: "group_of db (ag_id g) = ([g], ls, [n])" and match: "rows_match g ls s n"
    by (rule reachable_group [OF ok g])
  from evolves old obtain g' u where g': "g' \<in> set (fst (group_of db' (ag_id g)))"
      "grant_value g' = grant_value g" and u: "group_states (group_of db' (ag_id g)) = Some u"
      "group_may_become (ag_state g, s, nr_state n) u"
    unfolding groups_evolve_def group_evolves_def
    by (metis fst_conv group_states_match [OF match] list.set_intros(1))
  from u(1) have "fst u = ag_state (hd (fst (group_of db' (ag_id g))))"
    and "set (fst (group_of db' (ag_id g))) = {hd (fst (group_of db' (ag_id g)))}"
    by (cases "group_of db' (ag_id g)" rule: group_states.cases; auto)+
  with g' u old group_states_match [OF match] show thesis
    by (intro that [of g' u]) (auto simp: set_group_grants)
qed

text \<open>
  C29. In every reachable database a grant has exactly four logical reservations and one node
  reservation, all of its generation and node, and its state and theirs are one of the ten
  combinations of \<open>grant_states\<close>. In particular a grant that expired or was released holds no
  capacity, and the four counters of a grant are always taken and given back together.
\<close>

theorem grant_and_reservations_agree:
  assumes "(sched_step env)\<^sup>*\<^sup>* empty_db db" and "g \<in> set (db_grants db)"
  shows "\<exists>ls s n. group_of db (ag_id g) = ([g], ls, [n]) \<and> rows_match g ls s n"
  by (rule reachable_group [OF reachable_groups [OF assms(1)] assms(2)]) blast

text \<open>
  A grant is never lost or altered: across any operation it keeps its identity, and the
  combination of its state with its reservations' moves along the table \<open>group_moves\<close>:
  reserved, then bound or expired; bound, then with a lease or without; released by the
  evidence that comes second.
\<close>

theorem grant_state_moves:
  assumes "(sched_step env)\<^sup>*\<^sup>* empty_db db" and "sched_step env db db'" and "g \<in> set (db_grants db)"
  shows "\<exists>g' t u. g' \<in> set (db_grants db') \<and> ag_id g' = ag_id g \<and> grant_value g' = grant_value g \<and>
    group_states (group_of db (ag_id g)) = Some t \<and> group_states (group_of db' (ag_id g)) = Some u \<and>
    group_may_become t u"
proof -
  note ok = reachable_groups [OF assms(1)]
  obtain ls s n where "group_of db (ag_id g) = ([g], ls, [n])" "rows_match g ls s n"
    by (rule reachable_group [OF ok assms(3)])
  then have "group_states (group_of db (ag_id g)) = Some (ag_state g, s, nr_state n)"
    using group_states_match by simp
  with evolved_grant [OF ok sched_step_evolves [OF ok assms(2)] assms(3)] show ?thesis
    by (metis option.sel)
qed

text \<open>A group in a final combination stays in it.\<close>

lemma final_group_stays:
  assumes "(sched_step env)\<^sup>*\<^sup>* db db'" and "groups_ok db" and "g \<in> set (db_grants db)"
    and "group_states (group_of db (ag_id g)) = Some t" and "t \<in> final_states"
  shows "group_states (group_of db' (ag_id g)) = Some t \<and> groups_ok db' \<and>
    (\<exists>g' \<in> set (db_grants db'). ag_id g' = ag_id g \<and> grant_value g' = grant_value g \<and> ag_state g' = fst t)"
  using assms(1)
proof (induction rule: rtranclp_induct)
  case base
  obtain ls s n where "group_of db (ag_id g) = ([g], ls, [n])" "rows_match g ls s n"
    by (rule reachable_group [OF assms(2,3)])
  with assms group_states_match show ?case by (intro conjI bexI [of _ g]) auto
next
  case (step y z)
  then obtain g1 where g1: "g1 \<in> set (db_grants y)" "ag_id g1 = ag_id g" "grant_value g1 = grant_value g"
    by blast
  note evolves = sched_step_evolves [OF conjunct1 [OF conjunct2 [OF step.IH]] step.hyps(2)]
  obtain g2 u where g2: "g2 \<in> set (db_grants z)" "ag_id g2 = ag_id g1" "grant_value g2 = grant_value g1"
    "group_states (group_of z (ag_id g1)) = Some u"
    "group_may_become (the (group_states (group_of y (ag_id g1)))) u" "fst u = ag_state g2"
    using evolved_grant [OF _ evolves g1(1)] step.IH by blast
  have "u = t" using group_table.settled_stays [OF assms(5)] g2(5) step.IH g1(2) by simp
  with g1 g2 groups_evolve_ok [OF evolves] show ?case by auto
qed

text \<open>
  Expiry and release are final: whatever the scheduler does afterwards, a grant that
  expired or was released keeps that state, and its logical and node reservations stay
  released, so its capacity is given back exactly once.
\<close>

theorem finished_grants_stay:
  assumes "(sched_step env)\<^sup>*\<^sup>* empty_db db" and "(sched_step env)\<^sup>*\<^sup>* db db'" and "g \<in> set (db_grants db)"
    and "ag_state g = GrantExpiredUnbound \<or> ag_state g = GrantReleased"
  shows "group_states (group_of db' (ag_id g)) = Some (ag_state g, ReservationReleased, ReservationReleased)"
proof -
  note ok = reachable_groups [OF assms(1)]
  obtain ls s n where group: "group_of db (ag_id g) = ([g], ls, [n])" and match: "rows_match g ls s n"
    by (rule reachable_group [OF ok assms(3)])
  have "s = ReservationReleased" "nr_state n = ReservationReleased"
    using rows_match_simps(3) [OF match] assms(4) by (auto simp: grant_states_def)
  with group group_states_match [OF match]
  have "group_states (group_of db (ag_id g)) = Some (ag_state g, ReservationReleased, ReservationReleased)"
    by simp
  from final_group_stays [OF assms(2) ok assms(3) this] assms(4) show ?thesis
    by (auto simp: final_states_def)
qed


end
