(* ===== verification/Sched_Evidence.thy ===== *)
theory Sched_Evidence
  imports Sched_Lifecycle
begin

text \<open>
  The two kinds of evidence that end a grant without a lease arrive independently, in either
  order. On the group of one grant each of them is a rewriting of that group; the two
  rewritings are shown to accept the same groups and to end in the same database.
\<close>

section \<open>Rewriting a group\<close>

definition write_group :: "ident \<Rightarrow> admission_grant \<Rightarrow> nat \<Rightarrow> nat \<Rightarrow> sched_db \<Rightarrow> sched_db" where
  "write_group gid g s n db =
     db\<lparr>db_grants := map (\<lambda>x. if ag_id x = gid then g else x) (db_grants db),
        db_logical := map (\<lambda>r. if lr_grant_id r = gid then r\<lparr>lr_state := s\<rparr> else r) (db_logical db),
        db_node := map (\<lambda>r. if nr_grant_id r = gid then r\<lparr>nr_state := n\<rparr> else r) (db_node db)\<rparr>"

lemma write_group_twice:
  "ag_id g1 = gid \<Longrightarrow> write_group gid g2 s2 n2 (write_group gid g1 s1 n1 db) = write_group gid g2 s2 n2 db"
  by (simp add: write_group_def)

text \<open>An update of rows of one key, when every row of the key is known.\<close>

lemma update_rows_key:
  assumes "\<And>x. x \<in> set xs \<Longrightarrow> key x = k \<Longrightarrow> (if P x then f x else x) = h x" and "\<And>x. P x \<Longrightarrow> key x = k"
  shows "update_rows P f xs = map (\<lambda>x. if key x = k then h x else x) xs"
  using assms by (auto simp: update_rows_def)

lemma set_state_written:
  "ag_id g = gid \<Longrightarrow> ag_generation g = gen \<Longrightarrow>
   set_grant_state gid gen frm to (write_group gid g s n db) =
     write_group gid (if ag_state g \<in> frm then g\<lparr>ag_state := to\<rparr> else g) s n db"
  by (simp add: set_grant_state_def write_group_def update_rows_def)

lemma group_of_write:
  assumes "group_of db gid = ([g], ls, [n])" and "ag_id g' = gid"
  shows "group_of (write_group gid g' s' n' db) gid = ([g'], map (\<lambda>r. r\<lparr>lr_state := s'\<rparr>) ls, [n\<lparr>nr_state := n'\<rparr>])"
proof -
  have keyed: "filter (\<lambda>x. key x = k) (map (\<lambda>x. if key x = k then f x else x) xs) = map f (filter (\<lambda>x. key x = k) xs)"
    if "\<And>x. key x = k \<Longrightarrow> key (f x) = k" for key :: "'b \<Rightarrow> ident" and k f xs
    using that by (induction xs) auto
  show ?thesis
    using assms by (simp add: group_of_def write_group_def keyed)
qed

lemma group_lists:
  assumes "group_of db gid = ([g], ls, [n])"
  shows "r \<in> set (db_logical db) \<Longrightarrow> lr_grant_id r = gid \<Longrightarrow> r \<in> set ls"
  using assms by (auto simp: group_of_def)

lemma find_grant_iff:
  assumes "group_of db gid = ([g], ls, [n])"
  shows "find_grant db gid item gen = (if ag_work_item_id g = item \<and> ag_generation g = gen then Some g else None)"
proof (cases "find_grant db gid item gen")
  case None
  then have "\<not> (ag_work_item_id g = item \<and> ag_generation g = gen)"
    using group_members(2,3) [OF assms] by (auto simp: find_grant_def find_elem_None)
  with None show ?thesis by simp
next
  case (Some h)
  with find_grant_group [OF Some assms] find_elem_Some [OF Some [unfolded find_grant_def]] show ?thesis
    by simp
qed

section \<open>The evidence on a group\<close>

definition evidence_accepted :: "fenced_evidence \<Rightarrow> admission_grant \<Rightarrow> bool" where
  "evidence_accepted ev g \<longleftrightarrow>
     ag_work_item_id g = fe_WorkItemID ev \<and> ag_generation g = fe_GrantGeneration ev \<and>
     \<not> terminal_evidence_conflict ev g \<and>
     (ag_terminal_decision_id g = [] \<or> \<not> recorded_terminal_conflict ev g)"

lemma terminal_evidence_on_group:
  assumes group: "group_of db (fe_AdmissionGrantID ev) = ([g], ls, [n])"
  shows "lockAndValidateTerminalEvidence ev db =
    (if evidence_accepted ev g
     then Inr (ag_state g, db\<lparr>db_grants :=
       map (\<lambda>x. if ag_id x = fe_AdmissionGrantID ev then record_terminal ev g else x) (db_grants db)\<rparr>)
     else Inl ErrorIntegrityConflict)"
proof -
  let ?gid = "fe_AdmissionGrantID ev"
  note members = group_members(1,2,3) [OF group]
  have one: "rows_affected (terminal_grant_row ev) (db_grants db) = 1"
    if "ag_terminal_decision_id g = []" "ag_generation g = fe_GrantGeneration ev"
  proof -
    have "rows_affected (terminal_grant_row ev) (db_grants db) = rows_affected (terminal_grant_row ev) [g]"
      using group by (subst rows_affected_filter [where key = ag_id and k = ?gid])
        (simp_all add: terminal_grant_row_def group_of_def)
    with that members(3) show ?thesis by (simp add: terminal_grant_row_def)
  qed
  have first: "update_rows (terminal_grant_row ev) (record_terminal ev) (db_grants db) =
      map (\<lambda>x. if ag_id x = ?gid then record_terminal ev g else x) (db_grants db)"
    if "ag_terminal_decision_id g = []" "ag_generation g = fe_GrantGeneration ev"
  proof (rule update_rows_key)
    fix x
    assume "x \<in> set (db_grants db)" "ag_id x = ?gid"
    then have "x = g" by (rule members(1))
    with that members(3) show "(if terminal_grant_row ev x then record_terminal ev x else x) = record_terminal ev g"
      by (simp add: terminal_grant_row_def)
  qed (simp add: terminal_grant_row_def)
  have again: "map (\<lambda>x. if ag_id x = ?gid then record_terminal ev g else x) (db_grants db) = db_grants db"
    if "\<not> recorded_terminal_conflict ev g"
  proof -
    have "record_terminal ev g = g" using that by (simp add: record_terminal_def recorded_terminal_conflict_def)
    then show ?thesis by (intro map_idI) (simp, metis members(1))
  qed
  show ?thesis
    unfolding lockAndValidateTerminalEvidence_def find_grant_iff [OF group]
    using one first again by (auto simp: evidence_accepted_def)
qed

lemma evidence_again:
  "evidence_accepted ev g \<Longrightarrow> evidence_accepted ev (record_terminal ev g\<lparr>ag_state := st\<rparr>)"
  by (simp add: evidence_accepted_def record_terminal_def terminal_evidence_conflict_def
      recorded_terminal_conflict_def)

text \<open>The final states after each kind of evidence.\<close>

definition fenced_state :: "nat \<Rightarrow> nat \<Rightarrow> nat" where
  "fenced_state st n =
     (if n = ReservationReleased \<and> st \<in> {GrantBound, GrantTerminalNoLease} then GrantReleased else st)"

definition no_lease_state :: "nat \<Rightarrow> nat" where
  "no_lease_state s = (if s = ReservationReleased then GrantReleased else GrantTerminalNoLease)"

lemma fenced_on_group:
  assumes group: "group_of db (fe_AdmissionGrantID ev) = ([g], ls, [n])" and match: "rows_match g ls s n"
  defines "accepted \<equiv> validRuntimeFencedEvidence ev \<and> evidence_accepted ev g \<and>
    ag_state g \<in> {GrantBound, GrantLeaseAttached, GrantTerminalNoLease, GrantReleased}"
  shows "accepted \<Longrightarrow> ApplyRuntimeFencedOrTerminal ev db =
      (Inr (), write_group (fe_AdmissionGrantID ev)
         (record_terminal ev g\<lparr>ag_state := fenced_state (ag_state g) (nr_state n)\<rparr>)
         ReservationReleased (nr_state n) db)"
    and "\<not> accepted \<Longrightarrow> fst (ApplyRuntimeFencedOrTerminal ev db) \<noteq> Inr ()"
proof -
  let ?gid = "fe_AdmissionGrantID ev"
  let ?db1 = "db\<lparr>db_grants := map (\<lambda>x. if ag_id x = ?gid then record_terminal ev g else x) (db_grants db)\<rparr>"
  note terminal = terminal_evidence_on_group [OF group]
  show "fst (ApplyRuntimeFencedOrTerminal ev db) \<noteq> Inr ()" if "\<not> accepted"
    using that by (auto simp: ApplyRuntimeFencedOrTerminal_def terminal accepted_def)
  assume acc: accepted
  then have bound: "s = ReservationBound \<or> s = ReservationReleased"
    using rows_match_simps(3) [OF match] by (auto simp: accepted_def grant_states_def)
  have gen: "ag_generation g = fe_GrantGeneration ev"
    using acc by (simp add: accepted_def evidence_accepted_def)
  have rows: "lr_grant_generation r = ag_generation g \<and> lr_state r = s"
    if "r \<in> set (db_logical db)" "lr_grant_id r = ?gid" for r
    using group_lists [OF group that] rows_match_simps(2) [OF match] by simp
  have logical: "update_rows (fenced_logical_row ev) (\<lambda>r. r\<lparr>lr_state := ReservationReleased\<rparr>) (db_logical db)
      = map (\<lambda>r. if lr_grant_id r = ?gid then r\<lparr>lr_state := ReservationReleased\<rparr> else r) (db_logical db)"
    using rows gen bound by (intro update_rows_key) (auto simp: fenced_logical_row_def)
  have count: "rows_affected (fenced_logical_row ev) (db_logical db) \<in> {0, 4}"
  proof -
    have "rows_affected (fenced_logical_row ev) (db_logical db) = rows_affected (fenced_logical_row ev) ls"
      using group by (subst rows_affected_filter [where key = lr_grant_id and k = ?gid])
        (simp_all add: fenced_logical_row_def group_of_def)
    also have "filter (fenced_logical_row ev) ls = (if s = ReservationBound then ls else [])"
      using rows_match_simps(2) [OF match] group_members(4) [OF group] gen
      by (auto simp: fenced_logical_row_def filter_empty_conv intro!: filter_True)
    then have "rows_affected (fenced_logical_row ev) ls \<in> {0, 4}"
      using rows_match_simps(1) [OF match] by (simp add: rows_affected_def)
    finally show ?thesis .
  qed
  have node: "map (\<lambda>r. if nr_grant_id r = ?gid then r\<lparr>nr_state := nr_state n\<rparr> else r) (db_node db) = db_node db"
    by (intro map_idI) (simp, metis group_members(6) [OF group] node_reservation.surjective node_reservation.update_convs(5))
  have state: "node_state_of (release_logical ev ?db1) ?gid = Some (nr_state n)"
    using node_state_of_group [OF group] unfolding node_state_release_logical by (simp add: node_state_of_def)
  have released: "release_logical ev ?db1 =
      write_group ?gid (record_terminal ev g) ReservationReleased (nr_state n) db"
    by (simp add: write_group_def node release_logical_def logical)
  have final: "(if nr_state n = ReservationReleased
      then set_grant_state ?gid (fe_GrantGeneration ev) {GrantBound, GrantTerminalNoLease} GrantReleased
             (release_logical ev ?db1)
      else release_logical ev ?db1) =
    write_group ?gid (record_terminal ev g\<lparr>ag_state := fenced_state (ag_state g) (nr_state n)\<rparr>)
         ReservationReleased (nr_state n) db"
    unfolding released using gen group_members(3) [OF group]
    by (subst set_state_written) (simp_all add: record_terminal_def fenced_state_def)
  show "ApplyRuntimeFencedOrTerminal ev db =
      (Inr (), write_group ?gid (record_terminal ev g\<lparr>ag_state := fenced_state (ag_state g) (nr_state n)\<rparr>)
         ReservationReleased (nr_state n) db)"
    using acc count state unfolding final [symmetric]
    by (simp add: ApplyRuntimeFencedOrTerminal_def terminal accepted_def Let_def del: insert_iff)
qed

lemma no_lease_on_group:
  assumes group: "group_of db (fe_AdmissionGrantID (ne_base ev)) = ([g], ls, [n])" and match: "rows_match g ls s n"
  defines "accepted \<equiv> validRuntimeFencedEvidence (ne_base ev) \<and> ne_ExecutionNodeID ev \<noteq> [] \<and>
    ne_NodeCapacityGeneration ev \<noteq> 0 \<and> evidence_accepted (ne_base ev) g \<and>
    ag_state g \<in> {GrantBound, GrantTerminalNoLease, GrantReleased} \<and> no_lease_node_row ev n"
  shows "accepted \<Longrightarrow> ApplyNoLeasePhysicalDisposition ev db =
      (Inr (), write_group (fe_AdmissionGrantID (ne_base ev))
         (record_terminal (ne_base ev) g\<lparr>ag_state := no_lease_state s\<rparr>) s ReservationReleased db)"
    and "\<not> accepted \<Longrightarrow> fst (ApplyNoLeasePhysicalDisposition ev db) \<noteq> Inr ()"
proof -
  let ?gid = "fe_AdmissionGrantID (ne_base ev)"
  let ?db1 = "db\<lparr>db_grants := map (\<lambda>x. if ag_id x = ?gid then record_terminal (ne_base ev) g else x) (db_grants db)\<rparr>"
  let ?bound = "\<lambda>r. no_lease_node_row ev r \<and> nr_state r = ReservationBound"
  note terminal = terminal_evidence_on_group [OF group]
  have rows: "rows_affected ?bound (db_node db) = (if ?bound n then 1 else 0)"
    using group by (subst rows_affected_filter [where key = nr_grant_id and k = ?gid])
      (simp_all add: no_lease_node_row_def node_row_def group_of_def)
  have found: "find_elem (no_lease_node_row ev) (db_node db) = (if no_lease_node_row ev n then Some n else None)"
  proof -
    have "find_elem (no_lease_node_row ev) (db_node db)
        = find_elem (no_lease_node_row ev) (filter (\<lambda>r. nr_grant_id r = ?gid) (db_node db))"
      unfolding find_elem_filter filter_filter
      by (rule arg_cong [where f = "case_list None (\<lambda>x _. Some x)"])
        (auto simp: no_lease_node_row_def node_row_def intro: filter_cong)
    with group show ?thesis by (simp add: group_of_def)
  qed
  show "fst (ApplyNoLeasePhysicalDisposition ev db) \<noteq> Inr ()" if "\<not> accepted"
    using that rows found
    by (auto simp: ApplyNoLeasePhysicalDisposition_def terminal accepted_def Let_def no_lease_finish_def)
  assume acc: accepted
  then have node_states: "nr_state n = ReservationBound \<or> nr_state n = ReservationReleased"
    using rows_match_simps(3) [OF match] by (auto simp: accepted_def grant_states_def)
  have row: "no_lease_node_row ev n" and gen: "ag_generation g = fe_GrantGeneration (ne_base ev)"
    using acc by (simp_all add: accepted_def evidence_accepted_def)
  have node: "update_rows ?bound (\<lambda>r. r\<lparr>nr_state := ReservationReleased\<rparr>) (db_node db)
      = map (\<lambda>r. if nr_grant_id r = ?gid then r\<lparr>nr_state := ReservationReleased\<rparr> else r) (db_node db)"
  proof (rule update_rows_key)
    fix r
    assume "r \<in> set (db_node db)" "nr_grant_id r = ?gid"
    then have "r = n" by (rule group_members(6) [OF group])
    with row node_states
    show "(if ?bound r then r\<lparr>nr_state := ReservationReleased\<rparr> else r) = r\<lparr>nr_state := ReservationReleased\<rparr>"
      by auto
  qed (simp add: no_lease_node_row_def node_row_def)
  have logical: "map (\<lambda>r. if lr_grant_id r = ?gid then r\<lparr>lr_state := s\<rparr> else r) (db_logical db) = db_logical db"
    by (intro map_idI) (simp, metis group_lists [OF group] rows_match_simps(2) [OF match]
        logical_reservation.surjective logical_reservation.update_convs(5))
  let ?db2 = "?db1\<lparr>db_node := update_rows ?bound (\<lambda>r. r\<lparr>nr_state := ReservationReleased\<rparr>) (db_node db)\<rparr>"
  have db2: "?db2 = write_group ?gid (record_terminal (ne_base ev) g) s ReservationReleased db"
    by (simp add: write_group_def logical node)
  have common: "common_logical_state ?db2 ?gid = Some s"
    using common_logical_state_group [OF group match] by (simp add: common_logical_state_def)
  have finish: "no_lease_finish ev db ?db2 =
      (Inr (), write_group ?gid (record_terminal (ne_base ev) g\<lparr>ag_state := no_lease_state s\<rparr>) s ReservationReleased db)"
    unfolding no_lease_finish_def common unfolding db2
    using acc gen group_members(3) [OF group]
    by (simp add: set_state_written accepted_def record_terminal_def no_lease_state_def)
  show "ApplyNoLeasePhysicalDisposition ev db =
      (Inr (), write_group ?gid (record_terminal (ne_base ev) g\<lparr>ag_state := no_lease_state s\<rparr>) s ReservationReleased db)"
    using acc rows found row node_states unfolding finish [symmetric]
    by (auto simp: ApplyNoLeasePhysicalDisposition_def terminal accepted_def Let_def)
qed

section \<open>Either order\<close>

lemma group_match:
  assumes "groups_ok db" and "group_of db gid = ([g], ls, [n])" and "r \<in> set ls"
  shows "rows_match g ls (lr_state r) n"
proof -
  have "group_ok ([g], ls, [n])" using assms(1,2) by (metis groups_ok_def)
  then obtain s where "rows_match g ls s n" by (auto elim: group_okE)
  with rows_match_simps(2) [OF this assms(3)] show ?thesis by simp
qed

lemma written_match:
  assumes ok: "groups_ok (write_group gid g' s' n' db)" and group: "group_of db gid = ([g], ls, [n])"
    and match: "rows_match g ls s n" and "ag_id g' = gid"
  shows "rows_match g' (map (\<lambda>r. r\<lparr>lr_state := s'\<rparr>) ls) s' (n\<lparr>nr_state := n'\<rparr>)"
proof -
  obtain r where "r \<in> set ls" using rows_match_simps(1) [OF match] by (cases ls) auto
  with group_match [OF ok group_of_write [OF group assms(4)], of "r\<lparr>lr_state := s'\<rparr>"] show ?thesis by simp
qed

lemma fenced_then_disposed:
  fixes ev :: no_lease_evidence
  assumes ok: "groups_ok db" and group: "group_of db (fe_AdmissionGrantID (ne_base ev)) = ([g], ls, [n])"
    and match: "rows_match g ls s n"
  defines "first \<equiv> ApplyRuntimeFencedOrTerminal (ne_base ev) db"
  defines "second \<equiv> ApplyNoLeasePhysicalDisposition ev (snd first)"
    and "both \<equiv> validRuntimeFencedEvidence (ne_base ev) \<and> ne_ExecutionNodeID ev \<noteq> [] \<and>
    ne_NodeCapacityGeneration ev \<noteq> 0 \<and> evidence_accepted (ne_base ev) g \<and>
    ag_state g \<in> {GrantBound, GrantTerminalNoLease, GrantReleased} \<and> no_lease_node_row ev n"
  shows "(fst first = Inr () \<and> fst second = Inr () \<longleftrightarrow> both) \<and>
    (both \<longrightarrow> snd second = write_group (fe_AdmissionGrantID (ne_base ev))
       (record_terminal (ne_base ev) g\<lparr>ag_state := GrantReleased\<rparr>) ReservationReleased ReservationReleased db)"
proof (cases "validRuntimeFencedEvidence (ne_base ev) \<and> evidence_accepted (ne_base ev) g \<and>
    ag_state g \<in> {GrantBound, GrantLeaseAttached, GrantTerminalNoLease, GrantReleased}")
  case False
  from fenced_on_group(2) [OF group match this] False show ?thesis by (auto simp: first_def both_def)
next
  case True
  let ?gid = "fe_AdmissionGrantID (ne_base ev)"
  let ?g1 = "record_terminal (ne_base ev) g\<lparr>ag_state := fenced_state (ag_state g) (nr_state n)\<rparr>"
  have first: "first = (Inr (), write_group ?gid ?g1 ReservationReleased (nr_state n) db)"
    unfolding first_def by (rule fenced_on_group(1) [OF group match True])
  have id: "ag_id ?g1 = ?gid" using group_members(3) [OF group] by (simp add: record_terminal_def)
  have "groups_ok (snd first)"
    unfolding first_def by (rule groups_evolve_ok [OF fenced_evolves [OF ok]])
  then have ok1: "groups_ok (write_group ?gid ?g1 ReservationReleased (nr_state n) db)" by (simp add: first)
  note second = no_lease_on_group [OF group_of_write [OF group id] written_match [OF ok1 group match id]]
  have state: "ag_state ?g1 \<in> {GrantBound, GrantTerminalNoLease, GrantReleased} \<longleftrightarrow>
      ag_state g \<in> {GrantBound, GrantTerminalNoLease, GrantReleased}"
    using True by (auto simp: fenced_state_def)
  have row: "no_lease_node_row ev (n\<lparr>nr_state := nr_state n\<rparr>) = no_lease_node_row ev n" by simp
  show ?thesis
  proof (cases both)
    case both: True
    then have "second = (Inr (), write_group ?gid (record_terminal (ne_base ev) ?g1\<lparr>ag_state := no_lease_state ReservationReleased\<rparr>)
        ReservationReleased ReservationReleased (write_group ?gid ?g1 ReservationReleased (nr_state n) db))"
      unfolding second_def first snd_conv
      by (intro second(1)) (simp only: both_def state row evidence_again simp_thms)
    also have "write_group ?gid (record_terminal (ne_base ev) ?g1\<lparr>ag_state := no_lease_state ReservationReleased\<rparr>)
        ReservationReleased ReservationReleased (write_group ?gid ?g1 ReservationReleased (nr_state n) db) =
      write_group ?gid (record_terminal (ne_base ev) g\<lparr>ag_state := GrantReleased\<rparr>) ReservationReleased ReservationReleased db"
      by (subst write_group_twice [OF id]) (simp add: record_terminal_def no_lease_state_def)
    finally show ?thesis using both first by simp
  next
    case False
    have "fst second \<noteq> Inr ()"
      unfolding second_def first snd_conv
      by (rule second(2)) (use False True state in \<open>auto simp: both_def\<close>)
    with False show ?thesis by simp
  qed
qed

lemma disposed_then_fenced:
  fixes ev :: no_lease_evidence
  assumes ok: "groups_ok db" and group: "group_of db (fe_AdmissionGrantID (ne_base ev)) = ([g], ls, [n])"
    and match: "rows_match g ls s n"
  defines "first \<equiv> ApplyNoLeasePhysicalDisposition ev db"
  defines "second \<equiv> ApplyRuntimeFencedOrTerminal (ne_base ev) (snd first)"
    and "both \<equiv> validRuntimeFencedEvidence (ne_base ev) \<and> ne_ExecutionNodeID ev \<noteq> [] \<and>
    ne_NodeCapacityGeneration ev \<noteq> 0 \<and> evidence_accepted (ne_base ev) g \<and>
    ag_state g \<in> {GrantBound, GrantTerminalNoLease, GrantReleased} \<and> no_lease_node_row ev n"
  shows "(fst first = Inr () \<and> fst second = Inr () \<longleftrightarrow> both) \<and>
    (both \<longrightarrow> snd second = write_group (fe_AdmissionGrantID (ne_base ev))
       (record_terminal (ne_base ev) g\<lparr>ag_state := GrantReleased\<rparr>) ReservationReleased ReservationReleased db)"
proof (cases both)
  case False
  then have "fst first \<noteq> Inr ()"
    unfolding first_def both_def by (rule no_lease_on_group(2) [OF group match])
  with False show ?thesis by simp
next
  case True
  let ?gid = "fe_AdmissionGrantID (ne_base ev)"
  let ?g1 = "record_terminal (ne_base ev) g\<lparr>ag_state := no_lease_state s\<rparr>"
  have first: "first = (Inr (), write_group ?gid ?g1 s ReservationReleased db)"
    using True unfolding first_def both_def by (rule no_lease_on_group(1) [OF group match])
  have id: "ag_id ?g1 = ?gid" using group_members(3) [OF group] by (simp add: record_terminal_def)
  have "groups_ok (snd first)"
    unfolding first_def by (rule groups_evolve_ok [OF no_lease_evolves [OF ok]])
  then have ok1: "groups_ok (write_group ?gid ?g1 s ReservationReleased db)" by (simp add: first)
  have accepted: "evidence_accepted (ne_base ev) ?g1" "validRuntimeFencedEvidence (ne_base ev)"
    using True by (simp_all add: both_def evidence_again)
  have "second = (Inr (), write_group ?gid (record_terminal (ne_base ev) ?g1\<lparr>ag_state :=
        fenced_state (ag_state ?g1) (nr_state (n\<lparr>nr_state := ReservationReleased\<rparr>))\<rparr>)
      ReservationReleased (nr_state (n\<lparr>nr_state := ReservationReleased\<rparr>))
      (write_group ?gid ?g1 s ReservationReleased db))"
    unfolding second_def first snd_conv
    by (rule fenced_on_group(1) [OF group_of_write [OF group id] written_match [OF ok1 group match id]])
      (use accepted in \<open>simp add: no_lease_state_def\<close>)
  then have "second = (Inr (), write_group ?gid (record_terminal (ne_base ev) g\<lparr>ag_state := GrantReleased\<rparr>)
      ReservationReleased ReservationReleased db)"
    unfolding write_group_twice [OF id]
    by (simp add: record_terminal_def fenced_state_def no_lease_state_def split: if_splits)
  with True first show ?thesis by simp
qed

text \<open>
  C32. For a grant without a lease the two pieces of evidence commute: if the fence was applied
  and then the no-lease disposition of the same terminal decision, applying them in the other
  order is accepted as well and ends in the same database, and the other way round; and the
  grant is then released with all its reservations.
\<close>

theorem evidence_order_is_irrelevant:
  assumes "(sched_step env)\<^sup>*\<^sup>* empty_db db" and "g \<in> set (db_grants db)"
    and "ag_id g = fe_AdmissionGrantID (ne_base ev)"
  defines "fenced \<equiv> \<lambda>d. ApplyRuntimeFencedOrTerminal (ne_base ev) d"
    and "disposed \<equiv> \<lambda>d. ApplyNoLeasePhysicalDisposition ev d"
  shows "(fst (fenced db) = Inr () \<and> fst (disposed (snd (fenced db))) = Inr ()) =
      (fst (disposed db) = Inr () \<and> fst (fenced (snd (disposed db))) = Inr ()) \<and>
    (fst (fenced db) = Inr () \<and> fst (disposed (snd (fenced db))) = Inr () \<longrightarrow>
       snd (disposed (snd (fenced db))) = snd (fenced (snd (disposed db))) \<and>
       group_states (group_of (snd (disposed (snd (fenced db)))) (ag_id g)) =
         Some (GrantReleased, ReservationReleased, ReservationReleased))"
proof -
  let ?ev = "ne_base ev"
  let ?gid = "fe_AdmissionGrantID ?ev"
  let ?done = "record_terminal ?ev g\<lparr>ag_state := GrantReleased\<rparr>"
  note ok = reachable_groups [OF assms(1)]
  obtain ls s n where group: "group_of db ?gid = ([g], ls, [n])" and match: "rows_match g ls s n"
    using reachable_group [OF ok assms(2)] unfolding assms(3) by blast
  define both where "both \<longleftrightarrow> validRuntimeFencedEvidence ?ev \<and> ne_ExecutionNodeID ev \<noteq> [] \<and>
    ne_NodeCapacityGeneration ev \<noteq> 0 \<and> evidence_accepted ?ev g \<and>
    ag_state g \<in> {GrantBound, GrantTerminalNoLease, GrantReleased} \<and> no_lease_node_row ev n"
  have fenced_first: "fst (fenced db) = Inr () \<and> fst (disposed (snd (fenced db))) = Inr () \<longleftrightarrow> both"
    and fenced_end: "both \<Longrightarrow> snd (disposed (snd (fenced db))) = write_group ?gid ?done ReservationReleased ReservationReleased db"
    using fenced_then_disposed [OF ok group match] unfolding both_def fenced_def disposed_def by blast+
  have disposed_first: "fst (disposed db) = Inr () \<and> fst (fenced (snd (disposed db))) = Inr () \<longleftrightarrow> both"
    and disposed_end: "both \<Longrightarrow> snd (fenced (snd (disposed db))) = write_group ?gid ?done ReservationReleased ReservationReleased db"
    using disposed_then_fenced [OF ok group match] unfolding both_def fenced_def disposed_def by blast+
  have "group_states (group_of (write_group ?gid ?done ReservationReleased ReservationReleased db) ?gid) =
      Some (GrantReleased, ReservationReleased, ReservationReleased)"
    using group_members(3) [OF group] rows_match_simps(1) [OF match]
    by (cases ls) (simp_all add: group_of_write [OF group] record_terminal_def)
  then show ?thesis
    unfolding fenced_first disposed_first using fenced_end disposed_end assms(3) by simp
qed

end
