(* ===== verification/Sched_Examples.thy ===== *)
theory Sched_Examples
  imports Sched_Redelivery Sched_Evidence
begin

text \<open>
  A run of the scheduler on concrete data: one work item is enqueued, admitted, accepted and
  ended in each of the possible ways. It shows that the hypotheses of the scheduler's theorems
  hold in states the scheduler reaches, by evaluating the operations.
\<close>

definition demo_digest :: digest where "demo_digest = replicate 32 CHR ''d''"

definition demo_env :: sched_env where
  "demo_env =
     \<lparr>se_sha256 = (\<lambda>_. demo_digest),
      se_decode_start = (\<lambda>_. Some
        \<lparr>ce_Kind = ''start_runtime_run'', ce_OperationID = ''op-1'', ce_PersonalWorkspaceID = ''ws-1'',
         ce_TaskID = ''task-1'', ce_PhaseRunID = ''phase-1'', ce_RuntimeRunID = ''run-1'',
         ce_WorkerClass = ''worker'', ce_ResourceClassID = ''class-1'',
         ce_ExecutionPolicyID = ''policy-1'', ce_Deadline = 1000\<rparr>),
      se_admission =
        \<lparr>ac_SchedulerEpoch = 1, ac_PolicyVersion = 1, ac_GrantTTL = 60,
         ac_Limits = \<lparr>al_Global = 1, al_PersonalWorkspace = 1, al_WorkerClass = 1, al_ResourceClass = 1\<rparr>,
         ac_Node = \<lparr>nc_ExecutionNodeID = ''node-1'', nc_CapacityGeneration = 1,
                    nc_ResourceClassID = ''class-1'', nc_ExecutionPolicyID = ''policy-1'',
                    nc_AvailableRuntimeSlots = 1\<rparr>\<rparr>,
      se_node_fact = None\<rparr>"

definition demo_request :: enqueue_request where
  "demo_request =
     \<lparr>eq_operation_id = ''op-1'', eq_personal_workspace_id = ''ws-1'', eq_task_id = ''task-1'',
      eq_phase_run_id = ''phase-1'', eq_runtime_run_id = ''run-1'', eq_decision_id = ''decision-1'',
      eq_task_revision = 1, eq_kind = 1, eq_payload_digest = demo_digest,
      eq_canonical_payload = ''{}'', eq_runtime_request_kind = 1, eq_activity_generation = 1,
      eq_fence_kind = 1, eq_fence = 1, eq_causation_id = ''cause-1''\<rparr>"

definition demo_accept :: accept_request where
  "demo_accept =
     \<lparr>ap_work_item_id = ''scheduler-work-item-op-1'', ap_admission_grant_id = ''admission-grant-000000000001'',
      ap_grant_generation = 1, ap_operation_id = ''op-1'', ap_payload_digest = demo_digest,
      ap_runtime_run_id = ''run-1'', ap_decision_id = ''runtime-decision-1'', ap_runtime_revision = 1,
      ap_runtime_fence = 1, ap_lease_acquire_operation_id = ''acquire-1'',
      ap_lease_acquire_digest = demo_digest, ap_runtime_deadline = 1000,
      ap_resource_class_id = ''class-1'', ap_execution_policy_id = ''policy-1'', ap_accepted_at = 120\<rparr>"

definition demo_attach :: attach_request where
  "demo_attach =
     \<lparr>at_work_item_id = ''scheduler-work-item-op-1'', at_admission_grant_id = ''admission-grant-000000000001'',
      at_grant_generation = 1, at_runtime_run_id = ''run-1'', at_start_operation_id = ''op-1'',
      at_start_digest = demo_digest, at_runtime_revision = 2, at_runtime_fence = 1,
      at_lease_acquire_operation_id = ''acquire-1'', at_lease_acquire_digest = demo_digest,
      at_sandbox_lease_id = ''lease-1'', at_lease_generation = 1, at_lease_fence = 1,
      at_sandbox_id = ''sandbox-1'', at_sandbox_generation = 1, at_sandbox_fence = 1,
      at_execution_node_id = ''node-1'', at_node_capacity_generation = 1,
      at_resource_class_id = ''class-1'', at_execution_policy_id = ''policy-1'',
      at_scheduler_epoch = 1, at_policy_version = 1, at_attached_at = 130\<rparr>"

definition demo_fenced :: fenced_evidence where
  "demo_fenced =
     \<lparr>fe_WorkItemID = ''scheduler-work-item-op-1'', fe_AdmissionGrantID = ''admission-grant-000000000001'',
      fe_GrantGeneration = 1, fe_RuntimeRunID = ''run-1'', fe_StartOperationID = ''op-1'',
      fe_StartDigest = demo_digest, fe_TerminalDecisionID = ''terminal-1'', fe_RuntimeRevision = 3,
      fe_RuntimeFence = 2, fe_SchedulerEpoch = 1, fe_PolicyVersion = 1,
      fe_LeaseAcquireOperationID = ''acquire-1'', fe_LeaseAcquireDigest = demo_digest\<rparr>"

definition demo_no_lease :: no_lease_evidence where
  "demo_no_lease = \<lparr>ne_base = demo_fenced, ne_ExecutionNodeID = ''node-1'', ne_NodeCapacityGeneration = 1\<rparr>"

definition demo_physical :: physical_release_evidence where
  "demo_physical =
     \<lparr>pe_WorkItemID = ''scheduler-work-item-op-1'', pe_AdmissionGrantID = ''admission-grant-000000000001'',
      pe_GrantGeneration = 1, pe_RuntimeRunID = ''run-1'', pe_StartOperationID = ''op-1'',
      pe_StartDigest = demo_digest, pe_ReleaseOperationID = ''release-1'',
      pe_ReleaseOperationDigest = demo_digest, pe_RuntimeRevision = 3, pe_RuntimeFence = 2,
      pe_SandboxLeaseID = ''lease-1'', pe_LeaseGeneration = 1, pe_LeaseFence = 1,
      pe_SandboxID = ''sandbox-1'', pe_SandboxGeneration = 1, pe_SandboxFence = 1,
      pe_ExecutionNodeID = ''node-1'', pe_NodeCapacityGeneration = 1, pe_ResetEvidenceID = ''reset-1'',
      pe_ResetEvidenceDigest = demo_digest\<rparr>"

definition demo_queued :: sched_db where
  "demo_queued = snd (scheduler_enqueue_work_item demo_request 100 empty_db)"

definition demo_admitted :: sched_db where
  "demo_admitted = snd (ClaimAndAdmit demo_env True 110 demo_queued)"

definition demo_bound :: sched_db where
  "demo_bound = snd (scheduler_accept_runtime_start demo_accept demo_admitted)"

definition demo_attached :: sched_db where
  "demo_attached = snd (scheduler_attach_runtime_lease demo_attach demo_bound)"

definition demo_released_first :: sched_db where
  "demo_released_first = snd (ApplyPhysicalCapacityReleaseReady (Some (\<lambda>_. True)) demo_physical demo_attached)"

definition demo_stuck :: sched_db where
  "demo_stuck = snd (ApplyRuntimeFencedOrTerminal demo_fenced demo_released_first)"

definition demo_disposed :: sched_db where
  "demo_disposed = snd (ApplyRuntimeFencedOrTerminal demo_fenced (snd (ApplyNoLeasePhysicalDisposition demo_no_lease demo_bound)))"

definition demo_grant :: ident where "demo_grant = ''admission-grant-000000000001''"

section \<open>Reachability\<close>

lemma demo_queued_reachable: "(sched_step env)\<^sup>*\<^sup>* empty_db demo_queued"
  unfolding demo_queued_def by (intro r_into_rtranclp sched_step.enqueue)

lemma demo_admitted_reachable: "(sched_step demo_env)\<^sup>*\<^sup>* empty_db demo_admitted"
  unfolding demo_admitted_def
  by (rule rtranclp.rtrancl_into_rtrancl [OF demo_queued_reachable sched_step.claim])

lemma demo_bound_reachable: "(sched_step demo_env)\<^sup>*\<^sup>* empty_db demo_bound"
  unfolding demo_bound_def
  by (rule rtranclp.rtrancl_into_rtrancl [OF demo_admitted_reachable sched_step.accept])

lemma demo_attached_reachable: "(sched_step demo_env)\<^sup>*\<^sup>* empty_db demo_attached"
  unfolding demo_attached_def
  by (rule rtranclp.rtrancl_into_rtrancl [OF demo_bound_reachable sched_step.attach])

lemma demo_stuck_reachable: "(sched_step demo_env)\<^sup>*\<^sup>* empty_db demo_stuck"
  unfolding demo_stuck_def demo_released_first_def
  by (rule rtranclp.rtrancl_into_rtrancl [OF
        rtranclp.rtrancl_into_rtrancl [OF demo_attached_reachable sched_step.physical] sched_step.fenced])

lemma demo_disposed_reachable: "(sched_step demo_env)\<^sup>*\<^sup>* empty_db demo_disposed"
  unfolding demo_disposed_def
  by (rule rtranclp.rtrancl_into_rtrancl [OF
        rtranclp.rtrancl_into_rtrancl [OF demo_bound_reachable sched_step.no_lease] sched_step.fenced])

lemmas one_step = r_into_rtranclp [where r = "sched_step demo_env"]

lemma fenced_again: "(sched_step demo_env)\<^sup>*\<^sup>* db (snd (ApplyRuntimeFencedOrTerminal ev db))"
  by (rule one_step) (rule sched_step.fenced)

text \<open>The one grant of the run.\<close>

lemma only_grant:
  "map (\<lambda>g. (ag_id g, ag_state g)) (db_grants db) = [(i, st)] \<Longrightarrow>
   \<exists>g. g \<in> set (db_grants db) \<and> ag_id g = i \<and> ag_state g = st"
  by (cases "db_grants db") auto

lemma demo_grants:
  "map (\<lambda>g. (ag_id g, ag_state g)) (db_grants demo_admitted) = [(demo_grant, GrantReservedUnbound)]"
  "map (\<lambda>g. (ag_id g, ag_state g)) (db_grants demo_bound) = [(demo_grant, GrantBound)]"
  "map (\<lambda>g. (ag_id g, ag_state g)) (db_grants demo_attached) = [(demo_grant, GrantLeaseAttached)]"
  "map (\<lambda>g. (ag_id g, ag_state g)) (db_grants demo_stuck) = [(demo_grant, GrantLeaseAttached)]"
  "map (\<lambda>g. (ag_id g, ag_state g)) (db_grants demo_disposed) = [(demo_grant, GrantReleased)]"
  by code_simp+

section \<open>Witnesses\<close>

theorem logical_counters_within_limits_witness:
  "logicalReservationOccupancy demo_admitted 1 ''site'' = 1 \<and>
   logicalReservationOccupancy demo_admitted 1 ''site'' \<le> counter_limit (ac_Limits (se_admission demo_env)) 1"
  using logical_counters_within_limits [OF demo_admitted_reachable, of 1 "''site''"]
  by (intro conjI) code_simp

theorem node_occupancy_within_slots_witness:
  "nodeOccupancy demo_attached ''node-1'' 1 = 1 \<and>
   nodeOccupancy demo_attached (nc_ExecutionNodeID (ac_Node (se_admission demo_env)))
     (nc_CapacityGeneration (ac_Node (se_admission demo_env)))
       \<le> nc_AvailableRuntimeSlots (ac_Node (se_admission demo_env))"
  using node_occupancy_within_slots [OF demo_attached_reachable]
  by (intro conjI) code_simp

theorem enqueue_is_idempotent_witness:
  "scheduler_enqueue_work_item demo_request 500 demo_bound = (Inr (), demo_bound) \<and>
   scheduler_enqueue_work_item (demo_request\<lparr>eq_task_id := ''task-2''\<rparr>) 500 demo_bound
     = (Inl ErrorIntegrityConflict, demo_bound)"
proof -
  have first: "scheduler_enqueue_work_item demo_request 100 empty_db = (Inr (), demo_queued)"
    unfolding demo_queued_def prod_eq_iff fst_conv snd_conv by (rule conjI [OF _ refl]) code_simp
  have later: "(sched_step demo_env)\<^sup>*\<^sup>* demo_queued demo_bound"
    unfolding demo_bound_def demo_admitted_def
    by (rule rtranclp_trans; rule one_step) (rule sched_step.claim, rule sched_step.accept)
  have "demo_request\<lparr>eq_task_id := ''task-2''\<rparr> \<noteq> demo_request" by (simp add: demo_request_def)
  then show ?thesis
    using enqueue_is_idempotent [OF first later, of demo_request 500]
      enqueue_is_idempotent [OF first later, of "demo_request\<lparr>eq_task_id := ''task-2''\<rparr>" 500]
    by simp
qed

theorem admission_candidate_is_fair_witness:
  "\<exists>w. lockAdmissionCandidate demo_env demo_queued = Inr w \<and>
     logicalReservationOccupancy demo_queued 2 (wi_personal_workspace_id w) < 1"
proof -
  have "map_sum id wi_id (lockAdmissionCandidate demo_env demo_queued) = Inr ''scheduler-work-item-op-1''"
    and none: "map wi_id (delivering_candidates demo_queued) = []"
    by code_simp+
  then obtain w where w: "lockAdmissionCandidate demo_env demo_queued = Inr w"
    by (cases "lockAdmissionCandidate demo_env demo_queued") auto
  from admission_candidate_is_fair [OF w] none w show ?thesis
    by (auto simp: demo_env_def)
qed

theorem claim_is_redelivered_witness:
  "ClaimAndAdmit demo_env True 150 demo_admitted = ClaimAndAdmit demo_env True 110 demo_queued \<and>
   map_sum id (gr_ExpiresAt \<circ> ad_Grant) (fst (ClaimAndAdmit demo_env True 150 demo_admitted)) = Inr 170"
proof -
  have "map_sum id (gr_ExpiresAt \<circ> ad_Grant) (fst (ClaimAndAdmit demo_env True 110 demo_queued)) = Inr 170"
    by code_simp
  then obtain d where d: "ClaimAndAdmit demo_env True 110 demo_queued = (Inr d, demo_admitted)"
    and expires: "gr_ExpiresAt (ad_Grant d) = 170"
    unfolding demo_admitted_def by (cases "ClaimAndAdmit demo_env True 110 demo_queued"; cases "fst (ClaimAndAdmit demo_env True 110 demo_queued)") auto
  have "node_fact_gate demo_env 150 = Inr ()" by code_simp
  with claim_is_redelivered [OF demo_queued_reachable d, of 150] expires
  have "ClaimAndAdmit demo_env True 150 demo_admitted = (Inr d, demo_admitted)" by simp
  with d expires show ?thesis by simp
qed

theorem grant_and_reservations_agree_witness:
  "\<exists>g ls s n. ag_state g = GrantLeaseAttached \<and> group_of demo_attached demo_grant = ([g], ls, [n]) \<and> rows_match g ls s n"
proof -
  obtain g where "g \<in> set (db_grants demo_attached)" "ag_id g = demo_grant" "ag_state g = GrantLeaseAttached"
    using only_grant [OF demo_grants(3)] by blast
  with grant_and_reservations_agree [OF demo_attached_reachable] show ?thesis by metis
qed

theorem grant_state_moves_witness:
  "\<exists>g' u. g' \<in> set (db_grants demo_attached) \<and> ag_id g' = demo_grant \<and>
     group_states (group_of demo_attached demo_grant) = Some u \<and>
     group_may_become (GrantBound, ReservationBound, ReservationBound) u"
proof -
  obtain g where g: "g \<in> set (db_grants demo_bound)" "ag_id g = demo_grant"
    using only_grant [OF demo_grants(2)] by blast
  have "group_states (group_of demo_bound demo_grant) = Some (GrantBound, ReservationBound, ReservationBound)"
    by code_simp
  with grant_state_moves [OF demo_bound_reachable _ g(1), of demo_attached] g(2) show ?thesis
    unfolding demo_attached_def by (metis option.inject sched_step.attach)
qed

theorem finished_grants_stay_witness:
  "group_states (group_of (snd (ApplyRuntimeFencedOrTerminal demo_fenced demo_disposed)) demo_grant)
     = Some (GrantReleased, ReservationReleased, ReservationReleased)"
proof -
  obtain g where g: "g \<in> set (db_grants demo_disposed)" "ag_id g = demo_grant" "ag_state g = GrantReleased"
    using only_grant [OF demo_grants(5)] by blast
  from finished_grants_stay [OF demo_disposed_reachable fenced_again g(1), of demo_fenced] g
  show ?thesis by simp
qed


theorem evidence_order_is_irrelevant_witness:
  "snd (ApplyNoLeasePhysicalDisposition demo_no_lease (snd (ApplyRuntimeFencedOrTerminal demo_fenced demo_bound)))
     = demo_disposed \<and>
   group_states (group_of demo_disposed demo_grant) = Some (GrantReleased, ReservationReleased, ReservationReleased)"
proof -
  obtain g where g: "g \<in> set (db_grants demo_bound)" "ag_id g = demo_grant"
    using only_grant [OF demo_grants(2)] by blast
  have base: "ne_base demo_no_lease = demo_fenced" and id: "fe_AdmissionGrantID demo_fenced = demo_grant"
    by (simp_all add: demo_no_lease_def demo_fenced_def demo_grant_def)
  have "fst (ApplyRuntimeFencedOrTerminal demo_fenced demo_bound) = Inr ()"
    and "fst (ApplyNoLeasePhysicalDisposition demo_no_lease
           (snd (ApplyRuntimeFencedOrTerminal demo_fenced demo_bound))) = Inr ()"
    by code_simp+
  with evidence_order_is_irrelevant [OF demo_bound_reachable g(1), of demo_no_lease] g(2)
  have "snd (ApplyNoLeasePhysicalDisposition demo_no_lease
      (snd (ApplyRuntimeFencedOrTerminal demo_fenced demo_bound))) = demo_disposed"
    and "group_states (group_of (snd (ApplyNoLeasePhysicalDisposition demo_no_lease
      (snd (ApplyRuntimeFencedOrTerminal demo_fenced demo_bound)))) demo_grant)
      = Some (GrantReleased, ReservationReleased, ReservationReleased)"
    using g(2) unfolding base id demo_disposed_def by (blast, metis)
  then show ?thesis by simp
qed

text \<open>
  The same two pieces of evidence after a lease, in the order that does release the grant.
\<close>

lemma fence_before_physical_release_finishes:
  "group_states (group_of (snd (ApplyPhysicalCapacityReleaseReady (Some (\<lambda>_. True)) demo_physical
     (snd (ApplyRuntimeFencedOrTerminal demo_fenced demo_attached)))) demo_grant)
   = Some (GrantReleased, ReservationReleased, ReservationReleased)"
  by code_simp

end
