(* ===== verification/Canonical_Values.thy ===== *)
theory Canonical_Values
  imports Prelude "HOL-Library.Monad_Syntax"
begin

text \<open>
  The values the program digests and the hash it digests them with.

  \<^item> \<open>json\<close> is what \<open>encoding/json\<close> writes: the byte string of a canonical request is identified
    with the value it encodes. Go writes the keys of a map in sorted order (\<open>jobj\<close>) and the
    fields of a struct in their declared order (\<open>JObj\<close>). A time appears as the text of an
    instant, \<open>JTime\<close>, and every other text as \<open>JStr\<close>.
  \<^item> \<open>hashing\<close> is SHA-256: of the encoding of a value behind a domain text, and of a text. It
    is a parameter of every definition that digests something.
  \<^item> Decoding follows \<open>json.Unmarshal\<close>: a missing field and \<open>null\<close> leave the zero value, an
    unknown field is ignored, a value of the wrong kind or out of range is an error.
  \<^item> \<open>enum8\<close> is an enumeration based on \<open>uint8\<close> that a caller chooses; 0 is its zero value.
\<close>

type_synonym u16 = "16 word"
type_synonym enum8 = "8 word"

datatype json =
    JNull
  | JBool bool
  | JNum int
  | JStr string
  | JTime int
  | JList "json list"
  | JObj "(string \<times> json) list"

definition jobj :: "(string \<times> json) list \<Rightarrow> json" where
  "jobj fs = JObj (sort_key fst fs)"

definition jword :: "'a::len word \<Rightarrow> json" where
  "jword w = JNum (uint w)"

lemma jword_inject [simp]: "jword v = jword w \<longleftrightarrow> v = w"
  by (simp add: jword_def word_uint_eq_iff)

record hashing =
  hs_value :: "string \<Rightarrow> json \<Rightarrow> digest"
  hs_text :: "string \<Rightarrow> digest"

text \<open>Every digest the program computes is an array of 32 bytes, and none is the zero array.\<close>

definition proper_hashing :: "hashing \<Rightarrow> bool" where
  "proper_hashing h \<longleftrightarrow>
     (\<forall>d v. length (hs_value h d v) = 32 \<and> hs_value h d v \<noteq> zero_digest) \<and>
     (\<forall>t. length (hs_text h t) = 32 \<and> hs_text h t \<noteq> zero_digest)"

lemma proper_hashingD [dest]:
  "proper_hashing h \<Longrightarrow> length (hs_value h d v) = 32"
  "proper_hashing h \<Longrightarrow> hs_value h d v \<noteq> zero_digest"
  "proper_hashing h \<Longrightarrow> length (hs_text h t) = 32"
  "proper_hashing h \<Longrightarrow> hs_text h t \<noteq> zero_digest"
  by (simp_all add: proper_hashing_def)

section \<open>Decoding\<close>

fun jfield :: "string \<Rightarrow> json \<Rightarrow> json" where
  "jfield k (JObj fs) = (case map_of fs k of None \<Rightarrow> JNull | Some v \<Rightarrow> v)"
| "jfield k _ = JNull"

fun dec_string :: "json \<Rightarrow> string option" where
  "dec_string (JStr s) = Some s"
| "dec_string JNull = Some []"
| "dec_string _ = None"

fun dec_word :: "json \<Rightarrow> ('a::len word) option" where
  "dec_word (JNum n) = (if 0 \<le> n \<and> n < 2 ^ LENGTH('a) then Some (word_of_int n) else None)"
| "dec_word JNull = Some 0"
| "dec_word _ = None"

fun dec_list :: "(json \<Rightarrow> 'a option) \<Rightarrow> json \<Rightarrow> 'a list option" where
  "dec_list f (JList vs) = those (map f vs)"
| "dec_list f JNull = Some []"
| "dec_list f _ = None"

text \<open>A pointer field: \<open>null\<close> is the nil pointer.\<close>

definition dec_pointer :: "(json \<Rightarrow> 'a option) \<Rightarrow> json \<Rightarrow> 'a option option" where
  "dec_pointer f v = (if v = JNull then Some None else map_option Some (f v))"

text \<open>A struct field: only an object (or \<open>null\<close>) can be read into it.\<close>

definition dec_object :: "(json \<Rightarrow> 'a option) \<Rightarrow> json \<Rightarrow> 'a option" where
  "dec_object f v = (case v of JObj _ \<Rightarrow> f v | JNull \<Rightarrow> f v | _ \<Rightarrow> None)"

lemma dec_word_jword [simp]: "dec_word (jword w) = Some w"
  by (simp add: jword_def)

lemma dec_object_JObj [simp]: "dec_object f (JObj fs) = f (JObj fs)"
  by (simp add: dec_object_def)

lemma dec_pointer_simps [simp]:
  "dec_pointer f JNull = Some None"
  "dec_pointer f (JObj fs) = map_option Some (f (JObj fs))"
  by (simp_all add: dec_pointer_def)

lemma those_map_Some: "(\<And>x. x \<in> set xs \<Longrightarrow> f (g x) = Some x) \<Longrightarrow> those (map f (map g xs)) = Some xs"
  by (induction xs) auto

lemma dec_list_map:
  "(\<And>x. f (g x) = Some x) \<Longrightarrow> dec_list f (JList (map g xs)) = Some xs"
  using those_map_Some [of xs f g] by simp

end
