(* ===== verification/Runtime_Requests.thy ===== *)
theory Runtime_Requests
  imports Canonical_Values
begin

text \<open>
  The requests Task Orchestration makes of Runtime Execution
  (\<open>backend/internal/runtimeexecution/canonical.go\<close> and the request types of \<open>types.go\<close>):
  what a valid start or cancel request is, the canonical encoding whose digest identifies it,
  and the parser that rebuilds the request from the encoded bytes.

  A Go struct is a record. The byte string of an encoded request is the \<open>json\<close> value it
  encodes, the empty byte string being \<open>None\<close>. The only errors of this part are the two
  constructors of \<open>rx_error\<close>.
\<close>

unbundle bit_operations_syntax

datatype rx_error = RxInvalidRequest | RxIntegrityConflict

section \<open>Request types\<close>

definition rx_NewSchemaVersion :: "u16 \<Rightarrow> u16 \<Rightarrow> u32" where
  "rx_NewSchemaVersion major minor = push_bit 16 (ucast major) OR ucast minor"

definition rx_Major :: "u32 \<Rightarrow> u16" where
  "rx_Major version = ucast (drop_bit 16 version)"

definition rx_Minor :: "u32 \<Rightarrow> u16" where
  "rx_Minor version = ucast version"

abbreviation (input) rx_SchemaV1 :: u32 where "rx_SchemaV1 \<equiv> 0x10000"

abbreviation (input) RxAuthorityTaskOrchestration :: enum8 where "RxAuthorityTaskOrchestration \<equiv> 1"
abbreviation (input) RxAuthorityAdministrator :: enum8 where "RxAuthorityAdministrator \<equiv> 2"
abbreviation (input) WorkerAgent :: enum8 where "WorkerAgent \<equiv> 1"
abbreviation (input) WorkerTool :: enum8 where "WorkerTool \<equiv> 2"
abbreviation (input) EffectReadOnly :: enum8 where "EffectReadOnly \<equiv> 1"
abbreviation (input) EffectMutating :: enum8 where "EffectMutating \<equiv> 2"
abbreviation (input) CancellationFenceFirst :: enum8 where "CancellationFenceFirst \<equiv> 1"
abbreviation (input) CancellationUserRequested :: enum8 where "CancellationUserRequested \<equiv> 1"
abbreviation (input) CancellationAdministratorRequested :: enum8 where
  "CancellationAdministratorRequested \<equiv> 2"
abbreviation (input) ProviderCapabilityNone :: enum8 where "ProviderCapabilityNone \<equiv> 1"
abbreviation (input) ProviderCapabilityRequired :: enum8 where "ProviderCapabilityRequired \<equiv> 2"
abbreviation (input) QuotaReservationObservation :: enum8 where "QuotaReservationObservation \<equiv> 1"
abbreviation (input) QuotaReservationEnforced :: enum8 where "QuotaReservationEnforced \<equiv> 2"
abbreviation (input) RuntimeViewExpiryAtDeadline :: enum8 where "RuntimeViewExpiryAtDeadline \<equiv> 1"

abbreviation (input) knownProviderCapabilityScope :: u64 where "knownProviderCapabilityScope \<equiv> 3"

record RxAuthority =
  ra_id :: ident
  ra_generation :: u64
  ra_kind :: enum8

definition NewTaskOrchestrationAuthority :: "ident \<Rightarrow> u64 \<Rightarrow> RxAuthority" where
  "NewTaskOrchestrationAuthority i g =
     \<lparr>ra_id = i, ra_generation = g, ra_kind = RxAuthorityTaskOrchestration\<rparr>"

record ImmutableInputBinding =
  ii_Identity :: ident
  ii_Digest :: digest
  ii_SizeBytes :: u64

record ImmutableInputManifestBinding =
  im_Identity :: ident
  im_SchemaVersion :: u32
  im_Digest :: digest
  im_TotalSizeBytes :: u64
  im_InputCount :: u64
  im_MaterializationEvidenceID :: ident
  im_MaterializationEvidenceDigest :: digest

record RuntimeViewRequirement =
  rv_TaskWorkspaceID :: ident
  rv_MaterializationID :: ident
  rv_BaseRevisionID :: ident
  rv_LifecycleGeneration :: u64
  rv_LifecycleFence :: u64
  rv_ExpiryPolicy :: enum8
  rv_OpenOperationDerivation :: digest

record CatalogExecutionBinding =
  cb_TemplateLockID :: ident
  cb_TemplateLockDigest :: digest
  cb_ClosureRootDigest :: digest
  cb_SafetyEpoch :: u64

record ProviderExecutionBinding =
  pb_QuotaReservationID :: ident
  pb_Generation :: u64
  pb_Mode :: enum8
  pb_GatewayRoutePolicyID :: ident
  pb_GatewayRoutePolicyGeneration :: u64
  pb_CapabilityScope :: u64
  pb_RoutePolicyExpiresAt :: int

record AdmissionGrantProof =
  ag_AdmissionGrantID :: ident
  ag_WorkItemID :: ident
  ag_Generation :: u64

definition zeroAdmissionGrantProof :: AdmissionGrantProof where
  "zeroAdmissionGrantProof = \<lparr>ag_AdmissionGrantID = [], ag_WorkItemID = [], ag_Generation = 0\<rparr>"

text \<open>The request; its trace metadata plays no part in validity, encoding or digest.\<close>

record StartRuntimeRunInput =
  si_SchemaVersion :: u32
  si_OperationID :: ident
  si_PersonalWorkspaceID :: ident
  si_TaskID :: ident
  si_PhaseRunID :: ident
  si_RuntimeRunID :: ident
  si_Attempt :: u32
  si_ExpectedTaskRevision :: u64
  si_ExpectedRuntimeRevision :: u64
  si_ExpectedOperationGeneration :: u64
  si_ExpectedRuntimeFence :: u64
  si_Authority :: RxAuthority
  si_RuntimeBindingID :: ident
  si_RuntimeBindingDigest :: digest
  si_ExecutionLockDigest :: digest
  si_CapabilityContractDigest :: digest
  si_AllowedPlatformImagesDigest :: digest
  si_ExecutorContractDigest :: digest
  si_ReleaseSafetyEpoch :: u64
  si_CatalogBinding :: "CatalogExecutionBinding option"
  si_WorkerClass :: enum8
  si_Effect :: enum8
  si_ImmutableInputManifest :: ImmutableInputManifestBinding
  si_ImmutableInputs :: "ImmutableInputBinding list"
  si_OutputContractDigest :: digest
  si_EvidenceContractDigest :: digest
  si_RuntimeViewRequirement :: "RuntimeViewRequirement option"
  si_ResourceClassID :: ident
  si_ExecutionPolicyID :: ident
  si_ProviderCapability :: enum8
  si_ProviderBinding :: "ProviderExecutionBinding option"
  si_NetworkPolicyID :: ident
  si_SecretPolicyID :: ident
  si_Deadline :: int
  si_CancellationPolicy :: enum8
  si_AdmissionGrant :: AdmissionGrantProof

record StartRuntimeRun =
  sr_Input :: StartRuntimeRunInput
  sr_CanonicalRequestDigest :: digest

record CancelRuntimeRunInput =
  ci_SchemaVersion :: u32
  ci_OperationID :: ident
  ci_PersonalWorkspaceID :: ident
  ci_TaskID :: ident
  ci_PhaseRunID :: ident
  ci_RuntimeRunID :: ident
  ci_ExpectedRuntimeRevision :: u64
  ci_ExpectedStartOperationID :: ident
  ci_ExpectedOperationGeneration :: u64
  ci_ExpectedRuntimeFence :: u64
  ci_Authority :: RxAuthority
  ci_Reason :: enum8
  ci_SafetyEpoch :: u64
  ci_OccurredAt :: int

record CancelRuntimeRun =
  cr_Input :: CancelRuntimeRunInput
  cr_CanonicalRequestDigest :: digest

section \<open>Names and their readers\<close>

definition rx_authorityKindName :: "enum8 \<Rightarrow> string" where
  "rx_authorityKindName k =
     (if k = RxAuthorityTaskOrchestration then ''task_orchestration''
      else if k = RxAuthorityAdministrator then ''administrator'' else [])"

definition workerClassName :: "enum8 \<Rightarrow> string" where
  "workerClassName c = (if c = WorkerAgent then ''agent'' else if c = WorkerTool then ''tool'' else [])"

definition effectClassName :: "enum8 \<Rightarrow> string" where
  "effectClassName e =
     (if e = EffectReadOnly then ''read_only'' else if e = EffectMutating then ''mutating'' else [])"

definition cancellationPolicyName :: "enum8 \<Rightarrow> string" where
  "cancellationPolicyName p = (if p = CancellationFenceFirst then ''fence_first'' else [])"

definition cancellationReasonName :: "enum8 \<Rightarrow> string" where
  "cancellationReasonName r =
     (if r = CancellationUserRequested then ''user_requested''
      else if r = CancellationAdministratorRequested then ''administrator_requested'' else [])"

definition runtimeViewExpiryPolicyName :: "enum8 \<Rightarrow> string" where
  "runtimeViewExpiryPolicyName p = (if p = RuntimeViewExpiryAtDeadline then ''runtime_deadline'' else [])"

definition providerCapabilityName :: "enum8 \<Rightarrow> string" where
  "providerCapabilityName c =
     (if c = ProviderCapabilityNone then ''none''
      else if c = ProviderCapabilityRequired then ''required'' else [])"

definition quotaReservationModeName :: "enum8 \<Rightarrow> string" where
  "quotaReservationModeName m =
     (if m = QuotaReservationObservation then ''observation''
      else if m = QuotaReservationEnforced then ''enforced'' else [])"

lemmas name_defs = rx_authorityKindName_def workerClassName_def effectClassName_def
  cancellationPolicyName_def cancellationReasonName_def runtimeViewExpiryPolicyName_def
  providerCapabilityName_def quotaReservationModeName_def

section \<open>Validity\<close>

definition rx_idCharacter :: "char \<Rightarrow> bool" where
  "rx_idCharacter c =
     (let n = (of_char c :: nat) in
      97 \<le> n \<and> n \<le> 122 \<or> 65 \<le> n \<and> n \<le> 90 \<or> 48 \<le> n \<and> n \<le> 57 \<or>
      c \<in> {CHR ''-'', CHR ''_'', CHR ''.'', CHR '':'', CHR ''/''})"

definition rx_validOpaqueID :: "string \<Rightarrow> bool" where
  "rx_validOpaqueID s = (s \<noteq> [] \<and> length s \<le> 128 \<and> list_all rx_idCharacter s)"

definition validAuthority :: "RxAuthority \<Rightarrow> bool" where
  "validAuthority a =
     (rx_validOpaqueID (ra_id a) \<and> ra_generation a > 0 \<and> rx_authorityKindName (ra_kind a) \<noteq> [])"

definition validProviderBinding :: "enum8 \<Rightarrow> ProviderExecutionBinding option \<Rightarrow> bool" where
  "validProviderBinding capability binding =
     (if capability = ProviderCapabilityNone then binding = None
      else capability = ProviderCapabilityRequired \<and>
        (case binding of None \<Rightarrow> False | Some b \<Rightarrow>
           rx_validOpaqueID (pb_QuotaReservationID b) \<and> pb_Generation b > 0 \<and>
           quotaReservationModeName (pb_Mode b) \<noteq> [] \<and>
           rx_validOpaqueID (pb_GatewayRoutePolicyID b) \<and>
           pb_GatewayRoutePolicyGeneration b > 0 \<and> pb_CapabilityScope b \<noteq> 0 \<and>
           pb_CapabilityScope b AND NOT knownProviderCapabilityScope = 0 \<and>
           pb_RoutePolicyExpiresAt b \<noteq> 0))"

definition validCatalogBinding :: "CatalogExecutionBinding option \<Rightarrow> bool" where
  "validCatalogBinding binding =
     (case binding of None \<Rightarrow> True | Some b \<Rightarrow>
        rx_validOpaqueID (cb_TemplateLockID b) \<and> cb_TemplateLockDigest b \<noteq> zero_digest \<and>
        cb_ClosureRootDigest b \<noteq> zero_digest \<and> cb_SafetyEpoch b > 0)"

text \<open>The running sum of the input sizes; \<open>None\<close> is the refused overflow.\<close>

fun inputSizes :: "ImmutableInputBinding list \<Rightarrow> u64 \<Rightarrow> u64 option" where
  "inputSizes [] acc = Some acc"
| "inputSizes (i # is) acc =
     (if NOT 0 - acc < ii_SizeBytes i then None else inputSizes is (acc + ii_SizeBytes i))"

definition validImmutableInputManifest ::
  "ImmutableInputManifestBinding \<Rightarrow> ImmutableInputBinding list \<Rightarrow> bool" where
  "validImmutableInputManifest m inputs =
     (rx_validOpaqueID (im_Identity m) \<and> rx_Major (im_SchemaVersion m) = rx_Major rx_SchemaV1 \<and>
      im_Digest m \<noteq> zero_digest \<and> im_InputCount m = of_nat (length inputs) \<and>
      inputSizes inputs 0 = Some (im_TotalSizeBytes m) \<and>
      (if inputs = []
       then im_MaterializationEvidenceID m = [] \<and> im_MaterializationEvidenceDigest m = zero_digest
       else rx_validOpaqueID (im_MaterializationEvidenceID m) \<and>
            im_MaterializationEvidenceDigest m \<noteq> zero_digest))"

definition validRuntimeViewRequirement :: "RuntimeViewRequirement option \<Rightarrow> bool" where
  "validRuntimeViewRequirement requirement =
     (case requirement of None \<Rightarrow> False | Some r \<Rightarrow>
        rx_validOpaqueID (rv_TaskWorkspaceID r) \<and> rx_validOpaqueID (rv_MaterializationID r) \<and>
        rx_validOpaqueID (rv_BaseRevisionID r) \<and> rv_LifecycleGeneration r > 0 \<and>
        rv_LifecycleFence r > 0 \<and> runtimeViewExpiryPolicyName (rv_ExpiryPolicy r) \<noteq> [] \<and>
        rv_OpenOperationDerivation r \<noteq> zero_digest)"

definition validCanonicalStart :: "StartRuntimeRunInput \<Rightarrow> bool" where
  "validCanonicalStart c =
     (rx_validOpaqueID (si_OperationID c) \<and> rx_validOpaqueID (si_PersonalWorkspaceID c) \<and>
      rx_validOpaqueID (si_TaskID c) \<and> rx_validOpaqueID (si_PhaseRunID c) \<and>
      rx_validOpaqueID (si_RuntimeRunID c) \<and> si_Attempt c \<noteq> 0 \<and> si_ExpectedTaskRevision c \<noteq> 0 \<and>
      si_ExpectedRuntimeRevision c \<noteq> 0 \<and> si_ExpectedOperationGeneration c \<noteq> 0 \<and>
      si_ExpectedRuntimeFence c \<noteq> 0 \<and> validAuthority (si_Authority c) \<and>
      rx_validOpaqueID (si_RuntimeBindingID c) \<and> si_RuntimeBindingDigest c \<noteq> zero_digest \<and>
      si_ExecutionLockDigest c \<noteq> zero_digest \<and> si_CapabilityContractDigest c \<noteq> zero_digest \<and>
      si_AllowedPlatformImagesDigest c \<noteq> zero_digest \<and> si_ExecutorContractDigest c \<noteq> zero_digest \<and>
      si_ReleaseSafetyEpoch c \<noteq> 0 \<and> validCatalogBinding (si_CatalogBinding c) \<and>
      workerClassName (si_WorkerClass c) \<noteq> [] \<and> effectClassName (si_Effect c) \<noteq> [] \<and>
      validImmutableInputManifest (si_ImmutableInputManifest c) (si_ImmutableInputs c) \<and>
      si_OutputContractDigest c \<noteq> zero_digest \<and> si_EvidenceContractDigest c \<noteq> zero_digest \<and>
      rx_validOpaqueID (si_ResourceClassID c) \<and> rx_validOpaqueID (si_ExecutionPolicyID c) \<and>
      providerCapabilityName (si_ProviderCapability c) \<noteq> [] \<and>
      validProviderBinding (si_ProviderCapability c) (si_ProviderBinding c) \<and>
      rx_validOpaqueID (si_NetworkPolicyID c) \<and> rx_validOpaqueID (si_SecretPolicyID c) \<and>
      si_Deadline c \<noteq> 0 \<and> cancellationPolicyName (si_CancellationPolicy c) \<noteq> [] \<and>
      (si_Effect c = EffectReadOnly \<longrightarrow> si_RuntimeViewRequirement c = None) \<and>
      (si_Effect c = EffectMutating \<longrightarrow> validRuntimeViewRequirement (si_RuntimeViewRequirement c)) \<and>
      list_all (\<lambda>i. rx_validOpaqueID (ii_Identity i) \<and> ii_Digest i \<noteq> zero_digest)
        (si_ImmutableInputs c))"

definition validAdmissionGrantProof :: "AdmissionGrantProof \<Rightarrow> bool" where
  "validAdmissionGrantProof g =
     (rx_validOpaqueID (ag_AdmissionGrantID g) \<and> rx_validOpaqueID (ag_WorkItemID g) \<and> ag_Generation g > 0)"

definition validStart :: "StartRuntimeRunInput \<Rightarrow> bool" where
  "validStart c = (validCanonicalStart c \<and> validAdmissionGrantProof (si_AdmissionGrant c))"

definition validCancel :: "CancelRuntimeRunInput \<Rightarrow> bool" where
  "validCancel c =
     (rx_validOpaqueID (ci_OperationID c) \<and> rx_validOpaqueID (ci_PersonalWorkspaceID c) \<and>
      rx_validOpaqueID (ci_TaskID c) \<and> rx_validOpaqueID (ci_PhaseRunID c) \<and>
      rx_validOpaqueID (ci_RuntimeRunID c) \<and> ci_ExpectedRuntimeRevision c > 0 \<and>
      rx_validOpaqueID (ci_ExpectedStartOperationID c) \<and> ci_ExpectedOperationGeneration c > 0 \<and>
      ci_ExpectedRuntimeFence c > 0 \<and> validAuthority (ci_Authority c) \<and>
      cancellationReasonName (ci_Reason c) \<noteq> [] \<and> ci_SafetyEpoch c > 0 \<and> ci_OccurredAt c \<noteq> 0)"

section \<open>The wire form\<close>

text \<open>The structs that are marshalled; a time is the text of an instant or another text.\<close>

datatype wire_time = Instant int | NotATime string

record canonicalSchema =
  ws_Major :: u16
  ws_Minor :: u16

record canonicalAuthority =
  wa_Kind :: string
  wa_ID :: string
  wa_Generation :: u64

record canonicalInput =
  wi_Identity :: string
  wi_Digest :: string
  wi_SizeBytes :: u64

record canonicalInputManifest =
  wm_Identity :: string
  wm_Schema :: canonicalSchema
  wm_Digest :: string
  wm_TotalSizeBytes :: u64
  wm_InputCount :: u64
  wm_MaterializationEvidenceID :: string
  wm_MaterializationEvidenceDigest :: string

record canonicalRuntimeViewRequirement =
  wv_TaskWorkspaceID :: string
  wv_MaterializationID :: string
  wv_BaseRevisionID :: string
  wv_LifecycleGeneration :: u64
  wv_LifecycleFence :: u64
  wv_ExpiryPolicy :: string
  wv_OpenOperationDerivation :: string

record canonicalCatalogBinding =
  wc_TemplateLockID :: string
  wc_TemplateLockDigest :: string
  wc_ClosureRootDigest :: string
  wc_SafetyEpoch :: u64

record canonicalProviderBinding =
  wp_QuotaReservationID :: string
  wp_Generation :: u64
  wp_Mode :: string
  wp_GatewayRoutePolicyID :: string
  wp_GatewayRoutePolicyGeneration :: u64
  wp_CapabilityScope :: u64
  wp_RoutePolicyExpiresAt :: wire_time

record canonicalStart =
  w_Schema :: canonicalSchema
  w_Kind :: string
  w_OperationID :: string
  w_PersonalWorkspaceID :: string
  w_TaskID :: string
  w_PhaseRunID :: string
  w_RuntimeRunID :: string
  w_Attempt :: u32
  w_ExpectedTaskRevision :: u64
  w_ExpectedRuntimeRevision :: u64
  w_ExpectedOperationGeneration :: u64
  w_ExpectedRuntimeFence :: u64
  w_Authority :: canonicalAuthority
  w_RuntimeBindingID :: string
  w_RuntimeBindingDigest :: string
  w_ExecutionLockDigest :: string
  w_CapabilityContractDigest :: string
  w_AllowedPlatformImagesDigest :: string
  w_ExecutorContractDigest :: string
  w_ReleaseSafetyEpoch :: u64
  w_CatalogBinding :: "canonicalCatalogBinding option"
  w_WorkerClass :: string
  w_Effect :: string
  w_ImmutableInputManifest :: canonicalInputManifest
  w_ImmutableInputs :: "canonicalInput list"
  w_OutputContractDigest :: string
  w_EvidenceContractDigest :: string
  w_RuntimeViewRequirement :: "canonicalRuntimeViewRequirement option"
  w_ResourceClassID :: string
  w_ExecutionPolicyID :: string
  w_ProviderCapability :: string
  w_ProviderBinding :: "canonicalProviderBinding option"
  w_NetworkPolicyID :: string
  w_SecretPolicyID :: string
  w_Deadline :: wire_time
  w_CancellationPolicy :: string

record canonicalCancel =
  x_Schema :: canonicalSchema
  x_Kind :: string
  x_OperationID :: string
  x_PersonalWorkspaceID :: string
  x_TaskID :: string
  x_PhaseRunID :: string
  x_RuntimeRunID :: string
  x_ExpectedRuntimeRevision :: u64
  x_ExpectedStartOperationID :: string
  x_ExpectedOperationGeneration :: u64
  x_ExpectedRuntimeFence :: u64
  x_Authority :: canonicalAuthority
  x_Reason :: string
  x_SafetyEpoch :: u64
  x_OccurredAt :: wire_time

end
