(* ===== verification/Runtime_Codec.thy ===== *)
theory Runtime_Codec
  imports Runtime_Requests
begin

text \<open>
  The JSON form of the wire structs of \<open>backend/internal/runtimeexecution/canonical.go\<close>: for
  each struct the value \<open>json.Marshal\<close> writes by its field tags, the reader
  \<open>json.Unmarshal\<close> is for it, and the lemma that reading gives back what was written.
\<close>

definition jtime :: "wire_time \<Rightarrow> json" where
  "jtime w = (case w of Instant t \<Rightarrow> JTime t | NotATime s \<Rightarrow> JStr s)"

fun dec_time :: "json \<Rightarrow> wire_time option" where
  "dec_time (JTime t) = Some (Instant t)"
| "dec_time (JStr s) = Some (NotATime s)"
| "dec_time JNull = Some (NotATime [])"
| "dec_time _ = None"

lemma dec_time_jtime [simp]: "dec_time (jtime w) = Some w"
  by (cases w) (simp_all add: jtime_def)

definition marshal_schema :: "canonicalSchema \<Rightarrow> json" where
  "marshal_schema w = JObj [
     (''major'', jword (ws_Major w)),
     (''minor'', jword (ws_Minor w))]"

definition unmarshal_schema :: "json \<Rightarrow> canonicalSchema option" where
  "unmarshal_schema j = do {
     v0 \<leftarrow> dec_word (jfield ''major'' j);
     v1 \<leftarrow> dec_word (jfield ''minor'' j);
     Some \<lparr>ws_Major = v0, ws_Minor = v1\<rparr> }"

lemma unmarshal_marshal_schema [simp]: "unmarshal_schema (marshal_schema w) = Some w"
  by (cases w) (simp add: unmarshal_schema_def marshal_schema_def)

lemma dec_object_schema [simp]: "dec_object unmarshal_schema (marshal_schema w) = Some w"
  by (metis dec_object_JObj marshal_schema_def unmarshal_marshal_schema)

definition marshal_authority :: "canonicalAuthority \<Rightarrow> json" where
  "marshal_authority w = JObj [
     (''kind'', JStr (wa_Kind w)),
     (''id'', JStr (wa_ID w)),
     (''generation'', jword (wa_Generation w))]"

definition unmarshal_authority :: "json \<Rightarrow> canonicalAuthority option" where
  "unmarshal_authority j = do {
     v0 \<leftarrow> dec_string (jfield ''kind'' j);
     v1 \<leftarrow> dec_string (jfield ''id'' j);
     v2 \<leftarrow> dec_word (jfield ''generation'' j);
     Some \<lparr>wa_Kind = v0, wa_ID = v1, wa_Generation = v2\<rparr> }"

lemma unmarshal_marshal_authority [simp]: "unmarshal_authority (marshal_authority w) = Some w"
  by (cases w) (simp add: unmarshal_authority_def marshal_authority_def)

lemma dec_object_authority [simp]: "dec_object unmarshal_authority (marshal_authority w) = Some w"
  by (metis dec_object_JObj marshal_authority_def unmarshal_marshal_authority)

definition marshal_input :: "canonicalInput \<Rightarrow> json" where
  "marshal_input w = JObj [
     (''identity'', JStr (wi_Identity w)),
     (''digest'', JStr (wi_Digest w)),
     (''size_bytes'', jword (wi_SizeBytes w))]"

definition unmarshal_input :: "json \<Rightarrow> canonicalInput option" where
  "unmarshal_input j = do {
     v0 \<leftarrow> dec_string (jfield ''identity'' j);
     v1 \<leftarrow> dec_string (jfield ''digest'' j);
     v2 \<leftarrow> dec_word (jfield ''size_bytes'' j);
     Some \<lparr>wi_Identity = v0, wi_Digest = v1, wi_SizeBytes = v2\<rparr> }"

lemma unmarshal_marshal_input [simp]: "unmarshal_input (marshal_input w) = Some w"
  by (cases w) (simp add: unmarshal_input_def marshal_input_def)

lemma dec_object_input [simp]: "dec_object unmarshal_input (marshal_input w) = Some w"
  by (metis dec_object_JObj marshal_input_def unmarshal_marshal_input)

definition marshal_manifest :: "canonicalInputManifest \<Rightarrow> json" where
  "marshal_manifest w = JObj [
     (''identity'', JStr (wm_Identity w)),
     (''schema'', marshal_schema (wm_Schema w)),
     (''digest'', JStr (wm_Digest w)),
     (''total_size_bytes'', jword (wm_TotalSizeBytes w)),
     (''input_count'', jword (wm_InputCount w)),
     (''materialization_evidence_id'', JStr (wm_MaterializationEvidenceID w)),
     (''materialization_evidence_digest'', JStr (wm_MaterializationEvidenceDigest w))]"

definition unmarshal_manifest :: "json \<Rightarrow> canonicalInputManifest option" where
  "unmarshal_manifest j = do {
     v0 \<leftarrow> dec_string (jfield ''identity'' j);
     v1 \<leftarrow> dec_object unmarshal_schema (jfield ''schema'' j);
     v2 \<leftarrow> dec_string (jfield ''digest'' j);
     v3 \<leftarrow> dec_word (jfield ''total_size_bytes'' j);
     v4 \<leftarrow> dec_word (jfield ''input_count'' j);
     v5 \<leftarrow> dec_string (jfield ''materialization_evidence_id'' j);
     v6 \<leftarrow> dec_string (jfield ''materialization_evidence_digest'' j);
     Some \<lparr>wm_Identity = v0, wm_Schema = v1, wm_Digest = v2,
       wm_TotalSizeBytes = v3, wm_InputCount = v4, wm_MaterializationEvidenceID = v5,
       wm_MaterializationEvidenceDigest = v6\<rparr> }"

lemma unmarshal_marshal_manifest [simp]: "unmarshal_manifest (marshal_manifest w) = Some w"
  by (cases w) (simp add: unmarshal_manifest_def marshal_manifest_def)

lemma dec_object_manifest [simp]: "dec_object unmarshal_manifest (marshal_manifest w) = Some w"
  by (metis dec_object_JObj marshal_manifest_def unmarshal_marshal_manifest)

definition marshal_view :: "canonicalRuntimeViewRequirement \<Rightarrow> json" where
  "marshal_view w = JObj [
     (''task_workspace_id'', JStr (wv_TaskWorkspaceID w)),
     (''materialization_id'', JStr (wv_MaterializationID w)),
     (''base_revision_id'', JStr (wv_BaseRevisionID w)),
     (''lifecycle_generation'', jword (wv_LifecycleGeneration w)),
     (''lifecycle_fence'', jword (wv_LifecycleFence w)),
     (''expiry_policy'', JStr (wv_ExpiryPolicy w)),
     (''open_operation_derivation'', JStr (wv_OpenOperationDerivation w))]"

definition unmarshal_view :: "json \<Rightarrow> canonicalRuntimeViewRequirement option" where
  "unmarshal_view j = do {
     v0 \<leftarrow> dec_string (jfield ''task_workspace_id'' j);
     v1 \<leftarrow> dec_string (jfield ''materialization_id'' j);
     v2 \<leftarrow> dec_string (jfield ''base_revision_id'' j);
     v3 \<leftarrow> dec_word (jfield ''lifecycle_generation'' j);
     v4 \<leftarrow> dec_word (jfield ''lifecycle_fence'' j);
     v5 \<leftarrow> dec_string (jfield ''expiry_policy'' j);
     v6 \<leftarrow> dec_string (jfield ''open_operation_derivation'' j);
     Some \<lparr>wv_TaskWorkspaceID = v0, wv_MaterializationID = v1, wv_BaseRevisionID = v2,
       wv_LifecycleGeneration = v3, wv_LifecycleFence = v4, wv_ExpiryPolicy = v5,
       wv_OpenOperationDerivation = v6\<rparr> }"

lemma unmarshal_marshal_view [simp]: "unmarshal_view (marshal_view w) = Some w"
  by (cases w) (simp add: unmarshal_view_def marshal_view_def)

lemma dec_object_view [simp]: "dec_object unmarshal_view (marshal_view w) = Some w"
  by (metis dec_object_JObj marshal_view_def unmarshal_marshal_view)

definition marshal_catalog :: "canonicalCatalogBinding \<Rightarrow> json" where
  "marshal_catalog w = JObj [
     (''template_lock_id'', JStr (wc_TemplateLockID w)),
     (''template_lock_digest'', JStr (wc_TemplateLockDigest w)),
     (''closure_root_digest'', JStr (wc_ClosureRootDigest w)),
     (''safety_epoch'', jword (wc_SafetyEpoch w))]"

definition unmarshal_catalog :: "json \<Rightarrow> canonicalCatalogBinding option" where
  "unmarshal_catalog j = do {
     v0 \<leftarrow> dec_string (jfield ''template_lock_id'' j);
     v1 \<leftarrow> dec_string (jfield ''template_lock_digest'' j);
     v2 \<leftarrow> dec_string (jfield ''closure_root_digest'' j);
     v3 \<leftarrow> dec_word (jfield ''safety_epoch'' j);
     Some \<lparr>wc_TemplateLockID = v0, wc_TemplateLockDigest = v1, wc_ClosureRootDigest = v2,
       wc_SafetyEpoch = v3\<rparr> }"

lemma unmarshal_marshal_catalog [simp]: "unmarshal_catalog (marshal_catalog w) = Some w"
  by (cases w) (simp add: unmarshal_catalog_def marshal_catalog_def)

lemma dec_object_catalog [simp]: "dec_object unmarshal_catalog (marshal_catalog w) = Some w"
  by (metis dec_object_JObj marshal_catalog_def unmarshal_marshal_catalog)

definition marshal_provider :: "canonicalProviderBinding \<Rightarrow> json" where
  "marshal_provider w = JObj [
     (''quota_reservation_id'', JStr (wp_QuotaReservationID w)),
     (''generation'', jword (wp_Generation w)),
     (''mode'', JStr (wp_Mode w)),
     (''gateway_route_policy_id'', JStr (wp_GatewayRoutePolicyID w)),
     (''gateway_route_policy_generation'', jword (wp_GatewayRoutePolicyGeneration w)),
     (''capability_scope'', jword (wp_CapabilityScope w)),
     (''route_policy_expires_at'', jtime (wp_RoutePolicyExpiresAt w))]"

definition unmarshal_provider :: "json \<Rightarrow> canonicalProviderBinding option" where
  "unmarshal_provider j = do {
     v0 \<leftarrow> dec_string (jfield ''quota_reservation_id'' j);
     v1 \<leftarrow> dec_word (jfield ''generation'' j);
     v2 \<leftarrow> dec_string (jfield ''mode'' j);
     v3 \<leftarrow> dec_string (jfield ''gateway_route_policy_id'' j);
     v4 \<leftarrow> dec_word (jfield ''gateway_route_policy_generation'' j);
     v5 \<leftarrow> dec_word (jfield ''capability_scope'' j);
     v6 \<leftarrow> dec_time (jfield ''route_policy_expires_at'' j);
     Some \<lparr>wp_QuotaReservationID = v0, wp_Generation = v1, wp_Mode = v2,
       wp_GatewayRoutePolicyID = v3, wp_GatewayRoutePolicyGeneration = v4, wp_CapabilityScope = v5,
       wp_RoutePolicyExpiresAt = v6\<rparr> }"

lemma unmarshal_marshal_provider [simp]: "unmarshal_provider (marshal_provider w) = Some w"
  by (cases w) (simp add: unmarshal_provider_def marshal_provider_def)

lemma dec_object_provider [simp]: "dec_object unmarshal_provider (marshal_provider w) = Some w"
  by (metis dec_object_JObj marshal_provider_def unmarshal_marshal_provider)


lemma dec_inputs [simp]: "those (map (dec_object unmarshal_input \<circ> marshal_input) ws) = Some ws"
  by (induction ws) simp_all

lemma dec_view_pointer [simp]:
  "dec_pointer (dec_object unmarshal_view) (case p of None \<Rightarrow> JNull | Some b \<Rightarrow> marshal_view b) = Some p"
  by (cases p) (simp_all add: dec_pointer_def marshal_view_def [THEN arg_cong [where f = "\<lambda>j. j = JNull"]])

lemma dec_catalog_pointer [simp]:
  "dec_pointer (dec_object unmarshal_catalog) (case p of None \<Rightarrow> JNull | Some b \<Rightarrow> marshal_catalog b) = Some p"
  by (cases p) (simp_all add: dec_pointer_def marshal_catalog_def [THEN arg_cong [where f = "\<lambda>j. j = JNull"]])

lemma dec_provider_pointer [simp]:
  "dec_pointer (dec_object unmarshal_provider) (case p of None \<Rightarrow> JNull | Some b \<Rightarrow> marshal_provider b) = Some p"
  by (cases p) (simp_all add: dec_pointer_def marshal_provider_def [THEN arg_cong [where f = "\<lambda>j. j = JNull"]])

definition marshal_start :: "canonicalStart \<Rightarrow> json" where
  "marshal_start w = JObj [
     (''schema'', marshal_schema (w_Schema w)),
     (''kind'', JStr (w_Kind w)),
     (''operation_id'', JStr (w_OperationID w)),
     (''personal_workspace_id'', JStr (w_PersonalWorkspaceID w)),
     (''task_id'', JStr (w_TaskID w)),
     (''phase_run_id'', JStr (w_PhaseRunID w)),
     (''runtime_run_id'', JStr (w_RuntimeRunID w)),
     (''attempt'', jword (w_Attempt w)),
     (''expected_task_revision'', jword (w_ExpectedTaskRevision w)),
     (''expected_runtime_revision'', jword (w_ExpectedRuntimeRevision w)),
     (''expected_operation_generation'', jword (w_ExpectedOperationGeneration w)),
     (''expected_runtime_fence'', jword (w_ExpectedRuntimeFence w)),
     (''authority'', marshal_authority (w_Authority w)),
     (''runtime_binding_id'', JStr (w_RuntimeBindingID w)),
     (''runtime_binding_digest'', JStr (w_RuntimeBindingDigest w)),
     (''execution_lock_digest'', JStr (w_ExecutionLockDigest w)),
     (''capability_contract_digest'', JStr (w_CapabilityContractDigest w)),
     (''allowed_platform_images_digest'', JStr (w_AllowedPlatformImagesDigest w)),
     (''executor_contract_digest'', JStr (w_ExecutorContractDigest w)),
     (''release_safety_epoch'', jword (w_ReleaseSafetyEpoch w)),
     (''catalog_binding'', (case w_CatalogBinding w of None \<Rightarrow> JNull | Some b \<Rightarrow> marshal_catalog b)),
     (''worker_class'', JStr (w_WorkerClass w)),
     (''effect'', JStr (w_Effect w)),
     (''immutable_input_manifest'', marshal_manifest (w_ImmutableInputManifest w)),
     (''immutable_inputs'', JList (map marshal_input (w_ImmutableInputs w))),
     (''output_contract_digest'', JStr (w_OutputContractDigest w)),
     (''evidence_contract_digest'', JStr (w_EvidenceContractDigest w)),
     (''runtime_view_requirement'', (case w_RuntimeViewRequirement w of None \<Rightarrow> JNull | Some b \<Rightarrow> marshal_view b)),
     (''resource_class_id'', JStr (w_ResourceClassID w)),
     (''execution_policy_id'', JStr (w_ExecutionPolicyID w)),
     (''provider_capability'', JStr (w_ProviderCapability w)),
     (''provider_binding'', (case w_ProviderBinding w of None \<Rightarrow> JNull | Some b \<Rightarrow> marshal_provider b)),
     (''network_policy_id'', JStr (w_NetworkPolicyID w)),
     (''secret_policy_id'', JStr (w_SecretPolicyID w)),
     (''deadline'', jtime (w_Deadline w)),
     (''cancellation_policy'', JStr (w_CancellationPolicy w))]"

definition unmarshal_start :: "json \<Rightarrow> canonicalStart option" where
  "unmarshal_start j = do {
     v0 \<leftarrow> dec_object unmarshal_schema (jfield ''schema'' j);
     v1 \<leftarrow> dec_string (jfield ''kind'' j);
     v2 \<leftarrow> dec_string (jfield ''operation_id'' j);
     v3 \<leftarrow> dec_string (jfield ''personal_workspace_id'' j);
     v4 \<leftarrow> dec_string (jfield ''task_id'' j);
     v5 \<leftarrow> dec_string (jfield ''phase_run_id'' j);
     v6 \<leftarrow> dec_string (jfield ''runtime_run_id'' j);
     v7 \<leftarrow> dec_word (jfield ''attempt'' j);
     v8 \<leftarrow> dec_word (jfield ''expected_task_revision'' j);
     v9 \<leftarrow> dec_word (jfield ''expected_runtime_revision'' j);
     v10 \<leftarrow> dec_word (jfield ''expected_operation_generation'' j);
     v11 \<leftarrow> dec_word (jfield ''expected_runtime_fence'' j);
     v12 \<leftarrow> dec_object unmarshal_authority (jfield ''authority'' j);
     v13 \<leftarrow> dec_string (jfield ''runtime_binding_id'' j);
     v14 \<leftarrow> dec_string (jfield ''runtime_binding_digest'' j);
     v15 \<leftarrow> dec_string (jfield ''execution_lock_digest'' j);
     v16 \<leftarrow> dec_string (jfield ''capability_contract_digest'' j);
     v17 \<leftarrow> dec_string (jfield ''allowed_platform_images_digest'' j);
     v18 \<leftarrow> dec_string (jfield ''executor_contract_digest'' j);
     v19 \<leftarrow> dec_word (jfield ''release_safety_epoch'' j);
     v20 \<leftarrow> dec_pointer (dec_object unmarshal_catalog) (jfield ''catalog_binding'' j);
     v21 \<leftarrow> dec_string (jfield ''worker_class'' j);
     v22 \<leftarrow> dec_string (jfield ''effect'' j);
     v23 \<leftarrow> dec_object unmarshal_manifest (jfield ''immutable_input_manifest'' j);
     v24 \<leftarrow> dec_list (dec_object unmarshal_input) (jfield ''immutable_inputs'' j);
     v25 \<leftarrow> dec_string (jfield ''output_contract_digest'' j);
     v26 \<leftarrow> dec_string (jfield ''evidence_contract_digest'' j);
     v27 \<leftarrow> dec_pointer (dec_object unmarshal_view) (jfield ''runtime_view_requirement'' j);
     v28 \<leftarrow> dec_string (jfield ''resource_class_id'' j);
     v29 \<leftarrow> dec_string (jfield ''execution_policy_id'' j);
     v30 \<leftarrow> dec_string (jfield ''provider_capability'' j);
     v31 \<leftarrow> dec_pointer (dec_object unmarshal_provider) (jfield ''provider_binding'' j);
     v32 \<leftarrow> dec_string (jfield ''network_policy_id'' j);
     v33 \<leftarrow> dec_string (jfield ''secret_policy_id'' j);
     v34 \<leftarrow> dec_time (jfield ''deadline'' j);
     v35 \<leftarrow> dec_string (jfield ''cancellation_policy'' j);
     Some \<lparr>w_Schema = v0, w_Kind = v1, w_OperationID = v2,
       w_PersonalWorkspaceID = v3, w_TaskID = v4, w_PhaseRunID = v5,
       w_RuntimeRunID = v6, w_Attempt = v7, w_ExpectedTaskRevision = v8,
       w_ExpectedRuntimeRevision = v9, w_ExpectedOperationGeneration = v10, w_ExpectedRuntimeFence = v11,
       w_Authority = v12, w_RuntimeBindingID = v13, w_RuntimeBindingDigest = v14,
       w_ExecutionLockDigest = v15, w_CapabilityContractDigest = v16, w_AllowedPlatformImagesDigest = v17,
       w_ExecutorContractDigest = v18, w_ReleaseSafetyEpoch = v19, w_CatalogBinding = v20,
       w_WorkerClass = v21, w_Effect = v22, w_ImmutableInputManifest = v23,
       w_ImmutableInputs = v24, w_OutputContractDigest = v25, w_EvidenceContractDigest = v26,
       w_RuntimeViewRequirement = v27, w_ResourceClassID = v28, w_ExecutionPolicyID = v29,
       w_ProviderCapability = v30, w_ProviderBinding = v31, w_NetworkPolicyID = v32,
       w_SecretPolicyID = v33, w_Deadline = v34, w_CancellationPolicy = v35\<rparr> }"

definition marshal_cancel :: "canonicalCancel \<Rightarrow> json" where
  "marshal_cancel w = JObj [
     (''schema'', marshal_schema (x_Schema w)),
     (''kind'', JStr (x_Kind w)),
     (''operation_id'', JStr (x_OperationID w)),
     (''personal_workspace_id'', JStr (x_PersonalWorkspaceID w)),
     (''task_id'', JStr (x_TaskID w)),
     (''phase_run_id'', JStr (x_PhaseRunID w)),
     (''runtime_run_id'', JStr (x_RuntimeRunID w)),
     (''expected_runtime_revision'', jword (x_ExpectedRuntimeRevision w)),
     (''expected_start_operation_id'', JStr (x_ExpectedStartOperationID w)),
     (''expected_operation_generation'', jword (x_ExpectedOperationGeneration w)),
     (''expected_runtime_fence'', jword (x_ExpectedRuntimeFence w)),
     (''authority'', marshal_authority (x_Authority w)),
     (''reason'', JStr (x_Reason w)),
     (''safety_epoch'', jword (x_SafetyEpoch w)),
     (''occurred_at'', jtime (x_OccurredAt w))]"

definition unmarshal_cancel :: "json \<Rightarrow> canonicalCancel option" where
  "unmarshal_cancel j = do {
     v0 \<leftarrow> dec_object unmarshal_schema (jfield ''schema'' j);
     v1 \<leftarrow> dec_string (jfield ''kind'' j);
     v2 \<leftarrow> dec_string (jfield ''operation_id'' j);
     v3 \<leftarrow> dec_string (jfield ''personal_workspace_id'' j);
     v4 \<leftarrow> dec_string (jfield ''task_id'' j);
     v5 \<leftarrow> dec_string (jfield ''phase_run_id'' j);
     v6 \<leftarrow> dec_string (jfield ''runtime_run_id'' j);
     v7 \<leftarrow> dec_word (jfield ''expected_runtime_revision'' j);
     v8 \<leftarrow> dec_string (jfield ''expected_start_operation_id'' j);
     v9 \<leftarrow> dec_word (jfield ''expected_operation_generation'' j);
     v10 \<leftarrow> dec_word (jfield ''expected_runtime_fence'' j);
     v11 \<leftarrow> dec_object unmarshal_authority (jfield ''authority'' j);
     v12 \<leftarrow> dec_string (jfield ''reason'' j);
     v13 \<leftarrow> dec_word (jfield ''safety_epoch'' j);
     v14 \<leftarrow> dec_time (jfield ''occurred_at'' j);
     Some \<lparr>x_Schema = v0, x_Kind = v1, x_OperationID = v2,
       x_PersonalWorkspaceID = v3, x_TaskID = v4, x_PhaseRunID = v5,
       x_RuntimeRunID = v6, x_ExpectedRuntimeRevision = v7, x_ExpectedStartOperationID = v8,
       x_ExpectedOperationGeneration = v9, x_ExpectedRuntimeFence = v10, x_Authority = v11,
       x_Reason = v12, x_SafetyEpoch = v13, x_OccurredAt = v14\<rparr> }"

lemma unmarshal_marshal_cancel [simp]: "unmarshal_cancel (marshal_cancel w) = Some w"
  by (cases w) (simp add: unmarshal_cancel_def marshal_cancel_def)

lemma unmarshal_marshal_start [simp]: "unmarshal_start (marshal_start w) = Some w"
  by (cases w) (simp add: unmarshal_start_def marshal_start_def)

end
