(* ===== verification/Runtime_Encoding.thy ===== *)
theory Runtime_Encoding
  imports Runtime_Codec "HOL-Library.Multiset"
begin

text \<open>
  Canonical requests (\<open>canonicalStartEncoding\<close>, \<open>NewCanonicalStartRuntimeRun\<close>,
  \<open>CanonicalStartPayload\<close>, \<open>ParseCanonicalStartPayload\<close> and their cancel counterparts in
  \<open>backend/internal/runtimeexecution\<close>): encoding with its checks, the digest of the encoding,
  and parsing with its checks; then that parsing recovers exactly the request that was
  encoded, and that a payload is accepted only if it is the encoding of what it parses to.
\<close>

section \<open>Encoding\<close>

abbreviation (input) canonicalRequestDomain :: string where
  "canonicalRequestDomain \<equiv> ''slidesmith.runtime-execution.request/v1'' @ [CHR 0x0A]"

definition canonicalRequestDigest :: "hashing \<Rightarrow> json \<Rightarrow> digest" where
  "canonicalRequestDigest h encoded = hs_value h canonicalRequestDomain encoded"

definition schema_of :: "u32 \<Rightarrow> canonicalSchema" where
  "schema_of v = \<lparr>ws_Major = rx_Major v, ws_Minor = rx_Minor v\<rparr>"

definition authority_of :: "RxAuthority \<Rightarrow> canonicalAuthority" where
  "authority_of a =
     \<lparr>wa_Kind = rx_authorityKindName (ra_kind a), wa_ID = ra_id a, wa_Generation = ra_generation a\<rparr>"

definition input_of :: "ImmutableInputBinding \<Rightarrow> canonicalInput" where
  "input_of i =
     \<lparr>wi_Identity = ii_Identity i, wi_Digest = hex_encode (ii_Digest i), wi_SizeBytes = ii_SizeBytes i\<rparr>"

definition manifest_of :: "ImmutableInputManifestBinding \<Rightarrow> canonicalInputManifest" where
  "manifest_of m =
     \<lparr>wm_Identity = im_Identity m, wm_Schema = schema_of (im_SchemaVersion m),
      wm_Digest = hex_encode (im_Digest m), wm_TotalSizeBytes = im_TotalSizeBytes m,
      wm_InputCount = im_InputCount m,
      wm_MaterializationEvidenceID = im_MaterializationEvidenceID m,
      wm_MaterializationEvidenceDigest = hex_encode (im_MaterializationEvidenceDigest m)\<rparr>"

definition view_of :: "RuntimeViewRequirement \<Rightarrow> canonicalRuntimeViewRequirement" where
  "view_of r =
     \<lparr>wv_TaskWorkspaceID = rv_TaskWorkspaceID r, wv_MaterializationID = rv_MaterializationID r,
      wv_BaseRevisionID = rv_BaseRevisionID r, wv_LifecycleGeneration = rv_LifecycleGeneration r,
      wv_LifecycleFence = rv_LifecycleFence r,
      wv_ExpiryPolicy = runtimeViewExpiryPolicyName (rv_ExpiryPolicy r),
      wv_OpenOperationDerivation = hex_encode (rv_OpenOperationDerivation r)\<rparr>"

definition catalog_of :: "CatalogExecutionBinding \<Rightarrow> canonicalCatalogBinding" where
  "catalog_of b =
     \<lparr>wc_TemplateLockID = cb_TemplateLockID b,
      wc_TemplateLockDigest = hex_encode (cb_TemplateLockDigest b),
      wc_ClosureRootDigest = hex_encode (cb_ClosureRootDigest b), wc_SafetyEpoch = cb_SafetyEpoch b\<rparr>"

definition provider_of :: "ProviderExecutionBinding \<Rightarrow> canonicalProviderBinding" where
  "provider_of b =
     \<lparr>wp_QuotaReservationID = pb_QuotaReservationID b, wp_Generation = pb_Generation b,
      wp_Mode = quotaReservationModeName (pb_Mode b),
      wp_GatewayRoutePolicyID = pb_GatewayRoutePolicyID b,
      wp_GatewayRoutePolicyGeneration = pb_GatewayRoutePolicyGeneration b,
      wp_CapabilityScope = pb_CapabilityScope b,
      wp_RoutePolicyExpiresAt = Instant (pb_RoutePolicyExpiresAt b)\<rparr>"

definition sortedInputs :: "ImmutableInputBinding list \<Rightarrow> ImmutableInputBinding list" where
  "sortedInputs inputs = sort_key ii_Identity inputs"

definition wire_of_start :: "StartRuntimeRunInput \<Rightarrow> canonicalStart" where
  "wire_of_start c =
     \<lparr>w_Schema = schema_of (si_SchemaVersion c), w_Kind = ''start_runtime_run'',
      w_OperationID = si_OperationID c, w_PersonalWorkspaceID = si_PersonalWorkspaceID c,
      w_TaskID = si_TaskID c, w_PhaseRunID = si_PhaseRunID c, w_RuntimeRunID = si_RuntimeRunID c,
      w_Attempt = si_Attempt c, w_ExpectedTaskRevision = si_ExpectedTaskRevision c,
      w_ExpectedRuntimeRevision = si_ExpectedRuntimeRevision c,
      w_ExpectedOperationGeneration = si_ExpectedOperationGeneration c,
      w_ExpectedRuntimeFence = si_ExpectedRuntimeFence c,
      w_Authority = authority_of (si_Authority c),
      w_RuntimeBindingID = si_RuntimeBindingID c,
      w_RuntimeBindingDigest = hex_encode (si_RuntimeBindingDigest c),
      w_ExecutionLockDigest = hex_encode (si_ExecutionLockDigest c),
      w_CapabilityContractDigest = hex_encode (si_CapabilityContractDigest c),
      w_AllowedPlatformImagesDigest = hex_encode (si_AllowedPlatformImagesDigest c),
      w_ExecutorContractDigest = hex_encode (si_ExecutorContractDigest c),
      w_ReleaseSafetyEpoch = si_ReleaseSafetyEpoch c,
      w_CatalogBinding = map_option catalog_of (si_CatalogBinding c),
      w_WorkerClass = workerClassName (si_WorkerClass c), w_Effect = effectClassName (si_Effect c),
      w_ImmutableInputManifest = manifest_of (si_ImmutableInputManifest c),
      w_ImmutableInputs = map input_of (sortedInputs (si_ImmutableInputs c)),
      w_OutputContractDigest = hex_encode (si_OutputContractDigest c),
      w_EvidenceContractDigest = hex_encode (si_EvidenceContractDigest c),
      w_RuntimeViewRequirement = map_option view_of (si_RuntimeViewRequirement c),
      w_ResourceClassID = si_ResourceClassID c, w_ExecutionPolicyID = si_ExecutionPolicyID c,
      w_ProviderCapability = providerCapabilityName (si_ProviderCapability c),
      w_ProviderBinding = map_option provider_of (si_ProviderBinding c),
      w_NetworkPolicyID = si_NetworkPolicyID c, w_SecretPolicyID = si_SecretPolicyID c,
      w_Deadline = Instant (si_Deadline c),
      w_CancellationPolicy = cancellationPolicyName (si_CancellationPolicy c)\<rparr>"

definition canonicalStartEncoding :: "StartRuntimeRunInput \<Rightarrow> rx_error + json" where
  "canonicalStartEncoding c =
     (if \<not> validCanonicalStart c then Inl RxInvalidRequest
      else if \<not> distinct (map ii_Identity (si_ImmutableInputs c)) then Inl RxInvalidRequest
      else Inr (marshal_start (wire_of_start c)))"

definition computeStartDigest :: "hashing \<Rightarrow> StartRuntimeRunInput \<Rightarrow> rx_error + digest" where
  "computeStartDigest h c = result_bind (canonicalStartEncoding c) (\<lambda>e. Inr (canonicalRequestDigest h e))"

definition NewCanonicalStartRuntimeRun ::
  "hashing \<Rightarrow> StartRuntimeRunInput \<Rightarrow> rx_error + StartRuntimeRun" where
  "NewCanonicalStartRuntimeRun h input =
     (let input' = input\<lparr>si_AdmissionGrant := zeroAdmissionGrantProof\<rparr> in
      result_bind (computeStartDigest h input') (\<lambda>d.
      Inr \<lparr>sr_Input = input', sr_CanonicalRequestDigest = d\<rparr>))"

definition NewStartRuntimeRun ::
  "hashing \<Rightarrow> StartRuntimeRunInput \<Rightarrow> rx_error + StartRuntimeRun" where
  "NewStartRuntimeRun h input =
     result_bind (reject_if (\<not> validAdmissionGrantProof (si_AdmissionGrant input)) RxInvalidRequest) (\<lambda>_.
     result_bind (computeStartDigest h input) (\<lambda>d.
     Inr \<lparr>sr_Input = input, sr_CanonicalRequestDigest = d\<rparr>))"

definition WithAdmissionGrant ::
  "hashing \<Rightarrow> StartRuntimeRun \<Rightarrow> AdmissionGrantProof \<Rightarrow> rx_error + StartRuntimeRun" where
  "WithAdmissionGrant h c g =
     (if \<not> validAdmissionGrantProof g then Inl RxInvalidRequest
      else let c' = c\<lparr>sr_Input := (sr_Input c)\<lparr>si_AdmissionGrant := g\<rparr>\<rparr> in
        case canonicalStartEncoding (sr_Input c') of
          Inl _ \<Rightarrow> Inl RxIntegrityConflict
        | Inr e \<Rightarrow>
            if canonicalRequestDigest h e \<noteq> sr_CanonicalRequestDigest c' then Inl RxIntegrityConflict
            else Inr c')"

text \<open>The payload is never the empty byte string, so it is \<open>Some\<close> encoding.\<close>

definition CanonicalStartPayload :: "hashing \<Rightarrow> StartRuntimeRun \<Rightarrow> rx_error + json option" where
  "CanonicalStartPayload h c =
     result_bind (canonicalStartEncoding (sr_Input c)) (\<lambda>e.
     if canonicalRequestDigest h e \<noteq> sr_CanonicalRequestDigest c then Inl RxIntegrityConflict
     else Inr (Some e))"

definition wire_of_cancel :: "CancelRuntimeRunInput \<Rightarrow> canonicalCancel" where
  "wire_of_cancel c =
     \<lparr>x_Schema = schema_of (ci_SchemaVersion c), x_Kind = ''cancel_runtime_run'',
      x_OperationID = ci_OperationID c, x_PersonalWorkspaceID = ci_PersonalWorkspaceID c,
      x_TaskID = ci_TaskID c, x_PhaseRunID = ci_PhaseRunID c, x_RuntimeRunID = ci_RuntimeRunID c,
      x_ExpectedRuntimeRevision = ci_ExpectedRuntimeRevision c,
      x_ExpectedStartOperationID = ci_ExpectedStartOperationID c,
      x_ExpectedOperationGeneration = ci_ExpectedOperationGeneration c,
      x_ExpectedRuntimeFence = ci_ExpectedRuntimeFence c,
      x_Authority = authority_of (ci_Authority c), x_Reason = cancellationReasonName (ci_Reason c),
      x_SafetyEpoch = ci_SafetyEpoch c, x_OccurredAt = Instant (ci_OccurredAt c)\<rparr>"

definition canonicalCancelEncoding :: "CancelRuntimeRunInput \<Rightarrow> rx_error + json" where
  "canonicalCancelEncoding c =
     (if \<not> validCancel c then Inl RxInvalidRequest else Inr (marshal_cancel (wire_of_cancel c)))"

definition computeCancelDigest :: "hashing \<Rightarrow> CancelRuntimeRunInput \<Rightarrow> rx_error + digest" where
  "computeCancelDigest h c = result_bind (canonicalCancelEncoding c) (\<lambda>e. Inr (canonicalRequestDigest h e))"

definition NewCancelRuntimeRun ::
  "hashing \<Rightarrow> CancelRuntimeRunInput \<Rightarrow> rx_error + CancelRuntimeRun" where
  "NewCancelRuntimeRun h input =
     result_bind (computeCancelDigest h input) (\<lambda>d.
     Inr \<lparr>cr_Input = input, cr_CanonicalRequestDigest = d\<rparr>)"

definition CanonicalCancelPayload :: "hashing \<Rightarrow> CancelRuntimeRun \<Rightarrow> rx_error + json option" where
  "CanonicalCancelPayload h c =
     result_bind (canonicalCancelEncoding (cr_Input c)) (\<lambda>e.
     if canonicalRequestDigest h e \<noteq> cr_CanonicalRequestDigest c then Inl RxIntegrityConflict
     else Inr (Some e))"

section \<open>Parsing\<close>

definition digestFromCanonicalText :: "string \<Rightarrow> rx_error + digest" where
  "digestFromCanonicalText s =
     (case hex_decode s of
        None \<Rightarrow> Inl RxInvalidRequest
      | Some d \<Rightarrow> if length d \<noteq> 32 then Inl RxInvalidRequest else Inr d)"

definition time_of :: "wire_time \<Rightarrow> int option" where
  "time_of w = (case w of Instant t \<Rightarrow> Some t | NotATime _ \<Rightarrow> None)"

definition workerClassOf :: "string \<Rightarrow> enum8" where
  "workerClassOf s = (if s = ''agent'' then WorkerAgent else if s = ''tool'' then WorkerTool else 0)"

definition effectOf :: "string \<Rightarrow> enum8" where
  "effectOf s =
     (if s = ''read_only'' then EffectReadOnly else if s = ''mutating'' then EffectMutating else 0)"

definition providerCapabilityOf :: "string \<Rightarrow> enum8" where
  "providerCapabilityOf s =
     (if s = ''none'' then ProviderCapabilityNone
      else if s = ''required'' then ProviderCapabilityRequired else 0)"

definition quotaModeOf :: "string \<Rightarrow> enum8" where
  "quotaModeOf s =
     (if s = ''observation'' then QuotaReservationObservation
      else if s = ''enforced'' then QuotaReservationEnforced else 0)"

definition cancellationReasonOf :: "string \<Rightarrow> enum8" where
  "cancellationReasonOf s =
     (if s = ''user_requested'' then CancellationUserRequested
      else if s = ''administrator_requested'' then CancellationAdministratorRequested else 0)"

fun inputsFromCanonical :: "canonicalInput list \<Rightarrow> rx_error + ImmutableInputBinding list" where
  "inputsFromCanonical [] = Inr []"
| "inputsFromCanonical (w # ws) =
     result_bind (digestFromCanonicalText (wi_Digest w)) (\<lambda>d.
     result_bind (inputsFromCanonical ws) (\<lambda>rest.
     Inr (\<lparr>ii_Identity = wi_Identity w, ii_Digest = d, ii_SizeBytes = wi_SizeBytes w\<rparr> # rest)))"

definition viewFromCanonical ::
  "canonicalRuntimeViewRequirement option \<Rightarrow> rx_error + RuntimeViewRequirement option" where
  "viewFromCanonical p =
     (case p of None \<Rightarrow> Inr None
      | Some w \<Rightarrow>
          if wv_ExpiryPolicy w \<noteq> ''runtime_deadline'' then Inl RxInvalidRequest
          else result_bind (digestFromCanonicalText (wv_OpenOperationDerivation w)) (\<lambda>d.
            Inr (Some \<lparr>rv_TaskWorkspaceID = wv_TaskWorkspaceID w,
              rv_MaterializationID = wv_MaterializationID w, rv_BaseRevisionID = wv_BaseRevisionID w,
              rv_LifecycleGeneration = wv_LifecycleGeneration w,
              rv_LifecycleFence = wv_LifecycleFence w,
              rv_ExpiryPolicy = RuntimeViewExpiryAtDeadline, rv_OpenOperationDerivation = d\<rparr>)))"

definition catalogFromCanonical ::
  "canonicalCatalogBinding option \<Rightarrow> rx_error + CatalogExecutionBinding option" where
  "catalogFromCanonical p =
     (case p of None \<Rightarrow> Inr None
      | Some w \<Rightarrow>
          result_bind (digestFromCanonicalText (wc_TemplateLockDigest w)) (\<lambda>lockDigest.
          result_bind (digestFromCanonicalText (wc_ClosureRootDigest w)) (\<lambda>closureDigest.
          Inr (Some \<lparr>cb_TemplateLockID = wc_TemplateLockID w, cb_TemplateLockDigest = lockDigest,
            cb_ClosureRootDigest = closureDigest, cb_SafetyEpoch = wc_SafetyEpoch w\<rparr>))))"

definition providerFromCanonical ::
  "canonicalProviderBinding option \<Rightarrow> rx_error + ProviderExecutionBinding option" where
  "providerFromCanonical p =
     (case p of None \<Rightarrow> Inr None
      | Some w \<Rightarrow>
          (case time_of (wp_RoutePolicyExpiresAt w) of
             None \<Rightarrow> Inl RxInvalidRequest
           | Some t \<Rightarrow> Inr (Some \<lparr>pb_QuotaReservationID = wp_QuotaReservationID w,
               pb_Generation = wp_Generation w, pb_Mode = quotaModeOf (wp_Mode w),
               pb_GatewayRoutePolicyID = wp_GatewayRoutePolicyID w,
               pb_GatewayRoutePolicyGeneration = wp_GatewayRoutePolicyGeneration w,
               pb_CapabilityScope = wp_CapabilityScope w, pb_RoutePolicyExpiresAt = t\<rparr>)))"

definition manifestFromCanonical ::
  "canonicalInputManifest \<Rightarrow> rx_error + ImmutableInputManifestBinding" where
  "manifestFromCanonical w =
     result_bind (digestFromCanonicalText (wm_Digest w)) (\<lambda>d.
     result_bind (if wm_MaterializationEvidenceDigest w \<noteq> hex_encode zero_digest
                  then digestFromCanonicalText (wm_MaterializationEvidenceDigest w)
                  else Inr zero_digest) (\<lambda>e.
     Inr \<lparr>im_Identity = wm_Identity w,
       im_SchemaVersion = rx_NewSchemaVersion (ws_Major (wm_Schema w)) (ws_Minor (wm_Schema w)),
       im_Digest = d, im_TotalSizeBytes = wm_TotalSizeBytes w, im_InputCount = wm_InputCount w,
       im_MaterializationEvidenceID = wm_MaterializationEvidenceID w,
       im_MaterializationEvidenceDigest = e\<rparr>))"

definition startInputFromCanonical :: "canonicalStart \<Rightarrow> rx_error + StartRuntimeRunInput" where
  "startInputFromCanonical w =
     (case time_of (w_Deadline w) of None \<Rightarrow> Inl RxInvalidRequest | Some deadline \<Rightarrow>
      if ws_Major (w_Schema w) = 0 \<or> wa_Kind (w_Authority w) \<noteq> ''task_orchestration'' \<or>
         w_CancellationPolicy w \<noteq> ''fence_first'' \<or> workerClassOf (w_WorkerClass w) = 0 \<or>
         effectOf (w_Effect w) = 0 \<or> providerCapabilityOf (w_ProviderCapability w) = 0
      then Inl RxInvalidRequest
      else
        result_bind (digestFromCanonicalText (w_RuntimeBindingDigest w)) (\<lambda>runtimeBindingDigest.
        result_bind (digestFromCanonicalText (w_ExecutionLockDigest w)) (\<lambda>executionLockDigest.
        result_bind (digestFromCanonicalText (w_CapabilityContractDigest w)) (\<lambda>capabilityDigest.
        result_bind (digestFromCanonicalText (w_AllowedPlatformImagesDigest w)) (\<lambda>imagesDigest.
        result_bind (digestFromCanonicalText (w_ExecutorContractDigest w)) (\<lambda>executorDigest.
        result_bind (digestFromCanonicalText (w_OutputContractDigest w)) (\<lambda>outputDigest.
        result_bind (digestFromCanonicalText (w_EvidenceContractDigest w)) (\<lambda>evidenceDigest.
        result_bind (manifestFromCanonical (w_ImmutableInputManifest w)) (\<lambda>manifest.
        result_bind (inputsFromCanonical (w_ImmutableInputs w)) (\<lambda>inputs.
        result_bind (viewFromCanonical (w_RuntimeViewRequirement w)) (\<lambda>view.
        result_bind (catalogFromCanonical (w_CatalogBinding w)) (\<lambda>catalog.
        result_bind (providerFromCanonical (w_ProviderBinding w)) (\<lambda>provider.
        Inr \<lparr>si_SchemaVersion = rx_NewSchemaVersion (ws_Major (w_Schema w)) (ws_Minor (w_Schema w)),
          si_OperationID = w_OperationID w, si_PersonalWorkspaceID = w_PersonalWorkspaceID w,
          si_TaskID = w_TaskID w, si_PhaseRunID = w_PhaseRunID w, si_RuntimeRunID = w_RuntimeRunID w,
          si_Attempt = w_Attempt w, si_ExpectedTaskRevision = w_ExpectedTaskRevision w,
          si_ExpectedRuntimeRevision = w_ExpectedRuntimeRevision w,
          si_ExpectedOperationGeneration = w_ExpectedOperationGeneration w,
          si_ExpectedRuntimeFence = w_ExpectedRuntimeFence w,
          si_Authority = NewTaskOrchestrationAuthority (wa_ID (w_Authority w)) (wa_Generation (w_Authority w)),
          si_RuntimeBindingID = w_RuntimeBindingID w, si_RuntimeBindingDigest = runtimeBindingDigest,
          si_ExecutionLockDigest = executionLockDigest, si_CapabilityContractDigest = capabilityDigest,
          si_AllowedPlatformImagesDigest = imagesDigest, si_ExecutorContractDigest = executorDigest,
          si_ReleaseSafetyEpoch = w_ReleaseSafetyEpoch w, si_CatalogBinding = catalog,
          si_WorkerClass = workerClassOf (w_WorkerClass w), si_Effect = effectOf (w_Effect w),
          si_ImmutableInputManifest = manifest, si_ImmutableInputs = inputs,
          si_OutputContractDigest = outputDigest, si_EvidenceContractDigest = evidenceDigest,
          si_RuntimeViewRequirement = view, si_ResourceClassID = w_ResourceClassID w,
          si_ExecutionPolicyID = w_ExecutionPolicyID w,
          si_ProviderCapability = providerCapabilityOf (w_ProviderCapability w),
          si_ProviderBinding = provider, si_NetworkPolicyID = w_NetworkPolicyID w,
          si_SecretPolicyID = w_SecretPolicyID w, si_Deadline = deadline,
          si_CancellationPolicy = CancellationFenceFirst,
          si_AdmissionGrant = zeroAdmissionGrantProof\<rparr>)))))))))))))"

definition ParseCanonicalStartPayload ::
  "hashing \<Rightarrow> json option \<Rightarrow> digest \<Rightarrow> rx_error + StartRuntimeRun" where
  "ParseCanonicalStartPayload h payload expectedDigest =
     (case payload of None \<Rightarrow> Inl RxIntegrityConflict | Some bytes \<Rightarrow>
      if expectedDigest = zero_digest \<or> canonicalRequestDigest h bytes \<noteq> expectedDigest
      then Inl RxIntegrityConflict
      else case dec_object unmarshal_start bytes of
        None \<Rightarrow> Inl RxInvalidRequest
      | Some wire \<Rightarrow>
          if w_Kind wire \<noteq> ''start_runtime_run'' then Inl RxInvalidRequest
          else result_bind (startInputFromCanonical wire) (\<lambda>input.
            case NewCanonicalStartRuntimeRun h input of
              Inl _ \<Rightarrow> Inl RxIntegrityConflict
            | Inr command \<Rightarrow>
                if sr_CanonicalRequestDigest command \<noteq> expectedDigest then Inl RxIntegrityConflict
                else case canonicalStartEncoding (sr_Input command) of
                  Inl _ \<Rightarrow> Inl RxIntegrityConflict
                | Inr encoded \<Rightarrow> if encoded \<noteq> bytes then Inl RxIntegrityConflict else Inr command))"

definition BindCanonicalStartPayload ::
  "hashing \<Rightarrow> json option \<Rightarrow> digest \<Rightarrow> AdmissionGrantProof \<Rightarrow> rx_error + StartRuntimeRun" where
  "BindCanonicalStartPayload h payload expectedDigest grant =
     (if \<not> validAdmissionGrantProof grant then Inl RxInvalidRequest
      else result_bind (ParseCanonicalStartPayload h payload expectedDigest) (\<lambda>command.
        WithAdmissionGrant h command grant))"

definition cancelInputFromCanonical :: "canonicalCancel \<Rightarrow> rx_error + CancelRuntimeRunInput" where
  "cancelInputFromCanonical w =
     (if x_Kind w \<noteq> ''cancel_runtime_run'' \<or> ws_Major (x_Schema w) = 0 \<or>
         wa_Kind (x_Authority w) \<noteq> ''task_orchestration''
      then Inl RxInvalidRequest
      else case time_of (x_OccurredAt w) of
        None \<Rightarrow> Inl RxInvalidRequest
      | Some occurredAt \<Rightarrow>
          if cancellationReasonOf (x_Reason w) = 0 then Inl RxInvalidRequest
          else Inr
            \<lparr>ci_SchemaVersion = rx_NewSchemaVersion (ws_Major (x_Schema w)) (ws_Minor (x_Schema w)),
             ci_OperationID = x_OperationID w, ci_PersonalWorkspaceID = x_PersonalWorkspaceID w,
             ci_TaskID = x_TaskID w, ci_PhaseRunID = x_PhaseRunID w,
             ci_RuntimeRunID = x_RuntimeRunID w,
             ci_ExpectedRuntimeRevision = x_ExpectedRuntimeRevision w,
             ci_ExpectedStartOperationID = x_ExpectedStartOperationID w,
             ci_ExpectedOperationGeneration = x_ExpectedOperationGeneration w,
             ci_ExpectedRuntimeFence = x_ExpectedRuntimeFence w,
             ci_Authority =
               NewTaskOrchestrationAuthority (wa_ID (x_Authority w)) (wa_Generation (x_Authority w)),
             ci_Reason = cancellationReasonOf (x_Reason w), ci_SafetyEpoch = x_SafetyEpoch w,
             ci_OccurredAt = occurredAt\<rparr>)"

definition ParseCanonicalCancelPayload ::
  "hashing \<Rightarrow> json option \<Rightarrow> digest \<Rightarrow> rx_error + CancelRuntimeRun" where
  "ParseCanonicalCancelPayload h payload expectedDigest =
     (case payload of None \<Rightarrow> Inl RxIntegrityConflict | Some bytes \<Rightarrow>
      if expectedDigest = zero_digest \<or> canonicalRequestDigest h bytes \<noteq> expectedDigest
      then Inl RxIntegrityConflict
      else case dec_object unmarshal_cancel bytes of
        None \<Rightarrow> Inl RxInvalidRequest
      | Some wire \<Rightarrow>
          result_bind (cancelInputFromCanonical wire) (\<lambda>input.
          case NewCancelRuntimeRun h input of
            Inl _ \<Rightarrow> Inl RxIntegrityConflict
          | Inr command \<Rightarrow>
              if cr_CanonicalRequestDigest command \<noteq> expectedDigest then Inl RxIntegrityConflict
              else case canonicalCancelEncoding (cr_Input command) of
                Inl _ \<Rightarrow> Inl RxIntegrityConflict
              | Inr encoded \<Rightarrow> if encoded \<noteq> bytes then Inl RxIntegrityConflict else Inr command))"

section \<open>Reading back\<close>

lemma schema_reads_back [simp]: "rx_NewSchemaVersion (rx_Major v) (rx_Minor v) = v"
  unfolding rx_NewSchemaVersion_def rx_Major_def rx_Minor_def
  by (intro bit_word_eqI) (auto simp: bit_simps)

lemma major_minor_of_new [simp]:
  "rx_Major (rx_NewSchemaVersion a b) = a" "rx_Minor (rx_NewSchemaVersion a b) = b"
  unfolding rx_NewSchemaVersion_def rx_Major_def rx_Minor_def
  by (intro bit_word_eqI; auto simp: bit_simps dest: bit_imp_le_length)+

lemma digest_reads_back [simp]:
  "length d = 32 \<Longrightarrow> digestFromCanonicalText (hex_encode d) = Inr d"
  by (simp add: digestFromCanonicalText_def hex_decode_encode)

text \<open>A digest field of a request is an array of 32 bytes.\<close>

definition digests_typed :: "StartRuntimeRunInput \<Rightarrow> bool" where
  "digests_typed c \<longleftrightarrow>
     list_all (\<lambda>d. length d = 32)
       [si_RuntimeBindingDigest c, si_ExecutionLockDigest c, si_CapabilityContractDigest c,
        si_AllowedPlatformImagesDigest c, si_ExecutorContractDigest c, si_OutputContractDigest c,
        si_EvidenceContractDigest c, im_Digest (si_ImmutableInputManifest c),
        im_MaterializationEvidenceDigest (si_ImmutableInputManifest c)] \<and>
     list_all (\<lambda>i. length (ii_Digest i) = 32) (si_ImmutableInputs c) \<and>
     (\<forall>b. si_CatalogBinding c = Some b \<longrightarrow>
        length (cb_TemplateLockDigest b) = 32 \<and> length (cb_ClosureRootDigest b) = 32) \<and>
     (\<forall>r. si_RuntimeViewRequirement c = Some r \<longrightarrow> length (rv_OpenOperationDerivation r) = 32)"

lemma view_reads_back:
  assumes "\<And>r. p = Some r \<Longrightarrow> length (rv_OpenOperationDerivation r) = 32"
    and "p = None \<or> validRuntimeViewRequirement p"
  shows "viewFromCanonical (map_option view_of p) = Inr p"
  using assms
  by (cases p)
    (auto simp: viewFromCanonical_def view_of_def validRuntimeViewRequirement_def
      runtimeViewExpiryPolicyName_def split: if_splits)

lemma catalog_reads_back:
  assumes "\<And>b. p = Some b \<Longrightarrow> length (cb_TemplateLockDigest b) = 32 \<and> length (cb_ClosureRootDigest b) = 32"
  shows "catalogFromCanonical (map_option catalog_of p) = Inr p"
  using assms by (cases p) (auto simp: catalogFromCanonical_def catalog_of_def)

lemma provider_reads_back:
  assumes "validProviderBinding capability p"
  shows "providerFromCanonical (map_option provider_of p) = Inr p"
  using assms
  by (cases p)
    (auto simp: providerFromCanonical_def provider_of_def validProviderBinding_def time_of_def
      quotaReservationModeName_def quotaModeOf_def split: if_splits)

lemma manifest_reads_back:
  assumes "length (im_Digest m) = 32" and "length (im_MaterializationEvidenceDigest m) = 32"
  shows "manifestFromCanonical (manifest_of m) = Inr m"
  using assms by (simp add: manifestFromCanonical_def manifest_of_def schema_of_def)

lemma inputs_read_back:
  "list_all (\<lambda>i. length (ii_Digest i) = 32) is \<Longrightarrow> inputsFromCanonical (map input_of is) = Inr is"
  by (induction "is") (simp_all add: input_of_def)

lemma time_of_Instant [simp]: "time_of (Instant t) = Some t"
  by (simp add: time_of_def)

lemma workerClass_reads_back: "workerClassName c \<noteq> [] \<Longrightarrow> workerClassOf (workerClassName c) = c \<and> c \<noteq> 0"
  by (auto simp: workerClassName_def workerClassOf_def split: if_splits)

lemma effect_reads_back: "effectClassName c \<noteq> [] \<Longrightarrow> effectOf (effectClassName c) = c \<and> c \<noteq> 0"
  by (auto simp: effectClassName_def effectOf_def split: if_splits)

lemma providerCapability_reads_back:
  "providerCapabilityName c \<noteq> [] \<Longrightarrow> providerCapabilityOf (providerCapabilityName c) = c \<and> c \<noteq> 0"
  by (auto simp: providerCapabilityName_def providerCapabilityOf_def split: if_splits)

lemma cancellationReason_reads_back:
  "cancellationReasonName c \<noteq> [] \<Longrightarrow> cancellationReasonOf (cancellationReasonName c) = c \<and> c \<noteq> 0"
  by (auto simp: cancellationReasonName_def cancellationReasonOf_def split: if_splits)

text \<open>What parsing returns: the grant is gone and the inputs are in canonical order.\<close>

definition canonicalised :: "StartRuntimeRunInput \<Rightarrow> StartRuntimeRunInput" where
  "canonicalised c =
     c\<lparr>si_ImmutableInputs := sortedInputs (si_ImmutableInputs c),
       si_AdmissionGrant := zeroAdmissionGrantProof\<rparr>"

lemma authority_reads_back:
  "ra_kind a = RxAuthorityTaskOrchestration \<Longrightarrow>
   NewTaskOrchestrationAuthority (wa_ID (authority_of a)) (wa_Generation (authority_of a)) = a"
  by (simp add: NewTaskOrchestrationAuthority_def authority_of_def)

lemma start_reads_back:
  assumes valid: "validCanonicalStart c" and typed: "digests_typed c"
    and major: "rx_Major (si_SchemaVersion c) \<noteq> 0"
    and kind: "ra_kind (si_Authority c) = RxAuthorityTaskOrchestration"
  shows "startInputFromCanonical (wire_of_start c) = Inr (canonicalised c)"
proof -
  have "list_all (\<lambda>i. length (ii_Digest i) = 32) (sortedInputs (si_ImmutableInputs c))"
    using typed by (simp add: digests_typed_def sortedInputs_def list_all_iff)
  then have inputs: "inputsFromCanonical (map input_of (sortedInputs (si_ImmutableInputs c))) =
      Inr (sortedInputs (si_ImmutableInputs c))" by (rule inputs_read_back)
  have view: "viewFromCanonical (map_option view_of (si_RuntimeViewRequirement c)) =
      Inr (si_RuntimeViewRequirement c)"
  proof (rule view_reads_back)
    show "si_RuntimeViewRequirement c = None \<or> validRuntimeViewRequirement (si_RuntimeViewRequirement c)"
      using valid by (auto simp: validCanonicalStart_def effectClassName_def split: if_splits)
  qed (use typed in \<open>simp add: digests_typed_def\<close>)
  have manifest: "manifestFromCanonical (manifest_of (si_ImmutableInputManifest c)) =
      Inr (si_ImmutableInputManifest c)"
    by (rule manifest_reads_back) (use typed in \<open>simp_all add: digests_typed_def\<close>)
  have catalog: "catalogFromCanonical (map_option catalog_of (si_CatalogBinding c)) =
      Inr (si_CatalogBinding c)"
    by (rule catalog_reads_back) (use typed in \<open>simp add: digests_typed_def\<close>)
  have provider: "providerFromCanonical (map_option provider_of (si_ProviderBinding c)) =
      Inr (si_ProviderBinding c)"
    by (rule provider_reads_back [of "si_ProviderCapability c"])
      (use valid in \<open>simp add: validCanonicalStart_def\<close>)
  have names: "workerClassName (si_WorkerClass c) \<noteq> []" "effectClassName (si_Effect c) \<noteq> []"
    "providerCapabilityName (si_ProviderCapability c) \<noteq> []"
    "cancellationPolicyName (si_CancellationPolicy c) \<noteq> []"
    using valid by (simp_all add: validCanonicalStart_def)
  have policy: "si_CancellationPolicy c = CancellationFenceFirst"
    using names(4) by (simp add: cancellationPolicyName_def split: if_splits)
  have digests: "length (si_RuntimeBindingDigest c) = 32" "length (si_ExecutionLockDigest c) = 32"
    "length (si_CapabilityContractDigest c) = 32" "length (si_AllowedPlatformImagesDigest c) = 32"
    "length (si_ExecutorContractDigest c) = 32" "length (si_OutputContractDigest c) = 32"
    "length (si_EvidenceContractDigest c) = 32"
    using typed by (simp_all add: digests_typed_def)
  have authority: "wa_Kind (authority_of (si_Authority c)) = ''task_orchestration''"
    using kind by (simp add: authority_of_def rx_authorityKindName_def)
  have schema: "ws_Major (schema_of (si_SchemaVersion c)) = rx_Major (si_SchemaVersion c)"
    "ws_Minor (schema_of (si_SchemaVersion c)) = rx_Minor (si_SchemaVersion c)"
    by (simp_all add: schema_of_def)
  show ?thesis
    using major kind policy
    by (simp add: startInputFromCanonical_def wire_of_start_def canonicalised_def inputs view manifest
        catalog provider digests authority schema authority_reads_back
        workerClass_reads_back [OF names(1)] effect_reads_back [OF names(2)]
        providerCapability_reads_back [OF names(3)] cancellationPolicyName_def)
qed

lemma inputSizes_sum:
  "inputSizes is acc =
     (if unat acc + (\<Sum>i \<leftarrow> is. unat (ii_SizeBytes i)) < 2 ^ 64
      then Some (acc + of_nat (\<Sum>i \<leftarrow> is. unat (ii_SizeBytes i))) else None)"
proof (induction "is" arbitrary: acc)
  case Nil
  have "unat acc < 2 ^ 64" using unsigned_less [of acc] by simp
  then show ?case by simp
next
  case (Cons i "is")
  let ?s = "ii_SizeBytes i" and ?rest = "\<Sum>i \<leftarrow> is. unat (ii_SizeBytes i)"
  have "unat (NOT 0 - acc) = 2 ^ 64 - 1 - unat acc"
    by (simp add: unat_sub unsigned_minus_1_eq_mask mask_eq_exp_minus_1)
  moreover have "unat acc < 2 ^ 64" using unsigned_less [of acc] by simp
  ultimately have overflow: "NOT 0 - acc < ?s \<longleftrightarrow> 2 ^ 64 \<le> unat acc + unat ?s"
    by (auto simp: word_less_nat_alt)
  show ?case
  proof (cases "2 ^ 64 \<le> unat acc + unat ?s")
    case True
    then show ?thesis using overflow by simp
  next
    case False
    then have "unat (acc + ?s) = unat acc + unat ?s"
      by (simp add: unat_add_lem [symmetric])
    then show ?thesis
      using False overflow Cons.IH [of "acc + ?s"] by (simp add: add.assoc)
  qed
qed

lemma validManifest_sorted:
  "validImmutableInputManifest m (sortedInputs is) = validImmutableInputManifest m is"
proof -
  have perm: "mset (sortedInputs is) = mset is" by (simp add: sortedInputs_def)
  then have "(\<Sum>i \<leftarrow> sortedInputs is. unat (ii_SizeBytes i)) = (\<Sum>i \<leftarrow> is. unat (ii_SizeBytes i))"
    by (metis mset_map sum_mset_sum_list)
  then have "inputSizes (sortedInputs is) 0 = inputSizes is 0" by (simp add: inputSizes_sum)
  moreover have "(sortedInputs is = []) = (is = [])" using perm by (metis mset_zero_iff)
  moreover have "length (sortedInputs is) = length is" using perm by (metis size_mset)
  ultimately show ?thesis by (simp add: validImmutableInputManifest_def)
qed

lemma encoding_canonicalised: "canonicalStartEncoding (canonicalised c) = canonicalStartEncoding c"
proof -
  have "validCanonicalStart (canonicalised c) = validCanonicalStart c"
    by (simp add: validCanonicalStart_def canonicalised_def validManifest_sorted)
      (simp add: sortedInputs_def list_all_iff)
  moreover have "distinct (map ii_Identity (si_ImmutableInputs (canonicalised c))) =
      distinct (map ii_Identity (si_ImmutableInputs c))"
    by (simp add: canonicalised_def sortedInputs_def distinct_map)
  moreover have "wire_of_start (canonicalised c) = wire_of_start c"
    by (simp add: wire_of_start_def canonicalised_def sortedInputs_def sort_key_id_if_sorted)
  ultimately show ?thesis by (simp add: canonicalStartEncoding_def)
qed

lemma encoding_Inr:
  "canonicalStartEncoding c = Inr e \<longleftrightarrow>
     validCanonicalStart c \<and> distinct (map ii_Identity (si_ImmutableInputs c)) \<and>
     e = marshal_start (wire_of_start c)"
  by (auto simp: canonicalStartEncoding_def)

lemma NewCanonicalStart_Inr:
  "NewCanonicalStartRuntimeRun h input = Inr command \<longleftrightarrow>
     (\<exists>e. canonicalStartEncoding (input\<lparr>si_AdmissionGrant := zeroAdmissionGrantProof\<rparr>) = Inr e \<and>
        command = \<lparr>sr_Input = input\<lparr>si_AdmissionGrant := zeroAdmissionGrantProof\<rparr>,
          sr_CanonicalRequestDigest = canonicalRequestDigest h e\<rparr>)"
  by (auto simp: NewCanonicalStartRuntimeRun_def computeStartDigest_def result_bind_eq_Inr Let_def)

text \<open>The admission grant of a request is in neither its encoding nor its digest.\<close>

lemma encoding_grant [simp]:
  "canonicalStartEncoding (c\<lparr>si_AdmissionGrant := g\<rparr>) = canonicalStartEncoding c"
  by (simp add: canonicalStartEncoding_def validCanonicalStart_def wire_of_start_def)

lemma unmarshal_object_start [simp]: "dec_object unmarshal_start (marshal_start w) = Some w"
  by (metis dec_object_JObj marshal_start_def unmarshal_marshal_start)

lemma unmarshal_object_cancel [simp]: "dec_object unmarshal_cancel (marshal_cancel w) = Some w"
  by (metis dec_object_JObj marshal_cancel_def unmarshal_marshal_cancel)

lemma Parse_Inr:
  "ParseCanonicalStartPayload h payload d = Inr command \<longleftrightarrow>
     d \<noteq> zero_digest \<and>
     (\<exists>bytes wire input. payload = Some bytes \<and> canonicalRequestDigest h bytes = d \<and>
        dec_object unmarshal_start bytes = Some wire \<and> w_Kind wire = ''start_runtime_run'' \<and>
        startInputFromCanonical wire = Inr input \<and>
        NewCanonicalStartRuntimeRun h input = Inr command \<and>
        sr_CanonicalRequestDigest command = d \<and>
        canonicalStartEncoding (sr_Input command) = Inr bytes)"
  unfolding ParseCanonicalStartPayload_def result_simps by blast

lemma start_payload_reads_back:
  assumes new: "NewCanonicalStartRuntimeRun h input = Inr command"
    and typed: "digests_typed input" and hashing: "proper_hashing h"
    and major: "rx_Major (si_SchemaVersion input) \<noteq> 0"
    and kind: "ra_kind (si_Authority input) = RxAuthorityTaskOrchestration"
  shows "\<exists>payload. CanonicalStartPayload h command = Inr payload \<and>
           ParseCanonicalStartPayload h payload (sr_CanonicalRequestDigest command) =
             Inr (command\<lparr>sr_Input := canonicalised input\<rparr>)"
proof -
  let ?c = "input\<lparr>si_AdmissionGrant := zeroAdmissionGrantProof\<rparr>"
  from new obtain e where e: "canonicalStartEncoding input = Inr e"
    and command: "command = \<lparr>sr_Input = ?c, sr_CanonicalRequestDigest = canonicalRequestDigest h e\<rparr>"
    by (auto simp: NewCanonicalStart_Inr)
  then have valid: "validCanonicalStart input" and e': "e = marshal_start (wire_of_start input)"
    by (simp_all add: encoding_Inr)
  have payload: "CanonicalStartPayload h command = Inr (Some e)"
    using e by (simp add: CanonicalStartPayload_def command)
  have kindName: "w_Kind (wire_of_start input) = ''start_runtime_run''"
    by (simp add: wire_of_start_def)
  have again: "canonicalStartEncoding (canonicalised input) = Inr e"
    using e by (simp add: encoding_canonicalised)
  have grant: "(canonicalised input)\<lparr>si_AdmissionGrant := zeroAdmissionGrantProof\<rparr> = canonicalised input"
    by (simp add: canonicalised_def)
  have "NewCanonicalStartRuntimeRun h (canonicalised input) =
      Inr (command\<lparr>sr_Input := canonicalised input\<rparr>)"
    using again by (simp add: NewCanonicalStart_Inr grant command)
  moreover have "canonicalRequestDigest h e \<noteq> zero_digest"
    using hashing by (auto simp: canonicalRequestDigest_def)
  ultimately have "ParseCanonicalStartPayload h (Some e) (canonicalRequestDigest h e) =
      Inr (command\<lparr>sr_Input := canonicalised input\<rparr>)"
    unfolding Parse_Inr
    using start_reads_back [OF valid typed major kind] e' kindName again command by auto
  with payload show ?thesis by (auto simp: command)
qed


text \<open>
  Parsing accepts a payload only if it is the canonical encoding of the request it
  returns: re-encoding the result gives the same bytes, and the expected digest is both the
  digest of those bytes and the digest the result carries. Delivery cannot normalise or
  complete a payload.
\<close>

theorem parsed_start_is_canonical:
  assumes "ParseCanonicalStartPayload h payload d = Inr command"
  shows "CanonicalStartPayload h command = Inr payload \<and>
         sr_CanonicalRequestDigest command = d \<and>
         (\<exists>bytes. payload = Some bytes \<and> canonicalRequestDigest h bytes = d)"
  using assms by (auto simp: Parse_Inr CanonicalStartPayload_def)

text \<open>
  Binding attaches the Scheduler's admission proof to exactly the request that was
  authored: the bound request is valid, carries the given grant, and still has the payload
  and the digest it was bound from.
\<close>

theorem bound_start_keeps_request:
  assumes "BindCanonicalStartPayload h payload d grant = Inr command"
  shows "validStart (sr_Input command) \<and> si_AdmissionGrant (sr_Input command) = grant \<and>
         sr_CanonicalRequestDigest command = d \<and> CanonicalStartPayload h command = Inr payload"
proof -
  from assms obtain parsed where grant: "validAdmissionGrantProof grant"
    and parse: "ParseCanonicalStartPayload h payload d = Inr parsed"
    and bound: "WithAdmissionGrant h parsed grant = Inr command"
    by (auto simp: BindCanonicalStartPayload_def result_bind_eq_Inr split: if_splits)
  from bound grant have command: "command = parsed\<lparr>sr_Input := (sr_Input parsed)\<lparr>si_AdmissionGrant := grant\<rparr>\<rparr>"
    by (auto simp: WithAdmissionGrant_def Let_def split: sum.splits if_splits)
  from parse obtain bytes where payload: "payload = Some bytes" "canonicalRequestDigest h bytes = d"
    "sr_CanonicalRequestDigest parsed = d" "canonicalStartEncoding (sr_Input parsed) = Inr bytes"
    by (auto simp: Parse_Inr)
  then have "validCanonicalStart (sr_Input parsed)" by (simp add: encoding_Inr)
  then have "validCanonicalStart ((sr_Input parsed)\<lparr>si_AdmissionGrant := grant\<rparr>)"
    by (simp add: validCanonicalStart_def)
  with grant payload show ?thesis
    by (simp add: command validStart_def CanonicalStartPayload_def)
qed

text \<open>
  The same holds of cancellation: every cancel request Task Orchestration builds is
  recovered from its payload and digest, field by field.
\<close>

theorem cancel_payload_round_trip:
  assumes new: "NewCancelRuntimeRun h input = Inr command" and hashing: "proper_hashing h"
    and major: "rx_Major (ci_SchemaVersion input) \<noteq> 0"
    and kind: "ra_kind (ci_Authority input) = RxAuthorityTaskOrchestration"
  shows "\<exists>payload. CanonicalCancelPayload h command = Inr payload \<and>
           ParseCanonicalCancelPayload h payload (cr_CanonicalRequestDigest command) = Inr command"
proof -
  from new have valid: "validCancel input" and command:
    "command = \<lparr>cr_Input = input, cr_CanonicalRequestDigest =
       canonicalRequestDigest h (marshal_cancel (wire_of_cancel input))\<rparr>"
    by (auto simp: NewCancelRuntimeRun_def computeCancelDigest_def canonicalCancelEncoding_def
        result_bind_eq_Inr split: if_splits)
  have reason: "cancellationReasonName (ci_Reason input) \<noteq> []"
    using valid by (simp add: validCancel_def)
  have name: "wa_Kind (authority_of (ci_Authority input)) = ''task_orchestration''"
    using kind by (simp add: authority_of_def rx_authorityKindName_def)
  have "cancelInputFromCanonical (wire_of_cancel input) = Inr input"
    using major kind name cancellationReason_reads_back [OF reason]
    by (simp add: cancelInputFromCanonical_def wire_of_cancel_def schema_of_def authority_reads_back)
  moreover have "canonicalRequestDigest h (marshal_cancel (wire_of_cancel input)) \<noteq> zero_digest"
    using hashing by (auto simp: canonicalRequestDigest_def)
  ultimately show ?thesis
    using new valid
    by (simp add: ParseCanonicalCancelPayload_def CanonicalCancelPayload_def command
        canonicalCancelEncoding_def)
qed

end
