(* ===== verification/Runtime_Examples.thy ===== *)
theory Runtime_Examples
  imports Runtime_Encoding
begin

text \<open>
  Concrete start and cancel requests: the hypotheses of the properties of \<open>Runtime_Encoding\<close>
  hold on them.
\<close>

definition demo_hash :: hashing where
  "demo_hash = \<lparr>hs_value = (\<lambda>d v. replicate 32 CHR ''h''), hs_text = (\<lambda>t. replicate 32 CHR ''t'')\<rparr>"

lemma demo_hash_proper: "proper_hashing demo_hash"
  by (simp add: proper_hashing_def demo_hash_def zero_digest_def numeral_eq_Suc)

abbreviation (input) demo_digest :: digest where "demo_digest \<equiv> replicate 32 CHR ''d''"

definition demo_start :: StartRuntimeRunInput where
  "demo_start =
     \<lparr>si_SchemaVersion = rx_SchemaV1, si_OperationID = ''operation-000001'',
      si_PersonalWorkspaceID = ''personal-workspace-ada'', si_TaskID = ''task-1'',
      si_PhaseRunID = ''phase-run-000001'', si_RuntimeRunID = ''runtime-run-000001'',
      si_Attempt = 1, si_ExpectedTaskRevision = 2, si_ExpectedRuntimeRevision = 1,
      si_ExpectedOperationGeneration = 1, si_ExpectedRuntimeFence = 1,
      si_Authority = NewTaskOrchestrationAuthority ''task-orchestration'' 1,
      si_RuntimeBindingID = ''runtime-binding-1'', si_RuntimeBindingDigest = demo_digest,
      si_ExecutionLockDigest = demo_digest, si_CapabilityContractDigest = demo_digest,
      si_AllowedPlatformImagesDigest = demo_digest, si_ExecutorContractDigest = demo_digest,
      si_ReleaseSafetyEpoch = 3,
      si_CatalogBinding = Some \<lparr>cb_TemplateLockID = ''lock-1'', cb_TemplateLockDigest = demo_digest,
        cb_ClosureRootDigest = demo_digest, cb_SafetyEpoch = 3\<rparr>,
      si_WorkerClass = WorkerAgent, si_Effect = EffectMutating,
      si_ImmutableInputManifest =
        \<lparr>im_Identity = ''input-manifest-1'', im_SchemaVersion = rx_SchemaV1, im_Digest = demo_digest,
         im_TotalSizeBytes = 12, im_InputCount = 2, im_MaterializationEvidenceID = ''template-lock-1'',
         im_MaterializationEvidenceDigest = demo_digest\<rparr>,
      si_ImmutableInputs =
        [\<lparr>ii_Identity = ''template/2'', ii_Digest = demo_digest, ii_SizeBytes = 5\<rparr>,
         \<lparr>ii_Identity = ''template/1'', ii_Digest = demo_digest, ii_SizeBytes = 7\<rparr>],
      si_OutputContractDigest = demo_digest, si_EvidenceContractDigest = demo_digest,
      si_RuntimeViewRequirement = Some
        \<lparr>rv_TaskWorkspaceID = ''workspace-1'', rv_MaterializationID = ''materialization-1'',
         rv_BaseRevisionID = ''base-revision-1'', rv_LifecycleGeneration = 1, rv_LifecycleFence = 1,
         rv_ExpiryPolicy = RuntimeViewExpiryAtDeadline, rv_OpenOperationDerivation = demo_digest\<rparr>,
      si_ResourceClassID = ''resource-class-1'', si_ExecutionPolicyID = ''execution-policy-1'',
      si_ProviderCapability = ProviderCapabilityNone, si_ProviderBinding = None,
      si_NetworkPolicyID = ''network-policy-1'', si_SecretPolicyID = ''secret-policy-1'',
      si_Deadline = 1800, si_CancellationPolicy = CancellationFenceFirst,
      si_AdmissionGrant = zeroAdmissionGrantProof\<rparr>"

definition demo_command :: StartRuntimeRun where
  "demo_command = \<lparr>sr_Input = demo_start, sr_CanonicalRequestDigest = replicate 32 CHR ''h''\<rparr>"

lemma demo_start_valid:
  "validCanonicalStart demo_start" "distinct (map ii_Identity (si_ImmutableInputs demo_start))"
  "digests_typed demo_start" "rx_Major (si_SchemaVersion demo_start) \<noteq> 0"
  "ra_kind (si_Authority demo_start) = RxAuthorityTaskOrchestration"
  apply code_simp
  apply code_simp
  apply (simp add: digests_typed_def demo_start_def)
  apply code_simp
  apply code_simp
  done

lemma demo_start_created: "NewCanonicalStartRuntimeRun demo_hash demo_start = Inr demo_command"
proof -
  have "demo_start\<lparr>si_AdmissionGrant := zeroAdmissionGrantProof\<rparr> = demo_start"
    by (simp add: demo_start_def)
  then show ?thesis
    using demo_start_valid(1,2)
    by (simp add: NewCanonicalStart_Inr encoding_Inr demo_command_def canonicalRequestDigest_def demo_hash_def)
qed


definition demo_payload :: "json option" where
  "demo_payload = Some (marshal_start (wire_of_start demo_start))"

definition demo_parsed :: StartRuntimeRun where
  "demo_parsed = demo_command\<lparr>sr_Input := canonicalised demo_start\<rparr>"

lemma demo_parses:
  "ParseCanonicalStartPayload demo_hash demo_payload (replicate 32 CHR ''h'') = Inr demo_parsed"
proof -
  have reads: "startInputFromCanonical (wire_of_start demo_start) = Inr (canonicalised demo_start)"
    by (rule start_reads_back [OF demo_start_valid(1,3,4,5)])
  have enc: "canonicalStartEncoding (canonicalised demo_start) = Inr (marshal_start (wire_of_start demo_start))"
    using demo_start_valid(1,2) by (simp add: encoding_canonicalised encoding_Inr)
  have grant: "(canonicalised demo_start)\<lparr>si_AdmissionGrant := zeroAdmissionGrantProof\<rparr> = canonicalised demo_start"
    by (simp add: canonicalised_def)
  have "w_Kind (wire_of_start demo_start) = ''start_runtime_run''" by (simp add: wire_of_start_def)
  moreover have "replicate 32 CHR ''h'' \<noteq> zero_digest" by (simp add: zero_digest_def numeral_eq_Suc)
  ultimately show ?thesis
    unfolding Parse_Inr demo_payload_def
    using reads enc
    by (auto simp: NewCanonicalStart_Inr grant demo_parsed_def demo_command_def canonicalRequestDigest_def demo_hash_def)
qed

theorem parsed_start_is_canonical_witness:
  "CanonicalStartPayload demo_hash demo_parsed = Inr demo_payload"
  using parsed_start_is_canonical [OF demo_parses] by blast

definition demo_grant :: AdmissionGrantProof where
  "demo_grant = \<lparr>ag_AdmissionGrantID = ''grant-1'', ag_WorkItemID = ''work-1'', ag_Generation = 1\<rparr>"

definition demo_bound :: StartRuntimeRun where
  "demo_bound = demo_parsed\<lparr>sr_Input := (sr_Input demo_parsed)\<lparr>si_AdmissionGrant := demo_grant\<rparr>\<rparr>"

lemma demo_binds:
  "BindCanonicalStartPayload demo_hash demo_payload (replicate 32 CHR ''h'') demo_grant = Inr demo_bound"
proof -
  have grant: "validAdmissionGrantProof demo_grant" by code_simp
  from demo_parses have "canonicalStartEncoding (sr_Input demo_parsed) \<noteq> Inl e" for e
    by (auto simp: Parse_Inr)
  moreover have "canonicalRequestDigest demo_hash v = sr_CanonicalRequestDigest demo_parsed" for v
    by (simp add: canonicalRequestDigest_def demo_hash_def demo_parsed_def demo_command_def)
  ultimately show ?thesis
    using grant
    by (auto simp: BindCanonicalStartPayload_def demo_parses WithAdmissionGrant_def Let_def
        demo_bound_def split: sum.splits)
qed

theorem bound_start_keeps_request_witness:
  "validStart (sr_Input demo_bound) \<and> CanonicalStartPayload demo_hash demo_bound = Inr demo_payload"
  using bound_start_keeps_request [OF demo_binds] by blast

definition demo_cancel :: CancelRuntimeRunInput where
  "demo_cancel =
     \<lparr>ci_SchemaVersion = rx_SchemaV1, ci_OperationID = ''operation-000002'',
      ci_PersonalWorkspaceID = ''personal-workspace-ada'', ci_TaskID = ''task-1'',
      ci_PhaseRunID = ''phase-run-000001'', ci_RuntimeRunID = ''runtime-run-000001'',
      ci_ExpectedRuntimeRevision = 2, ci_ExpectedStartOperationID = ''operation-000001'',
      ci_ExpectedOperationGeneration = 2, ci_ExpectedRuntimeFence = 2,
      ci_Authority = NewTaskOrchestrationAuthority ''task-orchestration'' 1,
      ci_Reason = CancellationUserRequested, ci_SafetyEpoch = 3, ci_OccurredAt = 60\<rparr>"

theorem cancel_payload_round_trip_witness:
  "\<exists>payload command. NewCancelRuntimeRun demo_hash demo_cancel = Inr command \<and>
     CanonicalCancelPayload demo_hash command = Inr payload \<and>
     ParseCanonicalCancelPayload demo_hash payload (cr_CanonicalRequestDigest command) = Inr command"
proof -
  have "validCancel demo_cancel" by code_simp
  then obtain command where new: "NewCancelRuntimeRun demo_hash demo_cancel = Inr command"
    by (simp add: NewCancelRuntimeRun_def computeCancelDigest_def canonicalCancelEncoding_def)
  moreover have "rx_Major (ci_SchemaVersion demo_cancel) \<noteq> 0" by code_simp
  moreover have "ra_kind (ci_Authority demo_cancel) = RxAuthorityTaskOrchestration" by code_simp
  ultimately show ?thesis using cancel_payload_round_trip [OF new demo_hash_proper] by blast
qed

end
