(* ===== verification/Orch_Types.thy ===== *)
theory Orch_Types
  imports Canonical_Values
begin

text \<open>
  The vocabulary of Task Orchestration
  (\<open>backend/internal/taskorchestration/types.go\<close>, \<open>pipeline.go\<close> and \<open>intents.go\<close>):
  identifiers and digests with their parsers, errors, enumerations with their names,
  authorities, evidence references, enactment references, decisions and projections.

  An enumeration the engine alone assigns is a datatype with a constructor for the zero value;
  one a caller may set to any \<open>uint8\<close> is an \<open>enum8\<close>. Revisions, generations, fences and
  epochs are wrapping 64 bit integers.
\<close>

section \<open>Identifiers and digests\<close>

definition idCharacter :: "char \<Rightarrow> bool" where
  "idCharacter c =
     (let n = (of_char c :: nat) in
      97 \<le> n \<and> n \<le> 122 \<or> 65 \<le> n \<and> n \<le> 90 \<or> 48 \<le> n \<and> n \<le> 57 \<or>
      c \<in> {CHR ''-'', CHR ''_''})"

definition validOpaqueID :: "string \<Rightarrow> bool" where
  "validOpaqueID s = (s \<noteq> [] \<and> length s \<le> 96 \<and> list_all idCharacter s)"

lemma validOpaqueID_nonempty [simp]: "\<not> validOpaqueID []"
  by (simp add: validOpaqueID_def)

datatype error_code =
    ErrorAuthorizationDenied
  | ErrorInvalidIntent
  | ErrorIntegrityConflict
  | ErrorStaleTaskRevision
  | ErrorStaleAuthority
  | ErrorUnsupportedSchema
  | ErrorUnsupportedPipelineContract
  | ErrorEvidenceInvalid
  | ErrorEvidenceScopeConflict
  | ErrorOperationalReadOnly
  | ErrorDependencyUnavailable
  | ErrorReconciliationRequired
  | ErrorQueueRejected
  | ErrorTerminalConflict

datatype retry_disposition = RetryNever | RetrySameRequest | RetryAfterDependency

text \<open>\<open>newError\<close>: an error is its code; what the caller may do follows from the code.\<close>

fun retryDisposition :: "error_code \<Rightarrow> retry_disposition" where
  "retryDisposition ErrorDependencyUnavailable = RetryAfterDependency"
| "retryDisposition ErrorQueueRejected = RetryAfterDependency"
| "retryDisposition ErrorOperationalReadOnly = RetryAfterDependency"
| "retryDisposition ErrorReconciliationRequired = RetrySameRequest"
| "retryDisposition _ = RetryNever"

definition reconciliationRequired :: "error_code \<Rightarrow> bool" where
  "reconciliationRequired e = (e = ErrorReconciliationRequired)"

text \<open>The constructors of the identifiers: the text itself, if it is valid.\<close>

definition NewOpaqueID :: "string \<Rightarrow> error_code + ident" where
  "NewOpaqueID s = (if validOpaqueID s then Inr s else Inl ErrorInvalidIntent)"

text \<open>The parsers of fixed-size byte arrays, \<open>n\<close> being the size of the array.\<close>

definition ParseDigest :: "nat \<Rightarrow> string \<Rightarrow> error_code + digest" where
  "ParseDigest n s =
     (case hex_decode s of
        None \<Rightarrow> Inl ErrorInvalidIntent
      | Some d \<Rightarrow> if length d \<noteq> n then Inl ErrorInvalidIntent else Inr d)"

definition ParseTraceID :: "string \<Rightarrow> error_code + digest" where
  "ParseTraceID s =
     result_bind (ParseDigest 16 s) (\<lambda>d.
     if d = replicate 16 CHR 0x00 then Inl ErrorInvalidIntent else Inr d)"

text \<open>The allocated identifiers: a prefix and the sequence value in at least six digits.\<close>

definition sequenceID :: "string \<Rightarrow> u64 \<Rightarrow> ident" where
  "sequenceID prefix n = prefix @ padded 6 (unat n)"

lemma sequenceID_inject [simp]: "sequenceID p m = sequenceID p n \<longleftrightarrow> m = n"
  by (simp add: sequenceID_def word_unat_eq_iff)

section \<open>Enumerations\<close>

abbreviation (input) RouteGeneration :: enum8 where "RouteGeneration \<equiv> 1"
abbreviation (input) RouteBeautify :: enum8 where "RouteBeautify \<equiv> 2"
abbreviation (input) RouteTemplateFill :: enum8 where "RouteTemplateFill \<equiv> 3"

definition route_String :: "enum8 \<Rightarrow> string" where
  "route_String r =
     (if r = RouteGeneration then ''generation'' else if r = RouteBeautify then ''beautify''
      else if r = RouteTemplateFill then ''template_fill'' else [])"

datatype TaskStatus =
    TaskStatusUnset
  | TaskReady
  | TaskRunning
  | TaskAwaitingConfirmation
  | TaskCancelling
  | TaskFailed
  | TaskCancelled
  | TaskCompleted

fun task_status_code :: "TaskStatus \<Rightarrow> int" where
  "task_status_code TaskStatusUnset = 0"
| "task_status_code TaskReady = 1"
| "task_status_code TaskRunning = 2"
| "task_status_code TaskAwaitingConfirmation = 3"
| "task_status_code TaskCancelling = 4"
| "task_status_code TaskFailed = 5"
| "task_status_code TaskCancelled = 6"
| "task_status_code TaskCompleted = 7"

datatype ActivityKind = ActivityNone | ActivityGenerationPipeline | ActivityManualEdit

abbreviation (input) PhaseNonMutating :: enum8 where "PhaseNonMutating \<equiv> 1"
abbreviation (input) PhaseMutating :: enum8 where "PhaseMutating \<equiv> 2"
abbreviation (input) PhaseConfirmationGate :: enum8 where "PhaseConfirmationGate \<equiv> 3"
abbreviation (input) PhasePublication :: enum8 where "PhasePublication \<equiv> 4"

abbreviation (input) PhaseValidationNone :: enum8 where "PhaseValidationNone \<equiv> 0"
abbreviation (input) PhaseValidationAllRuntimeRunsSucceeded :: enum8 where
  "PhaseValidationAllRuntimeRunsSucceeded \<equiv> 1"

datatype PhaseRunOutcome =
    PhaseRunUnset | PhaseRunRunning | PhaseRunFailed | PhaseRunCancelled | PhaseRunSucceeded

abbreviation (input) RuntimeRunPending :: enum8 where "RuntimeRunPending \<equiv> 1"
abbreviation (input) RuntimeRunSucceeded :: enum8 where "RuntimeRunSucceeded \<equiv> 2"
abbreviation (input) RuntimeRunFailed :: enum8 where "RuntimeRunFailed \<equiv> 3"
abbreviation (input) PhaseValidationAccepted :: enum8 where "PhaseValidationAccepted \<equiv> 1"
abbreviation (input) PhaseValidationRejected :: enum8 where "PhaseValidationRejected \<equiv> 2"
abbreviation (input) TaskWorkspaceLifecycleCommitted :: enum8 where "TaskWorkspaceLifecycleCommitted \<equiv> 1"
abbreviation (input) TaskWorkspaceLifecycleRejected :: enum8 where "TaskWorkspaceLifecycleRejected \<equiv> 2"
abbreviation (input) TaskWorkspaceLifecycleFenced :: enum8 where "TaskWorkspaceLifecycleFenced \<equiv> 3"
abbreviation (input) PublicationActivated :: enum8 where "PublicationActivated \<equiv> 1"
abbreviation (input) PublicationRejected :: enum8 where "PublicationRejected \<equiv> 2"

definition runtimeRunOutcomeName :: "enum8 \<Rightarrow> string" where
  "runtimeRunOutcomeName r =
     (if r = RuntimeRunSucceeded then ''succeeded'' else if r = RuntimeRunFailed then ''failed'' else [])"

definition phaseValidationOutcomeName :: "enum8 \<Rightarrow> string" where
  "phaseValidationOutcomeName r =
     (if r = PhaseValidationAccepted then ''accepted''
      else if r = PhaseValidationRejected then ''rejected'' else [])"

definition taskWorkspaceLifecycleOutcomeName :: "enum8 \<Rightarrow> string" where
  "taskWorkspaceLifecycleOutcomeName r =
     (if r = TaskWorkspaceLifecycleCommitted then ''committed''
      else if r = TaskWorkspaceLifecycleRejected then ''rejected''
      else if r = TaskWorkspaceLifecycleFenced then ''fenced'' else [])"

definition publicationOutcomeName :: "enum8 \<Rightarrow> string" where
  "publicationOutcomeName r =
     (if r = PublicationActivated then ''activated''
      else if r = PublicationRejected then ''rejected'' else [])"

definition phaseValidationContractName :: "enum8 \<Rightarrow> string" where
  "phaseValidationContractName c =
     (if c = PhaseValidationNone then ''none''
      else if c = PhaseValidationAllRuntimeRunsSucceeded then ''all_runtime_runs_succeeded'' else [])"

datatype IntentKind =
    IntentStartTask
  | IntentMakeWorkAvailable
  | IntentSubmitConfirmationGate
  | IntentRetryPhase
  | IntentCancelTask
  | IntentBeginManualEdit
  | IntentAcceptRuntimeEvidence
  | IntentAcceptPhaseValidationEvidence
  | IntentAcceptTaskWorkspaceLifecycleEvidence
  | IntentAcceptPublicationEvidence
  | IntentAcceptSchedulingEvidence
  | IntentReconcileEnactment
  | IntentApplyOperationalFence
  | IntentRetryRuntimeRun
  | IntentAcceptTaskWorkspaceReconstructionEvidence

fun intent_kind_code :: "IntentKind \<Rightarrow> int" where
  "intent_kind_code IntentStartTask = 1"
| "intent_kind_code IntentMakeWorkAvailable = 2"
| "intent_kind_code IntentSubmitConfirmationGate = 3"
| "intent_kind_code IntentRetryPhase = 4"
| "intent_kind_code IntentCancelTask = 5"
| "intent_kind_code IntentBeginManualEdit = 6"
| "intent_kind_code IntentAcceptRuntimeEvidence = 7"
| "intent_kind_code IntentAcceptPhaseValidationEvidence = 8"
| "intent_kind_code IntentAcceptTaskWorkspaceLifecycleEvidence = 9"
| "intent_kind_code IntentAcceptPublicationEvidence = 10"
| "intent_kind_code IntentAcceptSchedulingEvidence = 11"
| "intent_kind_code IntentReconcileEnactment = 12"
| "intent_kind_code IntentApplyOperationalFence = 13"
| "intent_kind_code IntentRetryRuntimeRun = 14"
| "intent_kind_code IntentAcceptTaskWorkspaceReconstructionEvidence = 15"

fun intentKindName :: "IntentKind \<Rightarrow> string" where
  "intentKindName IntentStartTask = ''start_task''"
| "intentKindName IntentMakeWorkAvailable = ''make_work_available''"
| "intentKindName IntentSubmitConfirmationGate = ''submit_confirmation_gate''"
| "intentKindName IntentRetryPhase = ''retry_phase''"
| "intentKindName IntentCancelTask = ''cancel_task''"
| "intentKindName IntentBeginManualEdit = ''begin_manual_edit''"
| "intentKindName IntentAcceptRuntimeEvidence = ''accept_runtime_evidence''"
| "intentKindName IntentAcceptPhaseValidationEvidence = ''accept_phase_validation_evidence''"
| "intentKindName IntentAcceptTaskWorkspaceLifecycleEvidence = ''accept_task_workspace_lifecycle_evidence''"
| "intentKindName IntentAcceptPublicationEvidence = ''accept_publication_evidence''"
| "intentKindName IntentAcceptSchedulingEvidence = ''accept_scheduling_evidence''"
| "intentKindName IntentReconcileEnactment = ''reconcile_enactment''"
| "intentKindName IntentApplyOperationalFence = ''apply_operational_fence''"
| "intentKindName IntentRetryRuntimeRun = ''retry_runtime_run''"
| "intentKindName IntentAcceptTaskWorkspaceReconstructionEvidence =
     ''accept_task_workspace_reconstruction_evidence''"

lemma intentKindName_nonempty [simp]: "intentKindName k \<noteq> []"
  by (cases k) simp_all

abbreviation (input) AdministratorReasonSafety :: enum8 where "AdministratorReasonSafety \<equiv> 1"
abbreviation (input) AdministratorReasonRecovery :: enum8 where "AdministratorReasonRecovery \<equiv> 2"
abbreviation (input) CancelReasonUserRequested :: enum8 where "CancelReasonUserRequested \<equiv> 1"
abbreviation (input) CancelReasonSafety :: enum8 where "CancelReasonSafety \<equiv> 2"
abbreviation (input) OperationalReadOnly :: enum8 where "OperationalReadOnly \<equiv> 1"
abbreviation (input) OperationalFullReady :: enum8 where "OperationalFullReady \<equiv> 2"

definition administratorReasonName :: "enum8 \<Rightarrow> string" where
  "administratorReasonName r =
     (if r = AdministratorReasonSafety then ''safety''
      else if r = AdministratorReasonRecovery then ''recovery'' else [])"

definition cancelReasonName :: "enum8 \<Rightarrow> string" where
  "cancelReasonName r =
     (if r = CancelReasonUserRequested then ''user_requested''
      else if r = CancelReasonSafety then ''safety'' else [])"

definition operationalModeName :: "enum8 \<Rightarrow> string" where
  "operationalModeName m =
     (if m = OperationalReadOnly then ''read_only''
      else if m = OperationalFullReady then ''full_ready'' else [])"

abbreviation (input) EvidenceRuntime :: enum8 where "EvidenceRuntime \<equiv> 1"
abbreviation (input) EvidencePhaseValidation :: enum8 where "EvidencePhaseValidation \<equiv> 2"
abbreviation (input) EvidenceTaskWorkspaceLifecycle :: enum8 where "EvidenceTaskWorkspaceLifecycle \<equiv> 3"
abbreviation (input) EvidencePublication :: enum8 where "EvidencePublication \<equiv> 4"
abbreviation (input) EvidenceScheduling :: enum8 where "EvidenceScheduling \<equiv> 5"
abbreviation (input) EvidenceUsageAccounting :: enum8 where "EvidenceUsageAccounting \<equiv> 6"

definition evidenceKindName :: "enum8 \<Rightarrow> string" where
  "evidenceKindName k =
     (if k = EvidenceRuntime then ''runtime'' else if k = EvidencePhaseValidation then ''phase_validation''
      else if k = EvidenceTaskWorkspaceLifecycle then ''task_workspace_lifecycle''
      else if k = EvidencePublication then ''publication''
      else if k = EvidenceScheduling then ''scheduling''
      else if k = EvidenceUsageAccounting then ''usage_accounting'' else [])"

datatype CancellationState = CancellationNotRequested | CancellationCancelling | CancellationCancelled

datatype EvidenceDiagnosticReason =
    EvidenceDiagnosticUnset
  | EvidenceDiagnosticScopeConflict
  | EvidenceDiagnosticStale
  | EvidenceDiagnosticUnauthorized

section \<open>Authorities\<close>

datatype AuthorityKind =
    AuthorityNone
  | AuthorityUser
  | AuthorityAdministrator
  | AuthorityWorker
  | AuthorityRuntime
  | AuthorityValidator
  | AuthorityTaskWorkspaceLifecycle
  | AuthorityPublication
  | AuthorityScheduler
  | AuthorityRecovery

fun authority_kind_code :: "AuthorityKind \<Rightarrow> int" where
  "authority_kind_code AuthorityNone = 0"
| "authority_kind_code AuthorityUser = 1"
| "authority_kind_code AuthorityAdministrator = 2"
| "authority_kind_code AuthorityWorker = 3"
| "authority_kind_code AuthorityRuntime = 4"
| "authority_kind_code AuthorityValidator = 5"
| "authority_kind_code AuthorityTaskWorkspaceLifecycle = 6"
| "authority_kind_code AuthorityPublication = 7"
| "authority_kind_code AuthorityScheduler = 8"
| "authority_kind_code AuthorityRecovery = 9"

fun authorityKindName :: "AuthorityKind \<Rightarrow> string" where
  "authorityKindName AuthorityNone = []"
| "authorityKindName AuthorityUser = ''user''"
| "authorityKindName AuthorityAdministrator = ''administrator''"
| "authorityKindName AuthorityWorker = ''worker''"
| "authorityKindName AuthorityRuntime = ''runtime''"
| "authorityKindName AuthorityValidator = ''validator''"
| "authorityKindName AuthorityTaskWorkspaceLifecycle = ''task_workspace_lifecycle''"
| "authorityKindName AuthorityPublication = ''publication''"
| "authorityKindName AuthorityScheduler = ''scheduler''"
| "authorityKindName AuthorityRecovery = ''recovery''"

record authorityValue =
  av_kind :: AuthorityKind
  av_id :: ident
  av_generation :: u64
  av_reason :: enum8

definition zeroAuthority :: authorityValue where
  "zeroAuthority = \<lparr>av_kind = AuthorityNone, av_id = [], av_generation = 0, av_reason = 0\<rparr>"

definition newAuthorityValue :: "AuthorityKind \<Rightarrow> ident \<Rightarrow> u64 \<Rightarrow> authorityValue" where
  "newAuthorityValue k i g = \<lparr>av_kind = k, av_id = i, av_generation = g, av_reason = 0\<rparr>"

definition NewAdministratorAuthority :: "ident \<Rightarrow> u64 \<Rightarrow> enum8 \<Rightarrow> authorityValue" where
  "NewAdministratorAuthority i g r = (newAuthorityValue AuthorityAdministrator i g)\<lparr>av_reason := r\<rparr>"

definition authority_canonical :: "authorityValue \<Rightarrow> json" where
  "authority_canonical a =
     jobj ([(''generation'', jword (av_generation a)), (''id'', JStr (av_id a)),
            (''kind'', JStr (authorityKindName (av_kind a)))] @
           (if av_kind a = AuthorityAdministrator
            then [(''reason'', JStr (administratorReasonName (av_reason a)))] else []))"

definition authority_valid :: "authorityValue \<Rightarrow> bool" where
  "authority_valid a =
     (if \<not> validOpaqueID (av_id a) \<or> av_generation a = 0 \<or> authorityKindName (av_kind a) = [] then False
      else if av_kind a = AuthorityAdministrator then administratorReasonName (av_reason a) \<noteq> []
      else av_reason a = 0)"

lemma zeroAuthority_invalid [simp]: "\<not> authority_valid zeroAuthority"
  by (simp add: authority_valid_def zeroAuthority_def)

section \<open>Evidence and enactments\<close>

record EvidenceRef =
  ev_ID :: ident
  ev_Kind :: enum8
  ev_Digest :: digest

definition validEvidenceRef :: "EvidenceRef \<Rightarrow> bool" where
  "validEvidenceRef e =
     (validOpaqueID (ev_ID e) \<and> evidenceKindName (ev_Kind e) \<noteq> [] \<and> ev_Digest e \<noteq> zero_digest)"

definition evidence_canonical :: "EvidenceRef \<Rightarrow> json" where
  "evidence_canonical e =
     jobj [(''digest'', JStr (hex_encode (ev_Digest e))), (''id'', JStr (ev_ID e)),
           (''kind'', JStr (evidenceKindName (ev_Kind e)))]"

record EvidenceDiagnostic =
  ed_EvidenceID :: ident
  ed_NonAuthoritative :: bool
  ed_Reason :: EvidenceDiagnosticReason

definition zeroEvidenceDiagnostic :: EvidenceDiagnostic where
  "zeroEvidenceDiagnostic =
     \<lparr>ed_EvidenceID = [], ed_NonAuthoritative = False, ed_Reason = EvidenceDiagnosticUnset\<rparr>"

datatype EnactmentKind =
    EnactmentUnset
  | EnactmentRuntimeExecution
  | EnactmentTaskWorkspaceLifecycle
  | EnactmentArtifactPublication
  | EnactmentScheduling
  | EnactmentUsageAccounting
  | EnactmentPresentConfirmationGate

fun enactment_kind_code :: "EnactmentKind \<Rightarrow> int" where
  "enactment_kind_code EnactmentUnset = 0"
| "enactment_kind_code EnactmentRuntimeExecution = 1"
| "enactment_kind_code EnactmentTaskWorkspaceLifecycle = 2"
| "enactment_kind_code EnactmentArtifactPublication = 3"
| "enactment_kind_code EnactmentScheduling = 4"
| "enactment_kind_code EnactmentUsageAccounting = 5"
| "enactment_kind_code EnactmentPresentConfirmationGate = 6"

text \<open>The closed interface of fences: a value of each fence type, and the nil interface.\<close>

datatype EnactmentFenceRef =
    NoFence
  | RuntimeFence u64
  | TaskWorkspaceLifecycleFence u64
  | PublicationFence u64
  | SchedulerFence u64
  | UsageFence u64
  | ConfirmationFence u64

fun postgresFenceValue :: "EnactmentFenceRef \<Rightarrow> int \<times> u64" where
  "postgresFenceValue NoFence = (0, 0)"
| "postgresFenceValue (RuntimeFence f) = (1, f)"
| "postgresFenceValue (TaskWorkspaceLifecycleFence f) = (2, f)"
| "postgresFenceValue (PublicationFence f) = (3, f)"
| "postgresFenceValue (SchedulerFence f) = (4, f)"
| "postgresFenceValue (UsageFence f) = (5, f)"
| "postgresFenceValue (ConfirmationFence f) = (6, f)"

fun postgresFenceRef :: "int \<Rightarrow> u64 \<Rightarrow> EnactmentFenceRef" where
  "postgresFenceRef kind f =
     (if kind = 1 then RuntimeFence f else if kind = 2 then TaskWorkspaceLifecycleFence f
      else if kind = 3 then PublicationFence f else if kind = 4 then SchedulerFence f
      else if kind = 5 then UsageFence f else if kind = 6 then ConfirmationFence f else NoFence)"

lemma postgresFence_round_trip: "(case postgresFenceValue r of (k, f) \<Rightarrow> postgresFenceRef k f) = r"
  by (cases r) simp_all

record EnactmentRef =
  en_OperationID :: ident
  en_Kind :: EnactmentKind
  en_PayloadDigest :: digest
  en_ActivityGeneration :: u64
  en_Fence :: EnactmentFenceRef
  en_CausationID :: ident

section \<open>Decisions\<close>

record TaskProjection =
  tp_TaskID :: ident
  tp_TaskRevision :: u64
  tp_ActivityGeneration :: u64
  tp_Status :: TaskStatus
  tp_Route :: enum8
  tp_Activity :: ActivityKind
  tp_ExecutionLockID :: ident
  tp_TemplateLockID :: ident
  tp_CurrentPhase :: ident
  tp_ActivePhaseRunID :: ident
  tp_LatestArtifactVersionID :: ident
  tp_TaskWorkspaceID :: ident
  tp_LatestRevisionID :: ident
  tp_LatestCheckpointID :: ident
  tp_LifecycleGeneration :: u64
  tp_LifecycleFence :: u64
  tp_CancellationState :: CancellationState
  tp_SafetyEpoch :: u64
  tp_OperationalMode :: enum8

record AuditEnactmentBinding =
  ae_OperationID :: ident
  ae_Kind :: EnactmentKind
  ae_PayloadDigest :: digest
  ae_ActivityGeneration :: u64
  ae_FenceKind :: int
  ae_Fence :: u64
  ae_CausationID :: ident

datatype AuditReasonCode =
    AuditReasonNone
  | AuditReasonUserRequested
  | AuditReasonAdministratorSafety
  | AuditReasonAdministratorRecovery
  | AuditReasonRetry
  | AuditReasonManualEdit
  | AuditReasonReconciliation
  | AuditReasonRecoveryFence

fun audit_reason_code :: "AuditReasonCode \<Rightarrow> int" where
  "audit_reason_code AuditReasonNone = 0"
| "audit_reason_code AuditReasonUserRequested = 1"
| "audit_reason_code AuditReasonAdministratorSafety = 2"
| "audit_reason_code AuditReasonAdministratorRecovery = 3"
| "audit_reason_code AuditReasonRetry = 4"
| "audit_reason_code AuditReasonManualEdit = 5"
| "audit_reason_code AuditReasonReconciliation = 6"
| "audit_reason_code AuditReasonRecoveryFence = 7"

text \<open>The version, module, result and clock codes of a fact are the only values of their types.\<close>

record AuditFactRef =
  af_SchemaVersion :: u32
  af_AuditFactID :: ident
  af_CanonicalDigest :: digest
  af_IntegrityVersion :: u16
  af_OwningModule :: enum8
  af_DecisionID :: ident
  af_TaskID :: ident
  af_IdempotencyDecisionRequestID :: ident
  af_Action :: "IntentKind option"
  af_Result :: enum8
  af_AuthorityKind :: AuthorityKind
  af_AuthorityID :: ident
  af_AuthorizationGeneration :: u64
  af_AuthorityReason :: enum8
  af_ReasonCode :: AuditReasonCode
  af_BeforeTaskRevision :: u64
  af_AfterTaskRevision :: u64
  af_BeforeStatus :: TaskStatus
  af_AfterStatus :: TaskStatus
  af_BeforeActivityGeneration :: u64
  af_AfterActivityGeneration :: u64
  af_RecoveryGeneration :: u64
  af_BeforeSafetyEpoch :: u64
  af_AfterSafetyEpoch :: u64
  af_EvidenceRefs :: "EvidenceRef list"
  af_EnactmentRefs :: "AuditEnactmentBinding list"
  af_RetryPhaseRunID :: ident
  af_RetryRuntimeRunID :: ident
  af_ReconciliationOperationID :: ident
  af_ReconciliationFence :: u64
  af_OccurredAt :: int
  af_RecordedAt :: int
  af_SourceClock :: enum8

record TransitionDecision =
  td_DecisionID :: ident
  td_DecisionRequestID :: ident
  td_CanonicalRequestDigest :: digest
  td_PreviousTaskRevision :: u64
  td_AcceptedTaskRevision :: u64
  td_TaskProjection :: TaskProjection
  td_AffectedPhaseRuns :: "ident list"
  td_AcceptedEvidenceRefs :: "EvidenceRef list"
  td_CommittedAt :: int
  td_EnactmentRefs :: "EnactmentRef list"
  td_MandatoryAuditFactRef :: AuditFactRef

definition zeroTaskProjection :: TaskProjection where
  "zeroTaskProjection =
     \<lparr>tp_TaskID = [], tp_TaskRevision = 0, tp_ActivityGeneration = 0, tp_Status = TaskStatusUnset,
      tp_Route = 0, tp_Activity = ActivityNone, tp_ExecutionLockID = [], tp_TemplateLockID = [],
      tp_CurrentPhase = [], tp_ActivePhaseRunID = [], tp_LatestArtifactVersionID = [],
      tp_TaskWorkspaceID = [], tp_LatestRevisionID = [], tp_LatestCheckpointID = [],
      tp_LifecycleGeneration = 0, tp_LifecycleFence = 0,
      tp_CancellationState = CancellationNotRequested, tp_SafetyEpoch = 0, tp_OperationalMode = 0\<rparr>"

text \<open>The zero decision of a record no decision was made on: only its projection is read.\<close>

definition zeroAuditFact :: AuditFactRef where
  "zeroAuditFact =
     \<lparr>af_SchemaVersion = 0, af_AuditFactID = [], af_CanonicalDigest = zero_digest,
      af_IntegrityVersion = 0, af_OwningModule = 0, af_DecisionID = [], af_TaskID = [],
      af_IdempotencyDecisionRequestID = [], af_Action = None, af_Result = 0,
      af_AuthorityKind = AuthorityNone, af_AuthorityID = [], af_AuthorizationGeneration = 0,
      af_AuthorityReason = 0, af_ReasonCode = AuditReasonNone, af_BeforeTaskRevision = 0,
      af_AfterTaskRevision = 0, af_BeforeStatus = TaskStatusUnset, af_AfterStatus = TaskStatusUnset,
      af_BeforeActivityGeneration = 0, af_AfterActivityGeneration = 0, af_RecoveryGeneration = 0,
      af_BeforeSafetyEpoch = 0, af_AfterSafetyEpoch = 0, af_EvidenceRefs = [], af_EnactmentRefs = [],
      af_RetryPhaseRunID = [], af_RetryRuntimeRunID = [], af_ReconciliationOperationID = [],
      af_ReconciliationFence = 0, af_OccurredAt = 0, af_RecordedAt = 0, af_SourceClock = 0\<rparr>"

definition zeroDecision :: TransitionDecision where
  "zeroDecision =
     \<lparr>td_DecisionID = [], td_DecisionRequestID = [], td_CanonicalRequestDigest = zero_digest,
      td_PreviousTaskRevision = 0, td_AcceptedTaskRevision = 0, td_TaskProjection = zeroTaskProjection,
      td_AffectedPhaseRuns = [], td_AcceptedEvidenceRefs = [], td_CommittedAt = 0,
      td_EnactmentRefs = [], td_MandatoryAuditFactRef = zeroAuditFact\<rparr>"

section \<open>Allocated identifiers are valid\<close>

lemma decimal_characters: "list_all idCharacter (decimal n)"
proof (induction n rule: decimal.induct)
  case (1 n)
  have digit: "idCharacter (char_of (48 + k))" if "k < 10" for k :: nat
    using that by (simp add: idCharacter_def of_char_of Let_def)
  show ?case
    using 1 digit [of n] digit [of "n mod 10"] by (subst decimal.simps) auto
qed

lemma length_decimal: "n < 10 ^ k \<Longrightarrow> 0 < k \<Longrightarrow> length (decimal n) \<le> k"
proof (induction n arbitrary: k rule: decimal.induct)
  case (1 n)
  show ?case
  proof (cases "n < 10")
    case True
    with 1(3) show ?thesis by (subst decimal.simps) simp
  next
    case False
    obtain k' where k': "k = Suc k'" using 1(3) gr0_conv_Suc by auto
    moreover have "0 < k'" using 1(2) False k' by (cases k') auto
    ultimately have k: "k = Suc k'" "0 < k'" by simp_all
    with 1(2) have "n div 10 < 10 ^ k'" by (simp add: less_mult_imp_div_less mult.commute)
    with 1(1) [OF False _ k(2)] False k show ?thesis by (subst decimal.simps) simp
  qed
qed

lemma sequenceID_valid:
  assumes "list_all idCharacter p" and "p \<noteq> []" and "length p \<le> 76"
  shows "validOpaqueID (sequenceID p n)"
proof -
  have "unat n < 2 ^ 64" using unsigned_less [of n] by simp
  then have "unat n < 10 ^ 20" by (rule less_trans) simp
  then have "length (decimal (unat n)) \<le> 20" by (rule length_decimal) simp
  moreover have "idCharacter CHR ''0''" by (simp add: idCharacter_def)
  ultimately show ?thesis
    using assms decimal_characters [of "unat n"]
    by (auto simp: validOpaqueID_def sequenceID_def padded_def list_all_iff)
qed

end
