(* ===== verification/Orch_Pipeline.thy ===== *)
theory Orch_Pipeline
  imports Orch_Types
begin

text \<open>
  Pipeline contracts (\<open>backend/internal/taskorchestration/pipeline.go\<close>, the catalog binding of
  \<open>downstream_locks.go\<close>): phase and route definitions, the check that the phases of a route form
  one path, the pinned start of a task with its locks and authorities, and what is valid.

  The check walks the phases along their \<open>NextPhase\<close>; it ends because it never visits a phase
  twice. The lemmas show that an accepted list of phases is exactly one path from the entry.
\<close>

section \<open>Definitions\<close>

record PhaseDefinition =
  ph_Key :: ident
  ph_Kind :: enum8
  ph_ValidationContract :: enum8
  ph_RequiredRuntimeRuns :: u32
  ph_RetryEligible :: bool
  ph_GateID :: ident
  ph_NextPhase :: ident

record RouteDefinition =
  rd_Route :: enum8
  rd_EntryPhase :: ident
  rd_Phases :: "PhaseDefinition list"

record PipelineContract =
  pc_SchemaVersion :: u16
  pc_PipelineVersionID :: ident
  pc_Routes :: "RouteDefinition list"
  pc_ManualEditEntryPhase :: ident
  pc_ManualEditPhases :: "PhaseDefinition list"

record ExecutionLock =
  el_ID :: ident
  el_PipelineVersionID :: ident
  el_RuntimeReleaseID :: ident
  el_CompatibilityApprovalID :: ident
  el_PipelineContract :: PipelineContract

record ResourceBundleContract =
  rb_ResourceBundleID :: ident
  rb_ManifestDigest :: digest
  rb_PackageDigest :: digest

record PinnedCatalogBinding =
  pk_TemplateVersionID :: ident
  pk_TemplateManifestDigest :: digest
  pk_TemplatePackageDigest :: digest
  pk_TemplateLockDigest :: digest
  pk_ClosureRootDigest :: digest
  pk_SafetyEpoch :: u64
  pk_BundleClosure :: "ResourceBundleContract list"

record DownstreamAuthorityBindings =
  da_Runtime :: authorityValue
  da_Validator :: authorityValue
  da_TaskWorkspaceLifecycle :: authorityValue
  da_Publication :: authorityValue
  da_Scheduler :: authorityValue

record PinnedTaskStart =
  pn_Route :: enum8
  pn_TaskWorkspaceID :: ident
  pn_ExecutionLock :: ExecutionLock
  pn_TemplateLockID :: ident
  pn_CatalogBinding :: "PinnedCatalogBinding option"
  pn_Authorities :: DownstreamAuthorityBindings

abbreviation (input) PipelineContractV1 :: u16 where "PipelineContractV1 \<equiv> 1"

section \<open>Phase graphs\<close>

definition validPhaseDefinition :: "PhaseDefinition \<Rightarrow> bool" where
  "validPhaseDefinition p =
     (if \<not> validOpaqueID (ph_Key p) \<or> ph_Kind p < PhaseNonMutating \<or> ph_Kind p > PhasePublication
      then False
      else if ph_Kind p = PhaseConfirmationGate
      then ph_RequiredRuntimeRuns p = 0 \<and> validOpaqueID (ph_GateID p) \<and>
           ph_ValidationContract p = PhaseValidationNone
      else if ph_GateID p \<noteq> [] then False
      else if ph_Kind p = PhasePublication
      then ph_RequiredRuntimeRuns p = 0 \<and> ph_ValidationContract p = PhaseValidationNone
      else ph_ValidationContract p = PhaseValidationAllRuntimeRunsSucceeded)"

text \<open>The map of the definitions by key; \<open>None\<close> when one is invalid or a key appears twice.\<close>

fun phase_map ::
  "PhaseDefinition list \<Rightarrow> (ident \<times> PhaseDefinition) list \<Rightarrow> (ident \<times> PhaseDefinition) list option" where
  "phase_map [] definitions = Some definitions"
| "phase_map (p # ps) definitions =
     (if \<not> validPhaseDefinition p \<or> map_of definitions (ph_Key p) \<noteq> None then None
      else phase_map ps (AList.update (ph_Key p) p definitions))"

text \<open>The walk; the visited keys are listed last first.\<close>

function phase_walk ::
  "(ident \<times> PhaseDefinition) list \<Rightarrow> ident list \<Rightarrow> ident \<Rightarrow> ident list option" where
  "phase_walk definitions visited current =
     (if current = [] then Some visited
      else if current \<in> set visited then None
      else case map_of definitions current of
        None \<Rightarrow> None
      | Some p \<Rightarrow> phase_walk definitions (current # visited) (ph_NextPhase p))"
  by pat_completeness auto
termination
proof (relation "measure (\<lambda>(definitions, visited, _). card (fst ` set definitions - set visited))")
  fix definitions :: "(ident \<times> PhaseDefinition) list" and visited current p
  assume "current \<notin> set visited" and "map_of definitions current = Some p"
  then have "current \<in> fst ` set definitions - set visited"
    by (auto dest!: map_of_SomeD intro: rev_image_eqI)
  then have "fst ` set definitions - set (current # visited) \<subset> fst ` set definitions - set visited"
    by auto
  then have "card (fst ` set definitions - set (current # visited))
      < card (fst ` set definitions - set visited)"
    by (rule psubset_card_mono [rotated]) simp
  then show "((definitions, current # visited, ph_NextPhase p), (definitions, visited, current))
      \<in> measure (\<lambda>(definitions, visited, _). card (fst ` set definitions - set visited))"
    by simp
qed simp

declare phase_walk.simps [simp del]

definition validPhaseGraph :: "ident \<Rightarrow> PhaseDefinition list \<Rightarrow> bool" where
  "validPhaseGraph entry phases =
     (if \<not> validOpaqueID entry \<or> phases = [] then False
      else case phase_map phases [] of
        None \<Rightarrow> False
      | Some definitions \<Rightarrow>
          (case phase_walk definitions [] entry of
             None \<Rightarrow> False
           | Some visited \<Rightarrow> length visited = length definitions))"

definition contract_route :: "PipelineContract \<Rightarrow> enum8 \<Rightarrow> RouteDefinition option" where
  "contract_route c route =
     find_elem (\<lambda>d. rd_Route d = route \<and> validPhaseGraph (rd_EntryPhase d) (rd_Phases d)) (pc_Routes c)"

definition contract_manualEdit :: "PipelineContract \<Rightarrow> (ident \<times> PhaseDefinition list) option" where
  "contract_manualEdit c =
     (if \<not> validPhaseGraph (pc_ManualEditEntryPhase c) (pc_ManualEditPhases c) then None
      else Some (pc_ManualEditEntryPhase c, pc_ManualEditPhases c))"

definition phaseDefinitionByKey :: "PhaseDefinition list \<Rightarrow> ident \<Rightarrow> PhaseDefinition option" where
  "phaseDefinitionByKey phases key = find_elem (\<lambda>p. ph_Key p = key) phases"

section \<open>Canonical values\<close>

definition phase_canonical :: "PhaseDefinition \<Rightarrow> json" where
  "phase_canonical p =
     jobj [(''gate_id'', JStr (ph_GateID p)), (''key'', JStr (ph_Key p)), (''kind'', jword (ph_Kind p)),
           (''next_phase'', JStr (ph_NextPhase p)),
           (''required_runtime_runs'', jword (ph_RequiredRuntimeRuns p)),
           (''retry_eligible'', JBool (ph_RetryEligible p)),
           (''validation_contract'', JStr (phaseValidationContractName (ph_ValidationContract p)))]"

definition route_canonical :: "RouteDefinition \<Rightarrow> json" where
  "route_canonical d =
     jobj [(''entry_phase'', JStr (rd_EntryPhase d)),
           (''phases'', JList (map phase_canonical (rd_Phases d))),
           (''route'', JStr (route_String (rd_Route d)))]"

definition contract_canonical :: "PipelineContract \<Rightarrow> json" where
  "contract_canonical c =
     jobj [(''manual_edit_entry_phase'', JStr (pc_ManualEditEntryPhase c)),
           (''manual_edit_phases'', JList (map phase_canonical (pc_ManualEditPhases c))),
           (''pipeline_version_id'', JStr (pc_PipelineVersionID c)),
           (''routes'', JList (map route_canonical (pc_Routes c))),
           (''schema_version'', jword (pc_SchemaVersion c))]"

definition authorities_canonical :: "DownstreamAuthorityBindings \<Rightarrow> json" where
  "authorities_canonical b =
     jobj [(''publication'', authority_canonical (da_Publication b)),
           (''runtime'', authority_canonical (da_Runtime b)),
           (''scheduler'', authority_canonical (da_Scheduler b)),
           (''task_workspace_lifecycle'', authority_canonical (da_TaskWorkspaceLifecycle b)),
           (''validator'', authority_canonical (da_Validator b))]"

text \<open>The bundles of a closure in the order of their identifiers and digests.\<close>

definition bundle_key :: "ResourceBundleContract \<Rightarrow> string" where
  "bundle_key b =
     rb_ResourceBundleID b @ [CHR 0x00] @ hex_encode (rb_ManifestDigest b) @ [CHR 0x00] @
     hex_encode (rb_PackageDigest b)"

definition canonicalBundleClosure :: "ResourceBundleContract list \<Rightarrow> json" where
  "canonicalBundleClosure closure =
     JList (map (\<lambda>b.
         jobj [(''manifest_digest'', JStr (hex_encode (rb_ManifestDigest b))),
               (''package_digest'', JStr (hex_encode (rb_PackageDigest b))),
               (''resource_bundle_id'', JStr (rb_ResourceBundleID b))])
       (sort_key bundle_key closure))"

definition catalogClosureRootDigest ::
  "hashing \<Rightarrow> ident \<Rightarrow> digest \<Rightarrow> digest \<Rightarrow> ResourceBundleContract list \<Rightarrow> digest" where
  "catalogClosureRootDigest h version manifest package closure =
     hs_value h []
       (jobj [(''resource_bundles'', canonicalBundleClosure closure),
              (''template_manifest_digest'', JStr (hex_encode manifest)),
              (''template_package_digest'', JStr (hex_encode package)),
              (''template_version_id'', JStr version)])"

definition catalog_canonical :: "PinnedCatalogBinding option \<Rightarrow> json" where
  "catalog_canonical binding =
     (case binding of None \<Rightarrow> JNull
      | Some b \<Rightarrow>
          jobj [(''bundle_closure'', canonicalBundleClosure (pk_BundleClosure b)),
                (''closure_root_digest'', JStr (hex_encode (pk_ClosureRootDigest b))),
                (''safety_epoch'', jword (pk_SafetyEpoch b)),
                (''template_lock_digest'', JStr (hex_encode (pk_TemplateLockDigest b))),
                (''template_manifest_digest'', JStr (hex_encode (pk_TemplateManifestDigest b))),
                (''template_package_digest'', JStr (hex_encode (pk_TemplatePackageDigest b))),
                (''template_version_id'', JStr (pk_TemplateVersionID b))])"

section \<open>Validity of a pinned start\<close>

fun bundlesValid :: "ResourceBundleContract list \<Rightarrow> ident list \<Rightarrow> bool" where
  "bundlesValid [] seen = True"
| "bundlesValid (b # bs) seen =
     (if \<not> validOpaqueID (rb_ResourceBundleID b) \<or> rb_ManifestDigest b = zero_digest \<or>
         rb_PackageDigest b = zero_digest then False
      else if rb_ResourceBundleID b \<in> set seen then False
      else bundlesValid bs (rb_ResourceBundleID b # seen))"

definition validBundleClosure :: "ResourceBundleContract list \<Rightarrow> bool" where
  "validBundleClosure closure = bundlesValid closure []"

definition validPinnedCatalogBinding :: "hashing \<Rightarrow> PinnedCatalogBinding option \<Rightarrow> bool" where
  "validPinnedCatalogBinding h binding =
     (case binding of None \<Rightarrow> False
      | Some b \<Rightarrow>
          validOpaqueID (pk_TemplateVersionID b) \<and> pk_TemplateManifestDigest b \<noteq> zero_digest \<and>
          pk_TemplatePackageDigest b \<noteq> zero_digest \<and> pk_TemplateLockDigest b \<noteq> zero_digest \<and>
          pk_ClosureRootDigest b \<noteq> zero_digest \<and> pk_SafetyEpoch b > 0 \<and>
          pk_BundleClosure b \<noteq> [] \<and> validBundleClosure (pk_BundleClosure b) \<and>
          pk_ClosureRootDigest b =
            catalogClosureRootDigest h (pk_TemplateVersionID b) (pk_TemplateManifestDigest b)
              (pk_TemplatePackageDigest b) (pk_BundleClosure b))"

definition authorities_valid :: "DownstreamAuthorityBindings \<Rightarrow> bool" where
  "authorities_valid b =
     (authority_valid (da_Runtime b) \<and> av_kind (da_Runtime b) = AuthorityRuntime \<and>
      authority_valid (da_Validator b) \<and> av_kind (da_Validator b) = AuthorityValidator \<and>
      authority_valid (da_TaskWorkspaceLifecycle b) \<and>
      av_kind (da_TaskWorkspaceLifecycle b) = AuthorityTaskWorkspaceLifecycle \<and>
      authority_valid (da_Publication b) \<and> av_kind (da_Publication b) = AuthorityPublication \<and>
      authority_valid (da_Scheduler b) \<and> av_kind (da_Scheduler b) = AuthorityScheduler)"

definition pinned_valid :: "hashing \<Rightarrow> PinnedTaskStart \<Rightarrow> bool" where
  "pinned_valid h p =
     (let lock = pn_ExecutionLock p; contract = el_PipelineContract lock in
      if route_String (pn_Route p) = [] \<or> \<not> validOpaqueID (pn_TaskWorkspaceID p) \<or>
         \<not> authorities_valid (pn_Authorities p) \<or> \<not> validOpaqueID (el_ID lock) \<or>
         \<not> validOpaqueID (el_PipelineVersionID lock) \<or> \<not> validOpaqueID (el_RuntimeReleaseID lock) \<or>
         \<not> validOpaqueID (el_CompatibilityApprovalID lock) \<or>
         el_PipelineVersionID lock \<noteq> pc_PipelineVersionID contract \<or>
         pc_SchemaVersion contract \<noteq> PipelineContractV1 then False
      else if pn_Route p = RouteGeneration \<and>
        (\<not> validOpaqueID (pn_TemplateLockID p) \<or> \<not> validPinnedCatalogBinding h (pn_CatalogBinding p))
      then False
      else if pn_Route p \<noteq> RouteGeneration \<and> (pn_TemplateLockID p \<noteq> [] \<or> pn_CatalogBinding p \<noteq> None)
      then False
      else if contract_route contract (pn_Route p) = None then False
      else if pc_ManualEditEntryPhase contract \<noteq> [] \<or> length (pc_ManualEditPhases contract) > 0
      then validPhaseGraph (pc_ManualEditEntryPhase contract) (pc_ManualEditPhases contract)
      else True)"

section \<open>An accepted phase graph is one path\<close>

text \<open>\<open>path_from key ps\<close>: the phases \<open>ps\<close>, in this order, are linked from \<open>key\<close> to the end.\<close>

fun path_from :: "ident \<Rightarrow> PhaseDefinition list \<Rightarrow> bool" where
  "path_from key [] = (key = [])"
| "path_from key (p # ps) = (key \<noteq> [] \<and> ph_Key p = key \<and> path_from (ph_NextPhase p) ps)"

lemma phase_map_Some:
  assumes "phase_map phases definitions = Some result"
    and "distinct (map fst definitions)" and "\<forall>(k, p) \<in> set definitions. ph_Key p = k"
  shows "distinct (map ph_Key phases) \<and> distinct (map fst result) \<and>
         (\<forall>(k, p) \<in> set result. ph_Key p = k) \<and> set (map snd result) = set (map snd definitions) \<union> set phases
         \<and> length result = length definitions + length phases \<and>
         ph_Key ` set phases \<inter> fst ` set definitions = {}"
  using assms
proof (induction phases arbitrary: definitions)
  case Nil
  then show ?case by simp
next
  case (Cons p ps)
  from Cons.prems(1) have fresh: "map_of definitions (ph_Key p) = None"
    and rest: "phase_map ps (AList.update (ph_Key p) p definitions) = Some result"
    by (auto split: if_splits)
  have notin: "ph_Key p \<notin> fst ` set definitions" using fresh by (simp add: map_of_eq_None_iff)
  have upd: "AList.update (ph_Key p) p definitions = definitions @ [(ph_Key p, p)]"
    using notin by (induction definitions) auto
  have "distinct (map ph_Key ps) \<and> distinct (map fst result) \<and>
         (\<forall>(k, p) \<in> set result. ph_Key p = k) \<and>
         set (map snd result) = set (map snd (definitions @ [(ph_Key p, p)])) \<union> set ps \<and>
         length result = length (definitions @ [(ph_Key p, p)]) + length ps \<and>
         ph_Key ` set ps \<inter> fst ` set (definitions @ [(ph_Key p, p)]) = {}"
    by (rule Cons.IH) (use rest notin Cons.prems(2,3) in \<open>auto simp: upd\<close>)
  with notin show ?case by auto
qed

lemma phase_walk_path:
  assumes "phase_walk definitions visited current = Some result"
    and "\<forall>(k, p) \<in> set definitions. ph_Key p = k"
  shows "\<exists>ps. result = rev (map ph_Key ps) @ visited \<and> path_from current ps \<and>
           set ps \<subseteq> snd ` set definitions \<and> (distinct visited \<longrightarrow> distinct result)"
  using assms
proof (induction definitions visited current arbitrary: result rule: phase_walk.induct)
  case (1 definitions visited current)
  show ?case
  proof (cases "current = []")
    case True
    with 1(2) show ?thesis by (auto simp: phase_walk.simps intro!: exI [of _ "[]"])
  next
    case False
    with 1(2) obtain p where new: "current \<notin> set visited" and p: "map_of definitions current = Some p"
      and rest: "phase_walk definitions (current # visited) (ph_NextPhase p) = Some result"
      by (subst (asm) (2) phase_walk.simps) (auto split: if_splits option.splits)
    from 1(1) [OF False new p rest 1(3)] obtain ps where
      ps: "result = rev (map ph_Key ps) @ current # visited" "path_from (ph_NextPhase p) ps"
        "set ps \<subseteq> snd ` set definitions" "distinct (current # visited) \<longrightarrow> distinct result"
      by auto
    have "(current, p) \<in> set definitions" using p by (rule map_of_SomeD)
    with 1(3) have "ph_Key p = current" "p \<in> snd ` set definitions"
      by (auto intro: rev_image_eqI)
    with ps False new show ?thesis by (intro exI [of _ "p # ps"]) auto
  qed
qed

lemma valid_graph_path:
  assumes "validPhaseGraph entry phases"
  obtains ps where "distinct ps" and "set ps = set phases" and "path_from entry ps"
    and "distinct (map ph_Key phases)" and "\<forall>p \<in> set phases. validPhaseDefinition p" and "ps \<noteq> []"
proof -
  from assms obtain definitions visited where entry: "validOpaqueID entry"
    and defs: "phase_map phases [] = Some definitions"
    and walk: "phase_walk definitions [] entry = Some visited"
    and len: "length visited = length definitions"
    by (auto simp: validPhaseGraph_def split: if_splits option.splits)
  from phase_map_Some [OF defs] have keys: "distinct (map ph_Key phases)"
    and fst: "distinct (map fst definitions)" and typed: "\<forall>(k, p) \<in> set definitions. ph_Key p = k"
    and snd: "snd ` set definitions = set phases" and n: "length definitions = length phases"
    by auto
  from phase_walk_path [OF walk typed] obtain ps where ps: "visited = rev (map ph_Key ps)"
    "path_from entry ps" "set ps \<subseteq> set phases" "distinct visited"
    using snd by auto
  then have "distinct ps" by (simp add: distinct_map)
  have "length ps = length phases" using ps(1) len n by simp
  then have "card (set ps) = card (set phases)"
    using \<open>distinct ps\<close> keys by (simp add: distinct_card distinct_map)
  then have "set ps = set phases" using ps(3) by (metis List.finite_set card_subset_eq)
  moreover have "\<forall>p \<in> set phases. validPhaseDefinition p"
  proof -
    have "phase_map ps d = Some r \<Longrightarrow> p \<in> set ps \<Longrightarrow> validPhaseDefinition p" for ps d r p
      by (induction ps arbitrary: d) (auto split: if_splits)
    with defs show ?thesis by blast
  qed
  moreover have "ps \<noteq> []" using ps(2) entry by auto
  ultimately show ?thesis using that \<open>distinct ps\<close> ps(2) keys by blast
qed

lemma phase_map_succeeds:
  assumes "\<forall>p \<in> set phases. validPhaseDefinition p" and "distinct (map ph_Key phases)"
    and "ph_Key ` set phases \<inter> fst ` set definitions = {}"
  shows "phase_map phases definitions = Some (definitions @ map (\<lambda>p. (ph_Key p, p)) phases)"
  using assms
proof (induction phases arbitrary: definitions)
  case Nil
  then show ?case by simp
next
  case (Cons p ps)
  have notin: "ph_Key p \<notin> fst ` set definitions" using Cons.prems(3) by auto
  then have upd: "AList.update (ph_Key p) p definitions = definitions @ [(ph_Key p, p)]"
    by (induction definitions) auto
  have "phase_map ps (definitions @ [(ph_Key p, p)]) =
      Some ((definitions @ [(ph_Key p, p)]) @ map (\<lambda>p. (ph_Key p, p)) ps)"
    by (rule Cons.IH) (use Cons.prems in auto)
  with notin Cons.prems(1) show ?case by (simp add: upd map_of_eq_None_iff)
qed

lemma phase_walk_follows:
  assumes "path_from current ps" and "distinct (map ph_Key ps)"
    and "ph_Key ` set ps \<inter> set visited = {}" and "\<forall>p \<in> set ps. map_of definitions (ph_Key p) = Some p"
  shows "phase_walk definitions visited current = Some (rev (map ph_Key ps) @ visited)"
  using assms
proof (induction ps arbitrary: current visited)
  case Nil
  then show ?case by (simp add: phase_walk.simps)
next
  case (Cons p ps)
  then have current: "current = ph_Key p" "current \<noteq> []" "current \<notin> set visited" by auto
  have "phase_walk definitions (current # visited) (ph_NextPhase p) =
      Some (rev (map ph_Key ps) @ current # visited)"
    by (rule Cons.IH) (use Cons.prems current in auto)
  then show ?case using Cons.prems(4) current by (subst phase_walk.simps) simp
qed

text \<open>
  A phase graph is accepted exactly when every phase definition is valid, no key appears
  twice, and the phases, in some order, form one path that starts at the entry and whose last
  phase has no successor. So a walk along the phases of an accepted route visits every phase
  once and ends.
\<close>

theorem phase_graph_is_one_path:
  "validPhaseGraph entry phases \<longleftrightarrow>
     list_all validPhaseDefinition phases \<and> distinct (map ph_Key phases) \<and> phases \<noteq> [] \<and>
     (\<exists>ps. distinct ps \<and> set ps = set phases \<and> path_from entry ps)"
    (is "_ \<longleftrightarrow> ?valid \<and> ?distinct \<and> _ \<and> (\<exists>ps. ?path ps)")
proof
  assume valid: "validPhaseGraph entry phases"
  obtain ps where "?path ps" "?distinct" "\<forall>p \<in> set phases. validPhaseDefinition p"
    by (rule valid_graph_path [OF valid]) blast
  moreover from valid have "phases \<noteq> []" by (auto simp: validPhaseGraph_def split: if_splits)
  ultimately show "?valid \<and> ?distinct \<and> phases \<noteq> [] \<and> (\<exists>ps. ?path ps)"
    by (auto simp: list_all_iff)
next
  assume "?valid \<and> ?distinct \<and> phases \<noteq> [] \<and> (\<exists>ps. ?path ps)"
  then obtain ps where valid: "\<forall>p \<in> set phases. validPhaseDefinition p" and keys: "?distinct"
    and ne: "phases \<noteq> []" and ps: "distinct ps" "set ps = set phases" "path_from entry ps"
    by (auto simp: list_all_iff)
  let ?defs = "map (\<lambda>p. (ph_Key p, p)) phases"
  have defs: "phase_map phases [] = Some ?defs" using phase_map_succeeds [OF valid keys] by simp
  have inj: "inj_on ph_Key (set phases)" using keys by (simp add: distinct_map)
  have lookup: "\<forall>p \<in> set ps. map_of ?defs (ph_Key p) = Some p"
    using keys ps(2) by (auto simp: comp_def intro!: map_of_is_SomeI)
  have psKeys: "distinct (map ph_Key ps)" using ps(1,2) inj by (simp add: distinct_map)
  have walk: "phase_walk ?defs [] entry = Some (rev (map ph_Key ps))"
    using phase_walk_follows [OF ps(3) psKeys _ lookup, of "[]"] by simp
  have "card (set ps) = card (set phases)" by (simp only: ps(2))
  then have len: "length ps = length phases"
    using ps(1) keys by (simp add: distinct_card distinct_map)
  obtain p ps' where "ps = p # ps'" using ps(2) ne by (cases ps) auto
  then have "entry = ph_Key p" "p \<in> set phases" using ps(2,3) by auto
  then have "validOpaqueID entry" using valid by (auto simp: validPhaseDefinition_def split: if_splits)
  with defs walk ne len show "validPhaseGraph entry phases" by (simp add: validPhaseGraph_def)
qed

section \<open>Facts the engine uses\<close>

lemma contract_route_Some:
  "contract_route c route = Some d \<Longrightarrow>
     rd_Route d = route \<and> validPhaseGraph (rd_EntryPhase d) (rd_Phases d) \<and> d \<in> set (pc_Routes c)"
  by (auto simp: contract_route_def dest: find_elem_Some)

lemma contract_manualEdit_Some:
  "contract_manualEdit c = Some (entry, phases) \<Longrightarrow>
     entry = pc_ManualEditEntryPhase c \<and> phases = pc_ManualEditPhases c \<and> validPhaseGraph entry phases"
  by (auto simp: contract_manualEdit_def split: if_splits)

lemma phaseDefinitionByKey_Some:
  "phaseDefinitionByKey phases key = Some p \<Longrightarrow> p \<in> set phases \<and> ph_Key p = key"
  by (auto simp: phaseDefinitionByKey_def dest: find_elem_Some)

end
