(* ===== verification/Orch_Intents.thy ===== *)
theory Orch_Intents
  imports Orch_Pipeline
begin

text \<open>
  Transition intents (\<open>backend/internal/taskorchestration/intents.go\<close>, \<open>canonical.go\<close>, the
  request bindings of \<open>downstream_taskworkspace.go\<close> and
  \<open>downstream_taskworkspace_reconstruction.go\<close>): the closed set of payloads, when each is
  valid, the canonical value an intent is identified by, and the two digests of an intent:
  that of the request and, for evidence, that of the observation it reports.

  The interface \<open>TransitionIntent\<close> is closed: every intent is made by one of the constructors,
  each of which fixes the kind by the payload it takes. So the kind is \<open>payload_kind\<close> of the
  payload, and a failed type assertion on the payload of a kind has no counterpart. The trace,
  transport and diagnostic metadata of a header are in no canonical value and are left out.
\<close>

section \<open>Payloads\<close>

record IntentHeader =
  ih_SchemaVersion :: u32
  ih_DecisionRequestID :: ident
  ih_CanonicalRequestDigest :: digest
  ih_TaskID :: ident
  ih_ExpectedTaskRevision :: u64
  ih_ActivityGeneration :: u64
  ih_OccurredAt :: int

abbreviation (input) SchemaV1 :: u32 where "SchemaV1 \<equiv> 0x10000"

definition schema_Major :: "u32 \<Rightarrow> u16" where
  "schema_Major version = ucast (drop_bit 16 version)"

definition schema_Minor :: "u32 \<Rightarrow> u16" where
  "schema_Minor version = ucast version"

text \<open>The commit and the fence request binding have the same fields, validity and canonical form.\<close>

record lifecycleRequestBinding =
  lb_operationID :: ident
  lb_payloadDigest :: digest
  lb_taskID :: ident
  lb_phaseRunID :: ident
  lb_taskWorkspaceID :: ident
  lb_expectedRevision :: ident
  lb_generation :: u64
  lb_fence :: u64

definition zeroLifecycleRequest :: lifecycleRequestBinding where
  "zeroLifecycleRequest =
     \<lparr>lb_operationID = [], lb_payloadDigest = zero_digest, lb_taskID = [], lb_phaseRunID = [],
      lb_taskWorkspaceID = [], lb_expectedRevision = [], lb_generation = 0, lb_fence = 0\<rparr>"

definition lifecycleRequest_valid :: "lifecycleRequestBinding \<Rightarrow> bool" where
  "lifecycleRequest_valid b =
     (validOpaqueID (lb_operationID b) \<and> lb_payloadDigest b \<noteq> zero_digest \<and>
      validOpaqueID (lb_taskID b) \<and> validOpaqueID (lb_phaseRunID b) \<and>
      validOpaqueID (lb_taskWorkspaceID b) \<and> validOpaqueID (lb_expectedRevision b) \<and>
      lb_generation b > 0 \<and> lb_fence b > 0)"

definition lifecycleRequest_canonical :: "lifecycleRequestBinding \<Rightarrow> json" where
  "lifecycleRequest_canonical b =
     (if \<not> lifecycleRequest_valid b then jobj []
      else jobj [(''fence'', jword (lb_fence b)), (''generation'', jword (lb_generation b)),
                 (''operation_id'', JStr (lb_operationID b)),
                 (''payload_digest'', JStr (hex_encode (lb_payloadDigest b)))])"

record reconstructionRequestBinding =
  rr_operationID :: ident
  rr_payloadDigest :: digest
  rr_taskID :: ident
  rr_taskWorkspaceID :: ident
  rr_artifactVersionID :: ident
  rr_expectedRevision :: ident
  rr_expectedCheckpoint :: ident
  rr_generation :: u64
  rr_fence :: u64

definition zeroReconstructionRequest :: reconstructionRequestBinding where
  "zeroReconstructionRequest =
     \<lparr>rr_operationID = [], rr_payloadDigest = zero_digest, rr_taskID = [], rr_taskWorkspaceID = [],
      rr_artifactVersionID = [], rr_expectedRevision = [], rr_expectedCheckpoint = [],
      rr_generation = 0, rr_fence = 0\<rparr>"

definition reconstructionRequest_valid :: "reconstructionRequestBinding \<Rightarrow> bool" where
  "reconstructionRequest_valid b =
     (validOpaqueID (rr_operationID b) \<and> rr_payloadDigest b \<noteq> zero_digest \<and>
      validOpaqueID (rr_taskID b) \<and> validOpaqueID (rr_taskWorkspaceID b) \<and>
      validOpaqueID (rr_artifactVersionID b) \<and> validOpaqueID (rr_expectedRevision b) \<and>
      validOpaqueID (rr_expectedCheckpoint b) \<and> rr_generation b > 0 \<and> rr_fence b > 0)"

definition reconstructionRequest_canonical :: "reconstructionRequestBinding \<Rightarrow> json" where
  "reconstructionRequest_canonical b =
     (if \<not> reconstructionRequest_valid b then jobj []
      else jobj [(''fence'', jword (rr_fence b)), (''generation'', jword (rr_generation b)),
                 (''operation_id'', JStr (rr_operationID b)),
                 (''payload_digest'', JStr (hex_encode (rr_payloadDigest b)))])"

record pinnedTaskStartPayload =
  ps_pinned :: PinnedTaskStart
  ps_verifiedTask :: ident
  ps_safetyEpoch :: u64
  ps_executionVerificationDigest :: digest
  ps_templateVerificationDigest :: digest

record manualEditPayload =
  me_artifactVersionID :: ident
  me_reconstructionRequired :: bool
  me_reconstructionRequest :: reconstructionRequestBinding

record RuntimeEvidenceBinding =
  re_Evidence :: EvidenceRef
  re_PhaseRunID :: ident
  re_PhaseRunGeneration :: u64
  re_PhaseRunFence :: u64
  re_RuntimeRunID :: ident
  re_OperationID :: ident
  re_Generation :: u64
  re_Fence :: u64
  re_SafetyEpoch :: u64
  re_Outcome :: enum8

record ValidationEvidenceBinding =
  ve_Evidence :: EvidenceRef
  ve_PhaseRunID :: ident
  ve_PhaseRunGeneration :: u64
  ve_PhaseRunFence :: u64
  ve_Generation :: u64
  ve_Fence :: u64
  ve_SafetyEpoch :: u64
  ve_Outcome :: enum8
  ve_LifecycleCommit :: lifecycleRequestBinding

record LifecycleEvidenceBinding =
  le_Evidence :: EvidenceRef
  le_PhaseRunID :: ident
  le_PhaseRunGeneration :: u64
  le_PhaseRunFence :: u64
  le_OperationID :: ident
  le_Generation :: u64
  le_Fence :: u64
  le_ObservedGeneration :: u64
  le_ObservedFence :: u64
  le_SafetyEpoch :: u64
  le_Outcome :: enum8
  le_RevisionID :: ident
  le_CheckpointID :: ident

record ReconstructionEvidenceBinding =
  ce_Evidence :: EvidenceRef
  ce_OperationID :: ident
  ce_ArtifactVersionID :: ident
  ce_RevisionID :: ident
  ce_CheckpointID :: ident
  ce_Generation :: u64
  ce_Fence :: u64
  ce_ObservedGeneration :: u64
  ce_ObservedFence :: u64
  ce_SafetyEpoch :: u64

record PublicationEvidenceBinding =
  pe_Evidence :: EvidenceRef
  pe_PhaseRunID :: ident
  pe_PhaseRunGeneration :: u64
  pe_PhaseRunFence :: u64
  pe_OperationID :: ident
  pe_Generation :: u64
  pe_Fence :: u64
  pe_SafetyEpoch :: u64
  pe_Outcome :: enum8
  pe_ArtifactVersionID :: ident

record SchedulingEvidenceBinding =
  se_Evidence :: EvidenceRef
  se_PhaseRunID :: ident
  se_PhaseRunGeneration :: u64
  se_PhaseRunFence :: u64
  se_OperationID :: ident
  se_Generation :: u64
  se_Fence :: u64
  se_SafetyEpoch :: u64

record OperationalFenceBinding =
  of_Generation :: u64
  of_Fence :: u64
  of_SafetyEpoch :: u64
  of_Mode :: enum8
  of_LifecycleFence :: lifecycleRequestBinding

datatype intentPayload =
    EmptyPayload
  | PinnedStartPayload pinnedTaskStartPayload
  | OperationPayload ident
  | ConfirmationPayload ident digest
  | PhaseRunPayload ident
  | RuntimeRunRetryPayload ident ident
  | CancelPayload enum8 lifecycleRequestBinding
  | ManualEditPayload manualEditPayload
  | RuntimeEvidencePayload RuntimeEvidenceBinding
  | ValidationEvidencePayload ValidationEvidenceBinding
  | LifecycleEvidencePayload LifecycleEvidenceBinding
  | ReconstructionEvidencePayload ReconstructionEvidenceBinding
  | PublicationEvidencePayload PublicationEvidenceBinding
  | SchedulingEvidencePayload SchedulingEvidenceBinding
  | ReconcilePayload ident u64
  | OperationalFencePayload OperationalFenceBinding

fun payload_kind :: "intentPayload \<Rightarrow> IntentKind" where
  "payload_kind EmptyPayload = IntentStartTask"
| "payload_kind (PinnedStartPayload _) = IntentStartTask"
| "payload_kind (OperationPayload _) = IntentMakeWorkAvailable"
| "payload_kind (ConfirmationPayload _ _) = IntentSubmitConfirmationGate"
| "payload_kind (PhaseRunPayload _) = IntentRetryPhase"
| "payload_kind (RuntimeRunRetryPayload _ _) = IntentRetryRuntimeRun"
| "payload_kind (CancelPayload _ _) = IntentCancelTask"
| "payload_kind (ManualEditPayload _) = IntentBeginManualEdit"
| "payload_kind (RuntimeEvidencePayload _) = IntentAcceptRuntimeEvidence"
| "payload_kind (ValidationEvidencePayload _) = IntentAcceptPhaseValidationEvidence"
| "payload_kind (LifecycleEvidencePayload _) = IntentAcceptTaskWorkspaceLifecycleEvidence"
| "payload_kind (ReconstructionEvidencePayload _) = IntentAcceptTaskWorkspaceReconstructionEvidence"
| "payload_kind (PublicationEvidencePayload _) = IntentAcceptPublicationEvidence"
| "payload_kind (SchedulingEvidencePayload _) = IntentAcceptSchedulingEvidence"
| "payload_kind (ReconcilePayload _ _) = IntentReconcileEnactment"
| "payload_kind (OperationalFencePayload _) = IntentApplyOperationalFence"

record intentValue =
  iv_header :: IntentHeader
  iv_authority :: authorityValue
  iv_payload :: intentPayload

definition iv_kind :: "intentValue \<Rightarrow> IntentKind" where
  "iv_kind i = payload_kind (iv_payload i)"

section \<open>Validity of payloads\<close>

definition validEvidenceBinding :: "EvidenceRef \<Rightarrow> ident \<Rightarrow> ident \<Rightarrow> u64 \<Rightarrow> u64 \<Rightarrow> bool" where
  "validEvidenceBinding e phaseRunID operationID generation fence =
     (validEvidenceRef e \<and> validOpaqueID phaseRunID \<and> validOpaqueID operationID \<and>
      generation > 0 \<and> fence > 0)"

definition pinnedPayload_valid :: "hashing \<Rightarrow> pinnedTaskStartPayload \<Rightarrow> bool" where
  "pinnedPayload_valid h p =
     (if \<not> pinned_valid h (ps_pinned p) \<or> \<not> validOpaqueID (ps_verifiedTask p) \<or> ps_safetyEpoch p = 0 \<or>
         ps_executionVerificationDigest p = zero_digest then False
      else if pn_Route (ps_pinned p) = RouteGeneration
      then ps_templateVerificationDigest p \<noteq> zero_digest
      else ps_templateVerificationDigest p = zero_digest)"

definition lifecycleEvidence_valid :: "LifecycleEvidenceBinding \<Rightarrow> bool" where
  "lifecycleEvidence_valid b =
     (if \<not> validEvidenceBinding (le_Evidence b) (le_PhaseRunID b) (le_OperationID b) (le_Generation b) (le_Fence b) \<or>
         le_PhaseRunGeneration b = 0 \<or> le_PhaseRunFence b = 0 \<or>
         le_ObservedGeneration b < le_Generation b \<or> le_ObservedFence b \<le> le_Fence b \<or>
         le_SafetyEpoch b = 0 then False
      else if le_Outcome b = TaskWorkspaceLifecycleCommitted
      then validOpaqueID (le_RevisionID b) \<and> validOpaqueID (le_CheckpointID b)
      else (le_Outcome b = 0 \<or> le_Outcome b = TaskWorkspaceLifecycleFenced \<or>
            le_Outcome b = TaskWorkspaceLifecycleRejected) \<and>
           le_RevisionID b = [] \<and> le_CheckpointID b = [])"

definition publicationEvidence_valid :: "PublicationEvidenceBinding \<Rightarrow> bool" where
  "publicationEvidence_valid b =
     (if \<not> validEvidenceBinding (pe_Evidence b) (pe_PhaseRunID b) (pe_OperationID b) (pe_Generation b) (pe_Fence b) \<or>
         pe_PhaseRunGeneration b = 0 \<or> pe_PhaseRunFence b = 0 \<or> pe_SafetyEpoch b = 0 then False
      else if pe_Outcome b = 0 then pe_ArtifactVersionID b = []
      else if publicationOutcomeName (pe_Outcome b) = [] then False
      else if pe_Outcome b = PublicationActivated then validOpaqueID (pe_ArtifactVersionID b)
      else pe_ArtifactVersionID b = [])"

definition operationPayload_valid :: "ident \<Rightarrow> bool" where
  "operationPayload_valid operationID = validOpaqueID operationID"

definition confirmationPayload_valid :: "ident \<Rightarrow> digest \<Rightarrow> bool" where
  "confirmationPayload_valid gateID d = (validOpaqueID gateID \<and> d \<noteq> zero_digest)"

definition phaseRunPayload_valid :: "ident \<Rightarrow> bool" where
  "phaseRunPayload_valid phaseRunID = validOpaqueID phaseRunID"

definition runtimeRunRetryPayload_valid :: "ident \<Rightarrow> ident \<Rightarrow> bool" where
  "runtimeRunRetryPayload_valid phaseRunID runtimeRunID =
     (validOpaqueID phaseRunID \<and> validOpaqueID runtimeRunID)"

definition cancelPayload_valid :: "enum8 \<Rightarrow> lifecycleRequestBinding \<Rightarrow> bool" where
  "cancelPayload_valid reason fence =
     (cancelReasonName reason \<noteq> [] \<and> (fence = zeroLifecycleRequest \<or> lifecycleRequest_valid fence))"

definition manualEditPayload_valid :: "manualEditPayload \<Rightarrow> bool" where
  "manualEditPayload_valid m =
     (if \<not> validOpaqueID (me_artifactVersionID m) then False
      else if me_reconstructionRequired m then reconstructionRequest_valid (me_reconstructionRequest m)
      else me_reconstructionRequest m = zeroReconstructionRequest)"

definition runtimeEvidence_valid :: "RuntimeEvidenceBinding \<Rightarrow> bool" where
  "runtimeEvidence_valid b =
     (validEvidenceBinding (re_Evidence b) (re_PhaseRunID b) (re_OperationID b) (re_Generation b) (re_Fence b) \<and>
      validOpaqueID (re_RuntimeRunID b) \<and> re_PhaseRunGeneration b > 0 \<and> re_PhaseRunFence b > 0 \<and>
      re_SafetyEpoch b > 0 \<and> (re_Outcome b = 0 \<or> runtimeRunOutcomeName (re_Outcome b) \<noteq> []))"

definition validationEvidence_valid :: "ValidationEvidenceBinding \<Rightarrow> bool" where
  "validationEvidence_valid b =
     (validEvidenceRef (ve_Evidence b) \<and> validOpaqueID (ve_PhaseRunID b) \<and>
      ve_PhaseRunGeneration b > 0 \<and> ve_PhaseRunFence b > 0 \<and> ve_Generation b > 0 \<and>
      ve_Fence b > 0 \<and> ve_SafetyEpoch b > 0 \<and>
      (ve_LifecycleCommit b = zeroLifecycleRequest \<or> lifecycleRequest_valid (ve_LifecycleCommit b)) \<and>
      (ve_Outcome b = 0 \<or> phaseValidationOutcomeName (ve_Outcome b) \<noteq> []))"

definition reconstructionEvidence_valid :: "ReconstructionEvidenceBinding \<Rightarrow> bool" where
  "reconstructionEvidence_valid b =
     (validEvidenceRef (ce_Evidence b) \<and> validOpaqueID (ce_OperationID b) \<and>
      validOpaqueID (ce_ArtifactVersionID b) \<and> validOpaqueID (ce_RevisionID b) \<and>
      validOpaqueID (ce_CheckpointID b) \<and> ce_Generation b > 0 \<and> ce_Fence b > 0 \<and>
      ce_ObservedGeneration b > ce_Generation b \<and> ce_ObservedFence b > ce_Fence b \<and>
      ce_SafetyEpoch b > 0)"

definition schedulingEvidence_valid :: "SchedulingEvidenceBinding \<Rightarrow> bool" where
  "schedulingEvidence_valid b =
     (validEvidenceBinding (se_Evidence b) (se_PhaseRunID b) (se_OperationID b) (se_Generation b) (se_Fence b) \<and>
      se_PhaseRunGeneration b > 0 \<and> se_PhaseRunFence b > 0 \<and> se_SafetyEpoch b > 0)"

definition reconcilePayload_valid :: "ident \<Rightarrow> u64 \<Rightarrow> bool" where
  "reconcilePayload_valid operationID fence = (validOpaqueID operationID \<and> fence > 0)"

definition operationalFence_valid :: "OperationalFenceBinding \<Rightarrow> bool" where
  "operationalFence_valid b =
     (of_Generation b > 0 \<and> of_Fence b > 0 \<and> of_SafetyEpoch b > 0 \<and>
      (of_LifecycleFence b = zeroLifecycleRequest \<or> lifecycleRequest_valid (of_LifecycleFence b)) \<and>
      operationalModeName (of_Mode b) \<noteq> [])"

text \<open>The method \<open>valid\<close> of the interface \<open>intentPayload\<close>, by the type of the payload.\<close>

fun payload_valid :: "hashing \<Rightarrow> intentPayload \<Rightarrow> bool" where
  "payload_valid h EmptyPayload = True"
| "payload_valid h (PinnedStartPayload p) = pinnedPayload_valid h p"
| "payload_valid h (OperationPayload operationID) = operationPayload_valid operationID"
| "payload_valid h (ConfirmationPayload gateID d) = confirmationPayload_valid gateID d"
| "payload_valid h (PhaseRunPayload phaseRunID) = phaseRunPayload_valid phaseRunID"
| "payload_valid h (RuntimeRunRetryPayload phaseRunID runtimeRunID) =
     runtimeRunRetryPayload_valid phaseRunID runtimeRunID"
| "payload_valid h (CancelPayload reason fence) = cancelPayload_valid reason fence"
| "payload_valid h (ManualEditPayload m) = manualEditPayload_valid m"
| "payload_valid h (RuntimeEvidencePayload b) = runtimeEvidence_valid b"
| "payload_valid h (ValidationEvidencePayload b) = validationEvidence_valid b"
| "payload_valid h (LifecycleEvidencePayload b) = lifecycleEvidence_valid b"
| "payload_valid h (ReconstructionEvidencePayload b) = reconstructionEvidence_valid b"
| "payload_valid h (PublicationEvidencePayload b) = publicationEvidence_valid b"
| "payload_valid h (SchedulingEvidencePayload b) = schedulingEvidence_valid b"
| "payload_valid h (ReconcilePayload operationID fence) = reconcilePayload_valid operationID fence"
| "payload_valid h (OperationalFencePayload b) = operationalFence_valid b"

fun authorityAllowed :: "IntentKind \<Rightarrow> AuthorityKind \<Rightarrow> bool" where
  "authorityAllowed IntentStartTask a = (a = AuthorityUser)"
| "authorityAllowed IntentSubmitConfirmationGate a = (a = AuthorityUser)"
| "authorityAllowed IntentRetryPhase a = (a = AuthorityUser)"
| "authorityAllowed IntentBeginManualEdit a = (a = AuthorityUser)"
| "authorityAllowed IntentCancelTask a = (a = AuthorityUser \<or> a = AuthorityAdministrator)"
| "authorityAllowed IntentMakeWorkAvailable a = (a = AuthorityWorker)"
| "authorityAllowed IntentReconcileEnactment a = (a = AuthorityWorker)"
| "authorityAllowed IntentRetryRuntimeRun a = (a = AuthorityWorker)"
| "authorityAllowed IntentAcceptRuntimeEvidence a = (a = AuthorityRuntime)"
| "authorityAllowed IntentAcceptPhaseValidationEvidence a = (a = AuthorityValidator)"
| "authorityAllowed IntentAcceptTaskWorkspaceLifecycleEvidence a = (a = AuthorityTaskWorkspaceLifecycle)"
| "authorityAllowed IntentAcceptTaskWorkspaceReconstructionEvidence a = (a = AuthorityTaskWorkspaceLifecycle)"
| "authorityAllowed IntentAcceptPublicationEvidence a = (a = AuthorityPublication)"
| "authorityAllowed IntentAcceptSchedulingEvidence a = (a = AuthorityScheduler)"
| "authorityAllowed IntentApplyOperationalFence a = (a = AuthorityRecovery)"

definition validIntentHeader :: "IntentHeader \<Rightarrow> bool" where
  "validIntentHeader header =
     (validOpaqueID (ih_DecisionRequestID header) \<and> validOpaqueID (ih_TaskID header) \<and>
      ih_ActivityGeneration header > 0 \<and> ih_OccurredAt header \<noteq> 0)"

definition validIntent :: "hashing \<Rightarrow> intentValue \<Rightarrow> bool" where
  "validIntent h i =
     (if \<not> validIntentHeader (iv_header i) \<or> intentKindName (iv_kind i) = [] then False
      else if \<not> authority_valid (iv_authority i) \<or> \<not> payload_valid h (iv_payload i) then False
      else authorityAllowed (iv_kind i) (av_kind (iv_authority i)))"

section \<open>Canonical values and digests\<close>

definition evidenceCanonical ::
  "EvidenceRef \<Rightarrow> ident \<Rightarrow> ident \<Rightarrow> u64 \<Rightarrow> u64 \<Rightarrow> (string \<times> json) list \<Rightarrow> json" where
  "evidenceCanonical e phaseRunID operationID generation fence extra =
     jobj ([(''evidence'', evidence_canonical e), (''fence'', jword fence),
            (''generation'', jword generation), (''phase_run_id'', JStr phaseRunID)] @
           (if operationID \<noteq> [] then [(''operation_id'', JStr operationID)] else []) @ extra)"

definition phaseRunScope :: "u64 \<Rightarrow> u64 \<Rightarrow> u64 \<Rightarrow> (string \<times> json) list" where
  "phaseRunScope fence generation epoch =
     [(''phase_run_fence'', jword fence), (''phase_run_generation'', jword generation),
      (''safety_epoch'', jword epoch)]"

definition pinnedPayload_canonical :: "pinnedTaskStartPayload \<Rightarrow> json" where
  "pinnedPayload_canonical p =
     (let pinned = ps_pinned p; lock = pn_ExecutionLock pinned in
      jobj [(''admission'', jobj
              [(''execution_verification_digest'', JStr (hex_encode (ps_executionVerificationDigest p))),
               (''safety_epoch'', jword (ps_safetyEpoch p)), (''task_id'', JStr (ps_verifiedTask p)),
               (''template_verification_digest'', JStr (hex_encode (ps_templateVerificationDigest p)))]),
            (''authorities'', authorities_canonical (pn_Authorities pinned)),
            (''catalog_binding'', catalog_canonical (pn_CatalogBinding pinned)),
            (''execution_lock'', jobj
              [(''compatibility_approval_id'', JStr (el_CompatibilityApprovalID lock)),
               (''id'', JStr (el_ID lock)),
               (''pipeline_contract'', contract_canonical (el_PipelineContract lock)),
               (''pipeline_version_id'', JStr (el_PipelineVersionID lock)),
               (''runtime_release_id'', JStr (el_RuntimeReleaseID lock))]),
            (''route'', JStr (route_String (pn_Route pinned))),
            (''task_workspace_id'', JStr (pn_TaskWorkspaceID pinned)),
            (''template_lock_id'', JStr (pn_TemplateLockID pinned))])"

definition operationPayload_canonical :: "ident \<Rightarrow> json" where
  "operationPayload_canonical operationID = jobj [(''operation_id'', JStr operationID)]"

definition confirmationPayload_canonical :: "ident \<Rightarrow> digest \<Rightarrow> json" where
  "confirmationPayload_canonical gateID d =
     jobj [(''gate_id'', JStr gateID), (''payload_digest'', JStr (hex_encode d))]"

definition phaseRunPayload_canonical :: "ident \<Rightarrow> json" where
  "phaseRunPayload_canonical phaseRunID = jobj [(''phase_run_id'', JStr phaseRunID)]"

definition runtimeRunRetryPayload_canonical :: "ident \<Rightarrow> ident \<Rightarrow> json" where
  "runtimeRunRetryPayload_canonical phaseRunID runtimeRunID =
     jobj [(''phase_run_id'', JStr phaseRunID), (''runtime_run_id'', JStr runtimeRunID)]"

definition cancelPayload_canonical :: "enum8 \<Rightarrow> lifecycleRequestBinding \<Rightarrow> json" where
  "cancelPayload_canonical reason fence =
     jobj ([(''reason'', JStr (cancelReasonName reason))] @
           (if lifecycleRequest_valid fence
            then [(''task_workspace_lifecycle_fence'', lifecycleRequest_canonical fence)] else []))"

definition manualEditPayload_canonical :: "manualEditPayload \<Rightarrow> json" where
  "manualEditPayload_canonical m =
     jobj ([(''artifact_version_id'', JStr (me_artifactVersionID m)),
            (''reconstruction_required'', JBool (me_reconstructionRequired m))] @
           (if reconstructionRequest_valid (me_reconstructionRequest m)
            then [(''reconstruction_request'', reconstructionRequest_canonical (me_reconstructionRequest m))]
            else []))"

definition runtimeEvidence_canonical :: "RuntimeEvidenceBinding \<Rightarrow> json" where
  "runtimeEvidence_canonical b =
     evidenceCanonical (re_Evidence b) (re_PhaseRunID b) (re_OperationID b) (re_Generation b) (re_Fence b)
       ([(''runtime_run_id'', JStr (re_RuntimeRunID b))] @
        (if re_Outcome b \<noteq> 0 then [(''outcome'', JStr (runtimeRunOutcomeName (re_Outcome b)))] else []) @
        phaseRunScope (re_PhaseRunFence b) (re_PhaseRunGeneration b) (re_SafetyEpoch b))"

definition validationEvidence_canonical :: "ValidationEvidenceBinding \<Rightarrow> json" where
  "validationEvidence_canonical b =
     evidenceCanonical (ve_Evidence b) (ve_PhaseRunID b) [] (ve_Generation b) (ve_Fence b)
       ((if ve_Outcome b \<noteq> 0 then [(''outcome'', JStr (phaseValidationOutcomeName (ve_Outcome b)))] else []) @
        phaseRunScope (ve_PhaseRunFence b) (ve_PhaseRunGeneration b) (ve_SafetyEpoch b) @
        (if lifecycleRequest_valid (ve_LifecycleCommit b)
         then [(''task_workspace_lifecycle_commit'', lifecycleRequest_canonical (ve_LifecycleCommit b))]
         else []))"

definition lifecycleEvidence_canonical :: "LifecycleEvidenceBinding \<Rightarrow> json" where
  "lifecycleEvidence_canonical b =
     evidenceCanonical (le_Evidence b) (le_PhaseRunID b) (le_OperationID b) (le_Generation b) (le_Fence b)
       ((if le_Outcome b \<noteq> 0
         then [(''checkpoint_id'', JStr (le_CheckpointID b)),
               (''outcome'', JStr (taskWorkspaceLifecycleOutcomeName (le_Outcome b))),
               (''revision_id'', JStr (le_RevisionID b))] else []) @
        phaseRunScope (le_PhaseRunFence b) (le_PhaseRunGeneration b) (le_SafetyEpoch b) @
        [(''observed_fence'', jword (le_ObservedFence b)),
         (''observed_generation'', jword (le_ObservedGeneration b))])"

definition reconstructionEvidence_canonical :: "ReconstructionEvidenceBinding \<Rightarrow> json" where
  "reconstructionEvidence_canonical b =
     evidenceCanonical (ce_Evidence b) [] (ce_OperationID b) (ce_Generation b) (ce_Fence b)
       [(''artifact_version_id'', JStr (ce_ArtifactVersionID b)),
        (''checkpoint_id'', JStr (ce_CheckpointID b)), (''observed_fence'', jword (ce_ObservedFence b)),
        (''observed_generation'', jword (ce_ObservedGeneration b)),
        (''revision_id'', JStr (ce_RevisionID b)), (''safety_epoch'', jword (ce_SafetyEpoch b))]"

definition publicationEvidence_canonical :: "PublicationEvidenceBinding \<Rightarrow> json" where
  "publicationEvidence_canonical b =
     evidenceCanonical (pe_Evidence b) (pe_PhaseRunID b) (pe_OperationID b) (pe_Generation b) (pe_Fence b)
       ((if pe_Outcome b \<noteq> 0
         then [(''artifact_version_id'', JStr (pe_ArtifactVersionID b)),
               (''outcome'', JStr (publicationOutcomeName (pe_Outcome b)))] else []) @
        phaseRunScope (pe_PhaseRunFence b) (pe_PhaseRunGeneration b) (pe_SafetyEpoch b))"

definition schedulingEvidence_canonical :: "SchedulingEvidenceBinding \<Rightarrow> json" where
  "schedulingEvidence_canonical b =
     evidenceCanonical (se_Evidence b) (se_PhaseRunID b) (se_OperationID b) (se_Generation b) (se_Fence b)
       (phaseRunScope (se_PhaseRunFence b) (se_PhaseRunGeneration b) (se_SafetyEpoch b))"

definition reconcilePayload_canonical :: "ident \<Rightarrow> u64 \<Rightarrow> json" where
  "reconcilePayload_canonical operationID fence =
     jobj [(''fence'', jword fence), (''operation_id'', JStr operationID)]"

definition operationalFence_canonical :: "OperationalFenceBinding \<Rightarrow> json" where
  "operationalFence_canonical b =
     jobj ([(''fence'', jword (of_Fence b)), (''generation'', jword (of_Generation b)),
            (''mode'', JStr (operationalModeName (of_Mode b))), (''safety_epoch'', jword (of_SafetyEpoch b))] @
           (if lifecycleRequest_valid (of_LifecycleFence b)
            then [(''task_workspace_lifecycle_fence'', lifecycleRequest_canonical (of_LifecycleFence b))]
            else []))"

text \<open>The method \<open>canonical\<close> of the interface.\<close>

fun payload_canonical :: "intentPayload \<Rightarrow> json" where
  "payload_canonical EmptyPayload = jobj []"
| "payload_canonical (PinnedStartPayload p) = pinnedPayload_canonical p"
| "payload_canonical (OperationPayload operationID) = operationPayload_canonical operationID"
| "payload_canonical (ConfirmationPayload gateID d) = confirmationPayload_canonical gateID d"
| "payload_canonical (PhaseRunPayload phaseRunID) = phaseRunPayload_canonical phaseRunID"
| "payload_canonical (RuntimeRunRetryPayload phaseRunID runtimeRunID) =
     runtimeRunRetryPayload_canonical phaseRunID runtimeRunID"
| "payload_canonical (CancelPayload reason fence) = cancelPayload_canonical reason fence"
| "payload_canonical (ManualEditPayload m) = manualEditPayload_canonical m"
| "payload_canonical (RuntimeEvidencePayload b) = runtimeEvidence_canonical b"
| "payload_canonical (ValidationEvidencePayload b) = validationEvidence_canonical b"
| "payload_canonical (LifecycleEvidencePayload b) = lifecycleEvidence_canonical b"
| "payload_canonical (ReconstructionEvidencePayload b) = reconstructionEvidence_canonical b"
| "payload_canonical (PublicationEvidencePayload b) = publicationEvidence_canonical b"
| "payload_canonical (SchedulingEvidencePayload b) = schedulingEvidence_canonical b"
| "payload_canonical (ReconcilePayload operationID fence) = reconcilePayload_canonical operationID fence"
| "payload_canonical (OperationalFencePayload b) = operationalFence_canonical b"

text \<open>What an evidence intent reports: the phase run, the evidence, the kind it must have.\<close>

fun evidenceFacts :: "intentPayload \<Rightarrow> (ident \<times> EvidenceRef \<times> enum8) option" where
  "evidenceFacts (RuntimeEvidencePayload b) = Some (re_PhaseRunID b, re_Evidence b, EvidenceRuntime)"
| "evidenceFacts (ValidationEvidencePayload b) =
     Some (ve_PhaseRunID b, ve_Evidence b, EvidencePhaseValidation)"
| "evidenceFacts (LifecycleEvidencePayload b) =
     Some (le_PhaseRunID b, le_Evidence b, EvidenceTaskWorkspaceLifecycle)"
| "evidenceFacts (ReconstructionEvidencePayload b) =
     Some ([], ce_Evidence b, EvidenceTaskWorkspaceLifecycle)"
| "evidenceFacts (PublicationEvidencePayload b) = Some (pe_PhaseRunID b, pe_Evidence b, EvidencePublication)"
| "evidenceFacts (SchedulingEvidencePayload b) = Some (se_PhaseRunID b, se_Evidence b, EvidenceScheduling)"
| "evidenceFacts _ = None"

definition validateEvidenceIntent :: "intentValue \<Rightarrow> error_code + unit" where
  "validateEvidenceIntent i =
     (case evidenceFacts (iv_payload i) of
        None \<Rightarrow> Inr ()
      | Some (_, e, expected) \<Rightarrow>
          reject_if (\<not> validEvidenceRef e \<or> ev_Kind e \<noteq> expected) ErrorEvidenceInvalid)"

text \<open>The fields both canonical values of an intent have.\<close>

definition intent_fields :: "intentValue \<Rightarrow> (string \<times> json) list" where
  "intent_fields i =
     (let header = iv_header i in
      [(''activity_generation'', jword (ih_ActivityGeneration header)),
       (''authority'', authority_canonical (iv_authority i)),
       (''expected_task_revision'', jword (ih_ExpectedTaskRevision header)),
       (''kind'', JStr (intentKindName (iv_kind i))),
       (''occurred_at'', JTime (ih_OccurredAt header)),
       (''payload'', payload_canonical (iv_payload i)),
       (''schema'', jobj [(''major'', jword (schema_Major (ih_SchemaVersion header))),
                          (''minor'', jword (schema_Minor (ih_SchemaVersion header)))]),
       (''task_id'', JStr (ih_TaskID header))])"

abbreviation (input) canonicalIntentDomain :: string where
  "canonicalIntentDomain \<equiv> ''slidesmith.task-orchestration.intent/v1'' @ [CHR 0x0A]"

abbreviation (input) canonicalEvidenceReplayDomain :: string where
  "canonicalEvidenceReplayDomain \<equiv> ''slidesmith.task-orchestration.evidence-replay/v1'' @ [CHR 0x0A]"

definition computeCanonicalIntent :: "hashing \<Rightarrow> intentValue \<Rightarrow> error_code + digest" where
  "computeCanonicalIntent h i =
     (if schema_Major (ih_SchemaVersion (iv_header i)) \<noteq> schema_Major SchemaV1
      then Inl ErrorUnsupportedSchema
      else result_bind (validateEvidenceIntent i) (\<lambda>_.
        if \<not> validIntent h i then Inl ErrorInvalidIntent
        else Inr (hs_value h canonicalIntentDomain
          (jobj ((''decision_request_id'', JStr (ih_DecisionRequestID (iv_header i))) # intent_fields i)))))"

definition canonicalizeIntent :: "hashing \<Rightarrow> intentValue \<Rightarrow> error_code + digest" where
  "canonicalizeIntent h i =
     result_bind (computeCanonicalIntent h i) (\<lambda>d.
     if ih_CanonicalRequestDigest (iv_header i) \<noteq> d then Inl ErrorIntegrityConflict else Inr d)"

definition computeEvidenceReplayDigest :: "hashing \<Rightarrow> intentValue \<Rightarrow> (ident \<times> digest) option" where
  "computeEvidenceReplayDigest h i =
     (case evidenceFacts (iv_payload i) of
        None \<Rightarrow> None
      | Some (_, e, _) \<Rightarrow>
          Some (ev_ID e, hs_value h canonicalEvidenceReplayDomain (jobj (intent_fields i))))"

definition newIntent :: "hashing \<Rightarrow> IntentHeader \<Rightarrow> authorityValue \<Rightarrow> intentPayload \<Rightarrow> intentValue" where
  "newIntent h header authority payload =
     (let i = \<lparr>iv_header = header, iv_authority = authority, iv_payload = payload\<rparr> in
      case computeCanonicalIntent h i of
        Inl _ \<Rightarrow> i
      | Inr d \<Rightarrow> i\<lparr>iv_header := header\<lparr>ih_CanonicalRequestDigest := d\<rparr>\<rparr>)"

record TaskStartAdmission =
  ta_taskID :: ident
  ta_pinned :: PinnedTaskStart
  ta_safetyEpoch :: u64
  ta_executionVerificationDigest :: digest
  ta_templateVerificationDigest :: digest

definition admission_validFor :: "hashing \<Rightarrow> TaskStartAdmission \<Rightarrow> ident \<Rightarrow> bool" where
  "admission_validFor h a taskID =
     (if ta_taskID a \<noteq> taskID \<or> \<not> pinned_valid h (ta_pinned a) \<or> ta_safetyEpoch a = 0 \<or>
         ta_executionVerificationDigest a = zero_digest then False
      else if pn_Route (ta_pinned a) = RouteGeneration
      then ta_templateVerificationDigest a \<noteq> zero_digest
      else ta_templateVerificationDigest a = zero_digest)"

text \<open>An admission that is not valid for the task leaves the zero payload, which is invalid.\<close>

definition zeroPinnedStart :: PinnedTaskStart where
  "zeroPinnedStart =
     \<lparr>pn_Route = 0, pn_TaskWorkspaceID = [],
      pn_ExecutionLock =
        \<lparr>el_ID = [], el_PipelineVersionID = [], el_RuntimeReleaseID = [], el_CompatibilityApprovalID = [],
         el_PipelineContract =
           \<lparr>pc_SchemaVersion = 0, pc_PipelineVersionID = [], pc_Routes = [],
            pc_ManualEditEntryPhase = [], pc_ManualEditPhases = []\<rparr>\<rparr>,
      pn_TemplateLockID = [], pn_CatalogBinding = None,
      pn_Authorities =
        \<lparr>da_Runtime = zeroAuthority, da_Validator = zeroAuthority,
         da_TaskWorkspaceLifecycle = zeroAuthority, da_Publication = zeroAuthority,
         da_Scheduler = zeroAuthority\<rparr>\<rparr>"

definition zeroPinnedPayload :: pinnedTaskStartPayload where
  "zeroPinnedPayload =
     \<lparr>ps_pinned = zeroPinnedStart, ps_verifiedTask = [], ps_safetyEpoch = 0,
      ps_executionVerificationDigest = zero_digest, ps_templateVerificationDigest = zero_digest\<rparr>"

definition NewStartPinnedTaskIntent ::
  "hashing \<Rightarrow> IntentHeader \<Rightarrow> authorityValue \<Rightarrow> TaskStartAdmission \<Rightarrow> intentValue" where
  "NewStartPinnedTaskIntent h header authority a =
     (if \<not> admission_validFor h a (ih_TaskID header)
      then newIntent h header authority (PinnedStartPayload zeroPinnedPayload)
      else newIntent h header authority (PinnedStartPayload
        \<lparr>ps_pinned = ta_pinned a, ps_verifiedTask = ta_taskID a, ps_safetyEpoch = ta_safetyEpoch a,
         ps_executionVerificationDigest = ta_executionVerificationDigest a,
         ps_templateVerificationDigest = ta_templateVerificationDigest a\<rparr>))"

text \<open>The constructors of the other intents; each has one kind, that of the payload it makes.\<close>

definition NewStartTaskIntent :: "hashing \<Rightarrow> IntentHeader \<Rightarrow> authorityValue \<Rightarrow> intentValue" where
  "NewStartTaskIntent h header authority = newIntent h header authority EmptyPayload"

definition NewMakeWorkAvailableIntent ::
  "hashing \<Rightarrow> IntentHeader \<Rightarrow> authorityValue \<Rightarrow> ident \<Rightarrow> intentValue" where
  "NewMakeWorkAvailableIntent h header authority operationID =
     newIntent h header authority (OperationPayload operationID)"

definition NewSubmitConfirmationGateIntent ::
  "hashing \<Rightarrow> IntentHeader \<Rightarrow> authorityValue \<Rightarrow> ident \<Rightarrow> digest \<Rightarrow> intentValue" where
  "NewSubmitConfirmationGateIntent h header authority gateID d =
     newIntent h header authority (ConfirmationPayload gateID d)"

definition NewRetryPhaseIntent ::
  "hashing \<Rightarrow> IntentHeader \<Rightarrow> authorityValue \<Rightarrow> ident \<Rightarrow> intentValue" where
  "NewRetryPhaseIntent h header authority phaseRunID =
     newIntent h header authority (PhaseRunPayload phaseRunID)"

definition NewRetryRuntimeRunIntent ::
  "hashing \<Rightarrow> IntentHeader \<Rightarrow> authorityValue \<Rightarrow> ident \<Rightarrow> ident \<Rightarrow> intentValue" where
  "NewRetryRuntimeRunIntent h header authority phaseRunID runtimeRunID =
     newIntent h header authority (RuntimeRunRetryPayload phaseRunID runtimeRunID)"

definition NewCancelTaskByUserIntent ::
  "hashing \<Rightarrow> IntentHeader \<Rightarrow> authorityValue \<Rightarrow> enum8 \<Rightarrow> intentValue" where
  "NewCancelTaskByUserIntent h header authority reason =
     newIntent h header authority (CancelPayload reason zeroLifecycleRequest)"

definition NewCancelTaskByUserWithLifecycleFenceIntent ::
  "hashing \<Rightarrow> IntentHeader \<Rightarrow> authorityValue \<Rightarrow> enum8 \<Rightarrow> lifecycleRequestBinding \<Rightarrow> intentValue" where
  "NewCancelTaskByUserWithLifecycleFenceIntent h header authority reason binding =
     newIntent h header authority (CancelPayload reason binding)"

definition NewCancelTaskByAdministratorIntent ::
  "hashing \<Rightarrow> IntentHeader \<Rightarrow> authorityValue \<Rightarrow> enum8 \<Rightarrow> intentValue" where
  "NewCancelTaskByAdministratorIntent h header authority reason =
     newIntent h header authority (CancelPayload reason zeroLifecycleRequest)"

definition NewCancelTaskByAdministratorWithLifecycleFenceIntent ::
  "hashing \<Rightarrow> IntentHeader \<Rightarrow> authorityValue \<Rightarrow> enum8 \<Rightarrow> lifecycleRequestBinding \<Rightarrow> intentValue" where
  "NewCancelTaskByAdministratorWithLifecycleFenceIntent h header authority reason binding =
     newIntent h header authority (CancelPayload reason binding)"

definition NewBeginManualEditIntent ::
  "hashing \<Rightarrow> IntentHeader \<Rightarrow> authorityValue \<Rightarrow> ident \<Rightarrow> intentValue" where
  "NewBeginManualEditIntent h header authority artifactVersionID =
     newIntent h header authority (ManualEditPayload
       \<lparr>me_artifactVersionID = artifactVersionID, me_reconstructionRequired = False,
        me_reconstructionRequest = zeroReconstructionRequest\<rparr>)"

definition NewBeginManualEditAfterExpiryIntent ::
  "hashing \<Rightarrow> IntentHeader \<Rightarrow> authorityValue \<Rightarrow> ident \<Rightarrow> reconstructionRequestBinding \<Rightarrow> intentValue" where
  "NewBeginManualEditAfterExpiryIntent h header authority artifactVersionID request =
     newIntent h header authority (ManualEditPayload
       \<lparr>me_artifactVersionID = artifactVersionID, me_reconstructionRequired = True,
        me_reconstructionRequest = request\<rparr>)"

definition NewAcceptRuntimeEvidenceIntent ::
  "hashing \<Rightarrow> IntentHeader \<Rightarrow> authorityValue \<Rightarrow> RuntimeEvidenceBinding \<Rightarrow> intentValue" where
  "NewAcceptRuntimeEvidenceIntent h header authority binding =
     newIntent h header authority (RuntimeEvidencePayload binding)"

definition NewAcceptPhaseValidationEvidenceIntent ::
  "hashing \<Rightarrow> IntentHeader \<Rightarrow> authorityValue \<Rightarrow> ValidationEvidenceBinding \<Rightarrow> intentValue" where
  "NewAcceptPhaseValidationEvidenceIntent h header authority binding =
     newIntent h header authority (ValidationEvidencePayload binding)"

definition NewAcceptTaskWorkspaceLifecycleEvidenceIntent ::
  "hashing \<Rightarrow> IntentHeader \<Rightarrow> authorityValue \<Rightarrow> LifecycleEvidenceBinding \<Rightarrow> intentValue" where
  "NewAcceptTaskWorkspaceLifecycleEvidenceIntent h header authority binding =
     newIntent h header authority (LifecycleEvidencePayload binding)"

definition NewAcceptTaskWorkspaceReconstructionEvidenceIntent ::
  "hashing \<Rightarrow> IntentHeader \<Rightarrow> authorityValue \<Rightarrow> ReconstructionEvidenceBinding \<Rightarrow> intentValue" where
  "NewAcceptTaskWorkspaceReconstructionEvidenceIntent h header authority binding =
     newIntent h header authority (ReconstructionEvidencePayload binding)"

definition NewAcceptPublicationEvidenceIntent ::
  "hashing \<Rightarrow> IntentHeader \<Rightarrow> authorityValue \<Rightarrow> PublicationEvidenceBinding \<Rightarrow> intentValue" where
  "NewAcceptPublicationEvidenceIntent h header authority binding =
     newIntent h header authority (PublicationEvidencePayload binding)"

definition NewAcceptSchedulingEvidenceIntent ::
  "hashing \<Rightarrow> IntentHeader \<Rightarrow> authorityValue \<Rightarrow> SchedulingEvidenceBinding \<Rightarrow> intentValue" where
  "NewAcceptSchedulingEvidenceIntent h header authority binding =
     newIntent h header authority (SchedulingEvidencePayload binding)"

definition NewReconcileEnactmentIntent ::
  "hashing \<Rightarrow> IntentHeader \<Rightarrow> authorityValue \<Rightarrow> ident \<Rightarrow> u64 \<Rightarrow> intentValue" where
  "NewReconcileEnactmentIntent h header authority operationID fence =
     newIntent h header authority (ReconcilePayload operationID fence)"

definition NewApplyOperationalFenceIntent ::
  "hashing \<Rightarrow> IntentHeader \<Rightarrow> authorityValue \<Rightarrow> OperationalFenceBinding \<Rightarrow> intentValue" where
  "NewApplyOperationalFenceIntent h header authority binding =
     newIntent h header authority (OperationalFencePayload binding)"

section \<open>Facts the engine uses\<close>

lemma canonicalizeIntent_Inr:
  "canonicalizeIntent h i = Inr d \<longleftrightarrow>
     computeCanonicalIntent h i = Inr d \<and> ih_CanonicalRequestDigest (iv_header i) = d"
  by (auto simp: canonicalizeIntent_def result_bind_eq_Inr)

lemma canonicalizeIntent_valid:
  "canonicalizeIntent h i = Inr d \<Longrightarrow> validIntent h i"
  by (auto simp: canonicalizeIntent_Inr computeCanonicalIntent_def result_bind_eq_Inr split: if_splits)

lemma validIntentD:
  assumes "validIntent h i"
  shows "validIntentHeader (iv_header i)" "authority_valid (iv_authority i)"
    "payload_valid h (iv_payload i)" "authorityAllowed (iv_kind i) (av_kind (iv_authority i))"
  using assms by (auto simp: validIntent_def split: if_splits)

section \<open>What a request digest identifies\<close>

lemma jobj_map_of:
  assumes "jobj xs = jobj ys" and "distinct (map fst xs)" and "distinct (map fst ys)"
  shows "map_of xs = map_of ys"
proof -
  from assms(1) have "set (sort_key fst xs) = set (sort_key fst ys)" by (simp add: jobj_def)
  then have "set xs = set ys" by simp
  then show ?thesis by (rule map_of_inject_set [OF assms(2,3), THEN iffD2])
qed

lemma authorityKindName_inject:
  "authorityKindName a = authorityKindName b \<Longrightarrow> a = b"
  by (cases a; cases b) simp_all

lemma intentKindName_inject:
  "intentKindName a = intentKindName b \<Longrightarrow> a = b"
  by (cases a; cases b) simp_all

lemma administratorReasonName_inject:
  "administratorReasonName a = administratorReasonName b \<Longrightarrow> administratorReasonName a \<noteq> [] \<Longrightarrow> a = b"
  by (auto simp: administratorReasonName_def split: if_splits)

lemma authority_canonical_inject:
  assumes eq: "authority_canonical a = authority_canonical b"
    and valid: "authority_valid a" "authority_valid b"
  shows "a = b"
proof -
  let ?fs = "\<lambda>a. [(''generation'', jword (av_generation a)), (''id'', JStr (av_id a)),
            (''kind'', JStr (authorityKindName (av_kind a)))] @
           (if av_kind a = AuthorityAdministrator
            then [(''reason'', JStr (administratorReasonName (av_reason a)))] else [])"
  have m: "map_of (?fs a) = map_of (?fs b)"
    by (rule jobj_map_of) (use eq in \<open>simp_all add: authority_canonical_def\<close>)
  from fun_cong [OF m, of "''generation''"] have "av_generation a = av_generation b" by simp
  moreover from fun_cong [OF m, of "''id''"] have "av_id a = av_id b" by simp
  moreover from fun_cong [OF m, of "''kind''"] have kind: "av_kind a = av_kind b"
    by (auto dest: authorityKindName_inject)
  moreover have "av_reason a = av_reason b"
  proof (cases "av_kind a = AuthorityAdministrator")
    case True
    with kind fun_cong [OF m, of "''reason''"]
    have "administratorReasonName (av_reason a) = administratorReasonName (av_reason b)" by simp
    with True valid(1) show ?thesis
      by (auto simp: authority_valid_def split: if_splits intro: administratorReasonName_inject)
  next
    case False
    with kind valid show ?thesis by (auto simp: authority_valid_def split: if_splits)
  qed
  ultimately show ?thesis by simp
qed

lemma schema_parts: "schema_Major v = schema_Major w \<Longrightarrow> schema_Minor v = schema_Minor w \<Longrightarrow> v = w"
proof -
  have *: "v = or (push_bit 16 (ucast (schema_Major v))) (ucast (schema_Minor v))" for v :: u32
    unfolding schema_Major_def schema_Minor_def by (intro bit_word_eqI) (auto simp: bit_simps)
  show "schema_Major v = schema_Major w \<Longrightarrow> schema_Minor v = schema_Minor w \<Longrightarrow> v = w"
    using * [of v] * [of w] by simp
qed

text \<open>Two intents that ask for the same transition in the same words.\<close>

definition same_request :: "intentValue \<Rightarrow> intentValue \<Rightarrow> bool" where
  "same_request i j \<longleftrightarrow>
     iv_header i = iv_header j \<and> iv_authority i = iv_authority j \<and> iv_kind i = iv_kind j \<and>
     payload_canonical (iv_payload i) = payload_canonical (iv_payload j)"


end
