(* ===== verification/Orch_State.thy ===== *)
theory Orch_State
  imports Orch_Intents
begin

text \<open>
  The state of Task Orchestration (the records of
  \<open>backend/internal/taskorchestration/harness.go\<close>): the task record with its aggregate and its
  coordination bindings, the phase runs and runtime runs, the identifier allocator, the
  recovery binding and the persistence the engine works on; and the construction of a record
  from a fixture.

  A Go map is an association list, the nil map being the empty list (the code writes only into
  maps that were made). Iterating over a map visits its entries in list order; the code
  iterates over two maps, and \<open>activePhaseRun\<close> and the search for the lifecycle operation with
  the highest fence say where that order could matter. The delivery and diagnostic state kept
  in the same struct belongs to other components and is left out.
\<close>

section \<open>Records\<close>

record runtimeRunRecord =
  rt_id :: ident
  rt_operationID :: ident
  rt_outcome :: enum8
  rt_canonicalPayload :: "json option"
  rt_payloadDigest :: digest

record phaseRunRecord =
  pr_id :: ident
  pr_phaseKey :: ident
  pr_attempt :: u32
  pr_generation :: u64
  pr_fence :: u64
  pr_outcome :: PhaseRunOutcome
  pr_validationOutcome :: enum8
  pr_lifecycleOutcome :: enum8
  pr_revisionID :: ident
  pr_checkpointID :: ident
  pr_lifecycleOperationID :: ident
  pr_publicationOutcome :: enum8
  pr_artifactVersionID :: ident
  pr_publicationOperationID :: ident
  pr_runtimeRuns :: "runtimeRunRecord list"
  pr_taskWorkspaceID :: ident
  pr_inputArtifactVersionID :: ident

record taskAggregate =
  ag_status :: TaskStatus
  ag_route :: enum8
  ag_activity :: ActivityKind
  ag_pinned :: PinnedTaskStart
  ag_currentPhase :: ident
  ag_activePhaseRunID :: ident
  ag_phaseRuns :: "phaseRunRecord list"
  ag_latestArtifactVersionID :: ident
  ag_activitySourceArtifactVersionID :: ident
  ag_reconstructionRequired :: bool
  ag_reconstructionAccepted :: bool
  ag_reconstructionOperationID :: ident
  ag_lifecycleGeneration :: u64
  ag_lifecycleFence :: u64

record phaseRunBinding =
  bp_generation :: u64
  bp_fence :: u64
  bp_active :: bool

text \<open>
  The five operation bindings of the source share one record here: each keeps the phase run it
  is about, the authority that may report on it, its generation, fence, safety epoch and
  activity generation and whether it is terminal. \<open>ob_runtimeRunID\<close>, \<open>ob_canonicalPayload\<close> and
  \<open>ob_payloadDigest\<close> are used by runtime operations only, \<open>ob_purpose\<close> by lifecycle operations
  only; a validation binding is keyed by its phase run, so its \<open>ob_phaseRunID\<close> is unused.
\<close>

datatype LifecycleOperationPurpose =
    LifecyclePurposeUnset
  | LifecycleOperationCommit
  | LifecycleOperationCancellationFence
  | LifecycleOperationReconstruction

record operationBinding =
  ob_phaseRunID :: ident
  ob_runtimeRunID :: ident
  ob_authority :: authorityValue
  ob_generation :: u64
  ob_fence :: u64
  ob_safetyEpoch :: u64
  ob_purpose :: LifecycleOperationPurpose
  ob_activityGeneration :: u64
  ob_canonicalPayload :: "json option"
  ob_payloadDigest :: digest
  ob_terminal :: bool

record gateDecisionRecord =
  gd_digest :: digest
  gd_decision :: TransitionDecision

record taskRecord =
  tr_revision :: u64
  tr_activityGeneration :: u64
  tr_recoveryActivityFence :: u64
  tr_owner :: "ident \<times> u64"
  tr_latestDecision :: TransitionDecision
  tr_decisionCount :: u64
  tr_enactmentCount :: u64
  tr_safetyEpoch :: u64
  tr_phaseRuns :: "(ident \<times> phaseRunBinding) list"
  tr_runtimeOperations :: "(ident \<times> operationBinding) list"
  tr_validationBindings :: "(ident \<times> operationBinding) list"
  tr_lifecycleOperations :: "(ident \<times> operationBinding) list"
  tr_publicationOperations :: "(ident \<times> operationBinding) list"
  tr_schedulingOperations :: "(ident \<times> operationBinding) list"
  tr_evidenceDiagnosticCount :: u64
  tr_latestEvidenceDiagnostic :: EvidenceDiagnostic
  tr_latestRevisionID :: ident
  tr_latestCheckpointID :: ident
  tr_cancellationState :: CancellationState
  tr_cancellationReason :: enum8
  tr_enactments :: "(ident \<times> EnactmentRef) list"
  tr_reconciler :: authorityValue
  tr_reconciliationFences :: "(ident \<times> u64) list"
  tr_aggregate :: "taskAggregate option"
  tr_gateDecisions :: "(ident \<times> gateDecisionRecord) list"

definition zeroTaskRecord :: taskRecord where
  "zeroTaskRecord =
     \<lparr>tr_revision = 0, tr_activityGeneration = 0, tr_recoveryActivityFence = 0, tr_owner = ([], 0),
      tr_latestDecision = zeroDecision, tr_decisionCount = 0, tr_enactmentCount = 0,
      tr_safetyEpoch = 0, tr_phaseRuns = [], tr_runtimeOperations = [], tr_validationBindings = [],
      tr_lifecycleOperations = [], tr_publicationOperations = [], tr_schedulingOperations = [],
      tr_evidenceDiagnosticCount = 0, tr_latestEvidenceDiagnostic = zeroEvidenceDiagnostic,
      tr_latestRevisionID = [], tr_latestCheckpointID = [],
      tr_cancellationState = CancellationNotRequested, tr_cancellationReason = 0,
      tr_enactments = [], tr_reconciler = zeroAuthority, tr_reconciliationFences = [],
      tr_aggregate = None, tr_gateDecisions = []\<rparr>"

record recoveryBinding =
  rb_authority :: authorityValue
  rb_generation :: u64
  rb_fence :: u64
  rb_safetyEpoch :: u64
  rb_activityGenerationFence :: u64
  rb_mode :: enum8

record idAllocator =
  ia_nextDecision :: u64
  ia_nextAuditFact :: u64
  ia_nextPhaseRun :: u64
  ia_nextRuntimeRun :: u64
  ia_nextOperation :: u64
  ia_nextCausation :: u64

record outboxRecord =
  ox_EnactmentRef :: EnactmentRef
  ox_DecisionID :: ident
  ox_TaskID :: ident
  ox_PhaseRunID :: ident
  ox_RuntimeRunID :: ident
  ox_SafetyEpoch :: u64
  ox_TaskRevision :: u64
  ox_AcceptedEvidenceIDs :: "ident list"
  ox_CommittedAt :: int

type_synonym decisionRequestScope = "ident \<times> authorityValue \<times> ident"
type_synonym evidenceScope = "ident \<times> ident"

record memoryPersistence =
  mp_tasks :: "(ident \<times> taskRecord) list"
  mp_decisions :: "(decisionRequestScope \<times> (digest \<times> TransitionDecision)) list"
  mp_acceptedEvidence :: "(evidenceScope \<times> (digest \<times> TransitionDecision)) list"
  mp_outbox :: "(ident \<times> outboxRecord) list"
  mp_ids :: idAllocator
  mp_recovery :: recoveryBinding

section \<open>Allocating identifiers\<close>

definition defaultIdentityStart :: "u64 \<Rightarrow> u64" where
  "defaultIdentityStart v = (if v = 0 then 1 else v)"

definition newDeterministicIDAllocator :: "idAllocator \<Rightarrow> idAllocator" where
  "newDeterministicIDAllocator c =
     \<lparr>ia_nextDecision = defaultIdentityStart (ia_nextDecision c),
      ia_nextAuditFact = defaultIdentityStart (ia_nextAuditFact c),
      ia_nextPhaseRun = defaultIdentityStart (ia_nextPhaseRun c),
      ia_nextRuntimeRun = defaultIdentityStart (ia_nextRuntimeRun c),
      ia_nextOperation = defaultIdentityStart (ia_nextOperation c),
      ia_nextCausation = defaultIdentityStart (ia_nextCausation c)\<rparr>"

definition nextDecisionID :: "idAllocator \<Rightarrow> ident \<times> idAllocator" where
  "nextDecisionID ids =
     (sequenceID ''decision-'' (ia_nextDecision ids), ids\<lparr>ia_nextDecision := ia_nextDecision ids + 1\<rparr>)"

definition nextAuditFactID :: "idAllocator \<Rightarrow> ident \<times> idAllocator" where
  "nextAuditFactID ids =
     (sequenceID ''audit-fact-'' (ia_nextAuditFact ids), ids\<lparr>ia_nextAuditFact := ia_nextAuditFact ids + 1\<rparr>)"

definition nextPhaseRunID :: "idAllocator \<Rightarrow> ident \<times> idAllocator" where
  "nextPhaseRunID ids =
     (sequenceID ''phase-run-'' (ia_nextPhaseRun ids), ids\<lparr>ia_nextPhaseRun := ia_nextPhaseRun ids + 1\<rparr>)"

definition nextRuntimeRunID :: "idAllocator \<Rightarrow> ident \<times> idAllocator" where
  "nextRuntimeRunID ids =
     (sequenceID ''runtime-run-'' (ia_nextRuntimeRun ids), ids\<lparr>ia_nextRuntimeRun := ia_nextRuntimeRun ids + 1\<rparr>)"

definition nextOperationID :: "idAllocator \<Rightarrow> ident \<times> idAllocator" where
  "nextOperationID ids =
     (sequenceID ''operation-'' (ia_nextOperation ids), ids\<lparr>ia_nextOperation := ia_nextOperation ids + 1\<rparr>)"

definition nextCausationID :: "idAllocator \<Rightarrow> ident \<times> idAllocator" where
  "nextCausationID ids =
     (sequenceID ''causation-'' (ia_nextCausation ids), ids\<lparr>ia_nextCausation := ia_nextCausation ids + 1\<rparr>)"

section \<open>Reading and writing a record\<close>

definition hasOperationID :: "taskRecord \<Rightarrow> ident \<Rightarrow> bool" where
  "hasOperationID r operationID =
     (map_of (tr_runtimeOperations r) operationID \<noteq> None \<or>
      map_of (tr_lifecycleOperations r) operationID \<noteq> None \<or>
      map_of (tr_publicationOperations r) operationID \<noteq> None \<or>
      map_of (tr_schedulingOperations r) operationID \<noteq> None \<or>
      map_of (tr_enactments r) operationID \<noteq> None)"

text \<open>The first phase run binding marked active; at most one is.\<close>

definition activeBinding :: "taskRecord \<Rightarrow> ident option" where
  "activeBinding r = map_option fst (find_elem (\<lambda>(_, b). bp_active b) (tr_phaseRuns r))"

definition retainEvidenceDiagnostic :: "ident \<Rightarrow> EvidenceDiagnosticReason \<Rightarrow> taskRecord \<Rightarrow> taskRecord" where
  "retainEvidenceDiagnostic evidenceID reason r =
     r\<lparr>tr_evidenceDiagnosticCount := tr_evidenceDiagnosticCount r + 1,
       tr_latestEvidenceDiagnostic :=
         \<lparr>ed_EvidenceID = evidenceID, ed_NonAuthoritative = True, ed_Reason = reason\<rparr>\<rparr>"

definition initializeNewTask :: "u64 \<Rightarrow> u64 \<Rightarrow> taskRecord \<Rightarrow> taskRecord" where
  "initializeNewTask safetyEpoch recoveryActivityFence r =
     r\<lparr>tr_safetyEpoch := safetyEpoch, tr_recoveryActivityFence := recoveryActivityFence,
       tr_phaseRuns := [], tr_runtimeOperations := [], tr_validationBindings := [],
       tr_lifecycleOperations := [], tr_publicationOperations := [], tr_schedulingOperations := [],
       tr_enactments := [], tr_reconciliationFences := []\<rparr>"

text \<open>
  The copy of a record the engine works on. Every value is copied as it is, except the gate
  decisions: the code replaces that map by a new one before it ranges over it, so what it
  ranges over, and keeps, is the new, empty map.
\<close>

definition cloneTaskRecord :: "taskRecord \<Rightarrow> taskRecord" where
  "cloneTaskRecord r = r\<lparr>tr_gateDecisions := []\<rparr>"

definition activePhaseRun :: "taskAggregate \<Rightarrow> ident \<Rightarrow> phaseRunRecord option" where
  "activePhaseRun a phaseRunID =
     (if ag_activePhaseRunID a \<noteq> phaseRunID then None
      else find_elem (\<lambda>run. pr_id run = phaseRunID) (ag_phaseRuns a))"

text \<open>Writing through the pointer \<open>activePhaseRun\<close> returns: the first run with its identifier.\<close>

fun put_run :: "phaseRunRecord \<Rightarrow> phaseRunRecord list \<Rightarrow> phaseRunRecord list" where
  "put_run run [] = []"
| "put_run run (r # rs) = (if pr_id r = pr_id run then run # rs else r # put_run run rs)"

definition currentPhaseDefinition :: "taskAggregate \<Rightarrow> PhaseDefinition option" where
  "currentPhaseDefinition a =
     (let contract = el_PipelineContract (pn_ExecutionLock (ag_pinned a)) in
      case ag_activity a of
        ActivityGenerationPipeline \<Rightarrow>
          (case contract_route contract (ag_route a) of
             None \<Rightarrow> None
           | Some route \<Rightarrow> phaseDefinitionByKey (rd_Phases route) (ag_currentPhase a))
      | ActivityManualEdit \<Rightarrow>
          (case contract_manualEdit contract of
             None \<Rightarrow> None
           | Some (_, phases) \<Rightarrow> phaseDefinitionByKey phases (ag_currentPhase a))
      | ActivityNone \<Rightarrow> None)"

definition aggregateHasRuntimeOperation :: "taskAggregate \<Rightarrow> ident \<Rightarrow> bool" where
  "aggregateHasRuntimeOperation a operationID =
     list_ex (\<lambda>run. list_ex (\<lambda>rt. rt_operationID rt = operationID) (pr_runtimeRuns run)) (ag_phaseRuns a)"

section \<open>Effective generations and epochs\<close>

definition effectiveActivityGeneration :: "taskRecord \<Rightarrow> recoveryBinding \<Rightarrow> u64" where
  "effectiveActivityGeneration r recovery =
     (if rb_activityGenerationFence recovery \<le> tr_recoveryActivityFence r then tr_activityGeneration r
      else tr_activityGeneration r + (rb_activityGenerationFence recovery - tr_recoveryActivityFence r))"

definition effectiveSafetyEpoch :: "taskRecord \<Rightarrow> recoveryBinding \<Rightarrow> u64" where
  "effectiveSafetyEpoch r recovery =
     (if rb_safetyEpoch recovery \<noteq> 0 then rb_safetyEpoch recovery
      else if tr_safetyEpoch r \<noteq> 0 then tr_safetyEpoch r else 1)"

definition isOperationalFenceCatchUp ::
  "taskRecord \<Rightarrow> recoveryBinding \<Rightarrow> OperationalFenceBinding \<Rightarrow> bool" where
  "isOperationalFenceCatchUp r recovery b =
     (tr_recoveryActivityFence r < rb_activityGenerationFence recovery \<and>
      of_Generation b = rb_generation recovery \<and> of_Fence b = rb_fence recovery \<and>
      of_SafetyEpoch b = rb_safetyEpoch recovery \<and> of_Mode b = rb_mode recovery)"

lemma effectiveSafetyEpoch_nonzero [simp]: "effectiveSafetyEpoch r recovery \<noteq> 0"
  by (simp add: effectiveSafetyEpoch_def)

section \<open>A record from a fixture\<close>

text \<open>The four operation fixtures and the validation fixture share one record, as the bindings do.\<close>

record phaseRunFixture =
  pf_PhaseRunID :: ident
  pf_Generation :: u64
  pf_Fence :: u64
  pf_Active :: bool

record operationFixture =
  fx_OperationID :: ident
  fx_PhaseRunID :: ident
  fx_RuntimeRunID :: ident
  fx_Authority :: authorityValue
  fx_Generation :: u64
  fx_Fence :: u64
  fx_SafetyEpoch :: u64
  fx_Purpose :: LifecycleOperationPurpose

record HarnessTaskFixture =
  tf_TaskID :: ident
  tf_Owner :: authorityValue
  tf_Reconciler :: authorityValue
  tf_TaskRevision :: u64
  tf_ActivityGeneration :: u64
  tf_SafetyEpoch :: u64
  tf_PhaseRuns :: "phaseRunFixture list"
  tf_RuntimeOperations :: "operationFixture list"
  tf_ValidationBindings :: "operationFixture list"
  tf_LifecycleOperations :: "operationFixture list"
  tf_PublicationOperations :: "operationFixture list"
  tf_SchedulingOperations :: "operationFixture list"

text \<open>A loop over fixtures that stops at the first invalid one.\<close>

fun add_all :: "('x \<Rightarrow> 's \<Rightarrow> error_code + 's) \<Rightarrow> 'x list \<Rightarrow> 's \<Rightarrow> error_code + 's" where
  "add_all f [] s = Inr s"
| "add_all f (x # xs) s = result_bind (f x s) (add_all f xs)"

definition add_phaseRun :: "phaseRunFixture \<Rightarrow> taskRecord \<Rightarrow> error_code + taskRecord" where
  "add_phaseRun f r =
     (if \<not> validOpaqueID (pf_PhaseRunID f) \<or> pf_Generation f = 0 \<or> pf_Fence f = 0 then Inl ErrorInvalidIntent
      else if map_of (tr_phaseRuns r) (pf_PhaseRunID f) \<noteq> None then Inl ErrorInvalidIntent
      else Inr (r\<lparr>tr_phaseRuns := AList.update (pf_PhaseRunID f)
        \<lparr>bp_generation = pf_Generation f, bp_fence = pf_Fence f, bp_active = pf_Active f\<rparr>
        (tr_phaseRuns r)\<rparr>))"

definition fixtureBinding :: "u64 \<Rightarrow> operationFixture \<Rightarrow> operationBinding" where
  "fixtureBinding activityGeneration f =
     \<lparr>ob_phaseRunID = fx_PhaseRunID f, ob_runtimeRunID = fx_RuntimeRunID f,
      ob_authority = fx_Authority f, ob_generation = fx_Generation f, ob_fence = fx_Fence f,
      ob_safetyEpoch = fx_SafetyEpoch f, ob_purpose = fx_Purpose f,
      ob_activityGeneration = activityGeneration, ob_canonicalPayload = None,
      ob_payloadDigest = zero_digest, ob_terminal = False\<rparr>"

text \<open>What every operation fixture is checked for; \<open>hasOperation\<close> unless it is a validation binding.\<close>

definition fixture_ok :: "u64 \<Rightarrow> AuthorityKind \<Rightarrow> operationFixture \<Rightarrow> taskRecord \<Rightarrow> bool" where
  "fixture_ok epoch kind f r =
     (authority_valid (fx_Authority f) \<and> av_kind (fx_Authority f) = kind \<and> fx_Generation f \<noteq> 0 \<and>
      fx_Fence f \<noteq> 0 \<and> fx_SafetyEpoch f \<noteq> 0 \<and> fx_SafetyEpoch f = epoch \<and>
      map_of (tr_phaseRuns r) (fx_PhaseRunID f) \<noteq> None)"

definition add_runtimeOperation ::
  "HarnessTaskFixture \<Rightarrow> operationFixture \<Rightarrow> taskRecord \<Rightarrow> error_code + taskRecord" where
  "add_runtimeOperation fixture f r =
     (if \<not> validOpaqueID (fx_OperationID f) \<or> \<not> validOpaqueID (fx_RuntimeRunID f) \<or>
         \<not> fixture_ok (tf_SafetyEpoch fixture) AuthorityRuntime f r \<or> hasOperationID r (fx_OperationID f)
      then Inl ErrorInvalidIntent
      else Inr (r\<lparr>tr_runtimeOperations := AList.update (fx_OperationID f)
        (fixtureBinding (tf_ActivityGeneration fixture) f) (tr_runtimeOperations r)\<rparr>))"

definition add_validationBinding ::
  "HarnessTaskFixture \<Rightarrow> operationFixture \<Rightarrow> taskRecord \<Rightarrow> error_code + taskRecord" where
  "add_validationBinding fixture f r =
     (if \<not> fixture_ok (tf_SafetyEpoch fixture) AuthorityValidator f r \<or>
         map_of (tr_validationBindings r) (fx_PhaseRunID f) \<noteq> None
      then Inl ErrorInvalidIntent
      else Inr (r\<lparr>tr_validationBindings := AList.update (fx_PhaseRunID f)
        (fixtureBinding (tf_ActivityGeneration fixture) f) (tr_validationBindings r)\<rparr>))"

definition add_lifecycleOperation ::
  "HarnessTaskFixture \<Rightarrow> operationFixture \<Rightarrow> taskRecord \<Rightarrow> error_code + taskRecord" where
  "add_lifecycleOperation fixture f r =
     (if \<not> validOpaqueID (fx_OperationID f) \<or>
         \<not> fixture_ok (tf_SafetyEpoch fixture) AuthorityTaskWorkspaceLifecycle f r \<or>
         (fx_Purpose f \<noteq> LifecycleOperationCommit \<and> fx_Purpose f \<noteq> LifecycleOperationCancellationFence) \<or>
         hasOperationID r (fx_OperationID f)
      then Inl ErrorInvalidIntent
      else Inr (r\<lparr>tr_lifecycleOperations := AList.update (fx_OperationID f)
        (fixtureBinding (tf_ActivityGeneration fixture) f) (tr_lifecycleOperations r)\<rparr>))"

definition add_publicationOperation ::
  "HarnessTaskFixture \<Rightarrow> operationFixture \<Rightarrow> taskRecord \<Rightarrow> error_code + taskRecord" where
  "add_publicationOperation fixture f r =
     (if \<not> validOpaqueID (fx_OperationID f) \<or>
         \<not> fixture_ok (tf_SafetyEpoch fixture) AuthorityPublication f r \<or> hasOperationID r (fx_OperationID f)
      then Inl ErrorInvalidIntent
      else Inr (r\<lparr>tr_publicationOperations := AList.update (fx_OperationID f)
        (fixtureBinding (tf_ActivityGeneration fixture) f) (tr_publicationOperations r)\<rparr>))"

definition add_schedulingOperation ::
  "HarnessTaskFixture \<Rightarrow> operationFixture \<Rightarrow> taskRecord \<Rightarrow> error_code + taskRecord" where
  "add_schedulingOperation fixture f r =
     (if \<not> validOpaqueID (fx_OperationID f) \<or>
         \<not> fixture_ok (tf_SafetyEpoch fixture) AuthorityScheduler f r \<or> hasOperationID r (fx_OperationID f)
      then Inl ErrorInvalidIntent
      else Inr (r\<lparr>tr_schedulingOperations := AList.update (fx_OperationID f)
        (fixtureBinding (tf_ActivityGeneration fixture) f) (tr_schedulingOperations r)\<rparr>))"

definition fixtureReconciler :: "HarnessTaskFixture \<Rightarrow> taskRecord \<Rightarrow> error_code + taskRecord" where
  "fixtureReconciler fixture r =
     (if tf_Reconciler fixture = zeroAuthority then Inr r
      else if \<not> authority_valid (tf_Reconciler fixture) \<or> av_kind (tf_Reconciler fixture) \<noteq> AuthorityWorker
      then Inl ErrorInvalidIntent
      else Inr (r\<lparr>tr_reconciler := tf_Reconciler fixture\<rparr>))"

definition activePhaseRuns :: "taskRecord \<Rightarrow> nat" where
  "activePhaseRuns r = length (filter (\<lambda>(_, b). bp_active b) (tr_phaseRuns r))"

definition taskRecordFromFixture :: "HarnessTaskFixture \<Rightarrow> error_code + taskRecord" where
  "taskRecordFromFixture f =
     (if \<not> validOpaqueID (tf_TaskID f) \<or> \<not> authority_valid (tf_Owner f) \<or>
         av_kind (tf_Owner f) \<noteq> AuthorityUser \<or> tf_ActivityGeneration f = 0 \<or> tf_SafetyEpoch f = 0
      then Inl ErrorInvalidIntent
      else
        result_bind (fixtureReconciler f
          (zeroTaskRecord\<lparr>tr_revision := tf_TaskRevision f,
            tr_activityGeneration := tf_ActivityGeneration f,
            tr_owner := (av_id (tf_Owner f), av_generation (tf_Owner f)),
            tr_safetyEpoch := tf_SafetyEpoch f\<rparr>)) (\<lambda>r.
        result_bind (add_all add_phaseRun (tf_PhaseRuns f) r) (\<lambda>r.
        if activePhaseRuns r > 1 then Inl ErrorInvalidIntent
        else
          result_bind (add_all (add_runtimeOperation f) (tf_RuntimeOperations f) r) (\<lambda>r.
          result_bind (add_all (add_validationBinding f) (tf_ValidationBindings f) r) (\<lambda>r.
          result_bind (add_all (add_lifecycleOperation f) (tf_LifecycleOperations f) r) (\<lambda>r.
          result_bind (add_all (add_publicationOperation f) (tf_PublicationOperations f) r)
            (add_all (add_schedulingOperation f) (tf_SchedulingOperations f))))))))"

section \<open>Facts about runs\<close>

lemma put_run_ids [simp]: "map pr_id (put_run run rs) = map pr_id rs"
  by (induction rs) auto

lemma length_put_run [simp]: "length (put_run run rs) = length rs"
  by (induction rs) auto

lemma put_run_set:
  assumes "distinct (map pr_id rs)"
  shows "x \<in> set (put_run run rs) \<longleftrightarrow>
     (x = run \<and> pr_id run \<in> set (map pr_id rs)) \<or> (x \<in> set rs \<and> pr_id x \<noteq> pr_id run)"
  using assms by (induction rs) (auto simp: rev_image_eqI)

lemma activePhaseRun_Some:
  "activePhaseRun a i = Some run \<Longrightarrow>
     ag_activePhaseRunID a = i \<and> run \<in> set (ag_phaseRuns a) \<and> pr_id run = i"
  by (auto simp: activePhaseRun_def dest: find_elem_Some split: if_splits)

end
