(* ===== verification/Orch_Enactment.thy ===== *)
theory Orch_Enactment
  imports Orch_State Runtime_Encoding
begin

text \<open>
  The enactments of a decision (\<open>backend/internal/taskorchestration/runtime_enactment.go\<close>, and
  \<open>harnessEnactment\<close> of \<open>harness.go\<close>): how Task Orchestration builds the canonical start
  request of a runtime run from the pinned task, and the cancel request from the start request
  it kept. The requests themselves are those of \<open>Runtime_Encoding\<close>. A time is a number of
  nanoseconds.
\<close>

abbreviation (input) runtimeEnactmentDeadline :: int where
  "runtimeEnactmentDeadline \<equiv> 30 * 60 * 1000000000"

fun join_lines :: "string list \<Rightarrow> string" where
  "join_lines [] = []"
| "join_lines [v] = v"
| "join_lines (v # vs) = v @ [CHR 0x0A] @ join_lines vs"

definition runtimeEnactmentDigest :: "hashing \<Rightarrow> string \<Rightarrow> string list \<Rightarrow> digest" where
  "runtimeEnactmentDigest h domain values =
     hs_text h (''slidesmith.task-orchestration.'' @ domain @ ''/v1'' @ [CHR 0x0A] @ join_lines values)"

definition canonicalPersonalWorkspaceID :: "ident \<times> u64 \<Rightarrow> ident" where
  "canonicalPersonalWorkspaceID owner = ''personal-workspace-'' @ fst owner"

section \<open>Catalog inputs\<close>

definition bundle_materials :: "ResourceBundleContract \<Rightarrow> (ident \<times> digest) list" where
  "bundle_materials b =
     [(''resource-bundle/'' @ rb_ResourceBundleID b @ ''/manifest'', rb_ManifestDigest b),
      (''resource-bundle/'' @ rb_ResourceBundleID b @ ''/package'', rb_PackageDigest b)]"

definition catalog_materials :: "PinnedCatalogBinding \<Rightarrow> (ident \<times> digest) list" where
  "catalog_materials b =
     [(''template-version/'' @ pk_TemplateVersionID b @ ''/manifest'', pk_TemplateManifestDigest b),
      (''template-version/'' @ pk_TemplateVersionID b @ ''/package'', pk_TemplatePackageDigest b)] @
     concat (map bundle_materials (sort_key rb_ResourceBundleID (pk_BundleClosure b)))"

definition runtimeCatalogInputManifestDigest :: "hashing \<Rightarrow> ImmutableInputBinding list \<Rightarrow> digest" where
  "runtimeCatalogInputManifestDigest h inputs =
     hs_value h [] (JList (map (\<lambda>i.
       jobj [(''digest'', JStr (hex_encode (ii_Digest i))), (''identity'', JStr (ii_Identity i)),
             (''size_bytes'', jword (ii_SizeBytes i))]) inputs))"

definition runtimeCatalogEnactmentBindings ::
  "hashing \<Rightarrow> PinnedTaskStart \<Rightarrow> ident \<Rightarrow>
   (ImmutableInputManifestBinding \<times> ImmutableInputBinding list \<times> CatalogExecutionBinding) option" where
  "runtimeCatalogEnactmentBindings h pinned manifestID =
     (if pn_Route pinned \<noteq> RouteGeneration \<or> \<not> validOpaqueID (pn_TemplateLockID pinned) \<or>
         \<not> validPinnedCatalogBinding h (pn_CatalogBinding pinned) then None
      else case pn_CatalogBinding pinned of
        None \<Rightarrow> None
      | Some binding \<Rightarrow>
          let evidenceID = ''template-lock-'' @ pn_TemplateLockID pinned;
              materials = catalog_materials binding in
          if \<not> rx_validOpaqueID (pn_TemplateLockID pinned) \<or> \<not> rx_validOpaqueID evidenceID \<or>
             \<not> list_all (\<lambda>(identity, _). rx_validOpaqueID identity) materials then None
          else
            let inputs = sort_key ii_Identity (map (\<lambda>(identity, d).
                  \<lparr>ii_Identity = identity, ii_Digest = d, ii_SizeBytes = 0\<rparr>) materials) in
            Some (\<lparr>im_Identity = manifestID, im_SchemaVersion = rx_SchemaV1,
                   im_Digest = runtimeCatalogInputManifestDigest h inputs, im_TotalSizeBytes = 0,
                   im_InputCount = of_nat (length inputs), im_MaterializationEvidenceID = evidenceID,
                   im_MaterializationEvidenceDigest = pk_TemplateLockDigest binding\<rparr>,
                  inputs,
                  \<lparr>cb_TemplateLockID = pn_TemplateLockID pinned,
                   cb_TemplateLockDigest = pk_TemplateLockDigest binding,
                   cb_ClosureRootDigest = pk_ClosureRootDigest binding,
                   cb_SafetyEpoch = pk_SafetyEpoch binding\<rparr>))"

section \<open>The start request\<close>

definition nonzero :: "u64 \<Rightarrow> u64" where
  "nonzero v = (if v = 0 then 1 else v)"

definition runtimeViewOf ::
  "hashing \<Rightarrow> taskRecord \<Rightarrow> taskAggregate \<Rightarrow> ident \<Rightarrow> ident \<Rightarrow> ident \<Rightarrow> RuntimeViewRequirement" where
  "runtimeViewOf h r a taskID runtimeRunID operationID =
     \<lparr>rv_TaskWorkspaceID = pn_TaskWorkspaceID (ag_pinned a),
      rv_MaterializationID = ''materialization-'' @ runtimeRunID,
      rv_BaseRevisionID =
        (if tr_latestRevisionID r = [] then ''base-revision-'' @ taskID else tr_latestRevisionID r),
      rv_LifecycleGeneration = nonzero (ag_lifecycleGeneration a),
      rv_LifecycleFence = nonzero (ag_lifecycleFence a),
      rv_ExpiryPolicy = RuntimeViewExpiryAtDeadline,
      rv_OpenOperationDerivation = runtimeEnactmentDigest h ''runtime-view-open'' [operationID]\<rparr>"

definition startInput ::
  "hashing \<Rightarrow> taskRecord \<Rightarrow> taskAggregate \<Rightarrow> PhaseDefinition \<Rightarrow> phaseRunRecord \<Rightarrow> ident \<Rightarrow> ident \<Rightarrow> ident \<Rightarrow> int \<Rightarrow>
   ImmutableInputManifestBinding \<times> ImmutableInputBinding list \<times> CatalogExecutionBinding option \<Rightarrow>
   StartRuntimeRunInput" where
  "startInput h r a phase run taskID runtimeRunID operationID occurredAt catalog =
     (let lock = pn_ExecutionLock (ag_pinned a); release = el_RuntimeReleaseID lock in
      \<lparr>si_SchemaVersion = rx_SchemaV1, si_OperationID = operationID,
       si_PersonalWorkspaceID = canonicalPersonalWorkspaceID (tr_owner r), si_TaskID = taskID,
       si_PhaseRunID = pr_id run, si_RuntimeRunID = runtimeRunID, si_Attempt = pr_attempt run,
       si_ExpectedTaskRevision = tr_revision r + 1, si_ExpectedRuntimeRevision = 1,
       si_ExpectedOperationGeneration = 1, si_ExpectedRuntimeFence = 1,
       si_Authority = NewTaskOrchestrationAuthority ''task-orchestration'' 1,
       si_RuntimeBindingID = ''runtime-binding-'' @ runtimeRunID,
       si_RuntimeBindingDigest = runtimeEnactmentDigest h ''runtime-binding'' [runtimeRunID, release],
       si_ExecutionLockDigest = runtimeEnactmentDigest h ''execution-lock'' [el_ID lock],
       si_CapabilityContractDigest = runtimeEnactmentDigest h ''capability-contract'' [ph_Key phase],
       si_AllowedPlatformImagesDigest = runtimeEnactmentDigest h ''platform-images'' [release],
       si_ExecutorContractDigest = runtimeEnactmentDigest h ''executor-contract'' [release],
       si_ReleaseSafetyEpoch = tr_safetyEpoch r, si_CatalogBinding = snd (snd catalog),
       si_WorkerClass = WorkerAgent,
       si_Effect = (if ph_Kind phase = PhaseMutating then EffectMutating else EffectReadOnly),
       si_ImmutableInputManifest = fst catalog, si_ImmutableInputs = fst (snd catalog),
       si_OutputContractDigest = runtimeEnactmentDigest h ''output-contract'' [ph_Key phase],
       si_EvidenceContractDigest = runtimeEnactmentDigest h ''evidence-contract'' [ph_Key phase],
       si_RuntimeViewRequirement =
         (if ph_Kind phase = PhaseMutating then Some (runtimeViewOf h r a taskID runtimeRunID operationID)
          else None),
       si_ResourceClassID = ''resource-class-'' @ release,
       si_ExecutionPolicyID = ''execution-policy-'' @ release,
       si_ProviderCapability = ProviderCapabilityNone, si_ProviderBinding = None,
       si_NetworkPolicyID = ''network-policy-'' @ release,
       si_SecretPolicyID = ''secret-policy-'' @ release,
       si_Deadline = occurredAt + runtimeEnactmentDeadline,
       si_CancellationPolicy = CancellationFenceFirst,
       si_AdmissionGrant = zeroAdmissionGrantProof\<rparr>)"

text \<open>The inputs of the request: the pinned catalog for a generation, an empty manifest otherwise.\<close>

definition startCatalog ::
  "hashing \<Rightarrow> PinnedTaskStart \<Rightarrow> ident \<Rightarrow>
   (ImmutableInputManifestBinding \<times> ImmutableInputBinding list \<times> CatalogExecutionBinding option) option" where
  "startCatalog h pinned runtimeRunID =
     (let manifestID = ''input-manifest-'' @ runtimeRunID in
      if pn_Route pinned = RouteGeneration
      then map_option (\<lambda>(manifest, inputs, catalog). (manifest, inputs, Some catalog))
             (runtimeCatalogEnactmentBindings h pinned manifestID)
      else Some
        (\<lparr>im_Identity = manifestID, im_SchemaVersion = rx_SchemaV1,
          im_Digest = runtimeEnactmentDigest h ''immutable-input-manifest'' [runtimeRunID],
          im_TotalSizeBytes = 0, im_InputCount = 0, im_MaterializationEvidenceID = [],
          im_MaterializationEvidenceDigest = zero_digest\<rparr>, [], None))"

text \<open>The identifiers the request is built from, each of which must be one for Runtime Execution.\<close>

definition startIdentifiers ::
  "taskRecord \<Rightarrow> taskAggregate \<Rightarrow> PhaseDefinition \<Rightarrow> phaseRunRecord \<Rightarrow> ident \<Rightarrow> ident \<Rightarrow> ident \<Rightarrow> ident list" where
  "startIdentifiers r a phase run taskID runtimeRunID operationID =
     (let release = el_RuntimeReleaseID (pn_ExecutionLock (ag_pinned a)) in
      [canonicalPersonalWorkspaceID (tr_owner r), taskID, pr_id run, runtimeRunID, operationID,
       ''task-orchestration'', ''runtime-binding-'' @ runtimeRunID, ''resource-class-'' @ release,
       ''execution-policy-'' @ release, ''network-policy-'' @ release, ''secret-policy-'' @ release,
       ''input-manifest-'' @ runtimeRunID] @
      (if ph_Kind phase = PhaseMutating
       then [pn_TaskWorkspaceID (ag_pinned a), ''materialization-'' @ runtimeRunID,
             (if tr_latestRevisionID r = [] then ''base-revision-'' @ taskID else tr_latestRevisionID r)]
       else []))"

definition causationOf :: "ident \<Rightarrow> ident" where
  "causationOf decisionID = ''causation-'' @ decisionID"

definition canonicalRuntimeStartEnactment ::
  "hashing \<Rightarrow> taskRecord \<Rightarrow> taskAggregate \<Rightarrow> PhaseDefinition \<Rightarrow> phaseRunRecord \<Rightarrow> ident \<Rightarrow> ident \<Rightarrow>
   IntentHeader \<Rightarrow> ident \<Rightarrow> error_code + (runtimeRunRecord \<times> EnactmentRef)" where
  "canonicalRuntimeStartEnactment h r a phase run runtimeRunID operationID header decisionID =
     (let latest = tp_TaskID (td_TaskProjection (tr_latestDecision r));
          taskID = (if validOpaqueID latest then latest else ih_TaskID header) in
      if \<not> list_all rx_validOpaqueID (startIdentifiers r a phase run taskID runtimeRunID operationID)
      then Inl ErrorInvalidIntent
      else case startCatalog h (ag_pinned a) runtimeRunID of
        None \<Rightarrow> Inl ErrorInvalidIntent
      | Some catalog \<Rightarrow>
          (case NewCanonicalStartRuntimeRun h
              (startInput h r a phase run taskID runtimeRunID operationID (ih_OccurredAt header) catalog) of
             Inl _ \<Rightarrow> Inl ErrorInvalidIntent
           | Inr start \<Rightarrow>
               (case CanonicalStartPayload h start of
                  Inl _ \<Rightarrow> Inl ErrorInvalidIntent
                | Inr payload \<Rightarrow> Inr
                    (\<lparr>rt_id = runtimeRunID, rt_operationID = operationID, rt_outcome = RuntimeRunPending,
                      rt_canonicalPayload = payload,
                      rt_payloadDigest = sr_CanonicalRequestDigest start\<rparr>,
                     \<lparr>en_OperationID = operationID, en_Kind = EnactmentRuntimeExecution,
                      en_PayloadDigest = sr_CanonicalRequestDigest start,
                      en_ActivityGeneration = ih_ActivityGeneration header,
                      en_Fence = RuntimeFence (pr_fence run),
                      en_CausationID = causationOf decisionID\<rparr>))))"

section \<open>The cancel request\<close>

definition cancelInput ::
  "StartRuntimeRunInput \<Rightarrow> ident \<Rightarrow> enum8 \<Rightarrow> int \<Rightarrow> CancelRuntimeRunInput" where
  "cancelInput start operationID reason occurredAt =
     \<lparr>ci_SchemaVersion = rx_SchemaV1, ci_OperationID = operationID,
      ci_PersonalWorkspaceID = si_PersonalWorkspaceID start, ci_TaskID = si_TaskID start,
      ci_PhaseRunID = si_PhaseRunID start, ci_RuntimeRunID = si_RuntimeRunID start,
      ci_ExpectedRuntimeRevision = si_ExpectedRuntimeRevision start + 1,
      ci_ExpectedStartOperationID = si_OperationID start,
      ci_ExpectedOperationGeneration = si_ExpectedOperationGeneration start + 1,
      ci_ExpectedRuntimeFence = si_ExpectedRuntimeFence start + 1,
      ci_Authority = si_Authority start,
      ci_Reason = (if reason = CancelReasonSafety then CancellationAdministratorRequested
                   else CancellationUserRequested),
      ci_SafetyEpoch = si_ReleaseSafetyEpoch start, ci_OccurredAt = occurredAt\<rparr>"

definition canonicalRuntimeCancelEnactment ::
  "hashing \<Rightarrow> operationBinding \<Rightarrow> ident \<Rightarrow> ident \<Rightarrow> enum8 \<Rightarrow> int \<Rightarrow> error_code + (json option \<times> digest)" where
  "canonicalRuntimeCancelEnactment h binding taskID operationID reason occurredAt =
     (if ob_canonicalPayload binding = None \<or> ob_payloadDigest binding = zero_digest
      then Inl ErrorInvalidIntent
      else case ParseCanonicalStartPayload h (ob_canonicalPayload binding) (ob_payloadDigest binding) of
        Inl _ \<Rightarrow> Inl ErrorIntegrityConflict
      | Inr parsed \<Rightarrow>
          let start = sr_Input parsed in
          if si_TaskID start \<noteq> taskID \<or> si_PhaseRunID start \<noteq> ob_phaseRunID binding \<or>
             si_RuntimeRunID start \<noteq> ob_runtimeRunID binding then Inl ErrorIntegrityConflict
          else if \<not> rx_validOpaqueID operationID then Inl ErrorInvalidIntent
          else case NewCancelRuntimeRun h (cancelInput start operationID reason occurredAt) of
            Inl _ \<Rightarrow> Inl ErrorInvalidIntent
          | Inr cancel \<Rightarrow>
              (case CanonicalCancelPayload h cancel of
                 Inl _ \<Rightarrow> Inl ErrorInvalidIntent
               | Inr payload \<Rightarrow> Inr (payload, cr_CanonicalRequestDigest cancel)))"

section \<open>Enactment references\<close>

definition harnessEnactment ::
  "hashing \<Rightarrow> ident \<Rightarrow> EnactmentKind \<Rightarrow> EnactmentFenceRef \<Rightarrow> u64 \<Rightarrow> ident \<Rightarrow> ident \<Rightarrow> ident \<Rightarrow> ident \<Rightarrow> ident \<Rightarrow>
   EnactmentRef" where
  "harnessEnactment h operationID kind fence activityGeneration decisionID phaseRunID runtimeRunID
     taskWorkspaceID inputArtifactVersionID =
     \<lparr>en_OperationID = operationID, en_Kind = kind,
      en_PayloadDigest = hs_text h
        (decimal (nat (enactment_kind_code kind)) @ ''|'' @ operationID @ ''|'' @ phaseRunID @ ''|'' @
         runtimeRunID @ ''|'' @ taskWorkspaceID @ ''|'' @ inputArtifactVersionID),
      en_ActivityGeneration = activityGeneration, en_Fence = fence,
      en_CausationID = causationOf decisionID\<rparr>"

definition harnessEnactmentWithPayload ::
  "ident \<Rightarrow> EnactmentKind \<Rightarrow> digest \<Rightarrow> EnactmentFenceRef \<Rightarrow> u64 \<Rightarrow> ident \<Rightarrow> EnactmentRef" where
  "harnessEnactmentWithPayload operationID kind payloadDigest fence activityGeneration decisionID =
     \<lparr>en_OperationID = operationID, en_Kind = kind, en_PayloadDigest = payloadDigest,
      en_ActivityGeneration = activityGeneration, en_Fence = fence,
      en_CausationID = causationOf decisionID\<rparr>"

section \<open>A started run can be cancelled\<close>

text \<open>The digests of a pinned catalog are arrays of 32 bytes.\<close>

definition pinned_typed :: "PinnedTaskStart \<Rightarrow> bool" where
  "pinned_typed p \<longleftrightarrow>
     (\<forall>b. pn_CatalogBinding p = Some b \<longrightarrow>
        length (pk_TemplateManifestDigest b) = 32 \<and> length (pk_TemplatePackageDigest b) = 32 \<and>
        length (pk_TemplateLockDigest b) = 32 \<and> length (pk_ClosureRootDigest b) = 32 \<and>
        (\<forall>c \<in> set (pk_BundleClosure b). length (rb_ManifestDigest c) = 32 \<and> length (rb_PackageDigest c) = 32))"

lemma catalog_materials_typed:
  assumes "pinned_typed p" and "pn_CatalogBinding p = Some b" and "(i, d) \<in> set (catalog_materials b)"
  shows "length d = 32"
  using assms by (auto simp: pinned_typed_def catalog_materials_def bundle_materials_def)

lemma startCatalog_typed:
  assumes catalog: "startCatalog h p runtimeRunID = Some (manifest, inputs, binding)"
    and typed: "pinned_typed p" and hashing: "proper_hashing h"
  shows "length (im_Digest manifest) = 32 \<and> length (im_MaterializationEvidenceDigest manifest) = 32 \<and>
         (\<forall>i \<in> set inputs. length (ii_Digest i) = 32) \<and>
         (\<forall>b. binding = Some b \<longrightarrow> length (cb_TemplateLockDigest b) = 32 \<and> length (cb_ClosureRootDigest b) = 32)"
proof (cases "pn_Route p = RouteGeneration")
  case True
  have hash: "length (hs_value h d v) = 32" for d v using hashing by (rule proper_hashingD)
  from True catalog obtain c where c: "pn_CatalogBinding p = Some c"
    and bindings: "runtimeCatalogEnactmentBindings h p (''input-manifest-'' @ runtimeRunID) =
      Some (manifest, inputs, the binding)" "binding \<noteq> None"
    by (auto simp: startCatalog_def runtimeCatalogEnactmentBindings_def Let_def
        split: if_splits option.splits)
  have mats: "\<forall>(i, d) \<in> set (catalog_materials c). length d = 32"
    using catalog_materials_typed [OF typed c] by blast
  from bindings obtain b where b: "binding = Some b" by auto
  have lock: "length (pk_TemplateLockDigest c) = 32" "length (pk_ClosureRootDigest c) = 32"
    using typed c by (auto simp: pinned_typed_def)
  have "length (ii_Digest i) = 32" if "i \<in> set inputs" for i
  proof -
    from that bindings(1) c obtain k d where "(k, d) \<in> set (catalog_materials c)" "ii_Digest i = d"
      by (auto simp: runtimeCatalogEnactmentBindings_def Let_def split: if_splits)
    with mats show ?thesis by auto
  qed
  moreover have "length (im_Digest manifest) = 32" "im_MaterializationEvidenceDigest manifest = pk_TemplateLockDigest c"
    "cb_TemplateLockDigest b = pk_TemplateLockDigest c" "cb_ClosureRootDigest b = pk_ClosureRootDigest c"
    using bindings(1) c
    by (auto simp: b runtimeCatalogEnactmentBindings_def Let_def
        runtimeCatalogInputManifestDigest_def hash split: if_splits)
  ultimately show ?thesis using lock by (simp add: b)
next
  case False
  with catalog hashing show ?thesis
    by (auto simp: startCatalog_def Let_def runtimeEnactmentDigest_def zero_digest_def split: if_splits)
qed

lemma startInput_typed:
  assumes "startCatalog h (ag_pinned a) rtID = Some catalog"
    and "pinned_typed (ag_pinned a)" and hashing: "proper_hashing h"
  shows "digests_typed (startInput h r a phase run taskID runtimeRunID operationID occurredAt catalog)"
proof -
  obtain manifest inputs binding where c: "catalog = (manifest, inputs, binding)" by (cases catalog)
  note typed = startCatalog_typed [OF assms(1) [unfolded c] assms(2,3)]
  have hash: "length (runtimeEnactmentDigest h d vs) = 32" for d vs
    using hashing by (auto simp: runtimeEnactmentDigest_def)
  show ?thesis
    using typed by (auto simp: digests_typed_def startInput_def c Let_def hash runtimeViewOf_def list_all_iff)
qed

lemma rx_Major_SchemaV1: "rx_Major rx_SchemaV1 \<noteq> 0"
  by code_simp

text \<open>What a started runtime run consists of: the accepted request, its payload and its digest.\<close>

lemma startEnactment_Inr:
  assumes "canonicalRuntimeStartEnactment h r a phase run runtimeRunID operationID header decisionID = Inr (rt, ref)"
  obtains taskID catalog start where
    "taskID = (if validOpaqueID (tp_TaskID (td_TaskProjection (tr_latestDecision r)))
               then tp_TaskID (td_TaskProjection (tr_latestDecision r)) else ih_TaskID header)"
    and "startCatalog h (ag_pinned a) runtimeRunID = Some catalog"
    and "NewCanonicalStartRuntimeRun h
          (startInput h r a phase run taskID runtimeRunID operationID (ih_OccurredAt header) catalog) = Inr start"
    and "CanonicalStartPayload h start = Inr (rt_canonicalPayload rt)"
    and "rt_payloadDigest rt = sr_CanonicalRequestDigest start"
    and "rt_id rt = runtimeRunID" and "rt_operationID rt = operationID"
    and "rt_outcome rt = RuntimeRunPending" and "en_OperationID ref = operationID"
  using assms
  by (auto simp: canonicalRuntimeStartEnactment_def Let_def split: if_splits option.splits sum.splits
      intro: that)


end
