(* ===== verification/Orch_Aggregate.thy ===== *)
theory Orch_Aggregate
  imports Orch_Enactment
begin

text \<open>
  The transitions of the task aggregate (\<open>applyAggregateIntent\<close> and the handlers it calls in
  \<open>backend/internal/taskorchestration/harness.go\<close>): starting a task, beginning and retrying a
  phase, retrying a runtime run, the acceptance of each kind of evidence, confirmation,
  manual edit and cancellation.

  A handler reads the record and changes only its aggregate, so it takes both and returns the
  new aggregate with the allocator, the affected phase runs and the enactments, or an error;
  writing the aggregate back into the record is \<open>applyAggregateIntent\<close>. A pointer to a phase
  run is the run itself, written back with \<open>put_run\<close>.
\<close>

type_synonym applied = "taskAggregate \<times> idAllocator \<times> ident list \<times> EnactmentRef list"

section \<open>Finishing and failing a phase\<close>

definition finishAggregatePhase :: "taskAggregate \<Rightarrow> phaseRunRecord \<Rightarrow> PhaseDefinition \<Rightarrow> taskAggregate" where
  "finishAggregatePhase a run phase =
     (let a' = a\<lparr>ag_phaseRuns := put_run (run\<lparr>pr_outcome := PhaseRunSucceeded\<rparr>) (ag_phaseRuns a),
                 ag_activePhaseRunID := [], ag_currentPhase := ph_NextPhase phase\<rparr> in
      if ph_NextPhase phase = [] then a'\<lparr>ag_status := TaskCompleted, ag_activity := ActivityNone\<rparr>
      else a'\<lparr>ag_status := TaskRunning\<rparr>)"

definition failAggregatePhase :: "taskAggregate \<Rightarrow> phaseRunRecord \<Rightarrow> taskAggregate" where
  "failAggregatePhase a run =
     a\<lparr>ag_phaseRuns := put_run (run\<lparr>pr_outcome := PhaseRunFailed\<rparr>) (ag_phaseRuns a),
       ag_activePhaseRunID := [], ag_status := TaskFailed\<rparr>"

section \<open>Starting\<close>

definition startAggregate :: "PinnedTaskStart \<Rightarrow> RouteDefinition \<Rightarrow> taskAggregate" where
  "startAggregate pinned route =
     \<lparr>ag_status = TaskReady, ag_route = pn_Route pinned, ag_activity = ActivityGenerationPipeline,
      ag_pinned = pinned, ag_currentPhase = rd_EntryPhase route, ag_activePhaseRunID = [],
      ag_phaseRuns = [], ag_latestArtifactVersionID = [], ag_activitySourceArtifactVersionID = [],
      ag_reconstructionRequired = False, ag_reconstructionAccepted = False,
      ag_reconstructionOperationID = [], ag_lifecycleGeneration = 0, ag_lifecycleFence = 0\<rparr>"

definition newPhaseRun :: "taskAggregate \<Rightarrow> PhaseDefinition \<Rightarrow> ident \<Rightarrow> u32 \<Rightarrow> phaseRunRecord" where
  "newPhaseRun a phase i attempt =
     \<lparr>pr_id = i, pr_phaseKey = ph_Key phase, pr_attempt = attempt, pr_generation = ucast attempt,
      pr_fence = ucast attempt, pr_outcome = PhaseRunRunning, pr_validationOutcome = 0,
      pr_lifecycleOutcome = 0, pr_revisionID = [], pr_checkpointID = [], pr_lifecycleOperationID = [],
      pr_publicationOutcome = 0, pr_artifactVersionID = [], pr_publicationOperationID = [],
      pr_runtimeRuns = [], pr_taskWorkspaceID = pn_TaskWorkspaceID (ag_pinned a),
      pr_inputArtifactVersionID = ag_activitySourceArtifactVersionID a\<rparr>"

text \<open>The attempt number: one more than the last attempt of the phase found so far.\<close>

definition nextAttempt :: "ident \<Rightarrow> phaseRunRecord list \<Rightarrow> u32" where
  "nextAttempt key runs =
     foldl (\<lambda>attempt prior.
       if pr_phaseKey prior = key \<and> pr_attempt prior \<ge> attempt then pr_attempt prior + 1 else attempt) 1 runs"

fun startRuntimeRuns ::
  "hashing \<Rightarrow> taskRecord \<Rightarrow> taskAggregate \<Rightarrow> PhaseDefinition \<Rightarrow> phaseRunRecord \<Rightarrow> IntentHeader \<Rightarrow> ident \<Rightarrow> nat \<Rightarrow>
   idAllocator \<Rightarrow> error_code + (runtimeRunRecord list \<times> EnactmentRef list \<times> idAllocator)" where
  "startRuntimeRuns h r a phase run header decisionID 0 ids = Inr ([], [], ids)"
| "startRuntimeRuns h r a phase run header decisionID (Suc n) ids =
     (let (runtimeRunID, ids) = nextRuntimeRunID ids; (operationID, ids) = nextOperationID ids in
      result_bind (canonicalRuntimeStartEnactment h r a phase run runtimeRunID operationID header decisionID)
        (\<lambda>(rt, ref).
      result_bind (startRuntimeRuns h r a phase run header decisionID n ids) (\<lambda>(rts, refs, ids).
      Inr (rt # rts, ref # refs, ids))))"

definition beginAggregatePhase ::
  "hashing \<Rightarrow> taskRecord \<Rightarrow> taskAggregate \<Rightarrow> IntentHeader \<Rightarrow> idAllocator \<Rightarrow> ident \<Rightarrow> error_code + applied" where
  "beginAggregatePhase h r a header ids decisionID =
     (if (ag_status a \<noteq> TaskReady \<and> ag_status a \<noteq> TaskRunning) \<or> ag_activePhaseRunID a \<noteq> []
      then Inl ErrorTerminalConflict
      else if ag_reconstructionRequired a \<and> \<not> ag_reconstructionAccepted a then Inl ErrorTerminalConflict
      else case currentPhaseDefinition a of
        None \<Rightarrow> Inl ErrorUnsupportedPipelineContract
      | Some phase \<Rightarrow>
          let (runID, ids) = nextPhaseRunID ids;
              run = newPhaseRun a phase runID (nextAttempt (ph_Key phase) (ag_phaseRuns a));
              a = a\<lparr>ag_status := TaskRunning\<rparr> in
          result_bind (startRuntimeRuns h r a phase run header decisionID
              (unat (ph_RequiredRuntimeRuns phase)) ids) (\<lambda>(rts, refs, ids).
          let run = run\<lparr>pr_runtimeRuns := rts\<rparr>;
              (gateRefs, ids, a) =
                (if ph_Kind phase = PhaseConfirmationGate
                 then (let (operationID, ids) = nextOperationID ids in
                   ([harnessEnactment h operationID EnactmentPresentConfirmationGate
                       (ConfirmationFence (pr_fence run)) (ih_ActivityGeneration header) decisionID
                       (pr_id run) [] (pr_taskWorkspaceID run) (pr_inputArtifactVersionID run)],
                    ids, a\<lparr>ag_status := TaskAwaitingConfirmation\<rparr>))
                 else ([], ids, a));
              (publicationRefs, ids, run) =
                (if ph_Kind phase = PhasePublication
                 then (let (operationID, ids) = nextOperationID ids in
                   ([harnessEnactment h operationID EnactmentArtifactPublication
                       (PublicationFence (pr_fence run)) (ih_ActivityGeneration header) decisionID
                       (pr_id run) [] (pr_taskWorkspaceID run) (pr_inputArtifactVersionID run)],
                    ids, run\<lparr>pr_publicationOperationID := operationID\<rparr>))
                 else ([], ids, run)) in
          Inr (a\<lparr>ag_phaseRuns := ag_phaseRuns a @ [run], ag_activePhaseRunID := runID\<rparr>,
               ids, [runID], refs @ gateRefs @ publicationRefs)))"

definition retryAggregatePhase ::
  "hashing \<Rightarrow> taskRecord \<Rightarrow> taskAggregate \<Rightarrow> IntentHeader \<Rightarrow> ident \<Rightarrow> idAllocator \<Rightarrow> ident \<Rightarrow>
   error_code + applied" where
  "retryAggregatePhase h r a header phaseRunID ids decisionID =
     (if ag_status a \<noteq> TaskFailed \<or> ag_activePhaseRunID a \<noteq> [] then Inl ErrorTerminalConflict
      else case currentPhaseDefinition a of
        None \<Rightarrow> Inl ErrorTerminalConflict
      | Some phase \<Rightarrow>
          if \<not> ph_RetryEligible phase then Inl ErrorTerminalConflict
          else (case find_elem (\<lambda>run. pr_id run = phaseRunID) (rev (ag_phaseRuns a)) of
                  None \<Rightarrow> Inl ErrorTerminalConflict
                | Some failed \<Rightarrow>
                    if pr_phaseKey failed \<noteq> ph_Key phase \<or> pr_outcome failed \<noteq> PhaseRunFailed
                    then Inl ErrorTerminalConflict
                    else beginAggregatePhase h r (a\<lparr>ag_status := TaskRunning\<rparr>) header ids decisionID))"

definition retryAggregateRuntimeRun ::
  "hashing \<Rightarrow> taskRecord \<Rightarrow> taskAggregate \<Rightarrow> IntentHeader \<Rightarrow> ident \<Rightarrow> ident \<Rightarrow> idAllocator \<Rightarrow> ident \<Rightarrow>
   error_code + applied" where
  "retryAggregateRuntimeRun h r a header phaseRunID runtimeRunID ids decisionID =
     (if ag_status a \<noteq> TaskRunning \<or> ag_activePhaseRunID a \<noteq> phaseRunID then Inl ErrorTerminalConflict
      else case currentPhaseDefinition a of
        None \<Rightarrow> Inl ErrorTerminalConflict
      | Some phase \<Rightarrow>
          if \<not> ph_RetryEligible phase \<or> ph_RequiredRuntimeRuns phase = 0 then Inl ErrorTerminalConflict
          else (case activePhaseRun a phaseRunID of
                  None \<Rightarrow> Inl ErrorTerminalConflict
                | Some run \<Rightarrow>
                    if pr_phaseKey run \<noteq> ph_Key phase \<or> pr_outcome run \<noteq> PhaseRunRunning \<or>
                       pr_validationOutcome run \<noteq> 0 then Inl ErrorTerminalConflict
                    else if \<not> list_ex (\<lambda>rt. rt_id rt = runtimeRunID \<and> rt_outcome rt = RuntimeRunFailed)
                          (pr_runtimeRuns run) then Inl ErrorTerminalConflict
                    else
                      let (newRunID, ids) = nextRuntimeRunID ids; (operationID, ids) = nextOperationID ids in
                      result_bind
                        (canonicalRuntimeStartEnactment h r a phase run newRunID operationID header decisionID)
                        (\<lambda>(rt, ref).
                      Inr (a\<lparr>ag_phaseRuns := put_run
                             (run\<lparr>pr_runtimeRuns := pr_runtimeRuns run @ [rt]\<rparr>) (ag_phaseRuns a)\<rparr>,
                           ids, [pr_id run], [ref]))))"

section \<open>Evidence and confirmation\<close>

definition acceptAggregateConfirmation :: "taskAggregate \<Rightarrow> ident \<Rightarrow> idAllocator \<Rightarrow> error_code + applied" where
  "acceptAggregateConfirmation a gateID ids =
     (if ag_status a \<noteq> TaskAwaitingConfirmation then Inl ErrorTerminalConflict
      else case activePhaseRun a (ag_activePhaseRunID a) of
        None \<Rightarrow> Inl ErrorTerminalConflict
      | Some run \<Rightarrow>
          (case currentPhaseDefinition a of
             None \<Rightarrow> Inl ErrorEvidenceScopeConflict
           | Some phase \<Rightarrow>
               if ph_Kind phase \<noteq> PhaseConfirmationGate \<or> ph_GateID phase \<noteq> gateID
               then Inl ErrorEvidenceScopeConflict
               else Inr (finishAggregatePhase a run phase, ids, [pr_id run], [])))"

text \<open>The first runtime run with the identifier gets the outcome, if its operation matches.\<close>

fun setRuntimeOutcome ::
  "ident \<Rightarrow> ident \<Rightarrow> enum8 \<Rightarrow> runtimeRunRecord list \<Rightarrow> error_code + runtimeRunRecord list" where
  "setRuntimeOutcome runtimeRunID operationID outcome [] = Inl ErrorEvidenceScopeConflict"
| "setRuntimeOutcome runtimeRunID operationID outcome (rt # rts) =
     (if rt_id rt \<noteq> runtimeRunID
      then result_bind (setRuntimeOutcome runtimeRunID operationID outcome rts) (\<lambda>rts. Inr (rt # rts))
      else if rt_operationID rt \<noteq> operationID then Inl ErrorEvidenceScopeConflict
      else Inr (rt\<lparr>rt_outcome := outcome\<rparr> # rts))"

definition acceptAggregateRuntimeEvidence ::
  "taskAggregate \<Rightarrow> RuntimeEvidenceBinding \<Rightarrow> idAllocator \<Rightarrow> error_code + applied" where
  "acceptAggregateRuntimeEvidence a b ids =
     (if runtimeRunOutcomeName (re_Outcome b) = [] then Inl ErrorEvidenceInvalid
      else case activePhaseRun a (re_PhaseRunID b) of
        None \<Rightarrow> Inl ErrorEvidenceScopeConflict
      | Some run \<Rightarrow>
          result_bind (setRuntimeOutcome (re_RuntimeRunID b) (re_OperationID b) (re_Outcome b)
              (pr_runtimeRuns run)) (\<lambda>rts.
          Inr (a\<lparr>ag_phaseRuns := put_run (run\<lparr>pr_runtimeRuns := rts\<rparr>) (ag_phaseRuns a)\<rparr>,
               ids, [pr_id run], [])))"

definition acceptAggregateRuntimeOrCoordinationEvidence ::
  "taskAggregate \<Rightarrow> RuntimeEvidenceBinding \<Rightarrow> idAllocator \<Rightarrow> error_code + applied" where
  "acceptAggregateRuntimeOrCoordinationEvidence a b ids =
     (if \<not> aggregateHasRuntimeOperation a (re_OperationID b) then Inr (a, ids, [], [])
      else acceptAggregateRuntimeEvidence a b ids)"

definition validLifecycleCommit ::
  "taskRecord \<Rightarrow> taskAggregate \<Rightarrow> phaseRunRecord \<Rightarrow> ident \<Rightarrow> lifecycleRequestBinding \<Rightarrow> bool" where
  "validLifecycleCommit r a run taskID b =
     (lifecycleRequest_valid b \<and> lb_taskID b = taskID \<and> lb_phaseRunID b = pr_id run \<and>
      lb_taskWorkspaceID b = pr_taskWorkspaceID run \<and> \<not> hasOperationID r (lb_operationID b) \<and>
      (tr_latestRevisionID r = [] \<or> lb_expectedRevision b = tr_latestRevisionID r) \<and>
      (ag_lifecycleGeneration a = 0 \<or> lb_generation b = ag_lifecycleGeneration a) \<and>
      (ag_lifecycleFence a = 0 \<or> lb_fence b = ag_lifecycleFence a))"

definition acceptAggregateValidationEvidence ::
  "taskRecord \<Rightarrow> taskAggregate \<Rightarrow> IntentHeader \<Rightarrow> ValidationEvidenceBinding \<Rightarrow> idAllocator \<Rightarrow> ident \<Rightarrow>
   error_code + applied" where
  "acceptAggregateValidationEvidence r a header b ids decisionID =
     (if phaseValidationOutcomeName (ve_Outcome b) = [] then Inl ErrorEvidenceInvalid
      else case activePhaseRun a (ve_PhaseRunID b) of
        None \<Rightarrow> Inl ErrorEvidenceScopeConflict
      | Some run \<Rightarrow>
          (case currentPhaseDefinition a of
             None \<Rightarrow> Inl ErrorEvidenceScopeConflict
           | Some phase \<Rightarrow>
               if ph_ValidationContract phase = PhaseValidationNone then Inl ErrorEvidenceScopeConflict
               else if ve_Outcome b = PhaseValidationRejected
               then Inr (failAggregatePhase a (run\<lparr>pr_validationOutcome := ve_Outcome b\<rparr>), ids, [pr_id run], [])
               else if ph_ValidationContract phase \<noteq> PhaseValidationAllRuntimeRunsSucceeded
               then Inl ErrorUnsupportedPipelineContract
               else if list_ex (\<lambda>rt. rt_outcome rt = RuntimeRunPending) (pr_runtimeRuns run)
               then Inl ErrorEvidenceInvalid
               else if length (filter (\<lambda>rt. rt_outcome rt = RuntimeRunSucceeded) (pr_runtimeRuns run))
                         < unat (ph_RequiredRuntimeRuns phase) then Inl ErrorEvidenceInvalid
               else
                 let run = run\<lparr>pr_validationOutcome := ve_Outcome b\<rparr> in
                 if ph_Kind phase = PhaseNonMutating
                 then (if lifecycleRequest_valid (ve_LifecycleCommit b) then Inl ErrorEvidenceScopeConflict
                       else Inr (finishAggregatePhase a run phase, ids, [pr_id run], []))
                 else
                   let c = ve_LifecycleCommit b in
                   if \<not> validLifecycleCommit r a run (ih_TaskID header) c then Inl ErrorEvidenceScopeConflict
                   else Inr
                     (a\<lparr>ag_lifecycleGeneration := lb_generation c, ag_lifecycleFence := lb_fence c,
                        ag_phaseRuns := put_run (run\<lparr>pr_lifecycleOperationID := lb_operationID c\<rparr>)
                          (ag_phaseRuns a)\<rparr>,
                      ids, [pr_id run],
                      [harnessEnactmentWithPayload (lb_operationID c) EnactmentTaskWorkspaceLifecycle
                         (lb_payloadDigest c) (TaskWorkspaceLifecycleFence (lb_fence c))
                         (ih_ActivityGeneration header) decisionID])))"


text \<open>
  Evidence on a cancelling task: a commit that was validated before the cancellation is still
  recorded, the cancellation fence ends the task.
\<close>

definition cancellingLifecycleEvidence ::
  "taskRecord \<Rightarrow> taskAggregate \<Rightarrow> phaseRunRecord \<Rightarrow> LifecycleEvidenceBinding \<Rightarrow> error_code + taskAggregate" where
  "cancellingLifecycleEvidence r a run b =
     (case map_of (tr_lifecycleOperations r) (le_OperationID b) of
        None \<Rightarrow> Inl ErrorEvidenceScopeConflict
      | Some operation \<Rightarrow>
          if ob_phaseRunID operation \<noteq> pr_id run then Inl ErrorEvidenceScopeConflict
          else if le_Outcome b = TaskWorkspaceLifecycleCommitted
          then (if ob_purpose operation \<noteq> LifecycleOperationCommit \<or>
                   pr_lifecycleOperationID run \<noteq> le_OperationID b \<or>
                   pr_validationOutcome run \<noteq> PhaseValidationAccepted
                then Inl ErrorEvidenceScopeConflict
                else Inr (a\<lparr>ag_phaseRuns := put_run
                  (run\<lparr>pr_lifecycleOutcome := le_Outcome b, pr_revisionID := le_RevisionID b,
                       pr_checkpointID := le_CheckpointID b, pr_outcome := PhaseRunSucceeded\<rparr>)
                  (ag_phaseRuns a)\<rparr>))
          else if le_Outcome b = TaskWorkspaceLifecycleFenced
          then (if ob_purpose operation \<noteq> LifecycleOperationCancellationFence
                then Inl ErrorEvidenceScopeConflict
                else Inr (a\<lparr>ag_phaseRuns := put_run
                    (run\<lparr>pr_lifecycleOutcome := le_Outcome b, pr_outcome := PhaseRunCancelled\<rparr>)
                    (ag_phaseRuns a),
                  ag_activePhaseRunID := [], ag_status := TaskCancelled, ag_activity := ActivityNone\<rparr>))
          else Inl ErrorEvidenceScopeConflict)"

definition acceptAggregateTaskWorkspaceLifecycleEvidence ::
  "taskRecord \<Rightarrow> taskAggregate \<Rightarrow> LifecycleEvidenceBinding \<Rightarrow> idAllocator \<Rightarrow> error_code + applied" where
  "acceptAggregateTaskWorkspaceLifecycleEvidence r a b ids =
     (if taskWorkspaceLifecycleOutcomeName (le_Outcome b) = [] then Inl ErrorEvidenceInvalid
      else case activePhaseRun a (le_PhaseRunID b) of
        None \<Rightarrow> Inl ErrorEvidenceScopeConflict
      | Some run \<Rightarrow>
          (case currentPhaseDefinition a of
             None \<Rightarrow> Inl ErrorEvidenceScopeConflict
           | Some phase \<Rightarrow>
               if ph_Kind phase \<noteq> PhaseMutating then Inl ErrorEvidenceScopeConflict
               else
                 let a = a\<lparr>ag_lifecycleGeneration := le_ObservedGeneration b,
                           ag_lifecycleFence := le_ObservedFence b\<rparr> in
                 if ag_status a = TaskCancelling
                 then result_bind (cancellingLifecycleEvidence r a run b) (\<lambda>a. Inr (a, ids, [pr_id run], []))
                 else if pr_lifecycleOperationID run \<noteq> le_OperationID b \<or>
                         pr_validationOutcome run \<noteq> PhaseValidationAccepted \<or>
                         le_Outcome b = TaskWorkspaceLifecycleFenced
                 then Inl ErrorEvidenceScopeConflict
                 else
                   let run = run\<lparr>pr_lifecycleOutcome := le_Outcome b\<rparr> in
                   if le_Outcome b = TaskWorkspaceLifecycleRejected
                   then Inr (failAggregatePhase a run, ids, [pr_id run], [])
                   else Inr (finishAggregatePhase a
                     (run\<lparr>pr_revisionID := le_RevisionID b, pr_checkpointID := le_CheckpointID b\<rparr>) phase,
                     ids, [pr_id run], [])))"

definition acceptAggregateTaskWorkspaceReconstructionEvidence ::
  "taskAggregate \<Rightarrow> ReconstructionEvidenceBinding \<Rightarrow> idAllocator \<Rightarrow> error_code + applied" where
  "acceptAggregateTaskWorkspaceReconstructionEvidence a b ids =
     (if ag_activity a \<noteq> ActivityManualEdit \<or> \<not> ag_reconstructionRequired a \<or>
         ag_reconstructionAccepted a \<or> ag_reconstructionOperationID a \<noteq> ce_OperationID b \<or>
         ag_activitySourceArtifactVersionID a \<noteq> ce_ArtifactVersionID b
      then Inl ErrorEvidenceScopeConflict
      else Inr (a\<lparr>ag_reconstructionAccepted := True, ag_lifecycleGeneration := ce_ObservedGeneration b,
                  ag_lifecycleFence := ce_ObservedFence b\<rparr>, ids, [], []))"

definition acceptAggregatePublicationEvidence ::
  "taskAggregate \<Rightarrow> PublicationEvidenceBinding \<Rightarrow> idAllocator \<Rightarrow> error_code + applied" where
  "acceptAggregatePublicationEvidence a b ids =
     (if publicationOutcomeName (pe_Outcome b) = [] then Inl ErrorEvidenceInvalid
      else case activePhaseRun a (pe_PhaseRunID b) of
        None \<Rightarrow> Inl ErrorEvidenceScopeConflict
      | Some run \<Rightarrow>
          if pr_publicationOperationID run \<noteq> pe_OperationID b then Inl ErrorEvidenceScopeConflict
          else (case currentPhaseDefinition a of
             None \<Rightarrow> Inl ErrorEvidenceScopeConflict
           | Some phase \<Rightarrow>
               if ph_Kind phase \<noteq> PhasePublication then Inl ErrorEvidenceScopeConflict
               else
                 let run = run\<lparr>pr_publicationOutcome := pe_Outcome b\<rparr> in
                 if pe_Outcome b = PublicationRejected
                 then Inr (failAggregatePhase a run, ids, [pr_id run], [])
                 else Inr (finishAggregatePhase
                     (a\<lparr>ag_latestArtifactVersionID := pe_ArtifactVersionID b\<rparr>)
                     (run\<lparr>pr_artifactVersionID := pe_ArtifactVersionID b\<rparr>) phase,
                   ids, [pr_id run], [])))"

section \<open>Cancellation and manual edit\<close>

definition cancelAggregateTask :: "taskAggregate \<Rightarrow> idAllocator \<Rightarrow> error_code + applied" where
  "cancelAggregateTask a ids =
     (if ag_status a = TaskCompleted \<or> ag_status a = TaskCancelled \<or> ag_status a = TaskCancelling
      then Inl ErrorTerminalConflict
      else if ag_activePhaseRunID a = []
      then Inr (a\<lparr>ag_status := TaskCancelled, ag_activity := ActivityNone\<rparr>, ids, [], [])
      else (case (activePhaseRun a (ag_activePhaseRunID a), currentPhaseDefinition a) of
              (Some run, Some phase) \<Rightarrow>
                if ph_Kind phase = PhaseMutating
                then Inr (a\<lparr>ag_status := TaskCancelling\<rparr>, ids, [pr_id run], [])
                else Inr (a\<lparr>ag_phaseRuns := put_run (run\<lparr>pr_outcome := PhaseRunCancelled\<rparr>) (ag_phaseRuns a),
                          ag_activePhaseRunID := [], ag_status := TaskCancelled,
                          ag_activity := ActivityNone\<rparr>, ids, [pr_id run], [])
            | _ \<Rightarrow> Inl ErrorUnsupportedPipelineContract))"

definition validReconstruction ::
  "taskRecord \<Rightarrow> taskAggregate \<Rightarrow> ident \<Rightarrow> ident \<Rightarrow> reconstructionRequestBinding \<Rightarrow> bool" where
  "validReconstruction r a taskID artifactVersionID b =
     (reconstructionRequest_valid b \<and> rr_taskID b = taskID \<and>
      rr_taskWorkspaceID b = pn_TaskWorkspaceID (ag_pinned a) \<and>
      rr_artifactVersionID b = artifactVersionID \<and> \<not> hasOperationID r (rr_operationID b) \<and>
      (tr_latestRevisionID r = [] \<or> rr_expectedRevision b = tr_latestRevisionID r) \<and>
      (tr_latestCheckpointID r = [] \<or> rr_expectedCheckpoint b = tr_latestCheckpointID r) \<and>
      (ag_lifecycleGeneration a = 0 \<or> rr_generation b = ag_lifecycleGeneration a) \<and>
      (ag_lifecycleFence a = 0 \<or> rr_fence b = ag_lifecycleFence a))"

definition beginAggregateManualEdit ::
  "taskRecord \<Rightarrow> taskAggregate \<Rightarrow> IntentHeader \<Rightarrow> manualEditPayload \<Rightarrow> idAllocator \<Rightarrow> ident \<Rightarrow>
   error_code + applied" where
  "beginAggregateManualEdit r a header m ids decisionID =
     (if ag_status a \<noteq> TaskCompleted \<or> ag_activity a \<noteq> ActivityNone \<or>
         ag_latestArtifactVersionID a \<noteq> me_artifactVersionID m \<or>
         ih_ActivityGeneration header \<noteq> tr_activityGeneration r + 1 then Inl ErrorTerminalConflict
      else case contract_manualEdit (el_PipelineContract (pn_ExecutionLock (ag_pinned a))) of
        None \<Rightarrow> Inl ErrorUnsupportedPipelineContract
      | Some (entry, _) \<Rightarrow>
          let a = a\<lparr>ag_status := TaskRunning, ag_activity := ActivityManualEdit, ag_currentPhase := entry,
                    ag_activePhaseRunID := [], ag_activitySourceArtifactVersionID := me_artifactVersionID m,
                    ag_reconstructionRequired := me_reconstructionRequired m,
                    ag_reconstructionAccepted := \<not> me_reconstructionRequired m,
                    ag_reconstructionOperationID := []\<rparr>;
              b = me_reconstructionRequest m in
          if \<not> me_reconstructionRequired m then Inr (a, ids, [], [])
          else if \<not> validReconstruction r a (ih_TaskID header) (me_artifactVersionID m) b
          then Inl ErrorEvidenceScopeConflict
          else Inr (a\<lparr>ag_lifecycleGeneration := rr_generation b, ag_lifecycleFence := rr_fence b,
                      ag_reconstructionOperationID := rr_operationID b\<rparr>, ids, [],
                    [harnessEnactmentWithPayload (rr_operationID b) EnactmentTaskWorkspaceLifecycle
                       (rr_payloadDigest b) (TaskWorkspaceLifecycleFence (rr_fence b))
                       (ih_ActivityGeneration header) decisionID]))"

section \<open>Applying an intent\<close>

definition isAggregateBusinessIntent :: "IntentKind \<Rightarrow> bool" where
  "isAggregateBusinessIntent k =
     (k \<in> {IntentStartTask, IntentMakeWorkAvailable, IntentSubmitConfirmationGate, IntentRetryPhase,
           IntentRetryRuntimeRun, IntentCancelTask, IntentBeginManualEdit})"

text \<open>The intents a cancelling task still takes, and those of any other task.\<close>

fun applyCancelling ::
  "taskRecord \<Rightarrow> taskAggregate \<Rightarrow> intentPayload \<Rightarrow> idAllocator \<Rightarrow> error_code + applied" where
  "applyCancelling r a (LifecycleEvidencePayload b) ids = acceptAggregateTaskWorkspaceLifecycleEvidence r a b ids"
| "applyCancelling r a (RuntimeEvidencePayload b) ids = acceptAggregateRuntimeOrCoordinationEvidence a b ids"
| "applyCancelling r a (ReconcilePayload _ _) ids = Inr (a, ids, [], [])"
| "applyCancelling r a (OperationalFencePayload _) ids = Inr (a, ids, [], [])"
| "applyCancelling r a _ ids = Inl ErrorTerminalConflict"

fun applyHandler ::
  "hashing \<Rightarrow> taskRecord \<Rightarrow> taskAggregate \<Rightarrow> IntentHeader \<Rightarrow> intentPayload \<Rightarrow> idAllocator \<Rightarrow> ident \<Rightarrow>
   error_code + applied" where
  "applyHandler h r a header (OperationPayload _) ids d = beginAggregatePhase h r a header ids d"
| "applyHandler h r a header (RuntimeEvidencePayload b) ids d =
     acceptAggregateRuntimeOrCoordinationEvidence a b ids"
| "applyHandler h r a header (ValidationEvidencePayload b) ids d =
     acceptAggregateValidationEvidence r a header b ids d"
| "applyHandler h r a header (LifecycleEvidencePayload b) ids d =
     acceptAggregateTaskWorkspaceLifecycleEvidence r a b ids"
| "applyHandler h r a header (ReconstructionEvidencePayload b) ids d =
     acceptAggregateTaskWorkspaceReconstructionEvidence a b ids"
| "applyHandler h r a header (PublicationEvidencePayload b) ids d = acceptAggregatePublicationEvidence a b ids"
| "applyHandler h r a header (ConfirmationPayload gateID _) ids d = acceptAggregateConfirmation a gateID ids"
| "applyHandler h r a header (PhaseRunPayload phaseRunID) ids d =
     retryAggregatePhase h r a header phaseRunID ids d"
| "applyHandler h r a header (RuntimeRunRetryPayload phaseRunID runtimeRunID) ids d =
     retryAggregateRuntimeRun h r a header phaseRunID runtimeRunID ids d"
| "applyHandler h r a header (ManualEditPayload m) ids d = beginAggregateManualEdit r a header m ids d"
| "applyHandler h r a header (CancelPayload _ _) ids d = cancelAggregateTask a ids"
| "applyHandler h r a header (SchedulingEvidencePayload _) ids d = Inr (a, ids, [], [])"
| "applyHandler h r a header (ReconcilePayload _ _) ids d = Inr (a, ids, [], [])"
| "applyHandler h r a header (OperationalFencePayload _) ids d = Inr (a, ids, [], [])"
| "applyHandler h r a header EmptyPayload ids d = Inl ErrorInvalidIntent"
| "applyHandler h r a header (PinnedStartPayload _) ids d = Inl ErrorInvalidIntent"

definition applyAggregateIntent ::
  "hashing \<Rightarrow> taskRecord \<Rightarrow> intentValue \<Rightarrow> idAllocator \<Rightarrow> ident \<Rightarrow>
   error_code + (taskRecord \<times> idAllocator \<times> ident list \<times> EnactmentRef list)" where
  "applyAggregateIntent h r i ids decisionID =
     (if iv_kind i = IntentStartTask
      then (case iv_payload i of
              PinnedStartPayload p \<Rightarrow>
                if tr_aggregate r \<noteq> None then Inl ErrorTerminalConflict
                else (case contract_route (el_PipelineContract (pn_ExecutionLock (ps_pinned p)))
                             (pn_Route (ps_pinned p)) of
                        None \<Rightarrow> Inl ErrorUnsupportedPipelineContract
                      | Some route \<Rightarrow>
                          Inr (r\<lparr>tr_aggregate := Some (startAggregate (ps_pinned p) route)\<rparr>, ids, [], []))
            | _ \<Rightarrow> Inl ErrorInvalidIntent)
      else case tr_aggregate r of
        None \<Rightarrow> Inr (r, ids, [], [])
      | Some a \<Rightarrow>
          result_bind
            (if ag_status a = TaskCancelling then applyCancelling r a (iv_payload i) ids
             else applyHandler h r a (iv_header i) (iv_payload i) ids decisionID)
            (\<lambda>(a, ids, affected, refs). Inr (r\<lparr>tr_aggregate := Some a\<rparr>, ids, affected, refs)))"

end
