(* ===== verification/Orch_Coordination.thy ===== *)
theory Orch_Coordination
  imports Orch_Aggregate
begin

text \<open>
  The coordination bindings of a task (\<open>backend/internal/taskorchestration/harness.go\<close>): who may
  report on which operation and under which generation, fence and safety epoch
  (\<open>validateCoordinationBindings\<close> and what it calls), how the bindings follow the aggregate
  (\<open>syncAggregateCoordination\<close>), the enactments of a cancellation
  (\<open>buildCancellationEnactments\<close>) and what accepted evidence does to the bindings.

  The engine the methods belong to is, for them, the recovery binding it reads.
\<close>

section \<open>Checks\<close>

definition allowsCommitFirstEvidenceDuringCancellation :: "intentValue \<Rightarrow> taskRecord \<Rightarrow> bool" where
  "allowsCommitFirstEvidenceDuringCancellation i r =
     (if tr_cancellationState r \<noteq> CancellationCancelling \<or> tr_activityGeneration r = 0 then False
      else case iv_payload i of
        LifecycleEvidencePayload b \<Rightarrow>
          if le_Outcome b \<noteq> TaskWorkspaceLifecycleCommitted then False
          else (case map_of (tr_lifecycleOperations r) (le_OperationID b) of
                  None \<Rightarrow> False
                | Some operation \<Rightarrow>
                    ob_purpose operation = LifecycleOperationCommit \<and>
                    ob_activityGeneration operation = ih_ActivityGeneration (iv_header i) \<and>
                    ih_ActivityGeneration (iv_header i) + 1 = tr_activityGeneration r)
      | _ \<Rightarrow> False)"

definition validateCancellationFence :: "IntentKind \<Rightarrow> taskRecord \<Rightarrow> bool \<Rightarrow> error_code + unit" where
  "validateCancellationFence k r exists =
     (if \<not> exists \<or> tr_cancellationState r = CancellationNotRequested then Inr ()
      else if k \<in> {IntentAcceptRuntimeEvidence, IntentAcceptTaskWorkspaceLifecycleEvidence,
                   IntentReconcileEnactment, IntentApplyOperationalFence} then Inr ()
      else if k \<in> {IntentAcceptPhaseValidationEvidence, IntentAcceptPublicationEvidence,
                   IntentAcceptSchedulingEvidence} then Inl ErrorStaleAuthority
      else Inl ErrorTerminalConflict)"

definition validateAuthorityBinding :: "authorityValue \<Rightarrow> authorityValue \<Rightarrow> error_code + unit" where
  "validateAuthorityBinding expected actual =
     (if av_kind expected \<noteq> av_kind actual \<or> av_id expected \<noteq> av_id actual \<or>
         av_reason expected \<noteq> av_reason actual then Inl ErrorAuthorizationDenied
      else if av_generation expected \<noteq> av_generation actual then Inl ErrorStaleAuthority
      else Inr ())"

definition validatePhaseRunIdentity ::
  "taskRecord \<Rightarrow> ident \<Rightarrow> u64 \<Rightarrow> u64 \<Rightarrow> error_code + unit" where
  "validatePhaseRunIdentity r phaseRunID generation fence =
     (case map_of (tr_phaseRuns r) phaseRunID of
        None \<Rightarrow> Inl ErrorEvidenceScopeConflict
      | Some b \<Rightarrow> if bp_generation b \<noteq> generation \<or> bp_fence b \<noteq> fence then Inl ErrorStaleAuthority
                  else Inr ())"

definition validatePhaseRunBinding ::
  "taskRecord \<Rightarrow> ident \<Rightarrow> u64 \<Rightarrow> u64 \<Rightarrow> error_code + unit" where
  "validatePhaseRunBinding r phaseRunID generation fence =
     result_bind (validatePhaseRunIdentity r phaseRunID generation fence) (\<lambda>_.
     case map_of (tr_phaseRuns r) phaseRunID of
       None \<Rightarrow> Inl ErrorStaleAuthority
     | Some b \<Rightarrow> if \<not> bp_active b then Inl ErrorStaleAuthority else Inr ())"

definition authorizeUserMutation :: "intentValue \<Rightarrow> taskRecord \<Rightarrow> bool \<Rightarrow> error_code + unit" where
  "authorizeUserMutation i r exists =
     (if av_kind (iv_authority i) \<noteq> AuthorityUser then Inr ()
      else if \<not> exists
      then (if iv_kind i = IntentStartTask then Inr () else Inl ErrorAuthorizationDenied)
      else if fst (tr_owner r) \<noteq> av_id (iv_authority i) then Inl ErrorAuthorizationDenied
      else if snd (tr_owner r) \<noteq> av_generation (iv_authority i) then Inl ErrorStaleAuthority
      else Inr ())"

text \<open>The end of each evidence check: generation, fence, epochs and activity generation agree.\<close>

definition operationCurrent ::
  "taskRecord \<Rightarrow> recoveryBinding \<Rightarrow> IntentHeader \<Rightarrow> operationBinding \<Rightarrow> u64 \<Rightarrow> u64 \<Rightarrow> u64 \<Rightarrow> error_code + unit" where
  "operationCurrent r recovery header operation generation fence epoch =
     (if ob_generation operation \<noteq> generation \<or> ob_fence operation \<noteq> fence \<or>
         ob_safetyEpoch operation \<noteq> epoch \<or> effectiveSafetyEpoch r recovery \<noteq> epoch \<or>
         ob_activityGeneration operation \<noteq> ih_ActivityGeneration header
      then Inl ErrorStaleAuthority else Inr ())"

text \<open>
  Its beginning: the operation of the evidence is known, belongs to what the evidence names and
  has not ended, and the authority is the one bound to it.
\<close>

definition operationOpen ::
  "(ident \<times> operationBinding) list \<Rightarrow> ident \<Rightarrow> (operationBinding \<Rightarrow> bool) \<Rightarrow> authorityValue \<Rightarrow>
   error_code + operationBinding" where
  "operationOpen operations operationID matches authority =
     (case map_of operations operationID of
        None \<Rightarrow> Inl ErrorEvidenceScopeConflict
      | Some operation \<Rightarrow>
          if \<not> matches operation then Inl ErrorEvidenceScopeConflict
          else if ob_terminal operation then Inl ErrorEvidenceScopeConflict
          else result_bind (validateAuthorityBinding (ob_authority operation) authority) (\<lambda>_. Inr operation))"

definition validateRuntimeEvidence ::
  "intentValue \<Rightarrow> RuntimeEvidenceBinding \<Rightarrow> taskRecord \<Rightarrow> recoveryBinding \<Rightarrow> error_code + unit" where
  "validateRuntimeEvidence i b r recovery =
     result_bind (operationOpen (tr_runtimeOperations r) (re_OperationID b)
       (\<lambda>operation. ob_phaseRunID operation = re_PhaseRunID b \<and> ob_runtimeRunID operation = re_RuntimeRunID b)
       (iv_authority i)) (\<lambda>operation.
     result_bind
       ((if tr_cancellationState r = CancellationCancelled \<and>
            ob_activityGeneration operation = tr_activityGeneration r
         then validatePhaseRunIdentity else validatePhaseRunBinding)
        r (re_PhaseRunID b) (re_PhaseRunGeneration b) (re_PhaseRunFence b)) (\<lambda>_.
     operationCurrent r recovery (iv_header i) operation (re_Generation b) (re_Fence b) (re_SafetyEpoch b)))"

definition validateValidationEvidence ::
  "intentValue \<Rightarrow> ValidationEvidenceBinding \<Rightarrow> taskRecord \<Rightarrow> recoveryBinding \<Rightarrow> error_code + unit" where
  "validateValidationEvidence i b r recovery =
     result_bind (operationOpen (tr_validationBindings r) (ve_PhaseRunID b) (\<lambda>_. True) (iv_authority i))
       (\<lambda>operation.
     result_bind (validatePhaseRunBinding r (ve_PhaseRunID b) (ve_PhaseRunGeneration b) (ve_PhaseRunFence b))
       (\<lambda>_.
     operationCurrent r recovery (iv_header i) operation (ve_Generation b) (ve_Fence b) (ve_SafetyEpoch b)))"

definition validateLifecycleEvidence ::
  "intentValue \<Rightarrow> LifecycleEvidenceBinding \<Rightarrow> taskRecord \<Rightarrow> recoveryBinding \<Rightarrow> error_code + unit" where
  "validateLifecycleEvidence i b r recovery =
     result_bind (operationOpen (tr_lifecycleOperations r) (le_OperationID b)
       (\<lambda>operation. ob_phaseRunID operation = le_PhaseRunID b) (iv_authority i)) (\<lambda>operation.
     result_bind (reject_if
       ((ob_purpose operation = LifecycleOperationCommit \<and>
         le_Outcome b \<noteq> TaskWorkspaceLifecycleCommitted \<and> le_Outcome b \<noteq> TaskWorkspaceLifecycleRejected) \<or>
        (ob_purpose operation = LifecycleOperationCancellationFence \<and>
         le_Outcome b \<noteq> TaskWorkspaceLifecycleFenced)) ErrorEvidenceScopeConflict) (\<lambda>_.
     result_bind (validatePhaseRunBinding r (le_PhaseRunID b) (le_PhaseRunGeneration b) (le_PhaseRunFence b))
       (\<lambda>_.
     result_bind
       (operationCurrent r recovery (iv_header i) operation (le_Generation b) (le_Fence b) (le_SafetyEpoch b))
       (\<lambda>_.
     case tr_aggregate r of
       None \<Rightarrow> Inr ()
     | Some a \<Rightarrow> reject_if (le_ObservedGeneration b < ag_lifecycleGeneration a \<or>
                            le_ObservedFence b < ag_lifecycleFence a) ErrorStaleAuthority))))"

definition validateReconstructionEvidence ::
  "intentValue \<Rightarrow> ReconstructionEvidenceBinding \<Rightarrow> taskRecord \<Rightarrow> recoveryBinding \<Rightarrow> error_code + unit" where
  "validateReconstructionEvidence i b r recovery =
     (case tr_aggregate r of
        None \<Rightarrow> Inl ErrorEvidenceScopeConflict
      | Some a \<Rightarrow>
          result_bind (operationOpen (tr_lifecycleOperations r) (ce_OperationID b)
            (\<lambda>operation. ob_phaseRunID operation = [] \<and>
               ob_purpose operation = LifecycleOperationReconstruction \<and>
               ag_reconstructionOperationID a = ce_OperationID b \<and>
               ag_activitySourceArtifactVersionID a = ce_ArtifactVersionID b \<and>
               \<not> ag_reconstructionAccepted a) (iv_authority i)) (\<lambda>operation.
          result_bind (operationCurrent r recovery (iv_header i) operation
            (ce_Generation b) (ce_Fence b) (ce_SafetyEpoch b)) (\<lambda>_.
          reject_if (ce_ObservedGeneration b < ag_lifecycleGeneration a \<or>
                     ce_ObservedFence b < ag_lifecycleFence a) ErrorStaleAuthority)))"

definition validatePublicationEvidence ::
  "intentValue \<Rightarrow> PublicationEvidenceBinding \<Rightarrow> taskRecord \<Rightarrow> recoveryBinding \<Rightarrow> error_code + unit" where
  "validatePublicationEvidence i b r recovery =
     result_bind (operationOpen (tr_publicationOperations r) (pe_OperationID b)
       (\<lambda>operation. ob_phaseRunID operation = pe_PhaseRunID b) (iv_authority i)) (\<lambda>operation.
     result_bind (validatePhaseRunBinding r (pe_PhaseRunID b) (pe_PhaseRunGeneration b) (pe_PhaseRunFence b))
       (\<lambda>_.
     operationCurrent r recovery (iv_header i) operation (pe_Generation b) (pe_Fence b) (pe_SafetyEpoch b)))"

definition validateSchedulingEvidence ::
  "intentValue \<Rightarrow> SchedulingEvidenceBinding \<Rightarrow> taskRecord \<Rightarrow> recoveryBinding \<Rightarrow> error_code + unit" where
  "validateSchedulingEvidence i b r recovery =
     result_bind (operationOpen (tr_schedulingOperations r) (se_OperationID b)
       (\<lambda>operation. ob_phaseRunID operation = se_PhaseRunID b) (iv_authority i)) (\<lambda>operation.
     result_bind (validatePhaseRunBinding r (se_PhaseRunID b) (se_PhaseRunGeneration b) (se_PhaseRunFence b))
       (\<lambda>_.
     operationCurrent r recovery (iv_header i) operation (se_Generation b) (se_Fence b) (se_SafetyEpoch b)))"

definition validateOperationalFence ::
  "intentValue \<Rightarrow> OperationalFenceBinding \<Rightarrow> taskRecord \<Rightarrow> recoveryBinding \<Rightarrow> error_code + unit" where
  "validateOperationalFence i b r recovery =
     (if rb_authority recovery = zeroAuthority then Inl ErrorAuthorizationDenied
      else result_bind (validateAuthorityBinding (rb_authority recovery) (iv_authority i)) (\<lambda>_.
        reject_if (\<not> isOperationalFenceCatchUp r recovery b \<and>
          (of_Generation b \<le> rb_generation recovery \<or> of_Fence b \<le> rb_fence recovery \<or>
           of_SafetyEpoch b \<le> rb_safetyEpoch recovery)) ErrorStaleAuthority))"

text \<open>The worker bound to the task as its reconciler; and a reconciliation under a new fence.\<close>

definition validateReconciler :: "intentValue \<Rightarrow> taskRecord \<Rightarrow> bool \<Rightarrow> error_code + unit" where
  "validateReconciler i r exists =
     (if \<not> exists \<or> tr_reconciler r = zeroAuthority then Inl ErrorAuthorizationDenied
      else validateAuthorityBinding (tr_reconciler r) (iv_authority i))"

definition validateReconcile ::
  "intentValue \<Rightarrow> ident \<Rightarrow> u64 \<Rightarrow> taskRecord \<Rightarrow> bool \<Rightarrow> error_code + unit" where
  "validateReconcile i operationID fence r exists =
     result_bind (validateReconciler i r exists) (\<lambda>_.
     if map_of (tr_enactments r) operationID = None then Inl ErrorEvidenceScopeConflict
     else if fence \<le> (case map_of (tr_reconciliationFences r) operationID of None \<Rightarrow> 0 | Some f \<Rightarrow> f)
     then Inl ErrorStaleAuthority else Inr ())"

fun validateCoordinationBindings ::
  "intentValue \<Rightarrow> intentPayload \<Rightarrow> taskRecord \<Rightarrow> recoveryBinding \<Rightarrow> bool \<Rightarrow> error_code + unit" where
  "validateCoordinationBindings i (RuntimeRunRetryPayload _ _) r recovery exists = validateReconciler i r exists"
| "validateCoordinationBindings i (RuntimeEvidencePayload b) r recovery exists =
     (if \<not> exists then Inl ErrorEvidenceScopeConflict else validateRuntimeEvidence i b r recovery)"
| "validateCoordinationBindings i (ValidationEvidencePayload b) r recovery exists =
     (if \<not> exists then Inl ErrorEvidenceScopeConflict else validateValidationEvidence i b r recovery)"
| "validateCoordinationBindings i (LifecycleEvidencePayload b) r recovery exists =
     (if \<not> exists then Inl ErrorEvidenceScopeConflict else validateLifecycleEvidence i b r recovery)"
| "validateCoordinationBindings i (ReconstructionEvidencePayload b) r recovery exists =
     (if \<not> exists then Inl ErrorEvidenceScopeConflict else validateReconstructionEvidence i b r recovery)"
| "validateCoordinationBindings i (PublicationEvidencePayload b) r recovery exists =
     (if \<not> exists then Inl ErrorEvidenceScopeConflict else validatePublicationEvidence i b r recovery)"
| "validateCoordinationBindings i (SchedulingEvidencePayload b) r recovery exists =
     (if \<not> exists then Inl ErrorEvidenceScopeConflict else validateSchedulingEvidence i b r recovery)"
| "validateCoordinationBindings i (OperationalFencePayload b) r recovery exists =
     (if \<not> exists then Inl ErrorEvidenceScopeConflict else validateOperationalFence i b r recovery)"
| "validateCoordinationBindings i (ReconcilePayload operationID fence) r recovery exists =
     validateReconcile i operationID fence r exists"
| "validateCoordinationBindings i _ r recovery exists = Inr ()"

fun evidenceDiagnosticReason :: "error_code \<Rightarrow> EvidenceDiagnosticReason" where
  "evidenceDiagnosticReason ErrorStaleAuthority = EvidenceDiagnosticStale"
| "evidenceDiagnosticReason ErrorStaleTaskRevision = EvidenceDiagnosticStale"
| "evidenceDiagnosticReason ErrorAuthorizationDenied = EvidenceDiagnosticUnauthorized"
| "evidenceDiagnosticReason _ = EvidenceDiagnosticScopeConflict"

section \<open>Bindings that follow the aggregate\<close>

definition newBinding ::
  "ident \<Rightarrow> authorityValue \<Rightarrow> u64 \<Rightarrow> u64 \<Rightarrow> u64 \<Rightarrow> u64 \<Rightarrow> operationBinding" where
  "newBinding phaseRunID authority generation fence epoch activityGeneration =
     \<lparr>ob_phaseRunID = phaseRunID, ob_runtimeRunID = [], ob_authority = authority,
      ob_generation = generation, ob_fence = fence, ob_safetyEpoch = epoch,
      ob_purpose = LifecyclePurposeUnset, ob_activityGeneration = activityGeneration,
      ob_canonicalPayload = None, ob_payloadDigest = zero_digest, ob_terminal = False\<rparr>"

definition bindAggregateSchedulingOperation ::
  "DownstreamAuthorityBindings \<Rightarrow> phaseRunRecord \<Rightarrow> u64 \<Rightarrow> u64 \<Rightarrow> ident \<Rightarrow> taskRecord \<Rightarrow> taskRecord" where
  "bindAggregateSchedulingOperation authorities run activityGeneration epoch operationID r =
     r\<lparr>tr_schedulingOperations := put_new operationID
        (newBinding (pr_id run) (da_Scheduler authorities) (pr_generation run) (pr_fence run) epoch
          activityGeneration) (tr_schedulingOperations r)\<rparr>"

definition syncRuntimeRun ::
  "DownstreamAuthorityBindings \<Rightarrow> phaseRunRecord \<Rightarrow> u64 \<Rightarrow> u64 \<Rightarrow> runtimeRunRecord \<Rightarrow> taskRecord \<Rightarrow> taskRecord" where
  "syncRuntimeRun authorities run activityGeneration epoch rt r =
     bindAggregateSchedulingOperation authorities run activityGeneration epoch (rt_operationID rt)
       (r\<lparr>tr_runtimeOperations := put_new (rt_operationID rt)
          ((newBinding (pr_id run) (da_Runtime authorities) (pr_generation run) (pr_fence run) epoch
             activityGeneration)
           \<lparr>ob_runtimeRunID := rt_id rt, ob_canonicalPayload := rt_canonicalPayload rt,
            ob_payloadDigest := rt_payloadDigest rt\<rparr>)
          (tr_runtimeOperations r)\<rparr>)"

definition syncLifecycle ::
  "taskAggregate \<Rightarrow> phaseRunRecord \<Rightarrow> u64 \<Rightarrow> u64 \<Rightarrow> taskRecord \<Rightarrow> taskRecord" where
  "syncLifecycle a run activityGeneration epoch r =
     (let authorities = pn_Authorities (ag_pinned a) in
      if pr_lifecycleOperationID run = [] then r
      else bindAggregateSchedulingOperation authorities run activityGeneration epoch
        (pr_lifecycleOperationID run)
        (r\<lparr>tr_lifecycleOperations := put_new (pr_lifecycleOperationID run)
           ((newBinding (pr_id run) (da_TaskWorkspaceLifecycle authorities) (ag_lifecycleGeneration a)
              (ag_lifecycleFence a) epoch activityGeneration)\<lparr>ob_purpose := LifecycleOperationCommit\<rparr>)
           (tr_lifecycleOperations r)\<rparr>))"

definition syncPublication ::
  "taskAggregate \<Rightarrow> phaseRunRecord \<Rightarrow> u64 \<Rightarrow> u64 \<Rightarrow> taskRecord \<Rightarrow> taskRecord" where
  "syncPublication a run activityGeneration epoch r =
     (let authorities = pn_Authorities (ag_pinned a) in
      if pr_publicationOperationID run = [] then r
      else bindAggregateSchedulingOperation authorities run activityGeneration epoch
        (pr_publicationOperationID run)
        (r\<lparr>tr_publicationOperations := put_new (pr_publicationOperationID run)
           (newBinding (pr_id run) (da_Publication authorities) (pr_generation run) (pr_fence run) epoch
              activityGeneration)
           (tr_publicationOperations r)\<rparr>))"

definition syncPhaseRun ::
  "taskAggregate \<Rightarrow> u64 \<Rightarrow> u64 \<Rightarrow> phaseRunRecord \<Rightarrow> taskRecord \<Rightarrow> taskRecord" where
  "syncPhaseRun a activityGeneration epoch run r =
     (let authorities = pn_Authorities (ag_pinned a);
          r = r\<lparr>tr_phaseRuns := AList.update (pr_id run)
                  \<lparr>bp_generation = pr_generation run, bp_fence = pr_fence run,
                   bp_active = (ag_activePhaseRunID a = pr_id run)\<rparr> (tr_phaseRuns r),
                tr_validationBindings := put_new (pr_id run)
                  (newBinding [] (da_Validator authorities) (pr_generation run) (pr_fence run) epoch
                    activityGeneration) (tr_validationBindings r)\<rparr>;
          r = fold (syncRuntimeRun authorities run activityGeneration epoch) (pr_runtimeRuns run) r in
      syncPublication a run activityGeneration epoch (syncLifecycle a run activityGeneration epoch r))"

definition syncReconstruction :: "taskAggregate \<Rightarrow> u64 \<Rightarrow> u64 \<Rightarrow> taskRecord \<Rightarrow> taskRecord" where
  "syncReconstruction a activityGeneration epoch r =
     (if ag_reconstructionRequired a \<and> ag_reconstructionOperationID a \<noteq> []
      then r\<lparr>tr_lifecycleOperations := put_new (ag_reconstructionOperationID a)
        ((newBinding [] (da_TaskWorkspaceLifecycle (pn_Authorities (ag_pinned a)))
           (ag_lifecycleGeneration a) (ag_lifecycleFence a) epoch activityGeneration)
         \<lparr>ob_purpose := LifecycleOperationReconstruction\<rparr>) (tr_lifecycleOperations r)\<rparr>
      else r)"

definition putEnactments :: "EnactmentRef list \<Rightarrow> taskRecord \<Rightarrow> taskRecord" where
  "putEnactments refs r =
     r\<lparr>tr_enactments := fold (\<lambda>ref. AList.update (en_OperationID ref) ref) refs (tr_enactments r)\<rparr>"

definition syncAggregateCoordination ::
  "EnactmentRef list \<Rightarrow> u64 \<Rightarrow> u64 \<Rightarrow> taskRecord \<Rightarrow> taskRecord" where
  "syncAggregateCoordination refs activityGeneration epoch r =
     (case tr_aggregate r of
        None \<Rightarrow> r
      | Some a \<Rightarrow>
          fold (syncPhaseRun a activityGeneration epoch) (ag_phaseRuns a)
            (syncReconstruction a activityGeneration epoch (putEnactments refs r)))"

section \<open>Cancellation\<close>

definition hasEnactmentKind :: "EnactmentRef list \<Rightarrow> EnactmentKind \<Rightarrow> bool" where
  "hasEnactmentKind refs kind = list_ex (\<lambda>ref. en_Kind ref = kind) refs"

text \<open>
  The search for an operation identifier the record does not know ends after as many attempts
  as the record has operations: consecutive sequence values give different identifiers. So the
  last of that many attempts is not tested (\<open>nextUniqueOperationID_fresh\<close>).
\<close>

definition knownOperations :: "taskRecord \<Rightarrow> ident list" where
  "knownOperations r =
     map fst (tr_runtimeOperations r) @ map fst (tr_lifecycleOperations r) @
     map fst (tr_publicationOperations r) @ map fst (tr_schedulingOperations r) @
     map fst (tr_enactments r)"

fun searchOperationID :: "taskRecord \<Rightarrow> nat \<Rightarrow> idAllocator \<Rightarrow> ident \<times> idAllocator" where
  "searchOperationID r 0 ids = nextOperationID ids"
| "searchOperationID r (Suc n) ids =
     (let (operationID, ids') = nextOperationID ids in
      if hasOperationID r operationID then searchOperationID r n ids' else (operationID, ids'))"

definition nextUniqueOperationID :: "taskRecord \<Rightarrow> idAllocator \<Rightarrow> ident \<times> idAllocator" where
  "nextUniqueOperationID r ids = searchOperationID r (length (knownOperations r)) ids"

record cancellation =
  cn_taskID :: ident
  cn_phaseRunID :: ident
  cn_activityGeneration :: u64
  cn_safetyEpoch :: u64
  cn_reason :: enum8
  cn_occurredAt :: int
  cn_lifecycleFence :: lifecycleRequestBinding

text \<open>The start operation of each runtime run of the phase run.\<close>

fun startOperations ::
  "taskRecord \<Rightarrow> ident \<Rightarrow> runtimeRunRecord list \<Rightarrow> error_code + operationBinding list" where
  "startOperations r phaseRunID [] = Inr []"
| "startOperations r phaseRunID (rt # rts) =
     (case map_of (tr_runtimeOperations r) (rt_operationID rt) of
        None \<Rightarrow> Inl ErrorIntegrityConflict
      | Some operation \<Rightarrow>
          if ob_runtimeRunID operation \<noteq> rt_id rt \<or> ob_phaseRunID operation \<noteq> phaseRunID
          then Inl ErrorIntegrityConflict
          else result_bind (startOperations r phaseRunID rts) (\<lambda>operations. Inr (operation # operations)))"

definition bindCancelOperation ::
  "cancellation \<Rightarrow> authorityValue \<Rightarrow> operationBinding \<Rightarrow> ident \<Rightarrow> json option \<Rightarrow> EnactmentRef \<Rightarrow> taskRecord \<Rightarrow>
   taskRecord" where
  "bindCancelOperation c scheduler operation operationID payload ref r =
     (let binding = \<lambda>authority. newBinding (cn_phaseRunID c) authority (ob_generation operation)
            (ob_fence operation + 1) (cn_safetyEpoch c) (cn_activityGeneration c) in
      r\<lparr>tr_runtimeOperations := AList.update operationID
          ((binding (ob_authority operation))
           \<lparr>ob_runtimeRunID := ob_runtimeRunID operation, ob_canonicalPayload := payload,
            ob_payloadDigest := en_PayloadDigest ref\<rparr>) (tr_runtimeOperations r),
        tr_schedulingOperations := AList.update operationID (binding scheduler) (tr_schedulingOperations r),
        tr_enactments := AList.update operationID ref (tr_enactments r)\<rparr>)"

fun cancelRuntimeOperations ::
  "hashing \<Rightarrow> cancellation \<Rightarrow> authorityValue \<Rightarrow> operationBinding list \<Rightarrow> taskRecord \<Rightarrow> idAllocator \<Rightarrow>
   error_code + (EnactmentRef list \<times> taskRecord \<times> idAllocator)" where
  "cancelRuntimeOperations h c scheduler [] r ids = Inr ([], r, ids)"
| "cancelRuntimeOperations h c scheduler (operation # operations) r ids =
     (let (operationID, ids) = nextUniqueOperationID r ids in
      result_bind (canonicalRuntimeCancelEnactment h operation (cn_taskID c) operationID (cn_reason c)
        (cn_occurredAt c)) (\<lambda>(payload, payloadDigest).
      let (causationID, ids) = nextCausationID ids;
          ref = \<lparr>en_OperationID = operationID, en_Kind = EnactmentRuntimeExecution,
                 en_PayloadDigest = payloadDigest, en_ActivityGeneration = cn_activityGeneration c,
                 en_Fence = RuntimeFence (ob_fence operation + 1), en_CausationID = causationID\<rparr> in
      result_bind (cancelRuntimeOperations h c scheduler operations
        (bindCancelOperation c scheduler operation operationID payload ref r) ids) (\<lambda>(refs, r, ids).
      Inr (ref # refs, r, ids))))"

text \<open>
  The lifecycle operation of the phase run with the highest fence, the first of those in list
  order; only its authority and generation are used.
\<close>

definition latestLifecycleOperation ::
  "ident \<Rightarrow> (ident \<times> operationBinding) list \<Rightarrow> operationBinding option" where
  "latestLifecycleOperation phaseRunID operations =
     fold (\<lambda>(_, operation) latest.
       if ob_phaseRunID operation \<noteq> phaseRunID \<or>
          (case latest of None \<Rightarrow> False | Some l \<Rightarrow> ob_fence operation \<le> ob_fence l)
       then latest else Some operation) operations None"

definition lifecycleOperationFor ::
  "cancellation \<Rightarrow> taskRecord \<Rightarrow> taskAggregate \<Rightarrow> operationBinding option" where
  "lifecycleOperationFor c r a =
     (case latestLifecycleOperation (cn_phaseRunID c) (tr_lifecycleOperations r) of
        Some operation \<Rightarrow> Some operation
      | None \<Rightarrow>
          (case (activePhaseRun a (cn_phaseRunID c), currentPhaseDefinition a) of
             (Some run, Some phase) \<Rightarrow>
               if ph_Key phase = pr_phaseKey run \<and> ph_Kind phase = PhaseMutating
               then Some (newBinding (cn_phaseRunID c)
                 (da_TaskWorkspaceLifecycle (pn_Authorities (ag_pinned a))) (pr_generation run)
                 (pr_fence run) (cn_safetyEpoch c) 0)
               else None
           | _ \<Rightarrow> None))"

definition validCancellationFence ::
  "cancellation \<Rightarrow> taskRecord \<Rightarrow> taskAggregate \<Rightarrow> bool" where
  "validCancellationFence c r a =
     (let b = cn_lifecycleFence c in
      lifecycleRequest_valid b \<and> lb_taskID b = cn_taskID c \<and> lb_phaseRunID b = cn_phaseRunID c \<and>
      lb_taskWorkspaceID b = pn_TaskWorkspaceID (ag_pinned a) \<and> \<not> hasOperationID r (lb_operationID b) \<and>
      (tr_latestRevisionID r = [] \<or> lb_expectedRevision b = tr_latestRevisionID r) \<and>
      (ag_lifecycleGeneration a = 0 \<or> lb_generation b = ag_lifecycleGeneration a) \<and>
      (ag_lifecycleFence a = 0 \<or> lb_fence b = ag_lifecycleFence a))"

definition bindCancellationFence ::
  "cancellation \<Rightarrow> authorityValue \<Rightarrow> operationBinding \<Rightarrow> EnactmentRef \<Rightarrow> taskAggregate \<Rightarrow> taskRecord \<Rightarrow>
   taskRecord" where
  "bindCancellationFence c scheduler operation ref a r =
     (let b = cn_lifecycleFence c in
      r\<lparr>tr_lifecycleOperations := AList.update (lb_operationID b)
          ((newBinding (cn_phaseRunID c) (ob_authority operation) (lb_generation b) (lb_fence b)
             (cn_safetyEpoch c) (cn_activityGeneration c))
           \<lparr>ob_purpose := LifecycleOperationCancellationFence\<rparr>) (tr_lifecycleOperations r),
        tr_schedulingOperations := AList.update (lb_operationID b)
          (newBinding (cn_phaseRunID c) scheduler (ob_generation operation) (lb_fence b)
             (cn_safetyEpoch c) (cn_activityGeneration c)) (tr_schedulingOperations r),
        tr_enactments := AList.update (lb_operationID b) ref (tr_enactments r),
        tr_aggregate := Some (a\<lparr>ag_lifecycleGeneration := lb_generation b,
                                ag_lifecycleFence := lb_fence b\<rparr>)\<rparr>)"

definition cancelLifecycle ::
  "cancellation \<Rightarrow> taskAggregate \<Rightarrow> taskRecord \<Rightarrow> idAllocator \<Rightarrow>
   error_code + (EnactmentRef list \<times> taskRecord \<times> idAllocator)" where
  "cancelLifecycle c a r ids =
     (case lifecycleOperationFor c r a of
        None \<Rightarrow> Inr ([], r, ids)
      | Some operation \<Rightarrow>
          if \<not> validCancellationFence c r a then Inl ErrorEvidenceScopeConflict
          else
            let b = cn_lifecycleFence c; (causationID, ids) = nextCausationID ids;
                ref = \<lparr>en_OperationID = lb_operationID b, en_Kind = EnactmentTaskWorkspaceLifecycle,
                       en_PayloadDigest = lb_payloadDigest b,
                       en_ActivityGeneration = cn_activityGeneration c,
                       en_Fence = TaskWorkspaceLifecycleFence (lb_fence b),
                       en_CausationID = causationID\<rparr> in
            Inr ([ref], bindCancellationFence c (da_Scheduler (pn_Authorities (ag_pinned a))) operation ref a r,
                 ids))"

definition buildCancellationEnactments ::
  "hashing \<Rightarrow> cancellation \<Rightarrow> taskRecord \<Rightarrow> idAllocator \<Rightarrow>
   error_code + (EnactmentRef list \<times> taskRecord \<times> idAllocator)" where
  "buildCancellationEnactments h c r ids =
     (case tr_aggregate r of
        None \<Rightarrow> Inl ErrorIntegrityConflict
      | Some a \<Rightarrow>
          (case find_elem (\<lambda>run. pr_id run = cn_phaseRunID c) (ag_phaseRuns a) of
             None \<Rightarrow> Inl ErrorIntegrityConflict
           | Some run \<Rightarrow>
               result_bind (startOperations r (cn_phaseRunID c) (pr_runtimeRuns run)) (\<lambda>operations.
               result_bind (cancelRuntimeOperations h c (da_Scheduler (pn_Authorities (ag_pinned a)))
                 (sort_key ob_runtimeRunID operations) r ids) (\<lambda>(refs, r, ids).
               result_bind (cancelLifecycle c a r ids) (\<lambda>(lifecycleRefs, r, ids).
               Inr (refs @ lifecycleRefs, r, ids))))))"

section \<open>Accepted evidence\<close>

definition setTerminal ::
  "ident \<Rightarrow> (ident \<times> operationBinding) list \<Rightarrow> (ident \<times> operationBinding) list" where
  "setTerminal k operations =
     AList.update k
       ((case map_of operations k of None \<Rightarrow> newBinding [] zeroAuthority 0 0 0 0 | Some b \<Rightarrow> b)
        \<lparr>ob_terminal := True\<rparr>) operations"

fun markAcceptedEvidenceTerminal :: "intentPayload \<Rightarrow> taskRecord \<Rightarrow> taskRecord" where
  "markAcceptedEvidenceTerminal (RuntimeEvidencePayload b) r =
     r\<lparr>tr_runtimeOperations := setTerminal (re_OperationID b) (tr_runtimeOperations r)\<rparr>"
| "markAcceptedEvidenceTerminal (ValidationEvidencePayload b) r =
     r\<lparr>tr_validationBindings := setTerminal (ve_PhaseRunID b) (tr_validationBindings r)\<rparr>"
| "markAcceptedEvidenceTerminal (LifecycleEvidencePayload b) r =
     r\<lparr>tr_lifecycleOperations := setTerminal (le_OperationID b) (tr_lifecycleOperations r)\<rparr>"
| "markAcceptedEvidenceTerminal (ReconstructionEvidencePayload b) r =
     r\<lparr>tr_lifecycleOperations := setTerminal (ce_OperationID b) (tr_lifecycleOperations r)\<rparr>"
| "markAcceptedEvidenceTerminal (PublicationEvidencePayload b) r =
     r\<lparr>tr_publicationOperations := setTerminal (pe_OperationID b) (tr_publicationOperations r)\<rparr>"
| "markAcceptedEvidenceTerminal (SchedulingEvidencePayload b) r =
     r\<lparr>tr_schedulingOperations := setTerminal (se_OperationID b) (tr_schedulingOperations r)\<rparr>"
| "markAcceptedEvidenceTerminal _ r = r"

fun applyAcceptedCoordinationOutcome :: "intentPayload \<Rightarrow> taskRecord \<Rightarrow> taskRecord" where
  "applyAcceptedCoordinationOutcome (LifecycleEvidencePayload b) r =
     (if le_Outcome b = TaskWorkspaceLifecycleCommitted
      then r\<lparr>tr_latestRevisionID := le_RevisionID b, tr_latestCheckpointID := le_CheckpointID b\<rparr>
      else if le_Outcome b = TaskWorkspaceLifecycleFenced \<and> tr_cancellationState r = CancellationCancelling
      then r\<lparr>tr_cancellationState := CancellationCancelled\<rparr>
      else r)"
| "applyAcceptedCoordinationOutcome (ReconstructionEvidencePayload b) r =
     r\<lparr>tr_latestRevisionID := ce_RevisionID b, tr_latestCheckpointID := ce_CheckpointID b\<rparr>"
| "applyAcceptedCoordinationOutcome _ r = r"

section \<open>The search for an operation identifier\<close>

lemma hasOperationID_known: "hasOperationID r i \<longleftrightarrow> i \<in> set (knownOperations r)"
  by (auto simp: hasOperationID_def knownOperations_def map_of_eq_None_iff)

lemma searchOperationID_walk:
  "(\<exists>k \<le> n. fst (searchOperationID r n ids) = sequenceID ''operation-'' (ia_nextOperation ids + of_nat k) \<and>
     (k < n \<longrightarrow> \<not> hasOperationID r (fst (searchOperationID r n ids))) \<and>
     (\<forall>j < k. hasOperationID r (sequenceID ''operation-'' (ia_nextOperation ids + of_nat j))))"
proof (induction n arbitrary: ids)
  case 0
  then show ?case by (simp add: nextOperationID_def)
next
  case (Suc n)
  let ?ids = "ids\<lparr>ia_nextOperation := ia_nextOperation ids + 1\<rparr>"
  show ?case
  proof (cases "hasOperationID r (sequenceID ''operation-'' (ia_nextOperation ids))")
    case False
    then show ?thesis by (intro exI [of _ 0]) (simp add: nextOperationID_def)
  next
    case True
    then have search: "searchOperationID r (Suc n) ids = searchOperationID r n ?ids"
      by (simp add: nextOperationID_def)
    from Suc [of ?ids] obtain k where k: "k \<le> n"
      "fst (searchOperationID r n ?ids) = sequenceID ''operation-'' (ia_nextOperation ids + 1 + of_nat k)"
      "k < n \<longrightarrow> \<not> hasOperationID r (fst (searchOperationID r n ?ids))"
      "\<forall>j < k. hasOperationID r (sequenceID ''operation-'' (ia_nextOperation ids + 1 + of_nat j))"
      by auto
    have "hasOperationID r (sequenceID ''operation-'' (ia_nextOperation ids + of_nat j))" if "j < Suc k" for j
      using that True k(4) by (cases j) (auto simp: algebra_simps)
    with k show ?thesis unfolding search
      by (intro exI [of _ "Suc k"]) (auto simp: algebra_simps)
  qed
qed

text \<open>The identifier is new to the record, and it is a valid one.\<close>

lemma nextUniqueOperationID_fresh:
  assumes "length (knownOperations r) < 2 ^ 64"
  shows "\<not> hasOperationID r (fst (nextUniqueOperationID r ids))"
proof
  let ?n = "length (knownOperations r)"
  assume known: "hasOperationID r (fst (nextUniqueOperationID r ids))"
  with searchOperationID_walk [of ?n r ids]
  have used: "hasOperationID r (sequenceID ''operation-'' (ia_nextOperation ids + of_nat j))" if "j \<le> ?n" for j
    using that unfolding nextUniqueOperationID_def by (auto simp: le_less)
  let ?f = "\<lambda>j. sequenceID ''operation-'' (ia_nextOperation ids + of_nat j)"
  have "inj_on ?f {.. ?n}"
  proof (rule inj_onI)
    fix i j assume "i \<in> {.. ?n}" "j \<in> {.. ?n}" "?f i = ?f j"
    then have "(of_nat i :: u64) = of_nat j" "i < 2 ^ 64" "j < 2 ^ 64" using assms by auto
    then show "i = j" by (simp add: word_unat_eq_iff unsigned_of_nat take_bit_nat_eq_self)
  qed
  then have "card (?f ` {.. ?n}) = Suc ?n" by (simp add: card_image)
  moreover have "?f ` {.. ?n} \<subseteq> set (knownOperations r)"
    using used by (auto simp: hasOperationID_known)
  then have "card (?f ` {.. ?n}) \<le> card (set (knownOperations r))" by (rule card_mono [rotated]) simp
  ultimately show False using card_length [of "knownOperations r"] by linarith
qed

end
