(* ===== verification/Orch_Audit.thy ===== *)
theory Orch_Audit
  imports Orch_Coordination
begin

text \<open>
  The mandatory audit fact of a decision
  (\<open>backend/internal/taskorchestration/mandatory_audit.go\<close>): how the engine builds it, its
  integrity digest, and the check every reader of a decision applies to it.
\<close>

abbreviation (input) AuditSchemaV1 :: u32 where "AuditSchemaV1 \<equiv> 0x10000"
abbreviation (input) AuditIntegrityV1 :: u16 where "AuditIntegrityV1 \<equiv> 1"
abbreviation (input) AuditModuleTaskOrchestration :: enum8 where "AuditModuleTaskOrchestration \<equiv> 1"
abbreviation (input) AuditAccepted :: enum8 where "AuditAccepted \<equiv> 1"
abbreviation (input) AuditSourceTaskOrchestrationClock :: enum8 where
  "AuditSourceTaskOrchestrationClock \<equiv> 1"

fun action_code :: "IntentKind option \<Rightarrow> int" where
  "action_code None = 0"
| "action_code (Some k) = intent_kind_code k"

definition auditEnactment_canonical :: "AuditEnactmentBinding \<Rightarrow> json" where
  "auditEnactment_canonical e =
     jobj [(''activity_generation'', jword (ae_ActivityGeneration e)),
           (''causation_id'', JStr (ae_CausationID e)), (''fence'', jword (ae_Fence e)),
           (''fence_kind'', JNum (ae_FenceKind e)), (''kind'', JNum (enactment_kind_code (ae_Kind e))),
           (''operation_id'', JStr (ae_OperationID e)),
           (''payload_digest'', JStr (hex_encode (ae_PayloadDigest e)))]"

definition auditFact_canonical :: "AuditFactRef \<Rightarrow> json" where
  "auditFact_canonical f =
     jobj [(''action'', JNum (action_code (af_Action f))),
           (''after_activity_generation'', jword (af_AfterActivityGeneration f)),
           (''after_safety_epoch'', jword (af_AfterSafetyEpoch f)),
           (''after_status'', JNum (task_status_code (af_AfterStatus f))),
           (''after_task_revision'', jword (af_AfterTaskRevision f)),
           (''audit_fact_id'', JStr (af_AuditFactID f)),
           (''authority_generation'', jword (af_AuthorizationGeneration f)),
           (''authority_id'', JStr (af_AuthorityID f)),
           (''authority_kind'', JNum (authority_kind_code (af_AuthorityKind f))),
           (''authority_reason'', jword (af_AuthorityReason f)),
           (''before_activity_generation'', jword (af_BeforeActivityGeneration f)),
           (''before_safety_epoch'', jword (af_BeforeSafetyEpoch f)),
           (''before_status'', JNum (task_status_code (af_BeforeStatus f))),
           (''before_task_revision'', jword (af_BeforeTaskRevision f)),
           (''decision_id'', JStr (af_DecisionID f)),
           (''enactments'', JList (map auditEnactment_canonical (af_EnactmentRefs f))),
           (''evidence'', JList (map evidence_canonical (af_EvidenceRefs f))),
           (''idempotency_decision_request_id'', JStr (af_IdempotencyDecisionRequestID f)),
           (''integrity_version'', jword (af_IntegrityVersion f)), (''module'', jword (af_OwningModule f)),
           (''occurred_at'', JTime (af_OccurredAt f)),
           (''reason_code'', JNum (audit_reason_code (af_ReasonCode f))),
           (''reconciliation_fence'', jword (af_ReconciliationFence f)),
           (''reconciliation_operation_id'', JStr (af_ReconciliationOperationID f)),
           (''recorded_at'', JTime (af_RecordedAt f)),
           (''recovery_generation'', jword (af_RecoveryGeneration f)), (''result'', jword (af_Result f)),
           (''retry_phase_run_id'', JStr (af_RetryPhaseRunID f)),
           (''retry_runtime_run_id'', JStr (af_RetryRuntimeRunID f)),
           (''schema_version'', jword (af_SchemaVersion f)), (''source_clock'', jword (af_SourceClock f)),
           (''task_id'', JStr (af_TaskID f))]"

definition MandatoryAuditFactDigest :: "hashing \<Rightarrow> AuditFactRef \<Rightarrow> digest" where
  "MandatoryAuditFactDigest h f = hs_value h [] (auditFact_canonical f)"

definition aggregateStatus :: "taskAggregate option \<Rightarrow> TaskStatus" where
  "aggregateStatus a = (case a of None \<Rightarrow> TaskStatusUnset | Some a \<Rightarrow> ag_status a)"

definition auditReason :: "intentValue \<Rightarrow> AuditReasonCode" where
  "auditReason i =
     (if av_kind (iv_authority i) = AuthorityAdministrator
      then (if av_reason (iv_authority i) = AdministratorReasonSafety then AuditReasonAdministratorSafety
            else AuditReasonAdministratorRecovery)
      else case iv_payload i of
        PhaseRunPayload _ \<Rightarrow> AuditReasonRetry
      | RuntimeRunRetryPayload _ _ \<Rightarrow> AuditReasonRetry
      | ManualEditPayload _ \<Rightarrow> AuditReasonManualEdit
      | ReconcilePayload _ _ \<Rightarrow> AuditReasonReconciliation
      | OperationalFencePayload _ \<Rightarrow> AuditReasonRecoveryFence
      | CancelPayload reason _ \<Rightarrow>
          (if reason = CancelReasonUserRequested then AuditReasonUserRequested
           else AuditReasonAdministratorSafety)
      | _ \<Rightarrow> AuditReasonNone)"

definition auditEnactment :: "EnactmentRef \<Rightarrow> AuditEnactmentBinding" where
  "auditEnactment ref =
     (let (fenceKind, fence) = postgresFenceValue (en_Fence ref) in
      \<lparr>ae_OperationID = en_OperationID ref, ae_Kind = en_Kind ref, ae_PayloadDigest = en_PayloadDigest ref,
       ae_ActivityGeneration = en_ActivityGeneration ref, ae_FenceKind = fenceKind, ae_Fence = fence,
       ae_CausationID = en_CausationID ref\<rparr>)"

definition audit_retry :: "intentPayload \<Rightarrow> ident \<times> ident" where
  "audit_retry payload =
     (case payload of
        PhaseRunPayload phaseRunID \<Rightarrow> (phaseRunID, [])
      | RuntimeRunRetryPayload phaseRunID runtimeRunID \<Rightarrow> (phaseRunID, runtimeRunID)
      | _ \<Rightarrow> ([], []))"

definition audit_reconciliation :: "intentPayload \<Rightarrow> ident \<times> u64" where
  "audit_reconciliation payload =
     (case payload of ReconcilePayload operationID fence \<Rightarrow> (operationID, fence) | _ \<Rightarrow> ([], 0))"

definition newMandatoryAuditFact ::
  "hashing \<Rightarrow> ident \<Rightarrow> intentValue \<Rightarrow> ident \<Rightarrow> taskRecord \<Rightarrow> taskRecord \<Rightarrow> recoveryBinding \<Rightarrow> recoveryBinding \<Rightarrow>
   u64 \<Rightarrow> u64 \<Rightarrow> EvidenceRef list \<Rightarrow> EnactmentRef list \<Rightarrow> int \<Rightarrow> AuditFactRef" where
  "newMandatoryAuditFact h i intent decisionID before_record after_record beforeRecovery afterRecovery
     previousRevision acceptedRevision acceptedEvidence enactments recordedAt =
     (let f =
       \<lparr>af_SchemaVersion = AuditSchemaV1, af_AuditFactID = i, af_CanonicalDigest = zero_digest,
        af_IntegrityVersion = AuditIntegrityV1, af_OwningModule = AuditModuleTaskOrchestration,
        af_DecisionID = decisionID, af_TaskID = ih_TaskID (iv_header intent),
        af_IdempotencyDecisionRequestID = ih_DecisionRequestID (iv_header intent),
        af_Action = Some (iv_kind intent), af_Result = AuditAccepted,
        af_AuthorityKind = av_kind (iv_authority intent), af_AuthorityID = av_id (iv_authority intent),
        af_AuthorizationGeneration = av_generation (iv_authority intent),
        af_AuthorityReason = av_reason (iv_authority intent), af_ReasonCode = auditReason intent,
        af_BeforeTaskRevision = previousRevision, af_AfterTaskRevision = acceptedRevision,
        af_BeforeStatus = aggregateStatus (tr_aggregate before_record),
        af_AfterStatus = aggregateStatus (tr_aggregate after_record),
        af_BeforeActivityGeneration = effectiveActivityGeneration before_record beforeRecovery,
        af_AfterActivityGeneration = effectiveActivityGeneration after_record afterRecovery,
        af_RecoveryGeneration = rb_generation afterRecovery,
        af_BeforeSafetyEpoch = effectiveSafetyEpoch before_record beforeRecovery,
        af_AfterSafetyEpoch = effectiveSafetyEpoch after_record afterRecovery,
        af_EvidenceRefs = acceptedEvidence, af_EnactmentRefs = map auditEnactment enactments,
        af_RetryPhaseRunID = fst (audit_retry (iv_payload intent)),
        af_RetryRuntimeRunID = snd (audit_retry (iv_payload intent)),
        af_ReconciliationOperationID = fst (audit_reconciliation (iv_payload intent)),
        af_ReconciliationFence = snd (audit_reconciliation (iv_payload intent)),
        af_OccurredAt = ih_OccurredAt (iv_header intent), af_RecordedAt = recordedAt,
        af_SourceClock = AuditSourceTaskOrchestrationClock\<rparr> in
      f\<lparr>af_CanonicalDigest := MandatoryAuditFactDigest h f\<rparr>)"

text \<open>
  The check of a reader. A missing action has no name; the loops over evidence and enactments
  compare what the fact keeps with the decision, position by position.
\<close>

definition validMandatoryAuditFact :: "hashing \<Rightarrow> AuditFactRef \<Rightarrow> TransitionDecision \<Rightarrow> bool" where
  "validMandatoryAuditFact h f d =
     (if af_SchemaVersion f \<noteq> AuditSchemaV1 \<or> af_IntegrityVersion f \<noteq> AuditIntegrityV1 \<or>
         af_OwningModule f \<noteq> AuditModuleTaskOrchestration \<or> af_Result f \<noteq> AuditAccepted \<or>
         \<not> validOpaqueID (af_AuditFactID f) \<or> af_DecisionID f \<noteq> td_DecisionID d \<or>
         af_TaskID f \<noteq> tp_TaskID (td_TaskProjection d) \<or>
         af_IdempotencyDecisionRequestID f \<noteq> td_DecisionRequestID d \<or>
         af_Action f = None \<or> authorityKindName (af_AuthorityKind f) = [] \<or>
         \<not> validOpaqueID (af_AuthorityID f) \<or> af_AuthorizationGeneration f = 0 \<or>
         af_BeforeTaskRevision f \<noteq> td_PreviousTaskRevision d \<or>
         af_AfterTaskRevision f \<noteq> td_AcceptedTaskRevision d \<or>
         af_AfterStatus f \<noteq> tp_Status (td_TaskProjection d) \<or>
         af_AfterActivityGeneration f \<noteq> tp_ActivityGeneration (td_TaskProjection d) \<or>
         af_AfterSafetyEpoch f \<noteq> tp_SafetyEpoch (td_TaskProjection d) \<or>
         af_BeforeSafetyEpoch f = 0 \<or> af_AfterSafetyEpoch f = 0 \<or>
         af_OccurredAt f = 0 \<or> af_RecordedAt f \<noteq> td_CommittedAt d \<or>
         af_SourceClock f \<noteq> AuditSourceTaskOrchestrationClock \<or>
         af_CanonicalDigest f = zero_digest \<or> af_CanonicalDigest f \<noteq> MandatoryAuditFactDigest h f \<or>
         length (af_EvidenceRefs f) \<noteq> length (td_AcceptedEvidenceRefs d) \<or>
         length (af_EnactmentRefs f) \<noteq> length (td_EnactmentRefs d) then False
      else if af_AuthorityKind f = AuthorityAdministrator \<and>
              (administratorReasonName (af_AuthorityReason f) = [] \<or> af_ReasonCode f = AuditReasonNone)
      then False
      else if af_AuthorityKind f \<noteq> AuthorityAdministrator \<and> af_AuthorityReason f \<noteq> 0 then False
      else list_all2 (=) (af_EvidenceRefs f) (td_AcceptedEvidenceRefs d) \<and>
           list_all2 (\<lambda>e ref. e = auditEnactment ref) (af_EnactmentRefs f) (td_EnactmentRefs d))"

text \<open>The digest does not depend on the field that keeps it.\<close>

lemma auditFact_canonical_digest [simp]:
  "auditFact_canonical (f\<lparr>af_CanonicalDigest := d\<rparr>) = auditFact_canonical f"
  by (simp add: auditFact_canonical_def)

lemma auditDigest_update: "MandatoryAuditFactDigest h (f\<lparr>af_CanonicalDigest := d\<rparr>) = MandatoryAuditFactDigest h f"
  by (simp add: MandatoryAuditFactDigest_def)

lemma canonicalDigest_update: "af_CanonicalDigest (f\<lparr>af_CanonicalDigest := d\<rparr>) = d"
  by simp

lemma newMandatoryAuditFact_digest:
  "MandatoryAuditFactDigest h (newMandatoryAuditFact h i intent decisionID before_record after_record
     beforeRecovery afterRecovery previousRevision acceptedRevision acceptedEvidence enactments recordedAt) =
   af_CanonicalDigest (newMandatoryAuditFact h i intent decisionID before_record after_record
     beforeRecovery afterRecovery previousRevision acceptedRevision acceptedEvidence enactments recordedAt)"
  unfolding newMandatoryAuditFact_def Let_def by (simp only: auditDigest_update canonicalDigest_update)

lemma auditReason_administrator:
  "av_kind (iv_authority i) = AuthorityAdministrator \<Longrightarrow> auditReason i \<noteq> AuditReasonNone"
  by (simp add: auditReason_def)

lemma effectiveActivityGeneration_current [simp]:
  "effectiveActivityGeneration (r\<lparr>tr_recoveryActivityFence := rb_activityGenerationFence recovery\<rparr>) recovery =
     tr_activityGeneration r"
  by (simp add: effectiveActivityGeneration_def)

text \<open>The fact of a valid intent passes the check of every decision that agrees with it.\<close>

lemma newMandatoryAuditFact_valid:
  assumes intent: "validIntent h intent" and hashing: "proper_hashing h"
    and i: "validOpaqueID i" and current: "tr_recoveryActivityFence after_record = rb_activityGenerationFence afterRecovery"
    and decision: "td_DecisionID d = decisionID" "td_DecisionRequestID d = ih_DecisionRequestID (iv_header intent)"
      "td_PreviousTaskRevision d = previousRevision" "td_AcceptedTaskRevision d = acceptedRevision"
      "td_AcceptedEvidenceRefs d = acceptedEvidence" "td_EnactmentRefs d = enactments"
      "td_CommittedAt d = recordedAt"
    and projection: "tp_TaskID (td_TaskProjection d) = ih_TaskID (iv_header intent)"
      "tp_Status (td_TaskProjection d) = aggregateStatus (tr_aggregate after_record)"
      "tp_ActivityGeneration (td_TaskProjection d) = tr_activityGeneration after_record"
      "tp_SafetyEpoch (td_TaskProjection d) = effectiveSafetyEpoch after_record afterRecovery"
  shows "validMandatoryAuditFact h (newMandatoryAuditFact h i intent decisionID before_record after_record
    beforeRecovery afterRecovery previousRevision acceptedRevision acceptedEvidence enactments recordedAt) d"
proof -
  from validIntentD [OF intent] have header: "ih_OccurredAt (iv_header intent) \<noteq> 0"
    and authority: "authority_valid (iv_authority intent)"
    by (auto simp: validIntentHeader_def)
  have fence: "effectiveActivityGeneration after_record afterRecovery = tr_activityGeneration after_record"
    using current by (simp add: effectiveActivityGeneration_def)
  have refs: "list_all2 (\<lambda>e ref. e = auditEnactment ref) (map auditEnactment enactments) enactments"
    by (simp add: list_all2_conv_all_nth)
  have "MandatoryAuditFactDigest h f \<noteq> zero_digest" for f
    using hashing by (auto simp: MandatoryAuditFactDigest_def)
  then show ?thesis
    unfolding validMandatoryAuditFact_def newMandatoryAuditFact_digest
    using header authority i fence decision projection refs
    by (auto simp: newMandatoryAuditFact_def Let_def authority_valid_def auditReason_administrator
        list_all2_refl split: if_splits)
qed

end
