(* ===== verification/Orch_Decide.thy ===== *)
theory Orch_Decide
  imports Orch_Audit
begin

text \<open>
  The decision engine (\<open>Decide\<close> and \<open>Query\<close> in
  \<open>backend/internal/taskorchestration/harness.go\<close>), in the order of the code: replay of a
  committed request or of accepted evidence, admission, the transition of the record, the
  commit of decision, outbox and indexes, and the response, with the crashes and faults the
  harness injects at each boundary.

  The lock of the persistence makes the part between the boundaries one step. A map the code
  ranges over is visited in list order.
\<close>

section \<open>Injected faults\<close>

datatype CrashBoundary = CrashBeforeCommit | CrashAfterCommit

datatype FaultPoint =
    FaultBeforeValidation
  | FaultAfterValidation
  | FaultBeforeCommit
  | FaultAfterCommit
  | FaultBeforeResponse

record harnessControls =
  hc_loseResponse :: bool
  hc_nextCrash :: "CrashBoundary option"
  hc_nextFault :: "FaultPoint option"
  hc_crashed :: bool

definition faultAt :: "FaultPoint \<Rightarrow> harnessControls \<Rightarrow> bool \<times> harnessControls" where
  "faultAt point c =
     (if hc_nextFault c \<noteq> Some point then (False, c) else (True, c\<lparr>hc_nextFault := None\<rparr>))"

definition takeResponseLoss :: "harnessControls \<Rightarrow> bool \<times> harnessControls" where
  "takeResponseLoss c = (hc_loseResponse c, c\<lparr>hc_loseResponse := False\<rparr>)"

definition crashAt :: "CrashBoundary \<Rightarrow> harnessControls \<Rightarrow> bool \<times> harnessControls" where
  "crashAt boundary c =
     (if hc_nextCrash c \<noteq> Some boundary then (False, c)
      else (True, c\<lparr>hc_nextCrash := None, hc_crashed := True\<rparr>))"

section \<open>Replay\<close>

definition requestScopeOf :: "intentValue \<Rightarrow> decisionRequestScope" where
  "requestScopeOf i =
     (ih_TaskID (iv_header i), iv_authority i, ih_DecisionRequestID (iv_header i))"

definition taskOf :: "memoryPersistence \<Rightarrow> ident \<Rightarrow> taskRecord" where
  "taskOf p taskID = (case map_of (mp_tasks p) taskID of None \<Rightarrow> zeroTaskRecord | Some r \<Rightarrow> r)"

definition putTask :: "ident \<Rightarrow> taskRecord \<Rightarrow> memoryPersistence \<Rightarrow> memoryPersistence" where
  "putTask taskID r p = p\<lparr>mp_tasks := AList.update taskID r (mp_tasks p)\<rparr>"

definition putDecision ::
  "intentValue \<Rightarrow> digest \<Rightarrow> TransitionDecision \<Rightarrow> memoryPersistence \<Rightarrow> memoryPersistence" where
  "putDecision i d decision p =
     p\<lparr>mp_decisions := AList.update (requestScopeOf i) (d, decision) (mp_decisions p)\<rparr>"

text \<open>Evidence is \<open>Some\<close> of its identifier and replay digest; \<open>None\<close> says there is nothing to replay.\<close>

definition replayEvidence ::
  "intentValue \<Rightarrow> digest \<Rightarrow> ident \<Rightarrow> digest \<Rightarrow> memoryPersistence \<Rightarrow>
   ((error_code + TransitionDecision) \<times> memoryPersistence) option" where
  "replayEvidence i d evidenceID replay p =
     (let taskID = ih_TaskID (iv_header i) in
      case map_of (mp_acceptedEvidence p) (taskID, evidenceID) of
        None \<Rightarrow> None
      | Some (committed, decision) \<Rightarrow>
          if committed = replay then Some (Inr decision, putDecision i d decision p)
          else Some (Inl ErrorEvidenceScopeConflict,
            putTask taskID
              (retainEvidenceDiagnostic evidenceID EvidenceDiagnosticScopeConflict (taskOf p taskID)) p))"

definition replayDecision ::
  "intentValue \<Rightarrow> digest \<Rightarrow> (ident \<times> digest) option \<Rightarrow> memoryPersistence \<Rightarrow>
   ((error_code + TransitionDecision) \<times> memoryPersistence) option" where
  "replayDecision i d evidence p =
     (case map_of (mp_decisions p) (requestScopeOf i) of
        Some (committed, decision) \<Rightarrow>
          Some (if committed = d then Inr decision else Inl ErrorIntegrityConflict, p)
      | None \<Rightarrow>
          (case evidence of None \<Rightarrow> None
           | Some (evidenceID, replay) \<Rightarrow> replayEvidence i d evidenceID replay p))"

section \<open>Admission\<close>

text \<open>The record a start begins with; any other intent takes the record there is.\<close>

definition startRecord ::
  "intentValue \<Rightarrow> bool \<Rightarrow> taskRecord \<Rightarrow> recoveryBinding \<Rightarrow> error_code + taskRecord" where
  "startRecord i exists r recovery =
     (if exists \<or> iv_kind i \<noteq> IntentStartTask then Inr r
      else case iv_payload i of
        PinnedStartPayload p \<Rightarrow>
          if ps_verifiedTask p \<noteq> ih_TaskID (iv_header i) then Inl ErrorInvalidIntent
          else if ps_safetyEpoch p \<noteq> effectiveSafetyEpoch r recovery then Inl ErrorStaleAuthority
          else Inr (initializeNewTask (effectiveSafetyEpoch r recovery)
            (rb_activityGenerationFence recovery) r)
      | _ \<Rightarrow> Inl ErrorInvalidIntent)"

definition cancellingBusiness :: "intentValue \<Rightarrow> taskRecord \<Rightarrow> bool" where
  "cancellingBusiness i r =
     (case tr_aggregate r of
        None \<Rightarrow> False
      | Some a \<Rightarrow> ag_status a = TaskCancelling \<and> isAggregateBusinessIntent (iv_kind i))"

definition activityGenerationStale ::
  "intentValue \<Rightarrow> bool \<Rightarrow> taskRecord \<Rightarrow> recoveryBinding \<Rightarrow> bool" where
  "activityGenerationStale i exists r recovery =
     (let requested = ih_ActivityGeneration (iv_header i);
          effective = effectiveActivityGeneration r recovery in
      exists \<and> requested \<noteq> effective \<and> \<not> allowsCommitFirstEvidenceDuringCancellation i r \<and>
      \<not> (iv_kind i = IntentBeginManualEdit \<and> requested = effective + 1))"

text \<open>A refusal: the error, and the diagnostic to keep when the intent carries evidence.\<close>

definition admitIntent ::
  "intentValue \<Rightarrow> bool \<Rightarrow> taskRecord \<Rightarrow> recoveryBinding \<Rightarrow>
   (error_code \<times> EvidenceDiagnosticReason option) + taskRecord" where
  "admitIntent i exists r recovery =
     (if rb_mode recovery = OperationalReadOnly \<and> iv_kind i \<noteq> IntentApplyOperationalFence
      then Inl (ErrorOperationalReadOnly, None)
      else case authorizeUserMutation i r exists of Inl e \<Rightarrow> Inl (e, None) | Inr _ \<Rightarrow>
      case startRecord i exists r recovery of Inl e \<Rightarrow> Inl (e, None) | Inr r \<Rightarrow>
      if cancellingBusiness i r then Inl (ErrorTerminalConflict, None)
      else if tr_revision r \<noteq> ih_ExpectedTaskRevision (iv_header i)
      then Inl (ErrorStaleTaskRevision, if exists then Some EvidenceDiagnosticStale else None)
      else if activityGenerationStale i exists r recovery
      then Inl (ErrorStaleAuthority, Some EvidenceDiagnosticStale)
      else case validateCancellationFence (iv_kind i) r exists of
        Inl e \<Rightarrow> Inl (e, Some (evidenceDiagnosticReason e))
      | Inr _ \<Rightarrow>
      case validateCoordinationBindings i (iv_payload i) r recovery exists of
        Inl e \<Rightarrow> Inl (e, if exists then Some (evidenceDiagnosticReason e) else None)
      | Inr _ \<Rightarrow> Inr r)"

section \<open>The transition\<close>

record transition =
  tx_record :: taskRecord
  tx_ids :: idAllocator
  tx_affected :: "ident list"
  tx_evidence :: "EvidenceRef list"
  tx_refs :: "EnactmentRef list"
  tx_newEnactments :: u64
  tx_activityGeneration :: u64
  tx_recovery :: recoveryBinding

definition acceptedActivityGeneration ::
  "intentValue \<Rightarrow> bool \<Rightarrow> taskRecord \<Rightarrow> recoveryBinding \<Rightarrow> u64" where
  "acceptedActivityGeneration i exists r recovery =
     (let requested = ih_ActivityGeneration (iv_header i);
          generation = (if exists then effectiveActivityGeneration r recovery else requested);
          generation = (if iv_kind i = IntentBeginManualEdit then requested else generation) in
      if iv_kind i = IntentCancelTask then generation + 1 else generation)"

definition adoptReconciler :: "intentValue \<Rightarrow> taskRecord \<Rightarrow> taskRecord" where
  "adoptReconciler i r =
     (if iv_kind i = IntentMakeWorkAvailable \<and> tr_aggregate r \<noteq> None \<and> tr_reconciler r = zeroAuthority
      then r\<lparr>tr_reconciler := iv_authority i\<rparr> else r)"

definition applyStage ::
  "hashing \<Rightarrow> intentValue \<Rightarrow> bool \<Rightarrow> taskRecord \<Rightarrow> recoveryBinding \<Rightarrow> ident \<Rightarrow> idAllocator \<Rightarrow>
   error_code + transition" where
  "applyStage h i exists r recovery decisionID ids =
     result_bind (applyAggregateIntent h (cloneTaskRecord r) i ids decisionID)
       (\<lambda>(updated, ids, affected, refs).
     let updated = adoptReconciler i updated;
         generation = acceptedActivityGeneration i exists r recovery;
         updated = syncAggregateCoordination refs generation (effectiveSafetyEpoch updated recovery) updated;
         (affected, evidence) =
           (case evidenceFacts (iv_payload i) of
              None \<Rightarrow> (affected, [])
            | Some (phaseRunID, e, _) \<Rightarrow>
                (if affected = [] \<and> validOpaqueID phaseRunID then [phaseRunID] else affected, [e])) in
     Inr \<lparr>tx_record = updated, tx_ids = ids, tx_affected = affected, tx_evidence = evidence,
          tx_refs = refs, tx_newEnactments = of_nat (length refs),
          tx_activityGeneration = generation, tx_recovery = recovery\<rparr>)"

definition addCancellation ::
  "hashing \<Rightarrow> intentValue \<Rightarrow> enum8 \<Rightarrow> lifecycleRequestBinding \<Rightarrow> ident \<Rightarrow> transition \<Rightarrow>
   error_code + transition" where
  "addCancellation h i reason fence phaseRunID t =
     (let affected = (if phaseRunID \<in> set (tx_affected t) then tx_affected t
                      else tx_affected t @ [phaseRunID]);
          c = \<lparr>cn_taskID = ih_TaskID (iv_header i), cn_phaseRunID = phaseRunID,
               cn_activityGeneration = tx_activityGeneration t,
               cn_safetyEpoch = effectiveSafetyEpoch (tx_record t) (tx_recovery t),
               cn_reason = reason, cn_occurredAt = ih_OccurredAt (iv_header i),
               cn_lifecycleFence = fence\<rparr> in
      result_bind (buildCancellationEnactments h c (tx_record t) (tx_ids t)) (\<lambda>(refs, r, ids).
      Inr (t\<lparr>tx_record := r, tx_ids := ids, tx_affected := affected, tx_refs := tx_refs t @ refs,
             tx_newEnactments := tx_newEnactments t + of_nat (length refs)\<rparr>)))"

text \<open>\<open>prior\<close> is the phase run that was active before the transition.\<close>

definition cancelStage ::
  "hashing \<Rightarrow> intentValue \<Rightarrow> ident option \<Rightarrow> transition \<Rightarrow> error_code + transition" where
  "cancelStage h i prior t =
     (case iv_payload i of
        CancelPayload reason fence \<Rightarrow>
          if tr_cancellationState (tx_record t) \<noteq> CancellationNotRequested then Inl ErrorTerminalConflict
          else
            let t = t\<lparr>tx_record := (tx_record t)\<lparr>tr_cancellationState := CancellationCancelling,
                                               tr_cancellationReason := reason\<rparr>\<rparr>;
                active = (case prior of Some k \<Rightarrow> Some k | None \<Rightarrow> activeBinding (tx_record t)) in
            result_bind (case active of None \<Rightarrow> Inr t
                         | Some phaseRunID \<Rightarrow> addCancellation h i reason fence phaseRunID t) (\<lambda>t.
            Inr (if hasEnactmentKind (tx_refs t) EnactmentTaskWorkspaceLifecycle then t
                 else t\<lparr>tx_record := (tx_record t)\<lparr>tr_cancellationState := CancellationCancelled\<rparr>\<rparr>))
      | _ \<Rightarrow> Inr t)"

definition reconcileStage :: "intentValue \<Rightarrow> transition \<Rightarrow> transition" where
  "reconcileStage i t =
     (case iv_payload i of
        ReconcilePayload operationID fence \<Rightarrow>
          t\<lparr>tx_refs := tx_refs t @ [the (map_of (tr_enactments (tx_record t)) operationID)],
            tx_record := (tx_record t)\<lparr>tr_reconciliationFences :=
              AList.update operationID fence (tr_reconciliationFences (tx_record t))\<rparr>\<rparr>
      | _ \<Rightarrow> t)"

definition fencedRecovery ::
  "intentValue \<Rightarrow> OperationalFenceBinding \<Rightarrow> taskRecord \<Rightarrow> recoveryBinding \<Rightarrow> recoveryBinding" where
  "fencedRecovery i b r recovery =
     (if isOperationalFenceCatchUp r recovery b then recovery
      else \<lparr>rb_authority = iv_authority i, rb_generation = of_Generation b, rb_fence = of_Fence b,
            rb_safetyEpoch = of_SafetyEpoch b,
            rb_activityGenerationFence = rb_activityGenerationFence recovery + 1, rb_mode = of_Mode b\<rparr>)"

definition fenceStage :: "hashing \<Rightarrow> intentValue \<Rightarrow> transition \<Rightarrow> error_code + transition" where
  "fenceStage h i t =
     (case iv_payload i of
        OperationalFencePayload b \<Rightarrow>
          let recovery = fencedRecovery i b (tx_record t) (tx_recovery t);
              t = t\<lparr>tx_recovery := recovery,
                    tx_activityGeneration := effectiveActivityGeneration (tx_record t) recovery\<rparr> in
          if of_Mode b = OperationalFullReady \<and>
             tr_cancellationState (tx_record t) = CancellationCancelling
          then (case activeBinding (tx_record t) of
                  None \<Rightarrow> Inr t
                | Some phaseRunID \<Rightarrow>
                    addCancellation h i (tr_cancellationReason (tx_record t)) (of_LifecycleFence b) phaseRunID t)
          else Inr t
      | _ \<Rightarrow> Inr t)"

definition taskProjection :: "ident \<Rightarrow> u64 \<Rightarrow> u64 \<Rightarrow> taskAggregate option \<Rightarrow> TaskProjection" where
  "taskProjection taskID revision activityGeneration aggregate =
     (let projection = zeroTaskProjection\<lparr>tp_TaskID := taskID, tp_TaskRevision := revision,
            tp_ActivityGeneration := activityGeneration\<rparr> in
      case aggregate of
        None \<Rightarrow> projection
      | Some a \<Rightarrow> projection
          \<lparr>tp_Status := ag_status a, tp_Route := ag_route a, tp_Activity := ag_activity a,
           tp_ExecutionLockID := el_ID (pn_ExecutionLock (ag_pinned a)),
           tp_TemplateLockID := pn_TemplateLockID (ag_pinned a), tp_CurrentPhase := ag_currentPhase a,
           tp_ActivePhaseRunID := ag_activePhaseRunID a,
           tp_LatestArtifactVersionID := ag_latestArtifactVersionID a,
           tp_TaskWorkspaceID := pn_TaskWorkspaceID (ag_pinned a),
           tp_LifecycleGeneration := ag_lifecycleGeneration a, tp_LifecycleFence := ag_lifecycleFence a\<rparr>)"

definition finalRecord :: "intentValue \<Rightarrow> u64 \<Rightarrow> transition \<Rightarrow> taskRecord" where
  "finalRecord i accepted t =
     (applyAcceptedCoordinationOutcome (iv_payload i) (tx_record t))
       \<lparr>tr_revision := accepted, tr_activityGeneration := tx_activityGeneration t,
        tr_recoveryActivityFence := rb_activityGenerationFence (tx_recovery t)\<rparr>"

definition decisionOf ::
  "hashing \<Rightarrow> int \<Rightarrow> intentValue \<Rightarrow> digest \<Rightarrow> ident \<Rightarrow> ident \<Rightarrow> taskRecord \<Rightarrow> recoveryBinding \<Rightarrow> transition \<Rightarrow>
   taskRecord \<Rightarrow> TransitionDecision" where
  "decisionOf h now i d decisionID auditFactID r recovery t updated =
     (let current = tr_revision r; taskID = ih_TaskID (iv_header i) in
      \<lparr>td_DecisionID = decisionID, td_DecisionRequestID = ih_DecisionRequestID (iv_header i),
       td_CanonicalRequestDigest = d, td_PreviousTaskRevision = current,
       td_AcceptedTaskRevision = current + 1,
       td_TaskProjection =
         (taskProjection taskID (current + 1) (tx_activityGeneration t) (tr_aggregate updated))
           \<lparr>tp_LatestRevisionID := tr_latestRevisionID updated,
            tp_LatestCheckpointID := tr_latestCheckpointID updated,
            tp_CancellationState := tr_cancellationState updated,
            tp_SafetyEpoch := effectiveSafetyEpoch updated (tx_recovery t),
            tp_OperationalMode := rb_mode (tx_recovery t)\<rparr>,
       td_AffectedPhaseRuns = tx_affected t, td_AcceptedEvidenceRefs = tx_evidence t,
       td_CommittedAt = now, td_EnactmentRefs = tx_refs t,
       td_MandatoryAuditFactRef =
         newMandatoryAuditFact h auditFactID i decisionID r updated recovery (tx_recovery t) current
           (current + 1) (tx_evidence t) (tx_refs t) now\<rparr>)"

text \<open>What the record keeps of its decision.\<close>

definition recordDecision ::
  "intentValue \<Rightarrow> digest \<Rightarrow> transition \<Rightarrow> TransitionDecision \<Rightarrow> taskRecord \<Rightarrow> taskRecord" where
  "recordDecision i d t decision r =
     (let r = (if tr_owner r = ([], 0) \<and> iv_kind i = IntentStartTask
               then r\<lparr>tr_owner := (av_id (iv_authority i), av_generation (iv_authority i))\<rparr> else r);
          r = markAcceptedEvidenceTerminal (iv_payload i) r;
          r = r\<lparr>tr_latestDecision := decision, tr_decisionCount := tr_decisionCount r + 1,
                tr_enactmentCount := tr_enactmentCount r + tx_newEnactments t\<rparr> in
      if iv_kind i = IntentSubmitConfirmationGate \<and> tr_aggregate r \<noteq> None
      then r\<lparr>tr_gateDecisions := AList.update (ih_DecisionRequestID (iv_header i))
             \<lparr>gd_digest = d, gd_decision = decision\<rparr> (tr_gateDecisions r)\<rparr>
      else r)"

definition transitionOf ::
  "hashing \<Rightarrow> int \<Rightarrow> intentValue \<Rightarrow> digest \<Rightarrow> bool \<Rightarrow> taskRecord \<Rightarrow> recoveryBinding \<Rightarrow> idAllocator \<Rightarrow>
   error_code + (TransitionDecision \<times> taskRecord \<times> idAllocator \<times> recoveryBinding)" where
  "transitionOf h now i d exists r recovery ids =
     (let (decisionID, ids) = nextDecisionID ids; (auditFactID, ids) = nextAuditFactID ids in
      result_bind (applyStage h i exists r recovery decisionID ids) (\<lambda>t.
      result_bind (cancelStage h i (activeBinding r) t) (\<lambda>t.
      result_bind (fenceStage h i (reconcileStage i t)) (\<lambda>t.
      let updated = finalRecord i (tr_revision r + 1) t;
          decision = decisionOf h now i d decisionID auditFactID r recovery t updated in
      Inr (decision, recordDecision i d t decision updated, tx_ids t, tx_recovery t)))))"

section \<open>Commit\<close>

definition enactmentScope :: "taskRecord \<Rightarrow> ident \<Rightarrow> ident \<times> ident" where
  "enactmentScope r operationID =
     (case map_of (tr_runtimeOperations r) operationID of
        Some b \<Rightarrow> (ob_phaseRunID b, ob_runtimeRunID b)
      | None \<Rightarrow>
     (case map_of (tr_lifecycleOperations r) operationID of
        Some b \<Rightarrow> (ob_phaseRunID b, [])
      | None \<Rightarrow>
     (case map_of (tr_publicationOperations r) operationID of
        Some b \<Rightarrow> (ob_phaseRunID b, [])
      | None \<Rightarrow>
     (case map_of (tr_schedulingOperations r) operationID of
        Some b \<Rightarrow> (ob_phaseRunID b, [])
      | None \<Rightarrow> ([], [])))))"

definition evidenceIDValues :: "EvidenceRef list \<Rightarrow> ident list" where
  "evidenceIDValues refs = map ev_ID refs"

definition outboxRow :: "TransitionDecision \<Rightarrow> taskRecord \<Rightarrow> EnactmentRef \<Rightarrow> outboxRecord" where
  "outboxRow decision r ref =
     \<lparr>ox_EnactmentRef = ref, ox_DecisionID = td_DecisionID decision,
      ox_TaskID = tp_TaskID (td_TaskProjection decision),
      ox_PhaseRunID = fst (enactmentScope r (en_OperationID ref)),
      ox_RuntimeRunID = snd (enactmentScope r (en_OperationID ref)),
      ox_SafetyEpoch = tp_SafetyEpoch (td_TaskProjection decision),
      ox_TaskRevision = td_AcceptedTaskRevision decision,
      ox_AcceptedEvidenceIDs = evidenceIDValues (td_AcceptedEvidenceRefs decision),
      ox_CommittedAt = td_CommittedAt decision\<rparr>"

definition putOutbox ::
  "TransitionDecision \<Rightarrow> taskRecord \<Rightarrow> (ident \<times> outboxRecord) list \<Rightarrow> (ident \<times> outboxRecord) list" where
  "putOutbox decision r outbox =
     fold (\<lambda>ref. put_new (en_OperationID ref) (outboxRow decision r ref)) (td_EnactmentRefs decision) outbox"

definition commitDecision ::
  "intentValue \<Rightarrow> digest \<Rightarrow> (ident \<times> digest) option \<Rightarrow> TransitionDecision \<Rightarrow> taskRecord \<Rightarrow> idAllocator \<Rightarrow>
   recoveryBinding \<Rightarrow> memoryPersistence \<Rightarrow> memoryPersistence" where
  "commitDecision i d evidence decision r ids recovery p =
     (let taskID = ih_TaskID (iv_header i);
          p = putDecision i d decision
                ((putTask taskID r p)\<lparr>mp_outbox := putOutbox decision r (mp_outbox p)\<rparr>) in
      p\<lparr>mp_acceptedEvidence :=
          (case evidence of
             None \<Rightarrow> mp_acceptedEvidence p
           | Some (evidenceID, replay) \<Rightarrow>
               AList.update (taskID, evidenceID) (replay, decision) (mp_acceptedEvidence p)),
        mp_ids := ids, mp_recovery := recovery\<rparr>)"

text \<open>The part of \<open>Decide\<close> under the lock: whether it committed, its result and the new state.\<close>

definition decideLocked ::
  "hashing \<Rightarrow> int \<Rightarrow> intentValue \<Rightarrow> digest \<Rightarrow> memoryPersistence \<Rightarrow>
   bool \<times> (error_code + TransitionDecision) \<times> memoryPersistence" where
  "decideLocked h now i d p =
     (let evidence = computeEvidenceReplayDigest h i in
      case replayDecision i d evidence p of
        Some replayed \<Rightarrow> (False, replayed)
      | None \<Rightarrow>
          let taskID = ih_TaskID (iv_header i); r = taskOf p taskID;
              exists = (map_of (mp_tasks p) taskID \<noteq> None) in
          (case admitIntent i exists r (mp_recovery p) of
             Inl (e, diagnostic) \<Rightarrow>
               (False, Inl e,
                (case (evidence, diagnostic) of
                   (Some (evidenceID, _), Some reason) \<Rightarrow>
                     putTask taskID (retainEvidenceDiagnostic evidenceID reason r) p
                 | _ \<Rightarrow> p))
           | Inr r \<Rightarrow>
               (case transitionOf h now i d exists r (mp_recovery p) (mp_ids p) of
                  Inl e \<Rightarrow> (False, Inl e, p)
                | Inr (decision, r, ids, recovery) \<Rightarrow>
                    (True, Inr decision, commitDecision i d evidence decision r ids recovery p))))"

section \<open>Decide\<close>

record engine =
  eg_persistence :: memoryPersistence
  eg_controls :: harnessControls
  eg_now :: int

text \<open>Up to the lock: the digest of the request, or why it is not taken.\<close>

definition prepareDecision ::
  "hashing \<Rightarrow> bool \<Rightarrow> intentValue \<Rightarrow> harnessControls \<Rightarrow> (error_code + digest) \<times> harnessControls" where
  "prepareDecision h contextDone i c =
     (if hc_crashed c \<or> contextDone then (Inl ErrorDependencyUnavailable, c)
      else let (failed, c) = faultAt FaultBeforeValidation c in
      if failed then (Inl ErrorDependencyUnavailable, c)
      else case canonicalizeIntent h i of Inl e \<Rightarrow> (Inl e, c) | Inr d \<Rightarrow>
      let (failed, c) = faultAt FaultAfterValidation c in
      if failed then (Inl ErrorDependencyUnavailable, c)
      else let (failed, c) = crashAt CrashBeforeCommit c in
      if failed then (Inl ErrorDependencyUnavailable, c)
      else let (failed, c) = faultAt FaultBeforeCommit c in
      if failed then (Inl ErrorDependencyUnavailable, c) else (Inr d, c))"

text \<open>From the commit on: whether the answer is lost.\<close>

definition loseAnswer :: "harnessControls \<Rightarrow> bool \<times> harnessControls" where
  "loseAnswer c =
     (let (lost, c) = faultAt FaultAfterCommit c in if lost then (True, c)
      else let (lost, c) = crashAt CrashAfterCommit c in if lost then (True, c)
      else let (lost, c) = takeResponseLoss c in if lost then (True, c)
      else faultAt FaultBeforeResponse c)"

definition Decide ::
  "hashing \<Rightarrow> bool \<Rightarrow> intentValue \<Rightarrow> engine \<Rightarrow> (error_code + TransitionDecision) \<times> engine" where
  "Decide h contextDone i e =
     (case prepareDecision h contextDone i (eg_controls e) of
        (Inl failure, c) \<Rightarrow> (Inl failure, e\<lparr>eg_controls := c\<rparr>)
      | (Inr d, c) \<Rightarrow>
          (let (committed, result, p) = decideLocked h (eg_now e) i d (eg_persistence e);
               e = e\<lparr>eg_persistence := p\<rparr> in
           if \<not> committed then (result, e\<lparr>eg_controls := c\<rparr>)
           else let (lost, c) = loseAnswer c in
             (if lost then Inl ErrorReconciliationRequired else result, e\<lparr>eg_controls := c\<rparr>)))"

definition Restart :: "engine \<Rightarrow> engine" where
  "Restart e = e\<lparr>eg_controls :=
     \<lparr>hc_loseResponse = False, hc_nextCrash = None, hc_nextFault = None, hc_crashed = False\<rparr>\<rparr>"

section \<open>Query\<close>

record RuntimeRunView =
  rw_RuntimeRunID :: ident
  rw_Outcome :: enum8

record PhaseRunView =
  pw_PhaseRunID :: ident
  pw_PhaseKey :: ident
  pw_Attempt :: u32
  pw_Generation :: u64
  pw_Fence :: u64
  pw_Outcome :: PhaseRunOutcome
  pw_ValidationOutcome :: enum8
  pw_LifecycleOutcome :: enum8
  pw_RevisionID :: ident
  pw_CheckpointID :: ident
  pw_PublicationOutcome :: enum8
  pw_ArtifactVersionID :: ident
  pw_TaskWorkspaceID :: ident
  pw_InputArtifactVersionID :: ident
  pw_RuntimeRuns :: "RuntimeRunView list"

text \<open>
  The view of a task: what \<open>taskProjection\<close> takes from the aggregate and the recovery binding,
  and what the record counts. Both are read from the same fields.
\<close>

record TaskOrchestrationView =
  vw_Projection :: TaskProjection
  vw_LatestDecisionID :: ident
  vw_DecisionCount :: u64
  vw_EnactmentCount :: u64
  vw_PhaseRuns :: "PhaseRunView list"
  vw_EvidenceDiagnosticCount :: u64
  vw_LatestEvidenceDiagnostic :: EvidenceDiagnostic
  vw_PhaseRunCount :: u64
  vw_RuntimeRunCount :: u64

definition runtimeRunCount :: "taskRecord \<Rightarrow> u64" where
  "runtimeRunCount r =
     of_nat (length (remdups (map (\<lambda>(_, operation). ob_runtimeRunID operation) (tr_runtimeOperations r))))"

definition phaseRunViewOf :: "phaseRunRecord \<Rightarrow> PhaseRunView" where
  "phaseRunViewOf run =
     \<lparr>pw_PhaseRunID = pr_id run, pw_PhaseKey = pr_phaseKey run, pw_Attempt = pr_attempt run,
      pw_Generation = pr_generation run, pw_Fence = pr_fence run, pw_Outcome = pr_outcome run,
      pw_ValidationOutcome = pr_validationOutcome run, pw_LifecycleOutcome = pr_lifecycleOutcome run,
      pw_RevisionID = pr_revisionID run, pw_CheckpointID = pr_checkpointID run,
      pw_PublicationOutcome = pr_publicationOutcome run, pw_ArtifactVersionID = pr_artifactVersionID run,
      pw_TaskWorkspaceID = pr_taskWorkspaceID run,
      pw_InputArtifactVersionID = pr_inputArtifactVersionID run,
      pw_RuntimeRuns = map (\<lambda>rt. \<lparr>rw_RuntimeRunID = rt_id rt, rw_Outcome = rt_outcome rt\<rparr>)
        (pr_runtimeRuns run)\<rparr>"

definition viewOf :: "ident \<Rightarrow> taskRecord \<Rightarrow> recoveryBinding \<Rightarrow> TaskOrchestrationView" where
  "viewOf taskID r recovery =
     \<lparr>vw_Projection =
        (taskProjection taskID (tr_revision r) (effectiveActivityGeneration r recovery) (tr_aggregate r))
          \<lparr>tp_LatestRevisionID := tr_latestRevisionID r, tp_LatestCheckpointID := tr_latestCheckpointID r,
           tp_CancellationState := tr_cancellationState r,
           tp_SafetyEpoch := effectiveSafetyEpoch r recovery, tp_OperationalMode := rb_mode recovery\<rparr>,
      vw_LatestDecisionID = td_DecisionID (tr_latestDecision r),
      vw_DecisionCount = tr_decisionCount r, vw_EnactmentCount = tr_enactmentCount r,
      vw_PhaseRuns = (case tr_aggregate r of None \<Rightarrow> [] | Some a \<Rightarrow> map phaseRunViewOf (ag_phaseRuns a)),
      vw_EvidenceDiagnosticCount = tr_evidenceDiagnosticCount r,
      vw_LatestEvidenceDiagnostic = tr_latestEvidenceDiagnostic r,
      vw_PhaseRunCount = of_nat (length (tr_phaseRuns r)), vw_RuntimeRunCount = runtimeRunCount r\<rparr>"

definition Query ::
  "bool \<Rightarrow> ident \<Rightarrow> authorityValue \<Rightarrow> engine \<Rightarrow> error_code + TaskOrchestrationView" where
  "Query contextDone taskID authority e =
     (if hc_crashed (eg_controls e) \<or> contextDone then Inl ErrorDependencyUnavailable
      else if \<not> validOpaqueID taskID \<or> \<not> authority_valid authority \<or> av_kind authority \<noteq> AuthorityUser
      then Inl ErrorInvalidIntent
      else case map_of (mp_tasks (eg_persistence e)) taskID of
        None \<Rightarrow> Inl ErrorAuthorizationDenied
      | Some r \<Rightarrow>
          if tr_owner r \<noteq> (av_id authority, av_generation authority) then Inl ErrorAuthorizationDenied
          else Inr (viewOf taskID r (mp_recovery (eg_persistence e))))"

end
