(* ===== verification/Orch_Engine.thy ===== *)
theory Orch_Engine
  imports Orch_Decide
begin

text \<open>
  The harness around the decision engine
  (\<open>backend/internal/taskorchestration/harness.go\<close>): its construction, the faults a caller may
  arm, and the engine as a transition system. A step is one call: a decision, a restart over the
  same persistence, the clock moving on or a fault being armed. The lemmas say what a decision
  does to the persistence in each of its three outcomes (replayed, refused, committed); every
  property of runs rests on them.
\<close>

section \<open>The harness\<close>

record HarnessRecoveryFixture =
  hr_Authority :: authorityValue
  hr_Generation :: u64
  hr_Fence :: u64
  hr_SafetyEpoch :: u64
  hr_Mode :: enum8

record HarnessConfig =
  hg_Now :: int
  hg_IDs :: idAllocator
  hg_Recovery :: HarnessRecoveryFixture
  hg_Tasks :: "HarnessTaskFixture list"

definition zeroRecoveryFixture :: HarnessRecoveryFixture where
  "zeroRecoveryFixture =
     \<lparr>hr_Authority = zeroAuthority, hr_Generation = 0, hr_Fence = 0, hr_SafetyEpoch = 0, hr_Mode = 0\<rparr>"

definition recoveryFromFixture :: "HarnessRecoveryFixture \<Rightarrow> error_code + recoveryBinding" where
  "recoveryFromFixture f =
     (if f \<noteq> zeroRecoveryFixture
      then if \<not> authority_valid (hr_Authority f) \<or> av_kind (hr_Authority f) \<noteq> AuthorityRecovery \<or>
              hr_Generation f = 0 \<or> hr_Fence f = 0 \<or> hr_SafetyEpoch f = 0 \<or>
              operationalModeName (hr_Mode f) = []
           then Inl ErrorInvalidIntent
           else Inr \<lparr>rb_authority = hr_Authority f, rb_generation = hr_Generation f,
                     rb_fence = hr_Fence f, rb_safetyEpoch = hr_SafetyEpoch f,
                     rb_activityGenerationFence = 0, rb_mode = hr_Mode f\<rparr>
      else Inr \<lparr>rb_authority = zeroAuthority, rb_generation = 0, rb_fence = 0, rb_safetyEpoch = 0,
                rb_activityGenerationFence = 0, rb_mode = OperationalFullReady\<rparr>)"

fun addFixtures ::
  "recoveryBinding \<Rightarrow> HarnessTaskFixture list \<Rightarrow> (ident \<times> taskRecord) list \<Rightarrow>
   error_code + (ident \<times> taskRecord) list" where
  "addFixtures recovery [] tasks = Inr tasks"
| "addFixtures recovery (f # fs) tasks =
     result_bind (taskRecordFromFixture f) (\<lambda>r.
     if map_of tasks (tf_TaskID f) \<noteq> None then Inl ErrorInvalidIntent
     else if rb_safetyEpoch recovery \<noteq> 0 \<and> tr_safetyEpoch r \<noteq> rb_safetyEpoch recovery
     then Inl ErrorInvalidIntent
     else addFixtures recovery fs (AList.update (tf_TaskID f) r tasks))"

definition newHarness :: "memoryPersistence \<Rightarrow> int \<Rightarrow> engine" where
  "newHarness p clock =
     \<lparr>eg_persistence = p,
      eg_controls = \<lparr>hc_loseResponse = False, hc_nextCrash = None, hc_nextFault = None, hc_crashed = False\<rparr>,
      eg_now = clock\<rparr>"

definition NewDeterministicHarness :: "HarnessConfig \<Rightarrow> error_code + engine" where
  "NewDeterministicHarness c =
     (if hg_Now c = 0 then Inl ErrorInvalidIntent
      else result_bind (recoveryFromFixture (hg_Recovery c)) (\<lambda>recovery.
        result_bind (addFixtures recovery (hg_Tasks c) []) (\<lambda>tasks.
        Inr (newHarness
          \<lparr>mp_tasks = tasks, mp_decisions = [], mp_acceptedEvidence = [], mp_outbox = [],
           mp_ids = newDeterministicIDAllocator (hg_IDs c), mp_recovery = recovery\<rparr> (hg_Now c)))))"

definition LoseNextResponse :: "engine \<Rightarrow> engine" where
  "LoseNextResponse e = e\<lparr>eg_controls := (eg_controls e)\<lparr>hc_loseResponse := True\<rparr>\<rparr>"

definition CrashNextAt :: "CrashBoundary \<Rightarrow> engine \<Rightarrow> engine" where
  "CrashNextAt boundary e = e\<lparr>eg_controls := (eg_controls e)\<lparr>hc_nextCrash := Some boundary\<rparr>\<rparr>"

definition FailNextAt :: "FaultPoint \<Rightarrow> engine \<Rightarrow> engine" where
  "FailNextAt point e = e\<lparr>eg_controls := (eg_controls e)\<lparr>hc_nextFault := Some point\<rparr>\<rparr>"

definition AdvanceClock :: "int \<Rightarrow> engine \<Rightarrow> error_code + engine" where
  "AdvanceClock elapsed e =
     (if elapsed < 0 then Inl ErrorInvalidIntent else Inr (e\<lparr>eg_now := eg_now e + elapsed\<rparr>))"

section \<open>The engine as a transition system\<close>

text \<open>A decision on the persistence, whatever the faults do to its answer.\<close>

inductive decides :: "hashing \<Rightarrow> memoryPersistence \<Rightarrow> memoryPersistence \<Rightarrow> bool" for h where
  decides: "canonicalizeIntent h i = Inr d \<Longrightarrow> decideLocked h now i d p = (committed, result, p') \<Longrightarrow>
    decides h p p'"

inductive engine_step :: "hashing \<Rightarrow> engine \<Rightarrow> engine \<Rightarrow> bool" for h where
  step_decide: "Decide h contextDone i e = (result, e') \<Longrightarrow> engine_step h e e'"
| step_restart: "engine_step h e (Restart e)"
| step_advance: "AdvanceClock elapsed e = Inr e' \<Longrightarrow> engine_step h e e'"
| step_lose: "engine_step h e (LoseNextResponse e)"
| step_crash: "engine_step h e (CrashNextAt boundary e)"
| step_fail: "engine_step h e (FailNextAt point e)"

inductive_cases decidesE: "decides h p p'"
inductive_cases engine_stepE: "engine_step h e e'"

lemma prepareDecision_digest:
  "prepareDecision h contextDone i c = (Inr d, c') \<Longrightarrow> canonicalizeIntent h i = Inr d"
  by (auto simp: prepareDecision_def Let_def split: if_splits prod.splits sum.splits)

text \<open>What \<open>Decide\<close> does to the persistence: nothing, or the part under the lock.\<close>

lemma Decide_persistence:
  assumes "Decide h contextDone i e = (result, e')"
  obtains (before_lock) failure where "result = Inl failure" "eg_persistence e' = eg_persistence e"
  | (locked) d committed locked where "canonicalizeIntent h i = Inr d"
      "decideLocked h (eg_now e) i d (eg_persistence e) = (committed, locked, eg_persistence e')"
      "result = locked \<or> committed \<and> result = Inl ErrorReconciliationRequired"
proof -
  obtain prepared c where prepared: "prepareDecision h contextDone i (eg_controls e) = (prepared, c)"
    by (cases "prepareDecision h contextDone i (eg_controls e)")
  show thesis
  proof (cases prepared)
    case (Inl failure)
    with assms prepared show ?thesis by (intro that(1)) (auto simp: Decide_def)
  next
    case (Inr d)
    obtain committed locked p where
      locked: "decideLocked h (eg_now e) i d (eg_persistence e) = (committed, locked, p)"
      by (cases "decideLocked h (eg_now e) i d (eg_persistence e)")
    with assms prepared Inr have "eg_persistence e' = p"
      "result = locked \<or> committed \<and> result = Inl ErrorReconciliationRequired"
      by (auto simp: Decide_def Let_def split: if_splits prod.splits)
    with prepared Inr locked show ?thesis by (auto intro: that(2) dest: prepareDecision_digest)
  qed
qed

lemma engine_step_persistence:
  assumes "engine_step h e e'"
  shows "eg_persistence e' = eg_persistence e \<or> decides h (eg_persistence e) (eg_persistence e')"
  using assms
proof cases
  case (step_decide contextDone i result)
  then show ?thesis by (auto elim!: Decide_persistence intro: decides.intros)
qed (auto simp: Restart_def AdvanceClock_def LoseNextResponse_def CrashNextAt_def FailNextAt_def split: if_splits)

text \<open>So an invariant of the persistence that decisions keep holds throughout a run.\<close>

lemma engine_run_persistence:
  "(engine_step h)\<^sup>*\<^sup>* e e' \<Longrightarrow> (decides h)\<^sup>*\<^sup>* (eg_persistence e) (eg_persistence e')"
proof (induction rule: rtranclp_induct)
  case (step y z)
  with engine_step_persistence [of h y z] show ?case by (auto intro: rtranclp.rtrancl_into_rtrancl)
qed simp

lemma run_invariant:
  assumes "r\<^sup>*\<^sup>* s t" and "P s" and "\<And>s t. r s t \<Longrightarrow> P s \<Longrightarrow> P t"
  shows "P t"
  using assms by (induction rule: rtranclp_induct) auto

section \<open>The outcomes of a decision\<close>

lemma transitionOf_Inr:
  assumes "transitionOf h now i d exists r recovery ids = Inr (decision, r', ids', recovery')"
  obtains decisionID auditFactID ids\<^sub>1 ids\<^sub>2 t\<^sub>1 t\<^sub>2 t where
    "nextDecisionID ids = (decisionID, ids\<^sub>1)" "nextAuditFactID ids\<^sub>1 = (auditFactID, ids\<^sub>2)"
    "applyStage h i exists r recovery decisionID ids\<^sub>2 = Inr t\<^sub>1"
    "cancelStage h i (activeBinding r) t\<^sub>1 = Inr t\<^sub>2"
    "fenceStage h i (reconcileStage i t\<^sub>2) = Inr t"
    "decision = decisionOf h now i d decisionID auditFactID r recovery t (finalRecord i (tr_revision r + 1) t)"
    "r' = recordDecision i d t decision (finalRecord i (tr_revision r + 1) t)"
    "ids' = tx_ids t" "recovery' = tx_recovery t"
  using assms
  by (auto simp: transitionOf_def Let_def result_bind_eq_Inr split: prod.splits)

lemma decideLocked_cases:
  assumes "decideLocked h now i d p = (committed, result, p')"
  obtains (replayed) "\<not> committed" "replayDecision i d (computeEvidenceReplayDigest h i) p = Some (result, p')"
  | (refused) e diagnostic where "\<not> committed" "result = Inl e"
      "replayDecision i d (computeEvidenceReplayDigest h i) p = None"
      "admitIntent i (map_of (mp_tasks p) (ih_TaskID (iv_header i)) \<noteq> None)
         (taskOf p (ih_TaskID (iv_header i))) (mp_recovery p) = Inl (e, diagnostic)"
      "p' = (case (computeEvidenceReplayDigest h i, diagnostic) of
               (Some (evidenceID, _), Some reason) \<Rightarrow>
                 putTask (ih_TaskID (iv_header i))
                   (retainEvidenceDiagnostic evidenceID reason (taskOf p (ih_TaskID (iv_header i)))) p
             | _ \<Rightarrow> p)"
  | (failed) e r where "\<not> committed" "result = Inl e" "p' = p"
      "replayDecision i d (computeEvidenceReplayDigest h i) p = None"
      "admitIntent i (map_of (mp_tasks p) (ih_TaskID (iv_header i)) \<noteq> None)
         (taskOf p (ih_TaskID (iv_header i))) (mp_recovery p) = Inr r"
      "transitionOf h now i d (map_of (mp_tasks p) (ih_TaskID (iv_header i)) \<noteq> None) r
         (mp_recovery p) (mp_ids p) = Inl e"
  | (committed) r decision r' ids recovery where "committed" "result = Inr decision"
      "replayDecision i d (computeEvidenceReplayDigest h i) p = None"
      "admitIntent i (map_of (mp_tasks p) (ih_TaskID (iv_header i)) \<noteq> None)
         (taskOf p (ih_TaskID (iv_header i))) (mp_recovery p) = Inr r"
      "transitionOf h now i d (map_of (mp_tasks p) (ih_TaskID (iv_header i)) \<noteq> None) r
         (mp_recovery p) (mp_ids p) = Inr (decision, r', ids, recovery)"
      "p' = commitDecision i d (computeEvidenceReplayDigest h i) decision r' ids recovery p"
proof (cases "replayDecision i d (computeEvidenceReplayDigest h i) p")
  case (Some replayed)
  with assms show ?thesis by (auto simp: decideLocked_def Let_def intro: that(1))
next
  case None
  let ?taskID = "ih_TaskID (iv_header i)"
  let ?exists = "map_of (mp_tasks p) ?taskID \<noteq> None"
  note open_lock = assms [unfolded decideLocked_def Let_def None option.case]
  show ?thesis
  proof (cases "admitIntent i ?exists (taskOf p ?taskID) (mp_recovery p)")
    case (Inl refusal)
    with open_lock None show ?thesis
      by (cases refusal) (rule that(2), auto)
  next
    case (Inr r)
    show ?thesis
    proof (cases "transitionOf h now i d ?exists r (mp_recovery p) (mp_ids p)")
      case failure: (Inl e)
      with open_lock None Inr show ?thesis by (intro that(3)) auto
    next
      case success: (Inr changed)
      obtain decision r' ids recovery where "changed = (decision, r', ids, recovery)"
        by (cases changed)
      with success open_lock None Inr show ?thesis by (intro that(4)) auto
    qed
  qed
qed

end
