(* ===== verification/Orch_Replay.thy ===== *)
theory Orch_Replay
  imports Orch_Engine
begin

text \<open>
  Ambiguous answers of the decision engine. \<open>ErrorReconciliationRequired\<close> is the one answer
  that leaves a caller in doubt: the decision was committed and its answer lost. The first
  section shows that no check, handler or enactment of the engine ever gives this error; the
  second that a recorded request is answered from the record for good (an interpretation of
  \<open>replayed_command\<close>), so that repeating the request resolves the doubt.
\<close>

section \<open>Only a lost answer is ambiguous\<close>

named_theorems unambiguous \<open>operations that never ask for reconciliation\<close>

abbreviation (input) ambiguous :: "error_code + 'a" where
  "ambiguous \<equiv> Inl ErrorReconciliationRequired"

lemma reject_if_unambiguous [unambiguous]: "e \<noteq> ErrorReconciliationRequired \<Longrightarrow> reject_if b e \<noteq> ambiguous"
  by (simp add: reject_if_def)

lemma result_bind_unambiguous [unambiguous]:
  "r \<noteq> ambiguous \<Longrightarrow> (\<And>x. f x \<noteq> ambiguous) \<Longrightarrow> result_bind r f \<noteq> ambiguous"
  by (cases r) auto

lemma computeCanonicalIntent_unambiguous [unambiguous]: "computeCanonicalIntent h i \<noteq> ambiguous"
  by (auto simp: computeCanonicalIntent_def validateEvidenceIntent_def result_bind_eq_Inl split: option.splits)

lemma canonicalizeIntent_unambiguous: "canonicalizeIntent h i \<noteq> ambiguous"
  by (auto simp: canonicalizeIntent_def unambiguous result_bind_eq_Inl)

subsection \<open>Admission\<close>

lemma validateAuthorityBinding_unambiguous [unambiguous]: "validateAuthorityBinding a b \<noteq> ambiguous"
  by (simp add: validateAuthorityBinding_def)

lemma authorizeUserMutation_unambiguous [unambiguous]: "authorizeUserMutation i r exists \<noteq> ambiguous"
  by (simp add: authorizeUserMutation_def)

lemma startRecord_unambiguous [unambiguous]: "startRecord i exists r recovery \<noteq> ambiguous"
  by (simp add: startRecord_def split: intentPayload.splits)

lemma validateCancellationFence_unambiguous [unambiguous]: "validateCancellationFence k r exists \<noteq> ambiguous"
  by (simp add: validateCancellationFence_def)

lemma validatePhaseRunIdentity_unambiguous [unambiguous]: "validatePhaseRunIdentity r k g f \<noteq> ambiguous"
  by (simp add: validatePhaseRunIdentity_def split: option.splits)

lemma validatePhaseRunBinding_unambiguous [unambiguous]: "validatePhaseRunBinding r k g f \<noteq> ambiguous"
  by (simp add: validatePhaseRunBinding_def unambiguous split: option.splits)

lemma operationOpen_unambiguous [unambiguous]: "operationOpen operations k P a \<noteq> ambiguous"
  by (simp add: operationOpen_def unambiguous split: option.splits)

lemma operationCurrent_unambiguous [unambiguous]: "operationCurrent r recovery header b g f epoch \<noteq> ambiguous"
  by (simp add: operationCurrent_def)

lemma validateReconciler_unambiguous [unambiguous]: "validateReconciler i r exists \<noteq> ambiguous"
  by (simp add: validateReconciler_def unambiguous)

lemmas binding_checks =
  validateRuntimeEvidence_def validateValidationEvidence_def validateLifecycleEvidence_def
  validateReconstructionEvidence_def validatePublicationEvidence_def validateSchedulingEvidence_def
  validateOperationalFence_def validateReconcile_def

lemma validateCoordinationBindings_unambiguous [unambiguous]:
  "validateCoordinationBindings i payload r recovery exists \<noteq> ambiguous"
  by (cases payload) (simp_all add: binding_checks unambiguous split: option.splits)

lemma admitIntent_unambiguous: "admitIntent i exists r recovery \<noteq> Inl (ErrorReconciliationRequired, diagnostic)"
proof
  assume "admitIntent i exists r recovery = Inl (ErrorReconciliationRequired, diagnostic)"
  moreover note authorizeUserMutation_unambiguous [of i r exists] startRecord_unambiguous [of i exists r recovery]
    validateCancellationFence_unambiguous [of "iv_kind i"] validateCoordinationBindings_unambiguous [of i "iv_payload i"]
  ultimately show False by (auto simp: admitIntent_def split: sum.splits if_splits)
qed

subsection \<open>Handlers\<close>

lemma canonicalRuntimeStartEnactment_unambiguous [unambiguous]:
  "canonicalRuntimeStartEnactment h r a phase run runtimeRunID operationID header decisionID \<noteq> ambiguous"
  by (simp add: canonicalRuntimeStartEnactment_def Let_def split: option.splits sum.splits)

lemma canonicalRuntimeCancelEnactment_unambiguous [unambiguous]:
  "canonicalRuntimeCancelEnactment h binding taskID operationID reason occurredAt \<noteq> ambiguous"
  by (simp add: canonicalRuntimeCancelEnactment_def Let_def split: sum.splits)

lemma startRuntimeRuns_unambiguous [unambiguous]:
  "startRuntimeRuns h r a phase run header decisionID n ids \<noteq> ambiguous"
  by (induction n arbitrary: ids) (simp_all add: unambiguous split: prod.splits)

lemma beginAggregatePhase_unambiguous [unambiguous]: "beginAggregatePhase h r a header ids d \<noteq> ambiguous"
  by (simp add: beginAggregatePhase_def Let_def unambiguous split: option.splits prod.splits)

lemma retryAggregatePhase_unambiguous [unambiguous]: "retryAggregatePhase h r a header k ids d \<noteq> ambiguous"
  by (simp add: retryAggregatePhase_def unambiguous split: option.splits)

lemma retryAggregateRuntimeRun_unambiguous [unambiguous]:
  "retryAggregateRuntimeRun h r a header k m ids d \<noteq> ambiguous"
  by (simp add: retryAggregateRuntimeRun_def unambiguous split: option.splits prod.splits)

lemma setRuntimeOutcome_unambiguous [unambiguous]: "setRuntimeOutcome k m v rts \<noteq> ambiguous"
  by (induction rts) (simp_all add: unambiguous)

lemma runtime_evidence_unambiguous [unambiguous]:
  "acceptAggregateRuntimeOrCoordinationEvidence a b ids \<noteq> ambiguous"
  by (simp add: acceptAggregateRuntimeOrCoordinationEvidence_def acceptAggregateRuntimeEvidence_def
      unambiguous split: option.splits)

lemma validation_evidence_unambiguous [unambiguous]:
  "acceptAggregateValidationEvidence r a header b ids d \<noteq> ambiguous"
  by (simp add: acceptAggregateValidationEvidence_def Let_def split: option.splits)

lemma lifecycle_evidence_unambiguous [unambiguous]:
  "acceptAggregateTaskWorkspaceLifecycleEvidence r a b ids \<noteq> ambiguous"
  by (simp add: acceptAggregateTaskWorkspaceLifecycleEvidence_def cancellingLifecycleEvidence_def Let_def
      unambiguous split: option.splits)

lemma reconstruction_evidence_unambiguous [unambiguous]:
  "acceptAggregateTaskWorkspaceReconstructionEvidence a b ids \<noteq> ambiguous"
  by (simp add: acceptAggregateTaskWorkspaceReconstructionEvidence_def)

lemma publication_evidence_unambiguous [unambiguous]: "acceptAggregatePublicationEvidence a b ids \<noteq> ambiguous"
  by (simp add: acceptAggregatePublicationEvidence_def Let_def split: option.splits)

lemma confirmation_unambiguous [unambiguous]: "acceptAggregateConfirmation a k ids \<noteq> ambiguous"
  by (simp add: acceptAggregateConfirmation_def split: option.splits)

lemma cancelAggregateTask_unambiguous [unambiguous]: "cancelAggregateTask a ids \<noteq> ambiguous"
  by (simp add: cancelAggregateTask_def split: option.splits)

lemma beginAggregateManualEdit_unambiguous [unambiguous]:
  "beginAggregateManualEdit r a header m ids d \<noteq> ambiguous"
  by (simp add: beginAggregateManualEdit_def Let_def split: option.splits)

lemma applyCancelling_unambiguous [unambiguous]: "applyCancelling r a payload ids \<noteq> ambiguous"
  by (cases payload) (simp_all add: unambiguous)

lemma applyHandler_unambiguous [unambiguous]: "applyHandler h r a header payload ids d \<noteq> ambiguous"
  by (cases payload) (simp_all add: unambiguous)

lemma applyAggregateIntent_unambiguous [unambiguous]: "applyAggregateIntent h r i ids d \<noteq> ambiguous"
  by (simp add: applyAggregateIntent_def unambiguous split: intentPayload.splits option.splits prod.splits)

subsection \<open>Stages\<close>

lemma startOperations_unambiguous [unambiguous]: "startOperations r k rts \<noteq> ambiguous"
  by (induction rts) (simp_all add: unambiguous split: option.splits)

lemma cancelRuntimeOperations_unambiguous [unambiguous]:
  "cancelRuntimeOperations h c scheduler operations r ids \<noteq> ambiguous"
  by (induction operations arbitrary: r ids) (simp_all add: unambiguous Let_def split: prod.splits)

lemma cancelLifecycle_unambiguous [unambiguous]: "cancelLifecycle c a r ids \<noteq> ambiguous"
  by (simp add: cancelLifecycle_def Let_def split: option.splits prod.splits)

lemma buildCancellationEnactments_unambiguous [unambiguous]: "buildCancellationEnactments h c r ids \<noteq> ambiguous"
  by (simp add: buildCancellationEnactments_def unambiguous split: option.splits prod.splits)

lemma addCancellation_unambiguous [unambiguous]: "addCancellation h i reason fence k t \<noteq> ambiguous"
  by (simp add: addCancellation_def Let_def unambiguous split: prod.splits)

lemma applyStage_unambiguous [unambiguous]: "applyStage h i exists r recovery d ids \<noteq> ambiguous"
  by (simp add: applyStage_def Let_def unambiguous split: prod.splits option.splits)

lemma cancelStage_unambiguous [unambiguous]: "cancelStage h i prior t \<noteq> ambiguous"
  by (simp add: cancelStage_def Let_def unambiguous split: intentPayload.splits option.splits)

lemma fenceStage_unambiguous [unambiguous]: "fenceStage h i t \<noteq> ambiguous"
  by (simp add: fenceStage_def Let_def unambiguous split: intentPayload.splits option.splits)

lemma transitionOf_unambiguous [unambiguous]: "transitionOf h now i d exists r recovery ids \<noteq> ambiguous"
  by (simp add: transitionOf_def Let_def unambiguous split: prod.splits)

lemma replayDecision_unambiguous: "replayDecision i d evidence p \<noteq> Some (ambiguous, p')"
  by (auto simp: replayDecision_def replayEvidence_def Let_def split: option.splits prod.splits if_splits)

lemma decideLocked_unambiguous: "decideLocked h now i d p \<noteq> (committed, ambiguous, p')"
proof
  assume "decideLocked h now i d p = (committed, ambiguous, p')"
  then show False
    by (cases rule: decideLocked_cases)
      (auto simp: replayDecision_unambiguous transitionOf_unambiguous admitIntent_unambiguous)
qed

section \<open>Recorded requests\<close>

text \<open>A decision without faults, and the decision recorded for a request.\<close>

definition serveIntent ::
  "hashing \<Rightarrow> int \<times> intentValue \<Rightarrow> memoryPersistence \<Rightarrow> (error_code + TransitionDecision) \<times> memoryPersistence"
where
  "serveIntent h q p =
     (case canonicalizeIntent h (snd q) of
        Inl e \<Rightarrow> (Inl e, p)
      | Inr d \<Rightarrow> snd (decideLocked h (fst q) (snd q) d p))"

definition recordedDecision ::
  "hashing \<Rightarrow> memoryPersistence \<Rightarrow> int \<times> intentValue \<Rightarrow> TransitionDecision option" where
  "recordedDecision h p q =
     (case (canonicalizeIntent h (snd q), map_of (mp_decisions p) (requestScopeOf (snd q))) of
        (Inr d, Some (committed, decision)) \<Rightarrow> if committed = d then Some decision else None
      | _ \<Rightarrow> None)"

lemma recordedDecision_Some:
  "recordedDecision h p q = Some decision \<longleftrightarrow>
     (\<exists>d. canonicalizeIntent h (snd q) = Inr d \<and>
       map_of (mp_decisions p) (requestScopeOf (snd q)) = Some (d, decision))"
  by (auto simp: recordedDecision_def split: sum.splits option.splits)

lemma decisions_frame [simp, frame_simps]:
  "mp_decisions (putTask k r p) = mp_decisions p"
  "mp_decisions (putDecision i d decision p) =
     AList.update (requestScopeOf i) (d, decision) (mp_decisions p)"
  "mp_decisions (commitDecision i d evidence decision r ids recovery p) =
     AList.update (requestScopeOf i) (d, decision) (mp_decisions p)"
  by (simp_all add: putTask_def putDecision_def commitDecision_def Let_def)

lemma replayDecision_recorded:
  "map_of (mp_decisions p) (requestScopeOf i) = Some (committed, decision) \<Longrightarrow>
     replayDecision i d evidence p =
       Some (if committed = d then Inr decision else Inl ErrorIntegrityConflict, p)"
  by (simp add: replayDecision_def)

lemma decideLocked_recorded:
  "map_of (mp_decisions p) (requestScopeOf i) = Some (committed, decision) \<Longrightarrow>
     decideLocked h now i d p =
       (False, if committed = d then Inr decision else Inl ErrorIntegrityConflict, p)"
  by (simp add: decideLocked_def replayDecision_recorded)

lemma decideLocked_records:
  assumes "decideLocked h now i d p = (committed, Inr decision, p')"
  shows "map_of (mp_decisions p') (requestScopeOf i) = Some (d, decision)"
  using assms
proof (cases rule: decideLocked_cases)
  case replayed
  then show ?thesis
    by (auto simp: replayDecision_def replayEvidence_def Let_def split: option.splits if_splits prod.splits)
qed auto

lemma replayDecision_None: "replayDecision i d evidence p = None \<Longrightarrow> map_of (mp_decisions p) (requestScopeOf i) = None"
  by (auto simp: replayDecision_def split: option.splits prod.splits)

lemma decideLocked_keeps_decisions:
  assumes "decideLocked h now i d p = (committed, result, p')" and "map_of (mp_decisions p) scope = Some kept"
  shows "map_of (mp_decisions p') scope = Some kept"
  using assms(1)
proof (cases rule: decideLocked_cases)
  case replayed
  then show ?thesis
    using assms(2)
    by (auto simp: replayDecision_def replayEvidence_def Let_def split: option.splits if_splits prod.splits)
next
  case refused
  then show ?thesis using assms(2) by (auto split: option.splits prod.splits)
next
  case committed
  then show ?thesis using assms(2) by (auto dest: replayDecision_None)
qed (use assms(2) in simp)

interpretation decision_requests: replayed_command "serveIntent h" "recordedDecision h" for h
proof
  fix q :: "int \<times> intentValue" and p decision p'
  assume "serveIntent h q p = (Inr decision, p')"
  then obtain d committed where "canonicalizeIntent h (snd q) = Inr d"
    "decideLocked h (fst q) (snd q) d p = (committed, Inr decision, p')"
    by (auto simp: serveIntent_def split: sum.splits) (metis prod.collapse snd_conv)
  then show "recordedDecision h p' q = Some decision"
    by (auto simp: recordedDecision_Some dest: decideLocked_records)
next
  fix q q' :: "int \<times> intentValue" and p decision result p'
  assume "recordedDecision h p q = Some decision" and "serveIntent h q' p = (result, p')"
  then show "recordedDecision h p' q = Some decision"
    by (auto simp: recordedDecision_Some serveIntent_def split: sum.splits)
      (metis decideLocked_keeps_decisions prod.collapse snd_conv)
next
  fix q :: "int \<times> intentValue" and p decision
  assume "recordedDecision h p q = Some decision"
  then show "serveIntent h q p = (Inr decision, p)"
    by (auto simp: recordedDecision_Some serveIntent_def decideLocked_recorded)
qed

lemma decides_serveIntent: "decides h p p' \<longleftrightarrow> (\<exists>now i d. canonicalizeIntent h i = Inr d \<and> p' = snd (serveIntent h (now, i) p))"
proof
  assume "decides h p p'"
  then show "\<exists>now i d. canonicalizeIntent h i = Inr d \<and> p' = snd (serveIntent h (now, i) p)"
  proof cases
    case (decides i d now committed result)
    then show ?thesis by (intro exI [of _ now] exI [of _ i] exI [of _ d]) (simp add: serveIntent_def)
  qed
next
  assume "\<exists>now i d. canonicalizeIntent h i = Inr d \<and> p' = snd (serveIntent h (now, i) p)"
  then obtain now i d where "canonicalizeIntent h i = Inr d" "p' = snd (snd (decideLocked h now i d p))"
    by (auto simp: serveIntent_def)
  then show "decides h p p'"
    by (intro decides.intros [of h i d now p "fst (decideLocked h now i d p)" "fst (snd (decideLocked h now i d p))"])
      simp_all
qed

lemma run_keeps_decision:
  "(decides h)\<^sup>*\<^sup>* p p' \<Longrightarrow> recordedDecision h p q = Some decision \<Longrightarrow> recordedDecision h p' q = Some decision"
proof (induction rule: rtranclp_induct)
  case (step y z)
  then obtain now i where "z = snd (serveIntent h (now, i) y)" by (auto simp: decides_serveIntent)
  with step show ?case using decision_requests.keeps by (metis prod.collapse)
qed

section \<open>Answers\<close>

text \<open>No fault is armed, and the process runs.\<close>

definition quiet :: "engine \<Rightarrow> bool" where
  "quiet e \<longleftrightarrow> \<not> hc_crashed (eg_controls e) \<and> hc_nextFault (eg_controls e) = None \<and>
     hc_nextCrash (eg_controls e) = None"

lemma quiet_Restart: "quiet (Restart e)"
  by (simp add: quiet_def Restart_def)

lemma prepareDecision_quiet:
  "quiet e \<Longrightarrow> canonicalizeIntent h i = Inr d \<Longrightarrow> prepareDecision h False i (eg_controls e) = (Inr d, eg_controls e)"
  by (simp add: quiet_def prepareDecision_def faultAt_def crashAt_def)

lemma Decide_recorded:
  assumes "quiet e" and "canonicalizeIntent h i = Inr d"
    and "map_of (mp_decisions (eg_persistence e)) (requestScopeOf i) = Some (committed, decision)"
  shows "Decide h False i e = (if committed = d then Inr decision else Inl ErrorIntegrityConflict, e)"
  using assms by (simp add: Decide_def prepareDecision_quiet decideLocked_recorded)

text \<open>An answer in doubt was a commit, and its decision is on record.\<close>

lemma Decide_answer:
  assumes "Decide h contextDone i e = (Inr decision, e')"
  shows "recordedDecision h (eg_persistence e') (now, i) = Some decision"
proof -
  from assms obtain d c committed p where "prepareDecision h contextDone i (eg_controls e) = (Inr d, c)"
    "decideLocked h (eg_now e) i d (eg_persistence e) = (committed, Inr decision, p)" "eg_persistence e' = p"
    by (auto simp: Decide_def Let_def split: prod.splits sum.splits if_splits)
  then show ?thesis
    by (auto simp: recordedDecision_Some dest: prepareDecision_digest decideLocked_records)
qed

lemma Decide_in_doubt:
  assumes "Decide h contextDone i e = (Inl ErrorReconciliationRequired, e')"
  obtains d decision where "canonicalizeIntent h i = Inr d"
    "decideLocked h (eg_now e) i d (eg_persistence e) = (True, Inr decision, eg_persistence e')"
proof -
  obtain prepared c where prepared: "prepareDecision h contextDone i (eg_controls e) = (prepared, c)"
    by (cases "prepareDecision h contextDone i (eg_controls e)")
  have "prepared \<noteq> Inl ErrorReconciliationRequired"
    using prepared canonicalizeIntent_unambiguous [of h i]
    by (auto simp: prepareDecision_def Let_def split: if_splits prod.splits sum.splits)
  with assms prepared obtain d where d: "prepared = Inr d"
    by (cases prepared) (auto simp: Decide_def)
  obtain committed result p where
    locked: "decideLocked h (eg_now e) i d (eg_persistence e) = (committed, result, p)"
    by (cases "decideLocked h (eg_now e) i d (eg_persistence e)")
  with decideLocked_unambiguous have settled: "result \<noteq> Inl ErrorReconciliationRequired" by metis
  with assms prepared d locked have "committed" "eg_persistence e' = p"
    by (auto simp: Decide_def Let_def split: if_splits prod.splits)
  moreover from locked \<open>committed\<close> obtain decision where "result = Inr decision"
    by (cases rule: decideLocked_cases) auto
  ultimately show thesis using prepared d locked by (auto intro: that dest: prepareDecision_digest)
qed

end
