(* ===== verification/Orch_Commit.thy ===== *)
theory Orch_Commit
  imports Orch_Replay
begin

text \<open>
  What a committed decision does to the record of its task and to the persistence around it:
  the frame of every stage, the record the decision leaves behind, and from these the
  properties of one decision and of whole runs.

  \<open>outline\<close> is a record without its coordination bindings: the stages that follow the
  aggregate change nothing else.
\<close>

section \<open>The frame of the stages\<close>

definition outline :: "taskRecord \<Rightarrow> taskRecord" where
  "outline r =
     r\<lparr>tr_phaseRuns := [], tr_runtimeOperations := [], tr_validationBindings := [],
       tr_lifecycleOperations := [], tr_publicationOperations := [], tr_schedulingOperations := [],
       tr_enactments := []\<rparr>"

lemma outline_fields:
  "tr_revision (outline r) = tr_revision r"
  "tr_activityGeneration (outline r) = tr_activityGeneration r"
  "tr_recoveryActivityFence (outline r) = tr_recoveryActivityFence r"
  "tr_owner (outline r) = tr_owner r"
  "tr_latestDecision (outline r) = tr_latestDecision r"
  "tr_decisionCount (outline r) = tr_decisionCount r"
  "tr_enactmentCount (outline r) = tr_enactmentCount r"
  "tr_safetyEpoch (outline r) = tr_safetyEpoch r"
  "tr_evidenceDiagnosticCount (outline r) = tr_evidenceDiagnosticCount r"
  "tr_latestEvidenceDiagnostic (outline r) = tr_latestEvidenceDiagnostic r"
  "tr_latestRevisionID (outline r) = tr_latestRevisionID r"
  "tr_latestCheckpointID (outline r) = tr_latestCheckpointID r"
  "tr_cancellationState (outline r) = tr_cancellationState r"
  "tr_cancellationReason (outline r) = tr_cancellationReason r"
  "tr_reconciler (outline r) = tr_reconciler r"
  "tr_reconciliationFences (outline r) = tr_reconciliationFences r"
  "tr_aggregate (outline r) = tr_aggregate r"
  by (simp_all add: outline_def)

lemma outline_update [simp]:
  "outline (r\<lparr>tr_phaseRuns := x\<^sub>1\<rparr>) = outline r"
  "outline (r\<lparr>tr_runtimeOperations := x\<^sub>2\<rparr>) = outline r"
  "outline (r\<lparr>tr_validationBindings := x\<^sub>2\<rparr>) = outline r"
  "outline (r\<lparr>tr_lifecycleOperations := x\<^sub>2\<rparr>) = outline r"
  "outline (r\<lparr>tr_publicationOperations := x\<^sub>2\<rparr>) = outline r"
  "outline (r\<lparr>tr_schedulingOperations := x\<^sub>2\<rparr>) = outline r"
  "outline (r\<lparr>tr_enactments := x\<^sub>3\<rparr>) = outline r"
  by (simp_all add: outline_def)

lemma outline_aggregate [simp]: "outline (r\<lparr>tr_aggregate := a\<rparr>) = (outline r)\<lparr>tr_aggregate := a\<rparr>"
  by (simp add: outline_def)

lemma outline_same: "outline r' = outline r \<Longrightarrow> outline r' = (outline r)\<lparr>tr_aggregate := tr_aggregate r'\<rparr>"
  by (metis outline_fields(17) taskRecord.surjective taskRecord.update_convs(24))

lemma fold_keeps: "(\<And>x s. g (f x s) = g s) \<Longrightarrow> g (fold f xs s) = g s"
  by (induction xs arbitrary: s) auto

lemma bindScheduling_outline [simp]:
  "outline (bindAggregateSchedulingOperation authorities run generation epoch k r) = outline r"
  by (simp add: bindAggregateSchedulingOperation_def)

lemma syncRuntimeRun_outline [simp]: "outline (syncRuntimeRun authorities run generation epoch rt r) = outline r"
  by (simp add: syncRuntimeRun_def)

lemma syncPhaseRun_outline [simp]: "outline (syncPhaseRun a generation epoch run r) = outline r"
  by (simp add: syncPhaseRun_def syncPublication_def syncLifecycle_def Let_def
      fold_keeps [of outline "syncRuntimeRun authorities run generation epoch" for authorities])

lemma syncAggregateCoordination_outline [simp]:
  "outline (syncAggregateCoordination refs generation epoch r) = outline r"
  by (simp add: syncAggregateCoordination_def syncReconstruction_def putEnactments_def
      fold_keeps [of outline "syncPhaseRun a generation epoch" for a] split: option.splits)

lemma cancelRuntimeOperations_Cons:
  assumes "cancelRuntimeOperations h c scheduler (operation # operations) r ids = Inr (refs, r', ids')"
  obtains operationID ids\<^sub>1 payload ref ids\<^sub>2 refs' where
    "nextUniqueOperationID r ids = (operationID, ids\<^sub>1)"
    "refs = ref # refs'" "en_OperationID ref = operationID"
    "cancelRuntimeOperations h c scheduler operations
       (bindCancelOperation c scheduler operation operationID payload ref r) ids\<^sub>2 = Inr (refs', r', ids')"
proof -
  obtain operationID ids\<^sub>1 where k: "nextUniqueOperationID r ids = (operationID, ids\<^sub>1)" by fastforce
  obtain causationID ids\<^sub>2 where m: "nextCausationID ids\<^sub>1 = (causationID, ids\<^sub>2)" by fastforce
  from assms k m show thesis by (auto simp: result_bind_eq_Inr Let_def intro: that)
qed

lemma bindCancelOperation_outline [simp]:
  "outline (bindCancelOperation c scheduler operation operationID payload ref r) = outline r"
  by (simp add: bindCancelOperation_def Let_def)

lemma cancelRuntimeOperations_outline:
  "cancelRuntimeOperations h c scheduler operations r ids = Inr (refs, r', ids') \<Longrightarrow> outline r' = outline r"
proof (induction operations arbitrary: r ids refs)
  case (Cons operation operations)
  from Cons.prems show ?case by (rule cancelRuntimeOperations_Cons) (drule Cons.IH, simp)
qed simp

text \<open>A cancellation may note a new lifecycle generation and fence, nothing more.\<close>

definition refenced :: "taskAggregate option \<Rightarrow> taskAggregate option \<Rightarrow> bool" where
  "refenced a a' \<longleftrightarrow>
     (\<exists>generation fence. a' = map_option (\<lambda>a. a\<lparr>ag_lifecycleGeneration := generation,
                                                  ag_lifecycleFence := fence\<rparr>) a)"

lemma refenced_refl [simp]: "refenced a a"
proof (cases a)
  case (Some x)
  then have "a = map_option (\<lambda>a. a\<lparr>ag_lifecycleGeneration := ag_lifecycleGeneration x,
    ag_lifecycleFence := ag_lifecycleFence x\<rparr>) a" by simp
  then show ?thesis unfolding refenced_def by blast
qed (simp add: refenced_def)

lemma refenced_Some:
  "refenced (Some a) (Some (a\<lparr>ag_lifecycleGeneration := generation, ag_lifecycleFence := fence\<rparr>))"
  unfolding refenced_def by (intro exI [of _ generation] exI [of _ fence]) simp

lemma refenced_trans: "refenced a b \<Longrightarrow> refenced b c \<Longrightarrow> refenced a c"
  unfolding refenced_def by (elim exE) (simp add: option.map_comp comp_def, blast)

lemma refencedE:
  assumes "refenced a a'"
  obtains generation fence where
    "a' = map_option (\<lambda>a. a\<lparr>ag_lifecycleGeneration := generation, ag_lifecycleFence := fence\<rparr>) a"
  using assms by (auto simp: refenced_def)

lemma buildCancellationEnactments_frame:
  assumes "buildCancellationEnactments h c r ids = Inr (refs, r', ids')"
  shows "outline r' = (outline r)\<lparr>tr_aggregate := tr_aggregate r'\<rparr>" "refenced (tr_aggregate r) (tr_aggregate r')"
proof -
  from assms obtain a operations refs\<^sub>1 r\<^sub>1 ids\<^sub>1 refs\<^sub>2 where a: "tr_aggregate r = Some a"
    and runs: "cancelRuntimeOperations h c (da_Scheduler (pn_Authorities (ag_pinned a)))
      operations r ids = Inr (refs\<^sub>1, r\<^sub>1, ids\<^sub>1)"
    and lifecycle: "cancelLifecycle c a r\<^sub>1 ids\<^sub>1 = Inr (refs\<^sub>2, r', ids')"
    by (auto simp: buildCancellationEnactments_def result_bind_eq_Inr split: option.splits)
  from cancelRuntimeOperations_outline [OF runs] have o: "outline r\<^sub>1 = outline r" .
  have "tr_aggregate r\<^sub>1 = tr_aggregate r" using o by (metis outline_fields(17))
  with lifecycle a consider "r' = r\<^sub>1"
    | operation scheduler ref where "r' = bindCancellationFence c scheduler operation ref a r\<^sub>1"
    by (auto simp: cancelLifecycle_def Let_def split: option.splits prod.splits if_splits)
  then have frame: "outline r' = (outline r)\<lparr>tr_aggregate := tr_aggregate r'\<rparr> \<and>
    refenced (tr_aggregate r) (tr_aggregate r')"
  proof cases
    case 1
    with o have "outline r' = outline r" by simp
    from outline_same [OF this] 1 show ?thesis using \<open>tr_aggregate r\<^sub>1 = tr_aggregate r\<close> by (simp only: refenced_refl)
  next
    case 2
    then show ?thesis by (simp add: bindCancellationFence_def Let_def o a refenced_Some)
  qed
  from frame show "outline r' = (outline r)\<lparr>tr_aggregate := tr_aggregate r'\<rparr>" by (rule conjunct1)
  from frame show "refenced (tr_aggregate r) (tr_aggregate r')" by (rule conjunct2)
qed

text \<open>Applying the intent changes the aggregate only.\<close>

lemma applyAggregateIntent_frame:
  "applyAggregateIntent h r i ids d = Inr (r', ids', affected, refs) \<Longrightarrow> r' = r\<lparr>tr_aggregate := tr_aggregate r'\<rparr>"
  by (auto simp: applyAggregateIntent_def result_bind_eq_Inr split: option.splits if_splits intentPayload.splits prod.splits)

text \<open>The transition after the aggregate was changed and its bindings follow it.\<close>

lemma outline_adoptReconciler [simp]: "outline (adoptReconciler i r) = adoptReconciler i (outline r)"
  by (cases "tr_aggregate r") (simp_all add: adoptReconciler_def outline_def)

lemma adoptReconciler_fields [simp]:
  "tr_revision (adoptReconciler i r) = tr_revision r"
  "tr_owner (adoptReconciler i r) = tr_owner r"
  "tr_decisionCount (adoptReconciler i r) = tr_decisionCount r"
  "tr_safetyEpoch (adoptReconciler i r) = tr_safetyEpoch r"
  "tr_cancellationState (adoptReconciler i r) = tr_cancellationState r"
  "tr_aggregate (adoptReconciler i r) = tr_aggregate r"
  by (simp_all add: adoptReconciler_def)

lemma applyStage_Inr:
  assumes "applyStage h i exists r recovery decisionID ids = Inr t"
  obtains r' affected refs where
    "applyAggregateIntent h (cloneTaskRecord r) i ids decisionID = Inr (r', tx_ids t, affected, refs)"
    "tx_record t = syncAggregateCoordination refs (acceptedActivityGeneration i exists r recovery)
       (effectiveSafetyEpoch (adoptReconciler i r') recovery) (adoptReconciler i r')"
    "tx_refs t = refs" "tx_newEnactments t = of_nat (length refs)"
    "tx_activityGeneration t = acceptedActivityGeneration i exists r recovery" "tx_recovery t = recovery"
    "tx_evidence t = (case evidenceFacts (iv_payload i) of None \<Rightarrow> [] | Some (_, e, _) \<Rightarrow> [e])"
  using assms
  by (auto simp: applyStage_def Let_def result_bind_eq_Inr split: prod.splits option.splits)

lemma addCancellation_Inr:
  assumes "addCancellation h i reason fence phaseRunID t = Inr t'"
  obtains c refs where
    "buildCancellationEnactments h c (tx_record t) (tx_ids t) = Inr (refs, tx_record t', tx_ids t')"
    "tx_refs t' = tx_refs t @ refs" "tx_newEnactments t' = tx_newEnactments t + of_nat (length refs)"
    "tx_activityGeneration t' = tx_activityGeneration t" "tx_recovery t' = tx_recovery t"
    "tx_evidence t' = tx_evidence t"
  using assms by (auto simp: addCancellation_def Let_def result_bind_eq_Inr)

lemma addCancellation_frame:
  assumes "addCancellation h i reason fence phaseRunID t = Inr t'"
  shows "outline (tx_record t') = (outline (tx_record t))\<lparr>tr_aggregate := tr_aggregate (tx_record t')\<rparr>"
    and "refenced (tr_aggregate (tx_record t)) (tr_aggregate (tx_record t'))"
    and "tx_activityGeneration t' = tx_activityGeneration t" "tx_recovery t' = tx_recovery t"
      "tx_evidence t' = tx_evidence t"
  by (rule addCancellation_Inr [OF assms], drule buildCancellationEnactments_frame, assumption)
    (rule addCancellation_Inr [OF assms], drule buildCancellationEnactments_frame(2), assumption,
      (rule addCancellation_Inr [OF assms], assumption)+)

text \<open>The fields no stage touches: the decision sets them at its end, or never.\<close>

definition kept :: "taskRecord \<Rightarrow> (u64 \<times> u64 \<times> u64 \<times> ident \<times> u64) \<times> TransitionDecision \<times> (u64 \<times> u64 \<times> u64 \<times> u64) \<times>
  EvidenceDiagnostic \<times> ident \<times> ident" where
  "kept r = ((tr_revision r, tr_activityGeneration r, tr_recoveryActivityFence r, tr_owner r), tr_latestDecision r,
     (tr_decisionCount r, tr_enactmentCount r, tr_safetyEpoch r, tr_evidenceDiagnosticCount r),
     tr_latestEvidenceDiagnostic r, tr_latestRevisionID r, tr_latestCheckpointID r)"

lemma kept_update [simp]:
  "kept (r\<lparr>tr_aggregate := a\<rparr>) = kept r"
  "kept (r\<lparr>tr_cancellationState := state\<rparr>) = kept r"
  "kept (r\<lparr>tr_cancellationReason := reason\<rparr>) = kept r"
  "kept (r\<lparr>tr_reconciliationFences := fences\<rparr>) = kept r"
  "kept (r\<lparr>tr_reconciler := worker\<rparr>) = kept r"
  "kept (r\<lparr>tr_gateDecisions := gates\<rparr>) = kept r"
  by (simp_all add: kept_def)

lemma kept_outline [simp]: "kept (outline r) = kept r"
  by (simp add: kept_def outline_fields)

lemma kept_fields:
  assumes "kept r' = kept r"
  shows "tr_revision r' = tr_revision r" "tr_activityGeneration r' = tr_activityGeneration r"
    "tr_recoveryActivityFence r' = tr_recoveryActivityFence r" "tr_owner r' = tr_owner r" "tr_latestDecision r' = tr_latestDecision r"
    "tr_decisionCount r' = tr_decisionCount r" "tr_enactmentCount r' = tr_enactmentCount r"
    "tr_safetyEpoch r' = tr_safetyEpoch r" "tr_evidenceDiagnosticCount r' = tr_evidenceDiagnosticCount r"
    "tr_latestEvidenceDiagnostic r' = tr_latestEvidenceDiagnostic r"
    "tr_latestRevisionID r' = tr_latestRevisionID r" "tr_latestCheckpointID r' = tr_latestCheckpointID r"
  using assms by (simp_all add: kept_def)

lemma kept_from_outline: "outline r' = (outline r)\<lparr>tr_aggregate := a\<rparr> \<Longrightarrow> kept r' = kept r"
  by (metis kept_outline kept_update(1))

text \<open>What a stage after the first leaves: the fields above, and of the aggregate all but its fence.\<close>

definition stage_frame :: "transition \<Rightarrow> transition \<Rightarrow> bool" where
  "stage_frame t t' \<longleftrightarrow>
     kept (tx_record t') = kept (tx_record t) \<and>
     refenced (tr_aggregate (tx_record t)) (tr_aggregate (tx_record t')) \<and>
     tr_reconciler (tx_record t') = tr_reconciler (tx_record t) \<and> tx_evidence t' = tx_evidence t"

lemma stage_frame_refl [simp]: "stage_frame t t"
  by (simp add: stage_frame_def)

lemma stage_frame_trans [trans]: "stage_frame t t' \<Longrightarrow> stage_frame t' t'' \<Longrightarrow> stage_frame t t''"
  by (auto simp: stage_frame_def intro: refenced_trans)

lemma addCancellation_stage:
  assumes "addCancellation h i reason fence phaseRunID t = Inr t'"
  shows "stage_frame t t'"
    and "tr_cancellationState (tx_record t') = tr_cancellationState (tx_record t)"
    and "tx_activityGeneration t' = tx_activityGeneration t" "tx_recovery t' = tx_recovery t"
proof -
  note frame = addCancellation_frame [OF assms]
  have "tr_reconciler (tx_record t') = tr_reconciler (tx_record t)"
    using arg_cong [OF frame(1), of tr_reconciler] by (simp add: outline_fields)
  with frame kept_from_outline [OF frame(1)] show "stage_frame t t'" by (simp add: stage_frame_def)
  show "tr_cancellationState (tx_record t') = tr_cancellationState (tx_record t)"
    using arg_cong [OF frame(1), of tr_cancellationState] by (simp add: outline_fields)
qed (use addCancellation_frame [OF assms] in simp_all)

lemma cancelStage_other: "iv_kind i \<noteq> IntentCancelTask \<Longrightarrow> cancelStage h i prior t = Inr t' \<Longrightarrow> t' = t"
  by (cases "iv_payload i") (simp_all add: cancelStage_def iv_kind_def)

text \<open>The two stages that may cancel: the intermediate transition, and the cancellation added to it.\<close>

abbreviation (input) markCancelling :: "enum8 \<Rightarrow> transition \<Rightarrow> transition" where
  "markCancelling reason t \<equiv> t\<lparr>tx_record := (tx_record t)\<lparr>tr_cancellationState := CancellationCancelling,
     tr_cancellationReason := reason\<rparr>\<rparr>"

abbreviation (input) markCancelled :: "transition \<Rightarrow> transition" where
  "markCancelled t \<equiv> t\<lparr>tx_record := (tx_record t)\<lparr>tr_cancellationState := CancellationCancelled\<rparr>\<rparr>"

lemma cancelStage_cases:
  assumes "cancelStage h i prior t = Inr t'"
  obtains (other) "t' = t"
  | (cancelled) reason fence t\<^sub>1 where "iv_payload i = CancelPayload reason fence"
      "t\<^sub>1 = markCancelling reason t \<or>
       (\<exists>phaseRunID. addCancellation h i reason fence phaseRunID (markCancelling reason t) = Inr t\<^sub>1)"
      "t' = t\<^sub>1 \<or> t' = markCancelled t\<^sub>1"
proof (cases "iv_payload i")
  case (CancelPayload reason fence)
  from assms CancelPayload obtain t\<^sub>1 where
    "t\<^sub>1 = markCancelling reason t \<or>
      (\<exists>phaseRunID. addCancellation h i reason fence phaseRunID (markCancelling reason t) = Inr t\<^sub>1)"
    "t' = t\<^sub>1 \<or> t' = markCancelled t\<^sub>1"
    by (auto simp: cancelStage_def Let_def result_bind_eq_Inr split: if_splits option.splits)
  with CancelPayload show thesis by (rule that(2))
qed (use assms in \<open>simp_all add: cancelStage_def that(1)\<close>)

abbreviation (input) markFenced :: "intentValue \<Rightarrow> OperationalFenceBinding \<Rightarrow> transition \<Rightarrow> transition" where
  "markFenced i b t \<equiv> t\<lparr>tx_recovery := fencedRecovery i b (tx_record t) (tx_recovery t),
     tx_activityGeneration := effectiveActivityGeneration (tx_record t)
       (fencedRecovery i b (tx_record t) (tx_recovery t))\<rparr>"

lemma fenceStage_cases:
  assumes "fenceStage h i t = Inr t'"
  obtains (other) "\<And>b. iv_payload i \<noteq> OperationalFencePayload b" "t' = t"
  | (fenced) b where "iv_payload i = OperationalFencePayload b"
      "t' = markFenced i b t \<or>
       (\<exists>reason fence phaseRunID. addCancellation h i reason fence phaseRunID (markFenced i b t) = Inr t')"
proof (cases "iv_payload i")
  case (OperationalFencePayload b)
  from assms OperationalFencePayload have "t' = markFenced i b t \<or>
      (\<exists>reason fence phaseRunID. addCancellation h i reason fence phaseRunID (markFenced i b t) = Inr t')"
    by (auto simp: fenceStage_def Let_def split: if_splits option.splits)
  with OperationalFencePayload show thesis by (rule that(2))
qed (use assms in \<open>simp_all add: fenceStage_def that(1)\<close>)

lemma cancelStage_frame:
  assumes "cancelStage h i prior t = Inr t'"
  shows "stage_frame t t'" "tx_activityGeneration t' = tx_activityGeneration t" "tx_recovery t' = tx_recovery t"
proof -
  from assms have "stage_frame t t' \<and> tx_activityGeneration t' = tx_activityGeneration t \<and> tx_recovery t' = tx_recovery t"
  proof (cases rule: cancelStage_cases)
    case (cancelled reason fence t\<^sub>1)
    from cancelled(2) have "stage_frame (markCancelling reason t) t\<^sub>1 \<and>
      tx_activityGeneration t\<^sub>1 = tx_activityGeneration t \<and> tx_recovery t\<^sub>1 = tx_recovery t"
      by (auto dest: addCancellation_stage)
    moreover have "stage_frame t (markCancelling reason t)" by (simp add: stage_frame_def)
    moreover have "stage_frame t\<^sub>1 t'" "tx_activityGeneration t' = tx_activityGeneration t\<^sub>1"
      "tx_recovery t' = tx_recovery t\<^sub>1" using cancelled(3) by (auto simp: stage_frame_def)
    ultimately show ?thesis by (auto intro: stage_frame_trans)
  qed simp
  then show "stage_frame t t'" "tx_activityGeneration t' = tx_activityGeneration t" "tx_recovery t' = tx_recovery t"
    by simp_all
qed

lemma reconcileStage_frame [simp]:
  "stage_frame t (reconcileStage i t)" "tx_activityGeneration (reconcileStage i t) = tx_activityGeneration t"
  "tx_recovery (reconcileStage i t) = tx_recovery t" "tr_cancellationState (tx_record (reconcileStage i t)) =
     tr_cancellationState (tx_record t)"
  "tr_aggregate (tx_record (reconcileStage i t)) = tr_aggregate (tx_record t)"
  by (simp_all add: reconcileStage_def stage_frame_def split: intentPayload.splits)

lemma fenceStage_other: "iv_kind i \<noteq> IntentApplyOperationalFence \<Longrightarrow> fenceStage h i t = Inr t' \<Longrightarrow> t' = t"
  by (cases "iv_payload i") (simp_all add: fenceStage_def iv_kind_def)

lemma fenceStage_frame:
  assumes "fenceStage h i t = Inr t'"
  shows "stage_frame t t'" "tr_cancellationState (tx_record t') = tr_cancellationState (tx_record t)"
    "tx_recovery t' = (case iv_payload i of
       OperationalFencePayload b \<Rightarrow> fencedRecovery i b (tx_record t) (tx_recovery t) | _ \<Rightarrow> tx_recovery t)"
    "tx_activityGeneration t' = (case iv_payload i of
       OperationalFencePayload b \<Rightarrow> effectiveActivityGeneration (tx_record t) (tx_recovery t')
     | _ \<Rightarrow> tx_activityGeneration t)"
proof -
  let ?goal = "stage_frame t t' \<and> tr_cancellationState (tx_record t') = tr_cancellationState (tx_record t) \<and>
    tx_recovery t' = (case iv_payload i of
       OperationalFencePayload b \<Rightarrow> fencedRecovery i b (tx_record t) (tx_recovery t) | _ \<Rightarrow> tx_recovery t) \<and>
    tx_activityGeneration t' = (case iv_payload i of
       OperationalFencePayload b \<Rightarrow> effectiveActivityGeneration (tx_record t) (tx_recovery t')
     | _ \<Rightarrow> tx_activityGeneration t)"
  from assms have ?goal
  proof (cases rule: fenceStage_cases)
    case other
    then show ?thesis by (simp split: intentPayload.splits)
  next
    case (fenced b)
    have "stage_frame t (markFenced i b t)" by (simp add: stage_frame_def)
    moreover from fenced(2) have "stage_frame (markFenced i b t) t' \<and>
      tr_cancellationState (tx_record t') = tr_cancellationState (tx_record t) \<and>
      tx_activityGeneration t' = tx_activityGeneration (markFenced i b t) \<and>
      tx_recovery t' = tx_recovery (markFenced i b t)"
      by (auto dest: addCancellation_stage)
    ultimately show ?thesis using fenced(1) by (auto intro: stage_frame_trans)
  qed
  then show "stage_frame t t'" "tr_cancellationState (tx_record t') = tr_cancellationState (tx_record t)"
    "tx_recovery t' = (case iv_payload i of
       OperationalFencePayload b \<Rightarrow> fencedRecovery i b (tx_record t) (tx_recovery t) | _ \<Rightarrow> tx_recovery t)"
    "tx_activityGeneration t' = (case iv_payload i of
       OperationalFencePayload b \<Rightarrow> effectiveActivityGeneration (tx_record t) (tx_recovery t')
     | _ \<Rightarrow> tx_activityGeneration t)"
    by auto
qed

section \<open>The record a decision leaves\<close>

lemma markAcceptedEvidenceTerminal_outline [simp]: "outline (markAcceptedEvidenceTerminal payload r) = outline r"
  by (cases payload) simp_all

lemma markAcceptedEvidenceTerminal_fields [simp]:
  "tr_aggregate (markAcceptedEvidenceTerminal payload r) = tr_aggregate r"
  "tr_cancellationState (markAcceptedEvidenceTerminal payload r) = tr_cancellationState r"
  "tr_reconciler (markAcceptedEvidenceTerminal payload r) = tr_reconciler r"
  by (cases payload; simp)+

lemma kept_markAcceptedEvidenceTerminal [simp]: "kept (markAcceptedEvidenceTerminal payload r) = kept r"
  by (metis kept_outline markAcceptedEvidenceTerminal_outline)

lemma kept_cloneTaskRecord [simp]: "kept (cloneTaskRecord r) = kept r"
  by (simp add: cloneTaskRecord_def)

lemma kept_applyAggregateIntent:
  assumes "applyAggregateIntent h r i ids d = Inr (r', ids', affected, refs)"
  shows "kept r' = kept r" "tr_reconciler r' = tr_reconciler r" "tr_cancellationState r' = tr_cancellationState r"
  using applyAggregateIntent_frame [OF assms]
  by (metis kept_update(1), metis (no_types) taskRecord.select_convs(22) taskRecord.surjective taskRecord.update_convs(24),
      metis (no_types) taskRecord.select_convs(19) taskRecord.surjective taskRecord.update_convs(24))

lemma syncAggregateCoordination_fields [simp]:
  "kept (syncAggregateCoordination refs generation epoch r) = kept r"
  "tr_aggregate (syncAggregateCoordination refs generation epoch r) = tr_aggregate r"
  "tr_cancellationState (syncAggregateCoordination refs generation epoch r) = tr_cancellationState r"
  "tr_reconciler (syncAggregateCoordination refs generation epoch r) = tr_reconciler r"
  using syncAggregateCoordination_outline [of refs generation epoch r]
  by (metis kept_outline, metis outline_fields(17), metis outline_fields(13), metis outline_fields(15))

lemma kept_adoptReconciler [simp]: "kept (adoptReconciler i r) = kept r"
  by (simp add: adoptReconciler_def)

lemma kept_effectiveSafetyEpoch: "kept r' = kept r \<Longrightarrow> effectiveSafetyEpoch r' recovery = effectiveSafetyEpoch r recovery"
  by (simp add: effectiveSafetyEpoch_def kept_def)

lemma kept_effectiveActivityGeneration:
  "kept r' = kept r \<Longrightarrow> effectiveActivityGeneration r' recovery = effectiveActivityGeneration r recovery"
  by (simp add: effectiveActivityGeneration_def kept_def)

lemma kept_fencedRecovery: "kept r' = kept r \<Longrightarrow> fencedRecovery i b r' recovery = fencedRecovery i b r recovery"
  by (simp add: fencedRecovery_def isOperationalFenceCatchUp_def kept_def)

text \<open>The recovery binding after an accepted intent.\<close>

definition acceptedRecovery :: "intentValue \<Rightarrow> taskRecord \<Rightarrow> recoveryBinding \<Rightarrow> recoveryBinding" where
  "acceptedRecovery i r recovery =
     (case iv_payload i of OperationalFencePayload b \<Rightarrow> fencedRecovery i b r recovery | _ \<Rightarrow> recovery)"

text \<open>The stages in one step: what of the record they keep, the aggregate they leave, and the rest.\<close>

lemma transition_stages:
  assumes "applyStage h i exists r recovery decisionID ids = Inr t\<^sub>1"
    and "cancelStage h i (activeBinding r) t\<^sub>1 = Inr t\<^sub>2" and "fenceStage h i (reconcileStage i t\<^sub>2) = Inr t"
  obtains r' ids' affected refs where
    "applyAggregateIntent h (cloneTaskRecord r) i ids decisionID = Inr (r', ids', affected, refs)"
    "kept (tx_record t) = kept r" "refenced (tr_aggregate r') (tr_aggregate (tx_record t))"
    "tx_recovery t = acceptedRecovery i r recovery"
    "tx_activityGeneration t = (case iv_payload i of
       OperationalFencePayload b \<Rightarrow> effectiveActivityGeneration r (tx_recovery t)
     | _ \<Rightarrow> acceptedActivityGeneration i exists r recovery)"
    "tx_evidence t = (case evidenceFacts (iv_payload i) of None \<Rightarrow> [] | Some (_, e, _) \<Rightarrow> [e])"
    "tr_reconciler (tx_record t) = tr_reconciler (adoptReconciler i r')"
proof -
  from applyStage_Inr [OF assms(1)] obtain r' affected refs where
    changed: "applyAggregateIntent h (cloneTaskRecord r) i ids decisionID = Inr (r', tx_ids t\<^sub>1, affected, refs)"
    and first: "tx_record t\<^sub>1 = syncAggregateCoordination refs (acceptedActivityGeneration i exists r recovery)
       (effectiveSafetyEpoch (adoptReconciler i r') recovery) (adoptReconciler i r')"
    "tx_activityGeneration t\<^sub>1 = acceptedActivityGeneration i exists r recovery" "tx_recovery t\<^sub>1 = recovery"
    "tx_evidence t\<^sub>1 = (case evidenceFacts (iv_payload i) of None \<Rightarrow> [] | Some (_, e, _) \<Rightarrow> [e])"
    by blast
  note cancel = cancelStage_frame [OF assms(2)] and fence = fenceStage_frame [OF assms(3)]
  have first_frame: "kept (tx_record t\<^sub>1) = kept r" "tr_aggregate (tx_record t\<^sub>1) = tr_aggregate r'"
    "tr_reconciler (tx_record t\<^sub>1) = tr_reconciler (adoptReconciler i r')"
    using first(1) kept_applyAggregateIntent [OF changed] by simp_all
  have "stage_frame t\<^sub>2 (reconcileStage i t\<^sub>2)" by simp
  with cancel(1) fence(1) have "stage_frame t\<^sub>1 t" by (blast intro: stage_frame_trans)
  moreover have "kept (tx_record (reconcileStage i t\<^sub>2)) = kept r"
    using cancel(1) first_frame reconcileStage_frame(1) [of t\<^sub>2 i] by (simp add: stage_frame_def)
  ultimately have t: "kept (tx_record t) = kept r" "refenced (tr_aggregate r') (tr_aggregate (tx_record t))"
    "tx_evidence t = tx_evidence t\<^sub>1" "tr_reconciler (tx_record t) = tr_reconciler (tx_record t\<^sub>1)"
    using first_frame by (simp_all add: stage_frame_def)
  have same: "kept (tx_record (reconcileStage i t\<^sub>2)) = kept r" by fact
  have recovery: "tx_recovery t = acceptedRecovery i r recovery"
    using fence(3) cancel(3) first(3)
    by (simp add: acceptedRecovery_def kept_fencedRecovery [OF same] split: intentPayload.splits)
  have generation: "tx_activityGeneration t = (case iv_payload i of
       OperationalFencePayload b \<Rightarrow> effectiveActivityGeneration r (tx_recovery t)
     | _ \<Rightarrow> acceptedActivityGeneration i exists r recovery)"
    using fence(4) cancel(2) first(2)
    by (simp add: kept_effectiveActivityGeneration [OF same] split: intentPayload.splits)
  show thesis
    by (rule that [OF changed t(1,2) recovery generation])
      (simp_all only: t first(4) first_frame)
qed

lemma applyAcceptedCoordinationOutcome_fields [simp]:
  "tr_aggregate (applyAcceptedCoordinationOutcome payload r) = tr_aggregate r"
  "tr_revision (applyAcceptedCoordinationOutcome payload r) = tr_revision r"
  "tr_owner (applyAcceptedCoordinationOutcome payload r) = tr_owner r"
  "tr_decisionCount (applyAcceptedCoordinationOutcome payload r) = tr_decisionCount r"
  "tr_safetyEpoch (applyAcceptedCoordinationOutcome payload r) = tr_safetyEpoch r"
  "tr_evidenceDiagnosticCount (applyAcceptedCoordinationOutcome payload r) = tr_evidenceDiagnosticCount r"
  "tr_reconciler (applyAcceptedCoordinationOutcome payload r) = tr_reconciler r"
  by (cases payload; simp)+

lemma recordDecision_fields [simp]:
  "tr_revision (recordDecision i d t decision r) = tr_revision r"
  "tr_activityGeneration (recordDecision i d t decision r) = tr_activityGeneration r"
  "tr_recoveryActivityFence (recordDecision i d t decision r) = tr_recoveryActivityFence r"
  "tr_owner (recordDecision i d t decision r) =
     (if tr_owner r = ([], 0) \<and> iv_kind i = IntentStartTask
      then (av_id (iv_authority i), av_generation (iv_authority i)) else tr_owner r)"
  "tr_latestDecision (recordDecision i d t decision r) = decision"
  "tr_decisionCount (recordDecision i d t decision r) = tr_decisionCount r + 1"
  "tr_safetyEpoch (recordDecision i d t decision r) = tr_safetyEpoch r"
  "tr_latestRevisionID (recordDecision i d t decision r) = tr_latestRevisionID r"
  "tr_latestCheckpointID (recordDecision i d t decision r) = tr_latestCheckpointID r"
  "tr_cancellationState (recordDecision i d t decision r) = tr_cancellationState r"
  "tr_aggregate (recordDecision i d t decision r) = tr_aggregate r"
  "tr_reconciler (recordDecision i d t decision r) = tr_reconciler r"
  "tr_evidenceDiagnosticCount (recordDecision i d t decision r) = tr_evidenceDiagnosticCount r"
proof -
  note mark = kept_fields [OF kept_markAcceptedEvidenceTerminal]
  show "tr_revision (recordDecision i d t decision r) = tr_revision r"
    "tr_activityGeneration (recordDecision i d t decision r) = tr_activityGeneration r"
    "tr_recoveryActivityFence (recordDecision i d t decision r) = tr_recoveryActivityFence r"
    "tr_owner (recordDecision i d t decision r) =
     (if tr_owner r = ([], 0) \<and> iv_kind i = IntentStartTask
      then (av_id (iv_authority i), av_generation (iv_authority i)) else tr_owner r)"
    "tr_latestDecision (recordDecision i d t decision r) = decision"
    "tr_decisionCount (recordDecision i d t decision r) = tr_decisionCount r + 1"
    "tr_safetyEpoch (recordDecision i d t decision r) = tr_safetyEpoch r"
    "tr_latestRevisionID (recordDecision i d t decision r) = tr_latestRevisionID r"
    "tr_latestCheckpointID (recordDecision i d t decision r) = tr_latestCheckpointID r"
    "tr_cancellationState (recordDecision i d t decision r) = tr_cancellationState r"
    "tr_aggregate (recordDecision i d t decision r) = tr_aggregate r"
    "tr_reconciler (recordDecision i d t decision r) = tr_reconciler r"
    "tr_evidenceDiagnosticCount (recordDecision i d t decision r) = tr_evidenceDiagnosticCount r"
    by (simp_all add: recordDecision_def Let_def mark)
qed

lemma finalRecord_fields [simp]:
  "tr_revision (finalRecord i accepted t) = accepted"
  "tr_activityGeneration (finalRecord i accepted t) = tx_activityGeneration t"
  "tr_recoveryActivityFence (finalRecord i accepted t) = rb_activityGenerationFence (tx_recovery t)"
  "tr_owner (finalRecord i accepted t) = tr_owner (tx_record t)"
  "tr_decisionCount (finalRecord i accepted t) = tr_decisionCount (tx_record t)"
  "tr_safetyEpoch (finalRecord i accepted t) = tr_safetyEpoch (tx_record t)"
  "tr_aggregate (finalRecord i accepted t) = tr_aggregate (tx_record t)"
  "tr_reconciler (finalRecord i accepted t) = tr_reconciler (tx_record t)"
  "tr_evidenceDiagnosticCount (finalRecord i accepted t) = tr_evidenceDiagnosticCount (tx_record t)"
  by (simp_all add: finalRecord_def)

lemma effectiveSafetyEpoch_epoch:
  "tr_safetyEpoch r' = tr_safetyEpoch r \<Longrightarrow> effectiveSafetyEpoch r' recovery = effectiveSafetyEpoch r recovery"
  by (simp add: effectiveSafetyEpoch_def)

lemma decisionOf_fields [simp]:
  "td_DecisionID (decisionOf h now i d decisionID auditFactID r recovery t updated) = decisionID"
  "td_DecisionRequestID (decisionOf h now i d decisionID auditFactID r recovery t updated) =
     ih_DecisionRequestID (iv_header i)"
  "td_CanonicalRequestDigest (decisionOf h now i d decisionID auditFactID r recovery t updated) = d"
  "td_PreviousTaskRevision (decisionOf h now i d decisionID auditFactID r recovery t updated) = tr_revision r"
  "td_AcceptedTaskRevision (decisionOf h now i d decisionID auditFactID r recovery t updated) = tr_revision r + 1"
  "td_AcceptedEvidenceRefs (decisionOf h now i d decisionID auditFactID r recovery t updated) = tx_evidence t"
  "td_EnactmentRefs (decisionOf h now i d decisionID auditFactID r recovery t updated) = tx_refs t"
  "td_CommittedAt (decisionOf h now i d decisionID auditFactID r recovery t updated) = now"
  by (simp_all add: decisionOf_def Let_def)

lemma taskProjection_TaskID [simp]:
  "tp_TaskID (taskProjection taskID revision generation aggregate) = taskID"
  "tp_TaskRevision (taskProjection taskID revision generation aggregate) = revision"
  "tp_ActivityGeneration (taskProjection taskID revision generation aggregate) = generation"
  "tp_Status (taskProjection taskID revision generation aggregate) = aggregateStatus aggregate"
  by (simp_all add: taskProjection_def Let_def aggregateStatus_def zeroTaskProjection_def split: option.splits)

text \<open>What the projection of a decision says is what a reader of the record it left sees.\<close>

lemma decisionOf_projection:
  assumes "decision = decisionOf h now i d decisionID auditFactID r recovery t (finalRecord i (tr_revision r + 1) t)"
    and "r' = recordDecision i d t decision (finalRecord i (tr_revision r + 1) t)"
  shows "td_TaskProjection decision = vw_Projection (viewOf (ih_TaskID (iv_header i)) r' (tx_recovery t))"
proof -
  have current: "effectiveActivityGeneration r' (tx_recovery t) = tr_activityGeneration r'"
    using assms(2) by (simp add: effectiveActivityGeneration_def)
  have epoch: "effectiveSafetyEpoch r' (tx_recovery t) =
      effectiveSafetyEpoch (finalRecord i (tr_revision r + 1) t) (tx_recovery t)"
    using assms(2) by (intro effectiveSafetyEpoch_epoch) simp
  show ?thesis
    unfolding viewOf_def decisionOf_def Let_def TaskOrchestrationView.select_convs current epoch
    unfolding assms(1) [unfolded decisionOf_def Let_def] assms(2) recordDecision_fields finalRecord_fields
    by simp
qed

text \<open>A committed decision: the record, the allocator, the recovery binding and the audit fact.\<close>

lemma transitionOf_record:
  assumes "transitionOf h now i d exists r recovery ids = Inr (decision, r', ids', recovery')"
  shows "tr_revision r' = tr_revision r + 1"
    "tr_owner r' = (if tr_owner r = ([], 0) \<and> iv_kind i = IntentStartTask
       then (av_id (iv_authority i), av_generation (iv_authority i)) else tr_owner r)"
    "tr_latestDecision r' = decision" "tr_decisionCount r' = tr_decisionCount r + 1"
    "tr_safetyEpoch r' = tr_safetyEpoch r"
    "tr_recoveryActivityFence r' = rb_activityGenerationFence recovery'"
    "recovery' = acceptedRecovery i r recovery"
    "td_DecisionRequestID decision = ih_DecisionRequestID (iv_header i)"
    "td_CanonicalRequestDigest decision = d" "td_PreviousTaskRevision decision = tr_revision r"
    "td_AcceptedTaskRevision decision = tr_revision r + 1" "td_CommittedAt decision = now"
    "td_TaskProjection decision = vw_Projection (viewOf (ih_TaskID (iv_header i)) r' recovery')"
proof -
  from assms obtain decisionID auditFactID ids\<^sub>1 ids\<^sub>2 t\<^sub>1 t\<^sub>2 t where
    stages: "applyStage h i exists r recovery decisionID ids\<^sub>2 = Inr t\<^sub>1"
      "cancelStage h i (activeBinding r) t\<^sub>1 = Inr t\<^sub>2" "fenceStage h i (reconcileStage i t\<^sub>2) = Inr t"
    and decision: "decision = decisionOf h now i d decisionID auditFactID r recovery t
      (finalRecord i (tr_revision r + 1) t)"
    and r': "r' = recordDecision i d t decision (finalRecord i (tr_revision r + 1) t)"
    and rest: "ids' = tx_ids t" "recovery' = tx_recovery t"
    by (rule transitionOf_Inr)
  from stages have kept: "kept (tx_record t) = kept r" and recovery: "tx_recovery t = acceptedRecovery i r recovery"
    by (auto elim!: transition_stages)
  note same = kept_fields [OF kept]
  show "tr_revision r' = tr_revision r + 1"
    "tr_owner r' = (if tr_owner r = ([], 0) \<and> iv_kind i = IntentStartTask
       then (av_id (iv_authority i), av_generation (iv_authority i)) else tr_owner r)"
    "tr_latestDecision r' = decision" "tr_decisionCount r' = tr_decisionCount r + 1"
    "tr_safetyEpoch r' = tr_safetyEpoch r"
    "tr_recoveryActivityFence r' = rb_activityGenerationFence recovery'"
    "recovery' = acceptedRecovery i r recovery"
    "td_DecisionRequestID decision = ih_DecisionRequestID (iv_header i)"
    "td_CanonicalRequestDigest decision = d" "td_PreviousTaskRevision decision = tr_revision r"
    "td_AcceptedTaskRevision decision = tr_revision r + 1" "td_CommittedAt decision = now"
    by (simp_all add: r' decision rest recovery same)
  show "td_TaskProjection decision = vw_Projection (viewOf (ih_TaskID (iv_header i)) r' recovery')"
    unfolding rest(2) by (rule decisionOf_projection [OF decision r'])
qed

section \<open>The persistence a decision leaves\<close>

lemma putTask_fields [simp]:
  "map_of (mp_tasks (putTask k r p)) k' = (if k' = k then Some r else map_of (mp_tasks p) k')"
  "mp_acceptedEvidence (putTask k r p) = mp_acceptedEvidence p"
  "mp_outbox (putTask k r p) = mp_outbox p" "mp_ids (putTask k r p) = mp_ids p"
  "mp_recovery (putTask k r p) = mp_recovery p"
  by (simp_all add: putTask_def)

lemma putDecision_fields [simp]:
  "mp_tasks (putDecision i d decision p) = mp_tasks p"
  "mp_acceptedEvidence (putDecision i d decision p) = mp_acceptedEvidence p"
  "mp_outbox (putDecision i d decision p) = mp_outbox p" "mp_ids (putDecision i d decision p) = mp_ids p"
  "mp_recovery (putDecision i d decision p) = mp_recovery p"
  by (simp_all add: putDecision_def)

lemma commitDecision_fields [simp]:
  "map_of (mp_tasks (commitDecision i d evidence decision r ids recovery p)) k =
     (if k = ih_TaskID (iv_header i) then Some r else map_of (mp_tasks p) k)"
  "mp_outbox (commitDecision i d evidence decision r ids recovery p) = putOutbox decision r (mp_outbox p)"
  "mp_ids (commitDecision i d evidence decision r ids recovery p) = ids"
  "mp_recovery (commitDecision i d evidence decision r ids recovery p) = recovery"
  "mp_acceptedEvidence (commitDecision i d evidence decision r ids recovery p) =
     (case evidence of None \<Rightarrow> mp_acceptedEvidence p
      | Some (evidenceID, replay) \<Rightarrow>
          AList.update (ih_TaskID (iv_header i), evidenceID) (replay, decision) (mp_acceptedEvidence p))"
  by (auto simp: commitDecision_def Let_def split: option.splits)

lemma taskOf_put [simp]:
  "taskOf (putTask k r p) k' = (if k' = k then r else taskOf p k')"
  "taskOf (putDecision i d decision p) k' = taskOf p k'"
  by (simp_all add: taskOf_def)

lemma taskOf_commit [simp]:
  "taskOf (commitDecision i d evidence decision r ids recovery p) k =
     (if k = ih_TaskID (iv_header i) then r else taskOf p k)"
  by (simp add: taskOf_def)

text \<open>Writing the outbox: a row that is there stays, and every enactment has one afterwards.\<close>

lemma fold_put_new_keeps:
  "map_of m k = Some v \<Longrightarrow> map_of (fold (\<lambda>x. put_new (f x) (g x)) xs m) k = Some v"
proof (induction xs arbitrary: m)
  case (Cons x xs)
  from Cons.prems have "map_of (put_new (f x) (g x) m) k = Some v" by (rule put_new_keeps)
  then show ?case by (simp add: Cons.IH)
qed simp

lemma fold_put_new_covers:
  "x \<in> set xs \<Longrightarrow> \<exists>v. map_of (fold (\<lambda>x. put_new (f x) (g x)) xs m) (f x) = Some v \<and>
     (map_of m (f x) = Some v \<or> (\<exists>y \<in> set xs. f y = f x \<and> v = g y))"
proof (induction xs arbitrary: m)
  case (Cons y ys)
  show ?case
  proof (cases "x \<in> set ys")
    case True
    from Cons.IH [OF this, of "put_new (f y) (g y) m"] show ?thesis
      by (auto split: if_splits option.splits)
  next
    case False
    with Cons.prems have "x = y" by simp
    obtain v where v: "map_of (put_new (f y) (g y) m) (f y) = Some v"
      by (cases "map_of m (f y)") auto
    with \<open>x = y\<close> have "map_of m (f x) = Some v \<or> v = g y" by (auto split: option.splits)
    with fold_put_new_keeps [OF v, of f g ys] \<open>x = y\<close> show ?thesis by auto
  qed
qed simp

lemma putOutbox_keeps: "map_of outbox k = Some row \<Longrightarrow> map_of (putOutbox decision r outbox) k = Some row"
  unfolding putOutbox_def by (rule fold_put_new_keeps)

lemma putOutbox_covers:
  "ref \<in> set (td_EnactmentRefs decision) \<Longrightarrow>
     \<exists>row. map_of (putOutbox decision r outbox) (en_OperationID ref) = Some row \<and>
       (map_of outbox (en_OperationID ref) = Some row \<or>
        (\<exists>ref' \<in> set (td_EnactmentRefs decision). en_OperationID ref' = en_OperationID ref \<and>
          row = outboxRow decision r ref'))"
  unfolding putOutbox_def by (rule fold_put_new_covers)

text \<open>Only evidence on a known task is remembered when it is refused.\<close>

lemma admitIntent_diagnostic: "admitIntent i exists r recovery = Inl (e, Some reason) \<Longrightarrow> exists"
  by (auto simp: admitIntent_def activityGenerationStale_def Let_def validateCancellationFence_def
      split: sum.splits if_splits)

section \<open>What a step of the engine can do\<close>

text \<open>A committed decision, with everything it was computed from.\<close>

inductive commits ::
  "hashing \<Rightarrow> memoryPersistence \<Rightarrow> intentValue \<Rightarrow> taskRecord \<Rightarrow> TransitionDecision \<Rightarrow> taskRecord \<Rightarrow> memoryPersistence \<Rightarrow> bool"
  for h p where
  commits: "canonicalizeIntent h i = Inr d \<Longrightarrow>
    replayDecision i d (computeEvidenceReplayDigest h i) p = None \<Longrightarrow>
    admitIntent i (map_of (mp_tasks p) (ih_TaskID (iv_header i)) \<noteq> None)
      (taskOf p (ih_TaskID (iv_header i))) (mp_recovery p) = Inr r \<Longrightarrow>
    transitionOf h now i d (map_of (mp_tasks p) (ih_TaskID (iv_header i)) \<noteq> None) r
      (mp_recovery p) (mp_ids p) = Inr (decision, r', ids, recovery) \<Longrightarrow>
    commits h p i r decision r'
      (commitDecision i d (computeEvidenceReplayDigest h i) decision r' ids recovery p)"

inductive_cases commitsE: "commits h p i r decision r' p'"

lemma replayEvidence_known:
  assumes "computeEvidenceReplayDigest h i = Some (evidenceID, replay)"
  shows "evidenceFacts (iv_payload i) \<noteq> None"
  using assms by (auto simp: computeEvidenceReplayDigest_def split: option.splits)

lemma decides_outcome:
  assumes "decides h p p'"
  obtains (same) "p' = p"
  | (noted) taskID evidenceID reason where
      "p' = putTask taskID (retainEvidenceDiagnostic evidenceID reason (taskOf p taskID)) p"
      "map_of (mp_tasks p) taskID \<noteq> None \<or> map_of (mp_acceptedEvidence p) (taskID, evidenceID) \<noteq> None"
  | (replayed) i d evidenceID replay decision where
      "canonicalizeIntent h i = Inr d" "evidenceFacts (iv_payload i) \<noteq> None"
      "map_of (mp_acceptedEvidence p) (ih_TaskID (iv_header i), evidenceID) = Some (replay, decision)"
      "map_of (mp_decisions p) (requestScopeOf i) = None" "p' = putDecision i d decision p"
  | (committed) i r decision r' where "commits h p i r decision r' p'"
  using assms
proof cases
  case (decides i d now committed result)
  note canonical = \<open>canonicalizeIntent h i = Inr d\<close>
  from \<open>decideLocked h now i d p = (committed, result, p')\<close> show ?thesis
  proof (cases rule: decideLocked_cases)
    case replayed
    then consider "p' = p"
      | evidenceID replay where "computeEvidenceReplayDigest h i = Some (evidenceID, replay)"
          "map_of (mp_decisions p) (requestScopeOf i) = None"
          "replayEvidence i d evidenceID replay p = Some (result, p')"
      by (auto simp: replayDecision_def split: option.splits)
    then show ?thesis
    proof cases
      case 1
      then show ?thesis by (rule that(1))
    next
      case (2 evidenceID replay)
      let ?scope = "(ih_TaskID (iv_header i), evidenceID)"
      from 2(3) obtain kept decision where kept: "map_of (mp_acceptedEvidence p) ?scope = Some (kept, decision)"
        and "p' = putDecision i d decision p \<or> p' = putTask (ih_TaskID (iv_header i))
          (retainEvidenceDiagnostic evidenceID EvidenceDiagnosticScopeConflict
            (taskOf p (ih_TaskID (iv_header i)))) p"
        by (auto simp: replayEvidence_def Let_def split: option.splits if_splits)
      then show ?thesis
      proof (elim disjE)
        assume "p' = putDecision i d decision p"
        with canonical replayEvidence_known [OF 2(1)] kept 2(2) show ?thesis by (rule that(3))
      next
        assume "p' = putTask (ih_TaskID (iv_header i)) (retainEvidenceDiagnostic evidenceID
            EvidenceDiagnosticScopeConflict (taskOf p (ih_TaskID (iv_header i)))) p"
        with kept show ?thesis by (intro that(2)) auto
      qed
    qed
  next
    case (refused e diagnostic)
    let ?taskID = "ih_TaskID (iv_header i)"
    from refused(5) consider "p' = p"
      | evidenceID reason where "diagnostic = Some reason"
          "p' = putTask ?taskID (retainEvidenceDiagnostic evidenceID reason (taskOf p ?taskID)) p"
      by (auto split: option.splits)
    then show ?thesis
    proof cases
      case 1
      then show ?thesis by (rule that(1))
    next
      case (2 evidenceID reason)
      with refused(4) have "map_of (mp_tasks p) ?taskID \<noteq> None" by (blast dest: admitIntent_diagnostic)
      with 2(2) show ?thesis by (intro that(2)) auto
    qed
  next
    case failed
    then show ?thesis by (intro that(1))
  next
    case (committed r decision r' ids recovery)
    then show ?thesis using canonical by (auto intro!: that(4) commits.intros)
  qed
qed

lemma decideLocked_commits:
  assumes "canonicalizeIntent h i = Inr d" and "decideLocked h now i d p = (True, result, p')"
  obtains r decision r' where "result = Inr decision" "commits h p i r decision r' p'"
  using assms(2)
proof (cases rule: decideLocked_cases)
  case (committed r decision r' ids recovery)
  from commits.intros [OF assms(1) committed(3,4,5)] committed(2,6) show thesis by (intro that) simp_all
qed simp_all

lemma commits_outbox:
  assumes "commits h p i r decision r' p'"
  shows "mp_outbox p' = putOutbox decision r' (mp_outbox p)"
  using assms by (auto elim!: commitsE)

end
