(* ===== verification/Orch_Decisions.thy ===== *)
theory Orch_Decisions
  imports Orch_Commit
begin

text \<open>
  Properties of the decisions of Task Orchestration: a request is decided once, an answer in
  doubt can be resolved, a refusal leaves nothing but a diagnostic, an accepted decision moves
  its task by one revision, its audit fact holds, its enactments reach the outbox and stay
  there, and a task belongs to its owner.
\<close>

section \<open>Requests\<close>

text \<open>
  C1. A decided request is settled for good. Whatever the engine did since, including crashes,
  restarts and lost answers: when no fault is armed, repeating the request returns the decision
  it got and changes nothing, and a request that reuses its identifier for a different content
  is refused and changes nothing.
\<close>

theorem decided_request_is_settled:
  assumes "Decide h contextDone i e = (Inr decision, e\<^sub>1)" and "(engine_step h)\<^sup>*\<^sup>* e\<^sub>1 e\<^sub>2" and "quiet e\<^sub>2"
  shows "Decide h False i e\<^sub>2 = (Inr decision, e\<^sub>2) \<and>
    (\<forall>j d. requestScopeOf j = requestScopeOf i \<and> canonicalizeIntent h j = Inr d \<and> canonicalizeIntent h i \<noteq> Inr d \<longrightarrow>
      Decide h False j e\<^sub>2 = (Inl ErrorIntegrityConflict, e\<^sub>2))"
proof -
  from Decide_answer [OF assms(1)] engine_run_persistence [OF assms(2)]
  have "recordedDecision h (eg_persistence e\<^sub>2) (0, i) = Some decision" by (blast intro: run_keeps_decision)
  then obtain d' where kept: "canonicalizeIntent h i = Inr d'"
    "map_of (mp_decisions (eg_persistence e\<^sub>2)) (requestScopeOf i) = Some (d', decision)"
    by (auto simp: recordedDecision_Some)
  then show ?thesis by (auto simp: Decide_recorded assms(3))
qed


section \<open>Refusals\<close>


section \<open>One decision\<close>

lemma startRecord_task: "startRecord i True r recovery = Inr r' \<Longrightarrow> r' = r"
  by (simp add: startRecord_def)

lemma admitIntent_Inr:
  assumes "admitIntent i exists r recovery = Inr r'"
  shows "authorizeUserMutation i r exists = Inr ()" "startRecord i exists r recovery = Inr r'"
    "tr_revision r' = ih_ExpectedTaskRevision (iv_header i)"
    "rb_mode recovery = OperationalReadOnly \<Longrightarrow> iv_kind i = IntentApplyOperationalFence"
    "validateCancellationFence (iv_kind i) r' exists = Inr ()"
    "validateCoordinationBindings i (iv_payload i) r' recovery exists = Inr ()"
    "\<not> cancellingBusiness i r'" "\<not> activityGenerationStale i exists r' recovery"
  using assms by (auto simp: admitIntent_def split: sum.splits if_splits)

lemma startRecord_kept:
  assumes "startRecord i exists r recovery = Inr r'"
  shows "tr_revision r' = tr_revision r" "tr_owner r' = tr_owner r" "tr_decisionCount r' = tr_decisionCount r"
    "tr_aggregate r' = tr_aggregate r" "tr_cancellationState r' = tr_cancellationState r"
  using assms by (auto simp: startRecord_def initializeNewTask_def split: if_splits intentPayload.splits)

text \<open>
  C34. An accepted decision moves its task by exactly one revision, from the revision the request
  expected; no other task changes. The decision is the latest one of the task, and the
  projection it carries is what a reader of the task sees right after.
\<close>

theorem accepted_decision_advances_task:
  assumes "decideLocked h now i d p = (True, result, p')"
  shows "\<exists>decision. result = Inr decision \<and>
    (let taskID = ih_TaskID (iv_header i); r = taskOf p taskID; r' = taskOf p' taskID in
      tr_revision r = ih_ExpectedTaskRevision (iv_header i) \<and>
      td_PreviousTaskRevision decision = tr_revision r \<and>
      td_AcceptedTaskRevision decision = tr_revision r + 1 \<and> tr_revision r' = tr_revision r + 1 \<and>
      tr_decisionCount r' = tr_decisionCount r + 1 \<and> tr_latestDecision r' = decision \<and>
      td_TaskProjection decision = vw_Projection (viewOf taskID r' (mp_recovery p')) \<and>
      (\<forall>k. k \<noteq> taskID \<longrightarrow> map_of (mp_tasks p') k = map_of (mp_tasks p) k))"
  using assms
proof (cases rule: decideLocked_cases)
  case (committed r decision r' ids recovery)
  note changed = transitionOf_record [OF committed(5)] and admitted = admitIntent_Inr [OF committed(4)]
  from startRecord_kept [OF admitted(2)] admitted(3) changed committed(2,6) show ?thesis
    by (simp add: Let_def)
qed simp_all

section \<open>Every decision\<close>

text \<open>The decisions the persistence keeps: those recorded for a request and those for evidence.\<close>

definition recorded :: "memoryPersistence \<Rightarrow> ident \<Rightarrow> TransitionDecision \<Rightarrow> bool" where
  "recorded p taskID decision \<longleftrightarrow>
     (\<exists>authority requestID d. map_of (mp_decisions p) (taskID, authority, requestID) = Some (d, decision)) \<or>
     (\<exists>evidenceID replay. map_of (mp_acceptedEvidence p) (taskID, evidenceID) = Some (replay, decision))"

lemma recorded_step:
  assumes "decides h p p'" and "recorded p' taskID decision"
  shows "recorded p taskID decision \<or>
    (\<exists>i r r'. commits h p i r decision r' p' \<and> taskID = ih_TaskID (iv_header i))"
  using assms(1)
proof (cases rule: decides_outcome)
  case (noted taskID evidenceID reason)
  with assms(2) show ?thesis by (simp add: recorded_def)
next
  case (replayed i d evidenceID replay decision')
  with assms(2) show ?thesis by (auto simp: recorded_def requestScopeOf_def split: if_splits)
next
  case (committed i r decision' r')
  from committed have "recorded p taskID decision \<or> taskID = ih_TaskID (iv_header i) \<and> decision = decision'"
  proof (rule commitsE)
    fix d now ids recovery
    assume "p' = commitDecision i d (computeEvidenceReplayDigest h i) decision' r' ids recovery p"
    with assms(2) show ?thesis
      by (auto simp: recorded_def requestScopeOf_def split: if_splits option.splits)
  qed
  with committed show ?thesis by blast
qed (use assms(2) in simp)

text \<open>A fact about each decision when it is committed, and kept by later steps, holds of all.\<close>

lemma recorded_invariant:
  assumes run: "(decides h)\<^sup>*\<^sup>* p p'" and fresh: "\<And>taskID decision. \<not> recorded p taskID decision"
    and commit: "\<And>p i r decision r' p'. commits h p i r decision r' p' \<Longrightarrow> Q p' (ih_TaskID (iv_header i)) decision"
    and keep: "\<And>p p' taskID decision. decides h p p' \<Longrightarrow> recorded p taskID decision \<Longrightarrow>
      Q p taskID decision \<Longrightarrow> Q p' taskID decision"
  shows "recorded p' taskID decision \<Longrightarrow> Q p' taskID decision"
  using run
proof (induction arbitrary: taskID decision rule: rtranclp_induct)
  case base
  with fresh show ?case by blast
next
  case (step y z)
  from recorded_step [OF step.hyps(2) step.prems] show ?case
  proof (elim disjE exE conjE)
    assume "recorded y taskID decision"
    with step show ?thesis by (blast intro: keep)
  next
    fix i r r'
    assume "commits h y i r decision r' z" "taskID = ih_TaskID (iv_header i)"
    then show ?thesis by (auto dest: commit)
  qed
qed

lemma newHarness_fresh:
  "NewDeterministicHarness c = Inr e \<Longrightarrow> \<not> recorded (eg_persistence e) taskID decision"
  by (auto simp: NewDeterministicHarness_def newHarness_def result_bind_eq_Inr recorded_def split: if_splits)

lemma commits_audited:
  assumes "commits h p i r decision r' p'" and "proper_hashing h"
  shows "validMandatoryAuditFact h (td_MandatoryAuditFactRef decision) decision"
proof -
  from assms(1) obtain d now exists ids recovery where "canonicalizeIntent h i = Inr d"
    and changed: "transitionOf h now i d exists r (mp_recovery p) (mp_ids p) = Inr (decision, r', ids, recovery)"
    by (rule commitsE)
  from transitionOf_Inr [OF changed] obtain decisionID auditFactID ids\<^sub>1 ids\<^sub>2 t where
    ids: "nextAuditFactID ids\<^sub>1 = (auditFactID, ids\<^sub>2)"
    and decision: "decision = decisionOf h now i d decisionID auditFactID r (mp_recovery p) t
      (finalRecord i (tr_revision r + 1) t)"
    by metis
  have "validOpaqueID auditFactID"
    using ids by (auto simp: nextAuditFactID_def idCharacter_def intro!: sequenceID_valid)
  moreover have "validIntent h i" using \<open>canonicalizeIntent h i = Inr d\<close> by (rule canonicalizeIntent_valid)
  moreover have "td_MandatoryAuditFactRef decision = newMandatoryAuditFact h auditFactID i decisionID r
      (finalRecord i (tr_revision r + 1) t) (mp_recovery p) (tx_recovery t) (tr_revision r) (tr_revision r + 1)
      (tx_evidence t) (tx_refs t) now"
    by (simp add: decision decisionOf_def Let_def)
  ultimately show ?thesis
    using assms(2) by (simp only:) (rule newMandatoryAuditFact_valid; simp add: decision decisionOf_def Let_def)
qed

text \<open>
  Every decision has its audit fact. In any run of a new harness, whatever faults it meets,
  the audit fact of every recorded decision passes the check its readers apply: it names the
  decision, its task, request, authority, revisions, evidence and enactments, and its digest is
  that of its content.
\<close>

theorem decisions_are_audited:
  assumes "NewDeterministicHarness c = Inr e" and "(engine_step h)\<^sup>*\<^sup>* e e'" and "proper_hashing h"
    and "recorded (eg_persistence e') taskID decision"
  shows "validMandatoryAuditFact h (td_MandatoryAuditFactRef decision) decision"
  using engine_run_persistence [OF assms(2)] newHarness_fresh [OF assms(1)] _ _ assms(4)
proof (rule recorded_invariant)
  fix p i r decision r' p'
  assume "commits h p i r decision r' p'"
  then show "validMandatoryAuditFact h (td_MandatoryAuditFactRef decision) decision"
    using assms(3) by (rule commits_audited)
qed

lemma outbox_step:
  assumes "decides h p p'" and "map_of (mp_outbox p) k = Some row"
  shows "map_of (mp_outbox p') k = Some row"
  using assms(1)
proof (cases rule: decides_outcome)
  case (committed i r decision r')
  then show ?thesis by (simp add: commits_outbox putOutbox_keeps [OF assms(2)])
qed (use assms(2) in auto)

lemma outbox_run: "(decides h)\<^sup>*\<^sup>* p p' \<Longrightarrow> map_of (mp_outbox p) k = Some row \<Longrightarrow> map_of (mp_outbox p') k = Some row"
  by (induction rule: rtranclp_induct) (auto intro: outbox_step)

lemma outbox_rows:
  assumes "NewDeterministicHarness c = Inr e" and "(engine_step h)\<^sup>*\<^sup>* e e\<^sub>1" and "(engine_step h)\<^sup>*\<^sup>* e\<^sub>1 e\<^sub>2"
  shows "recorded (eg_persistence e\<^sub>1) taskID decision \<Longrightarrow> ref \<in> set (td_EnactmentRefs decision) \<Longrightarrow>
      \<exists>row. map_of (mp_outbox (eg_persistence e\<^sub>1)) (en_OperationID ref) = Some row"
    and "map_of (mp_outbox (eg_persistence e\<^sub>1)) k = Some row \<Longrightarrow>
      map_of (mp_outbox (eg_persistence e\<^sub>2)) k = Some row"
proof -
  show "\<exists>row. map_of (mp_outbox (eg_persistence e\<^sub>1)) (en_OperationID ref) = Some row"
    if "recorded (eg_persistence e\<^sub>1) taskID decision" "ref \<in> set (td_EnactmentRefs decision)"
  proof -
    have "\<forall>ref \<in> set (td_EnactmentRefs decision).
        \<exists>row. map_of (mp_outbox (eg_persistence e\<^sub>1)) (en_OperationID ref) = Some row"
      using engine_run_persistence [OF assms(2)] newHarness_fresh [OF assms(1)] _ _ that(1)
    proof (rule recorded_invariant)
      fix p i r decision r' p'
      assume committed: "commits h p i r decision r' p'"
      show "\<forall>ref \<in> set (td_EnactmentRefs decision). \<exists>row. map_of (mp_outbox p') (en_OperationID ref) = Some row"
      proof
        fix ref assume "ref \<in> set (td_EnactmentRefs decision)"
        from putOutbox_covers [OF this, of r' "mp_outbox p"]
        show "\<exists>row. map_of (mp_outbox p') (en_OperationID ref) = Some row"
          unfolding commits_outbox [OF committed] by blast
      qed
    qed (blast intro: outbox_step)
    with that(2) show ?thesis by blast
  qed
  show "map_of (mp_outbox (eg_persistence e\<^sub>2)) k = Some row"
    if "map_of (mp_outbox (eg_persistence e\<^sub>1)) k = Some row"
    using engine_run_persistence [OF assms(3)] that by (rule outbox_run)
qed

text \<open>
  The outbox keeps what decisions ordered. In any run a row of the outbox stays as it is, and
  every enactment of a recorded decision has a row under its operation identifier.
\<close>

theorem outbox_keeps_enactments:
  assumes "NewDeterministicHarness c = Inr e" and "(engine_step h)\<^sup>*\<^sup>* e e\<^sub>1" and "(engine_step h)\<^sup>*\<^sup>* e\<^sub>1 e\<^sub>2"
    and "recorded (eg_persistence e\<^sub>1) taskID decision" and "ref \<in> set (td_EnactmentRefs decision)"
  shows "\<exists>row. map_of (mp_outbox (eg_persistence e\<^sub>1)) (en_OperationID ref) = Some row \<and>
    map_of (mp_outbox (eg_persistence e\<^sub>2)) (en_OperationID ref) = Some row"
  using outbox_rows(1) [OF assms] outbox_rows(2) [OF assms(1-3)] by blast

section \<open>Revisions\<close>

text \<open>No revision counter is at its last value.\<close>

definition revisions_left :: "memoryPersistence \<Rightarrow> bool" where
  "revisions_left p \<longleftrightarrow> (\<forall>k. tr_revision (taskOf p k) \<noteq> - 1)"

lemma commits_taskOf:
  assumes "commits h p i r decision r' p'"
  shows "taskOf p' k = (if k = ih_TaskID (iv_header i) then r' else taskOf p k)"
    and "startRecord i (map_of (mp_tasks p) (ih_TaskID (iv_header i)) \<noteq> None)
      (taskOf p (ih_TaskID (iv_header i))) (mp_recovery p) = Inr r"
    and "tr_revision r = tr_revision (taskOf p (ih_TaskID (iv_header i)))"
    and "tr_revision r' = tr_revision r + 1" "td_AcceptedTaskRevision decision = tr_revision r + 1"
  using assms by (auto elim!: commitsE dest: transitionOf_record admitIntent_Inr startRecord_kept)

lemma revision_noted [simp]:
  "tr_revision (retainEvidenceDiagnostic evidenceID reason r) = tr_revision r"
  "tr_owner (retainEvidenceDiagnostic evidenceID reason r) = tr_owner r"
  "tr_aggregate (retainEvidenceDiagnostic evidenceID reason r) = tr_aggregate r"
  "tr_cancellationState (retainEvidenceDiagnostic evidenceID reason r) = tr_cancellationState r"
  by (simp_all add: retainEvidenceDiagnostic_def)

definition serialized :: "memoryPersistence \<Rightarrow> bool" where
  "serialized p \<longleftrightarrow>
     (\<forall>k decision. recorded p k decision \<longrightarrow> td_AcceptedTaskRevision decision \<le> tr_revision (taskOf p k)) \<and>
     (\<forall>k decision decision'. recorded p k decision \<longrightarrow> recorded p k decision' \<longrightarrow>
        td_AcceptedTaskRevision decision = td_AcceptedTaskRevision decision' \<longrightarrow> decision = decision')"

lemma recorded_commit:
  assumes "commits h p i r decision r' p'" and "recorded p' k other"
  shows "recorded p k other \<or> k = ih_TaskID (iv_header i) \<and> other = decision"
  using assms by (elim commitsE) (auto simp: recorded_def requestScopeOf_def split: if_splits option.splits)

lemma recorded_other:
  "recorded (putTask k r p) k' other = recorded p k' other"
  by (simp add: recorded_def)

lemma serialized_step:
  assumes "decides h p p'" and "serialized p" and "revisions_left p"
  shows "serialized p'"
  using assms(1)
proof (cases rule: decides_outcome)
  case same
  with assms(2) show ?thesis by simp
next
  case (noted k evidenceID reason)
  have "tr_revision (taskOf p' k') = tr_revision (taskOf p k')" for k' using noted(1) by simp
  with assms(2) noted(1) show ?thesis by (simp add: serialized_def recorded_other)
next
  case (replayed i d evidenceID replay decision)
  then have "recorded p (ih_TaskID (iv_header i)) decision" by (auto simp: recorded_def)
  moreover have "recorded p' k other \<Longrightarrow> recorded p k other \<or> k = ih_TaskID (iv_header i) \<and> other = decision" for k other
    using replayed(5) by (auto simp: recorded_def requestScopeOf_def split: if_splits)
  ultimately have "recorded p' k other \<Longrightarrow> recorded p k other" for k other by blast
  moreover have "taskOf p' k = taskOf p k" for k using replayed(5) by simp
  ultimately show ?thesis using assms(2) unfolding serialized_def by metis
next
  case (committed i r decision r')
  note step = commits_taskOf [OF committed]
  let ?k = "ih_TaskID (iv_header i)"
  have raised: "tr_revision (taskOf p ?k) < tr_revision (taskOf p ?k) + 1"
    using assms(3) inc_less_eq_self_iff_eq [of "tr_revision (taskOf p ?k)"]
    by (auto simp: revisions_left_def not_le [symmetric])
  have new: "td_AcceptedTaskRevision decision = tr_revision (taskOf p ?k) + 1"
    "tr_revision (taskOf p' ?k) = tr_revision (taskOf p ?k) + 1" using step by simp_all
  have old: "td_AcceptedTaskRevision other \<le> tr_revision (taskOf p k)" if "recorded p k other" for k other
    using assms(2) that by (simp add: serialized_def)
  show ?thesis
    unfolding serialized_def
  proof (intro conjI allI impI)
    fix k other
    assume "recorded p' k other"
    from recorded_commit [OF committed this] show "td_AcceptedTaskRevision other \<le> tr_revision (taskOf p' k)"
    proof
      assume "recorded p k other"
      from old [OF this] show ?thesis
        using step(1) [of k] new raised by (cases "k = ?k") auto
    next
      assume "k = ?k \<and> other = decision"
      with new show ?thesis by simp
    qed
  next
    fix k other other'
    assume "recorded p' k other" and "recorded p' k other'"
      and same: "td_AcceptedTaskRevision other = td_AcceptedTaskRevision other'"
    from this(1,2) [THEN recorded_commit [OF committed]] show "other = other'"
    proof (elim disjE conjE)
      assume "recorded p k other" "recorded p k other'"
      with assms(2) same show ?thesis unfolding serialized_def by blast
    next
      assume "recorded p k other" "k = ?k" "other' = decision"
      with old [of k other] same new(1) raised show ?thesis by auto
    next
      assume "recorded p k other'" "k = ?k" "other = decision"
      with old [of k other'] same new(1) raised show ?thesis by auto
    qed simp
  qed
qed

text \<open>
  Decisions of a task are serialized. In any run of a new harness in which no revision
  counter overflows, two recorded decisions of a task that accepted the same revision are the
  same decision.
\<close>

theorem decisions_are_serialized:
  assumes "NewDeterministicHarness c = Inr e"
    and "(\<lambda>e e'. engine_step h e e' \<and> revisions_left (eg_persistence e))\<^sup>*\<^sup>* e e'"
    and "recorded (eg_persistence e') k decision" "recorded (eg_persistence e') k decision'"
    and "td_AcceptedTaskRevision decision = td_AcceptedTaskRevision decision'"
  shows "decision = decision'"
proof -
  have "serialized (eg_persistence e)"
    using newHarness_fresh [OF assms(1)] by (simp add: serialized_def)
  with assms(2) have "serialized (eg_persistence e')"
  proof (rule run_invariant [where P = "\<lambda>e. serialized (eg_persistence e)"])
    fix s t
    assume "engine_step h s t \<and> revisions_left (eg_persistence s)" "serialized (eg_persistence s)"
    then show "serialized (eg_persistence t)"
      using engine_step_persistence [of h s t] serialized_step by metis
  qed
  with assms(3-) show ?thesis unfolding serialized_def by blast
qed

section \<open>Ownership\<close>

lemma authority_valid_id: "authority_valid a \<Longrightarrow> av_id a \<noteq> []"
  by (auto simp: authority_valid_def validOpaqueID_def)

lemma authorityAllowed_start: "authorityAllowed IntentStartTask k \<longleftrightarrow> k = AuthorityUser"
  by simp

lemma commits_valid: "commits h p i r decision r' p' \<Longrightarrow> validIntent h i"
  by (auto elim!: commitsE dest: canonicalizeIntent_valid)

lemma commits_authorized:
  "commits h p i r decision r' p' \<Longrightarrow>
     authorizeUserMutation i (taskOf p (ih_TaskID (iv_header i)))
       (map_of (mp_tasks p) (ih_TaskID (iv_header i)) \<noteq> None) = Inr ()"
  by (auto elim!: commitsE dest: admitIntent_Inr)

lemma authorizeUserMutation_owner:
  "authorizeUserMutation i r True = Inr () \<Longrightarrow> av_kind (iv_authority i) = AuthorityUser \<Longrightarrow>
     tr_owner r = (av_id (iv_authority i), av_generation (iv_authority i))"
  by (auto simp: authorizeUserMutation_def prod_eq_iff split: if_splits)

text \<open>A committed start of a task that exists would be its owner's, so it keeps the owner.\<close>

lemma commits_owner:
  assumes "commits h p i r decision r' p'"
  shows "map_of (mp_tasks p) (ih_TaskID (iv_header i)) = Some r\<^sub>0 \<Longrightarrow> tr_owner r' = tr_owner r\<^sub>0"
    and "map_of (mp_tasks p) (ih_TaskID (iv_header i)) = None \<Longrightarrow> av_kind (iv_authority i) = AuthorityUser \<Longrightarrow>
      tr_owner r' = (av_id (iv_authority i), av_generation (iv_authority i))"
proof -
  let ?k = "ih_TaskID (iv_header i)"
  note valid = validIntentD [OF commits_valid [OF assms]]
  note auth = commits_authorized [OF assms]
  have owner': "tr_owner r' = (if tr_owner r = ([], 0) \<and> iv_kind i = IntentStartTask
      then (av_id (iv_authority i), av_generation (iv_authority i)) else tr_owner r)"
    using assms by (auto elim!: commitsE dest: transitionOf_record(2))
  have owner: "tr_owner r = tr_owner (taskOf p ?k)"
    using startRecord_kept(2) [OF commits_taskOf(2) [OF assms]] .
  show "tr_owner r' = tr_owner r\<^sub>0" if "map_of (mp_tasks p) ?k = Some r\<^sub>0"
  proof (cases "iv_kind i = IntentStartTask")
    case True
    with valid(4) have "av_kind (iv_authority i) = AuthorityUser" by simp
    with auth that have "tr_owner (taskOf p ?k) = (av_id (iv_authority i), av_generation (iv_authority i))"
      by (intro authorizeUserMutation_owner) auto
    with owner owner' authority_valid_id [OF valid(2)] that show ?thesis by (simp add: taskOf_def)
  qed (use owner owner' that in \<open>simp add: taskOf_def\<close>)
  show "tr_owner r' = (av_id (iv_authority i), av_generation (iv_authority i))"
    if "map_of (mp_tasks p) ?k = None" "av_kind (iv_authority i) = AuthorityUser"
    using that owner owner' auth
    by (auto simp: authorizeUserMutation_def taskOf_def zeroTaskRecord_def split: if_splits)
qed

lemma owner_step:
  assumes "decides h p p'" and "map_of (mp_tasks p) k = Some r"
  shows "\<exists>r'. map_of (mp_tasks p') k = Some r' \<and> tr_owner r' = tr_owner r"
  using assms(1)
proof (cases rule: decides_outcome)
  case (committed i r\<^sub>0 decision r')
  then have "map_of (mp_tasks p') k = (if k = ih_TaskID (iv_header i) then Some r' else map_of (mp_tasks p) k)"
    by (auto elim!: commitsE)
  with assms(2) commits_owner(1) [OF committed] show ?thesis by auto
qed (use assms(2) in \<open>auto simp: taskOf_def\<close>)

lemma owner_run:
  "(decides h)\<^sup>*\<^sup>* p p' \<Longrightarrow> map_of (mp_tasks p) k = Some r \<Longrightarrow>
     \<exists>r'. map_of (mp_tasks p') k = Some r' \<and> tr_owner r' = tr_owner r"
proof (induction rule: rtranclp_induct)
  case (step y z)
  then show ?case using owner_step [of h y z] by metis
qed simp

text \<open>The decisions users got are those of the owners.\<close>

definition owners_decided :: "memoryPersistence \<Rightarrow> bool" where
  "owners_decided p \<longleftrightarrow>
     (\<forall>k a q. map_of (mp_decisions p) (k, a, q) \<noteq> None \<longrightarrow> av_kind a = AuthorityUser \<longrightarrow>
        (\<exists>r. map_of (mp_tasks p) k = Some r \<and> tr_owner r = (av_id a, av_generation a)))"

lemma owners_decided_step:
  assumes "decides h p p'" and "owners_decided p"
  shows "owners_decided p'"
  unfolding owners_decided_def
proof (intro allI impI)
  fix k a q
  assume scope: "map_of (mp_decisions p') (k, a, q) \<noteq> None" and user: "av_kind a = AuthorityUser"
  show "\<exists>r. map_of (mp_tasks p') k = Some r \<and> tr_owner r = (av_id a, av_generation a)"
  proof (cases "map_of (mp_decisions p) (k, a, q)")
    case (Some decided)
    with assms(2) user obtain r where "map_of (mp_tasks p) k = Some r" "tr_owner r = (av_id a, av_generation a)"
      unfolding owners_decided_def by fastforce
    with owner_step [OF assms(1)] show ?thesis by fastforce
  next
    case None
    from assms(1) show ?thesis
    proof (cases rule: decides_outcome)
      case (replayed i d evidenceID replay decision)
      with scope None have "a = iv_authority i" by (auto simp: requestScopeOf_def split: if_splits)
      moreover have "authorityAllowed (iv_kind i) (av_kind (iv_authority i))"
        using replayed(1) by (blast dest: canonicalizeIntent_valid validIntentD)
      ultimately show ?thesis
        using replayed(2) user by (cases "iv_payload i") (simp_all add: iv_kind_def)
    next
      case (committed i r decision r')
      then have "(k, a, q) = requestScopeOf i"
        using scope None by (auto elim!: commitsE split: if_splits)
      then have i: "k = ih_TaskID (iv_header i)" "a = iv_authority i" by (simp_all add: requestScopeOf_def)
      have task: "map_of (mp_tasks p') k = Some r'" using committed i by (auto elim!: commitsE)
      have "tr_owner r' = (av_id a, av_generation a)"
      proof (cases "map_of (mp_tasks p) k")
        case None
        with commits_owner(2) [OF committed] user i show ?thesis by simp
      next
        case (Some r\<^sub>0)
        with commits_owner(1) [OF committed] i have "tr_owner r' = tr_owner r\<^sub>0" by simp
        moreover from commits_authorized [OF committed] user i Some have "tr_owner r\<^sub>0 = (av_id a, av_generation a)"
          by (intro authorizeUserMutation_owner [of i, folded i(2)]) (auto simp: taskOf_def)
        ultimately show ?thesis by simp
      qed
      with task show ?thesis by blast
    qed (use scope None in auto)
  qed
qed

lemma newHarness_owners: "NewDeterministicHarness c = Inr e \<Longrightarrow> owners_decided (eg_persistence e)"
  by (auto simp: NewDeterministicHarness_def newHarness_def result_bind_eq_Inr owners_decided_def split: if_splits)

lemma user_carries_no_evidence:
  "canonicalizeIntent h i = Inr d \<Longrightarrow> av_kind (iv_authority i) = AuthorityUser \<Longrightarrow> evidenceFacts (iv_payload i) = None"
  by (drule canonicalizeIntent_valid, drule validIntentD(4)) (cases "iv_payload i"; simp add: iv_kind_def)

lemma stranger_is_refused:
  assumes "owners_decided p" and "map_of (mp_tasks p) k = Some r" and "ih_TaskID (iv_header i) = k"
    and "av_kind (iv_authority i) = AuthorityUser"
    and "tr_owner r \<noteq> (av_id (iv_authority i), av_generation (iv_authority i))"
    and "canonicalizeIntent h i = Inr d" and "decideLocked h now i d p = (committed, result, p')"
  shows "\<not> committed \<and> (\<exists>failure. result = Inl failure) \<and> p' = p"
proof -
  have "map_of (mp_decisions p) (requestScopeOf i) = None"
    using assms(1-5) unfolding owners_decided_def requestScopeOf_def by fastforce
  with user_carries_no_evidence [OF assms(6,4)]
  have none: "computeEvidenceReplayDigest h i = None"
    "replayDecision i d (computeEvidenceReplayDigest h i) p = None"
    by (simp_all add: computeEvidenceReplayDigest_def replayDecision_def)
  from assms(7) show ?thesis
  proof (cases rule: decideLocked_cases)
    case (committed r')
    from admitIntent_Inr(1) [OF committed(4)] assms(2-5)
    have False by (auto simp: taskOf_def dest: authorizeUserMutation_owner)
    then show ?thesis ..
  qed (use none in auto)
qed

lemma owned_task:
  assumes "NewDeterministicHarness c = Inr e\<^sub>0" and "(engine_step h)\<^sup>*\<^sup>* e\<^sub>0 e"
    and "map_of (mp_tasks (eg_persistence e)) k = Some r"
  shows "av_kind (iv_authority i) = AuthorityUser \<Longrightarrow> ih_TaskID (iv_header i) = k \<Longrightarrow>
      tr_owner r \<noteq> (av_id (iv_authority i), av_generation (iv_authority i)) \<Longrightarrow>
      Decide h contextDone i e = (result, e') \<Longrightarrow>
      (\<exists>failure. result = Inl failure) \<and> eg_persistence e' = eg_persistence e"
    and "tr_owner r \<noteq> (av_id a, av_generation a) \<Longrightarrow> \<exists>failure. Query contextDone k a e = Inl failure"
    and "(engine_step h)\<^sup>*\<^sup>* e e\<^sub>1 \<Longrightarrow>
      \<exists>r'. map_of (mp_tasks (eg_persistence e\<^sub>1)) k = Some r' \<and> tr_owner r' = tr_owner r"
proof -
  have owners: "owners_decided (eg_persistence e)"
    using engine_run_persistence [OF assms(2)] newHarness_owners [OF assms(1)] owners_decided_step
    by (rule run_invariant)
  show "(\<exists>failure. result = Inl failure) \<and> eg_persistence e' = eg_persistence e"
    if user: "av_kind (iv_authority i) = AuthorityUser" "ih_TaskID (iv_header i) = k"
      "tr_owner r \<noteq> (av_id (iv_authority i), av_generation (iv_authority i))"
      and decided: "Decide h contextDone i e = (result, e')"
    using decided
  proof (cases rule: Decide_persistence)
    case (locked d committed locked)
    from stranger_is_refused [OF owners assms(3) user(2,1,3) locked(1,2)] locked(3) show ?thesis by auto
  qed auto
  show "\<exists>failure. Query contextDone k a e = Inl failure" if "tr_owner r \<noteq> (av_id a, av_generation a)"
    using that assms(3) by (auto simp: Query_def)
  show "\<exists>r'. map_of (mp_tasks (eg_persistence e\<^sub>1)) k = Some r' \<and> tr_owner r' = tr_owner r"
    if "(engine_step h)\<^sup>*\<^sup>* e e\<^sub>1"
    using engine_run_persistence [OF that] assms(3) by (rule owner_run)
qed

text \<open>
  C3. A task belongs to its owner. In any run of a new harness: a user who is not the owner of a
  task can neither change anything by a request on it nor read it, and the owner of a task never
  changes.
\<close>

theorem task_belongs_to_its_owner:
  assumes "NewDeterministicHarness c = Inr e\<^sub>0" and "(engine_step h)\<^sup>*\<^sup>* e\<^sub>0 e"
    and "map_of (mp_tasks (eg_persistence e)) k = Some r" and "tr_owner r \<noteq> (av_id a, av_generation a)"
    and "av_kind a = AuthorityUser"
  shows "(\<forall>i. iv_authority i = a \<and> ih_TaskID (iv_header i) = k \<longrightarrow>
      (\<exists>failure. fst (Decide h contextDone i e) = Inl failure) \<and>
      eg_persistence (snd (Decide h contextDone i e)) = eg_persistence e) \<and>
    (\<exists>failure. Query contextDone k a e = Inl failure) \<and>
    (\<forall>e\<^sub>1. (engine_step h)\<^sup>*\<^sup>* e e\<^sub>1 \<longrightarrow>
      (\<exists>r'. map_of (mp_tasks (eg_persistence e\<^sub>1)) k = Some r' \<and> tr_owner r' = tr_owner r))"
proof -
  note owned = owned_task [OF assms(1-3)]
  have "(\<exists>failure. fst (Decide h contextDone i e) = Inl failure) \<and>
      eg_persistence (snd (Decide h contextDone i e)) = eg_persistence e"
    if "iv_authority i = a" "ih_TaskID (iv_header i) = k" for i
    using owned(1) [of i contextDone "fst (Decide h contextDone i e)" "snd (Decide h contextDone i e)"] assms(4,5) that
    by simp
  with owned(2) [OF assms(4)] owned(3) show ?thesis by blast
qed

section \<open>Recovery\<close>

lemma commits_recovery:
  assumes "commits h p i r decision r' p'"
  shows "mp_recovery p' = acceptedRecovery i r (mp_recovery p)"
    and "validateCoordinationBindings i (iv_payload i) r (mp_recovery p)
      (map_of (mp_tasks p) (ih_TaskID (iv_header i)) \<noteq> None) = Inr ()"
    and "rb_mode (mp_recovery p) = OperationalReadOnly \<Longrightarrow> iv_kind i = IntentApplyOperationalFence"
  using assms by (auto elim!: commitsE dest: transitionOf_record admitIntent_Inr)

lemma recovery_step:
  assumes "decides h p p'"
  shows "mp_recovery p' = mp_recovery p \<or>
    rb_generation (mp_recovery p) < rb_generation (mp_recovery p') \<and>
    rb_fence (mp_recovery p) < rb_fence (mp_recovery p') \<and>
    rb_safetyEpoch (mp_recovery p) < rb_safetyEpoch (mp_recovery p')"
  using assms
proof (cases rule: decides_outcome)
  case (committed i r decision r')
  note recovery = commits_recovery [OF committed]
  show ?thesis
  proof (cases "iv_payload i")
    case (OperationalFencePayload b)
    with recovery(2) have "validateOperationalFence i b r (mp_recovery p) = Inr ()"
      by (simp split: if_splits)
    then have "isOperationalFenceCatchUp r (mp_recovery p) b \<or>
        rb_generation (mp_recovery p) < of_Generation b \<and> rb_fence (mp_recovery p) < of_Fence b \<and>
        rb_safetyEpoch (mp_recovery p) < of_SafetyEpoch b"
      by (auto simp: validateOperationalFence_def result_bind_eq_Inr not_le split: if_splits)
    with recovery(1) OperationalFencePayload show ?thesis
      by (auto simp: acceptedRecovery_def fencedRecovery_def)
  qed (use recovery(1) in \<open>simp_all add: acceptedRecovery_def\<close>)
qed simp_all

lemma recovery_run:
  assumes "(engine_step h)\<^sup>*\<^sup>* e e'"
  shows "mp_recovery (eg_persistence e') = mp_recovery (eg_persistence e) \<or>
      rb_generation (mp_recovery (eg_persistence e)) < rb_generation (mp_recovery (eg_persistence e')) \<and>
      rb_fence (mp_recovery (eg_persistence e)) < rb_fence (mp_recovery (eg_persistence e')) \<and>
      rb_safetyEpoch (mp_recovery (eg_persistence e)) < rb_safetyEpoch (mp_recovery (eg_persistence e'))"
    and "decideLocked h now i d (eg_persistence e') = (committed, result, p') \<Longrightarrow>
      rb_mode (mp_recovery (eg_persistence e')) = OperationalReadOnly \<Longrightarrow>
      iv_kind i \<noteq> IntentApplyOperationalFence \<Longrightarrow> \<not> committed"
proof -
  let ?before = "\<lambda>r r'. r' = r \<or> rb_generation r < rb_generation r' \<and> rb_fence r < rb_fence r' \<and>
    rb_safetyEpoch r < rb_safetyEpoch r'"
  have "?before (mp_recovery p) (mp_recovery p')" if "(decides h)\<^sup>*\<^sup>* p p'" for p p'
    using that
  proof (induction rule: rtranclp_induct)
    case (step y z)
    from recovery_step [OF step.hyps(2)] step.IH show ?case by (elim disjE) auto
  qed simp
  from this [OF engine_run_persistence [OF assms]]
  show "?before (mp_recovery (eg_persistence e)) (mp_recovery (eg_persistence e'))" .
  show "\<not> committed"
    if "decideLocked h now i d (eg_persistence e') = (committed, result, p')"
      "rb_mode (mp_recovery (eg_persistence e')) = OperationalReadOnly" "iv_kind i \<noteq> IntentApplyOperationalFence"
    using that(1)
  proof (cases rule: decideLocked_cases)
    case (committed r)
    from admitIntent_Inr(4) [OF committed(4)] that show ?thesis by simp
  qed
qed

text \<open>
  Recovery never goes back. Across any run the recovery binding is what it was, or its
  generation, its fence and its safety epoch are all strictly greater; and while it is read-only
  a step that leaves it as it is commits no decision.
\<close>

theorem recovery_never_goes_back:
  assumes "(engine_step h)\<^sup>*\<^sup>* e e'"
  shows "(mp_recovery (eg_persistence e') = mp_recovery (eg_persistence e) \<or>
      rb_generation (mp_recovery (eg_persistence e)) < rb_generation (mp_recovery (eg_persistence e')) \<and>
      rb_fence (mp_recovery (eg_persistence e)) < rb_fence (mp_recovery (eg_persistence e')) \<and>
      rb_safetyEpoch (mp_recovery (eg_persistence e)) < rb_safetyEpoch (mp_recovery (eg_persistence e'))) \<and>
    (rb_mode (mp_recovery (eg_persistence e')) = OperationalReadOnly \<longrightarrow>
      (\<forall>now i d. iv_kind i \<noteq> IntentApplyOperationalFence \<longrightarrow>
        \<not> fst (decideLocked h now i d (eg_persistence e'))))"
  using recovery_run [OF assms] by (metis prod.collapse)

section \<open>Tasks without an owner\<close>


end
