(* ===== verification/Orch_Evidence.thy ===== *)
theory Orch_Evidence
  imports Orch_Decisions
begin

text \<open>
  Evidence: what the engine requires of it, and that it is accepted once. The five maps of
  operation bindings are one function of \<open>bindingMap\<close>, so that a stage of a decision is treated
  once for all of them. \<open>advances\<close> relates the records before and after a stage: no operation is
  forgotten and, as long as the search for new operation identifiers cannot run out of them, no
  operation that has ended is opened again.
\<close>

section \<open>Bindings\<close>

datatype bindingMap = RuntimeOps | ValidationOps | LifecycleOps | PublicationOps | SchedulingOps

fun bindings :: "bindingMap \<Rightarrow> taskRecord \<Rightarrow> (ident \<times> operationBinding) list" where
  "bindings RuntimeOps r = tr_runtimeOperations r"
| "bindings ValidationOps r = tr_validationBindings r"
| "bindings LifecycleOps r = tr_lifecycleOperations r"
| "bindings PublicationOps r = tr_publicationOperations r"
| "bindings SchedulingOps r = tr_schedulingOperations r"

text \<open>The operation a piece of evidence reports on.\<close>

fun evidenceKey :: "intentPayload \<Rightarrow> (bindingMap \<times> ident) option" where
  "evidenceKey (RuntimeEvidencePayload b) = Some (RuntimeOps, re_OperationID b)"
| "evidenceKey (ValidationEvidencePayload b) = Some (ValidationOps, ve_PhaseRunID b)"
| "evidenceKey (LifecycleEvidencePayload b) = Some (LifecycleOps, le_OperationID b)"
| "evidenceKey (ReconstructionEvidencePayload b) = Some (LifecycleOps, ce_OperationID b)"
| "evidenceKey (PublicationEvidencePayload b) = Some (PublicationOps, pe_OperationID b)"
| "evidenceKey (SchedulingEvidencePayload b) = Some (SchedulingOps, se_OperationID b)"
| "evidenceKey _ = None"

definition reportedOperation :: "intentPayload \<Rightarrow> taskRecord \<Rightarrow> operationBinding option" where
  "reportedOperation payload r =
     (case evidenceKey payload of None \<Rightarrow> None | Some (m, k) \<Rightarrow> map_of (bindings m r) k)"

text \<open>The generation, the fence and the safety epoch the evidence claims.\<close>

fun evidenceNumbers :: "intentPayload \<Rightarrow> u64 \<times> u64 \<times> u64" where
  "evidenceNumbers (RuntimeEvidencePayload b) = (re_Generation b, re_Fence b, re_SafetyEpoch b)"
| "evidenceNumbers (ValidationEvidencePayload b) = (ve_Generation b, ve_Fence b, ve_SafetyEpoch b)"
| "evidenceNumbers (LifecycleEvidencePayload b) = (le_Generation b, le_Fence b, le_SafetyEpoch b)"
| "evidenceNumbers (ReconstructionEvidencePayload b) = (ce_Generation b, ce_Fence b, ce_SafetyEpoch b)"
| "evidenceNumbers (PublicationEvidencePayload b) = (pe_Generation b, pe_Fence b, pe_SafetyEpoch b)"
| "evidenceNumbers (SchedulingEvidencePayload b) = (se_Generation b, se_Fence b, se_SafetyEpoch b)"
| "evidenceNumbers _ = (0, 0, 0)"

lemma evidenceKey_facts: "evidenceKey payload = None \<longleftrightarrow> evidenceFacts payload = None"
  by (cases payload) simp_all

section \<open>What accepted evidence satisfies\<close>

lemma validateAuthorityBinding_Inr: "validateAuthorityBinding expected actual = Inr u \<Longrightarrow> expected = actual"
  by (auto simp: validateAuthorityBinding_def split: if_splits)

lemma operationOpen_Inr:
  "operationOpen operations k matches a = Inr b \<Longrightarrow>
     map_of operations k = Some b \<and> matches b \<and> \<not> ob_terminal b \<and> ob_authority b = a"
  by (auto simp: operationOpen_def result_bind_eq_Inr dest: validateAuthorityBinding_Inr split: option.splits if_splits)

lemma operationCurrent_Inr:
  "operationCurrent r recovery header b generation fence epoch = Inr u \<Longrightarrow>
     ob_generation b = generation \<and> ob_fence b = fence \<and> ob_safetyEpoch b = epoch \<and>
     effectiveSafetyEpoch r recovery = epoch \<and> ob_activityGeneration b = ih_ActivityGeneration header"
  by (auto simp: operationCurrent_def split: if_splits)

definition evidence_fits :: "intentValue \<Rightarrow> taskRecord \<Rightarrow> recoveryBinding \<Rightarrow> operationBinding \<Rightarrow> bool" where
  "evidence_fits i r recovery b \<longleftrightarrow>
     \<not> ob_terminal b \<and> ob_authority b = iv_authority i \<and>
     evidenceNumbers (iv_payload i) = (ob_generation b, ob_fence b, ob_safetyEpoch b) \<and>
     ob_safetyEpoch b = effectiveSafetyEpoch r recovery \<and>
     ob_activityGeneration b = ih_ActivityGeneration (iv_header i)"

lemma validated_evidence_fits:
  assumes "validateCoordinationBindings i (iv_payload i) r recovery exists = Inr ()"
    and "evidenceFacts (iv_payload i) \<noteq> None"
  shows "\<exists>b. reportedOperation (iv_payload i) r = Some b \<and> evidence_fits i r recovery b"
  using assms
  by (cases "iv_payload i")
    (auto simp: binding_checks result_bind_eq_Inr reportedOperation_def evidence_fits_def
      dest!: operationOpen_Inr operationCurrent_Inr split: if_splits option.splits)

lemma commits_evidence_fits:
  assumes "commits h p i r decision r' p'" and "evidenceFacts (iv_payload i) \<noteq> None"
  shows "\<exists>b. reportedOperation (iv_payload i) r = Some b \<and> evidence_fits i r (mp_recovery p) b"
  using commits_recovery(2) [OF assms(1)] assms(2) by (rule validated_evidence_fits)

text \<open>Once accepted it ends its operation.\<close>

lemma markAcceptedEvidenceTerminal_ends:
  "evidenceKey payload = Some (m, k) \<Longrightarrow>
     \<exists>b. map_of (bindings m (markAcceptedEvidenceTerminal payload r)) k = Some b \<and> ob_terminal b"
  by (cases payload) (auto simp: setTerminal_def)

lemma operation_bindings_update [simp]:
  "bindings m (r\<lparr>tr_owner := x\<^sub>1\<rparr>) = bindings m r"
  "bindings m (r\<lparr>tr_latestDecision := x\<^sub>2\<rparr>) = bindings m r"
  "bindings m (r\<lparr>tr_decisionCount := x\<^sub>3\<rparr>) = bindings m r"
  "bindings m (r\<lparr>tr_enactmentCount := x\<^sub>3\<rparr>) = bindings m r"
  "bindings m (r\<lparr>tr_gateDecisions := x\<^sub>4\<rparr>) = bindings m r"
  "bindings m (r\<lparr>tr_aggregate := x\<^sub>5\<rparr>) = bindings m r"
  "bindings m (r\<lparr>tr_reconciler := x\<^sub>6\<rparr>) = bindings m r"
  "bindings m (r\<lparr>tr_reconciliationFences := x\<^sub>7\<rparr>) = bindings m r"
  "bindings m (r\<lparr>tr_cancellationState := x\<^sub>8\<rparr>) = bindings m r"
  "bindings m (r\<lparr>tr_cancellationReason := x\<^sub>9\<rparr>) = bindings m r"
  "bindings m (r\<lparr>tr_revision := x\<^sub>3\<rparr>) = bindings m r"
  "bindings m (r\<lparr>tr_activityGeneration := x\<^sub>3\<rparr>) = bindings m r"
  "bindings m (r\<lparr>tr_recoveryActivityFence := x\<^sub>3\<rparr>) = bindings m r"
  "bindings m (r\<lparr>tr_evidenceDiagnosticCount := x\<^sub>3\<rparr>) = bindings m r"
  "bindings m (r\<lparr>tr_latestEvidenceDiagnostic := x\<^sub>0\<rparr>) = bindings m r"
  "bindings m (r\<lparr>tr_latestRevisionID := x\<rparr>) = bindings m r"
  "bindings m (r\<lparr>tr_latestCheckpointID := x\<rparr>) = bindings m r"
  "bindings m (r\<lparr>tr_phaseRuns := y\<rparr>) = bindings m r"
  "bindings m (r\<lparr>tr_enactments := z\<rparr>) = bindings m r"
  by (cases m; simp)+

lemma bindings_recordDecision [simp]:
  "bindings m (recordDecision i d t decision r) = bindings m (markAcceptedEvidenceTerminal (iv_payload i)
     (if tr_owner r = ([], 0) \<and> iv_kind i = IntentStartTask
      then r\<lparr>tr_owner := (av_id (iv_authority i), av_generation (iv_authority i))\<rparr> else r))"
  by (simp add: recordDecision_def Let_def)

lemma commits_ends_operation:
  assumes "commits h p i r decision r' p'" and "evidenceKey (iv_payload i) = Some (m, k)"
  shows "\<exists>b. map_of (bindings m r') k = Some b \<and> ob_terminal b"
proof -
  from assms(1) obtain d now exists ids recovery where
    "transitionOf h now i d exists r (mp_recovery p) (mp_ids p) = Inr (decision, r', ids, recovery)"
    by (rule commitsE)
  then obtain t where "r' = recordDecision i d t decision (finalRecord i (tr_revision r + 1) t)"
    by (rule transitionOf_Inr)
  then show ?thesis by (simp add: markAcceptedEvidenceTerminal_ends [OF assms(2)])
qed

section \<open>Operations that have ended\<close>

definition keeps_ended :: "taskRecord \<Rightarrow> taskRecord \<Rightarrow> bool" where
  "keeps_ended r r' \<longleftrightarrow>
     (\<forall>m k b. map_of (bindings m r) k = Some b \<longrightarrow> ob_terminal b \<longrightarrow>
        (\<exists>b'. map_of (bindings m r') k = Some b' \<and> ob_terminal b'))"

definition advances :: "taskRecord \<Rightarrow> taskRecord \<Rightarrow> bool" where
  "advances r r' \<longleftrightarrow>
     length (knownOperations r) \<le> length (knownOperations r') \<and>
     (length (knownOperations r') < 2 ^ 64 \<longrightarrow> keeps_ended r r')"

lemma keeps_ended_trans: "keeps_ended r s \<Longrightarrow> keeps_ended s t \<Longrightarrow> keeps_ended r t"
  unfolding keeps_ended_def by metis

lemma advances_trans [trans]: "advances r s \<Longrightarrow> advances s t \<Longrightarrow> advances r t"
  unfolding advances_def by (auto intro: keeps_ended_trans)

lemma fold_advances: "(\<And>x s. advances s (f x s)) \<Longrightarrow> advances s (fold f xs s)"
proof (induction xs arbitrary: s)
  case Nil
  show ?case by (simp add: advances_def keeps_ended_def)
next
  case (Cons x xs)
  from Cons.prems [of s x] Cons.IH [of "f x s"] Cons.prems show ?case by (auto intro: advances_trans)
qed

lemma length_knownOperations:
  "length (knownOperations r) =
     length (bindings RuntimeOps r) + length (bindings LifecycleOps r) + length (bindings PublicationOps r) +
     length (bindings SchedulingOps r) + length (tr_enactments r)"
  by (simp add: knownOperations_def)

lemma advances_mono:
  assumes "\<And>m. length (bindings m r) \<le> length (bindings m r')"
    and "length (tr_enactments r) \<le> length (tr_enactments r')"
  shows "length (knownOperations r) \<le> length (knownOperations r')"
  unfolding length_knownOperations by (intro add_mono assms)

lemma advances_writes:
  assumes "\<And>m. length (bindings m r) \<le> length (bindings m r')"
    and "length (tr_enactments r) \<le> length (tr_enactments r')"
    and "\<And>m k b. length (knownOperations r) < 2 ^ 64 \<Longrightarrow> map_of (bindings m r) k = Some b \<Longrightarrow>
      ob_terminal b \<Longrightarrow> \<exists>b'. map_of (bindings m r') k = Some b' \<and> ob_terminal b'"
  shows "advances r r'"
  using advances_mono [OF assms(1,2)] assms(3) unfolding advances_def keeps_ended_def by auto

text \<open>A record with the same bindings and enactments.\<close>

lemma advances_same:
  assumes "\<And>m. bindings m r' = bindings m r" and "tr_enactments r' = tr_enactments r"
  shows "advances r r'"
  by (rule advances_writes) (simp_all only: assms order_refl, blast)

lemma advances_refl [simp]: "advances r r"
  by (rule advances_same) simp_all

text \<open>One binding written: it is a new one, or it is the end of an operation.\<close>

fun setBindings :: "bindingMap \<Rightarrow> (ident \<times> operationBinding) list \<Rightarrow> taskRecord \<Rightarrow> taskRecord" where
  "setBindings RuntimeOps bs r = r\<lparr>tr_runtimeOperations := bs\<rparr>"
| "setBindings ValidationOps bs r = r\<lparr>tr_validationBindings := bs\<rparr>"
| "setBindings LifecycleOps bs r = r\<lparr>tr_lifecycleOperations := bs\<rparr>"
| "setBindings PublicationOps bs r = r\<lparr>tr_publicationOperations := bs\<rparr>"
| "setBindings SchedulingOps bs r = r\<lparr>tr_schedulingOperations := bs\<rparr>"

lemma bindings_setBindings [simp]:
  "bindings m (setBindings m' bs r) = (if m = m' then bs else bindings m r)"
  "tr_enactments (setBindings m' bs r) = tr_enactments r"
  by (cases m; cases m'; simp)+

lemma length_update_le: "length m \<le> length (AList.update k v m)"
  by (induction m) auto

lemma length_put_new_le: "length m \<le> length (put_new k v m)"
  by (simp add: put_new_def length_update_le split: option.splits)

lemma length_fold_update_le: "length m \<le> length (fold (\<lambda>x. AList.update (f x) (g x)) xs m)"
  by (induction xs arbitrary: m) (auto intro: order_trans [OF length_update_le])

lemma put_new_advances: "advances r (setBindings m (put_new k b (bindings m r)) r)"
  by (rule advances_writes) (auto simp: length_put_new_le)

lemma terminal_advances:
  "ob_terminal b \<Longrightarrow> advances r (setBindings m (AList.update k b (bindings m r)) r)"
  by (rule advances_writes) (auto simp: length_update_le)

lemma enactments_advances: "length (tr_enactments r) \<le> length es \<Longrightarrow> advances r (r\<lparr>tr_enactments := es\<rparr>)"
  by (rule advances_writes) auto

section \<open>Every stage advances\<close>

lemma bindScheduling_advances: "advances r (bindAggregateSchedulingOperation authorities run generation epoch k r)"
  using put_new_advances [of r SchedulingOps] by (simp add: bindAggregateSchedulingOperation_def)

lemma syncRuntimeRun_advances: "advances r (syncRuntimeRun authorities run generation epoch rt r)"
  unfolding syncRuntimeRun_def
  by (rule advances_trans [OF _ bindScheduling_advances]) (use put_new_advances [of r RuntimeOps] in simp)

lemma syncLifecycle_advances: "advances r (syncLifecycle a run generation epoch r)"
  unfolding syncLifecycle_def Let_def
  by (auto intro!: advances_trans [OF _ bindScheduling_advances])
    (use put_new_advances [of r LifecycleOps] in simp)

lemma syncPublication_advances: "advances r (syncPublication a run generation epoch r)"
  unfolding syncPublication_def Let_def
  by (auto intro!: advances_trans [OF _ bindScheduling_advances])
    (use put_new_advances [of r PublicationOps] in simp)

lemma syncPhaseRun_advances: "advances r (syncPhaseRun a generation epoch run r)"
proof -
  let ?r = "\<lambda>x b. r\<lparr>tr_phaseRuns := x, tr_validationBindings := put_new (pr_id run) b (tr_validationBindings r)\<rparr>"
  have "advances r (r\<lparr>tr_phaseRuns := x\<rparr>)" for x by (rule advances_same) simp_all
  also have "advances (r\<lparr>tr_phaseRuns := x\<rparr>) (?r x b)" for x b
    using put_new_advances [of "r\<lparr>tr_phaseRuns := x\<rparr>" ValidationOps "pr_id run" b] by simp
  finally have "advances r (?r x b)" for x b .
  then show ?thesis
    unfolding syncPhaseRun_def Let_def
    by (intro advances_trans [OF _ syncPublication_advances] advances_trans [OF _ syncLifecycle_advances]
        advances_trans [OF _ fold_advances] syncRuntimeRun_advances)
qed

lemma syncAggregateCoordination_advances: "advances r (syncAggregateCoordination refs generation epoch r)"
proof (cases "tr_aggregate r")
  case None
  then show ?thesis by (simp add: syncAggregateCoordination_def)
next
  case (Some a)
  let ?r = "putEnactments refs r"
  have "advances r ?r"
    unfolding putEnactments_def by (rule enactments_advances) (rule length_fold_update_le)
  also have "advances ?r (syncReconstruction a generation epoch ?r)"
    using put_new_advances [of ?r LifecycleOps] by (simp add: syncReconstruction_def)
  also have "advances (syncReconstruction a generation epoch ?r)
      (fold (syncPhaseRun a generation epoch) (ag_phaseRuns a) (syncReconstruction a generation epoch ?r))"
    by (intro fold_advances syncPhaseRun_advances)
  finally show ?thesis by (simp add: syncAggregateCoordination_def Some)
qed

lemma fresh_bindings:
  assumes "\<not> hasOperationID r k" and "m \<noteq> ValidationOps"
  shows "map_of (bindings m r) k = None"
  using assms by (cases m) (simp_all add: hasOperationID_def)

lemma bindCancelOperation_advances:
  assumes "nextUniqueOperationID r ids = (operationID, ids')"
  shows "advances r (bindCancelOperation c scheduler operation operationID payload ref r)"
proof (rule advances_writes)
  fix m k b
  assume "length (knownOperations r) < 2 ^ 64" and kept: "map_of (bindings m r) k = Some b" "ob_terminal b"
  with nextUniqueOperationID_fresh [of r ids] assms have "\<not> hasOperationID r operationID" by simp
  then have "m \<noteq> ValidationOps \<Longrightarrow> k \<noteq> operationID" using kept(1) fresh_bindings [of r k m] by auto
  with kept show "\<exists>b'. map_of (bindings m (bindCancelOperation c scheduler operation operationID payload ref r)) k =
      Some b' \<and> ob_terminal b'"
    by (cases m) (auto simp: bindCancelOperation_def Let_def)
next
  fix m show "length (bindings m r) \<le>
      length (bindings m (bindCancelOperation c scheduler operation operationID payload ref r))"
    by (cases m) (simp_all add: bindCancelOperation_def Let_def length_update_le)
qed (simp add: bindCancelOperation_def Let_def length_update_le)

lemma cancelRuntimeOperations_advances:
  "cancelRuntimeOperations h c scheduler operations r ids = Inr (refs, r', ids') \<Longrightarrow> advances r r'"
proof (induction operations arbitrary: r ids refs)
  case (Cons operation operations)
  from Cons.prems show ?case
    by (rule cancelRuntimeOperations_Cons) (blast intro: advances_trans bindCancelOperation_advances Cons.IH)
qed simp

lemma bindCancellationFence_advances:
  assumes "validCancellationFence c r a"
  shows "advances r (bindCancellationFence c scheduler operation ref a r)"
proof (rule advances_writes)
  fix m k b
  assume kept: "map_of (bindings m r) k = Some b" "ob_terminal b"
  from assms have "\<not> hasOperationID r (lb_operationID (cn_lifecycleFence c))"
    by (simp add: validCancellationFence_def Let_def)
  then have "m \<noteq> ValidationOps \<Longrightarrow> k \<noteq> lb_operationID (cn_lifecycleFence c)"
    using kept(1) fresh_bindings [of r k m] by auto
  with kept show "\<exists>b'. map_of (bindings m (bindCancellationFence c scheduler operation ref a r)) k =
      Some b' \<and> ob_terminal b'"
    by (cases m) (auto simp: bindCancellationFence_def Let_def)
next
  fix m show "length (bindings m r) \<le> length (bindings m (bindCancellationFence c scheduler operation ref a r))"
    by (cases m) (simp_all add: bindCancellationFence_def Let_def length_update_le)
qed (simp add: bindCancellationFence_def Let_def length_update_le)

lemma buildCancellationEnactments_advances:
  assumes "buildCancellationEnactments h c r ids = Inr (refs, r', ids')"
  shows "advances r r'"
proof -
  from assms obtain a operations refs\<^sub>1 r\<^sub>1 ids\<^sub>1 refs\<^sub>2 where
    runs: "cancelRuntimeOperations h c (da_Scheduler (pn_Authorities (ag_pinned a)))
      operations r ids = Inr (refs\<^sub>1, r\<^sub>1, ids\<^sub>1)"
    and lifecycle: "cancelLifecycle c a r\<^sub>1 ids\<^sub>1 = Inr (refs\<^sub>2, r', ids')"
    by (auto simp: buildCancellationEnactments_def result_bind_eq_Inr split: option.splits)
  from runs have "advances r r\<^sub>1" by (rule cancelRuntimeOperations_advances)
  also from lifecycle have "advances r\<^sub>1 r'"
    by (auto simp: cancelLifecycle_def Let_def bindCancellationFence_advances split: option.splits prod.splits if_splits)
  finally show ?thesis .
qed

lemma addCancellation_advances:
  assumes "addCancellation h i reason fence k t = Inr t'"
  shows "advances (tx_record t) (tx_record t')"
  using assms by (rule addCancellation_Inr) (rule buildCancellationEnactments_advances)

lemma applyStage_advances:
  assumes "applyStage h i exists r recovery decisionID ids = Inr t"
  shows "advances r (tx_record t)"
proof -
  from applyStage_Inr [OF assms] obtain r' ids' affected refs generation epoch where
    changed: "applyAggregateIntent h (cloneTaskRecord r) i ids decisionID = Inr (r', ids', affected, refs)"
    and t: "tx_record t = syncAggregateCoordination refs generation epoch (adoptReconciler i r')"
    by metis
  have "r' = (cloneTaskRecord r)\<lparr>tr_aggregate := tr_aggregate r'\<rparr>"
    using changed by (rule applyAggregateIntent_frame)
  moreover have "advances r ((cloneTaskRecord r)\<lparr>tr_aggregate := a\<rparr>)" for a
    by (rule advances_same) (simp_all add: cloneTaskRecord_def)
  ultimately have "advances r r'" by metis
  also have "advances r' (adoptReconciler i r')"
    by (rule advances_same) (simp_all add: adoptReconciler_def)
  also have "advances (adoptReconciler i r') (tx_record t)"
    unfolding t by (rule syncAggregateCoordination_advances)
  finally show ?thesis .
qed

lemma cancelStage_advances:
  assumes "cancelStage h i prior t = Inr t'"
  shows "advances (tx_record t) (tx_record t')"
  using assms
proof (cases rule: cancelStage_cases)
  case (cancelled reason fence t\<^sub>1)
  have "advances (tx_record t) (tx_record (markCancelling reason t))" by (rule advances_same) simp_all
  also have "advances (tx_record (markCancelling reason t)) (tx_record t\<^sub>1)"
    using cancelled(2) by (auto dest: addCancellation_advances)
  also have "advances (tx_record t\<^sub>1) (tx_record t')"
    using cancelled(3) by (auto intro: advances_same)
  finally show ?thesis .
qed simp

lemma reconcileStage_advances: "advances (tx_record t) (tx_record (reconcileStage i t))"
  by (rule advances_same) (simp_all add: reconcileStage_def split: intentPayload.splits)

lemma fenceStage_advances:
  assumes "fenceStage h i t = Inr t'"
  shows "advances (tx_record t) (tx_record t')"
  using assms by (cases rule: fenceStage_cases) (auto dest: addCancellation_advances)

lemma finalRecord_advances: "advances (tx_record t) (finalRecord i accepted t)"
proof -
  have "bindings m (finalRecord i accepted t) = bindings m (tx_record t) \<and>
    tr_enactments (finalRecord i accepted t) = tr_enactments (tx_record t)" for m
    unfolding finalRecord_def by (cases "iv_payload i") simp_all
  then show ?thesis by (intro advances_same) blast+
qed

lemma markAcceptedEvidenceTerminal_advances: "advances r (markAcceptedEvidenceTerminal payload r)"
proof -
  have "advances r (setBindings m (setTerminal k (bindings m r)) r)" for m k
    unfolding setTerminal_def by (rule terminal_advances) simp
  note this [of RuntimeOps] this [of ValidationOps] this [of LifecycleOps] this [of PublicationOps]
    this [of SchedulingOps]
  then show ?thesis by (cases payload) simp_all
qed

lemma recordDecision_advances: "advances r (recordDecision i d t decision r)"
proof -
  let ?r = "if tr_owner r = ([], 0) \<and> iv_kind i = IntentStartTask
      then r\<lparr>tr_owner := (av_id (iv_authority i), av_generation (iv_authority i))\<rparr> else r"
  have "advances r ?r" by (rule advances_same) simp_all
  also have "advances ?r (markAcceptedEvidenceTerminal (iv_payload i) ?r)"
    by (rule markAcceptedEvidenceTerminal_advances)
  also have "advances (markAcceptedEvidenceTerminal (iv_payload i) ?r) (recordDecision i d t decision r)"
    by (rule advances_same) (simp, simp add: recordDecision_def Let_def)
  finally show ?thesis .
qed

lemma transitionOf_advances:
  assumes "transitionOf h now i d exists r recovery ids = Inr (decision, r', ids', recovery')"
  shows "advances r r'"
proof -
  from assms obtain decisionID ids\<^sub>2 t\<^sub>1 t\<^sub>2 t where
    stages: "applyStage h i exists r recovery decisionID ids\<^sub>2 = Inr t\<^sub>1"
      "cancelStage h i (activeBinding r) t\<^sub>1 = Inr t\<^sub>2" "fenceStage h i (reconcileStage i t\<^sub>2) = Inr t"
    and r': "r' = recordDecision i d t decision (finalRecord i (tr_revision r + 1) t)"
    by (rule transitionOf_Inr)
  note applyStage_advances [OF stages(1)]
  also note cancelStage_advances [OF stages(2)]
  also note reconcileStage_advances [of t\<^sub>2 i]
  also note fenceStage_advances [OF stages(3)]
  also note finalRecord_advances [of t i "tr_revision r + 1"]
  also note recordDecision_advances [of "finalRecord i (tr_revision r + 1) t" i d t decision]
  finally show ?thesis by (simp add: r')
qed

lemma startRecord_advances:
  assumes "startRecord i (map_of (mp_tasks p) k \<noteq> None) (taskOf p k) recovery = Inr r"
  shows "advances (taskOf p k) r"
proof (cases "map_of (mp_tasks p) k")
  case None
  then have "bindings m (taskOf p k) = []" for m by (cases m) (simp_all add: taskOf_def zeroTaskRecord_def)
  moreover from None have "tr_enactments (taskOf p k) = []" by (simp add: taskOf_def zeroTaskRecord_def)
  ultimately show ?thesis by (intro advances_writes) simp_all
next
  case (Some r\<^sub>0)
  with assms show ?thesis by (simp add: startRecord_def)
qed

lemma taskOf_advances:
  assumes "decides h p p'"
  shows "advances (taskOf p k) (taskOf p' k)"
  using assms
proof (cases rule: decides_outcome)
  case (noted taskID evidenceID reason)
  have "advances (taskOf p taskID) (retainEvidenceDiagnostic evidenceID reason (taskOf p taskID))"
    by (rule advances_same) (simp_all add: retainEvidenceDiagnostic_def)
  with noted show ?thesis by simp
next
  case (committed i r decision r')
  from commits_taskOf(2) [OF committed]
  have "advances (taskOf p (ih_TaskID (iv_header i))) r" by (rule startRecord_advances)
  also from committed have "advances r r'" by (elim commitsE) (rule transitionOf_advances)
  finally show ?thesis using commits_taskOf(1) [OF committed, of k] by simp
qed simp_all

lemma run_advances: "(decides h)\<^sup>*\<^sup>* p p' \<Longrightarrow> advances (taskOf p k) (taskOf p' k)"
  by (induction rule: rtranclp_induct) (auto intro: advances_trans taskOf_advances)

section \<open>Evidence is accepted once\<close>

lemma committed_evidence:
  assumes "canonicalizeIntent h i = Inr d" and "decideLocked h now i d p = (True, result, p')"
    and "evidenceFacts (iv_payload i) \<noteq> None"
  shows "\<exists>b. reportedOperation (iv_payload i) (taskOf p (ih_TaskID (iv_header i))) = Some b \<and>
      evidence_fits i (taskOf p (ih_TaskID (iv_header i))) (mp_recovery p) b"
    and "\<exists>b. reportedOperation (iv_payload i) (taskOf p' (ih_TaskID (iv_header i))) = Some b \<and> ob_terminal b"
proof -
  from assms(1,2) obtain r decision r' where committed: "commits h p i r decision r' p'"
    by (rule decideLocked_commits)
  have "iv_kind i \<noteq> IntentStartTask" using assms(3) by (cases "iv_payload i") (simp_all add: iv_kind_def)
  with commits_taskOf(2) [OF committed] have "r = taskOf p (ih_TaskID (iv_header i))"
    by (simp add: startRecord_def)
  with commits_evidence_fits [OF committed assms(3)]
  show "\<exists>b. reportedOperation (iv_payload i) (taskOf p (ih_TaskID (iv_header i))) = Some b \<and>
      evidence_fits i (taskOf p (ih_TaskID (iv_header i))) (mp_recovery p) b" by simp
  from assms(3) obtain m k where key: "evidenceKey (iv_payload i) = Some (m, k)"
    using evidenceKey_facts [of "iv_payload i"] by fastforce
  with commits_ends_operation [OF committed key] commits_taskOf(1) [OF committed]
  show "\<exists>b. reportedOperation (iv_payload i) (taskOf p' (ih_TaskID (iv_header i))) = Some b \<and> ob_terminal b"
    by (simp add: reportedOperation_def)
qed

text \<open>
  C35. Accepted evidence is authorized and current. A committed decision on evidence had, for the
  operation the evidence reports on, an open binding: bound to the very authority that reports,
  with the generation, the fence and the safety epoch the evidence claims; that epoch is the one
  in force, and the activity is the one the request names. The decision ends the operation.
\<close>

theorem accepted_evidence_is_current:
  assumes "canonicalizeIntent h i = Inr d" and "decideLocked h now i d p = (True, result, p')"
    and "evidenceFacts (iv_payload i) \<noteq> None"
  shows "(\<exists>b. reportedOperation (iv_payload i) (taskOf p (ih_TaskID (iv_header i))) = Some b \<and>
      evidence_fits i (taskOf p (ih_TaskID (iv_header i))) (mp_recovery p) b) \<and>
    (\<exists>b. reportedOperation (iv_payload i) (taskOf p' (ih_TaskID (iv_header i))) = Some b \<and> ob_terminal b)"
  using committed_evidence [OF assms] by blast

text \<open>
  C4. Evidence on an operation is accepted once. After a decision on evidence about an operation
  of a task, and any further run, no evidence about the same operation is committed again (as
  long as the task knows fewer operations than there are identifiers).
\<close>

theorem evidence_is_accepted_once:
  assumes "canonicalizeIntent h i = Inr d" and "decideLocked h now i d p = (True, result, p\<^sub>1)"
    and "(decides h)\<^sup>*\<^sup>* p\<^sub>1 p\<^sub>2"
    and "canonicalizeIntent h j = Inr d'" and "decideLocked h now' j d' p\<^sub>2 = (committed, result', p\<^sub>3)"
    and "evidenceKey (iv_payload i) = Some operation" and "evidenceKey (iv_payload j) = Some operation"
    and "ih_TaskID (iv_header j) = ih_TaskID (iv_header i)"
    and "length (knownOperations (taskOf p\<^sub>2 (ih_TaskID (iv_header i)))) < 2 ^ 64"
  shows "\<not> committed"
proof
  let ?k = "ih_TaskID (iv_header i)"
  assume "committed"
  obtain m k where operation: "operation = (m, k)" by (cases operation)
  have facts: "evidenceFacts (iv_payload i) \<noteq> None" "evidenceFacts (iv_payload j) \<noteq> None"
    using assms(6,7) evidenceKey_facts by (metis option.distinct(1))+
  from committed_evidence(2) [OF assms(1,2) facts(1)]
  obtain b where "map_of (bindings m (taskOf p\<^sub>1 ?k)) k = Some b" "ob_terminal b"
    by (auto simp: reportedOperation_def assms(6) operation)
  moreover have "keeps_ended (taskOf p\<^sub>1 ?k) (taskOf p\<^sub>2 ?k)"
    using run_advances [OF assms(3), of ?k] assms(9) by (simp add: advances_def)
  ultimately obtain b' where ended: "map_of (bindings m (taskOf p\<^sub>2 ?k)) k = Some b'" "ob_terminal b'"
    unfolding keeps_ended_def by blast
  from assms(5) \<open>committed\<close> have "decideLocked h now' j d' p\<^sub>2 = (True, result', p\<^sub>3)" by simp
  from committed_evidence(1) [OF assms(4) this facts(2)] ended show False
    by (auto simp: reportedOperation_def assms(7,8) operation evidence_fits_def)
qed

end
