(* ===== verification/Orch_Lifecycle.thy ===== *)
theory Orch_Lifecycle
  imports Orch_Evidence
begin

text \<open>
  The life of a task, abstractly: its status, the phase run it is in, and the outcome of every
  phase run. \<open>lifecycle_step\<close> is the specification of what one decision may do to it;
  \<open>lifecycle_ok\<close> its invariant. The second half of the theory shows that every handler of
  \<open>applyAggregateIntent\<close> implements the specification.
\<close>

section \<open>The abstract machine\<close>

record lifecycle =
  lc_status :: TaskStatus
  lc_active :: ident
  lc_runs :: "(ident \<times> PhaseRunOutcome) list"

text \<open>Replacing the outcome of the first run with an identifier.\<close>

fun set_outcome :: "ident \<Rightarrow> PhaseRunOutcome \<Rightarrow> (ident \<times> PhaseRunOutcome) list \<Rightarrow> (ident \<times> PhaseRunOutcome) list"
where
  "set_outcome k v [] = []"
| "set_outcome k v ((i, w) # runs) = (if i = k then (k, v) # runs else (i, w) # set_outcome k v runs)"

abbreviation (input) in_phase :: "lifecycle \<Rightarrow> bool" where
  "in_phase s \<equiv> lc_active s \<noteq> [] \<and> lc_status s \<in> {TaskRunning, TaskAwaitingConfirmation}"

inductive lifecycle_step :: "lifecycle \<Rightarrow> lifecycle \<Rightarrow> bool" where
  ls_stay: "lifecycle_step s s"
| ls_begin: "lc_status s \<in> {TaskReady, TaskRunning, TaskFailed} \<Longrightarrow> lc_active s = [] \<Longrightarrow> k \<noteq> [] \<Longrightarrow>
    k \<notin> fst ` set (lc_runs s) \<Longrightarrow> status \<in> {TaskRunning, TaskAwaitingConfirmation} \<Longrightarrow>
    lifecycle_step s \<lparr>lc_status = status, lc_active = k, lc_runs = lc_runs s @ [(k, PhaseRunRunning)]\<rparr>"
| ls_finish: "in_phase s \<Longrightarrow> status \<in> {TaskRunning, TaskCompleted} \<Longrightarrow>
    lifecycle_step s \<lparr>lc_status = status, lc_active = [],
      lc_runs = set_outcome (lc_active s) PhaseRunSucceeded (lc_runs s)\<rparr>"
| ls_fail: "in_phase s \<Longrightarrow>
    lifecycle_step s \<lparr>lc_status = TaskFailed, lc_active = [],
      lc_runs = set_outcome (lc_active s) PhaseRunFailed (lc_runs s)\<rparr>"
| ls_cancel_idle: "lc_active s = [] \<Longrightarrow> lc_status s \<notin> {TaskCompleted, TaskCancelled, TaskCancelling} \<Longrightarrow>
    lifecycle_step s (s\<lparr>lc_status := TaskCancelled\<rparr>)"
| ls_cancel_run: "in_phase s \<Longrightarrow>
    lifecycle_step s \<lparr>lc_status = TaskCancelled, lc_active = [],
      lc_runs = set_outcome (lc_active s) PhaseRunCancelled (lc_runs s)\<rparr>"
| ls_cancelling: "in_phase s \<Longrightarrow> lifecycle_step s (s\<lparr>lc_status := TaskCancelling\<rparr>)"
| ls_late_commit: "lc_status s = TaskCancelling \<Longrightarrow>
    lifecycle_step s (s\<lparr>lc_runs := set_outcome (lc_active s) PhaseRunSucceeded (lc_runs s)\<rparr>)"
| ls_fenced: "lc_status s = TaskCancelling \<Longrightarrow>
    lifecycle_step s \<lparr>lc_status = TaskCancelled, lc_active = [],
      lc_runs = set_outcome (lc_active s) PhaseRunCancelled (lc_runs s)\<rparr>"
| ls_edit: "lc_status s = TaskCompleted \<Longrightarrow> lifecycle_step s (s\<lparr>lc_status := TaskRunning\<rparr>)"

inductive_cases lifecycle_stepE: "lifecycle_step s t"

text \<open>
  Phase runs have different identifiers, a running one is the active one, a task is in a phase
  exactly while it is cancelling or awaits confirmation or runs one.
\<close>

definition lifecycle_ok :: "lifecycle \<Rightarrow> bool" where
  "lifecycle_ok s \<longleftrightarrow>
     distinct (map fst (lc_runs s)) \<and> (\<forall>(i, v) \<in> set (lc_runs s). i \<noteq> []) \<and>
     (\<forall>(i, v) \<in> set (lc_runs s). v = PhaseRunRunning \<longrightarrow> i = lc_active s) \<and>
     (lc_active s \<noteq> [] \<longrightarrow>
        lc_status s \<in> {TaskRunning, TaskAwaitingConfirmation, TaskCancelling} \<and>
        lc_active s \<in> fst ` set (lc_runs s) \<and>
        (lc_status s \<noteq> TaskCancelling \<longrightarrow> map_of (lc_runs s) (lc_active s) = Some PhaseRunRunning)) \<and>
     (lc_status s \<in> {TaskAwaitingConfirmation, TaskCancelling} \<longrightarrow> lc_active s \<noteq> [])"

definition started :: lifecycle where
  "started = \<lparr>lc_status = TaskReady, lc_active = [], lc_runs = []\<rparr>"

lemma lifecycle_ok_started: "lifecycle_ok started"
  by (simp add: lifecycle_ok_def started_def)

lemma map_fst_set_outcome [simp]: "map fst (set_outcome k v runs) = map fst runs"
  by (induction k v runs rule: set_outcome.induct) auto

lemma fst_set_outcome [simp]: "fst ` set (set_outcome k v runs) = fst ` set runs"
  by (metis list.set_map map_fst_set_outcome)

lemma set_outcome_set:
  "distinct (map fst runs) \<Longrightarrow> (i, w) \<in> set (set_outcome k v runs) \<Longrightarrow>
     (i = k \<and> w = v) \<or> (i \<noteq> k \<and> (i, w) \<in> set runs)"
  by (induction k v runs rule: set_outcome.induct) (force split: if_splits)+

lemma set_outcome_same: "map_of runs k = Some v \<Longrightarrow> set_outcome k v runs = runs"
  by (induction k v runs rule: set_outcome.induct) (auto split: if_splits)

lemma set_outcome_ids: "(i, w) \<in> set (set_outcome k v runs) \<Longrightarrow> i \<in> fst ` set runs"
  by (metis fst_conv fst_set_outcome image_eqI)

text \<open>Ending the active run leaves none running.\<close>

lemma ended_run_ok:
  assumes "lifecycle_ok s" and "v \<noteq> PhaseRunRunning"
  shows "distinct (map fst (set_outcome (lc_active s) v (lc_runs s)))"
    and "(i, w) \<in> set (set_outcome (lc_active s) v (lc_runs s)) \<Longrightarrow> i \<noteq> [] \<and> w \<noteq> PhaseRunRunning"
proof -
  show "distinct (map fst (set_outcome (lc_active s) v (lc_runs s)))"
    using assms(1) by (simp add: lifecycle_ok_def)
  assume member: "(i, w) \<in> set (set_outcome (lc_active s) v (lc_runs s))"
  have "i \<noteq> []" using set_outcome_ids [OF member] assms(1) by (auto simp: lifecycle_ok_def)
  moreover have "w \<noteq> PhaseRunRunning"
    using set_outcome_set [OF _ member] assms by (auto simp: lifecycle_ok_def)
  ultimately show "i \<noteq> [] \<and> w \<noteq> PhaseRunRunning" ..
qed

lemma lifecycle_ok_ended:
  assumes "lifecycle_ok s" and "v \<noteq> PhaseRunRunning"
    and "status \<notin> {TaskAwaitingConfirmation, TaskCancelling}"
  shows "lifecycle_ok \<lparr>lc_status = status, lc_active = [], lc_runs = set_outcome (lc_active s) v (lc_runs s)\<rparr>"
  using ended_run_ok [OF assms(1,2)] assms(3) by (auto simp: lifecycle_ok_def)

lemma lifecycle_ok_step:
  assumes "lifecycle_step s t" and "lifecycle_ok s"
  shows "lifecycle_ok t"
  using assms(1)
proof cases
  case (ls_begin k status)
  then have "map_of (lc_runs s) k = None" by (simp add: map_of_eq_None_iff)
  with ls_begin assms(2) show ?thesis by (auto simp: lifecycle_ok_def map_add_def)
next
  case ls_late_commit
  with ended_run_ok [OF assms(2), of PhaseRunSucceeded] assms(2) show ?thesis
    by (auto simp: lifecycle_ok_def)
next
  case ls_cancelling
  with assms(2) show ?thesis by (auto simp: lifecycle_ok_def)
next
  case ls_edit
  with assms(2) show ?thesis by (auto simp: lifecycle_ok_def)
next
  case ls_cancel_idle
  with assms(2) show ?thesis by (auto simp: lifecycle_ok_def)
qed (use assms(2) in \<open>auto intro: lifecycle_ok_ended\<close>)

text \<open>The statuses a task may move to.\<close>

fun status_may_become :: "TaskStatus \<Rightarrow> TaskStatus \<Rightarrow> bool" where
  "status_may_become TaskStatusUnset t = (t \<in> {TaskStatusUnset, TaskCancelled})"
| "status_may_become TaskReady t = (t \<in> {TaskReady, TaskRunning, TaskAwaitingConfirmation, TaskCancelled})"
| "status_may_become TaskRunning t = (t \<notin> {TaskStatusUnset, TaskReady})"
| "status_may_become TaskAwaitingConfirmation t = (t \<notin> {TaskStatusUnset, TaskReady})"
| "status_may_become TaskCancelling t = (t \<in> {TaskCancelling, TaskCancelled})"
| "status_may_become TaskFailed t = (t \<in> {TaskFailed, TaskRunning, TaskAwaitingConfirmation, TaskCancelled})"
| "status_may_become TaskCancelled t = (t = TaskCancelled)"
| "status_may_become TaskCompleted t = (t \<in> {TaskCompleted, TaskRunning})"

lemma lifecycle_step_status: "lifecycle_step s t \<Longrightarrow> status_may_become (lc_status s) (lc_status t)"
  by (elim lifecycle_stepE; cases "lc_status s"; simp; blast?)

interpretation task_status: transition_table status_may_become "\<lambda>s. s = TaskCancelled"
  by unfold_locales simp

section \<open>The aggregate as a lifecycle\<close>

definition lifecycle_of :: "taskAggregate \<Rightarrow> lifecycle" where
  "lifecycle_of a =
     \<lparr>lc_status = ag_status a, lc_active = ag_activePhaseRunID a,
      lc_runs = map (\<lambda>run. (pr_id run, pr_outcome run)) (ag_phaseRuns a)\<rparr>"

lemma lifecycle_of_sel [simp]:
  "lc_status (lifecycle_of a) = ag_status a" "lc_active (lifecycle_of a) = ag_activePhaseRunID a"
  "fst ` set (lc_runs (lifecycle_of a)) = pr_id ` set (ag_phaseRuns a)"
  by (simp_all add: lifecycle_of_def image_image)

lemma put_run_outcomes:
  "map (\<lambda>run. (pr_id run, pr_outcome run)) (put_run run runs) =
     set_outcome (pr_id run) (pr_outcome run) (map (\<lambda>run. (pr_id run, pr_outcome run)) runs)"
  by (induction runs) auto

lemma find_run_outcome:
  "find_elem (\<lambda>run. pr_id run = k) runs = Some run \<Longrightarrow>
     map_of (map (\<lambda>run. (pr_id run, pr_outcome run)) runs) k = Some (pr_outcome run)"
  by (induction runs) (auto split: if_splits)

text \<open>The active run rewritten: its outcome replaced, or the lifecycle as it was.\<close>

lemma lc_runs_put_run:
  assumes "activePhaseRun a k = Some run" and "pr_id run' = pr_id run"
  shows "map (\<lambda>run. (pr_id run, pr_outcome run)) (put_run run' (ag_phaseRuns a)) =
      set_outcome (ag_activePhaseRunID a) (pr_outcome run') (lc_runs (lifecycle_of a))"
  using activePhaseRun_Some [OF assms(1)] assms(2) by (simp add: put_run_outcomes lifecycle_of_def)

lemma lc_runs_report:
  assumes "activePhaseRun a k = Some run" and "pr_id run' = pr_id run" and "pr_outcome run' = pr_outcome run"
  shows "map (\<lambda>run. (pr_id run, pr_outcome run)) (put_run run' (ag_phaseRuns a)) = lc_runs (lifecycle_of a)"
proof -
  have "map_of (lc_runs (lifecycle_of a)) k = Some (pr_outcome run)" "ag_activePhaseRunID a = k"
    using assms(1) by (auto simp: activePhaseRun_def lifecycle_of_def dest: find_run_outcome split: if_splits)
  then show ?thesis
    unfolding lc_runs_put_run [OF assms(1,2)] by (simp add: assms(3) set_outcome_same)
qed

lemma active_in_phase:
  assumes "activePhaseRun a k = Some run" and "lifecycle_ok (lifecycle_of a)"
  shows "ag_activePhaseRunID a = k" "k \<noteq> []" "pr_id run = k"
    "ag_status a \<in> {TaskRunning, TaskAwaitingConfirmation, TaskCancelling}"
proof -
  from activePhaseRun_Some [OF assms(1)] show k: "ag_activePhaseRunID a = k" "pr_id run = k" by simp_all
  from activePhaseRun_Some [OF assms(1)] have "(k, pr_outcome run) \<in> set (lc_runs (lifecycle_of a))"
    by (force simp: lifecycle_of_def)
  with assms(2) show "k \<noteq> []" by (auto simp: lifecycle_ok_def)
  with assms(2) k show "ag_status a \<in> {TaskRunning, TaskAwaitingConfirmation, TaskCancelling}"
    by (auto simp: lifecycle_ok_def)
qed

section \<open>The handlers implement the machine\<close>

text \<open>Phase run identifiers come from the allocator, which has not used the next one.\<close>

definition ids_below :: "taskAggregate \<Rightarrow> u64 \<Rightarrow> bool" where
  "ids_below a n \<longleftrightarrow> (\<forall>k \<in> set (map pr_id (ag_phaseRuns a)). \<exists>m < n. k = sequenceID ''phase-run-'' m)"

definition implements :: "taskAggregate \<Rightarrow> idAllocator \<Rightarrow> taskAggregate \<Rightarrow> idAllocator \<Rightarrow> bool" where
  "implements a ids a' ids' \<longleftrightarrow>
     lifecycle_step (lifecycle_of a) (lifecycle_of a') \<and> ag_pinned a' = ag_pinned a \<and>
     ag_route a' = ag_route a \<and> ia_nextPhaseRun ids \<le> ia_nextPhaseRun ids' \<and>
     ids_below a' (ia_nextPhaseRun ids')"

lemma ids_below_mono: "ids_below a n \<Longrightarrow> n \<le> n' \<Longrightarrow> ids_below a n'"
  unfolding ids_below_def by (meson order_less_le_trans)

lemma ids_below_fresh: "ids_below a n \<Longrightarrow> sequenceID ''phase-run-'' n \<notin> pr_id ` set (ag_phaseRuns a)"
  by (force simp: ids_below_def)

lemma implements_same:
  assumes "ids_below a (ia_nextPhaseRun ids)" and "lifecycle_step (lifecycle_of a) (lifecycle_of a')"
    and "ag_pinned a' = ag_pinned a" "ag_route a' = ag_route a"
    and "map pr_id (ag_phaseRuns a') = map pr_id (ag_phaseRuns a)"
    and "ia_nextPhaseRun ids' = ia_nextPhaseRun ids"
  shows "implements a ids a' ids'"
  using assms unfolding implements_def ids_below_def by simp

lemma lifecycle_of_update [simp]:
  "lifecycle_of (a\<lparr>ag_activity := x\<^sub>1\<rparr>) = lifecycle_of a"
  "lifecycle_of (a\<lparr>ag_currentPhase := k\<rparr>) = lifecycle_of a"
  "lifecycle_of (a\<lparr>ag_latestArtifactVersionID := k\<rparr>) = lifecycle_of a"
  "lifecycle_of (a\<lparr>ag_activitySourceArtifactVersionID := k\<rparr>) = lifecycle_of a"
  "lifecycle_of (a\<lparr>ag_reconstructionRequired := b\<rparr>) = lifecycle_of a"
  "lifecycle_of (a\<lparr>ag_reconstructionAccepted := b\<rparr>) = lifecycle_of a"
  "lifecycle_of (a\<lparr>ag_reconstructionOperationID := k\<rparr>) = lifecycle_of a"
  "lifecycle_of (a\<lparr>ag_lifecycleGeneration := n\<rparr>) = lifecycle_of a"
  "lifecycle_of (a\<lparr>ag_lifecycleFence := n\<rparr>) = lifecycle_of a"
  "lifecycle_of (a\<lparr>ag_status := status\<rparr>) = (lifecycle_of a)\<lparr>lc_status := status\<rparr>"
  "lifecycle_of (a\<lparr>ag_activePhaseRunID := k\<rparr>) = (lifecycle_of a)\<lparr>lc_active := k\<rparr>"
  "lifecycle_of (a\<lparr>ag_phaseRuns := runs\<rparr>) =
     (lifecycle_of a)\<lparr>lc_runs := map (\<lambda>run. (pr_id run, pr_outcome run)) runs\<rparr>"
  by (simp_all add: lifecycle_of_def)

lemma activePhaseRun_update [simp]:
  "activePhaseRun (a\<lparr>ag_latestArtifactVersionID := k'\<rparr>) k = activePhaseRun a k"
  "activePhaseRun (a\<lparr>ag_lifecycleGeneration := n\<rparr>) k = activePhaseRun a k"
  "activePhaseRun (a\<lparr>ag_lifecycleFence := n\<rparr>) k = activePhaseRun a k"
  by (simp_all add: activePhaseRun_def)

lemma lifecycle_eqI:
  "lc_status s = lc_status t \<Longrightarrow> lc_active s = lc_active t \<Longrightarrow> lc_runs s = lc_runs t \<Longrightarrow> s = (t :: lifecycle)"
  by simp

lemma finish_step:
  assumes "activePhaseRun a k = Some run" "pr_id run' = pr_id run" "lifecycle_ok (lifecycle_of a)"
    and "ag_status a \<noteq> TaskCancelling"
  shows "lifecycle_step (lifecycle_of a) (lifecycle_of (finishAggregatePhase a run' phase))"
proof -
  let ?status = "if ph_NextPhase phase = [] then TaskCompleted else TaskRunning"
  have "in_phase (lifecycle_of a)" using active_in_phase [OF assms(1,3)] assms(4) by auto
  then have "lifecycle_step (lifecycle_of a) \<lparr>lc_status = ?status, lc_active = [],
      lc_runs = set_outcome (lc_active (lifecycle_of a)) PhaseRunSucceeded (lc_runs (lifecycle_of a))\<rparr>"
    by (rule ls_finish) simp
  also have "\<dots> = lifecycle_of (finishAggregatePhase a run' phase)"
    using lc_runs_put_run [OF assms(1), of "run'\<lparr>pr_outcome := PhaseRunSucceeded\<rparr>"] assms(2)
    by (intro lifecycle_eqI) (simp_all add: finishAggregatePhase_def Let_def)
  finally show ?thesis .
qed

lemma fail_step:
  assumes "activePhaseRun a k = Some run" "pr_id run' = pr_id run" "lifecycle_ok (lifecycle_of a)"
    and "ag_status a \<noteq> TaskCancelling"
  shows "lifecycle_step (lifecycle_of a) (lifecycle_of (failAggregatePhase a run'))"
proof -
  have "in_phase (lifecycle_of a)" using active_in_phase [OF assms(1,3)] assms(4) by auto
  then have "lifecycle_step (lifecycle_of a) \<lparr>lc_status = TaskFailed, lc_active = [],
      lc_runs = set_outcome (lc_active (lifecycle_of a)) PhaseRunFailed (lc_runs (lifecycle_of a))\<rparr>"
    by (rule ls_fail)
  also have "\<dots> = lifecycle_of (failAggregatePhase a run')"
    using lc_runs_put_run [OF assms(1), of "run'\<lparr>pr_outcome := PhaseRunFailed\<rparr>"] assms(2)
    by (intro lifecycle_eqI) (simp_all add: failAggregatePhase_def)
  finally show ?thesis .
qed

lemma report_step:
  assumes "activePhaseRun a k = Some run" "pr_id run' = pr_id run" "pr_outcome run' = pr_outcome run"
  shows "lifecycle_step (lifecycle_of a) ((lifecycle_of a)\<lparr>lc_runs :=
    map (\<lambda>run. (pr_id run, pr_outcome run)) (put_run run' (ag_phaseRuns a))\<rparr>)"
  by (simp add: lc_runs_report [OF assms] ls_stay)

lemma finish_frame [simp]:
  "ag_pinned (finishAggregatePhase a run phase) = ag_pinned a"
  "ag_route (finishAggregatePhase a run phase) = ag_route a"
  "map pr_id (ag_phaseRuns (finishAggregatePhase a run phase)) = map pr_id (ag_phaseRuns a)"
  "ag_pinned (failAggregatePhase a run) = ag_pinned a" "ag_route (failAggregatePhase a run) = ag_route a"
  "map pr_id (ag_phaseRuns (failAggregatePhase a run)) = map pr_id (ag_phaseRuns a)"
  by (simp_all add: finishAggregatePhase_def failAggregatePhase_def Let_def)

text \<open>Identifiers of other kinds do not touch the counter of phase runs.\<close>

lemma allocator_frame [simp]:
  "ia_nextPhaseRun (snd (nextOperationID ids)) = ia_nextPhaseRun ids"
  "ia_nextPhaseRun (snd (nextRuntimeRunID ids)) = ia_nextPhaseRun ids"
  "ia_nextPhaseRun (snd (nextCausationID ids)) = ia_nextPhaseRun ids"
  "ia_nextPhaseRun (snd (nextDecisionID ids)) = ia_nextPhaseRun ids"
  "ia_nextPhaseRun (snd (nextAuditFactID ids)) = ia_nextPhaseRun ids"
  by (simp_all add: nextOperationID_def nextRuntimeRunID_def nextCausationID_def nextDecisionID_def
      nextAuditFactID_def)

lemma startRuntimeRuns_ids:
  "startRuntimeRuns h r a phase run header d n ids = Inr (rts, refs, ids') \<Longrightarrow>
     ia_nextPhaseRun ids' = ia_nextPhaseRun ids"
proof (induction n arbitrary: ids rts refs)
  case (Suc n)
  obtain k ids\<^sub>1 m ids\<^sub>2 where ids: "nextRuntimeRunID ids = (k, ids\<^sub>1)" "nextOperationID ids\<^sub>1 = (m, ids\<^sub>2)"
    by fastforce
  then have "ia_nextPhaseRun ids\<^sub>2 = ia_nextPhaseRun ids"
    using allocator_frame(1) [of ids\<^sub>1] allocator_frame(2) [of ids] by simp
  with Suc ids show ?case by (auto simp: result_bind_eq_Inr)
qed simp

lemma beginAggregatePhase_Inr:
  assumes "beginAggregatePhase h r a header ids d = Inr (a', ids', affected, refs)"
  obtains run where "ag_status a \<in> {TaskReady, TaskRunning}" "ag_activePhaseRunID a = []"
    "ag_phaseRuns a' = ag_phaseRuns a @ [run]" "ag_activePhaseRunID a' = pr_id run"
    "pr_id run = sequenceID ''phase-run-'' (ia_nextPhaseRun ids)" "pr_outcome run = PhaseRunRunning"
    "ag_status a' \<in> {TaskRunning, TaskAwaitingConfirmation}" "ag_pinned a' = ag_pinned a"
    "ag_route a' = ag_route a" "ia_nextPhaseRun ids' = ia_nextPhaseRun ids + 1"
  using assms
  by (auto simp: beginAggregatePhase_def nextPhaseRunID_def newPhaseRun_def Let_def result_bind_eq_Inr
      nextOperationID_def dest!: startRuntimeRuns_ids split: if_splits option.splits)

lemma begin_step:
  assumes "beginAggregatePhase h r a header ids d = Inr (a', ids', affected, refs)"
    and "ids_below a (ia_nextPhaseRun ids)" and "ia_nextPhaseRun ids \<noteq> - 1"
  shows "lc_status s \<in> {TaskReady, TaskRunning, TaskFailed} \<Longrightarrow> lifecycle_of a = s\<lparr>lc_status := ag_status a\<rparr> \<Longrightarrow>
      lifecycle_step s (lifecycle_of a')"
    and "ag_pinned a' = ag_pinned a" "ag_route a' = ag_route a"
    and "ia_nextPhaseRun ids \<le> ia_nextPhaseRun ids'" "ids_below a' (ia_nextPhaseRun ids')"
proof -
  from assms(1) obtain run where idle: "ag_status a \<in> {TaskReady, TaskRunning}" "ag_activePhaseRunID a = []"
    and a': "ag_phaseRuns a' = ag_phaseRuns a @ [run]" "ag_activePhaseRunID a' = pr_id run"
      "pr_id run = sequenceID ''phase-run-'' (ia_nextPhaseRun ids)" "pr_outcome run = PhaseRunRunning"
      "ag_status a' \<in> {TaskRunning, TaskAwaitingConfirmation}"
    and same: "ag_pinned a' = ag_pinned a" "ag_route a' = ag_route a"
    and ids': "ia_nextPhaseRun ids' = ia_nextPhaseRun ids + 1"
    by (rule beginAggregatePhase_Inr)
  have less: "ia_nextPhaseRun ids < ia_nextPhaseRun ids + 1"
    using assms(3) inc_less_eq_self_iff_eq [of "ia_nextPhaseRun ids"] by (auto simp: not_le [symmetric])
  show "ag_pinned a' = ag_pinned a" "ag_route a' = ag_route a" "ia_nextPhaseRun ids \<le> ia_nextPhaseRun ids'"
    using same ids' less by simp_all
  show "ids_below a' (ia_nextPhaseRun ids')"
    using ids_below_mono [OF assms(2), of "ia_nextPhaseRun ids'"] less
    by (auto simp: ids_below_def a'(1,3) ids')
  assume status: "lc_status s \<in> {TaskReady, TaskRunning, TaskFailed}"
    and s: "lifecycle_of a = s\<lparr>lc_status := ag_status a\<rparr>"
  have runs: "lc_runs s = lc_runs (lifecycle_of a)" "lc_active s = []"
    using arg_cong [OF s, of lc_runs] arg_cong [OF s, of lc_active] idle(2) by simp_all
  have "pr_id run \<notin> fst ` set (lc_runs s)"
    using ids_below_fresh [OF assms(2)] by (simp add: runs a'(3))
  moreover have "pr_id run \<noteq> []" by (simp add: a'(3) sequenceID_def)
  ultimately have "lifecycle_step s \<lparr>lc_status = ag_status a', lc_active = pr_id run,
      lc_runs = lc_runs s @ [(pr_id run, PhaseRunRunning)]\<rparr>"
    using status runs(2) a'(5) by (intro ls_begin) simp_all
  also have "\<dots> = lifecycle_of a'"
    by (rule lifecycle_eqI) (simp_all add: runs(1) a' lifecycle_of_def)
  finally show "lifecycle_step s (lifecycle_of a')" .
qed

text \<open>Each handler, from an aggregate that is in order.\<close>

definition in_order :: "taskAggregate \<Rightarrow> idAllocator \<Rightarrow> bool" where
  "in_order a ids \<longleftrightarrow>
     lifecycle_ok (lifecycle_of a) \<and> ids_below a (ia_nextPhaseRun ids) \<and> ia_nextPhaseRun ids \<noteq> - 1"

lemma begin_implements:
  assumes "beginAggregatePhase h r a header ids d = Inr (a', ids', affected, refs)" and "in_order a ids"
  shows "implements a ids a' ids'"
proof -
  from assms(1) have status: "ag_status a \<in> {TaskReady, TaskRunning}" by (rule beginAggregatePhase_Inr)
  from assms(2) have left: "ids_below a (ia_nextPhaseRun ids)" "ia_nextPhaseRun ids \<noteq> - 1"
    by (simp_all add: in_order_def)
  have "lifecycle_step (lifecycle_of a) (lifecycle_of a')"
    by (rule begin_step(1) [OF assms(1) left]) (use status in \<open>auto simp: lifecycle_of_def\<close>)
  with begin_step(2-) [OF assms(1) left] show ?thesis by (simp add: implements_def)
qed

lemma retry_implements:
  assumes "retryAggregatePhase h r a header k ids d = Inr (a', ids', affected, refs)" and "in_order a ids"
  shows "implements a ids a' ids'"
proof -
  let ?a = "a\<lparr>ag_status := TaskRunning\<rparr>"
  from assms(1) have failed: "ag_status a = TaskFailed"
    and began: "beginAggregatePhase h r ?a header ids d = Inr (a', ids', affected, refs)"
    by (auto simp: retryAggregatePhase_def split: if_splits option.splits)
  have left: "ids_below ?a (ia_nextPhaseRun ids)" "ia_nextPhaseRun ids \<noteq> - 1"
    using assms(2) by (simp_all add: in_order_def ids_below_def)
  have "lifecycle_step (lifecycle_of a) (lifecycle_of a')"
    by (rule begin_step(1) [OF began left]) (simp_all add: failed)
  with begin_step(2-) [OF began left] show ?thesis by (simp add: implements_def)
qed

lemma runtime_retry_implements:
  assumes "retryAggregateRuntimeRun h r a header k m ids d = Inr (a', ids', affected, refs)" and "in_order a ids"
  shows "implements a ids a' ids'"
proof -
  obtain k\<^sub>1 ids\<^sub>1 k\<^sub>2 ids\<^sub>2 where ids: "nextRuntimeRunID ids = (k\<^sub>1, ids\<^sub>1)" "nextOperationID ids\<^sub>1 = (k\<^sub>2, ids\<^sub>2)"
    by fastforce
  then have same: "ia_nextPhaseRun ids\<^sub>2 = ia_nextPhaseRun ids"
    using allocator_frame(1) [of ids\<^sub>1] allocator_frame(2) [of ids] by simp
  from assms(1) ids obtain run rt where "activePhaseRun a k = Some run"
    and a': "a' = a\<lparr>ag_phaseRuns := put_run (run\<lparr>pr_runtimeRuns := pr_runtimeRuns run @ [rt]\<rparr>) (ag_phaseRuns a)\<rparr>"
    and ids': "ids' = ids\<^sub>2"
    by (auto simp: retryAggregateRuntimeRun_def result_bind_eq_Inr split: if_splits option.splits)
  from report_step [OF this(1), of "run\<lparr>pr_runtimeRuns := pr_runtimeRuns run @ [rt]\<rparr>"] assms(2) same
  show ?thesis by (intro implements_same) (simp_all add: in_order_def a' ids')
qed

lemma confirmation_implements:
  assumes "acceptAggregateConfirmation a k ids = Inr (a', ids', affected, refs)" and "in_order a ids"
  shows "implements a ids a' ids'"
proof -
  from assms(1) obtain run phase where "ag_status a = TaskAwaitingConfirmation"
    "activePhaseRun a (ag_activePhaseRunID a) = Some run" "a' = finishAggregatePhase a run phase" "ids' = ids"
    by (auto simp: acceptAggregateConfirmation_def split: if_splits option.splits)
  with assms(2) show ?thesis
    by (intro implements_same) (simp_all add: in_order_def finish_step)
qed

lemma runtime_evidence_implements:
  assumes "acceptAggregateRuntimeOrCoordinationEvidence a b ids = Inr (a', ids', affected, refs)"
    and "in_order a ids"
  shows "implements a ids a' ids'"
proof (cases "aggregateHasRuntimeOperation a (re_OperationID b)")
  case False
  with assms show ?thesis
    by (intro implements_same)
      (simp_all add: acceptAggregateRuntimeOrCoordinationEvidence_def in_order_def ls_stay)
next
  case True
  with assms(1) obtain run rts where run: "activePhaseRun a (re_PhaseRunID b) = Some run"
    and changed: "a' = a\<lparr>ag_phaseRuns := put_run (run\<lparr>pr_runtimeRuns := rts\<rparr>) (ag_phaseRuns a)\<rparr>" "ids' = ids"
    by (auto simp: acceptAggregateRuntimeOrCoordinationEvidence_def acceptAggregateRuntimeEvidence_def
        result_bind_eq_Inr split: if_splits option.splits)
  from report_step [OF run, of "run\<lparr>pr_runtimeRuns := rts\<rparr>"] assms(2) show ?thesis
    by (intro implements_same) (simp_all add: in_order_def changed)
qed

lemma validation_evidence_implements:
  assumes "acceptAggregateValidationEvidence r a header b ids d = Inr (a', ids', affected, refs)"
    and "in_order a ids" and "ag_status a \<noteq> TaskCancelling"
  shows "implements a ids a' ids'"
proof -
  from assms(1) consider
    (failed) run where "activePhaseRun a (ve_PhaseRunID b) = Some run" "ids' = ids"
      "a' = failAggregatePhase a (run\<lparr>pr_validationOutcome := ve_Outcome b\<rparr>)"
  | (finished) run phase where "activePhaseRun a (ve_PhaseRunID b) = Some run" "ids' = ids"
      "a' = finishAggregatePhase a (run\<lparr>pr_validationOutcome := ve_Outcome b\<rparr>) phase"
  | (validated) run generation fence k where "activePhaseRun a (ve_PhaseRunID b) = Some run" "ids' = ids"
      "a' = a\<lparr>ag_lifecycleGeneration := generation, ag_lifecycleFence := fence, ag_phaseRuns := put_run
        (run\<lparr>pr_validationOutcome := ve_Outcome b, pr_lifecycleOperationID := k\<rparr>) (ag_phaseRuns a)\<rparr>"
    by (auto simp: acceptAggregateValidationEvidence_def Let_def split: if_splits option.splits)
  then have "lifecycle_step (lifecycle_of a) (lifecycle_of a') \<and> ag_pinned a' = ag_pinned a \<and>
    ag_route a' = ag_route a \<and> map pr_id (ag_phaseRuns a') = map pr_id (ag_phaseRuns a) \<and> ids' = ids"
  proof cases
    case (validated run generation fence k)
    from report_step [OF validated(1), of "run\<lparr>pr_validationOutcome := ve_Outcome b, pr_lifecycleOperationID := k\<rparr>"]
    show ?thesis by (simp add: validated)
  qed (use assms(2,3) in \<open>simp_all add: in_order_def fail_step finish_step\<close>)
  then show ?thesis using assms(2) by (intro implements_same) (simp_all add: in_order_def)
qed

lemma publication_evidence_implements:
  assumes "acceptAggregatePublicationEvidence a b ids = Inr (a', ids', affected, refs)"
    and "in_order a ids" and "ag_status a \<noteq> TaskCancelling"
  shows "implements a ids a' ids'"
proof -
  let ?k = "pe_ArtifactVersionID b"
  from assms(1) consider
    (failed) run where "activePhaseRun a (pe_PhaseRunID b) = Some run" "ids' = ids"
      "a' = failAggregatePhase a (run\<lparr>pr_publicationOutcome := pe_Outcome b\<rparr>)"
  | (finished) run phase where "activePhaseRun a (pe_PhaseRunID b) = Some run" "ids' = ids"
      "a' = finishAggregatePhase (a\<lparr>ag_latestArtifactVersionID := ?k\<rparr>)
        (run\<lparr>pr_publicationOutcome := pe_Outcome b, pr_artifactVersionID := ?k\<rparr>) phase"
    by (auto simp: acceptAggregatePublicationEvidence_def Let_def split: if_splits option.splits)
  then have "lifecycle_step (lifecycle_of a) (lifecycle_of a') \<and> ag_pinned a' = ag_pinned a \<and>
    ag_route a' = ag_route a \<and> map pr_id (ag_phaseRuns a') = map pr_id (ag_phaseRuns a) \<and> ids' = ids"
  proof cases
    case (finished run phase)
    then show ?thesis
      using finish_step [of "a\<lparr>ag_latestArtifactVersionID := ?k\<rparr>" "pe_PhaseRunID b" run
        "run\<lparr>pr_publicationOutcome := pe_Outcome b, pr_artifactVersionID := ?k\<rparr>" phase] assms(2,3)
      by (simp add: in_order_def)
  qed (use assms(2,3) in \<open>simp_all add: in_order_def fail_step\<close>)
  then show ?thesis using assms(2) by (intro implements_same) (simp_all add: in_order_def)
qed

lemma cancelling_step:
  assumes "cancellingLifecycleEvidence r a run b = Inr a'" and "activePhaseRun a k = Some run"
    and "ag_status a = TaskCancelling"
  shows "lifecycle_step (lifecycle_of a) (lifecycle_of a') \<and> ag_pinned a' = ag_pinned a \<and>
    ag_route a' = ag_route a \<and> map pr_id (ag_phaseRuns a') = map pr_id (ag_phaseRuns a)"
proof -
  note runs = lc_runs_put_run [OF assms(2)]
  let ?commit = "run\<lparr>pr_lifecycleOutcome := le_Outcome b, pr_revisionID := le_RevisionID b,
    pr_checkpointID := le_CheckpointID b, pr_outcome := PhaseRunSucceeded\<rparr>"
  let ?fenced = "run\<lparr>pr_lifecycleOutcome := le_Outcome b, pr_outcome := PhaseRunCancelled\<rparr>"
  from assms(1) consider "a' = a\<lparr>ag_phaseRuns := put_run ?commit (ag_phaseRuns a)\<rparr>"
    | "a' = a\<lparr>ag_phaseRuns := put_run ?fenced (ag_phaseRuns a), ag_activePhaseRunID := [],
        ag_status := TaskCancelled, ag_activity := ActivityNone\<rparr>"
    by (auto simp: cancellingLifecycleEvidence_def split: option.splits if_splits)
  then show ?thesis
  proof cases
    case 1
    have "lifecycle_step (lifecycle_of a) ((lifecycle_of a)\<lparr>lc_runs :=
        set_outcome (lc_active (lifecycle_of a)) PhaseRunSucceeded (lc_runs (lifecycle_of a))\<rparr>)"
      by (rule ls_late_commit) (simp add: assms(3))
    then show ?thesis by (simp add: 1 runs)
  next
    case 2
    have "lifecycle_step (lifecycle_of a) \<lparr>lc_status = TaskCancelled, lc_active = [],
        lc_runs = set_outcome (lc_active (lifecycle_of a)) PhaseRunCancelled (lc_runs (lifecycle_of a))\<rparr>"
      by (rule ls_fenced) (simp add: assms(3))
    also have "\<dots> = lifecycle_of a'" by (rule lifecycle_eqI) (simp_all add: 2 runs)
    finally show ?thesis by (simp add: 2)
  qed
qed

lemma lifecycle_evidence_implements:
  assumes "acceptAggregateTaskWorkspaceLifecycleEvidence r a b ids = Inr (a', ids', affected, refs)"
    and "in_order a ids"
  shows "implements a ids a' ids'"
proof -
  let ?a = "a\<lparr>ag_lifecycleGeneration := le_ObservedGeneration b, ag_lifecycleFence := le_ObservedFence b\<rparr>"
  from assms(1) consider
    (cancelling) run where "activePhaseRun a (le_PhaseRunID b) = Some run" "ids' = ids"
      "ag_status a = TaskCancelling" "cancellingLifecycleEvidence r ?a run b = Inr a'"
  | (failed) run where "activePhaseRun a (le_PhaseRunID b) = Some run" "ids' = ids"
      "ag_status a \<noteq> TaskCancelling" "a' = failAggregatePhase ?a (run\<lparr>pr_lifecycleOutcome := le_Outcome b\<rparr>)"
  | (finished) run phase where "activePhaseRun a (le_PhaseRunID b) = Some run" "ids' = ids"
      "ag_status a \<noteq> TaskCancelling"
      "a' = finishAggregatePhase ?a (run\<lparr>pr_lifecycleOutcome := le_Outcome b,
        pr_revisionID := le_RevisionID b, pr_checkpointID := le_CheckpointID b\<rparr>) phase"
    by (auto simp: acceptAggregateTaskWorkspaceLifecycleEvidence_def Let_def result_bind_eq_Inr
        split: if_splits option.splits)
  then have "lifecycle_step (lifecycle_of a) (lifecycle_of a') \<and> ag_pinned a' = ag_pinned a \<and>
    ag_route a' = ag_route a \<and> map pr_id (ag_phaseRuns a') = map pr_id (ag_phaseRuns a) \<and> ids' = ids"
  proof cases
    case (cancelling run)
    from cancelling_step [OF cancelling(4), of "le_PhaseRunID b"] cancelling(1-3) show ?thesis by simp
  next
    case (failed run)
    with fail_step [of ?a "le_PhaseRunID b" run "run\<lparr>pr_lifecycleOutcome := le_Outcome b\<rparr>"] assms(2)
    show ?thesis by (simp add: in_order_def)
  next
    case (finished run phase)
    with finish_step [of ?a "le_PhaseRunID b" run "run\<lparr>pr_lifecycleOutcome := le_Outcome b,
        pr_revisionID := le_RevisionID b, pr_checkpointID := le_CheckpointID b\<rparr>" phase] assms(2)
    show ?thesis by (simp add: in_order_def)
  qed
  then show ?thesis using assms(2) by (intro implements_same) (simp_all add: in_order_def)
qed

lemma reconstruction_implements:
  assumes "acceptAggregateTaskWorkspaceReconstructionEvidence a b ids = Inr (a', ids', affected, refs)"
    and "in_order a ids"
  shows "implements a ids a' ids'"
  using assms by (intro implements_same)
    (auto simp: acceptAggregateTaskWorkspaceReconstructionEvidence_def in_order_def ls_stay split: if_splits)

lemma cancel_implements:
  assumes "cancelAggregateTask a ids = Inr (a', ids', affected, refs)" and "in_order a ids"
  shows "implements a ids a' ids'"
proof -
  from assms(1) have status: "ag_status a \<notin> {TaskCompleted, TaskCancelled, TaskCancelling}"
    by (auto simp: cancelAggregateTask_def split: if_splits)
  from assms(1) consider
    (idle) "ag_activePhaseRunID a = []" "a' = a\<lparr>ag_status := TaskCancelled, ag_activity := ActivityNone\<rparr>" "ids' = ids"
  | (mutating) run where "activePhaseRun a (ag_activePhaseRunID a) = Some run" "a' = a\<lparr>ag_status := TaskCancelling\<rparr>"
      "ids' = ids"
  | (run) run where "activePhaseRun a (ag_activePhaseRunID a) = Some run" "ids' = ids"
      "a' = a\<lparr>ag_phaseRuns := put_run (run\<lparr>pr_outcome := PhaseRunCancelled\<rparr>) (ag_phaseRuns a),
        ag_activePhaseRunID := [], ag_status := TaskCancelled, ag_activity := ActivityNone\<rparr>"
    by (auto simp: cancelAggregateTask_def split: if_splits option.splits)
  then have "lifecycle_step (lifecycle_of a) (lifecycle_of a') \<and> ag_pinned a' = ag_pinned a \<and>
    ag_route a' = ag_route a \<and> map pr_id (ag_phaseRuns a') = map pr_id (ag_phaseRuns a) \<and> ids' = ids"
  proof cases
    case idle
    have "lifecycle_step (lifecycle_of a) ((lifecycle_of a)\<lparr>lc_status := TaskCancelled\<rparr>)"
      by (rule ls_cancel_idle) (use idle status in auto)
    with idle show ?thesis by simp
  next
    case (mutating run)
    have "lifecycle_step (lifecycle_of a) ((lifecycle_of a)\<lparr>lc_status := TaskCancelling\<rparr>)"
      by (rule ls_cancelling) (use active_in_phase [OF mutating(1)] assms(2) status in \<open>auto simp: in_order_def\<close>)
    with mutating show ?thesis by simp
  next
    case (run run)
    have "lifecycle_step (lifecycle_of a) \<lparr>lc_status = TaskCancelled, lc_active = [],
        lc_runs = set_outcome (lc_active (lifecycle_of a)) PhaseRunCancelled (lc_runs (lifecycle_of a))\<rparr>"
      by (rule ls_cancel_run) (use active_in_phase [OF run(1)] assms(2) status in \<open>auto simp: in_order_def\<close>)
    also have "\<dots> = lifecycle_of a'"
      using lc_runs_put_run [OF run(1), of "run\<lparr>pr_outcome := PhaseRunCancelled\<rparr>"]
      by (intro lifecycle_eqI) (simp_all add: run(3))
    finally show ?thesis by (simp add: run(2,3))
  qed
  then show ?thesis using assms(2) by (intro implements_same) (simp_all add: in_order_def)
qed

lemma manual_edit_implements:
  assumes "beginAggregateManualEdit r a header m ids d = Inr (a', ids', affected, refs)" and "in_order a ids"
  shows "implements a ids a' ids'"
proof -
  from assms(1) have completed: "ag_status a = TaskCompleted"
    and "lifecycle_of a' = (lifecycle_of a)\<lparr>lc_status := TaskRunning, lc_active := []\<rparr>" "ag_pinned a' = ag_pinned a"
      "ag_route a' = ag_route a" "ag_phaseRuns a' = ag_phaseRuns a" "ids' = ids"
    by (auto simp: beginAggregateManualEdit_def Let_def split: if_splits option.splits)
  moreover have "lc_active (lifecycle_of a) = []"
    using assms(2) completed by (auto simp: in_order_def lifecycle_ok_def)
  then have "(lifecycle_of a)\<lparr>lc_status := TaskRunning, lc_active := []\<rparr> = (lifecycle_of a)\<lparr>lc_status := TaskRunning\<rparr>"
    by (intro lifecycle_eqI) simp_all
  moreover have "lifecycle_step (lifecycle_of a) ((lifecycle_of a)\<lparr>lc_status := TaskRunning\<rparr>)"
    using completed by (intro ls_edit) simp
  ultimately show ?thesis using assms(2) by (intro implements_same) (simp_all add: in_order_def)
qed

lemma stay_implements: "in_order a ids \<Longrightarrow> implements a ids a ids"
  by (rule implements_same) (simp_all add: in_order_def ls_stay)

lemma applyHandler_implements:
  assumes "applyHandler h r a header payload ids d = Inr (a', ids', affected, refs)"
    and "in_order a ids" and "ag_status a \<noteq> TaskCancelling"
  shows "implements a ids a' ids'"
  using assms
  by (cases payload)
    (auto intro: begin_implements retry_implements runtime_retry_implements confirmation_implements
      runtime_evidence_implements validation_evidence_implements publication_evidence_implements
      lifecycle_evidence_implements reconstruction_implements cancel_implements manual_edit_implements
      stay_implements)

lemma applyCancelling_implements:
  assumes "applyCancelling r a payload ids = Inr (a', ids', affected, refs)" and "in_order a ids"
  shows "implements a ids a' ids'"
  using assms
  by (cases payload)
    (auto intro: runtime_evidence_implements lifecycle_evidence_implements stay_implements)

text \<open>So does every intent: it starts a task, or moves the aggregate by one step of the machine.\<close>

lemma applyAggregateIntent_implements:
  assumes "applyAggregateIntent h r i ids d = Inr (r', ids', affected, refs)"
  shows "tr_aggregate r = Some a \<Longrightarrow> in_order a ids \<Longrightarrow>
      \<exists>a'. tr_aggregate r' = Some a' \<and> implements a ids a' ids'"
    and "tr_aggregate r = None \<Longrightarrow> tr_aggregate r' = Some a' \<Longrightarrow>
      lifecycle_of a' = started \<and> ag_phaseRuns a' = []"
    and "tr_aggregate r = None \<Longrightarrow> ids' = ids"
proof -
  show "\<exists>a'. tr_aggregate r' = Some a' \<and> implements a ids a' ids'"
    if a: "tr_aggregate r = Some a" "in_order a ids"
  proof (cases "iv_kind i = IntentStartTask")
    case True
    with assms a show ?thesis
      by (auto simp: applyAggregateIntent_def split: intentPayload.splits)
  next
    case False
    with assms a(1) obtain a' where a': "tr_aggregate r' = Some a'"
      "(if ag_status a = TaskCancelling then applyCancelling r a (iv_payload i) ids
        else applyHandler h r a (iv_header i) (iv_payload i) ids d) = Inr (a', ids', affected, refs)"
      by (auto simp: applyAggregateIntent_def result_bind_eq_Inr)
    then show ?thesis
      using a(2) applyHandler_implements applyCancelling_implements by (auto split: if_splits)
  qed
  show "lifecycle_of a' = started \<and> ag_phaseRuns a' = []"
    if "tr_aggregate r = None" "tr_aggregate r' = Some a'"
    using assms that
    by (auto simp: applyAggregateIntent_def startAggregate_def started_def lifecycle_of_def
        split: if_splits intentPayload.splits option.splits)
  show "ids' = ids" if "tr_aggregate r = None"
    using assms that by (auto simp: applyAggregateIntent_def split: if_splits intentPayload.splits option.splits)
qed

end
