(* ===== verification/Orch_Tasks.thy ===== *)
theory Orch_Tasks
  imports Orch_Lifecycle
begin

text \<open>
  The tasks of a run. Every task the engine keeps lives by the machine of \<open>Orch_Lifecycle\<close>: each
  step of the engine is a step of the machine on every task, so a task has at most one running
  phase run, moves its status along one table, stays cancelled once cancelled, and keeps what it
  was started with. The last part says when a task leaves a phase.
\<close>

section \<open>What a decision does to an aggregate\<close>

lemma searchOperationID_ids: "ia_nextPhaseRun (snd (searchOperationID r n ids)) = ia_nextPhaseRun ids"
  by (induction n arbitrary: ids) (simp_all add: nextOperationID_def)

lemma nextUniqueOperationID_ids [simp]: "ia_nextPhaseRun (snd (nextUniqueOperationID r ids)) = ia_nextPhaseRun ids"
  by (simp add: nextUniqueOperationID_def searchOperationID_ids)

lemma cancelRuntimeOperations_ids:
  "cancelRuntimeOperations h c scheduler operations r ids = Inr (refs, r', ids') \<Longrightarrow>
     ia_nextPhaseRun ids' = ia_nextPhaseRun ids"
proof (induction operations arbitrary: r ids refs)
  case (Cons operation operations)
  obtain k ids\<^sub>1 m ids\<^sub>2 where ids: "nextUniqueOperationID r ids = (k, ids\<^sub>1)" "nextCausationID ids\<^sub>1 = (m, ids\<^sub>2)"
    by fastforce
  then have "ia_nextPhaseRun ids\<^sub>2 = ia_nextPhaseRun ids"
    using nextUniqueOperationID_ids [of r ids] allocator_frame(3) [of ids\<^sub>1] by simp
  with Cons ids show ?case by (auto simp: result_bind_eq_Inr Let_def)
qed simp

lemma buildCancellationEnactments_ids:
  assumes "buildCancellationEnactments h c r ids = Inr (refs, r', ids')"
  shows "ia_nextPhaseRun ids' = ia_nextPhaseRun ids"
proof -
  from assms obtain a operations refs\<^sub>1 r\<^sub>1 ids\<^sub>1 refs\<^sub>2 where
    runs: "cancelRuntimeOperations h c (da_Scheduler (pn_Authorities (ag_pinned a)))
      operations r ids = Inr (refs\<^sub>1, r\<^sub>1, ids\<^sub>1)"
    and lifecycle: "cancelLifecycle c a r\<^sub>1 ids\<^sub>1 = Inr (refs\<^sub>2, r', ids')"
    by (auto simp: buildCancellationEnactments_def result_bind_eq_Inr split: option.splits)
  obtain m ids\<^sub>2 where "nextCausationID ids\<^sub>1 = (m, ids\<^sub>2)" by fastforce
  with allocator_frame(3) [of ids\<^sub>1] lifecycle have "ia_nextPhaseRun ids' = ia_nextPhaseRun ids\<^sub>1"
    by (auto simp: cancelLifecycle_def Let_def split: option.splits if_splits)
  with cancelRuntimeOperations_ids [OF runs] show ?thesis by simp
qed

lemma addCancellation_ids:
  assumes "addCancellation h i reason fence k t = Inr t'"
  shows "ia_nextPhaseRun (tx_ids t') = ia_nextPhaseRun (tx_ids t)"
  using assms by (rule addCancellation_Inr) (rule buildCancellationEnactments_ids)

lemma cancelStage_ids:
  assumes "cancelStage h i prior t = Inr t'"
  shows "ia_nextPhaseRun (tx_ids t') = ia_nextPhaseRun (tx_ids t)"
  using assms by (cases rule: cancelStage_cases) (auto dest: addCancellation_ids)

lemma fenceStage_ids:
  assumes "fenceStage h i t = Inr t'"
  shows "ia_nextPhaseRun (tx_ids t') = ia_nextPhaseRun (tx_ids t)"
  using assms by (cases rule: fenceStage_cases) (auto dest: addCancellation_ids)

lemma reconcileStage_ids [simp]: "tx_ids (reconcileStage i t) = tx_ids t"
  by (simp add: reconcileStage_def split: intentPayload.splits)

text \<open>The aggregate a decision leaves: the one its intent made, with a new fence perhaps.\<close>

lemma transitionOf_aggregate:
  assumes "transitionOf h now i d exists r recovery ids = Inr (decision, r', ids', recovery')"
  obtains r\<^sub>1 ids\<^sub>1 ids\<^sub>2 decisionID affected refs where
    "applyAggregateIntent h (cloneTaskRecord r) i ids\<^sub>1 decisionID = Inr (r\<^sub>1, ids\<^sub>2, affected, refs)"
    "refenced (tr_aggregate r\<^sub>1) (tr_aggregate r')" "ia_nextPhaseRun ids\<^sub>1 = ia_nextPhaseRun ids"
    "ia_nextPhaseRun ids' = ia_nextPhaseRun ids\<^sub>2"
proof -
  from assms obtain decisionID auditFactID ids\<^sub>a ids\<^sub>b t\<^sub>1 t\<^sub>2 t where
    ids: "nextDecisionID ids = (decisionID, ids\<^sub>a)" "nextAuditFactID ids\<^sub>a = (auditFactID, ids\<^sub>b)"
    and stages: "applyStage h i exists r recovery decisionID ids\<^sub>b = Inr t\<^sub>1"
      "cancelStage h i (activeBinding r) t\<^sub>1 = Inr t\<^sub>2" "fenceStage h i (reconcileStage i t\<^sub>2) = Inr t"
    and r': "r' = recordDecision i d t decision (finalRecord i (tr_revision r + 1) t)"
    and ids': "ids' = tx_ids t"
    by (rule transitionOf_Inr)
  from applyStage_Inr [OF stages(1)] obtain r\<^sub>1 affected refs where
    changed: "applyAggregateIntent h (cloneTaskRecord r) i ids\<^sub>b decisionID = Inr (r\<^sub>1, tx_ids t\<^sub>1, affected, refs)"
    by metis
  from stages obtain r\<^sub>1' where "applyAggregateIntent h (cloneTaskRecord r) i ids\<^sub>b decisionID = Inr r\<^sub>1'"
    "refenced (tr_aggregate (fst r\<^sub>1')) (tr_aggregate (tx_record t))"
    by (auto elim!: transition_stages)
  with changed have "refenced (tr_aggregate r\<^sub>1) (tr_aggregate r')" by (auto simp: r')
  moreover have "ia_nextPhaseRun ids\<^sub>b = ia_nextPhaseRun ids"
    using ids allocator_frame(4) [of ids] allocator_frame(5) [of ids\<^sub>a] by simp
  moreover have "ia_nextPhaseRun ids' = ia_nextPhaseRun (tx_ids t\<^sub>1)"
    using cancelStage_ids [OF stages(2)] fenceStage_ids [OF stages(3)] by (simp add: ids')
  ultimately show thesis using changed by (intro that)
qed

lemma refenced_lifecycle:
  assumes "refenced (Some a) b"
  obtains a' where "b = Some a'" "lifecycle_of a' = lifecycle_of a" "ag_pinned a' = ag_pinned a"
    "ag_route a' = ag_route a" "ag_phaseRuns a' = ag_phaseRuns a" "ag_status a' = ag_status a"
    "ag_currentPhase a' = ag_currentPhase a"
  using assms by (auto simp: refenced_def)

section \<open>Runs\<close>

text \<open>The allocator can still name a phase run.\<close>

definition phase_runs_left :: "memoryPersistence \<Rightarrow> bool" where
  "phase_runs_left p \<longleftrightarrow> ia_nextPhaseRun (mp_ids p) \<noteq> - 1"

definition tasks_in_order :: "memoryPersistence \<Rightarrow> bool" where
  "tasks_in_order p \<longleftrightarrow>
     (\<forall>k a. tr_aggregate (taskOf p k) = Some a \<longrightarrow>
        lifecycle_ok (lifecycle_of a) \<and> ids_below a (ia_nextPhaseRun (mp_ids p)))"

text \<open>One task across one step: nothing, its start, or a step of the machine.\<close>

definition task_moves :: "taskRecord \<Rightarrow> taskRecord \<Rightarrow> bool" where
  "task_moves r r' \<longleftrightarrow>
     (case (tr_aggregate r, tr_aggregate r') of
        (None, None) \<Rightarrow> True
      | (None, Some a') \<Rightarrow> lifecycle_of a' = started
      | (Some a, None) \<Rightarrow> False
      | (Some a, Some a') \<Rightarrow> lifecycle_step (lifecycle_of a) (lifecycle_of a') \<and>
          ag_pinned a' = ag_pinned a \<and> ag_route a' = ag_route a)"

lemma task_moves_same: "tr_aggregate r' = tr_aggregate r \<Longrightarrow> task_moves r r'"
  by (simp add: task_moves_def ls_stay split: option.splits)

lemma commits_moves:
  assumes "commits h p i r decision r' p'" and "tasks_in_order p" and "phase_runs_left p"
  shows "task_moves r r'" "ia_nextPhaseRun (mp_ids p) \<le> ia_nextPhaseRun (mp_ids p')"
    "tr_aggregate r' = Some a' \<Longrightarrow> lifecycle_ok (lifecycle_of a') \<and> ids_below a' (ia_nextPhaseRun (mp_ids p'))"
proof -
  let ?r = "taskOf p (ih_TaskID (iv_header i))"
  from assms(1) obtain d now exists ids recovery where
    changed: "transitionOf h now i d exists r (mp_recovery p) (mp_ids p) = Inr (decision, r', ids, recovery)"
    and ids: "mp_ids p' = ids"
    by (rule commitsE) simp
  from changed obtain r\<^sub>1 ids\<^sub>1 ids\<^sub>2 decisionID affected refs where
    applied: "applyAggregateIntent h (cloneTaskRecord r) i ids\<^sub>1 decisionID = Inr (r\<^sub>1, ids\<^sub>2, affected, refs)"
    and fence: "refenced (tr_aggregate r\<^sub>1) (tr_aggregate r')"
    and counters: "ia_nextPhaseRun ids\<^sub>1 = ia_nextPhaseRun (mp_ids p)" "ia_nextPhaseRun ids = ia_nextPhaseRun ids\<^sub>2"
    by (rule transitionOf_aggregate)
  have same: "tr_aggregate (cloneTaskRecord r) = tr_aggregate r" "tr_aggregate r = tr_aggregate ?r"
    using startRecord_kept(4) [OF commits_taskOf(2) [OF assms(1)]] by (simp_all add: cloneTaskRecord_def)
  note implements = applyAggregateIntent_implements [OF applied, unfolded same(1)]
  have "task_moves r r' \<and> ia_nextPhaseRun (mp_ids p) \<le> ia_nextPhaseRun (mp_ids p') \<and>
    (\<forall>a'. tr_aggregate r' = Some a' \<longrightarrow>
      lifecycle_ok (lifecycle_of a') \<and> ids_below a' (ia_nextPhaseRun (mp_ids p')))"
  proof (cases "tr_aggregate r")
    case None
    show ?thesis
    proof (cases "tr_aggregate r\<^sub>1")
      case none: None
      with fence None implements(3) counters ids show ?thesis
        by (auto simp: refenced_def task_moves_def)
    next
      case (Some a\<^sub>1)
      from fence [unfolded Some] obtain a' where a': "tr_aggregate r' = Some a'" "lifecycle_of a' = lifecycle_of a\<^sub>1"
        "ag_phaseRuns a' = ag_phaseRuns a\<^sub>1" by (rule refenced_lifecycle)
      with implements(2) [OF None Some] implements(3) [OF None] None counters ids show ?thesis
        by (simp add: task_moves_def ids_below_def lifecycle_ok_started)
    qed
  next
    case (Some a)
    with assms(2,3) same counters have order: "in_order a ids\<^sub>1"
      by (simp add: tasks_in_order_def in_order_def phase_runs_left_def)
    from implements(1) [OF Some order] obtain a\<^sub>1 where a\<^sub>1: "tr_aggregate r\<^sub>1 = Some a\<^sub>1" "implements a ids\<^sub>1 a\<^sub>1 ids\<^sub>2"
      by blast
    from fence [unfolded a\<^sub>1(1)] obtain a' where a': "tr_aggregate r' = Some a'" "lifecycle_of a' = lifecycle_of a\<^sub>1"
      "ag_pinned a' = ag_pinned a\<^sub>1" "ag_route a' = ag_route a\<^sub>1" "ag_phaseRuns a' = ag_phaseRuns a\<^sub>1"
      by (rule refenced_lifecycle)
    have "lifecycle_ok (lifecycle_of a\<^sub>1)"
      using a\<^sub>1(2) order by (auto simp: implements_def in_order_def intro: lifecycle_ok_step)
    with a\<^sub>1(2) a' Some counters ids show ?thesis
      by (simp add: implements_def task_moves_def ids_below_def)
  qed
  then show "task_moves r r'" "ia_nextPhaseRun (mp_ids p) \<le> ia_nextPhaseRun (mp_ids p')"
    "tr_aggregate r' = Some a' \<Longrightarrow> lifecycle_ok (lifecycle_of a') \<and> ids_below a' (ia_nextPhaseRun (mp_ids p'))"
    by auto
qed

lemma tasks_step:
  assumes "decides h p p'" and "tasks_in_order p" and "phase_runs_left p"
  shows "task_moves (taskOf p k) (taskOf p' k)" "tasks_in_order p'"
proof -
  have "task_moves (taskOf p k) (taskOf p' k) \<and> tasks_in_order p'" for k
    using assms(1)
  proof (cases rule: decides_outcome)
    case same
    with assms(2) show ?thesis by (simp add: task_moves_same)
  next
    case (noted taskID evidenceID reason)
    then have "tr_aggregate (taskOf p' k) = tr_aggregate (taskOf p k)" for k by simp
    moreover have "mp_ids p' = mp_ids p" using noted by simp
    ultimately show ?thesis using assms(2) by (simp add: tasks_in_order_def task_moves_same)
  next
    case (replayed i d evidenceID replay decision)
    then have "taskOf p' k = taskOf p k" "mp_ids p' = mp_ids p" for k by simp_all
    with assms(2) show ?thesis by (simp add: tasks_in_order_def task_moves_same)
  next
    case (committed i r decision r')
    note moves = commits_moves [OF committed assms(2,3)] and task = commits_taskOf [OF committed]
    let ?k = "ih_TaskID (iv_header i)"
    have "tr_aggregate r = tr_aggregate (taskOf p ?k)" using startRecord_kept(4) [OF task(2)] .
    with moves(1) have "task_moves (taskOf p ?k) r'" by (simp add: task_moves_def)
    moreover have "tasks_in_order p'"
      using assms(2) moves(3) unfolding tasks_in_order_def task(1)
      by (auto split: if_splits intro: ids_below_mono [OF _ moves(2)])
    ultimately show ?thesis by (simp add: task(1) task_moves_same)
  qed
  then show "task_moves (taskOf p k) (taskOf p' k)" "tasks_in_order p'" by auto
qed

text \<open>A new harness has no aggregate: fixtures only have bindings.\<close>

lemma add_all_invariant:
  "add_all f xs s = Inr s' \<Longrightarrow> P s \<Longrightarrow> (\<And>x s s'. f x s = Inr s' \<Longrightarrow> P s \<Longrightarrow> P s') \<Longrightarrow> P s'"
  by (induction xs arbitrary: s) (auto simp: result_bind_eq_Inr)

lemma result_bindE:
  assumes "result_bind x f = Inr r" obtains s where "x = Inr s" "f s = Inr r"
  using assms by (auto simp: result_bind_eq_Inr)

lemma refused_ifE:
  assumes "(if b then Inl e else x) = Inr r" obtains "\<not> b" "x = Inr r"
  using assms by (cases b) simp_all

lemma fixture_aggregate:
  assumes "taskRecordFromFixture f = Inr r"
  shows "tr_aggregate r = None"
proof -
  let ?P = "\<lambda>r. tr_aggregate r = None"
  have base: "?P r" if "fixtureReconciler f x = Inr r" "?P x" for x r
    using that by (auto simp: fixtureReconciler_def split: if_splits)
  have runs: "?P s'" if "add_all add_phaseRun xs s = Inr s'" "?P s" for xs s s'
    using that by (rule add_all_invariant) (auto simp: add_phaseRun_def split: if_splits)
  have runtime: "?P s'" if "add_all (add_runtimeOperation f) xs s = Inr s'" "?P s" for xs s s'
    using that by (rule add_all_invariant) (auto simp: add_runtimeOperation_def split: if_splits)
  have validation: "?P s'" if "add_all (add_validationBinding f) xs s = Inr s'" "?P s" for xs s s'
    using that by (rule add_all_invariant) (auto simp: add_validationBinding_def split: if_splits)
  have lifecycle: "?P s'" if "add_all (add_lifecycleOperation f) xs s = Inr s'" "?P s" for xs s s'
    using that by (rule add_all_invariant) (auto simp: add_lifecycleOperation_def split: if_splits)
  have publication: "?P s'" if "add_all (add_publicationOperation f) xs s = Inr s'" "?P s" for xs s s'
    using that by (rule add_all_invariant) (auto simp: add_publicationOperation_def split: if_splits)
  have scheduling: "?P s'" if "add_all (add_schedulingOperation f) xs s = Inr s'" "?P s" for xs s s'
    using that by (rule add_all_invariant) (auto simp: add_schedulingOperation_def split: if_splits)
  show ?thesis
    using assms unfolding taskRecordFromFixture_def
    by (elim result_bindE refused_ifE)
      (erule scheduling, erule publication, erule lifecycle, erule validation, erule runtime, erule runs,
        erule base, simp add: zeroTaskRecord_def)
qed

lemma addFixtures_aggregate:
  "addFixtures recovery fs tasks = Inr tasks' \<Longrightarrow> (\<And>k r. map_of tasks k = Some r \<Longrightarrow> tr_aggregate r = None) \<Longrightarrow>
     map_of tasks' k = Some r \<Longrightarrow> tr_aggregate r = None"
proof (induction fs arbitrary: tasks)
  case (Cons f fs)
  from Cons.prems(1) obtain r\<^sub>0 where "taskRecordFromFixture f = Inr r\<^sub>0"
    "addFixtures recovery fs (AList.update (tf_TaskID f) r\<^sub>0 tasks) = Inr tasks'"
    by (auto simp: result_bind_eq_Inr split: if_splits)
  with Cons.prems fixture_aggregate show ?case by (intro Cons.IH) (auto split: if_splits)
qed simp

lemma newHarness_in_order:
  assumes "NewDeterministicHarness c = Inr e"
  shows "tasks_in_order (eg_persistence e)"
proof -
  from assms obtain recovery tasks where tasks: "addFixtures recovery (hg_Tasks c) [] = Inr tasks"
    "mp_tasks (eg_persistence e) = tasks"
    by (auto simp: NewDeterministicHarness_def newHarness_def result_bind_eq_Inr split: if_splits)
  from addFixtures_aggregate [OF tasks(1)] have "tr_aggregate (taskOf (eg_persistence e) k) = None" for k
    by (auto simp: taskOf_def tasks(2) zeroTaskRecord_def split: option.splits)
  then show ?thesis by (simp add: tasks_in_order_def)
qed

text \<open>A run in which the allocator never ran out of phase run identifiers.\<close>

abbreviation (input) roomy_run :: "hashing \<Rightarrow> engine \<Rightarrow> engine \<Rightarrow> bool" where
  "roomy_run h \<equiv> (\<lambda>e e'. engine_step h e e' \<and> phase_runs_left (eg_persistence e))\<^sup>*\<^sup>*"

lemma engine_step_tasks:
  assumes "engine_step h e e'" and "tasks_in_order (eg_persistence e)" and "phase_runs_left (eg_persistence e)"
  shows "task_moves (taskOf (eg_persistence e) k) (taskOf (eg_persistence e') k)"
    "tasks_in_order (eg_persistence e')"
  using engine_step_persistence [OF assms(1)] tasks_step [OF _ assms(2,3)] assms(2)
  by (auto simp: task_moves_same)

lemma roomy_run_in_order:
  assumes "roomy_run h e e'" and "tasks_in_order (eg_persistence e)"
  shows "tasks_in_order (eg_persistence e')"
  using assms
  by (rule run_invariant [where P = "\<lambda>e. tasks_in_order (eg_persistence e)"])
    (auto intro: engine_step_tasks(2))

section \<open>Properties\<close>

text \<open>
  C5. Every step of the engine is a step of the task machine. In any run of a new harness that
  does not exhaust the phase run identifiers, each step leaves every started task as it was or
  moves it by one step of \<open>lifecycle_step\<close>; what it was started with and its route never change,
  and a task appears in the machine's initial state.
\<close>

theorem task_life_refines_machine:
  assumes "NewDeterministicHarness c = Inr e\<^sub>0" and "roomy_run h e\<^sub>0 e"
    and "engine_step h e e'" and "phase_runs_left (eg_persistence e)"
  shows "case tr_aggregate (taskOf (eg_persistence e) k) of
      Some a \<Rightarrow> (\<exists>a'. tr_aggregate (taskOf (eg_persistence e') k) = Some a' \<and>
        lifecycle_step (lifecycle_of a) (lifecycle_of a') \<and>
        ag_pinned a' = ag_pinned a \<and> ag_route a' = ag_route a)
    | None \<Rightarrow> (\<forall>a'. tr_aggregate (taskOf (eg_persistence e') k) = Some a' \<longrightarrow> lifecycle_of a' = started)"
proof -
  have "task_moves (taskOf (eg_persistence e) k) (taskOf (eg_persistence e') k)"
    using assms(3) roomy_run_in_order [OF assms(2) newHarness_in_order [OF assms(1)]] assms(4)
    by (rule engine_step_tasks(1))
  then show ?thesis by (auto simp: task_moves_def split: option.splits)
qed

lemma phase_runs_in_order:
  assumes "NewDeterministicHarness c = Inr e\<^sub>0" and "roomy_run h e\<^sub>0 e"
    and "tr_aggregate (taskOf (eg_persistence e) k) = Some a"
  shows "distinct (map pr_id (ag_phaseRuns a))"
    and "\<forall>run \<in> set (ag_phaseRuns a). pr_outcome run = PhaseRunRunning \<longrightarrow> pr_id run = ag_activePhaseRunID a"
    and "ag_activePhaseRunID a \<noteq> [] \<Longrightarrow>
      ag_status a \<in> {TaskRunning, TaskAwaitingConfirmation, TaskCancelling} \<and>
      (\<exists>run \<in> set (ag_phaseRuns a). pr_id run = ag_activePhaseRunID a)"
    and "ag_status a \<in> {TaskAwaitingConfirmation, TaskCancelling} \<Longrightarrow> ag_activePhaseRunID a \<noteq> []"
proof -
  let ?s = "lifecycle_of a"
  have ok: "lifecycle_ok ?s"
    using roomy_run_in_order [OF assms(2) newHarness_in_order [OF assms(1)]] assms(3)
    by (simp add: tasks_in_order_def)
  have "distinct (map fst (lc_runs ?s))" "\<forall>(i, v) \<in> set (lc_runs ?s). v = PhaseRunRunning \<longrightarrow> i = lc_active ?s"
    and active: "lc_active ?s \<noteq> [] \<longrightarrow>
      lc_status ?s \<in> {TaskRunning, TaskAwaitingConfirmation, TaskCancelling} \<and>
      lc_active ?s \<in> fst ` set (lc_runs ?s)"
    and waiting: "lc_status ?s \<in> {TaskAwaitingConfirmation, TaskCancelling} \<longrightarrow> lc_active ?s \<noteq> []"
    using ok unfolding lifecycle_ok_def by blast+
  then show "distinct (map pr_id (ag_phaseRuns a))"
    "\<forall>run \<in> set (ag_phaseRuns a). pr_outcome run = PhaseRunRunning \<longrightarrow> pr_id run = ag_activePhaseRunID a"
    by (simp_all add: lifecycle_of_def comp_def)
  show "ag_status a \<in> {TaskRunning, TaskAwaitingConfirmation, TaskCancelling} \<and>
      (\<exists>run \<in> set (ag_phaseRuns a). pr_id run = ag_activePhaseRunID a)" if "ag_activePhaseRunID a \<noteq> []"
  proof -
    have "ag_status a = lc_status ?s" "ag_activePhaseRunID a = lc_active ?s"
      "fst ` set (lc_runs ?s) = pr_id ` set (ag_phaseRuns a)"
      by (simp_all add: lifecycle_of_def image_image)
    with active that show ?thesis by (metis imageE)
  qed
  show "ag_activePhaseRunID a \<noteq> []" if "ag_status a \<in> {TaskAwaitingConfirmation, TaskCancelling}"
    using mp [OF waiting] that by (simp add: lifecycle_of_def)
qed

text \<open>
  C33. A task runs at most one phase run. In every state of such a run the phase runs of a task
  have different identifiers, at most one of them is running, and then it is the active one; a
  task has an active phase run only while it runs, awaits confirmation or is cancelling, and
  always in the last two.
\<close>

theorem one_running_phase_run:
  assumes "NewDeterministicHarness c = Inr e\<^sub>0" and "roomy_run h e\<^sub>0 e"
    and "tr_aggregate (taskOf (eg_persistence e) k) = Some a"
  shows "distinct (map pr_id (ag_phaseRuns a)) \<and>
    (\<forall>run \<in> set (ag_phaseRuns a). pr_outcome run = PhaseRunRunning \<longrightarrow> pr_id run = ag_activePhaseRunID a) \<and>
    (ag_activePhaseRunID a \<noteq> [] \<longrightarrow>
      ag_status a \<in> {TaskRunning, TaskAwaitingConfirmation, TaskCancelling} \<and>
      (\<exists>run \<in> set (ag_phaseRuns a). pr_id run = ag_activePhaseRunID a)) \<and>
    (ag_status a \<in> {TaskAwaitingConfirmation, TaskCancelling} \<longrightarrow> ag_activePhaseRunID a \<noteq> [])"
  using phase_runs_in_order [OF assms] by blast

text \<open>The status of a task along a run.\<close>

lemma roomy_run_status:
  assumes "roomy_run h e e'" and "tasks_in_order (eg_persistence e)"
    and "tr_aggregate (taskOf (eg_persistence e) k) = Some a"
  shows "\<exists>a'. tr_aggregate (taskOf (eg_persistence e') k) = Some a' \<and> ag_pinned a' = ag_pinned a \<and>
    (ag_status a = TaskCancelled \<longrightarrow> ag_status a' = TaskCancelled)"
  using assms(1)
proof (induction rule: rtranclp_induct)
  case base
  with assms(3) show ?case by simp
next
  case (step y z)
  then obtain b where b: "tr_aggregate (taskOf (eg_persistence y) k) = Some b" "ag_pinned b = ag_pinned a"
    "ag_status a = TaskCancelled \<longrightarrow> ag_status b = TaskCancelled" by blast
  have "tasks_in_order (eg_persistence y)" using step.hyps(1) assms(2) by (rule roomy_run_in_order)
  with engine_step_tasks(1) [of h y z k] step.hyps(2)
  have "task_moves (taskOf (eg_persistence y) k) (taskOf (eg_persistence z) k)" by blast
  then obtain a' where a': "tr_aggregate (taskOf (eg_persistence z) k) = Some a'"
    "lifecycle_step (lifecycle_of b) (lifecycle_of a')" "ag_pinned a' = ag_pinned b"
    by (auto simp: task_moves_def b(1) split: option.splits)
  from lifecycle_step_status [OF a'(2)] have "status_may_become (ag_status b) (ag_status a')"
    by (simp add: lifecycle_of_def)
  then have "ag_status b = TaskCancelled \<longrightarrow> ag_status a' = TaskCancelled"
    using task_status.settled_stays [of "ag_status b" "ag_status a'"] by metis
  with b(3) have "ag_status a = TaskCancelled \<longrightarrow> ag_status a' = TaskCancelled" by metis
  with a' b(2) show ?case by simp
qed

text \<open>
  A cancelled task stays cancelled, and what a task was started with never changes, whatever
  the engine does later.
\<close>

theorem cancelled_task_stays_cancelled:
  assumes "NewDeterministicHarness c = Inr e\<^sub>0" and "roomy_run h e\<^sub>0 e" and "roomy_run h e e'"
    and "tr_aggregate (taskOf (eg_persistence e) k) = Some a"
  shows "\<exists>a'. tr_aggregate (taskOf (eg_persistence e') k) = Some a' \<and> ag_pinned a' = ag_pinned a \<and>
    (ag_status a = TaskCancelled \<longrightarrow> ag_status a' = TaskCancelled)"
  using assms(3) roomy_run_in_order [OF assms(2) newHarness_in_order [OF assms(1)]] assms(4)
  by (rule roomy_run_status)

end
