(* ===== verification/Orch_Phases.thy ===== *)
theory Orch_Phases
  imports Orch_Tasks
begin

text \<open>
  How a task leaves a phase. The runner of \<open>backend/internal/taskorchestration\<close> moves a task to
  the next phase, or completes it, only on the answer its current phase is defined to wait for:
  the confirmation of a gate, the validation of a phase that changes nothing, the workspace commit
  of one that does, the publication of an artifact.
\<close>

section \<open>What a phase waits for\<close>

text \<open>The runtime runs a validated phase needs: none pending and enough of them succeeded.\<close>

definition runs_complete :: "PhaseDefinition \<Rightarrow> phaseRunRecord \<Rightarrow> bool" where
  "runs_complete phase run \<longleftrightarrow>
     (\<forall>rt \<in> set (pr_runtimeRuns run). rt_outcome rt \<noteq> RuntimeRunPending) \<and>
     unat (ph_RequiredRuntimeRuns phase) \<le> length (filter (\<lambda>rt. rt_outcome rt = RuntimeRunSucceeded) (pr_runtimeRuns run))"

fun phase_answered :: "taskAggregate \<Rightarrow> PhaseDefinition \<Rightarrow> phaseRunRecord \<Rightarrow> intentPayload \<Rightarrow> bool" where
  "phase_answered a phase run (ConfirmationPayload gateID _) =
     (ph_Kind phase = PhaseConfirmationGate \<and> ph_GateID phase = gateID \<and>
      ag_status a = TaskAwaitingConfirmation)"
| "phase_answered a phase run (ValidationEvidencePayload b) =
     (ph_Kind phase = PhaseNonMutating \<and> ve_PhaseRunID b = pr_id run \<and>
      ve_Outcome b = PhaseValidationAccepted \<and> runs_complete phase run)"
| "phase_answered a phase run (LifecycleEvidencePayload b) =
     (ph_Kind phase = PhaseMutating \<and> le_PhaseRunID b = pr_id run \<and>
      le_OperationID b = pr_lifecycleOperationID run \<and>
      le_Outcome b = TaskWorkspaceLifecycleCommitted \<and>
      pr_validationOutcome run = PhaseValidationAccepted)"
| "phase_answered a phase run (PublicationEvidencePayload b) =
     (ph_Kind phase = PhasePublication \<and> pe_PhaseRunID b = pr_id run \<and>
      pe_OperationID b = pr_publicationOperationID run \<and> pe_Outcome b = PublicationActivated)"
| "phase_answered a phase run _ = False"

text \<open>The active phase run of an aggregate is answered, and the aggregate goes to the next phase.\<close>

definition phase_passed :: "taskAggregate \<Rightarrow> intentPayload \<Rightarrow> taskAggregate \<Rightarrow> bool" where
  "phase_passed a payload a' \<longleftrightarrow>
     (\<exists>phase run. currentPhaseDefinition a = Some phase \<and>
        activePhaseRun a (ag_activePhaseRunID a) = Some run \<and> phase_answered a phase run payload \<and>
        ag_currentPhase a' = ph_NextPhase phase \<and> ag_activePhaseRunID a' = [] \<and>
        (ag_status a' = TaskCompleted \<longleftrightarrow> ph_NextPhase phase = []))"

text \<open>An aggregate leaves its phase when its phase changes or it becomes complete.\<close>

definition phase_left :: "taskAggregate \<Rightarrow> taskAggregate \<Rightarrow> bool" where
  "phase_left a a' \<longleftrightarrow>
     ag_currentPhase a' \<noteq> ag_currentPhase a \<or> ag_status a' = TaskCompleted \<and> ag_status a \<noteq> TaskCompleted"

section \<open>Handlers\<close>

lemma activePhaseRun_at:
  "activePhaseRun a k = Some run \<Longrightarrow> activePhaseRun a (ag_activePhaseRunID a) = Some run \<and> pr_id run = k"
  by (metis activePhaseRun_Some)

lemma finish_passes:
  "ag_currentPhase (finishAggregatePhase a run phase) = ph_NextPhase phase"
  "ag_activePhaseRunID (finishAggregatePhase a run phase) = []"
  "ag_status (finishAggregatePhase a run phase) = TaskCompleted \<longleftrightarrow> ph_NextPhase phase = []"
  by (simp_all add: finishAggregatePhase_def Let_def)

lemma no_step_stays [simp]: "\<not> phase_left a a"
  by (simp add: phase_left_def)

lemma fail_stays [simp]: "\<not> phase_left a (failAggregatePhase a run)"
  by (simp add: phase_left_def failAggregatePhase_def)

lemma passedI:
  assumes "currentPhaseDefinition a = Some phase" and "activePhaseRun a k = Some run"
    and "phase_answered a phase run payload"
  shows "phase_passed a payload (finishAggregatePhase b run' phase)"
  unfolding phase_passed_def using assms(1,3) activePhaseRun_at [OF assms(2)] finish_passes by blast

lemma begin_stays:
  assumes "beginAggregatePhase h r a header ids d = Inr (a', ids', affected, refs)"
  shows "ag_currentPhase a' = ag_currentPhase a" "ag_status a' \<noteq> TaskCompleted"
  using assms by (auto simp: beginAggregatePhase_def Let_def result_bind_eq_Inr
      split: if_splits option.splits prod.splits)

lemma confirmation_passes:
  assumes "acceptAggregateConfirmation a k ids = Inr (a', ids', affected, refs)"
  shows "phase_passed a (ConfirmationPayload k b) a'"
  using assms by (auto simp: acceptAggregateConfirmation_def intro!: passedI split: if_splits option.splits)

lemma validation_passes:
  assumes "acceptAggregateValidationEvidence r a header b ids d = Inr (a', ids', affected, refs)"
    and "phase_left a a'"
  shows "phase_passed a (ValidationEvidencePayload b) a'"
proof -
  from assms(1) obtain run phase where active: "activePhaseRun a (ve_PhaseRunID b) = Some run"
    "currentPhaseDefinition a = Some phase"
    by (auto simp: acceptAggregateValidationEvidence_def split: if_splits option.splits)
  from assms(1) active consider
    (failed) "a' = failAggregatePhase a (run\<lparr>pr_validationOutcome := ve_Outcome b\<rparr>)"
  | (finished) "phaseValidationOutcomeName (ve_Outcome b) \<noteq> []" "ve_Outcome b \<noteq> PhaseValidationRejected"
      "\<not> list_ex (\<lambda>rt. rt_outcome rt = RuntimeRunPending) (pr_runtimeRuns run)"
      "\<not> length (filter (\<lambda>rt. rt_outcome rt = RuntimeRunSucceeded) (pr_runtimeRuns run)) < unat (ph_RequiredRuntimeRuns phase)"
      "ph_Kind phase = PhaseNonMutating"
      "a' = finishAggregatePhase a (run\<lparr>pr_validationOutcome := ve_Outcome b\<rparr>) phase"
  | (validated) generation fence runs where
      "a' = a\<lparr>ag_lifecycleGeneration := generation, ag_lifecycleFence := fence, ag_phaseRuns := runs\<rparr>"
    by (auto simp: acceptAggregateValidationEvidence_def Let_def split: if_splits)
  then show ?thesis
  proof cases
    case failed
    with assms(2) show ?thesis by simp
  next
    case finished
    then have "ve_Outcome b = PhaseValidationAccepted" "runs_complete phase run"
      by (auto simp: phaseValidationOutcomeName_def runs_complete_def list_ex_iff split: if_splits)
    with finished active activePhaseRun_at [OF active(1)] show ?thesis by (auto intro!: passedI)
  next
    case validated
    with assms(2) show ?thesis by (simp add: phase_left_def)
  qed
qed

lemma cancelling_stays:
  assumes "cancellingLifecycleEvidence r a run b = Inr a'"
  shows "ag_currentPhase a' = ag_currentPhase a" "ag_status a' = TaskCompleted \<Longrightarrow> ag_status a = TaskCompleted"
  using assms by (auto simp: cancellingLifecycleEvidence_def split: if_splits option.splits)

lemma lifecycle_passes:
  assumes "acceptAggregateTaskWorkspaceLifecycleEvidence r a b ids = Inr (a', ids', affected, refs)"
    and "phase_left a a'"
  shows "phase_passed a (LifecycleEvidencePayload b) a'"
proof -
  let ?a = "a\<lparr>ag_lifecycleGeneration := le_ObservedGeneration b, ag_lifecycleFence := le_ObservedFence b\<rparr>"
  from assms(1) obtain run phase where active: "activePhaseRun a (le_PhaseRunID b) = Some run"
    "currentPhaseDefinition a = Some phase" "ph_Kind phase = PhaseMutating"
    by (auto simp: acceptAggregateTaskWorkspaceLifecycleEvidence_def split: if_splits option.splits)
  from assms(1) active consider
    (cancelling) "cancellingLifecycleEvidence r ?a run b = Inr a'"
  | (failed) run' where "a' = failAggregatePhase ?a run'"
  | (finished) run' where "taskWorkspaceLifecycleOutcomeName (le_Outcome b) \<noteq> []"
      "pr_lifecycleOperationID run = le_OperationID b" "pr_validationOutcome run = PhaseValidationAccepted"
      "le_Outcome b \<noteq> TaskWorkspaceLifecycleFenced" "le_Outcome b \<noteq> TaskWorkspaceLifecycleRejected"
      "a' = finishAggregatePhase ?a run' phase"
    by (auto simp: acceptAggregateTaskWorkspaceLifecycleEvidence_def Let_def result_bind_eq_Inr split: if_splits)
  then show ?thesis
  proof cases
    case cancelling
    with cancelling_stays [OF cancelling] assms(2) show ?thesis by (auto simp: phase_left_def)
  next
    case failed
    with assms(2) show ?thesis by (simp add: phase_left_def failAggregatePhase_def)
  next
    case finished
    then have "le_Outcome b = TaskWorkspaceLifecycleCommitted"
      by (auto simp: taskWorkspaceLifecycleOutcomeName_def split: if_splits)
    with finished active activePhaseRun_at [OF active(1)] show ?thesis by (auto intro!: passedI)
  qed
qed

lemma publication_passes:
  assumes "acceptAggregatePublicationEvidence a b ids = Inr (a', ids', affected, refs)" and "phase_left a a'"
  shows "phase_passed a (PublicationEvidencePayload b) a'"
proof -
  from assms(1) obtain run phase where active: "activePhaseRun a (pe_PhaseRunID b) = Some run"
    "currentPhaseDefinition a = Some phase" "ph_Kind phase = PhasePublication"
    "pe_OperationID b = pr_publicationOperationID run" "publicationOutcomeName (pe_Outcome b) \<noteq> []"
    by (auto simp: acceptAggregatePublicationEvidence_def split: if_splits option.splits)
  from assms(1) active consider (failed) run' where "a' = failAggregatePhase a run'"
    | (finished) a\<^sub>1 run' where "pe_Outcome b \<noteq> PublicationRejected" "a' = finishAggregatePhase a\<^sub>1 run' phase"
    by (auto simp: acceptAggregatePublicationEvidence_def Let_def split: if_splits)
  then show ?thesis
  proof cases
    case failed
    with assms(2) show ?thesis by simp
  next
    case finished
    with active(5) have "pe_Outcome b = PublicationActivated"
      by (auto simp: publicationOutcomeName_def split: if_splits)
    with finished active activePhaseRun_at [OF active(1)] show ?thesis by (auto intro!: passedI)
  qed
qed

lemma runtime_evidence_stays:
  assumes "acceptAggregateRuntimeOrCoordinationEvidence a b ids = Inr (a', ids', affected, refs)"
  shows "\<not> phase_left a a'"
  using assms
  by (auto simp: phase_left_def acceptAggregateRuntimeOrCoordinationEvidence_def
      acceptAggregateRuntimeEvidence_def result_bind_eq_Inr split: if_splits option.splits)

lemma others_stay:
  "retryAggregatePhase h r a header k ids d = Inr (a', ids', affected, refs) \<Longrightarrow> \<not> phase_left a a'"
  "retryAggregateRuntimeRun h r a header k m ids d = Inr (a', ids', affected, refs) \<Longrightarrow> \<not> phase_left a a'"
  "acceptAggregateTaskWorkspaceReconstructionEvidence a c ids = Inr (a', ids', affected, refs) \<Longrightarrow> \<not> phase_left a a'"
  "cancelAggregateTask a ids = Inr (a', ids', affected, refs) \<Longrightarrow> \<not> phase_left a a'"
  by (auto simp: phase_left_def retryAggregatePhase_def retryAggregateRuntimeRun_def Let_def
      acceptAggregateTaskWorkspaceReconstructionEvidence_def cancelAggregateTask_def result_bind_eq_Inr
      dest: begin_stays split: if_splits option.splits prod.splits)

lemma applyHandler_passes:
  assumes "applyHandler h r a header payload ids d = Inr (a', ids', affected, refs)" and "phase_left a a'"
  shows "(\<exists>m. payload = ManualEditPayload m) \<or> phase_passed a payload a'"
proof -
  have "beginAggregatePhase h r a header ids d \<noteq> Inr (a', ids', affected, refs)"
    using begin_stays assms(2) by (auto simp: phase_left_def)
  with assms show ?thesis
    by (cases payload)
      (auto dest: others_stay runtime_evidence_stays
        intro: validation_passes lifecycle_passes publication_passes confirmation_passes)
qed

lemma applyCancelling_passes:
  assumes "applyCancelling r a payload ids = Inr (a', ids', affected, refs)" and "phase_left a a'"
  shows "phase_passed a payload a'"
  using assms by (cases payload) (auto dest: runtime_evidence_stays intro: lifecycle_passes)

lemma applyAggregateIntent_passes:
  assumes "applyAggregateIntent h r i ids d = Inr (r', ids', affected, refs)"
    and "tr_aggregate r = Some a"
  obtains a' where "tr_aggregate r' = Some a'"
    "phase_left a a' \<longrightarrow> (\<exists>m. iv_payload i = ManualEditPayload m) \<or> phase_passed a (iv_payload i) a'"
proof (cases "iv_kind i = IntentStartTask")
  case True
  with assms show thesis by (auto simp: applyAggregateIntent_def split: intentPayload.splits)
next
  case False
  with assms obtain a' where a': "tr_aggregate r' = Some a'"
    "(if ag_status a = TaskCancelling then applyCancelling r a (iv_payload i) ids
      else applyHandler h r a (iv_header i) (iv_payload i) ids d) = Inr (a', ids', affected, refs)"
    by (auto simp: applyAggregateIntent_def result_bind_eq_Inr)
  show thesis
    by (rule that [OF a'(1)])
      (use a'(2) in \<open>auto dest: applyHandler_passes applyCancelling_passes split: if_splits\<close>)
qed

text \<open>A fence added after the intent changes neither the phase nor the status.\<close>

lemma refenced_active:
  assumes "refenced (Some a) b"
  obtains a' where "b = Some a'" "ag_status a' = ag_status a" "ag_currentPhase a' = ag_currentPhase a"
    "ag_activePhaseRunID a' = ag_activePhaseRunID a"
  using assms by (auto simp: refenced_def)

lemma commits_passes:
  assumes "commits h p i r decision r' p'" and "tr_aggregate (taskOf p (ih_TaskID (iv_header i))) = Some a"
    and "tr_aggregate r' = Some a'" and "phase_left a a'"
  shows "(\<exists>m. iv_payload i = ManualEditPayload m) \<or> phase_passed a (iv_payload i) a'"
proof -
  from assms(1) obtain d now exists ids recovery where
    "transitionOf h now i d exists r (mp_recovery p) (mp_ids p) = Inr (decision, r', ids, recovery)"
    by (rule commitsE)
  then obtain r\<^sub>1 ids\<^sub>1 ids\<^sub>2 decisionID affected refs where
    applied: "applyAggregateIntent h (cloneTaskRecord r) i ids\<^sub>1 decisionID = Inr (r\<^sub>1, ids\<^sub>2, affected, refs)"
    and fence: "refenced (tr_aggregate r\<^sub>1) (tr_aggregate r')"
    by (rule transitionOf_aggregate)
  have "tr_aggregate (cloneTaskRecord r) = Some a"
    using startRecord_kept(4) [OF commits_taskOf(2) [OF assms(1)]] assms(2) by (simp add: cloneTaskRecord_def)
  with applied obtain a\<^sub>1 where a\<^sub>1: "tr_aggregate r\<^sub>1 = Some a\<^sub>1"
    "phase_left a a\<^sub>1 \<longrightarrow> (\<exists>m. iv_payload i = ManualEditPayload m) \<or> phase_passed a (iv_payload i) a\<^sub>1"
    by (rule applyAggregateIntent_passes)
  from fence [unfolded a\<^sub>1(1)] assms(3) have same: "ag_status a' = ag_status a\<^sub>1"
    "ag_currentPhase a' = ag_currentPhase a\<^sub>1" "ag_activePhaseRunID a' = ag_activePhaseRunID a\<^sub>1"
    by (auto elim: refenced_active)
  with assms(4) a\<^sub>1(2) show ?thesis by (simp add: phase_left_def phase_passed_def)
qed

text \<open>A decision that is not committed leaves every aggregate as it is.\<close>

lemma decideLocked_refused:
  assumes "canonicalizeIntent h i = Inr d" and "decideLocked h now i d p = (False, result, p')"
  shows "tr_aggregate (taskOf p' k) = tr_aggregate (taskOf p k)"
  using assms(2)
proof (cases rule: decideLocked_cases)
  case replayed
  then show ?thesis
    by (auto simp: replayDecision_def replayEvidence_def Let_def split: option.splits prod.splits if_splits)
next
  case (refused e diagnostic)
  then show ?thesis by (auto split: option.splits)
qed simp_all

section \<open>Properties\<close>

text \<open>
  C17. A task leaves a phase only when the phase is answered. If a call of \<open>Decide\<close> changes the
  phase of a task or completes it, then the intent is for that task and either begins a manual
  edit or answers what the current phase waits for, through the phase run that is active: the
  confirmation of its gate, an accepted validation with all its runtime runs done, the commit of
  the validated workspace operation, or the activation of the publication it asked for. The task
  then goes to the next phase of its route and is complete exactly when there is none.
\<close>

theorem phase_left_only_when_answered:
  assumes "Decide h contextDone i e = (result, e')"
    and "tr_aggregate (taskOf (eg_persistence e) k) = Some a"
    and "tr_aggregate (taskOf (eg_persistence e') k) = Some a'" and "phase_left a a'"
  shows "k = ih_TaskID (iv_header i) \<and>
    ((\<exists>m. iv_payload i = ManualEditPayload m) \<or> phase_passed a (iv_payload i) a')"
  using assms(1)
proof (cases rule: Decide_persistence)
  case (before_lock failure)
  with assms(2-4) show ?thesis by simp
next
  case (locked d committed result')
  show ?thesis
  proof (cases committed)
    case False
    with locked(2) decideLocked_refused [OF locked(1), of "eg_now e" "eg_persistence e" result' "eg_persistence e'" k]
      assms(2-4) show ?thesis by simp
  next
    case True
    with locked(2) obtain r decision r' where
      committed: "commits h (eg_persistence e) i r decision r' (eg_persistence e')"
      using decideLocked_commits [OF locked(1)] by metis
    from assms(2-4) commits_taskOf(1) [OF committed, of k] have k: "k = ih_TaskID (iv_header i)"
      by (auto split: if_splits)
    with assms(2-4) commits_taskOf(1) [OF committed, of k] commits_passes [OF committed]
    show ?thesis by simp
  qed
qed

end
