(* ===== verification/Orch_Examples.thy ===== *)
theory Orch_Examples
  imports Orch_Enactment Runtime_Examples
begin

text \<open>
  A concrete task: the hypotheses of the properties of Task Orchestration hold on it. Its route
  drafts (a mutating phase of one runtime run), asks for a confirmation and publishes.
\<close>

definition demo_phases :: "PhaseDefinition list" where
  "demo_phases =
     [\<lparr>ph_Key = ''draft'', ph_Kind = PhaseMutating,
       ph_ValidationContract = PhaseValidationAllRuntimeRunsSucceeded, ph_RequiredRuntimeRuns = 1,
       ph_RetryEligible = True, ph_GateID = [], ph_NextPhase = ''confirm''\<rparr>,
      \<lparr>ph_Key = ''confirm'', ph_Kind = PhaseConfirmationGate, ph_ValidationContract = PhaseValidationNone,
       ph_RequiredRuntimeRuns = 0, ph_RetryEligible = False, ph_GateID = ''gate-1'',
       ph_NextPhase = ''publish''\<rparr>,
      \<lparr>ph_Key = ''publish'', ph_Kind = PhasePublication, ph_ValidationContract = PhaseValidationNone,
       ph_RequiredRuntimeRuns = 0, ph_RetryEligible = False, ph_GateID = [], ph_NextPhase = []\<rparr>]"

definition demo_authorities :: DownstreamAuthorityBindings where
  "demo_authorities =
     \<lparr>da_Runtime = newAuthorityValue AuthorityRuntime ''runtime'' 1,
      da_Validator = newAuthorityValue AuthorityValidator ''validator'' 1,
      da_TaskWorkspaceLifecycle = newAuthorityValue AuthorityTaskWorkspaceLifecycle ''workspace'' 1,
      da_Publication = newAuthorityValue AuthorityPublication ''publication'' 1,
      da_Scheduler = newAuthorityValue AuthorityScheduler ''scheduler'' 1\<rparr>"

definition demo_pinned :: PinnedTaskStart where
  "demo_pinned =
     \<lparr>pn_Route = RouteBeautify, pn_TaskWorkspaceID = ''workspace-1'',
      pn_ExecutionLock =
        \<lparr>el_ID = ''lock-1'', el_PipelineVersionID = ''pipeline-1'', el_RuntimeReleaseID = ''release-1'',
         el_CompatibilityApprovalID = ''approval-1'',
         el_PipelineContract =
           \<lparr>pc_SchemaVersion = 1, pc_PipelineVersionID = ''pipeline-1'',
            pc_Routes = [\<lparr>rd_Route = RouteBeautify, rd_EntryPhase = ''draft'', rd_Phases = demo_phases\<rparr>],
            pc_ManualEditEntryPhase = [], pc_ManualEditPhases = []\<rparr>\<rparr>,
      pn_TemplateLockID = [], pn_CatalogBinding = None, pn_Authorities = demo_authorities\<rparr>"

lemma demo_pinned_valid: "pinned_valid demo_hash demo_pinned"
  by code_simp

definition demo_header :: IntentHeader where
  "demo_header =
     \<lparr>ih_SchemaVersion = SchemaV1, ih_DecisionRequestID = ''request-1'',
      ih_CanonicalRequestDigest = replicate 32 CHR ''h'', ih_TaskID = ''task-1'',
      ih_ExpectedTaskRevision = 0, ih_ActivityGeneration = 1, ih_OccurredAt = 60\<rparr>"

definition demo_user :: authorityValue where
  "demo_user = newAuthorityValue AuthorityUser ''ada'' 1"

definition demo_confirmation :: intentValue where
  "demo_confirmation =
     \<lparr>iv_header = demo_header, iv_authority = demo_user,
      iv_payload = ConfirmationPayload ''gate-1'' (replicate 32 CHR ''d'')\<rparr>"

lemma demo_canonical: "canonicalizeIntent demo_hash demo_confirmation = Inr (replicate 32 CHR ''h'')"
  by code_simp


section \<open>A started runtime run\<close>

definition demo_record :: taskRecord where
  "demo_record = zeroTaskRecord\<lparr>tr_revision := 1, tr_activityGeneration := 1, tr_owner := (''ada'', 1),
     tr_safetyEpoch := 3\<rparr>"

definition demo_aggregate :: taskAggregate where
  "demo_aggregate =
     \<lparr>ag_status = TaskRunning, ag_route = RouteBeautify, ag_activity = ActivityGenerationPipeline,
      ag_pinned = demo_pinned, ag_currentPhase = ''draft'', ag_activePhaseRunID = [],
      ag_phaseRuns = [], ag_latestArtifactVersionID = [], ag_activitySourceArtifactVersionID = [],
      ag_reconstructionRequired = False, ag_reconstructionAccepted = False,
      ag_reconstructionOperationID = [], ag_lifecycleGeneration = 0, ag_lifecycleFence = 0\<rparr>"

definition demo_run :: phaseRunRecord where
  "demo_run =
     \<lparr>pr_id = ''phase-run-000001'', pr_phaseKey = ''draft'', pr_attempt = 1, pr_generation = 1,
      pr_fence = 1, pr_outcome = PhaseRunRunning, pr_validationOutcome = 0,
      pr_lifecycleOutcome = 0, pr_revisionID = [], pr_checkpointID = [], pr_lifecycleOperationID = [],
      pr_publicationOutcome = 0, pr_artifactVersionID = [], pr_publicationOperationID = [],
      pr_runtimeRuns = [], pr_taskWorkspaceID = ''workspace-1'', pr_inputArtifactVersionID = []\<rparr>"

definition demo_input :: StartRuntimeRunInput where
  "demo_input =
     startInput demo_hash demo_record demo_aggregate (demo_phases ! 0) demo_run ''task-1''
       ''runtime-run-000001'' ''operation-000001'' 60
       (the (startCatalog demo_hash demo_pinned ''runtime-run-000001''))"

lemma demo_input_valid:
  "validCanonicalStart demo_input" "distinct (map ii_Identity (si_ImmutableInputs demo_input))"
  "list_all rx_validOpaqueID (startIdentifiers demo_record demo_aggregate (demo_phases ! 0) demo_run
     ''task-1'' ''runtime-run-000001'' ''operation-000001'')"
  by code_simp+

lemma demo_started:
  "\<exists>rt ref. canonicalRuntimeStartEnactment demo_hash demo_record demo_aggregate (demo_phases ! 0) demo_run
     ''runtime-run-000001'' ''operation-000001'' demo_header ''decision-000001'' = Inr (rt, ref)"
proof -
  have catalog: "startCatalog demo_hash (ag_pinned demo_aggregate) ''runtime-run-000001'' =
      Some (the (startCatalog demo_hash demo_pinned ''runtime-run-000001''))"
    by (simp add: startCatalog_def demo_aggregate_def demo_pinned_def)
  have task: "\<not> validOpaqueID (tp_TaskID (td_TaskProjection (tr_latestDecision demo_record)))"
    by code_simp
  have header: "ih_TaskID demo_header = ''task-1''" "ih_OccurredAt demo_header = 60"
    by (simp_all add: demo_header_def)
  obtain start where start: "NewCanonicalStartRuntimeRun demo_hash demo_input = Inr start"
    using demo_input_valid(1,2) by (auto simp: NewCanonicalStart_Inr encoding_Inr)
  then have "CanonicalStartPayload demo_hash start = Inr (Some (marshal_start (wire_of_start demo_input)))"
    using demo_input_valid
    by (auto simp: CanonicalStartPayload_def NewCanonicalStart_Inr encoding_Inr result_bind_eq_Inr)
  with start show ?thesis
    using catalog task header demo_input_valid(3)
    by (auto simp: canonicalRuntimeStartEnactment_def demo_input_def)
qed

definition demo_binding :: "runtimeRunRecord \<Rightarrow> operationBinding" where
  "demo_binding rt =
     \<lparr>ob_phaseRunID = pr_id demo_run, ob_runtimeRunID = rt_id rt,
      ob_authority = newAuthorityValue AuthorityRuntime ''runtime'' 1, ob_generation = 1, ob_fence = 1,
      ob_safetyEpoch = 3, ob_purpose = LifecyclePurposeUnset, ob_activityGeneration = 1,
      ob_canonicalPayload = rt_canonicalPayload rt, ob_payloadDigest = rt_payloadDigest rt,
      ob_terminal = False\<rparr>"


end
