(* ===== verification/Orch_Runs.thy ===== *)
theory Orch_Runs
  imports Orch_Evidence Orch_Phases Orch_Examples
begin

text \<open>
  A concrete run of the decision engine: a task is started, its confirmation gate is presented
  and confirmed, its publication is begun and accepted. The pipeline has no runtime run, so the
  kernel evaluates every step.
\<close>

definition gate_phases :: "PhaseDefinition list" where
  "gate_phases = tl demo_phases"

definition gate_pinned :: PinnedTaskStart where
  "gate_pinned = demo_pinned\<lparr>pn_ExecutionLock := (pn_ExecutionLock demo_pinned)
     \<lparr>el_PipelineContract := (el_PipelineContract (pn_ExecutionLock demo_pinned))
       \<lparr>pc_Routes := [\<lparr>rd_Route = RouteBeautify, rd_EntryPhase = ''confirm'', rd_Phases = gate_phases\<rparr>],
        pc_ManualEditEntryPhase := ''confirm'', pc_ManualEditPhases := gate_phases\<rparr>\<rparr>\<rparr>"

text \<open>A hash that tells requests at revision zero from others.\<close>

definition run_hash :: hashing where
  "run_hash = demo_hash\<lparr>hs_value := (\<lambda>d v. replicate 31 CHR ''h'' @
     [case v of
        JObj fs \<Rightarrow> if map_of fs ''expected_task_revision'' = Some (JNum 0) then CHR ''0'' else CHR ''h''
      | _ \<Rightarrow> CHR ''h''])\<rparr>"

lemma run_hash_proper: "proper_hashing run_hash"
  by (simp add: run_hash_def demo_hash_def proper_hashing_def zero_digest_def numeral_eq_Suc)

definition request :: "string \<Rightarrow> u64 \<Rightarrow> authorityValue \<Rightarrow> intentPayload \<Rightarrow> intentValue" where
  "request k revision authority payload =
     newIntent run_hash (demo_header\<lparr>ih_DecisionRequestID := k, ih_ExpectedTaskRevision := revision\<rparr>)
       authority payload"

definition demo_worker :: authorityValue where
  "demo_worker = newAuthorityValue AuthorityWorker ''worker'' 1"

definition start_request :: intentValue where
  "start_request = request ''start-1'' 0 demo_user
     (PinnedStartPayload \<lparr>ps_pinned = gate_pinned, ps_verifiedTask = ''task-1'', ps_safetyEpoch = 1,
        ps_executionVerificationDigest = demo_digest, ps_templateVerificationDigest = zero_digest\<rparr>)"

definition work_request :: intentValue where
  "work_request = request ''work-1'' 1 demo_worker (OperationPayload ''work-1'')"

definition confirm_request :: intentValue where
  "confirm_request = request ''confirm-1'' 2 demo_user (ConfirmationPayload ''gate-1'' demo_digest)"

definition publish_request :: intentValue where
  "publish_request = request ''publish-1'' 3 demo_worker (OperationPayload ''work-2'')"

definition published_request :: intentValue where
  "published_request = request ''published-1'' 4 (da_Publication demo_authorities)
     (PublicationEvidencePayload
       \<lparr>pe_Evidence = \<lparr>ev_ID = ''evidence-1'', ev_Kind = EvidencePublication, ev_Digest = demo_digest\<rparr>,
        pe_PhaseRunID = ''phase-run-000002'', pe_PhaseRunGeneration = 1, pe_PhaseRunFence = 1,
        pe_OperationID = ''operation-000002'', pe_Generation = 1, pe_Fence = 1, pe_SafetyEpoch = 1,
        pe_Outcome = PublicationActivated, pe_ArtifactVersionID = ''artifact-1''\<rparr>)"

definition demo_ids :: idAllocator where
  "demo_ids = \<lparr>ia_nextDecision = 1, ia_nextAuditFact = 1, ia_nextPhaseRun = 1, ia_nextRuntimeRun = 1,
     ia_nextOperation = 1, ia_nextCausation = 1\<rparr>"

definition demo_config :: HarnessConfig where
  "demo_config = \<lparr>hg_Now = 100, hg_IDs = demo_ids, hg_Recovery = zeroRecoveryFixture, hg_Tasks = []\<rparr>"

definition demo_engine :: engine where
  "demo_engine = (case NewDeterministicHarness demo_config of Inr e \<Rightarrow> e | Inl _ \<Rightarrow> undefined)"

definition cancel_request :: intentValue where
  "cancel_request = request ''cancel-1'' 1 demo_user (CancelPayload CancelReasonUserRequested zeroLifecycleRequest)"

definition reusing_request :: intentValue where
  "reusing_request = request ''start-1'' 1 demo_user (ConfirmationPayload ''gate-1'' demo_digest)"

definition stranger_request :: intentValue where
  "stranger_request = request ''confirm-1'' 5 (newAuthorityValue AuthorityUser ''eve'' 1)
     (ConfirmationPayload ''gate-1'' demo_digest)"

definition late_request :: intentValue where
  "late_request = request ''late-1'' 7 demo_worker (OperationPayload ''work-3'')"

definition again_request :: intentValue where
  "again_request = request ''published-2'' 5 (da_Publication demo_authorities) (iv_payload published_request)"

definition orphan_request :: intentValue where
  "orphan_request = request ''work-0'' 0 demo_worker (OperationPayload ''work-0'')"

definition demo_recovery :: authorityValue where
  "demo_recovery = newAuthorityValue AuthorityRecovery ''recovery'' 1"

definition fence_request :: intentValue where
  "fence_request = request ''fence-1'' 0 demo_recovery
     (OperationalFencePayload \<lparr>of_Generation = 2, of_Fence = 2, of_SafetyEpoch = 2,
        of_Mode = OperationalReadOnly, of_LifecycleFence = zeroLifecycleRequest\<rparr>)"

definition demo_fixture :: HarnessTaskFixture where
  "demo_fixture = \<lparr>tf_TaskID = ''task-1'', tf_Owner = demo_user, tf_Reconciler = zeroAuthority,
     tf_TaskRevision = 0, tf_ActivityGeneration = 1, tf_SafetyEpoch = 1, tf_PhaseRuns = [],
     tf_RuntimeOperations = [], tf_ValidationBindings = [], tf_LifecycleOperations = [],
     tf_PublicationOperations = [], tf_SchedulingOperations = []\<rparr>"

definition demo_recovery_fixture :: HarnessRecoveryFixture where
  "demo_recovery_fixture = \<lparr>hr_Authority = demo_recovery, hr_Generation = 1, hr_Fence = 1, hr_SafetyEpoch = 1,
     hr_Mode = OperationalFullReady\<rparr>"

definition recovering_engine :: engine where
  "recovering_engine = (case NewDeterministicHarness (demo_config\<lparr>hg_Tasks := [demo_fixture],
       hg_Recovery := demo_recovery_fixture\<rparr>) of Inr e \<Rightarrow> e | Inl _ \<Rightarrow> undefined)"

section \<open>What the kernel computes\<close>

definition answer :: "intentValue \<Rightarrow> engine \<Rightarrow> error_code + TransitionDecision" where
  "answer i e = fst (Decide run_hash False i e)"

definition after :: "intentValue \<Rightarrow> engine \<Rightarrow> engine" where
  "after i e = snd (Decide run_hash False i e)"

definition roomy :: "engine \<Rightarrow> bool" where
  "roomy e \<longleftrightarrow>
     list_all (\<lambda>(_, r). tr_revision r \<noteq> - 1) (mp_tasks (eg_persistence e)) \<and> phase_runs_left (eg_persistence e)"

definition task_in :: "engine \<Rightarrow> taskAggregate option" where
  "task_in e = tr_aggregate (taskOf (eg_persistence e) ''task-1'')"

definition locked_by :: "intentValue \<Rightarrow> engine \<Rightarrow> bool \<times> (error_code + TransitionDecision) \<times> memoryPersistence" where
  "locked_by i e =
     (case canonicalizeIntent run_hash i of
        Inr d \<Rightarrow> decideLocked run_hash 100 i d (eg_persistence e)
      | Inl failure \<Rightarrow> (False, Inl failure, eg_persistence e))"

lemma demo_run_evaluated:
  "let e\<^sub>0 = demo_engine;
       (r\<^sub>1, e\<^sub>1) = Decide run_hash False start_request e\<^sub>0;
       (r\<^sub>2, e\<^sub>2) = Decide run_hash False work_request e\<^sub>1;
       (r\<^sub>3, e\<^sub>3) = Decide run_hash False confirm_request e\<^sub>2;
       (r\<^sub>4, e\<^sub>4) = Decide run_hash False publish_request e\<^sub>3;
       (r\<^sub>5, e\<^sub>5) = Decide run_hash False published_request e\<^sub>4;
       (committed, _, p\<^sub>5) = locked_by published_request e\<^sub>4;
       (r\<^sub>6, _) = Decide run_hash False late_request e\<^sub>1;
       (_, e\<^sub>7) = Decide run_hash False cancel_request e\<^sub>1
   in \<not> isl r\<^sub>1 \<and> quiet e\<^sub>5 \<and>
      (case r\<^sub>2 of
         Inr d \<Rightarrow> td_EnactmentRefs d \<noteq> [] \<and>
           map_option snd (map_of (mp_decisions (eg_persistence e\<^sub>2)) (requestScopeOf work_request)) = Some d
       | Inl _ \<Rightarrow> False) \<and>
      roomy e\<^sub>0 \<and> roomy e\<^sub>1 \<and> roomy e\<^sub>2 \<and> roomy e\<^sub>3 \<and> roomy e\<^sub>4 \<and> roomy e\<^sub>7 \<and>
      (case (map_of (mp_decisions (eg_persistence e\<^sub>5)) (requestScopeOf published_request),
             map_of (mp_acceptedEvidence (eg_persistence e\<^sub>5)) (''task-1'', ''evidence-1'')) of
         (Some (_, d), Some (_, d')) \<Rightarrow> td_AcceptedTaskRevision d = 5 \<and> td_AcceptedTaskRevision d' = 5
       | _ \<Rightarrow> False) \<and>
      map_option tr_owner (map_of (mp_tasks (eg_persistence e\<^sub>5)) ''task-1'') = Some (''ada'', 1) \<and>
      committed \<and> length (knownOperations (taskOf p\<^sub>5 ''task-1'')) < 10 \<and>
      task_in e\<^sub>1 \<noteq> None \<and> map_option ag_status (task_in e\<^sub>2) = Some TaskAwaitingConfirmation \<and>
      (case (task_in e\<^sub>2, task_in e\<^sub>3) of (Some a, Some a') \<Rightarrow> phase_left a a' | _ \<Rightarrow> False) \<and>
      r\<^sub>6 = Inl ErrorStaleTaskRevision \<and> map_option ag_status (task_in e\<^sub>7) = Some TaskCancelled"
  by code_simp

lemma demo_calls_evaluated:
  "let e\<^sub>0 = demo_engine;
       (r\<^sub>1, e\<^sub>1) = Decide run_hash False orphan_request e\<^sub>0;
       (r\<^sub>2, e\<^sub>2) = Decide run_hash False orphan_request (LoseNextResponse e\<^sub>0);
       (r\<^sub>3, e\<^sub>3) = Decide run_hash False fence_request recovering_engine
   in r\<^sub>2 = Inl ErrorReconciliationRequired \<and> quiet e\<^sub>2 \<and>
      map_option tr_owner (map_of (mp_tasks (eg_persistence e\<^sub>1)) ''task-1'') = Some ([], 0) \<and>
      rb_mode (mp_recovery (eg_persistence e\<^sub>3)) = OperationalReadOnly \<and>
      rb_generation (mp_recovery (eg_persistence e\<^sub>3)) = 2 \<and>
      fst (locked_by orphan_request e\<^sub>0)"
  by code_simp

lemma requests_evaluated:
  "canonicalizeIntent run_hash start_request = Inr (replicate 31 CHR ''h'' @ ''0'')"
  "canonicalizeIntent run_hash reusing_request = Inr (replicate 32 CHR ''h'')"
  "canonicalizeIntent run_hash published_request = Inr (replicate 32 CHR ''h'')"
  "canonicalizeIntent run_hash again_request = Inr (replicate 32 CHR ''h'')"
  "canonicalizeIntent run_hash orphan_request = Inr (replicate 31 CHR ''h'' @ ''0'')"
  by code_simp+

lemma demo_engines:
  "NewDeterministicHarness demo_config = Inr demo_engine"
  "NewDeterministicHarness (demo_config\<lparr>hg_Tasks := [demo_fixture], hg_Recovery := demo_recovery_fixture\<rparr>) = Inr recovering_engine"
  by code_simp+

end
