(* ===== verification/Orch_Witnesses.thy ===== *)
theory Orch_Witnesses
  imports Orch_Runs
begin

text \<open>
  The properties of the decision engine at work: each one applied to the run of \<open>Orch_Runs\<close>, where
  its hypotheses hold.
\<close>

section \<open>The run, step by step\<close>

definition started_engine :: engine where "started_engine = after start_request demo_engine"
definition gated_engine :: engine where "gated_engine = after work_request started_engine"
definition confirmed_engine :: engine where "confirmed_engine = after confirm_request gated_engine"
definition publishing_engine :: engine where "publishing_engine = after publish_request confirmed_engine"
definition completed_engine :: engine where "completed_engine = after published_request publishing_engine"
definition cancelled_engine :: engine where "cancelled_engine = after cancel_request started_engine"
definition lost_engine :: engine where "lost_engine = after orphan_request (LoseNextResponse demo_engine)"
definition orphan_engine :: engine where "orphan_engine = after orphan_request demo_engine"
definition fenced_engine :: engine where "fenced_engine = after fence_request recovering_engine"

lemmas engines = started_engine_def gated_engine_def confirmed_engine_def publishing_engine_def
  completed_engine_def cancelled_engine_def lost_engine_def orphan_engine_def fenced_engine_def

lemma demo_run_facts:
  "\<not> isl (answer start_request demo_engine)" "quiet completed_engine"
  "\<exists>d. td_EnactmentRefs d \<noteq> [] \<and>
     map_option snd (map_of (mp_decisions (eg_persistence gated_engine)) (requestScopeOf work_request)) = Some d"
  "roomy demo_engine" "roomy started_engine" "roomy gated_engine" "roomy confirmed_engine" "roomy publishing_engine"
  "\<exists>c d c' d'. map_of (mp_decisions (eg_persistence completed_engine)) (requestScopeOf published_request) = Some (c, d) \<and>
     map_of (mp_acceptedEvidence (eg_persistence completed_engine)) (''task-1'', ''evidence-1'') = Some (c', d') \<and>
     td_AcceptedTaskRevision d = td_AcceptedTaskRevision d'"
  "map_option tr_owner (map_of (mp_tasks (eg_persistence completed_engine)) ''task-1'') = Some (''ada'', 1)"
  "fst (locked_by published_request publishing_engine)"
  "length (knownOperations (taskOf (snd (snd (locked_by published_request publishing_engine))) ''task-1'')) < 10"
  "task_in started_engine \<noteq> None" "map_option ag_status (task_in gated_engine) = Some TaskAwaitingConfirmation"
  "\<exists>a a'. task_in gated_engine = Some a \<and> task_in confirmed_engine = Some a' \<and> phase_left a a'"
  "answer late_request started_engine = Inl ErrorStaleTaskRevision"
  "map_option ag_status (task_in cancelled_engine) = Some TaskCancelled" "roomy cancelled_engine"
  using demo_run_evaluated unfolding Let_def split_beta engines after_def answer_def
  by (auto split: option.splits sum.splits)

lemma demo_call_facts:
  "answer orphan_request (LoseNextResponse demo_engine) = Inl ErrorReconciliationRequired" "quiet lost_engine"
  "map_option tr_owner (map_of (mp_tasks (eg_persistence orphan_engine)) ''task-1'') = Some ([], 0)"
  "rb_mode (mp_recovery (eg_persistence fenced_engine)) = OperationalReadOnly"
  "rb_generation (mp_recovery (eg_persistence fenced_engine)) = 2"
  "fst (locked_by orphan_request demo_engine)"
  using demo_calls_evaluated unfolding Let_def split_beta engines after_def answer_def
  by auto

text \<open>The steps and the runs the witnesses share.\<close>

lemma call: "Decide run_hash False i e = (answer i e, after i e)"
  by (simp add: answer_def after_def)

lemma step_after [intro]: "engine_step run_hash e (after i e)"
  using call by (rule step_decide)

lemma roomy_left: "roomy e \<Longrightarrow> phase_runs_left (eg_persistence e)" "roomy e \<Longrightarrow> revisions_left (eg_persistence e)"
  by (auto simp: roomy_def revisions_left_def taskOf_def zeroTaskRecord_def list_all_iff
      dest!: map_of_SomeD split: option.splits)

lemma demo_steps:
  "engine_step run_hash demo_engine started_engine" "engine_step run_hash started_engine gated_engine"
  "engine_step run_hash gated_engine confirmed_engine" "engine_step run_hash confirmed_engine publishing_engine"
  "engine_step run_hash publishing_engine completed_engine" "engine_step run_hash started_engine cancelled_engine"
  "engine_step run_hash demo_engine orphan_engine" "engine_step run_hash recovering_engine fenced_engine"
  unfolding engines by (rule step_after)+

lemma demo_runs:
  "(engine_step run_hash)\<^sup>*\<^sup>* demo_engine started_engine" "(engine_step run_hash)\<^sup>*\<^sup>* demo_engine gated_engine"
  "(engine_step run_hash)\<^sup>*\<^sup>* started_engine completed_engine" "(engine_step run_hash)\<^sup>*\<^sup>* gated_engine completed_engine"
  "(engine_step run_hash)\<^sup>*\<^sup>* demo_engine completed_engine"
  using demo_steps by (meson rtranclp.rtrancl_refl rtranclp.rtrancl_into_rtrancl)+

lemma roomy_step:
  assumes "roomy_run run_hash e\<^sub>0 e" and "roomy e"
  shows "roomy_run run_hash e\<^sub>0 (after i e)"
  using assms by (auto intro: rtranclp.rtrancl_into_rtrancl roomy_left)

lemma roomy_runs:
  "roomy_run run_hash demo_engine started_engine" "roomy_run run_hash demo_engine gated_engine"
  "roomy_run run_hash demo_engine cancelled_engine"
proof -
  show *: "roomy_run run_hash demo_engine started_engine"
    using roomy_step [OF rtranclp.rtrancl_refl demo_run_facts(4)] by (simp add: started_engine_def)
  show "roomy_run run_hash demo_engine gated_engine" "roomy_run run_hash demo_engine cancelled_engine"
    using roomy_step [OF * demo_run_facts(5)] by (simp_all add: gated_engine_def cancelled_engine_def)
qed

lemma task_started:
  obtains decision where "Decide run_hash False start_request demo_engine = (Inr decision, started_engine)"
  using demo_run_facts(1) call [of start_request demo_engine] by (cases "answer start_request demo_engine") (auto simp: started_engine_def)

section \<open>Witnesses\<close>

theorem decided_request_is_settled_witness:
  "\<exists>decision. Decide run_hash False start_request completed_engine = (Inr decision, completed_engine) \<and>
     Decide run_hash False reusing_request completed_engine = (Inl ErrorIntegrityConflict, completed_engine)"
proof -
  have "requestScopeOf reusing_request = requestScopeOf start_request"
    by (simp add: requestScopeOf_def reusing_request_def start_request_def request_def newIntent_def Let_def
        split: sum.splits)
  moreover have "canonicalizeIntent run_hash start_request \<noteq> Inr (replicate 32 CHR ''h'')"
    by (simp add: requests_evaluated(1) numeral_eq_Suc)
  moreover obtain decision where started: "Decide run_hash False start_request demo_engine = (Inr decision, started_engine)"
    by (rule task_started)
  ultimately show ?thesis
    using decided_request_is_settled [OF started demo_runs(3) demo_run_facts(2)] requests_evaluated(2) by blast
qed



theorem accepted_decision_advances_task_witness:
  "\<exists>p' decision. tr_revision (taskOf (eg_persistence demo_engine) ''task-1'') + 1 = tr_revision (taskOf p' ''task-1'') \<and>
     tr_latestDecision (taskOf p' ''task-1'') = decision"
proof -
  from demo_call_facts(6) requests_evaluated(5) obtain d result p' where
    "decideLocked run_hash 100 orphan_request d (eg_persistence demo_engine) = (True, result, p')"
    by (auto simp: locked_by_def prod_eq_iff)
  note advance = accepted_decision_advances_task [OF this]
  have "ih_TaskID (iv_header orphan_request) = ''task-1''"
    by (simp add: orphan_request_def request_def newIntent_def demo_header_def Let_def split: sum.splits)
  with advance show ?thesis unfolding Let_def by metis
qed

lemma demo_enactment:
  obtains decision ref where "recorded (eg_persistence gated_engine) ''task-1'' decision"
    "ref \<in> set (td_EnactmentRefs decision)"
proof -
  from demo_run_facts(3) obtain d c where "td_EnactmentRefs d \<noteq> []"
    "map_of (mp_decisions (eg_persistence gated_engine)) (requestScopeOf work_request) = Some (c, d)" by auto
  moreover have "fst (requestScopeOf work_request) = ''task-1''" by code_simp
  ultimately show thesis using that [of d "hd (td_EnactmentRefs d)"]
    by (cases "requestScopeOf work_request") (auto simp: recorded_def)
qed

theorem decisions_are_audited_witness:
  "\<exists>decision. recorded (eg_persistence gated_engine) ''task-1'' decision \<and>
     validMandatoryAuditFact run_hash (td_MandatoryAuditFactRef decision) decision"
proof -
  obtain decision ref where "recorded (eg_persistence gated_engine) ''task-1'' decision" by (rule demo_enactment)
  with decisions_are_audited [OF demo_engines(1) demo_runs(2) run_hash_proper this] show ?thesis by blast
qed

theorem outbox_keeps_enactments_witness:
  "\<exists>decision ref row. recorded (eg_persistence gated_engine) ''task-1'' decision \<and>
     ref \<in> set (td_EnactmentRefs decision) \<and>
     map_of (mp_outbox (eg_persistence completed_engine)) (en_OperationID ref) = Some row"
proof -
  obtain decision ref where ref: "recorded (eg_persistence gated_engine) ''task-1'' decision"
    "ref \<in> set (td_EnactmentRefs decision)" by (rule demo_enactment)
  with outbox_keeps_enactments [OF demo_engines(1) demo_runs(2,4) this] show ?thesis by blast
qed

theorem decisions_are_serialized_witness:
  "\<exists>decision. recorded (eg_persistence completed_engine) ''task-1'' decision \<and>
     map_option snd (map_of (mp_decisions (eg_persistence completed_engine)) (requestScopeOf published_request)) = Some decision \<and>
     map_option snd (map_of (mp_acceptedEvidence (eg_persistence completed_engine)) (''task-1'', ''evidence-1'')) = Some decision"
proof -
  let ?run = "\<lambda>e e'. engine_step run_hash e e' \<and> revisions_left (eg_persistence e)"
  have move: "?run\<^sup>*\<^sup>* demo_engine e \<Longrightarrow> roomy e \<Longrightarrow> ?run\<^sup>*\<^sup>* demo_engine (after i e)" for i e
    by (auto intro: rtranclp.rtrancl_into_rtrancl roomy_left)
  have "?run\<^sup>*\<^sup>* demo_engine completed_engine"
    using demo_run_facts(4-8) unfolding engines by (intro move rtranclp.rtrancl_refl)
  moreover from demo_run_facts(9) obtain c d c' d' where d:
    "map_of (mp_decisions (eg_persistence completed_engine)) (requestScopeOf published_request) = Some (c, d)"
    "map_of (mp_acceptedEvidence (eg_persistence completed_engine)) (''task-1'', ''evidence-1'') = Some (c', d')"
    "td_AcceptedTaskRevision d = td_AcceptedTaskRevision d'" by blast
  moreover have "fst (requestScopeOf published_request) = ''task-1''" by code_simp
  then have "recorded (eg_persistence completed_engine) ''task-1'' d" "recorded (eg_persistence completed_engine) ''task-1'' d'"
    using d by (cases "requestScopeOf published_request"; force simp: recorded_def)+
  ultimately have "d = d'" "recorded (eg_persistence completed_engine) ''task-1'' d"
    using decisions_are_serialized [OF demo_engines(1)] by blast+
  with d show ?thesis by simp
qed

theorem task_belongs_to_its_owner_witness:
  "(\<exists>failure. fst (Decide run_hash False stranger_request completed_engine) = Inl failure) \<and>
   (\<exists>failure. Query False ''task-1'' (iv_authority stranger_request) completed_engine = Inl failure) \<and>
   (\<exists>r. map_of (mp_tasks (eg_persistence (after cancel_request completed_engine))) ''task-1'' = Some r \<and> tr_owner r = (''ada'', 1))"
proof -
  from demo_run_facts(10) obtain r where r: "map_of (mp_tasks (eg_persistence completed_engine)) ''task-1'' = Some r"
    "tr_owner r = (''ada'', 1)" by auto
  have stranger: "av_kind (iv_authority stranger_request) = AuthorityUser"
    "ih_TaskID (iv_header stranger_request) = ''task-1''"
    "(''ada'', 1) \<noteq> (av_id (iv_authority stranger_request), av_generation (iv_authority stranger_request))"
    by code_simp+
  have "(engine_step run_hash)\<^sup>*\<^sup>* completed_engine (after cancel_request completed_engine)" by blast
  with task_belongs_to_its_owner [OF demo_engines(1) demo_runs(5) r(1), unfolded r(2), OF stranger(3,1)] stranger(2)
  show ?thesis by blast
qed

theorem recovery_never_goes_back_witness:
  "rb_generation (mp_recovery (eg_persistence recovering_engine)) < rb_generation (mp_recovery (eg_persistence fenced_engine)) \<and>
   \<not> fst (locked_by start_request fenced_engine)"
proof -
  have run: "(engine_step run_hash)\<^sup>*\<^sup>* recovering_engine fenced_engine" using demo_steps(8) by blast
  have "rb_generation (mp_recovery (eg_persistence recovering_engine)) = 1" by code_simp
  with demo_call_facts(5) have "mp_recovery (eg_persistence fenced_engine) \<noteq> mp_recovery (eg_persistence recovering_engine)" by auto
  moreover have "iv_kind start_request \<noteq> IntentApplyOperationalFence"
    by (simp add: start_request_def request_def newIntent_def iv_kind_def Let_def split: sum.splits)
  ultimately show ?thesis
    using recovery_never_goes_back [OF run] demo_call_facts(4)
    by (auto simp: locked_by_def split: sum.splits)
qed


lemma demo_evidence:
  obtains d d' result p' where "canonicalizeIntent run_hash published_request = Inr d"
    "canonicalizeIntent run_hash again_request = Inr d'"
    "decideLocked run_hash 100 published_request d (eg_persistence publishing_engine) = (True, result, p')"
    "length (knownOperations (taskOf p' ''task-1'')) < 10"
proof -
  from demo_run_facts(11,12) show thesis
    by (cases "decideLocked run_hash 100 published_request (replicate 32 CHR ''h'') (eg_persistence publishing_engine)")
      (auto simp: locked_by_def requests_evaluated(3) intro: that requests_evaluated(3,4))
qed

theorem accepted_evidence_is_current_witness:
  "\<exists>b p'. reportedOperation (iv_payload published_request) (taskOf (eg_persistence publishing_engine) ''task-1'') = Some b \<and>
     \<not> ob_terminal b \<and>
     map_option ob_terminal (reportedOperation (iv_payload published_request) (taskOf p' ''task-1'')) = Some True"
proof -
  obtain d d' result p' where d: "canonicalizeIntent run_hash published_request = Inr d"
    and locked: "decideLocked run_hash 100 published_request d (eg_persistence publishing_engine) = (True, result, p')"
    by (rule demo_evidence)
  have evidence: "evidenceFacts (iv_payload published_request) \<noteq> None"
    "ih_TaskID (iv_header published_request) = ''task-1''" by code_simp+
  from accepted_evidence_is_current [OF d locked evidence(1)] evidence(2) show ?thesis
    by (auto simp: evidence_fits_def)
qed

theorem evidence_is_accepted_once_witness:
  "\<exists>p. fst (locked_by published_request publishing_engine) \<and>
     p = snd (snd (locked_by published_request publishing_engine)) \<and>
     \<not> fst (locked_by again_request (publishing_engine\<lparr>eg_persistence := p\<rparr>))"
proof -
  obtain d d' result p' where d: "canonicalizeIntent run_hash published_request = Inr d"
    "canonicalizeIntent run_hash again_request = Inr d'"
    and locked: "decideLocked run_hash 100 published_request d (eg_persistence publishing_engine) = (True, result, p')"
    and short: "length (knownOperations (taskOf p' ''task-1'')) < 10"
    by (rule demo_evidence)
  obtain committed result' p'' where again: "decideLocked run_hash 100 again_request d' p' = (committed, result', p'')"
    by (metis prod_cases3)
  have keys: "evidenceKey (iv_payload published_request) = Some (PublicationOps, ''operation-000002'')"
    "evidenceKey (iv_payload again_request) = Some (PublicationOps, ''operation-000002'')"
    "ih_TaskID (iv_header again_request) = ih_TaskID (iv_header published_request)"
    "ih_TaskID (iv_header published_request) = ''task-1''" by code_simp+
  have "\<not> committed"
    using evidence_is_accepted_once [OF d(1) locked rtranclp.rtrancl_refl d(2) again keys(1-3)] short
    by (simp add: keys(4))
  with locked again d show ?thesis by (auto simp: locked_by_def)
qed

lemma demo_tasks:
  obtains a\<^sub>1 a\<^sub>2 a\<^sub>3 a\<^sub>4 where "tr_aggregate (taskOf (eg_persistence started_engine) ''task-1'') = Some a\<^sub>1"
    "tr_aggregate (taskOf (eg_persistence gated_engine) ''task-1'') = Some a\<^sub>2" "ag_status a\<^sub>2 = TaskAwaitingConfirmation"
    "tr_aggregate (taskOf (eg_persistence confirmed_engine) ''task-1'') = Some a\<^sub>3" "phase_left a\<^sub>2 a\<^sub>3"
    "tr_aggregate (taskOf (eg_persistence cancelled_engine) ''task-1'') = Some a\<^sub>4" "ag_status a\<^sub>4 = TaskCancelled"
proof -
  from demo_run_facts(13-15,17) obtain a\<^sub>1 a\<^sub>2 a\<^sub>3 a\<^sub>4 where
    "task_in started_engine = Some a\<^sub>1" "task_in gated_engine = Some a\<^sub>2" "ag_status a\<^sub>2 = TaskAwaitingConfirmation"
    "task_in confirmed_engine = Some a\<^sub>3" "phase_left a\<^sub>2 a\<^sub>3" "task_in cancelled_engine = Some a\<^sub>4"
    "ag_status a\<^sub>4 = TaskCancelled" by fastforce
  then show thesis unfolding task_in_def by (rule that)
qed

theorem task_life_refines_machine_witness:
  "\<exists>a a'. tr_aggregate (taskOf (eg_persistence started_engine) ''task-1'') = Some a \<and>
     tr_aggregate (taskOf (eg_persistence gated_engine) ''task-1'') = Some a' \<and>
     lifecycle_step (lifecycle_of a) (lifecycle_of a') \<and> lifecycle_of a = started"
proof -
  obtain a\<^sub>1 where a\<^sub>1: "tr_aggregate (taskOf (eg_persistence started_engine) ''task-1'') = Some a\<^sub>1"
    by (rule demo_tasks)
  have "mp_tasks (eg_persistence demo_engine) = []" by code_simp
  then have none: "tr_aggregate (taskOf (eg_persistence demo_engine) ''task-1'') = None"
    by (simp add: taskOf_def zeroTaskRecord_def)
  note left = demo_run_facts(4,5) [THEN roomy_left(1)]
  from task_life_refines_machine [OF demo_engines(1) roomy_runs(1) demo_steps(2) left(2), of "''task-1''"]
    task_life_refines_machine [OF demo_engines(1) rtranclp.rtrancl_refl demo_steps(1) left(1), of "''task-1''"]
  show ?thesis by (simp add: a\<^sub>1 none) blast
qed

theorem one_running_phase_run_witness:
  "\<exists>a. tr_aggregate (taskOf (eg_persistence gated_engine) ''task-1'') = Some a \<and>
     ag_status a = TaskAwaitingConfirmation \<and> ag_activePhaseRunID a \<noteq> [] \<and>
     (\<exists>run \<in> set (ag_phaseRuns a). pr_id run = ag_activePhaseRunID a)"
proof -
  obtain a where a: "tr_aggregate (taskOf (eg_persistence gated_engine) ''task-1'') = Some a"
    "ag_status a = TaskAwaitingConfirmation" by (rule demo_tasks)
  then have "ag_status a \<in> {TaskAwaitingConfirmation, TaskCancelling}" by simp
  with one_running_phase_run [OF demo_engines(1) roomy_runs(2) a(1)] a show ?thesis by blast
qed

theorem cancelled_task_stays_cancelled_witness:
  "\<exists>a. tr_aggregate (taskOf (eg_persistence (after work_request cancelled_engine)) ''task-1'') = Some a \<and>
     ag_status a = TaskCancelled"
proof -
  obtain a where a: "tr_aggregate (taskOf (eg_persistence cancelled_engine) ''task-1'') = Some a"
    "ag_status a = TaskCancelled" by (rule demo_tasks)
  have "roomy_run run_hash cancelled_engine (after work_request cancelled_engine)"
    using demo_run_facts(18) by (intro roomy_step rtranclp.rtrancl_refl)
  from cancelled_task_stays_cancelled [OF demo_engines(1) roomy_runs(3) this a(1)] a(2) show ?thesis by blast
qed

theorem phase_left_only_when_answered_witness:
  "\<exists>a a'. tr_aggregate (taskOf (eg_persistence gated_engine) ''task-1'') = Some a \<and>
     tr_aggregate (taskOf (eg_persistence confirmed_engine) ''task-1'') = Some a' \<and> phase_left a a' \<and>
     phase_passed a (ConfirmationPayload ''gate-1'' demo_digest) a'"
proof -
  obtain a a' where a: "tr_aggregate (taskOf (eg_persistence gated_engine) ''task-1'') = Some a"
    "tr_aggregate (taskOf (eg_persistence confirmed_engine) ''task-1'') = Some a'" "phase_left a a'"
    by (rule demo_tasks)
  have "iv_payload confirm_request = ConfirmationPayload ''gate-1'' demo_digest"
    by (simp add: confirm_request_def request_def newIntent_def Let_def split: sum.splits)
  with phase_left_only_when_answered [OF call a(1) a(2) [unfolded confirmed_engine_def] a(3)] a show ?thesis by auto
qed

end
