(* ===== verification/Delivery_Transport.thy ===== *)
theory Delivery_Transport
  imports Orch_State
begin

text \<open>
  The owned transport (\<open>backend/internal/taskorchestration/delivery.go\<close>): the envelope in which the
  dispatcher delivers an outbox row to a downstream module, and the protocol harness behind it,
  which answers an envelope once, repeats its answer to the same envelope, refuses another one
  under the same operation, and answers an envelope that is out of date as superseded.

  A time is \<open>moment\<close>: the instant in nanoseconds since Go's zero time, and whether its location
  is UTC. A reading of the clock and the answer of the prerequisite callback are arguments.
\<close>

section \<open>Envelopes\<close>

record moment =
  mo_at :: int
  mo_utc :: bool

definition utc :: "int \<Rightarrow> moment" where
  "utc t = \<lparr>mo_at = t, mo_utc = True\<rparr>"

abbreviation zeroTime :: moment where "zeroTime \<equiv> utc 0"

abbreviation (input) OwnedTransportV1 :: u32 where "OwnedTransportV1 \<equiv> 65536"

record OwnedTransportRequest =
  or_Version :: u32
  or_Authority :: authorityValue
  or_Deadline :: moment
  or_OperationID :: ident
  or_DecisionID :: ident
  or_TaskID :: ident
  or_PhaseRunID :: ident
  or_RuntimeRunID :: ident
  or_Kind :: EnactmentKind
  or_PayloadDigest :: digest
  or_ActivityGeneration :: u64
  or_SafetyEpoch :: u64
  or_FenceKind :: int
  or_Fence :: u64
  or_CausationID :: ident
  or_TaskRevision :: u64
  or_AcceptedEvidenceIDs :: "ident list"

abbreviation (input) OwnedTransportAccepted :: enum8 where "OwnedTransportAccepted \<equiv> 1"
abbreviation (input) OwnedTransportIntegrityConflict :: enum8 where "OwnedTransportIntegrityConflict \<equiv> 2"
abbreviation (input) OwnedTransportUnknown :: enum8 where "OwnedTransportUnknown \<equiv> 3"
abbreviation (input) OwnedTransportUnsupportedVersion :: enum8 where "OwnedTransportUnsupportedVersion \<equiv> 4"
abbreviation (input) OwnedTransportUnauthorized :: enum8 where "OwnedTransportUnauthorized \<equiv> 5"
abbreviation (input) OwnedTransportPoisoned :: enum8 where "OwnedTransportPoisoned \<equiv> 6"
abbreviation (input) OwnedTransportBackpressured :: enum8 where "OwnedTransportBackpressured \<equiv> 7"
abbreviation (input) OwnedTransportSuperseded :: enum8 where "OwnedTransportSuperseded \<equiv> 8"
abbreviation (input) OwnedTransportDeferred :: enum8 where "OwnedTransportDeferred \<equiv> 9"

abbreviation (input) OwnedTransportPrerequisiteDeferred :: enum8 where
  "OwnedTransportPrerequisiteDeferred \<equiv> 1"

record OwnedTransportResponse =
  os_Version :: u32
  os_OperationID :: ident
  os_Outcome :: enum8
  os_ResultDigest :: digest
  os_Duplicate :: bool
  os_RetryAt :: moment
  os_DeferralReason :: enum8

record OwnedTransportInspection =
  oi_Version :: u32
  oi_Authority :: authorityValue
  oi_OperationID :: ident

text \<open>The only error a delivery or an inspection ends in.\<close>

datatype OwnedTransportErrorCode = OwnedTransportInvalidConfiguration | OwnedTransportUnavailable

definition validDeliveryAuthority :: "authorityValue \<Rightarrow> bool" where
  "validDeliveryAuthority a = (authority_valid a \<and> av_kind a = AuthorityWorker)"

definition validEnactmentKind :: "EnactmentKind \<Rightarrow> bool" where
  "validEnactmentKind k = (1 \<le> enactment_kind_code k \<and> enactment_kind_code k \<le> 6)"

definition validEnactmentFenceKind :: "int \<Rightarrow> bool" where
  "validEnactmentFenceKind k = (1 \<le> k \<and> k \<le> 6)"

definition validOptionalOpaqueID :: "ident \<Rightarrow> bool" where
  "validOptionalOpaqueID k = (k = [] \<or> validOpaqueID k)"

definition validOwnedTransportRequest :: "OwnedTransportRequest \<Rightarrow> bool" where
  "validOwnedTransportRequest q =
     (if or_Version q \<noteq> OwnedTransportV1 \<or> \<not> validDeliveryAuthority (or_Authority q) \<or>
         or_Deadline q = zeroTime \<or> \<not> mo_utc (or_Deadline q) \<or>
         \<not> validOpaqueID (or_OperationID q) \<or> \<not> validOpaqueID (or_DecisionID q) \<or>
         \<not> validOpaqueID (or_TaskID q) \<or> \<not> validOptionalOpaqueID (or_PhaseRunID q) \<or>
         \<not> validOptionalOpaqueID (or_RuntimeRunID q) \<or> \<not> validEnactmentKind (or_Kind q) \<or>
         or_PayloadDigest q = zero_digest \<or> or_ActivityGeneration q = 0 \<or> or_SafetyEpoch q = 0 \<or>
         \<not> validEnactmentFenceKind (or_FenceKind q) \<or> or_Fence q = 0 \<or>
         \<not> validOpaqueID (or_CausationID q) \<or> or_TaskRevision q = 0
      then False
      else list_all validOpaqueID (or_AcceptedEvidenceIDs q))"

text \<open>
  The binding of an envelope: everything it says about the enactment, but neither the worker nor
  the deadline.
\<close>

definition ownedTransportBinding :: "hashing \<Rightarrow> OwnedTransportRequest \<Rightarrow> digest" where
  "ownedTransportBinding h q =
     hs_value h []
       (JObj
         [(''Version'', jword (or_Version q)), (''OperationID'', JStr (or_OperationID q)),
          (''DecisionID'', JStr (or_DecisionID q)), (''TaskID'', JStr (or_TaskID q)),
          (''PhaseRunID'', JStr (or_PhaseRunID q)), (''RuntimeRunID'', JStr (or_RuntimeRunID q)),
          (''Kind'', JNum (enactment_kind_code (or_Kind q))),
          (''PayloadDigest'', JStr (hex_encode (or_PayloadDigest q))),
          (''ActivityGeneration'', jword (or_ActivityGeneration q)),
          (''SafetyEpoch'', jword (or_SafetyEpoch q)), (''FenceKind'', JNum (or_FenceKind q)),
          (''Fence'', jword (or_Fence q)), (''CausationID'', JStr (or_CausationID q)),
          (''TaskRevision'', jword (or_TaskRevision q)),
          (''AcceptedEvidenceIDs'', JList (map JStr (sort (or_AcceptedEvidenceIDs q))))])"

section \<open>The protocol harness\<close>

type_synonym ownedTransportScope = "ident \<times> int \<times> ident \<times> ident"
type_synonym ownedTransportOrder = "u64 \<times> u64"

definition order_before :: "ownedTransportOrder \<Rightarrow> ownedTransportOrder \<Rightarrow> bool" where
  "order_before a b = (fst a < fst b \<or> fst a = fst b \<and> snd a < snd b)"

record OwnedTransportConfig =
  oc_SupportedVersion :: u32
  oc_Authorities :: "authorityValue list"
  oc_PrerequisiteRetryDelay :: int

record ownedTransportState =
  ot_journal :: "(ident \<times> (digest \<times> OwnedTransportResponse)) list"
  ot_latest :: "(ownedTransportScope \<times> ownedTransportOrder) list"

definition NewDeterministicOwnedTransport ::
  "OwnedTransportConfig \<Rightarrow> OwnedTransportErrorCode + OwnedTransportConfig \<times> ownedTransportState" where
  "NewDeterministicOwnedTransport c =
     (if oc_SupportedVersion c \<noteq> OwnedTransportV1 \<or> oc_Authorities c = [] \<or>
         oc_PrerequisiteRetryDelay c \<le> 0 \<or> \<not> list_all validDeliveryAuthority (oc_Authorities c)
      then Inl OwnedTransportInvalidConfiguration
      else Inr (c, \<lparr>ot_journal = [], ot_latest = []\<rparr>))"

definition transportAuthorized :: "OwnedTransportConfig \<Rightarrow> authorityValue \<Rightarrow> bool" where
  "transportAuthorized c a = list_ex (\<lambda>allowed. allowed = a) (oc_Authorities c)"

definition transportAnswer :: "OwnedTransportConfig \<Rightarrow> ident \<Rightarrow> enum8 \<Rightarrow> OwnedTransportResponse" where
  "transportAnswer c k outcome =
     \<lparr>os_Version = oc_SupportedVersion c, os_OperationID = k, os_Outcome = outcome,
      os_ResultDigest = zero_digest, os_Duplicate = False, os_RetryAt = zeroTime, os_DeferralReason = 0\<rparr>"

definition requestScope :: "OwnedTransportRequest \<Rightarrow> ownedTransportScope" where
  "requestScope q = (or_TaskID q, or_FenceKind q, or_PhaseRunID q, or_RuntimeRunID q)"

definition requestOrder :: "OwnedTransportRequest \<Rightarrow> ownedTransportOrder" where
  "requestOrder q = (or_ActivityGeneration q, or_Fence q)"

text \<open>The part of a delivery under the lock, for an envelope that passed the checks before it.\<close>

definition transportDeliverLocked ::
  "hashing \<Rightarrow> OwnedTransportConfig \<Rightarrow> int \<Rightarrow> int \<Rightarrow> bool \<Rightarrow> OwnedTransportRequest \<Rightarrow> ownedTransportState \<Rightarrow>
   (OwnedTransportErrorCode + OwnedTransportResponse) \<times> ownedTransportState" where
  "transportDeliverLocked h c now later satisfied q s =
     (let k = or_OperationID q; binding = ownedTransportBinding h q;
          scope = requestScope q; position = requestOrder q;
          journalled = (\<lambda>r. s\<lparr>ot_journal := AList.update k (binding, r) (ot_journal s)\<rparr>) in
      case map_of (ot_journal s) k of
        Some (committed, response) \<Rightarrow>
          (if committed \<noteq> binding then Inr (transportAnswer c k OwnedTransportIntegrityConflict)
           else Inr (response\<lparr>os_Duplicate := True\<rparr>), s)
      | None \<Rightarrow>
          if \<not> mo_at (or_Deadline q) > now then (Inl OwnedTransportUnavailable, s)
          else if (case map_of (ot_latest s) scope of None \<Rightarrow> False | Some latest \<Rightarrow> order_before position latest)
          then (let r = transportAnswer c k OwnedTransportSuperseded in (Inr r, journalled r))
          else if \<not> satisfied
          then (if later = 0 then Inl OwnedTransportUnavailable
                else Inr ((transportAnswer c k OwnedTransportDeferred)
                  \<lparr>os_DeferralReason := OwnedTransportPrerequisiteDeferred,
                   os_RetryAt := utc (later + oc_PrerequisiteRetryDelay c)\<rparr>), s)
          else
            let r = (transportAnswer c k OwnedTransportAccepted)
                  \<lparr>os_ResultDigest := hs_text h (''owned-transport-result-v1|'' @ binding)\<rparr> in
            (Inr r,
             (journalled r)\<lparr>ot_latest :=
                (case map_of (ot_latest s) scope of
                   None \<Rightarrow> AList.update scope position (ot_latest s)
                 | Some latest \<Rightarrow>
                     if order_before latest position then AList.update scope position (ot_latest s)
                     else ot_latest s)\<rparr>))"

definition transportDeliver ::
  "hashing \<Rightarrow> OwnedTransportConfig \<Rightarrow> bool \<Rightarrow> int \<Rightarrow> int \<Rightarrow> bool \<Rightarrow> OwnedTransportRequest \<Rightarrow> ownedTransportState \<Rightarrow>
   (OwnedTransportErrorCode + OwnedTransportResponse) \<times> ownedTransportState" where
  "transportDeliver h c contextDone now later satisfied q s =
     (if contextDone then (Inl OwnedTransportUnavailable, s)
      else if or_Version q \<noteq> oc_SupportedVersion c
      then (Inr (transportAnswer c (or_OperationID q) OwnedTransportUnsupportedVersion), s)
      else if \<not> transportAuthorized c (or_Authority q)
      then (Inr (transportAnswer c (or_OperationID q) OwnedTransportUnauthorized), s)
      else if \<not> validOwnedTransportRequest q
      then (Inr (transportAnswer c (or_OperationID q) OwnedTransportPoisoned), s)
      else transportDeliverLocked h c now later satisfied q s)"

definition transportInspect ::
  "OwnedTransportConfig \<Rightarrow> bool \<Rightarrow> OwnedTransportInspection \<Rightarrow> ownedTransportState \<Rightarrow>
   OwnedTransportErrorCode + OwnedTransportResponse" where
  "transportInspect c contextDone i s =
     (let k = oi_OperationID i in
      if contextDone then Inl OwnedTransportUnavailable
      else if oi_Version i \<noteq> oc_SupportedVersion c
      then Inr (transportAnswer c k OwnedTransportUnsupportedVersion)
      else if \<not> transportAuthorized c (oi_Authority i) \<or> \<not> validOpaqueID k
      then Inr (transportAnswer c k OwnedTransportUnauthorized)
      else case map_of (ot_journal s) k of
        None \<Rightarrow> Inr (transportAnswer c k OwnedTransportUnknown)
      | Some (binding, response) \<Rightarrow> Inr (response\<lparr>os_Duplicate := True\<rparr>))"

end
