(* ===== verification/Delivery_Dispatch.thy ===== *)
theory Delivery_Dispatch
  imports Delivery_Transport Orch_Decide "HOL-Library.Product_Lexorder"
begin

text \<open>
  The outbox dispatcher (\<open>backend/internal/taskorchestration/delivery.go\<close>): workers claim rows of
  the outbox under a lease with a fence, deliver them through an owned transport, and settle what
  they learn; a delivery whose outcome is not known is not repeated before the transport was
  asked about it.

  \<open>Deliver\<close> and \<open>Reconcile\<close> call the transport between two sections under the lock, so each is a
  function that begins it and one that completes it; \<open>Deliver\<close> and \<open>Reconcile\<close> themselves put the
  call of a transport between the two. Every reading of the clock is an argument.
\<close>

section \<open>Configuration and faults\<close>

datatype DeliveryFaultPoint =
    DeliveryFaultBeforeClaimCommit
  | DeliveryFaultAfterClaimCommit
  | DeliveryFaultBeforeSend
  | DeliveryFaultAfterSend
  | DeliveryFaultBeforeDispositionCommit
  | DeliveryFaultAfterDispositionCommit

datatype DeliveryErrorCode =
    DeliveryInvalidRequest
  | DeliveryAuthorizationDenied
  | DeliveryClaimLost
  | DeliveryUnavailable

record DispatcherConfig =
  dc_MaxBatchSize :: u32
  dc_LeaseDuration :: int
  dc_TransportVersion :: u32
  dc_Authorities :: "authorityValue list"

definition NewOutboxDispatcher :: "DispatcherConfig \<Rightarrow> DeliveryErrorCode + DispatcherConfig" where
  "NewOutboxDispatcher c =
     (if dc_MaxBatchSize c = 0 \<or> dc_LeaseDuration c \<le> 0 \<or> dc_TransportVersion c \<noteq> OwnedTransportV1 \<or>
         dc_Authorities c = [] \<or> \<not> list_all validDeliveryAuthority (dc_Authorities c)
      then Inl DeliveryInvalidRequest else Inr c)"

definition dispatcherAuthorized :: "DispatcherConfig \<Rightarrow> authorityValue \<Rightarrow> bool" where
  "dispatcherAuthorized c a =
     (if \<not> validDeliveryAuthority a then False
      else list_ex (\<lambda>allowed. allowed = a) (dc_Authorities c))"

section \<open>Deliveries\<close>

datatype DeliveryDisposition =
    DeliveryUnset
  | DeliveryPending
  | DeliveryClaimed
  | DeliveryAccepted
  | DeliveryReconciliationRequired
  | DeliveryBackpressured
  | DeliverySuperseded
  | DeliveryPoisoned
  | DeliveryDeferred
  | DeliveryIntegrityConflict

record deliveryState =
  dv_Authority :: authorityValue
  dv_LeaseFence :: u64
  dv_LeaseExpiresAt :: moment
  dv_Disposition :: DeliveryDisposition
  dv_ResultDigest :: digest
  dv_DeliveryCount :: u32
  dv_SendStarted :: bool
  dv_Terminal :: bool
  dv_ReconcileFence :: u64
  dv_RetryAt :: moment
  dv_DeferralReason :: enum8

definition zeroDelivery :: deliveryState where
  "zeroDelivery =
     \<lparr>dv_Authority = zeroAuthority, dv_LeaseFence = 0, dv_LeaseExpiresAt = zeroTime,
      dv_Disposition = DeliveryUnset, dv_ResultDigest = zero_digest, dv_DeliveryCount = 0,
      dv_SendStarted = False, dv_Terminal = False, dv_ReconcileFence = 0, dv_RetryAt = zeroTime,
      dv_DeferralReason = 0\<rparr>"

text \<open>The dispatcher's own state; the outbox and the tasks belong to the engine.\<close>

record dispatcherState =
  ds_deliveries :: "(ident \<times> deliveryState) list"
  ds_fault :: "DeliveryFaultPoint option"

definition deliveryOf :: "dispatcherState \<Rightarrow> ident \<Rightarrow> deliveryState" where
  "deliveryOf s k = (case map_of (ds_deliveries s) k of None \<Rightarrow> zeroDelivery | Some v \<Rightarrow> v)"

definition putDelivery :: "ident \<Rightarrow> deliveryState \<Rightarrow> dispatcherState \<Rightarrow> dispatcherState" where
  "putDelivery k v s = s\<lparr>ds_deliveries := AList.update k v (ds_deliveries s)\<rparr>"

definition deliveryFailNextAt :: "DeliveryFaultPoint \<Rightarrow> dispatcherState \<Rightarrow> dispatcherState" where
  "deliveryFailNextAt point s = s\<lparr>ds_fault := Some point\<rparr>"

definition deliveryFaultAt :: "DeliveryFaultPoint \<Rightarrow> dispatcherState \<Rightarrow> bool \<times> dispatcherState" where
  "deliveryFaultAt point s =
     (if ds_fault s \<noteq> Some point then (False, s) else (True, s\<lparr>ds_fault := None\<rparr>))"

definition deliveryCanBeSuperseded :: "deliveryState \<Rightarrow> bool" where
  "deliveryCanBeSuperseded v =
     (if dv_Terminal v \<or> dv_Disposition v = DeliveryReconciliationRequired then False
      else case dv_Disposition v of
        DeliveryUnset \<Rightarrow> True | DeliveryPending \<Rightarrow> True | DeliveryBackpressured \<Rightarrow> True
      | DeliveryDeferred \<Rightarrow> True | DeliveryClaimed \<Rightarrow> \<not> dv_SendStarted v | _ \<Rightarrow> False)"

text \<open>The lease given up: no worker holds the delivery and no send of it is under way.\<close>

definition released :: "deliveryState \<Rightarrow> deliveryState" where
  "released v = v\<lparr>dv_Authority := zeroAuthority, dv_LeaseExpiresAt := zeroTime, dv_SendStarted := False\<rparr>"

definition superseded :: "deliveryState \<Rightarrow> deliveryState" where
  "superseded v = released (v\<lparr>dv_Disposition := DeliverySuperseded, dv_Terminal := True\<rparr>)"

definition inDoubt :: "deliveryState \<Rightarrow> deliveryState" where
  "inDoubt v = released (v\<lparr>dv_Disposition := DeliveryReconciliationRequired\<rparr>)"

definition outboxPosition :: "outboxRecord \<Rightarrow> ownedTransportScope \<times> ownedTransportOrder" where
  "outboxPosition row =
     (let ref = ox_EnactmentRef row; (kind, fence) = postgresFenceValue (en_Fence ref) in
      ((ox_TaskID row, kind, ox_PhaseRunID row, ox_RuntimeRunID row), (en_ActivityGeneration ref, fence)))"

definition outboxRecordSuperseded :: "outboxRecord \<Rightarrow> (ident \<times> outboxRecord) list \<Rightarrow> bool" where
  "outboxRecordSuperseded row outbox =
     list_ex (\<lambda>(k, candidate). k \<noteq> en_OperationID (ox_EnactmentRef row) \<and>
        fst (outboxPosition candidate) = fst (outboxPosition row) \<and>
        order_before (snd (outboxPosition row)) (snd (outboxPosition candidate))) outbox"

text \<open>The safety epoch of the task moved past the row's.\<close>

definition epochPassed :: "memoryPersistence \<Rightarrow> outboxRecord \<Rightarrow> bool" where
  "epochPassed p row =
     (case map_of (mp_tasks p) (ox_TaskID row) of
        None \<Rightarrow> False
      | Some r \<Rightarrow> ox_SafetyEpoch row < effectiveSafetyEpoch r (mp_recovery p))"

definition deliveryOutdated :: "memoryPersistence \<Rightarrow> outboxRecord \<Rightarrow> deliveryState \<Rightarrow> bool" where
  "deliveryOutdated p row v =
     (deliveryCanBeSuperseded v \<and> (outboxRecordSuperseded row (mp_outbox p) \<or> epochPassed p row))"

definition transportRequest :: "DispatcherConfig \<Rightarrow> outboxRecord \<Rightarrow> authorityValue \<Rightarrow> OwnedTransportRequest" where
  "transportRequest c row authority =
     (let ref = ox_EnactmentRef row; (kind, fence) = postgresFenceValue (en_Fence ref) in
      \<lparr>or_Version = dc_TransportVersion c, or_Authority = authority, or_Deadline = zeroTime,
       or_OperationID = en_OperationID ref, or_DecisionID = ox_DecisionID row, or_TaskID = ox_TaskID row,
       or_PhaseRunID = ox_PhaseRunID row, or_RuntimeRunID = ox_RuntimeRunID row, or_Kind = en_Kind ref,
       or_PayloadDigest = en_PayloadDigest ref, or_ActivityGeneration = en_ActivityGeneration ref,
       or_SafetyEpoch = ox_SafetyEpoch row, or_FenceKind = kind, or_Fence = fence,
       or_CausationID = en_CausationID ref, or_TaskRevision = ox_TaskRevision row,
       or_AcceptedEvidenceIDs = ox_AcceptedEvidenceIDs row\<rparr>)"

section \<open>Claiming\<close>

record DeliveryClaim =
  cl_OperationID :: ident
  cl_Request :: OwnedTransportRequest
  cl_LeaseFence :: u64
  cl_LeaseExpiresAt :: moment

definition leaseLive :: "int \<Rightarrow> deliveryState \<Rightarrow> bool" where
  "leaseLive now v = (mo_at (dv_LeaseExpiresAt v) > now)"

definition leased :: "DispatcherConfig \<Rightarrow> authorityValue \<Rightarrow> int \<Rightarrow> deliveryState \<Rightarrow> deliveryState" where
  "leased c authority now v =
     v\<lparr>dv_Authority := authority, dv_LeaseFence := dv_LeaseFence v + 1,
       dv_LeaseExpiresAt := utc (now + dc_LeaseDuration c), dv_Disposition := DeliveryClaimed,
       dv_SendStarted := False, dv_RetryAt := zeroTime, dv_DeferralReason := 0\<rparr>"

definition claimOf :: "DispatcherConfig \<Rightarrow> authorityValue \<Rightarrow> ident \<Rightarrow> outboxRecord \<Rightarrow> deliveryState \<Rightarrow> DeliveryClaim" where
  "claimOf c authority k row v =
     \<lparr>cl_OperationID = k,
      cl_Request = (transportRequest c row authority)\<lparr>or_Deadline := dv_LeaseExpiresAt v\<rparr>,
      cl_LeaseFence = dv_LeaseFence v, cl_LeaseExpiresAt = dv_LeaseExpiresAt v\<rparr>"

text \<open>One turn of the loop: what becomes of the delivery, and whether it is claimed.\<close>

definition claimTurn ::
  "DispatcherConfig \<Rightarrow> authorityValue \<Rightarrow> int \<Rightarrow> memoryPersistence \<Rightarrow> outboxRecord \<Rightarrow> deliveryState \<Rightarrow>
   deliveryState option \<times> bool" where
  "claimTurn c authority now p row v =
     (if deliveryOutdated p row v then (Some (superseded v), False)
      else if dv_Terminal v \<or> dv_Disposition v = DeliveryReconciliationRequired \<or>
              mo_at (dv_RetryAt v) > now \<or> dv_LeaseFence v \<noteq> 0 \<and> leaseLive now v
      then (None, False)
      else if dv_Disposition v = DeliveryClaimed \<and> dv_SendStarted v then (Some (inDoubt v), False)
      else (Some (leased c authority now v), True))"

text \<open>The loop over the sorted rows, until the batch is full.\<close>

fun claimLoop ::
  "DispatcherConfig \<Rightarrow> authorityValue \<Rightarrow> int \<Rightarrow> memoryPersistence \<Rightarrow> nat \<Rightarrow> (ident \<times> outboxRecord) list \<Rightarrow>
   dispatcherState \<Rightarrow> DeliveryClaim list \<times> dispatcherState" where
  "claimLoop c authority now p room [] s = ([], s)"
| "claimLoop c authority now p room ((k, row) # rows) s =
     (case claimTurn c authority now p row (deliveryOf s k) of
        (None, _) \<Rightarrow> claimLoop c authority now p room rows s
      | (Some v, False) \<Rightarrow> claimLoop c authority now p room rows (putDelivery k v s)
      | (Some v, True) \<Rightarrow>
          (if room = 1 then ([claimOf c authority k row v], putDelivery k v s)
           else
             let (claims, s) = claimLoop c authority now p (room - 1) rows (putDelivery k v s) in
             (claimOf c authority k row v # claims, s)))"

definition claimOrder :: "(ident \<times> outboxRecord) list \<Rightarrow> (ident \<times> outboxRecord) list" where
  "claimOrder outbox = sort_key (\<lambda>(k, row). (ox_CommittedAt row, k)) outbox"

definition Claim ::
  "DispatcherConfig \<Rightarrow> bool \<Rightarrow> authorityValue \<Rightarrow> u32 \<Rightarrow> int \<Rightarrow> memoryPersistence \<Rightarrow> dispatcherState \<Rightarrow>
   (DeliveryErrorCode + DeliveryClaim list) \<times> dispatcherState" where
  "Claim c contextDone authority limit now p s =
     (if contextDone \<or> limit = 0 \<or> \<not> dispatcherAuthorized c authority
      then (Inl DeliveryAuthorizationDenied, s)
      else if now = 0 then (Inl DeliveryUnavailable, s)
      else
        let limit = (if limit > dc_MaxBatchSize c then dc_MaxBatchSize c else limit);
            (claims, s') = claimLoop c authority now p (unat limit) (claimOrder (mp_outbox p)) s;
            (before_commit, s') = deliveryFaultAt DeliveryFaultBeforeClaimCommit s' in
        if before_commit then (Inl DeliveryUnavailable, s'\<lparr>ds_deliveries := ds_deliveries s\<rparr>)
        else
          let (after_commit, s') = deliveryFaultAt DeliveryFaultAfterClaimCommit s' in
          if after_commit then (Inl DeliveryUnavailable, s') else (Inr claims, s'))"

definition Heartbeat ::
  "DispatcherConfig \<Rightarrow> bool \<Rightarrow> authorityValue \<Rightarrow> ident \<Rightarrow> u64 \<Rightarrow> int \<Rightarrow> memoryPersistence \<Rightarrow> dispatcherState \<Rightarrow>
   (DeliveryErrorCode + DeliveryClaim) \<times> dispatcherState" where
  "Heartbeat c contextDone authority k fence now p s =
     (if contextDone then (Inl DeliveryUnavailable, s)
      else if \<not> dispatcherAuthorized c authority \<or> \<not> validOpaqueID k \<or> fence = 0
      then (Inl DeliveryAuthorizationDenied, s)
      else if now = 0 then (Inl DeliveryUnavailable, s)
      else case (map_of (ds_deliveries s) k, map_of (mp_outbox p) k) of
        (Some v, Some row) \<Rightarrow>
          if dv_Authority v \<noteq> authority \<or> dv_LeaseFence v \<noteq> fence \<or> \<not> leaseLive now v
          then (Inl DeliveryClaimLost, s)
          else
            let v = v\<lparr>dv_LeaseExpiresAt := utc (now + dc_LeaseDuration c)\<rparr> in
            (Inr (claimOf c authority k row v), putDelivery k v s)
      | _ \<Rightarrow> (Inl DeliveryClaimLost, s))"

section \<open>Outcomes\<close>

record DeliveryResult =
  dr_OperationID :: ident
  dr_Disposition :: DeliveryDisposition
  dr_ResultDigest :: digest
  dr_DeliveryCount :: u32
  dr_RetryAt :: moment
  dr_DeferralReason :: enum8

definition deliveryResultFromState :: "ident \<Rightarrow> deliveryState \<Rightarrow> DeliveryResult" where
  "deliveryResultFromState k v =
     \<lparr>dr_OperationID = k, dr_Disposition = dv_Disposition v, dr_ResultDigest = dv_ResultDigest v,
      dr_DeliveryCount = dv_DeliveryCount v, dr_RetryAt = dv_RetryAt v, dr_DeferralReason = dv_DeferralReason v\<rparr>"

record normalizedDeliveryOutcome =
  no_disposition :: DeliveryDisposition
  no_resultDigest :: digest
  no_terminal :: bool
  no_retryAt :: moment
  no_deferralReason :: enum8

definition outcomeOf :: "DeliveryDisposition \<Rightarrow> bool \<Rightarrow> normalizedDeliveryOutcome" where
  "outcomeOf disposition terminal =
     \<lparr>no_disposition = disposition, no_resultDigest = zero_digest, no_terminal = terminal,
      no_retryAt = zeroTime, no_deferralReason = 0\<rparr>"

datatype deliveryOutcomeSource = deliveryOutcomeFromSend | deliveryOutcomeFromInspection

definition normalizeDeliveryOutcome ::
  "OwnedTransportResponse \<Rightarrow> int \<Rightarrow> deliveryOutcomeSource \<Rightarrow> normalizedDeliveryOutcome option" where
  "normalizeDeliveryOutcome r now origin =
     (let outcome = os_Outcome r; later = mo_utc (os_RetryAt r) \<and> mo_at (os_RetryAt r) > now in
      if outcome = OwnedTransportAccepted
      then (if os_ResultDigest r = zero_digest then None
            else Some ((outcomeOf DeliveryAccepted True)\<lparr>no_resultDigest := os_ResultDigest r\<rparr>))
      else if outcome = OwnedTransportUnknown
      then (if origin \<noteq> deliveryOutcomeFromInspection then None else Some (outcomeOf DeliveryPending False))
      else if outcome = OwnedTransportBackpressured
      then (if \<not> later then None
            else Some ((outcomeOf DeliveryBackpressured False)\<lparr>no_retryAt := os_RetryAt r\<rparr>))
      else if outcome = OwnedTransportDeferred
      then (if os_DeferralReason r \<noteq> OwnedTransportPrerequisiteDeferred \<or> \<not> later then None
            else Some ((outcomeOf DeliveryDeferred False)
              \<lparr>no_retryAt := os_RetryAt r, no_deferralReason := os_DeferralReason r\<rparr>))
      else if outcome = OwnedTransportSuperseded then Some (outcomeOf DeliverySuperseded True)
      else if outcome \<in> {OwnedTransportPoisoned, OwnedTransportUnsupportedVersion, OwnedTransportUnauthorized}
      then Some (outcomeOf DeliveryPoisoned True)
      else if outcome = OwnedTransportIntegrityConflict
      then Some (outcomeOf DeliveryIntegrityConflict True)
      else None)"

definition applyNormalizedDeliveryOutcome ::
  "normalizedDeliveryOutcome \<Rightarrow> deliveryState \<Rightarrow> deliveryState" where
  "applyNormalizedDeliveryOutcome outcome v =
     v\<lparr>dv_Disposition := no_disposition outcome, dv_ResultDigest := no_resultDigest outcome,
       dv_Terminal := no_terminal outcome, dv_RetryAt := no_retryAt outcome,
       dv_DeferralReason := no_deferralReason outcome\<rparr>"

section \<open>Delivering\<close>

text \<open>The first section of \<open>Deliver\<close>: it fails, settles the delivery, or sends an envelope.\<close>

datatype deliverStart =
    DeliverFails DeliveryErrorCode
  | DeliverSettles DeliveryResult
  | DeliverSends OwnedTransportRequest

definition holdsClaim :: "deliveryState \<Rightarrow> authorityValue \<Rightarrow> u64 \<Rightarrow> bool" where
  "holdsClaim v authority fence = (\<not> dv_Terminal v \<and> dv_Authority v = authority \<and> dv_LeaseFence v = fence)"

definition sending :: "deliveryState \<Rightarrow> deliveryState" where
  "sending v = v\<lparr>dv_DeliveryCount := dv_DeliveryCount v + 1, dv_SendStarted := True\<rparr>"

definition beginDeliver ::
  "DispatcherConfig \<Rightarrow> bool \<Rightarrow> DeliveryClaim \<Rightarrow> int \<Rightarrow> memoryPersistence \<Rightarrow> dispatcherState \<Rightarrow>
   deliverStart \<times> dispatcherState" where
  "beginDeliver c contextDone claim now p s =
     (let k = cl_OperationID claim; authority = or_Authority (cl_Request claim);
          settles = (\<lambda>v. (DeliverSettles (deliveryResultFromState k v), putDelivery k v s)) in
      if contextDone then (DeliverFails DeliveryUnavailable, s)
      else if \<not> dispatcherAuthorized c authority \<or> \<not> validOpaqueID k \<or> cl_LeaseFence claim = 0
      then (DeliverFails DeliveryAuthorizationDenied, s)
      else if now = 0 then (DeliverFails DeliveryUnavailable, s)
      else case (map_of (ds_deliveries s) k, map_of (mp_outbox p) k) of
        (Some v, Some row) \<Rightarrow>
          if \<not> holdsClaim v authority (cl_LeaseFence claim) \<or> \<not> leaseLive now v
          then (DeliverFails DeliveryClaimLost, s)
          else if dv_SendStarted v then settles (inDoubt v)
          else if deliveryOutdated p row v then settles (superseded v)
          else
            let (failed, s) = deliveryFaultAt DeliveryFaultBeforeSend s in
            if failed then (DeliverFails DeliveryUnavailable, s)
            else
              let v = sending v in
              (DeliverSends ((transportRequest c row authority)\<lparr>or_Deadline := dv_LeaseExpiresAt v\<rparr>),
               putDelivery k v s)
      | _ \<Rightarrow> (DeliverFails DeliveryClaimLost, s))"

definition finishClaim ::
  "DeliveryClaim \<Rightarrow> authorityValue \<Rightarrow> (deliveryState \<Rightarrow> deliveryState) \<Rightarrow> bool \<Rightarrow> int \<Rightarrow> dispatcherState \<Rightarrow>
   (DeliveryErrorCode + DeliveryResult) \<times> dispatcherState" where
  "finishClaim claim authority settle requireLiveLease now s =
     (let k = cl_OperationID claim in
      case map_of (ds_deliveries s) k of
        None \<Rightarrow> (Inl DeliveryClaimLost, s)
      | Some v \<Rightarrow>
          if \<not> holdsClaim v authority (cl_LeaseFence claim) \<or> requireLiveLease \<and> \<not> leaseLive now v
          then (Inl DeliveryClaimLost, s)
          else
            let v = released (settle v);
                (before_commit, s) = deliveryFaultAt DeliveryFaultBeforeDispositionCommit s in
            if before_commit then (Inl DeliveryUnavailable, s)
            else
              let (after_commit, s) = deliveryFaultAt DeliveryFaultAfterDispositionCommit (putDelivery k v s) in
              if after_commit then (Inl DeliveryUnavailable, s)
              else (Inr (deliveryResultFromState k v), s))"

definition markReconciliationRequired ::
  "DeliveryClaim \<Rightarrow> authorityValue \<Rightarrow> int \<Rightarrow> dispatcherState \<Rightarrow>
   (DeliveryErrorCode + DeliveryResult) \<times> dispatcherState" where
  "markReconciliationRequired claim authority now s =
     finishClaim claim authority (\<lambda>v. v\<lparr>dv_Disposition := DeliveryReconciliationRequired\<rparr>) False now s"

text \<open>The second section, with the answer of the transport to the envelope.\<close>

definition completeDeliver ::
  "DeliveryClaim \<Rightarrow> OwnedTransportRequest \<Rightarrow> OwnedTransportErrorCode + OwnedTransportResponse \<Rightarrow> int \<Rightarrow> int \<Rightarrow> dispatcherState \<Rightarrow>
   (DeliveryErrorCode + DeliveryResult) \<times> dispatcherState" where
  "completeDeliver claim q answer now later s =
     (let authority = or_Authority (cl_Request claim);
          (failed, s) = deliveryFaultAt DeliveryFaultAfterSend s in
      if failed then (Inl DeliveryUnavailable, s)
      else case answer of
        Inl _ \<Rightarrow> markReconciliationRequired claim authority later s
      | Inr r \<Rightarrow>
          if os_Version r \<noteq> or_Version q \<or> os_OperationID r \<noteq> or_OperationID q
          then markReconciliationRequired claim authority later s
          else case normalizeDeliveryOutcome r now deliveryOutcomeFromSend of
            None \<Rightarrow> markReconciliationRequired claim authority later s
          | Some outcome \<Rightarrow>
              finishClaim claim authority (applyNormalizedDeliveryOutcome outcome)
                (no_disposition outcome = DeliveryAccepted) later s)"

definition Deliver ::
  "DispatcherConfig \<Rightarrow> (OwnedTransportRequest \<Rightarrow> 't \<Rightarrow> (OwnedTransportErrorCode + OwnedTransportResponse) \<times> 't) \<Rightarrow> bool \<Rightarrow>
   DeliveryClaim \<Rightarrow> int \<Rightarrow> int \<Rightarrow> int \<Rightarrow> memoryPersistence \<Rightarrow> dispatcherState \<Rightarrow> 't \<Rightarrow>
   (DeliveryErrorCode + DeliveryResult) \<times> dispatcherState \<times> 't" where
  "Deliver c send contextDone claim now answered later p s t =
     (case beginDeliver c contextDone claim now p s of
        (DeliverFails e, s) \<Rightarrow> (Inl e, s, t)
      | (DeliverSettles result, s) \<Rightarrow> (Inr result, s, t)
      | (DeliverSends q, s) \<Rightarrow>
          let (answer, t) = send q t; (result, s) = completeDeliver claim q answer answered later s in
          (result, s, t))"

section \<open>Inspecting and reconciling\<close>

record DeliveryView =
  dw_OperationID :: ident
  dw_Disposition :: DeliveryDisposition
  dw_ResultDigest :: digest
  dw_DeliveryCount :: u32
  dw_Terminal :: bool
  dw_RetryAt :: moment
  dw_DeferralReason :: enum8
  dw_LeaseFence :: u64
  dw_LeaseExpiresAt :: moment

definition InspectDelivery ::
  "DispatcherConfig \<Rightarrow> bool \<Rightarrow> authorityValue \<Rightarrow> ident \<Rightarrow> memoryPersistence \<Rightarrow> dispatcherState \<Rightarrow>
   DeliveryErrorCode + DeliveryView" where
  "InspectDelivery c contextDone authority k p s =
     (if contextDone then Inl DeliveryUnavailable
      else if \<not> dispatcherAuthorized c authority \<or> \<not> validOpaqueID k then Inl DeliveryAuthorizationDenied
      else if map_of (mp_outbox p) k = None then Inl DeliveryAuthorizationDenied
      else
        let v = (case map_of (ds_deliveries s) k of
                   None \<Rightarrow> zeroDelivery\<lparr>dv_Disposition := DeliveryPending\<rparr> | Some v \<Rightarrow> v) in
        Inr \<lparr>dw_OperationID = k, dw_Disposition = dv_Disposition v, dw_ResultDigest = dv_ResultDigest v,
             dw_DeliveryCount = dv_DeliveryCount v, dw_Terminal = dv_Terminal v, dw_RetryAt = dv_RetryAt v,
             dw_DeferralReason = dv_DeferralReason v, dw_LeaseFence = dv_LeaseFence v,
             dw_LeaseExpiresAt = dv_LeaseExpiresAt v\<rparr>)"

text \<open>
  The first section of \<open>Reconcile\<close>: it fails, or takes the next reconciliation fence and asks; \<open>asked\<close> is the
  delivery as it was then.
\<close>

definition beginReconcile ::
  "DispatcherConfig \<Rightarrow> bool \<Rightarrow> authorityValue \<Rightarrow> ident \<Rightarrow> memoryPersistence \<Rightarrow> dispatcherState \<Rightarrow>
   (DeliveryErrorCode + (deliveryState \<times> OwnedTransportInspection)) \<times> dispatcherState" where
  "beginReconcile c contextDone authority k p s =
     (if contextDone then (Inl DeliveryUnavailable, s)
      else if \<not> dispatcherAuthorized c authority \<or> \<not> validOpaqueID k
      then (Inl DeliveryAuthorizationDenied, s)
      else case map_of (ds_deliveries s) k of
        None \<Rightarrow> (Inl DeliveryInvalidRequest, s)
      | Some v \<Rightarrow>
          if map_of (mp_outbox p) k = None \<or> dv_Disposition v \<noteq> DeliveryReconciliationRequired \<or> dv_Terminal v
          then (Inl DeliveryInvalidRequest, s)
          else
            let v = v\<lparr>dv_ReconcileFence := dv_ReconcileFence v + 1\<rparr> in
            (Inr (v, \<lparr>oi_Version = dc_TransportVersion c, oi_Authority = authority, oi_OperationID = k\<rparr>),
             putDelivery k v s))"

definition completeReconcile ::
  "DispatcherConfig \<Rightarrow> ident \<Rightarrow> deliveryState \<Rightarrow> OwnedTransportErrorCode + OwnedTransportResponse \<Rightarrow> int \<Rightarrow> dispatcherState \<Rightarrow>
   (DeliveryErrorCode + DeliveryResult) \<times> dispatcherState" where
  "completeReconcile c k asked answer now s =
     (case answer of
        Inl _ \<Rightarrow> (Inr (deliveryResultFromState k asked), s)
      | Inr r \<Rightarrow>
          (case map_of (ds_deliveries s) k of
             None \<Rightarrow> (Inl DeliveryClaimLost, s)
           | Some v \<Rightarrow>
               if dv_Terminal v \<or> dv_Disposition v \<noteq> DeliveryReconciliationRequired \<or>
                  dv_ReconcileFence v \<noteq> dv_ReconcileFence asked
               then (Inl DeliveryClaimLost, s)
               else if os_Version r \<noteq> dc_TransportVersion c \<or> os_OperationID r \<noteq> k
               then (Inr (deliveryResultFromState k v), s)
               else case normalizeDeliveryOutcome r now deliveryOutcomeFromInspection of
                 None \<Rightarrow> (Inr (deliveryResultFromState k v), s)
               | Some outcome \<Rightarrow>
                   let v = applyNormalizedDeliveryOutcome outcome v in
                   (Inr (deliveryResultFromState k v), putDelivery k v s)))"

definition Reconcile ::
  "DispatcherConfig \<Rightarrow> (OwnedTransportInspection \<Rightarrow> 't \<Rightarrow> OwnedTransportErrorCode + OwnedTransportResponse) \<Rightarrow> bool \<Rightarrow>
   authorityValue \<Rightarrow> ident \<Rightarrow> int \<Rightarrow> memoryPersistence \<Rightarrow> dispatcherState \<Rightarrow> 't \<Rightarrow>
   (DeliveryErrorCode + DeliveryResult) \<times> dispatcherState" where
  "Reconcile c inspect contextDone authority k now p s t =
     (case beginReconcile c contextDone authority k p s of
        (Inl e, s) \<Rightarrow> (Inl e, s)
      | (Inr (asked, inspection), s) \<Rightarrow> completeReconcile c k asked (inspect inspection t) now s)"

end
