(* ===== verification/Delivery_Changes.thy ===== *)
theory Delivery_Changes
  imports Delivery_Dispatch
begin

text \<open>
  What the operations of the dispatcher do to one delivery. \<open>delivery_change\<close> lists the nine ways a
  delivery changes; every operation leaves a delivery alone or changes it in one of them, and at
  most once. The properties of deliveries are proved over this list.
\<close>

section \<open>Changes of a delivery\<close>

inductive delivery_change :: "(OwnedTransportResponse \<Rightarrow> bool) \<Rightarrow> deliveryState \<Rightarrow> deliveryState \<Rightarrow> bool" for known where
  change_superseded: "deliveryCanBeSuperseded v \<Longrightarrow> delivery_change known v (superseded v)"
| change_leased: "\<not> dv_Terminal v \<Longrightarrow> dv_Disposition v \<noteq> DeliveryReconciliationRequired \<Longrightarrow>
    \<not> (dv_Disposition v = DeliveryClaimed \<and> dv_SendStarted v) \<Longrightarrow> validDeliveryAuthority a \<Longrightarrow>
    dv_LeaseFence v = 0 \<or> \<not> leaseLive now v \<Longrightarrow>
    delivery_change known v (leased c a now v)"
| change_extended: "leaseLive now v \<Longrightarrow> validDeliveryAuthority (dv_Authority v) \<Longrightarrow> delivery_change known v (v\<lparr>dv_LeaseExpiresAt := utc t\<rparr>)"
| change_doubted: "dv_SendStarted v \<Longrightarrow> \<not> dv_Terminal v \<Longrightarrow> delivery_change known v (inDoubt v)"
| change_sending: "\<not> dv_Terminal v \<Longrightarrow> \<not> dv_SendStarted v \<Longrightarrow> validDeliveryAuthority (dv_Authority v) \<Longrightarrow>
    delivery_change known v (sending v)"
| change_marked: "holdsClaim v a f \<Longrightarrow> dv_SendStarted v \<Longrightarrow> validDeliveryAuthority a \<Longrightarrow> delivery_change known v (inDoubt v)"
| change_settled: "holdsClaim v a f \<Longrightarrow> dv_SendStarted v \<Longrightarrow> known r \<Longrightarrow> validDeliveryAuthority a \<Longrightarrow>
    normalizeDeliveryOutcome r now deliveryOutcomeFromSend = Some x \<Longrightarrow>
    delivery_change known v (released (applyNormalizedDeliveryOutcome x v))"
| change_asked: "dv_Disposition v = DeliveryReconciliationRequired \<Longrightarrow> \<not> dv_Terminal v \<Longrightarrow>
    delivery_change known v (v\<lparr>dv_ReconcileFence := dv_ReconcileFence v + 1\<rparr>)"
| change_reported: "dv_Disposition v = DeliveryReconciliationRequired \<Longrightarrow> \<not> dv_Terminal v \<Longrightarrow>
    known r \<Longrightarrow> normalizeDeliveryOutcome r now deliveryOutcomeFromInspection = Some x \<Longrightarrow>
    delivery_change known v (applyNormalizedDeliveryOutcome x v)"

inductive_cases delivery_changeE: "delivery_change known v v'"

lemma dispatcher_fields [simp]:
  "ds_deliveries (putDelivery k v s) = AList.update k v (ds_deliveries s)"
  "ds_fault (putDelivery k v s) = ds_fault s"
  "ds_deliveries (snd (deliveryFaultAt point s)) = ds_deliveries s"
  "ds_deliveries (deliveryFailNextAt point s) = ds_deliveries s" "ds_fault (deliveryFailNextAt point s) = Some point"
  by (simp_all add: putDelivery_def deliveryFaultAt_def deliveryFailNextAt_def)

lemma deliveryFaultAt_deliveries: "deliveryFaultAt point s = (b, s') \<Longrightarrow> ds_deliveries s' = ds_deliveries s"
  by (auto simp: deliveryFaultAt_def split: if_splits)

lemma deliveryOf_put [simp]: "deliveryOf (putDelivery k v s) k' = (if k' = k then v else deliveryOf s k')"
  by (simp add: deliveryOf_def)

section \<open>Claiming\<close>

lemma claimTurn_change:
  assumes "claimTurn c a now p row v = (Some v', b)" and "validDeliveryAuthority a"
  shows "delivery_change known v v'"
  using assms
  by (auto simp: claimTurn_def deliveryOutdated_def split: if_splits intro: delivery_change.intros)

text \<open>The loop takes one turn at each row it reaches.\<close>

lemma claimLoop_other:
  "k \<notin> fst ` set rows \<Longrightarrow> claimLoop c a now p room rows s = (claims, s') \<Longrightarrow>
     map_of (ds_deliveries s') k = map_of (ds_deliveries s) k"
proof (induction c a now p room rows s arbitrary: claims s' rule: claimLoop.induct)
  case (2 c a now p room k' row rows s)
  then show ?case by (force split: option.splits bool.splits prod.splits if_splits)
qed simp

lemma claimLoop_turn:
  "distinct (map fst rows) \<Longrightarrow> claimLoop c a now p room rows s = (claims, s') \<Longrightarrow>
     map_of (ds_deliveries s') k = map_of (ds_deliveries s) k \<or>
     (\<exists>row v b. (k, row) \<in> set rows \<and> claimTurn c a now p row (deliveryOf s k) = (Some v, b) \<and>
        map_of (ds_deliveries s') k = Some v)"
proof (induction rows arbitrary: room s claims s')
  case (Cons first rows)
  obtain k' row where first: "first = (k', row)" by fastforce
  obtain turn b where turn: "claimTurn c a now p row (deliveryOf s k') = (turn, b)" by fastforce
  show ?case
  proof (cases turn)
    case None
    with turn Cons.prems have "claimLoop c a now p room rows s = (claims, s')" by (simp add: first)
    from Cons.IH [OF _ this] Cons.prems(1) show ?thesis by (auto simp: first)
  next
    case (Some v)
    with turn Cons.prems(2) consider room' claims' where
        "claimLoop c a now p room' rows (putDelivery k' v s) = (claims', s')"
      | "s' = putDelivery k' v s"
      by (auto simp: first split: bool.splits if_splits prod.splits)
    note rest = this
    show ?thesis
    proof (cases "k = k'")
      case True
      with Cons.prems(1) have "k \<notin> fst ` set rows" by (auto simp: first)
      from rest claimLoop_other [OF this] True have "map_of (ds_deliveries s') k = Some v"
        by cases auto
      with turn Some True show ?thesis by (auto simp: first)
    next
      case False
      from rest show ?thesis
      proof cases
        case (1 room' claims')
        from Cons.IH [OF _ 1] Cons.prems(1) False show ?thesis by (auto simp: first)
      next
        case 2
        with False show ?thesis by simp
      qed
    qed
  qed
qed simp

lemma claimOrder_rows [simp]:
  "set (claimOrder outbox) = set outbox" "distinct (map fst (claimOrder outbox)) = distinct (map fst outbox)"
proof -
  show "set (claimOrder outbox) = set outbox" by (simp add: claimOrder_def)
  have "mset (map fst (claimOrder outbox)) = mset (map fst outbox)"
    by (simp add: claimOrder_def)
  then show "distinct (map fst (claimOrder outbox)) = distinct (map fst outbox)"
    by (metis distinct_count_atmost_1 set_mset_mset)
qed

text \<open>
  An operation of the dispatcher, seen from one delivery. \<open>known\<close> are the answers about it the
  transport has given.
\<close>

definition changes :: "(OwnedTransportResponse \<Rightarrow> bool) \<Rightarrow> ident \<Rightarrow> dispatcherState \<Rightarrow> dispatcherState \<Rightarrow> bool" where
  "changes known k s s' \<longleftrightarrow>
     map_of (ds_deliveries s') k = map_of (ds_deliveries s) k \<or>
     (\<exists>v. delivery_change known (deliveryOf s k) v \<and> map_of (ds_deliveries s') k = Some v)"

lemma changes_same: "ds_deliveries s' = ds_deliveries s \<Longrightarrow> changes known k s s'"
  by (simp add: changes_def)

lemma changes_put: "delivery_change known (deliveryOf s k') v \<Longrightarrow> changes known k s (putDelivery k' v s)"
  by (simp add: changes_def)

lemma changes_fault: "changes known k s s' \<Longrightarrow> deliveryFaultAt point s' = (b, s'') \<Longrightarrow> changes known k s s''"
  by (simp add: changes_def deliveryFaultAt_deliveries)

lemma changes_after_fault: "deliveryFaultAt point s = (b, s') \<Longrightarrow> changes known k s' s'' \<Longrightarrow> changes known k s s''"
  by (simp add: changes_def deliveryOf_def deliveryFaultAt_deliveries)

lemma dispatcherAuthorized_valid: "dispatcherAuthorized c a \<Longrightarrow> validDeliveryAuthority a"
  by (simp add: dispatcherAuthorized_def split: if_splits)

lemma Claim_changes:
  assumes "Claim c contextDone a limit now p s = (result, s')" and "distinct (map fst (mp_outbox p))"
  shows "changes known k s s'"
proof (cases "contextDone \<or> limit = 0 \<or> \<not> dispatcherAuthorized c a \<or> now = 0")
  case True
  with assms(1) show ?thesis by (auto simp: Claim_def split: if_splits intro: changes_same)
next
  case False
  let ?room = "unat (if limit > dc_MaxBatchSize c then dc_MaxBatchSize c else limit)"
  obtain claims s\<^sub>1 where loop: "claimLoop c a now p ?room (claimOrder (mp_outbox p)) s = (claims, s\<^sub>1)"
    by fastforce
  from assms(1) False loop have "ds_deliveries s' = ds_deliveries s \<or> ds_deliveries s' = ds_deliveries s\<^sub>1"
    by (auto simp: Claim_def Let_def dest!: deliveryFaultAt_deliveries split: prod.splits if_splits)
  moreover have "changes known k s s\<^sub>1"
    using claimLoop_turn [OF _ loop, of k] assms(2) False
    by (auto simp: changes_def dest: claimTurn_change dispatcherAuthorized_valid)
  ultimately show ?thesis by (auto simp: changes_def)
qed

lemma deliveryOf_Some: "map_of (ds_deliveries s) k = Some v \<Longrightarrow> deliveryOf s k = v"
  by (simp add: deliveryOf_def)

lemma changes_extended:
  "map_of (ds_deliveries s) m = Some v \<Longrightarrow> leaseLive now v \<Longrightarrow> validDeliveryAuthority (dv_Authority v) \<Longrightarrow>
     changes known k s (putDelivery m (v\<lparr>dv_LeaseExpiresAt := utc t\<rparr>) s)"
  by (rule changes_put) (simp add: deliveryOf_Some change_extended)

lemma Heartbeat_changes:
  assumes "Heartbeat c contextDone a m f now p s = (result, s')"
  shows "changes known k s s'"
  using assms
  by (auto simp: Heartbeat_def Let_def split: if_splits option.splits intro: changes_same changes_extended dispatcherAuthorized_valid)

section \<open>Delivering\<close>

lemma beginDeliver_cases:
  assumes "beginDeliver c contextDone claim now p s = (start, s')"
  obtains (idle) "ds_deliveries s' = ds_deliveries s" "\<And>q. start \<noteq> DeliverSends q"
  | (settled) v v' where "map_of (ds_deliveries s) (cl_OperationID claim) = Some v" "\<And>known. delivery_change known v v'"
      "ds_deliveries s' = AList.update (cl_OperationID claim) v' (ds_deliveries s)" "\<And>q. start \<noteq> DeliverSends q"
  | (sends) v row where "map_of (ds_deliveries s) (cl_OperationID claim) = Some v"
      "map_of (mp_outbox p) (cl_OperationID claim) = Some row"
      "dispatcherAuthorized c (or_Authority (cl_Request claim))" "validOpaqueID (cl_OperationID claim)"
      "cl_LeaseFence claim \<noteq> 0" "holdsClaim v (or_Authority (cl_Request claim)) (cl_LeaseFence claim)"
      "leaseLive now v" "\<not> dv_SendStarted v" "\<not> deliveryOutdated p row v"
      "ds_deliveries s' = AList.update (cl_OperationID claim) (sending v) (ds_deliveries s)"
      "start = DeliverSends ((transportRequest c row (or_Authority (cl_Request claim)))
         \<lparr>or_Deadline := dv_LeaseExpiresAt v\<rparr>)"
proof -
  let ?k = "cl_OperationID claim" and ?a = "or_Authority (cl_Request claim)"
  show thesis
  proof (cases "contextDone \<or> \<not> dispatcherAuthorized c ?a \<or> \<not> validOpaqueID ?k \<or> cl_LeaseFence claim = 0 \<or> now = 0")
    case True
    with assms show thesis by (intro idle) (auto simp: beginDeliver_def Let_def split: if_splits)
  next
    case False
    show thesis
    proof (cases "map_of (ds_deliveries s) ?k = None \<or> map_of (mp_outbox p) ?k = None")
      case True
      with assms False show thesis
        by (intro idle) (auto simp: beginDeliver_def Let_def split: if_splits option.splits)
    next
      case present: False
      then obtain v row where v: "map_of (ds_deliveries s) ?k = Some v" "map_of (mp_outbox p) ?k = Some row" by auto
      note step = assms [unfolded beginDeliver_def Let_def, simplified v option.case prod.case]
      consider "\<not> holdsClaim v ?a (cl_LeaseFence claim) \<or> \<not> leaseLive now v"
        | "holdsClaim v ?a (cl_LeaseFence claim)" "leaseLive now v" "dv_SendStarted v"
        | "holdsClaim v ?a (cl_LeaseFence claim)" "leaseLive now v" "\<not> dv_SendStarted v" "deliveryOutdated p row v"
        | "holdsClaim v ?a (cl_LeaseFence claim)" "leaseLive now v" "\<not> dv_SendStarted v" "\<not> deliveryOutdated p row v"
        by blast
      then show thesis
      proof cases
        case 1
        with step False show thesis by (intro idle) auto
      next
        case 2
        with step False v show thesis
          by (intro settled [of v "inDoubt v"]) (auto simp: holdsClaim_def intro: change_doubted)
      next
        case 3
        with step False v show thesis
          by (intro settled [of v "superseded v"]) (auto simp: deliveryOutdated_def intro: change_superseded)
      next
        case 4
        obtain failed s\<^sub>1 where fault: "deliveryFaultAt DeliveryFaultBeforeSend s = (failed, s\<^sub>1)" by fastforce
        show thesis
        proof (cases failed)
          case True
          with step False 4 fault deliveryFaultAt_deliveries [OF fault] show thesis by (intro idle) auto
        next
          case sent: False
          with step False 4 fault deliveryFaultAt_deliveries [OF fault] v show thesis
            by (intro sends [of v row]) (auto simp: sending_def)
        qed
      qed
    qed
  qed
qed

lemma beginDeliver_changes:
  assumes "beginDeliver c contextDone claim now p s = (start, s')"
  shows "changes known k s s'"
  using assms
proof (cases rule: beginDeliver_cases)
  case idle
  then show ?thesis by (simp add: changes_same)
next
  case (settled v v')
  then show ?thesis by (simp add: changes_def deliveryOf_Some)
next
  case (sends v row)
  then have "delivery_change known v (sending v)"
    by (intro change_sending) (auto simp: holdsClaim_def dispatcherAuthorized_valid)
  with sends(1,10) show ?thesis by (simp add: changes_def deliveryOf_Some)
qed

lemma finishClaim_cases:
  assumes "finishClaim claim a settle live now s = (result, s')"
  obtains (same) "ds_deliveries s' = ds_deliveries s" "\<exists>failure. result = Inl failure"
  | (settled) v where "map_of (ds_deliveries s) (cl_OperationID claim) = Some v"
      "holdsClaim v a (cl_LeaseFence claim)"
      "ds_deliveries s' = AList.update (cl_OperationID claim) (released (settle v)) (ds_deliveries s)"
proof -
  from assms have "ds_deliveries s' = ds_deliveries s \<and> (\<exists>failure. result = Inl failure) \<or>
    (\<exists>v. map_of (ds_deliveries s) (cl_OperationID claim) = Some v \<and> holdsClaim v a (cl_LeaseFence claim) \<and>
      ds_deliveries s' = AList.update (cl_OperationID claim) (released (settle v)) (ds_deliveries s))"
    by (auto simp: finishClaim_def Let_def dest!: deliveryFaultAt_deliveries
        split: option.splits if_splits prod.splits)
  then show thesis using that by blast
qed

text \<open>What the answer to an envelope does to the delivery.\<close>

lemma completeDeliver_cases:
  assumes "completeDeliver claim q answer now later s = (result, s')"
  obtains (same) "ds_deliveries s' = ds_deliveries s" "\<exists>failure. result = Inl failure"
  | (marked) v where "map_of (ds_deliveries s) (cl_OperationID claim) = Some v"
      "holdsClaim v (or_Authority (cl_Request claim)) (cl_LeaseFence claim)"
      "ds_deliveries s' = AList.update (cl_OperationID claim) (inDoubt v) (ds_deliveries s)"
  | (settled) v r x where "map_of (ds_deliveries s) (cl_OperationID claim) = Some v"
      "holdsClaim v (or_Authority (cl_Request claim)) (cl_LeaseFence claim)"
      "answer = Inr r" "os_OperationID r = or_OperationID q"
      "normalizeDeliveryOutcome r now deliveryOutcomeFromSend = Some x"
      "ds_deliveries s' = AList.update (cl_OperationID claim) (released (applyNormalizedDeliveryOutcome x v)) (ds_deliveries s)"
proof -
  let ?a = "or_Authority (cl_Request claim)"
  let ?mark = "\<lambda>v. v\<lparr>dv_Disposition := DeliveryReconciliationRequired\<rparr>"
  obtain failed s\<^sub>1 where fault: "deliveryFaultAt DeliveryFaultAfterSend s = (failed, s\<^sub>1)" by fastforce
  note same_deliveries = deliveryFaultAt_deliveries [OF fault]
  from assms fault same_deliveries consider (failed) "ds_deliveries s' = ds_deliveries s" "\<exists>failure. result = Inl failure"
    | (mark) "finishClaim claim ?a ?mark False later s\<^sub>1 = (result, s')"
    | (outcome) r x live where "answer = Inr r" "os_OperationID r = or_OperationID q"
        "normalizeDeliveryOutcome r now deliveryOutcomeFromSend = Some x"
        "finishClaim claim ?a (applyNormalizedDeliveryOutcome x) live later s\<^sub>1 = (result, s')"
    by (auto simp: completeDeliver_def Let_def markReconciliationRequired_def
        split: if_splits sum.splits option.splits)
  then show thesis
  proof cases
    case failed
    then show thesis by (rule same)
  next
    case mark
    then show thesis
      by (cases rule: finishClaim_cases) (use same marked same_deliveries in \<open>auto simp: inDoubt_def\<close>)
  next
    case (outcome r x live)
    from outcome(4) show thesis
      by (cases rule: finishClaim_cases) (use same settled outcome same_deliveries in auto)
  qed
qed

lemma completeDeliver_changes:
  assumes "completeDeliver claim q answer now later s = (result, s')"
    and "validDeliveryAuthority (or_Authority (cl_Request claim))"
    and "k = cl_OperationID claim \<Longrightarrow> holdsClaim (deliveryOf s k) (or_Authority (cl_Request claim)) (cl_LeaseFence claim) \<Longrightarrow>
      dv_SendStarted (deliveryOf s k)"
    and "\<And>r. answer = Inr r \<Longrightarrow> k = cl_OperationID claim \<Longrightarrow> known r"
  shows "changes known k s s'"
proof (cases "k = cl_OperationID claim")
  case True
  from assms(1) show ?thesis
  proof (cases rule: completeDeliver_cases)
    case same
    then show ?thesis by (simp add: changes_same)
  next
    case (marked v)
    with assms(2,3) True show ?thesis by (auto simp: changes_def deliveryOf_Some intro: change_marked)
  next
    case (settled v r x)
    with assms(2-4) True show ?thesis by (auto simp: changes_def deliveryOf_Some intro: change_settled)
  qed
next
  case False
  from assms(1) show ?thesis
    by (cases rule: completeDeliver_cases) (use False in \<open>simp_all add: changes_def\<close>)
qed

section \<open>Reconciling\<close>

lemma beginReconcile_cases:
  assumes "beginReconcile c contextDone a k p s = (result, s')"
  obtains (same) "s' = s" "\<exists>failure. result = Inl failure"
  | (asked) v where "map_of (ds_deliveries s) k = Some v" "dv_Disposition v = DeliveryReconciliationRequired"
      "\<not> dv_Terminal v" "map_of (mp_outbox p) k \<noteq> None"
      "s' = putDelivery k (v\<lparr>dv_ReconcileFence := dv_ReconcileFence v + 1\<rparr>) s"
      "result = Inr (v\<lparr>dv_ReconcileFence := dv_ReconcileFence v + 1\<rparr>,
         \<lparr>oi_Version = dc_TransportVersion c, oi_Authority = a, oi_OperationID = k\<rparr>)"
proof (cases "contextDone \<or> \<not> dispatcherAuthorized c a \<or> \<not> validOpaqueID k")
  case True
  with assms show thesis by (intro same) (auto simp: beginReconcile_def split: if_splits)
next
  case False
  note step = assms [unfolded beginReconcile_def Let_def]
  show thesis
  proof (cases "map_of (ds_deliveries s) k")
    case None
    with step False show thesis by (intro same) auto
  next
    case (Some v)
    show thesis
    proof (cases "map_of (mp_outbox p) k = None \<or> dv_Disposition v \<noteq> DeliveryReconciliationRequired \<or> dv_Terminal v")
      case True
      with step False Some show thesis by (intro same) auto
    next
      case waiting: False
      with step False Some show thesis by (intro asked [of v]) auto
    qed
  qed
qed

lemma beginReconcile_changes:
  assumes "beginReconcile c contextDone a m p s = (result, s')"
  shows "changes known k s s'"
  using assms
proof (cases rule: beginReconcile_cases)
  case (asked v)
  from change_asked [OF asked(2,3), of known] asked(1) show ?thesis by (simp add: asked(5) changes_put deliveryOf_Some)
qed (simp add: changes_same)

lemma completeReconcile_cases:
  assumes "completeReconcile c k asked answer now s = (result, s')"
  obtains (same) "s' = s"
  | (reported) v r x where "map_of (ds_deliveries s) k = Some v" "dv_Disposition v = DeliveryReconciliationRequired"
      "\<not> dv_Terminal v" "answer = Inr r" "os_OperationID r = k"
      "normalizeDeliveryOutcome r now deliveryOutcomeFromInspection = Some x"
      "s' = putDelivery k (applyNormalizedDeliveryOutcome x v) s"
  using assms
  by (auto simp: completeReconcile_def Let_def split: if_splits option.splits sum.splits)

lemma completeReconcile_changes:
  assumes "completeReconcile c m asked answer now s = (result, s')"
    and "\<And>r. answer = Inr r \<Longrightarrow> k = m \<Longrightarrow> known r"
  shows "changes known k s s'"
proof (cases "k = m")
  case True
  from assms(1) show ?thesis
  proof (cases rule: completeReconcile_cases)
    case (reported v r x)
    with assms(2) True change_reported [OF reported(2,3) _ reported(6), of known] show ?thesis
      by (simp add: reported(7) changes_put deliveryOf_Some)
  qed (simp add: changes_same)
next
  case False
  from assms(1) show ?thesis
    by (cases rule: completeReconcile_cases) (use False in \<open>simp_all add: changes_def\<close>)
qed

end
