(* ===== verification/Delivery_System.thy ===== *)
theory Delivery_System
  imports Delivery_Changes Orch_Decisions
begin

text \<open>
  The decision engine, the dispatcher and the owned transport together. A worker's call is split
  where it leaves the lock: an envelope once sent may arrive at the transport at any later time,
  any number of times or never, and its sender may go on with the answer to any arrival, with an
  error, or not at all. Clock readings are arbitrary at every step: no property here depends on
  the clocks of workers and transport agreeing.
\<close>

section \<open>The system\<close>

record deliverySystem =
  sy_engine :: engine
  sy_dispatch :: dispatcherState
  sy_transport :: ownedTransportState
  sy_sends :: "(DeliveryClaim \<times> OwnedTransportRequest) list"
  sy_answers :: "(OwnedTransportRequest \<times> OwnedTransportResponse) list"
  sy_asked :: "(ident \<times> deliveryState \<times> OwnedTransportInspection) list"
  sy_reports :: "(OwnedTransportInspection \<times> OwnedTransportResponse) list"

abbreviation outboxOf :: "deliverySystem \<Rightarrow> (ident \<times> outboxRecord) list" where
  "outboxOf s \<equiv> mp_outbox (eg_persistence (sy_engine s))"

abbreviation deliveryIn :: "deliverySystem \<Rightarrow> ident \<Rightarrow> deliveryState" where
  "deliveryIn s k \<equiv> deliveryOf (sy_dispatch s) k"

definition newDeliverySystem :: "engine \<Rightarrow> deliverySystem" where
  "newDeliverySystem e =
     \<lparr>sy_engine = e, sy_dispatch = \<lparr>ds_deliveries = [], ds_fault = None\<rparr>,
      sy_transport = \<lparr>ot_journal = [], ot_latest = []\<rparr>, sy_sends = [], sy_answers = [],
      sy_asked = [], sy_reports = []\<rparr>"

inductive delivery_step ::
  "hashing \<Rightarrow> DispatcherConfig \<Rightarrow> OwnedTransportConfig \<Rightarrow> deliverySystem \<Rightarrow> deliverySystem \<Rightarrow> bool"
  for h c tc s where
  step_engine: "engine_step h (sy_engine s) e \<Longrightarrow> delivery_step h c tc s (s\<lparr>sy_engine := e\<rparr>)"
| step_fault: "delivery_step h c tc s (s\<lparr>sy_dispatch := deliveryFailNextAt point (sy_dispatch s)\<rparr>)"
| step_claim: "Claim c contextDone a limit now (eg_persistence (sy_engine s)) (sy_dispatch s) = (claims, d) \<Longrightarrow>
    delivery_step h c tc s (s\<lparr>sy_dispatch := d\<rparr>)"
| step_heartbeat: "Heartbeat c contextDone a k f now (eg_persistence (sy_engine s)) (sy_dispatch s) = (claim, d) \<Longrightarrow>
    delivery_step h c tc s (s\<lparr>sy_dispatch := d\<rparr>)"
| step_settle: "beginDeliver c contextDone claim now (eg_persistence (sy_engine s)) (sy_dispatch s) = (start, d) \<Longrightarrow>
    (\<And>q. start \<noteq> DeliverSends q) \<Longrightarrow> delivery_step h c tc s (s\<lparr>sy_dispatch := d\<rparr>)"
| step_send: "beginDeliver c contextDone claim now (eg_persistence (sy_engine s)) (sy_dispatch s) = (DeliverSends q, d) \<Longrightarrow>
    delivery_step h c tc s (s\<lparr>sy_dispatch := d, sy_sends := (claim, q) # sy_sends s\<rparr>)"
| step_arrive: "(claim, q) \<in> set (sy_sends s) \<Longrightarrow>
    transportDeliver h tc contextDone now later satisfied q (sy_transport s) = (answer, t) \<Longrightarrow>
    delivery_step h c tc s (s\<lparr>sy_transport := t,
      sy_answers := (case answer of Inl _ \<Rightarrow> sy_answers s | Inr r \<Rightarrow> (q, r) # sy_answers s)\<rparr>)"
| step_complete: "(claim, q) \<in> set (sy_sends s) \<Longrightarrow> (\<And>r. answer = Inr r \<Longrightarrow> (q, r) \<in> set (sy_answers s)) \<Longrightarrow>
    completeDeliver claim q answer now later (sy_dispatch s) = (result, d) \<Longrightarrow>
    delivery_step h c tc s (s\<lparr>sy_dispatch := d\<rparr>)"
| step_ask: "beginReconcile c contextDone a k (eg_persistence (sy_engine s)) (sy_dispatch s) = (asked, d) \<Longrightarrow>
    delivery_step h c tc s (s\<lparr>sy_dispatch := d,
      sy_asked := (case asked of Inl _ \<Rightarrow> sy_asked s | Inr (v, i) \<Rightarrow> (k, v, i) # sy_asked s)\<rparr>)"
| step_inspect: "(k, v, i) \<in> set (sy_asked s) \<Longrightarrow> transportInspect tc contextDone i (sy_transport s) = answer \<Longrightarrow>
    delivery_step h c tc s (s\<lparr>sy_reports := (case answer of Inl _ \<Rightarrow> sy_reports s | Inr r \<Rightarrow> (i, r) # sy_reports s)\<rparr>)"
| step_report: "(k, v, i) \<in> set (sy_asked s) \<Longrightarrow> (\<And>r. answer = Inr r \<Longrightarrow> (i, r) \<in> set (sy_reports s)) \<Longrightarrow>
    completeReconcile c k v answer now (sy_dispatch s) = (result, d) \<Longrightarrow>
    delivery_step h c tc s (s\<lparr>sy_dispatch := d\<rparr>)"

text \<open>A run in which no delivery used up its lease fences.\<close>

definition fences_left :: "deliverySystem \<Rightarrow> bool" where
  "fences_left s \<longleftrightarrow> (\<forall>k. dv_LeaseFence (deliveryIn s k) \<noteq> - 1)"

abbreviation delivery_run ::
  "hashing \<Rightarrow> DispatcherConfig \<Rightarrow> OwnedTransportConfig \<Rightarrow> deliverySystem \<Rightarrow> deliverySystem \<Rightarrow> bool" where
  "delivery_run h c tc \<equiv> (\<lambda>s s'. delivery_step h c tc s s' \<and> fences_left s)\<^sup>*\<^sup>*"

section \<open>Envelopes of a row\<close>

text \<open>Every envelope of a row has the same binding, whoever sends it and whenever.\<close>

definition envelope :: "DispatcherConfig \<Rightarrow> outboxRecord \<Rightarrow> authorityValue \<Rightarrow> moment \<Rightarrow> OwnedTransportRequest" where
  "envelope c row a deadline = (transportRequest c row a)\<lparr>or_Deadline := deadline\<rparr>"

definition row_binding :: "hashing \<Rightarrow> DispatcherConfig \<Rightarrow> outboxRecord \<Rightarrow> digest" where
  "row_binding h c row = ownedTransportBinding h (transportRequest c row zeroAuthority)"

lemma envelope_binding [simp]: "ownedTransportBinding h (envelope c row a deadline) = row_binding h c row"
  by (simp add: envelope_def row_binding_def ownedTransportBinding_def transportRequest_def Let_def
      split: prod.splits)

lemma envelope_fields [simp]:
  "or_OperationID (envelope c row a deadline) = en_OperationID (ox_EnactmentRef row)"
  "or_Authority (envelope c row a deadline) = a" "or_Deadline (envelope c row a deadline) = deadline"
  by (simp_all add: envelope_def transportRequest_def Let_def split: prod.splits)

section \<open>The outbox\<close>

definition outbox_ok :: "(ident \<times> outboxRecord) list \<Rightarrow> bool" where
  "outbox_ok outbox \<longleftrightarrow> distinct (map fst outbox) \<and>
     (\<forall>k row. map_of outbox k = Some row \<longrightarrow> en_OperationID (ox_EnactmentRef row) = k)"

lemma outbox_ok_put_new:
  assumes "outbox_ok outbox" and "en_OperationID (ox_EnactmentRef row) = k"
  shows "outbox_ok (put_new k row outbox)"
  using assms by (auto simp: outbox_ok_def split: option.splits if_splits)

lemma outbox_ok_put: "outbox_ok outbox \<Longrightarrow> outbox_ok (putOutbox decision r outbox)"
proof -
  have "outbox_ok (fold (\<lambda>ref. put_new (en_OperationID ref) (outboxRow decision r ref)) refs outbox)"
    if "outbox_ok outbox" for refs
    using that by (induction refs arbitrary: outbox) (simp_all add: outbox_ok_put_new outboxRow_def)
  then show "outbox_ok outbox \<Longrightarrow> outbox_ok (putOutbox decision r outbox)" by (simp add: putOutbox_def)
qed

lemma outbox_ok_step:
  assumes "decides h p p'" and "outbox_ok (mp_outbox p)"
  shows "outbox_ok (mp_outbox p')"
  using assms(1)
proof (cases rule: decides_outcome)
  case (committed i r decision r')
  with assms(2) show ?thesis by (simp add: commits_outbox outbox_ok_put)
qed (use assms(2) in simp_all)

lemma outbox_engine_step:
  assumes "engine_step h e e'" and "outbox_ok (mp_outbox (eg_persistence e))"
  shows "outbox_ok (mp_outbox (eg_persistence e'))"
    "map_of (mp_outbox (eg_persistence e)) k = Some row \<Longrightarrow> map_of (mp_outbox (eg_persistence e')) k = Some row"
  using engine_step_persistence [OF assms(1)] outbox_ok_step [OF _ assms(2)] assms(2) outbox_step by auto

section \<open>Invariants\<close>

text \<open>The transport has settled an operation with a response.\<close>

definition settling :: "OwnedTransportResponse \<Rightarrow> bool" where
  "settling r \<longleftrightarrow> os_Outcome r \<in> {OwnedTransportAccepted, OwnedTransportSuperseded}"

definition journalled :: "ownedTransportState \<Rightarrow> ident \<Rightarrow> OwnedTransportResponse \<Rightarrow> bool" where
  "journalled t k r \<longleftrightarrow> (\<exists>b r'. map_of (ot_journal t) k = Some (b, r') \<and> os_Outcome r' = os_Outcome r \<and>
     os_ResultDigest r' = os_ResultDigest r)"

text \<open>An answer about an operation that a dispatcher may rely on.\<close>

definition answered :: "ownedTransportState \<Rightarrow> ident \<Rightarrow> OwnedTransportResponse \<Rightarrow> bool" where
  "answered t k r \<longleftrightarrow> os_Outcome r \<noteq> OwnedTransportIntegrityConflict \<and> (settling r \<longrightarrow> journalled t k r)"

definition transport_ok :: "hashing \<Rightarrow> DispatcherConfig \<Rightarrow> deliverySystem \<Rightarrow> bool" where
  "transport_ok h c s \<longleftrightarrow>
     (\<forall>k b r. map_of (ot_journal (sy_transport s)) k = Some (b, r) \<longrightarrow> settling r \<and>
        (\<exists>row. map_of (outboxOf s) k = Some row \<and> b = row_binding h c row)) \<and>
     (\<forall>q r. (q, r) \<in> set (sy_answers s) \<longrightarrow> answered (sy_transport s) (or_OperationID q) r) \<and>
     (\<forall>i r. (i, r) \<in> set (sy_reports s) \<longrightarrow> answered (sy_transport s) (oi_OperationID i) r) \<and>
     (\<forall>k v i. (k, v, i) \<in> set (sy_asked s) \<longrightarrow> oi_OperationID i = k)"

definition sends_ok :: "DispatcherConfig \<Rightarrow> deliverySystem \<Rightarrow> bool" where
  "sends_ok c s \<longleftrightarrow>
     (\<forall>claim q. (claim, q) \<in> set (sy_sends s) \<longrightarrow>
        (let k = cl_OperationID claim; a = or_Authority (cl_Request claim); v = deliveryIn s k in
         validDeliveryAuthority a \<and>
         (\<exists>row deadline. map_of (outboxOf s) k = Some row \<and> q = envelope c row a deadline) \<and>
         cl_LeaseFence claim \<le> dv_LeaseFence v \<and>
         (holdsClaim v a (cl_LeaseFence claim) \<longrightarrow> dv_SendStarted v)))"

definition terminalDisposition :: "DeliveryDisposition \<Rightarrow> bool" where
  "terminalDisposition d \<longleftrightarrow>
     d \<in> {DeliveryAccepted, DeliverySuperseded, DeliveryPoisoned, DeliveryIntegrityConflict}"

definition delivery_ok :: "deliveryState \<Rightarrow> bool" where
  "delivery_ok v \<longleftrightarrow>
     (dv_SendStarted v \<longrightarrow> dv_Disposition v = DeliveryClaimed \<and> dv_Authority v \<noteq> zeroAuthority) \<and>
     (dv_Terminal v \<longleftrightarrow> terminalDisposition (dv_Disposition v)) \<and>
     (dv_Authority v \<noteq> zeroAuthority \<longrightarrow> dv_Disposition v = DeliveryClaimed)"

definition deliveries_ok :: "deliverySystem \<Rightarrow> bool" where
  "deliveries_ok s \<longleftrightarrow>
     (\<forall>k. delivery_ok (deliveryIn s k) \<and> dv_Disposition (deliveryIn s k) \<noteq> DeliveryIntegrityConflict \<and>
        (dv_Disposition (deliveryIn s k) = DeliveryAccepted \<longrightarrow>
          (\<exists>b r. map_of (ot_journal (sy_transport s)) k = Some (b, r) \<and> os_Outcome r = OwnedTransportAccepted \<and>
             os_ResultDigest r = dv_ResultDigest (deliveryIn s k))))"

definition system_ok :: "hashing \<Rightarrow> DispatcherConfig \<Rightarrow> deliverySystem \<Rightarrow> bool" where
  "system_ok h c s \<longleftrightarrow>
     outbox_ok (outboxOf s) \<and> transport_ok h c s \<and> sends_ok c s \<and> deliveries_ok s"

lemma delivery_ok_zero: "delivery_ok zeroDelivery"
  by (simp add: delivery_ok_def zeroDelivery_def terminalDisposition_def)

lemma zero_not_valid [simp]: "\<not> validDeliveryAuthority zeroAuthority"
  by (simp add: validDeliveryAuthority_def)

lemma valid_not_zero: "validDeliveryAuthority a \<Longrightarrow> a \<noteq> zeroAuthority"
  by auto

lemma normalized_terminal:
  "normalizeDeliveryOutcome r now origin = Some x \<Longrightarrow>
     (no_terminal x \<longleftrightarrow> terminalDisposition (no_disposition x)) \<and> no_disposition x \<noteq> DeliveryClaimed"
  by (auto simp: normalizeDeliveryOutcome_def outcomeOf_def terminalDisposition_def Let_def split: if_splits)

lemma delivery_ok_change:
  assumes "delivery_change known v v'" and "delivery_ok v"
  shows "delivery_ok v'"
  using assms
proof cases
  case (change_settled a f r now x)
  with normalized_terminal [OF change_settled(6)] show ?thesis
    by (simp add: delivery_ok_def released_def applyNormalizedDeliveryOutcome_def)
next
  case (change_reported r now x)
  with normalized_terminal [OF change_reported(5)] assms(2) show ?thesis
    by (auto simp: delivery_ok_def applyNormalizedDeliveryOutcome_def)
next
  case (change_leased a now c)
  with valid_not_zero [OF change_leased(5)] show ?thesis
    by (simp add: delivery_ok_def leased_def terminalDisposition_def)
next
  case change_sending
  with valid_not_zero [OF change_sending(4)] assms(2) show ?thesis
    by (auto simp: delivery_ok_def sending_def terminalDisposition_def)
qed (use assms(2) in \<open>simp_all add: delivery_ok_def superseded_def released_def inDoubt_def
  terminalDisposition_def\<close>)

text \<open>A settled delivery never changes.\<close>

lemma terminal_stays:
  assumes "delivery_change known v v'" and "delivery_ok v"
  shows "\<not> dv_Terminal v"
  using assms(1)
proof cases
  case change_extended
  from valid_not_zero [OF this(3)] assms(2) show ?thesis by (simp add: delivery_ok_def terminalDisposition_def)
qed (auto simp: deliveryCanBeSuperseded_def holdsClaim_def split: if_splits)

section \<open>The dispatcher keeps the invariants\<close>

lemma normalized_outcome:
  assumes "normalizeDeliveryOutcome r now origin = Some x"
  shows "no_disposition x = DeliveryAccepted \<Longrightarrow>
      os_Outcome r = OwnedTransportAccepted \<and> no_resultDigest x = os_ResultDigest r"
    and "no_disposition x = DeliveryIntegrityConflict \<Longrightarrow> os_Outcome r = OwnedTransportIntegrityConflict"
  using assms by (auto simp: normalizeDeliveryOutcome_def outcomeOf_def Let_def split: if_splits)

text \<open>Under an outdated fence, or after the lease was given up, no claim is held.\<close>

lemma change_claim:
  assumes "delivery_change known v v'" and "delivery_ok v" and "dv_LeaseFence v \<noteq> - 1" and "f \<le> dv_LeaseFence v"
  shows "f \<le> dv_LeaseFence v'"
    and "validDeliveryAuthority a \<Longrightarrow> (holdsClaim v a f \<longrightarrow> dv_SendStarted v) \<Longrightarrow>
      holdsClaim v' a f \<longrightarrow> dv_SendStarted v'"
proof -
  have less: "f < dv_LeaseFence v + 1"
    using assms(3,4) inc_less_eq_self_iff_eq [of "dv_LeaseFence v"] by (meson le_less_trans not_le)
  show "f \<le> dv_LeaseFence v'"
    using assms(1)
    by cases (use assms(4) less in \<open>auto simp: superseded_def released_def leased_def inDoubt_def sending_def
      applyNormalizedDeliveryOutcome_def\<close>)
  assume valid: "validDeliveryAuthority a" and sent: "holdsClaim v a f \<longrightarrow> dv_SendStarted v"
  show "holdsClaim v' a f \<longrightarrow> dv_SendStarted v'"
    using assms(1)
  proof cases
    case (change_reported r now x)
    with sent assms(2) show ?thesis
      by (auto simp: holdsClaim_def applyNormalizedDeliveryOutcome_def delivery_ok_def)
  qed (use sent less valid_not_zero [OF valid] in \<open>auto simp: superseded_def released_def leased_def inDoubt_def
    sending_def holdsClaim_def applyNormalizedDeliveryOutcome_def\<close>)
qed

lemma change_result:
  assumes "delivery_change known v v'" and "delivery_ok v"
  shows "dv_Disposition v' = DeliveryAccepted \<Longrightarrow>
      \<exists>r. known r \<and> os_Outcome r = OwnedTransportAccepted \<and> dv_ResultDigest v' = os_ResultDigest r"
    and "dv_Disposition v' = DeliveryIntegrityConflict \<Longrightarrow>
      \<exists>r. known r \<and> os_Outcome r = OwnedTransportIntegrityConflict"
proof -
  have open_delivery: "\<not> terminalDisposition (dv_Disposition v)"
    using terminal_stays [OF assms] assms(2) by (simp add: delivery_ok_def)
  show "\<exists>r. known r \<and> os_Outcome r = OwnedTransportAccepted \<and> dv_ResultDigest v' = os_ResultDigest r"
    if "dv_Disposition v' = DeliveryAccepted"
    using assms(1)
    by cases (use that open_delivery in \<open>auto simp: superseded_def released_def leased_def inDoubt_def sending_def
      terminalDisposition_def applyNormalizedDeliveryOutcome_def dest: normalized_outcome(1)\<close>)
  show "\<exists>r. known r \<and> os_Outcome r = OwnedTransportIntegrityConflict"
    if "dv_Disposition v' = DeliveryIntegrityConflict"
    using assms(1)
    by cases (use that open_delivery in \<open>auto simp: superseded_def released_def leased_def inDoubt_def sending_def
      terminalDisposition_def applyNormalizedDeliveryOutcome_def dest: normalized_outcome(2)\<close>)
qed

lemma changes_delivery:
  assumes "changes known k d d'"
  shows "deliveryOf d' k = deliveryOf d k \<or> delivery_change known (deliveryOf d k) (deliveryOf d' k)"
  using assms by (auto simp: changes_def deliveryOf_def split: option.splits)

text \<open>An operation of the dispatcher that relies on answers of the transport only.\<close>

lemma dispatch_keeps:
  assumes "system_ok h c s" and "fences_left s"
    and "\<And>k. changes (answered (sy_transport s) k) k (sy_dispatch s) d"
  shows "system_ok h c (s\<lparr>sy_dispatch := d\<rparr>)"
proof -
  let ?s = "s\<lparr>sy_dispatch := d\<rparr>"
  from assms(1) have ok: "outbox_ok (outboxOf s)" "transport_ok h c s" "sends_ok c s" "deliveries_ok s"
    by (simp_all add: system_ok_def)
  have step: "deliveryOf d k = deliveryIn s k \<or>
      delivery_change (answered (sy_transport s) k) (deliveryIn s k) (deliveryOf d k)" for k
    using changes_delivery [OF assms(3)] .
  have delivery: "delivery_ok (deliveryIn s k)" for k using ok(4) by (simp add: deliveries_ok_def)
  have left: "dv_LeaseFence (deliveryIn s k) \<noteq> - 1" for k using assms(2) by (simp add: fences_left_def)
  have "sends_ok c ?s"
    unfolding sends_ok_def
  proof (intro allI impI)
    fix claim q assume "(claim, q) \<in> set (sy_sends ?s)"
    then have "(claim, q) \<in> set (sy_sends s)" by simp
    with ok(3) have sent: "validDeliveryAuthority (or_Authority (cl_Request claim))"
      "\<exists>row deadline. map_of (outboxOf s) (cl_OperationID claim) = Some row \<and>
         q = envelope c row (or_Authority (cl_Request claim)) deadline"
      "cl_LeaseFence claim \<le> dv_LeaseFence (deliveryIn s (cl_OperationID claim))"
      "holdsClaim (deliveryIn s (cl_OperationID claim)) (or_Authority (cl_Request claim)) (cl_LeaseFence claim) \<longrightarrow>
         dv_SendStarted (deliveryIn s (cl_OperationID claim))"
      by (auto simp: sends_ok_def Let_def)
    with change_claim [OF _ delivery left sent(3)] step [of "cl_OperationID claim"]
    show "let k = cl_OperationID claim; a = or_Authority (cl_Request claim); v = deliveryIn ?s k in
         validDeliveryAuthority a \<and>
         (\<exists>row deadline. map_of (outboxOf ?s) k = Some row \<and> q = envelope c row a deadline) \<and>
         cl_LeaseFence claim \<le> dv_LeaseFence v \<and>
         (holdsClaim v a (cl_LeaseFence claim) \<longrightarrow> dv_SendStarted v)"
      unfolding Let_def by auto
  qed
  moreover have "deliveries_ok ?s"
    unfolding deliveries_ok_def
  proof
    fix k
    have old: "dv_Disposition (deliveryIn s k) \<noteq> DeliveryIntegrityConflict"
      "dv_Disposition (deliveryIn s k) = DeliveryAccepted \<longrightarrow>
          (\<exists>b r. map_of (ot_journal (sy_transport s)) k = Some (b, r) \<and> os_Outcome r = OwnedTransportAccepted \<and>
             os_ResultDigest r = dv_ResultDigest (deliveryIn s k))"
      using ok(4) by (simp_all add: deliveries_ok_def)
    show "delivery_ok (deliveryIn ?s k) \<and> dv_Disposition (deliveryIn ?s k) \<noteq> DeliveryIntegrityConflict \<and>
        (dv_Disposition (deliveryIn ?s k) = DeliveryAccepted \<longrightarrow>
          (\<exists>b r. map_of (ot_journal (sy_transport ?s)) k = Some (b, r) \<and> os_Outcome r = OwnedTransportAccepted \<and>
             os_ResultDigest r = dv_ResultDigest (deliveryIn ?s k)))"
      using step [of k]
    proof
      assume "deliveryOf d k = deliveryIn s k"
      with old delivery [of k] show ?thesis by simp
    next
      assume change: "delivery_change (answered (sy_transport s) k) (deliveryIn s k) (deliveryOf d k)"
      from change_result [OF change delivery] delivery_ok_change [OF change delivery] show ?thesis
        by (fastforce simp: answered_def settling_def journalled_def)
    qed
  qed
  ultimately show ?thesis using ok by (simp add: system_ok_def transport_ok_def)
qed

section \<open>The transport keeps the invariants\<close>

lemma transportAnswer_fields [simp]:
  "os_Outcome (transportAnswer c k outcome) = outcome" "os_OperationID (transportAnswer c k outcome) = k"
  "os_Version (transportAnswer c k outcome) = oc_SupportedVersion c"
  by (simp_all add: transportAnswer_def)

lemma transportDeliver_cases:
  assumes "transportDeliver h c contextDone now later satisfied q t = (answer, t')"
  obtains (aside) "t' = t" "\<And>r. answer = Inr r \<Longrightarrow> \<not> settling r \<and> os_Outcome r \<noteq> OwnedTransportIntegrityConflict"
  | (conflict) b r where "t' = t" "map_of (ot_journal t) (or_OperationID q) = Some (b, r)" "b \<noteq> ownedTransportBinding h q"
  | (again) r where "t' = t" "map_of (ot_journal t) (or_OperationID q) = Some (ownedTransportBinding h q, r)"
      "answer = Inr (r\<lparr>os_Duplicate := True\<rparr>)"
  | (fresh) r where "map_of (ot_journal t) (or_OperationID q) = None" "answer = Inr r" "settling r"
      "ot_journal t' = AList.update (or_OperationID q) (ownedTransportBinding h q, r) (ot_journal t)"
proof (cases "contextDone \<or> or_Version q \<noteq> oc_SupportedVersion c \<or> \<not> transportAuthorized c (or_Authority q) \<or>
    \<not> validOwnedTransportRequest q")
  case True
  with assms show thesis
    by (intro aside) (auto simp: transportDeliver_def settling_def split: if_splits)
next
  case False
  with assms have locked: "transportDeliverLocked h c now later satisfied q t = (answer, t')"
    by (simp add: transportDeliver_def)
  show thesis
  proof (cases "map_of (ot_journal t) (or_OperationID q)")
    case (Some entry)
    obtain b r where entry: "entry = (b, r)" by fastforce
    show thesis
    proof (cases "b = ownedTransportBinding h q")
      case True
      with locked Some entry show thesis by (intro again [of r]) (auto simp: transportDeliverLocked_def)
    next
      case False
      with locked Some entry show thesis by (intro conflict [of b r]) (auto simp: transportDeliverLocked_def)
    qed
  next
    case None
    from locked None consider
        "t' = t" "\<And>r. answer = Inr r \<Longrightarrow> \<not> settling r \<and> os_Outcome r \<noteq> OwnedTransportIntegrityConflict"
      | r where "answer = Inr r" "settling r"
          "ot_journal t' = AList.update (or_OperationID q) (ownedTransportBinding h q, r) (ot_journal t)"
      by (simp add: transportDeliverLocked_def Let_def split: if_splits prod.splits)
        (auto simp: settling_def)
    then show thesis using aside fresh None by cases blast+
  qed
qed

lemma transportInspect_cases:
  assumes "transportInspect c contextDone i t = Inr r"
  obtains (aside) "\<not> settling r" "os_Outcome r \<noteq> OwnedTransportIntegrityConflict"
  | (again) b r' where "map_of (ot_journal t) (oi_OperationID i) = Some (b, r')" "r = r'\<lparr>os_Duplicate := True\<rparr>"
  using assms by (auto simp: transportInspect_def settling_def Let_def split: if_splits option.splits)

text \<open>What the transport answered stays true: it never takes back or rewrites an answer.\<close>

definition journal_kept :: "ownedTransportState \<Rightarrow> ownedTransportState \<Rightarrow> bool" where
  "journal_kept t t' \<longleftrightarrow>
     (\<forall>k entry. map_of (ot_journal t) k = Some entry \<longrightarrow> map_of (ot_journal t') k = Some entry)"

lemma journal_kept_refl [simp]: "journal_kept t t" by (simp add: journal_kept_def)

lemma journal_kept_deliver:
  assumes "transportDeliver h c contextDone now later satisfied q t = (answer, t')"
  shows "journal_kept t t'"
  using assms by (cases rule: transportDeliver_cases) (auto simp: journal_kept_def)

lemma answered_kept: "answered t k r \<Longrightarrow> journal_kept t t' \<Longrightarrow> answered t' k r"
  by (fastforce simp: answered_def journalled_def journal_kept_def)

lemma answered_again:
  "map_of (ot_journal t) k = Some (b, r) \<Longrightarrow> settling r \<Longrightarrow> answered t k (r\<lparr>os_Duplicate := d\<rparr>)"
  by (auto simp: answered_def journalled_def settling_def)

lemma settling_no_conflict: "settling r \<Longrightarrow> os_Outcome r \<noteq> OwnedTransportIntegrityConflict"
  by (auto simp: settling_def)

section \<open>Every step keeps the invariants\<close>

lemma system_okD:
  assumes "system_ok h c s"
  shows "outbox_ok (outboxOf s)"
    and "map_of (ot_journal (sy_transport s)) k = Some (b, r) \<Longrightarrow> settling r"
    and "map_of (ot_journal (sy_transport s)) k = Some (b, r) \<Longrightarrow>
      \<exists>row. map_of (outboxOf s) k = Some row \<and> b = row_binding h c row"
    and "(q, r) \<in> set (sy_answers s) \<Longrightarrow> answered (sy_transport s) (or_OperationID q) r"
    and "(i, r) \<in> set (sy_reports s) \<Longrightarrow> answered (sy_transport s) (oi_OperationID i) r"
    and "(k, v, i) \<in> set (sy_asked s) \<Longrightarrow> oi_OperationID i = k"
    and "delivery_ok (deliveryIn s k)"
  using assms by (auto simp: system_ok_def transport_ok_def deliveries_ok_def)

lemma sends_okD:
  assumes "system_ok h c s" and "(claim, q) \<in> set (sy_sends s)"
  obtains row deadline where
    "validDeliveryAuthority (or_Authority (cl_Request claim))"
    "map_of (outboxOf s) (cl_OperationID claim) = Some row"
    "q = envelope c row (or_Authority (cl_Request claim)) deadline"
    "or_OperationID q = cl_OperationID claim"
    "holdsClaim (deliveryIn s (cl_OperationID claim)) (or_Authority (cl_Request claim)) (cl_LeaseFence claim) \<longrightarrow>
       dv_SendStarted (deliveryIn s (cl_OperationID claim))"
proof -
  from assms obtain row deadline where
    "validDeliveryAuthority (or_Authority (cl_Request claim))"
    "map_of (outboxOf s) (cl_OperationID claim) = Some row"
    "q = envelope c row (or_Authority (cl_Request claim)) deadline"
    "holdsClaim (deliveryIn s (cl_OperationID claim)) (or_Authority (cl_Request claim)) (cl_LeaseFence claim) \<longrightarrow>
       dv_SendStarted (deliveryIn s (cl_OperationID claim))"
    unfolding system_ok_def sends_ok_def Let_def by blast
  with system_okD(1) [OF assms(1)] show thesis by (intro that) (auto simp: outbox_ok_def)
qed

text \<open>Outbox and journal only grow, and nothing else the invariants read changes.\<close>

lemma system_grows:
  assumes "system_ok h c s" and "outbox_ok (outboxOf s')"
    and rows: "\<And>k row. map_of (outboxOf s) k = Some row \<Longrightarrow> map_of (outboxOf s') k = Some row"
    and kept: "journal_kept (sy_transport s) (sy_transport s')"
    and dispatch: "sy_dispatch s' = sy_dispatch s"
    and sends: "sy_sends s' = sy_sends s"
    and journal: "\<And>k b r. map_of (ot_journal (sy_transport s')) k = Some (b, r) \<Longrightarrow>
      settling r \<and> (\<exists>row. map_of (outboxOf s') k = Some row \<and> b = row_binding h c row)"
    and answers: "\<And>q r. (q, r) \<in> set (sy_answers s') \<Longrightarrow>
      (q, r) \<in> set (sy_answers s) \<or> answered (sy_transport s') (or_OperationID q) r"
    and reports: "\<And>i r. (i, r) \<in> set (sy_reports s') \<Longrightarrow>
      (i, r) \<in> set (sy_reports s) \<or> answered (sy_transport s') (oi_OperationID i) r"
    and asked: "sy_asked s' = sy_asked s"
  shows "system_ok h c s'"
proof -
  have "transport_ok h c s'"
    unfolding transport_ok_def
    using journal answers reports asked system_okD(4-6) [OF assms(1)] answered_kept [OF _ kept] by metis
  moreover have "sends_ok c s'"
    unfolding sends_ok_def sends dispatch
    using assms(1) rows by (fastforce simp: system_ok_def sends_ok_def Let_def)
  moreover have "deliveries_ok s'"
    unfolding deliveries_ok_def dispatch
    using assms(1) kept by (fastforce simp: system_ok_def deliveries_ok_def journal_kept_def)
  ultimately show ?thesis using assms(2) by (simp add: system_ok_def)
qed

lemma system_arrive:
  assumes "system_ok h c s" and "(claim, q) \<in> set (sy_sends s)"
    and "transportDeliver h tc contextDone now later satisfied q (sy_transport s) = (answer, t)"
  shows "system_ok h c (s\<lparr>sy_transport := t,
      sy_answers := (case answer of Inl _ \<Rightarrow> sy_answers s | Inr r \<Rightarrow> (q, r) # sy_answers s)\<rparr>)"
proof -
  from assms(1,2) obtain row deadline where row: "map_of (outboxOf s) (or_OperationID q) = Some row"
    "ownedTransportBinding h q = row_binding h c row"
    by (cases rule: sends_okD) auto
  note kept = journal_kept_deliver [OF assms(3)]
  have journal: "settling r \<and> (\<exists>row. map_of (outboxOf s) k = Some row \<and> b = row_binding h c row)"
    if "map_of (ot_journal t) k = Some (b, r)" for k b r
    using assms(3)
  proof (cases rule: transportDeliver_cases)
    case (fresh r')
    with that row system_okD(2,3) [OF assms(1)] show ?thesis by (cases "k = or_OperationID q") auto
  qed (use that system_okD(2,3) [OF assms(1)] in auto)
  have "answered t (or_OperationID q) r" if "answer = Inr r" for r
    using assms(3)
  proof (cases rule: transportDeliver_cases)
    case aside
    with that show ?thesis by (simp add: answered_def)
  next
    case (conflict b r')
    with system_okD(3) [OF assms(1) conflict(2)] row show ?thesis by simp
  next
    case (again r')
    with that system_okD(2) [OF assms(1) again(2)] show ?thesis by (auto intro: answered_again)
  next
    case (fresh r')
    with that show ?thesis by (auto simp: answered_def journalled_def settling_no_conflict)
  qed
  then show ?thesis
    by (intro system_grows [OF assms(1)]) (use system_okD(1) [OF assms(1)] kept journal in \<open>auto split: sum.splits\<close>)
qed

lemma system_engine:
  assumes "system_ok h c s" and "engine_step h (sy_engine s) e"
  shows "system_ok h c (s\<lparr>sy_engine := e\<rparr>)"
  using system_okD(1-3) [OF assms(1)] outbox_engine_step [OF assms(2)]
  by (intro system_grows [OF assms(1)]) (auto; fail | fastforce)+

lemma system_inspect:
  assumes "system_ok h c s" and "(k, v, i) \<in> set (sy_asked s)"
    and "transportInspect tc contextDone i (sy_transport s) = answer"
  shows "system_ok h c (s\<lparr>sy_reports := (case answer of Inl _ \<Rightarrow> sy_reports s | Inr r \<Rightarrow> (i, r) # sy_reports s)\<rparr>)"
proof -
  have "answered (sy_transport s) (oi_OperationID i) r" if "answer = Inr r" for r
  proof -
    from assms(3) that have "transportInspect tc contextDone i (sy_transport s) = Inr r" by simp
    then show ?thesis
    proof (cases rule: transportInspect_cases)
      case (again b r')
      with system_okD(2) [OF assms(1) again(1)] show ?thesis by (auto intro: answered_again)
    qed (simp add: answered_def)
  qed
  then show ?thesis
    by (intro system_grows [OF assms(1)]) (use system_okD(1-3) [OF assms(1)] in \<open>auto split: sum.splits\<close>)
qed

lemma system_send:
  assumes "system_ok h c (s\<lparr>sy_dispatch := d\<rparr>)"
    and "beginDeliver c contextDone claim now (eg_persistence (sy_engine s)) (sy_dispatch s) = (DeliverSends q, d)"
  shows "system_ok h c (s\<lparr>sy_dispatch := d, sy_sends := (claim, q) # sy_sends s\<rparr>)"
  using assms(2)
proof (cases rule: beginDeliver_cases)
  case (sends v row)
  let ?a = "or_Authority (cl_Request claim)"
  have "\<exists>row deadline. map_of (outboxOf s) (cl_OperationID claim) = Some row \<and> q = envelope c row ?a deadline"
    using sends(2,11) by (auto simp: envelope_def)
  moreover have "deliveryOf d (cl_OperationID claim) = sending v" using sends(10) by (simp add: deliveryOf_def)
  moreover have "validDeliveryAuthority ?a" using sends(3) by (rule dispatcherAuthorized_valid)
  moreover have "dv_LeaseFence v = cl_LeaseFence claim" using sends(6) by (simp add: holdsClaim_def)
  ultimately show ?thesis
    using assms(1)
    by (simp add: system_ok_def transport_ok_def deliveries_ok_def sends_ok_def Let_def sending_def)
qed blast+

lemma system_ask:
  assumes "system_ok h c (s\<lparr>sy_dispatch := d\<rparr>)"
    and "beginReconcile c contextDone a k (eg_persistence (sy_engine s)) (sy_dispatch s) = (asked, d)"
  shows "system_ok h c (s\<lparr>sy_dispatch := d,
      sy_asked := (case asked of Inl _ \<Rightarrow> sy_asked s | Inr (v, i) \<Rightarrow> (k, v, i) # sy_asked s)\<rparr>)"
  using assms(2)
  by (cases rule: beginReconcile_cases)
    (use assms(1) in \<open>auto simp: system_ok_def transport_ok_def deliveries_ok_def sends_ok_def\<close>)

lemma new_system_ok:
  assumes "NewDeterministicHarness config = Inr e"
  shows "system_ok h c (newDeliverySystem e)"
proof -
  from assms have "mp_outbox (eg_persistence e) = []"
    by (auto simp: NewDeterministicHarness_def newHarness_def result_bind_eq_Inr split: if_splits)
  then show ?thesis
    by (simp add: system_ok_def outbox_ok_def transport_ok_def sends_ok_def deliveries_ok_def newDeliverySystem_def
        deliveryOf_def delivery_ok_zero) (simp add: zeroDelivery_def)
qed

text \<open>What a step does to the deliveries: the steps of the transport and of the engine, nothing.\<close>

lemma step_changes:
  assumes "delivery_step h c tc s s'" and ok: "system_ok h c s"
  shows "changes (answered (sy_transport s) k) k (sy_dispatch s) (sy_dispatch s')"
    using assms(1)
  proof cases
    case (step_claim contextDone a limit now claims d)
    have "distinct (map fst (outboxOf s))" using system_okD(1) [OF ok] by (simp add: outbox_ok_def)
    with Claim_changes [OF step_claim(2)] step_claim(1) show ?thesis by simp
  next
    case (step_heartbeat contextDone a k f now claim d)
    with Heartbeat_changes [OF step_heartbeat(2)] show ?thesis by simp
  next
    case (step_settle contextDone claim now start d)
    with beginDeliver_changes [OF step_settle(2)] show ?thesis by simp
  next
    case (step_send contextDone claim now q d)
    with beginDeliver_changes [OF step_send(2)] show ?thesis by simp
  next
    case (step_complete claim q answer now later result d)
    from ok step_complete(2) show ?thesis
    proof (cases rule: sends_okD)
      case (1 row deadline)
      have "changes (answered (sy_transport s) k) k (sy_dispatch s) d"
        using completeDeliver_changes [OF step_complete(4) 1(1)] 1(4,5) step_complete(3) system_okD(4) [OF ok] by metis
      with step_complete(1) show ?thesis by simp
    qed
  next
    case (step_ask contextDone a k asked d)
    with beginReconcile_changes [OF step_ask(2)] show ?thesis by simp
  next
    case (step_report m v i answer now result d)
    have "changes (answered (sy_transport s) k) k (sy_dispatch s) d"
      using completeReconcile_changes [OF step_report(4)] step_report(2,3) system_okD(5,6) [OF ok] by metis
    with step_report(1) show ?thesis by simp
  qed (simp_all add: changes_same)

lemma step_delivery:
  assumes "delivery_step h c tc s s'" and "system_ok h c s"
  shows "deliveryIn s' k = deliveryIn s k \<or>
    delivery_change (answered (sy_transport s) k) (deliveryIn s k) (deliveryIn s' k)"
  using step_changes [OF assms] by (rule changes_delivery)

lemma system_step:
  assumes step: "delivery_step h c tc s s'" and left: "fences_left s" and ok: "system_ok h c s"
  shows "system_ok h c s'"
proof -
  have moved: "system_ok h c (s\<lparr>sy_dispatch := sy_dispatch s'\<rparr>)"
    using ok left step_changes [OF step ok] by (rule dispatch_keeps)
  from step show ?thesis
  proof cases
    case (step_engine e)
    with system_engine [OF ok] show ?thesis by simp
  next
    case (step_send contextDone claim now q d)
    with moved system_send [OF _ step_send(2)] show ?thesis by simp
  next
    case (step_arrive claim q contextDone now later satisfied answer t)
    with system_arrive [OF ok step_arrive(2,3)] show ?thesis by simp
  next
    case (step_ask contextDone a k asked d)
    with moved system_ask [OF _ step_ask(2)] show ?thesis by simp
  next
    case (step_inspect k v i contextDone answer)
    with system_inspect [OF ok step_inspect(2,3)] show ?thesis by simp
  qed (use moved in simp_all)
qed

text \<open>The clocks the run reads and the leases it holds play no part.\<close>

lemma system_run:
  assumes "NewDeterministicHarness config = Inr e" and "delivery_run h c tc (newDeliverySystem e) s"
  shows "system_ok h c s"
  using assms(2) by (induction rule: rtranclp_induct) (use new_system_ok [OF assms(1)] system_step in auto)

end
