(* ===== verification/Delivery_Contracts.thy ===== *)
theory Delivery_Contracts
  imports Delivery_Changes "HOL-Library.Sublist"
begin

text \<open>
  What single operations of dispatcher and transport promise: which rows a claim takes, in which
  order the transport accepts the operations of one fence, and that a row which is due, claimed and
  sent in time is accepted.
\<close>

section \<open>Claiming a batch\<close>

text \<open>The rows a worker may take now.\<close>

definition claimable :: "DispatcherConfig \<Rightarrow> authorityValue \<Rightarrow> int \<Rightarrow> memoryPersistence \<Rightarrow> outboxRecord \<Rightarrow> deliveryState \<Rightarrow> bool" where
  "claimable c a now p row v \<longleftrightarrow>
     \<not> deliveryOutdated p row v \<and> \<not> dv_Terminal v \<and> dv_Disposition v \<noteq> DeliveryReconciliationRequired \<and>
     mo_at (dv_RetryAt v) \<le> now \<and> (dv_LeaseFence v = 0 \<or> \<not> leaseLive now v) \<and>
     \<not> (dv_Disposition v = DeliveryClaimed \<and> dv_SendStarted v)"

lemma claimTurn_claims:
  "claimTurn c a now p row v = (Some v', True) \<longleftrightarrow> claimable c a now p row v \<and> v' = leased c a now v"
  "claimTurn c a now p row v \<noteq> (None, True)"
  by (auto simp: claimTurn_def claimable_def)

text \<open>The batch the loop should claim: the first claimable rows, as many as there is room for.\<close>

definition batch :: "DispatcherConfig \<Rightarrow> authorityValue \<Rightarrow> int \<Rightarrow> memoryPersistence \<Rightarrow> nat \<Rightarrow>
    (ident \<times> outboxRecord) list \<Rightarrow> dispatcherState \<Rightarrow> DeliveryClaim list" where
  "batch c a now p room rows s =
     map (\<lambda>(k, row). claimOf c a k row (leased c a now (deliveryOf s k)))
       (take room (filter (\<lambda>(k, row). claimable c a now p row (deliveryOf s k)) rows))"

lemma batch_put_other:
  assumes "k \<notin> fst ` set rows"
  shows "batch c a now p room rows (putDelivery k v s) = batch c a now p room rows s"
proof -
  let ?due = "\<lambda>s. \<lambda>(k', row). claimable c a now p row (deliveryOf s k')"
  let ?claim = "\<lambda>s. \<lambda>(k', row). claimOf c a k' row (leased c a now (deliveryOf s k'))"
  let ?s = "putDelivery k v s"
  have same: "deliveryOf ?s (fst x) = deliveryOf s (fst x)" if "x \<in> set rows" for x
    using assms that by auto
  have due: "filter (?due ?s) rows = filter (?due s) rows"
    by (intro filter_cong refl) (use same in \<open>auto simp: case_prod_beta simp del: deliveryOf_put\<close>)
  have "map (?claim ?s) (take room (filter (?due s) rows)) = map (?claim s) (take room (filter (?due s) rows))"
    by (intro map_cong refl) (use same in \<open>auto simp: case_prod_beta simp del: deliveryOf_put dest!: in_set_takeD\<close>)
  then show ?thesis unfolding batch_def due .
qed

lemma claimLoop_batch:
  "distinct (map fst rows) \<Longrightarrow> room > 0 \<Longrightarrow> fst (claimLoop c a now p room rows s) = batch c a now p room rows s"
proof (induction rows arbitrary: room s)
  case Nil
  then show ?case by (simp add: batch_def)
next
  case (Cons first rows)
  obtain k row where first: "first = (k, row)" by fastforce
  from Cons.prems have k: "k \<notin> fst ` set rows" and distinct: "distinct (map fst rows)" by (auto simp: first)
  show ?case
  proof (cases "claimable c a now p row (deliveryOf s k)")
    case False
    then have "claimTurn c a now p row (deliveryOf s k) \<noteq> (Some v, True)" for v by (simp add: claimTurn_claims)
    then consider "claimTurn c a now p row (deliveryOf s k) = (None, False)"
      | v where "claimTurn c a now p row (deliveryOf s k) = (Some v, False)"
      using claimTurn_claims(2) by (metis (full_types) option.exhaust surj_pair)
    then show ?thesis
      by cases (use False Cons.IH [OF distinct Cons.prems(2)] batch_put_other [OF k] in \<open>simp_all add: first batch_def\<close>)
  next
    case True
    then have turn: "claimTurn c a now p row (deliveryOf s k) = (Some (leased c a now (deliveryOf s k)), True)"
      by (simp add: claimTurn_claims)
    obtain more where room: "room = Suc more" using Cons.prems(2) by (cases room) auto
    show ?thesis
    proof (cases more)
      case 0
      with turn True show ?thesis by (simp add: first room batch_def)
    next
      case (Suc left)
      with Cons.IH [OF distinct, of more "putDelivery k (leased c a now (deliveryOf s k)) s"] batch_put_other [OF k] turn True
      show ?thesis by (simp add: first room batch_def case_prod_beta)
    qed
  qed
qed

text \<open>Every claim of the batch is recorded as a lease.\<close>

lemma claimLoop_leases:
  "distinct (map fst rows) \<Longrightarrow> claimLoop c a now p room rows s = (claims, s') \<Longrightarrow> claim \<in> set claims \<Longrightarrow>
     \<exists>k row. (k, row) \<in> set rows \<and> claimable c a now p row (deliveryOf s k) \<and>
       claim = claimOf c a k row (leased c a now (deliveryOf s k)) \<and>
       map_of (ds_deliveries s') k = Some (leased c a now (deliveryOf s k))"
proof (induction rows arbitrary: room s claims s')
  case (Cons first rows)
  obtain k' row' where first: "first = (k', row')" by fastforce
  from Cons.prems(1) have k': "k' \<notin> fst ` set rows" and distinct: "distinct (map fst rows)" by (auto simp: first)
  have later: ?case
    if step: "claimLoop c a now p room' rows (putDelivery k' v s) = (claims', s')" and claim: "claim \<in> set claims'"
    for room' claims' v
  proof -
    from Cons.IH [OF distinct step claim] obtain k row where found: "(k, row) \<in> set rows"
      "claimable c a now p row (deliveryOf (putDelivery k' v s) k)"
      "claim = claimOf c a k row (leased c a now (deliveryOf (putDelivery k' v s) k))"
      "map_of (ds_deliveries s') k = Some (leased c a now (deliveryOf (putDelivery k' v s) k))" by blast
    moreover have "k \<noteq> k'" using found(1) k' by force
    ultimately show ?thesis by (auto simp: first)
  qed
  obtain turn b where turn: "claimTurn c a now p row' (deliveryOf s k') = (turn, b)" by fastforce
  show ?case
  proof (cases turn)
    case None
    with turn Cons.prems(2) have "claimLoop c a now p room rows s = (claims, s')" by (simp add: first)
    from Cons.IH [OF distinct this Cons.prems(3)] show ?thesis by (auto simp: first)
  next
    case (Some v)
    show ?thesis
    proof (cases b)
      case False
      with turn Some Cons.prems(2) have "claimLoop c a now p room rows (putDelivery k' v s) = (claims, s')"
        by (simp add: first)
      from later [OF this Cons.prems(3)] show ?thesis .
    next
      case True
      with turn Some have v: "claimable c a now p row' (deliveryOf s k')" "v = leased c a now (deliveryOf s k')"
        by (simp_all add: claimTurn_claims)
      from True turn Some Cons.prems(2) consider
          "claims = [claimOf c a k' row' v]" "s' = putDelivery k' v s"
        | claims' where "claims = claimOf c a k' row' v # claims'"
            "claimLoop c a now p (room - 1) rows (putDelivery k' v s) = (claims', s')"
        by (auto simp: first split: if_splits prod.splits)
      then show ?thesis
      proof cases
        case 1
        with Cons.prems(3) v show ?thesis by (auto simp: first)
      next
        case (2 claims')
        show ?thesis
        proof (cases "claim \<in> set claims'")
          case True
          with later 2(2) show ?thesis by blast
        next
          case False
          have "map_of (ds_deliveries s') k' = Some v" using claimLoop_other [OF k' 2(2)] by simp
          with False 2(1) Cons.prems(3) v show ?thesis by (auto simp: first)
        qed
      qed
    qed
  qed
qed simp

lemma Claim_loop:
  assumes "Claim c contextDone a limit now p s = (Inr claims, s')"
  obtains s\<^sub>1 where "claimLoop c a now p (unat (min limit (dc_MaxBatchSize c))) (claimOrder (mp_outbox p)) s = (claims, s\<^sub>1)"
    and "ds_deliveries s' = ds_deliveries s\<^sub>1" and "limit \<noteq> 0" and "dispatcherAuthorized c a"
    and "ds_fault s = None \<Longrightarrow> ds_fault s' = None"
proof -
  let ?limit = "if limit > dc_MaxBatchSize c then dc_MaxBatchSize c else limit"
  have fault: "ds_fault s\<^sub>2 = ds_fault s\<^sub>1" if "claimLoop c a now p room rows s\<^sub>1 = (claims, s\<^sub>2)" for room rows s\<^sub>1 s\<^sub>2 claims
    using that
    by (induction c a now p room rows s\<^sub>1 arbitrary: claims s\<^sub>2 rule: claimLoop.induct)
      (force split: option.splits bool.splits prod.splits if_splits)+
  from assms have ok: "limit \<noteq> 0" "\<not> contextDone" "dispatcherAuthorized c a" "now \<noteq> 0"
    by (auto simp: Claim_def split: if_splits)
  obtain claims' s\<^sub>1 where loop: "claimLoop c a now p (unat ?limit) (claimOrder (mp_outbox p)) s = (claims', s\<^sub>1)"
    by fastforce
  from assms ok loop fault [OF loop] have "claims' = claims" "ds_deliveries s' = ds_deliveries s\<^sub>1"
    "ds_fault s = None \<longrightarrow> ds_fault s' = None"
    by (auto simp: Claim_def Let_def deliveryFaultAt_def split: if_splits prod.splits)
  moreover have "?limit = min limit (dc_MaxBatchSize c)" by (auto simp: min_def)
  ultimately show thesis using that loop ok by simp
qed

lemma Claim_leases:
  assumes "Claim c contextDone a limit now p s = (Inr claims, s')" and "distinct (map fst (mp_outbox p))"
    and "claim \<in> set claims"
  obtains k row where "map_of (mp_outbox p) k = Some row" "claimable c a now p row (deliveryOf s k)"
    "claim = claimOf c a k row (leased c a now (deliveryOf s k))"
    "map_of (ds_deliveries s') k = Some (leased c a now (deliveryOf s k))"
proof -
  from assms(1) obtain s\<^sub>1 where loop:
    "claimLoop c a now p (unat (min limit (dc_MaxBatchSize c))) (claimOrder (mp_outbox p)) s = (claims, s\<^sub>1)"
    "ds_deliveries s' = ds_deliveries s\<^sub>1" by (rule Claim_loop)
  with claimLoop_leases [OF _ loop(1) assms(3)] assms(2) show thesis by (auto simp: map_of_eq_Some_iff intro: that)
qed

text \<open>
  C23. A claim returns the oldest rows that are due: in the order in which they were committed, as
  many as the batch allows, each leased to the worker under the next fence, and no row that is
  settled, in doubt, put off, outdated or under a lease that still runs.
\<close>

theorem claim_takes_due_rows:
  assumes "Claim c contextDone a limit now p s = (Inr claims, s')" and "distinct (map fst (mp_outbox p))"
    and "dc_MaxBatchSize c \<noteq> 0"
  shows "claims = batch c a now p (unat (min limit (dc_MaxBatchSize c))) (claimOrder (mp_outbox p)) s \<and>
    (\<forall>claim \<in> set claims. deliveryOf s' (cl_OperationID claim) = leased c a now (deliveryOf s (cl_OperationID claim)))"
proof -
  from assms(1) obtain s\<^sub>1 where loop:
    "claimLoop c a now p (unat (min limit (dc_MaxBatchSize c))) (claimOrder (mp_outbox p)) s = (claims, s\<^sub>1)" "limit \<noteq> 0"
    by (rule Claim_loop)
  have "deliveryOf s' (cl_OperationID claim) = leased c a now (deliveryOf s (cl_OperationID claim))" if "claim \<in> set claims" for claim
    using assms(1,2) that by (rule Claim_leases) (simp add: claimOf_def deliveryOf_Some)
  moreover have "claims = batch c a now p (unat (min limit (dc_MaxBatchSize c))) (claimOrder (mp_outbox p)) s"
  proof -
    have "unat (min limit (dc_MaxBatchSize c)) > 0" using loop(2) assms(3) by (simp add: unat_gt_0 min_def)
    from claimLoop_batch [OF _ this, of "claimOrder (mp_outbox p)" c a now p s] assms(2) loop(1) show ?thesis by simp
  qed
  ultimately show ?thesis by blast
qed

section \<open>The transport accepts in order\<close>

text \<open>What the transport is told over time.\<close>

inductive transport_step :: "hashing \<Rightarrow> OwnedTransportConfig \<Rightarrow> ownedTransportState \<Rightarrow> ownedTransportState \<Rightarrow> bool" for h c t where
  transport_delivers: "transportDeliver h c contextDone now later satisfied q t = (answer, t') \<Longrightarrow> transport_step h c t t'"

inductive_cases transport_stepE: "transport_step h c t t'"

lemma order_before_trans: "order_before x y \<Longrightarrow> \<not> order_before z y \<Longrightarrow> order_before x z"
  by (auto simp: order_before_def)

definition passed :: "ownedTransportState \<Rightarrow> ownedTransportScope \<Rightarrow> ownedTransportOrder \<Rightarrow> bool" where
  "passed t scope position \<longleftrightarrow> (case map_of (ot_latest t) scope of None \<Rightarrow> False | Some latest \<Rightarrow> \<not> order_before latest position)"

lemma order_before_up: "order_before x y \<Longrightarrow> order_before y z \<Longrightarrow> order_before x z"
  by (auto simp: order_before_def)

lemma order_before_irrefl [simp]: "\<not> order_before x x"
  by (simp add: order_before_def)

lemma transportDeliver_latest:
  assumes "transportDeliver h c contextDone now later satisfied q t = (answer, t')"
  obtains (same) "ot_latest t' = ot_latest t"
  | (raised) "ot_latest t' = AList.update (requestScope q) (requestOrder q) (ot_latest t)"
      "\<And>latest. map_of (ot_latest t) (requestScope q) = Some latest \<Longrightarrow> order_before latest (requestOrder q)"
proof -
  from assms have "ot_latest t' = ot_latest t \<or>
    ot_latest t' = AList.update (requestScope q) (requestOrder q) (ot_latest t) \<and>
    (\<forall>latest. map_of (ot_latest t) (requestScope q) = Some latest \<longrightarrow> order_before latest (requestOrder q))"
    by (simp add: transportDeliver_def transportDeliverLocked_def Let_def split: if_splits option.splits prod.splits) auto
  then show thesis using that by blast
qed

lemma passed_step: "transport_step h c t t' \<Longrightarrow> passed t scope position \<Longrightarrow> passed t' scope position"
proof (elim transport_stepE)
  fix contextDone now later satisfied q answer
  assume step: "transportDeliver h c contextDone now later satisfied q t = (answer, t')"
    and before: "passed t scope position"
  from step show "passed t' scope position"
  proof (cases rule: transportDeliver_latest)
    case same
    with before show ?thesis by (simp add: passed_def)
  next
    case raised
    with before show ?thesis by (cases "scope = requestScope q") (auto simp: passed_def dest: order_before_up split: option.splits)
  qed
qed

lemma passed_run: "(transport_step h c)\<^sup>*\<^sup>* t t' \<Longrightarrow> passed t scope position \<Longrightarrow> passed t' scope position"
  by (induction rule: rtranclp_induct) (auto intro: passed_step)

lemma accepted_passed:
  assumes "transportDeliver h c contextDone now later satisfied q t = (Inr r, t')"
    and "os_Outcome r = OwnedTransportAccepted" and "\<not> os_Duplicate r"
  shows "passed t' (requestScope q) (requestOrder q)"
  using assms
  by (auto simp: transportDeliver_def transportDeliverLocked_def transportAnswer_def passed_def Let_def
      split: if_splits option.splits)

lemma passed_supersedes:
  assumes "passed t (requestScope q) position" and "order_before (requestOrder q) position"
    and "transportDeliver h c contextDone now later satisfied q t = (Inr r, t')"
  shows "os_Outcome r = OwnedTransportAccepted \<longrightarrow> os_Duplicate r"
proof -
  obtain latest where latest: "map_of (ot_latest t) (requestScope q) = Some latest" "\<not> order_before latest position"
    using assms(1) by (auto simp: passed_def split: option.splits)
  have "order_before (requestOrder q) latest" using order_before_trans [OF assms(2) latest(2)] .
  with assms(3) latest(1) show ?thesis
    by (simp add: transportDeliver_def transportDeliverLocked_def transportAnswer_def Let_def
        split: if_splits option.splits prod.splits) (auto simp: order_before_def)
qed

text \<open>
  C24. The transport takes the operations of one fence in order: once it accepted an operation, it
  accepts no operation of the same scope with an earlier activity generation, or the same one and
  an earlier fence, at any later time; it only repeats the answer to one that it accepted before.
\<close>

theorem transport_accepts_in_order:
  assumes "transportDeliver h c done\<^sub>1 now\<^sub>1 later\<^sub>1 satisfied\<^sub>1 q\<^sub>1 t\<^sub>0 = (Inr r\<^sub>1, t\<^sub>1)"
    and "os_Outcome r\<^sub>1 = OwnedTransportAccepted" and "\<not> os_Duplicate r\<^sub>1"
    and "(transport_step h c)\<^sup>*\<^sup>* t\<^sub>1 t\<^sub>2"
    and "transportDeliver h c done\<^sub>2 now\<^sub>2 later\<^sub>2 satisfied\<^sub>2 q\<^sub>2 t\<^sub>2 = (Inr r\<^sub>2, t\<^sub>3)"
    and "requestScope q\<^sub>2 = requestScope q\<^sub>1" and "order_before (requestOrder q\<^sub>2) (requestOrder q\<^sub>1)"
    and "os_Outcome r\<^sub>2 = OwnedTransportAccepted"
  shows "os_Duplicate r\<^sub>2"
proof -
  have "passed t\<^sub>2 (requestScope q\<^sub>2) (requestOrder q\<^sub>1)"
    using passed_run [OF assms(4) accepted_passed [OF assms(1-3)]] assms(6) by simp
  from passed_supersedes [OF this assms(7,5)] assms(8) show ?thesis by simp
qed

section \<open>What the transport accepts\<close>

text \<open>The transport has no answer for the operation yet and would not pass it over.\<close>

definition deliverable :: "OwnedTransportConfig \<Rightarrow> OwnedTransportRequest \<Rightarrow> ownedTransportState \<Rightarrow> bool" where
  "deliverable tc q t \<longleftrightarrow>
     or_Version q = oc_SupportedVersion tc \<and> transportAuthorized tc (or_Authority q) \<and> validOwnedTransportRequest q \<and>
     map_of (ot_journal t) (or_OperationID q) = None \<and>
     (case map_of (ot_latest t) (requestScope q) of None \<Rightarrow> True | Some latest \<Rightarrow> \<not> order_before (requestOrder q) latest)"

lemma deliverable_accepted:
  assumes "deliverable tc q t" and "now < mo_at (or_Deadline q)"
  obtains r t' where "transportDeliver h tc False now later True q t = (Inr r, t')"
    "os_Version r = or_Version q" "os_OperationID r = or_OperationID q" "os_Outcome r = OwnedTransportAccepted"
    "os_ResultDigest r = hs_text h (''owned-transport-result-v1|'' @ ownedTransportBinding h q)"
proof -
  obtain r t' where step: "transportDeliver h tc False now later True q t = (Inr r, t')"
    "r = (transportAnswer tc (or_OperationID q) OwnedTransportAccepted)
       \<lparr>os_ResultDigest := hs_text h (''owned-transport-result-v1|'' @ ownedTransportBinding h q)\<rparr>"
    using assms by (auto simp: transportDeliver_def transportDeliverLocked_def deliverable_def Let_def split: option.splits)
  with assms(1) show thesis by (intro that [of r t']) (simp_all add: transportAnswer_def deliverable_def)
qed

section \<open>An inspection that is refused\<close>

text \<open>
  C25. A refused inspection settles the delivery: when a worker whom the dispatcher knows and the
  transport does not reconciles a delivery in doubt, the delivery ends poisoned for good, whatever
  the transport's journal says of the operation.
\<close>

theorem refused_inspection_poisons:
  assumes "beginReconcile c False a k p s = (Inr (v, i), s')" and "dc_TransportVersion c = oc_SupportedVersion tc"
    and "\<not> transportAuthorized tc a"
  shows "\<exists>result d. completeReconcile c k v (transportInspect tc False i t) now s' = (Inr result, d) \<and>
    dr_Disposition result = DeliveryPoisoned \<and> dv_Terminal (deliveryOf d k)"
  using assms(1)
proof (cases rule: beginReconcile_cases)
  case (asked u)
  with assms(2,3) show ?thesis
    by (simp add: transportInspect_def transportAnswer_def completeReconcile_def normalizeDeliveryOutcome_def
        outcomeOf_def applyNormalizedDeliveryOutcome_def deliveryResultFromState_def)
qed simp

end
