(* ===== verification/Delivery_Life.thy ===== *)
theory Delivery_Life
  imports Delivery_System Delivery_Contracts
begin

text \<open>
  The life of a delivery: what the dispatcher promises about the delivery of one outbox row, as an
  abstract machine that every step of the system refines, and the properties of whole runs.
\<close>

section \<open>The abstract machine\<close>

text \<open>
  \<open>Waiting\<close> for a worker, \<open>Held\<close> or \<open>Sent\<close> by one, in \<open>Doubt\<close> whether an envelope arrived, or
  \<open>Settled\<close>; with the fence of the last lease and the number of envelopes sent.
\<close>

datatype deliveryPhase =
    Waiting
  | Held authorityValue
  | Sent authorityValue
  | Doubt
  | Settled DeliveryDisposition digest

type_synonym deliveryLife = "deliveryPhase \<times> u64 \<times> u32"

definition phaseOf :: "deliveryState \<Rightarrow> deliveryPhase" where
  "phaseOf v =
     (if dv_Terminal v then Settled (dv_Disposition v) (dv_ResultDigest v)
      else if dv_Disposition v = DeliveryReconciliationRequired then Doubt
      else if dv_Authority v = zeroAuthority then Waiting
      else if dv_SendStarted v then Sent (dv_Authority v)
      else Held (dv_Authority v))"

definition lifeOf :: "deliveryState \<Rightarrow> deliveryLife" where
  "lifeOf v = (phaseOf v, dv_LeaseFence v, dv_DeliveryCount v)"

text \<open>What an answer of the transport settles, and whether it leaves the delivery to be sent again.\<close>

fun settles :: "OwnedTransportResponse \<Rightarrow> deliveryPhase \<Rightarrow> bool" where
  "settles r (Settled DeliveryAccepted digest) =
     (os_Outcome r = OwnedTransportAccepted \<and> digest = os_ResultDigest r \<and> digest \<noteq> zero_digest)"
| "settles r (Settled DeliverySuperseded digest) = (os_Outcome r = OwnedTransportSuperseded)"
| "settles r (Settled DeliveryPoisoned digest) =
     (os_Outcome r \<in> {OwnedTransportPoisoned, OwnedTransportUnsupportedVersion, OwnedTransportUnauthorized})"
| "settles r (Settled DeliveryIntegrityConflict digest) = (os_Outcome r = OwnedTransportIntegrityConflict)"
| "settles r _ = False"

definition put_off :: "OwnedTransportResponse \<Rightarrow> bool" where
  "put_off r \<longleftrightarrow> os_Outcome r \<in> {OwnedTransportBackpressured, OwnedTransportDeferred}"

inductive delivery_move :: "(OwnedTransportResponse \<Rightarrow> bool) \<Rightarrow> deliveryLife \<Rightarrow> deliveryLife \<Rightarrow> bool" for known where
  move_claim: "phase = Waiting \<or> phase = Held b \<Longrightarrow> f' = f + 1 \<Longrightarrow> delivery_move known (phase, f, n) (Held a, f', n)"
| move_send: "n' = n + 1 \<Longrightarrow> delivery_move known (Held a, f, n) (Sent a, f, n')"
| move_outdate: "phase = Waiting \<or> phase = Held a \<Longrightarrow>
    delivery_move known (phase, f, n) (Settled DeliverySuperseded d, f, n)"
| move_lose: "delivery_move known (Sent a, f, n) (Doubt, f, n)"
| move_settle: "known r \<Longrightarrow> settles r phase \<Longrightarrow> from = Sent a \<or> from = Doubt \<Longrightarrow>
    delivery_move known (from, f, n) (phase, f, n)"
| move_refuse: "known r \<Longrightarrow> put_off r \<Longrightarrow> delivery_move known (Sent a, f, n) (Waiting, f, n)"
| move_retry: "known r \<Longrightarrow> put_off r \<or> os_Outcome r = OwnedTransportUnknown \<Longrightarrow>
    delivery_move known (Doubt, f, n) (Waiting, f, n)"

lemma normalized_phase:
  assumes "normalizeDeliveryOutcome r now origin = Some x"
  shows "no_terminal x \<Longrightarrow> settles r (Settled (no_disposition x) (no_resultDigest x))"
    and "\<not> no_terminal x \<Longrightarrow> put_off r \<or> os_Outcome r = OwnedTransportUnknown \<and> origin = deliveryOutcomeFromInspection"
    and "no_disposition x \<noteq> DeliveryReconciliationRequired"
  using assms by (auto simp: normalizeDeliveryOutcome_def outcomeOf_def put_off_def Let_def split: if_splits)

lemma life_applied:
  assumes "normalizeDeliveryOutcome r now origin = Some x" and "dv_Authority v = zeroAuthority"
  shows "lifeOf (applyNormalizedDeliveryOutcome x v) =
    (if no_terminal x then Settled (no_disposition x) (no_resultDigest x) else Waiting, dv_LeaseFence v, dv_DeliveryCount v)"
  using assms normalized_phase(3) [OF assms(1)]
  by (simp add: lifeOf_def phaseOf_def applyNormalizedDeliveryOutcome_def)

lemma released_applied:
  "released (applyNormalizedDeliveryOutcome x v) = applyNormalizedDeliveryOutcome x (released v)"
  by (simp add: released_def applyNormalizedDeliveryOutcome_def)

lemma life_in_doubt: "delivery_ok v \<Longrightarrow> \<not> dv_Terminal v \<Longrightarrow>
    lifeOf (inDoubt v) = (Doubt, dv_LeaseFence v, dv_DeliveryCount v)"
  by (simp add: lifeOf_def phaseOf_def inDoubt_def released_def)

lemma phase_open:
  assumes "deliveryCanBeSuperseded v" and "delivery_ok v"
  shows "phaseOf v = Waiting \<or> phaseOf v = Held (dv_Authority v)"
  using assms by (cases "dv_Disposition v") (simp_all add: phaseOf_def deliveryCanBeSuperseded_def delivery_ok_def terminalDisposition_def)

lemma phase_leasable:
  assumes "\<not> dv_Terminal v" and "dv_Disposition v \<noteq> DeliveryReconciliationRequired"
    and "\<not> (dv_Disposition v = DeliveryClaimed \<and> dv_SendStarted v)" and "delivery_ok v"
  shows "phaseOf v = Waiting \<or> phaseOf v = Held (dv_Authority v)"
  using assms by (cases "dv_SendStarted v") (simp_all add: phaseOf_def delivery_ok_def)

lemma life_sent:
  "delivery_ok v \<Longrightarrow> dv_SendStarted v \<Longrightarrow> \<not> dv_Terminal v \<Longrightarrow>
     lifeOf v = (Sent (dv_Authority v), dv_LeaseFence v, dv_DeliveryCount v)"
  by (simp add: lifeOf_def phaseOf_def delivery_ok_def)

lemma life_doubt:
  "delivery_ok v \<Longrightarrow> dv_Disposition v = DeliveryReconciliationRequired \<Longrightarrow> \<not> dv_Terminal v \<Longrightarrow>
     lifeOf v = (Doubt, dv_LeaseFence v, dv_DeliveryCount v)"
  by (simp add: lifeOf_def phaseOf_def)

lemma life_superseded:
  "lifeOf (superseded v) = (Settled DeliverySuperseded (dv_ResultDigest v), dv_LeaseFence v, dv_DeliveryCount v)"
  by (simp add: lifeOf_def phaseOf_def superseded_def released_def)

lemma life_leased:
  "a \<noteq> zeroAuthority \<Longrightarrow> \<not> dv_Terminal v \<Longrightarrow>
     lifeOf (leased c a now v) = (Held a, dv_LeaseFence v + 1, dv_DeliveryCount v)"
  by (simp add: lifeOf_def phaseOf_def leased_def)

lemma life_held:
  "delivery_ok v \<Longrightarrow> dv_Authority v \<noteq> zeroAuthority \<Longrightarrow> \<not> dv_SendStarted v \<Longrightarrow>
     lifeOf v = (Held (dv_Authority v), dv_LeaseFence v, dv_DeliveryCount v)"
  by (simp add: lifeOf_def phaseOf_def delivery_ok_def terminalDisposition_def)

lemma life_sending:
  "delivery_ok v \<Longrightarrow> dv_Authority v \<noteq> zeroAuthority \<Longrightarrow>
     lifeOf (sending v) = (Sent (dv_Authority v), dv_LeaseFence v, dv_DeliveryCount v + 1)"
  by (simp add: lifeOf_def phaseOf_def sending_def delivery_ok_def terminalDisposition_def)

lemma life_same:
  "lifeOf (v\<lparr>dv_LeaseExpiresAt := t\<rparr>) = lifeOf v" "lifeOf (v\<lparr>dv_ReconcileFence := f\<rparr>) = lifeOf v"
  by (simp_all add: lifeOf_def phaseOf_def)

text \<open>Every change of a delivery is a move of the machine, or not seen by it.\<close>

lemma change_moves:
  assumes "delivery_change known v v'" and "delivery_ok v"
  shows "lifeOf v' = lifeOf v \<or> delivery_move known (lifeOf v) (lifeOf v')"
  using assms(1)
proof cases
  case change_superseded
  from phase_open [OF this(2) assms(2)] have "delivery_move known (lifeOf v) (lifeOf (superseded v))"
    unfolding life_superseded by (auto simp: lifeOf_def intro: move_outdate)
  with change_superseded(1) show ?thesis by simp
next
  case (change_leased a now c)
  then have "phaseOf v = Waiting \<or> phaseOf v = Held (dv_Authority v)"
    using assms(2) by (metis phase_leasable)
  with life_leased [OF valid_not_zero [OF change_leased(5)] change_leased(2)]
  have "delivery_move known (lifeOf v) (lifeOf (leased c a now v))"
    by (auto simp: lifeOf_def [of v] intro: move_claim)
  with change_leased(1) show ?thesis by simp
next
  case change_extended
  then show ?thesis by (simp add: life_same)
next
  case change_doubted
  with life_sent [OF assms(2)] life_in_doubt [OF assms(2)] show ?thesis by (simp add: move_lose)
next
  case change_sending
  note valid = valid_not_zero [OF change_sending(4)]
  show ?thesis
    unfolding change_sending(1) life_held [OF assms(2) valid change_sending(3)] life_sending [OF assms(2) valid]
    by (simp add: move_send)
next
  case (change_marked a f)
  with life_sent [OF assms(2)] life_in_doubt [OF assms(2)] show ?thesis by (simp add: move_lose holdsClaim_def)
next
  case (change_settled a f r now x)
  then have life: "lifeOf v = (Sent (dv_Authority v), dv_LeaseFence v, dv_DeliveryCount v)"
    using life_sent [OF assms(2)] by (simp add: holdsClaim_def)
  have life': "lifeOf v' = (if no_terminal x then Settled (no_disposition x) (no_resultDigest x) else Waiting,
      dv_LeaseFence v, dv_DeliveryCount v)"
    unfolding change_settled(1) released_applied by (subst life_applied [OF change_settled(6)]) (simp_all add: released_def)
  show ?thesis
    unfolding life life' using change_settled(4) normalized_phase(1,2) [OF change_settled(6)]
    by (auto intro: move_settle move_refuse)
next
  case change_asked
  then show ?thesis by (simp add: life_same)
next
  case (change_reported r now x)
  then have free: "dv_Authority v = zeroAuthority" using assms(2) by (auto simp: delivery_ok_def)
  show ?thesis
    unfolding change_reported(1) life_applied [OF change_reported(5) free] life_doubt [OF assms(2) change_reported(2,3)]
    using normalized_phase(1,2) [OF change_reported(5)] change_reported(4)
    by (auto intro: move_settle move_retry)
qed

section \<open>Runs\<close>


text \<open>
  C9. An accepted delivery took effect: in any run, whatever was lost or crashed in it, the
  transport's journal holds an acceptance of the operation with the digest the delivery has,
  under the binding of the outbox row.
\<close>

theorem accepted_delivery_took_effect:
  assumes "NewDeterministicHarness config = Inr e" and "delivery_run h c tc (newDeliverySystem e) s"
    and "dv_Disposition (deliveryIn s k) = DeliveryAccepted"
  shows "\<exists>row r. map_of (outboxOf s) k = Some row \<and>
    map_of (ot_journal (sy_transport s)) k = Some (row_binding h c row, r) \<and>
    os_Outcome r = OwnedTransportAccepted \<and> os_ResultDigest r = dv_ResultDigest (deliveryIn s k)"
proof -
  note ok = system_run [OF assms(1,2)]
  with assms(3) obtain b r where r: "map_of (ot_journal (sy_transport s)) k = Some (b, r)"
    "os_Outcome r = OwnedTransportAccepted" "os_ResultDigest r = dv_ResultDigest (deliveryIn s k)"
    by (auto simp: system_ok_def deliveries_ok_def)
  with system_okD(3) [OF ok r(1)] show ?thesis by auto
qed

text \<open>
  No delivery of a run is an integrity conflict: whichever workers send the envelopes of a row,
  however often and under whatever leases, they have one binding.
\<close>

theorem deliveries_never_conflict:
  assumes "NewDeterministicHarness config = Inr e" and "delivery_run h c tc (newDeliverySystem e) s"
  shows "dv_Disposition (deliveryIn s k) \<noteq> DeliveryIntegrityConflict"
  using system_run [OF assms] by (simp add: system_ok_def deliveries_ok_def)

text \<open>Facts of one delivery that no step takes back.\<close>

lemma delivery_run_keeps:
  assumes "delivery_run h c tc s s'" and "system_ok h c s" and "Q (deliveryIn s k)"
    and keeps: "\<And>known v v'. delivery_change known v v' \<Longrightarrow> delivery_ok v \<Longrightarrow> dv_LeaseFence v \<noteq> - 1 \<Longrightarrow> Q v \<Longrightarrow> Q v'"
  shows "system_ok h c s' \<and> Q (deliveryIn s' k)"
  using assms(1)
proof (induction rule: rtranclp_induct)
  case base
  with assms(2,3) show ?case by simp
next
  case (step s' s'')
  then have ok: "system_ok h c s'" "fences_left s'" "delivery_step h c tc s' s''" "Q (deliveryIn s' k)" by simp_all
  from step_delivery [OF ok(3,1), of k] have "Q (deliveryIn s'' k)"
    using keeps [OF _ system_okD(7) [OF ok(1)]] ok(2,4) by (auto simp: fences_left_def)
  with system_step [OF ok(3,2,1)] show ?case by simp
qed

text \<open>
  A settled delivery stays as it is: no later claim, send, answer, report or crash changes its
  disposition, its digest or its count.
\<close>

theorem settled_delivery_stays:
  assumes "NewDeterministicHarness config = Inr e" and "delivery_run h c tc (newDeliverySystem e) s"
    and "delivery_run h c tc s s'" and "dv_Terminal (deliveryIn s k)"
  shows "deliveryIn s' k = deliveryIn s k"
proof -
  from delivery_run_keeps [OF assms(3) system_run [OF assms(1,2)], where Q = "\<lambda>v. v = deliveryIn s k"]
  show ?thesis using assms(4) terminal_stays by blast
qed

text \<open>A worker whose lease was taken over cannot do anything to the delivery any more.\<close>

definition powerless :: "DispatcherConfig \<Rightarrow> deliverySystem \<Rightarrow> DeliveryClaim \<Rightarrow> bool" where
  "powerless c s claim \<longleftrightarrow>
     (\<forall>contextDone now. \<exists>failure d. ds_deliveries d = ds_deliveries (sy_dispatch s) \<and>
        beginDeliver c contextDone claim now (eg_persistence (sy_engine s)) (sy_dispatch s) = (DeliverFails failure, d)) \<and>
     (\<forall>q answer now later. \<exists>failure d. ds_deliveries d = ds_deliveries (sy_dispatch s) \<and>
        completeDeliver claim q answer now later (sy_dispatch s) = (Inl failure, d)) \<and>
     (\<forall>contextDone now. \<exists>failure.
        Heartbeat c contextDone (or_Authority (cl_Request claim)) (cl_OperationID claim) (cl_LeaseFence claim) now
          (eg_persistence (sy_engine s)) (sy_dispatch s) = (Inl failure, sy_dispatch s))"

lemma lost_powerless:
  assumes "dv_LeaseFence (deliveryIn s (cl_OperationID claim)) \<noteq> cl_LeaseFence claim"
  shows "powerless c s claim"
proof -
  let ?k = "cl_OperationID claim"
  have other: "map_of (ds_deliveries (sy_dispatch s)) ?k = Some v \<Longrightarrow> dv_LeaseFence v \<noteq> cl_LeaseFence claim" for v
    using assms by (simp add: deliveryOf_def)
  have "\<exists>failure d. ds_deliveries d = ds_deliveries (sy_dispatch s) \<and>
      beginDeliver c contextDone claim now (eg_persistence (sy_engine s)) (sy_dispatch s) = (DeliverFails failure, d)"
    for contextDone now
    using other by (auto simp: beginDeliver_def Let_def holdsClaim_def split: option.splits)
  moreover have "\<exists>failure d. ds_deliveries d = ds_deliveries (sy_dispatch s) \<and>
      completeDeliver claim q answer now later (sy_dispatch s) = (Inl failure, d)" for q answer now later
  proof -
    obtain result d where step: "completeDeliver claim q answer now later (sy_dispatch s) = (result, d)" by fastforce
    then show ?thesis
      by (cases rule: completeDeliver_cases) (use step other in \<open>auto simp: holdsClaim_def\<close>)
  qed
  moreover have "\<exists>failure. Heartbeat c contextDone (or_Authority (cl_Request claim)) ?k (cl_LeaseFence claim) now
      (eg_persistence (sy_engine s)) (sy_dispatch s) = (Inl failure, sy_dispatch s)" for contextDone now
    using other by (auto simp: Heartbeat_def split: option.splits)
  ultimately show ?thesis by (simp add: powerless_def)
qed

text \<open>
  C20. A worker that lost its lease is powerless for ever: after another claim of the row raised the
  fence, the old claim neither sends nor settles nor extends anything, at any later point of the
  run and whatever it was answered.
\<close>

theorem lost_lease_is_powerless:
  assumes "NewDeterministicHarness config = Inr e" and "delivery_run h c tc (newDeliverySystem e) s"
    and "delivery_run h c tc s s'"
    and "cl_LeaseFence claim < dv_LeaseFence (deliveryIn s (cl_OperationID claim))"
  shows "powerless c s' claim"
proof -
  let ?later = "\<lambda>v. cl_LeaseFence claim < dv_LeaseFence v"
  have "?later v'" if "delivery_change known v v'" "delivery_ok v" "dv_LeaseFence v \<noteq> - 1" "?later v" for known v v'
    using change_claim(1) [OF that(1-3) order_refl] that(4) by simp
  from delivery_run_keeps [OF assms(3) system_run [OF assms(1,2)], where Q = ?later, OF assms(4) this]
  show ?thesis by (intro lost_powerless) auto
qed

section \<open>A row that is due gets delivered\<close>

lemma claimable_open:
  assumes "claimable c a now p row v" and "delivery_ok v"
  shows "\<not> outboxRecordSuperseded row (mp_outbox p)" "\<not> epochPassed p row"
proof -
  have "deliveryCanBeSuperseded v" using assms
    by (cases "dv_Disposition v")
      (simp_all add: claimable_def deliveryCanBeSuperseded_def delivery_ok_def terminalDisposition_def)
  with assms(1) show "\<not> outboxRecordSuperseded row (mp_outbox p)" "\<not> epochPassed p row"
    by (auto simp: claimable_def deliveryOutdated_def)
qed

lemma completeDeliver_accepted:
  assumes "map_of (ds_deliveries s) (cl_OperationID claim) = Some v" and "ds_fault s = None"
    and "holdsClaim v (or_Authority (cl_Request claim)) (cl_LeaseFence claim)" and "leaseLive later v"
    and "os_Version r = or_Version q" "os_OperationID r = or_OperationID q" "os_Outcome r = OwnedTransportAccepted"
    and "os_ResultDigest r \<noteq> zero_digest"
  obtains result s' where "completeDeliver claim q (Inr r) now later s = (Inr result, s')"
    "dr_Disposition result = DeliveryAccepted" "dr_ResultDigest result = os_ResultDigest r"
  using assms
  by (simp add: completeDeliver_def deliveryFaultAt_def normalizeDeliveryOutcome_def outcomeOf_def finishClaim_def
      deliveryResultFromState_def released_def applyNormalizedDeliveryOutcome_def Let_def that)

text \<open>
  C21. A row that is due gets delivered: when a worker claims it, sends it and hears the answer within
  its lease, and the transport knows the worker, finds the prerequisite met and has not passed the
  row over, the delivery ends accepted, with the transport's result.
\<close>

theorem due_row_is_accepted:
  assumes "NewDeterministicHarness config = Inr e" and "delivery_run h c tc (newDeliverySystem e) s"
    and "fences_left s" and "ds_fault (sy_dispatch s) = None" and "proper_hashing h"
    and "Claim c False a limit now (eg_persistence (sy_engine s)) (sy_dispatch s) = (Inr claims, d)" and "claim \<in> set claims"
    and "deliverable tc (cl_Request claim) t" and "begun \<noteq> 0" and "begun < mo_at (cl_LeaseExpiresAt claim)"
    and "arrived < mo_at (cl_LeaseExpiresAt claim)" and "finished < mo_at (cl_LeaseExpiresAt claim)"
  shows "\<exists>result d' t'.
    Deliver c (transportDeliver h tc False arrived later True) False claim begun heard finished
      (eg_persistence (sy_engine s)) d t = (Inr result, d', t') \<and> dr_Disposition result = DeliveryAccepted \<and>
    dr_ResultDigest result = hs_text h (''owned-transport-result-v1|'' @ ownedTransportBinding h (cl_Request claim))"
proof -
  let ?p = "eg_persistence (sy_engine s)"
  note ok = system_run [OF assms(1,2)]
  have "distinct (map fst (outboxOf s))" using system_okD(1) [OF ok] by (simp add: outbox_ok_def)
  from assms(6) this assms(7) obtain k row where row: "map_of (outboxOf s) k = Some row"
    "claimable c a now ?p row (deliveryIn s k)" "claim = claimOf c a k row (leased c a now (deliveryIn s k))"
    "map_of (ds_deliveries d) k = Some (leased c a now (deliveryIn s k))" by (rule Claim_leases)
  define v where "v = leased c a now (deliveryIn s k)"
  define q where "q = cl_Request claim"
  have claim: "cl_OperationID claim = k" "cl_LeaseFence claim = dv_LeaseFence v"
    "cl_LeaseExpiresAt claim = dv_LeaseExpiresAt v" "q = envelope c row a (dv_LeaseExpiresAt v)"
    by (simp_all add: row(3) claimOf_def v_def q_def envelope_def)
  from assms(6) obtain s\<^sub>1 where authorized: "dispatcherAuthorized c a" and fault: "ds_fault d = None"
    by (rule Claim_loop) (use assms(4) in auto)
  have id: "or_OperationID q = k" using row(1) claim(4) system_okD(1) [OF ok] by (simp add: outbox_ok_def)
  then have opaque: "validOpaqueID k"
    using assms(8) by (simp add: q_def [symmetric] deliverable_def validOwnedTransportRequest_def split: if_splits)
  have "dv_LeaseFence (deliveryIn s k) \<noteq> - 1" using assms(3) by (simp add: fences_left_def)
  then have held: "holdsClaim v a (dv_LeaseFence v)" "\<not> dv_SendStarted v" "dv_LeaseFence v \<noteq> 0"
    using row(2) by (simp_all add: v_def holdsClaim_def leased_def claimable_def eq_neg_iff_add_eq_0)
  have current: "\<not> deliveryOutdated ?p row v"
    using claimable_open [OF row(2) system_okD(7) [OF ok]] by (simp add: deliveryOutdated_def)
  have authority: "or_Authority (cl_Request claim) = a" using claim(4) by (simp add: q_def)
  have start: "beginDeliver c False claim begun ?p d = (DeliverSends q, putDelivery k (sending v) d)"
    using authorized opaque held current row(1,4) [folded v_def] fault assms(9,10) claim(1-3) authority
    by (simp add: beginDeliver_def leaseLive_def deliveryFaultAt_def sending_def Let_def
        claim(4) [unfolded envelope_def])
  have "or_Deadline q = dv_LeaseExpiresAt v" using claim(4) by simp
  with assms(8,11) claim(3) obtain r t' where answer:
    "transportDeliver h tc False arrived later True q t = (Inr r, t')"
    "os_Version r = or_Version q" "os_OperationID r = or_OperationID q" "os_Outcome r = OwnedTransportAccepted"
    "os_ResultDigest r = hs_text h (''owned-transport-result-v1|'' @ ownedTransportBinding h q)"
    by (metis deliverable_accepted q_def)
  have sent: "holdsClaim (sending v) (or_Authority q) (cl_LeaseFence claim)" "leaseLive finished (sending v)"
    using held(1) claim assms(12) by (simp_all add: holdsClaim_def sending_def leaseLive_def)
  have stored: "map_of (ds_deliveries (putDelivery k (sending v) d)) (cl_OperationID claim) = Some (sending v)"
    "ds_fault (putDelivery k (sending v) d) = None" "os_ResultDigest r \<noteq> zero_digest"
    using fault assms(5) by (simp_all add: claim(1) answer(5) proper_hashingD)
  from stored(1,2) sent [unfolded q_def] answer(2-4) stored(3) obtain result d' where
    "completeDeliver claim q (Inr r) heard finished (putDelivery k (sending v) d) = (Inr result, d')"
    "dr_Disposition result = DeliveryAccepted" "dr_ResultDigest result = os_ResultDigest r"
    by (rule completeDeliver_accepted)
  then have "Deliver c (transportDeliver h tc False arrived later True) False claim begun heard finished ?p d t =
      (Inr result, d', t') \<and> dr_Disposition result = DeliveryAccepted \<and>
      dr_ResultDigest result = hs_text h (''owned-transport-result-v1|'' @ ownedTransportBinding h q)"
    by (simp add: Deliver_def start answer(1,5))
  then show ?thesis unfolding q_def by blast
qed

end
