(* ===== verification/Delivery_Runs.thy ===== *)
theory Delivery_Runs
  imports Delivery_Life Orch_Runs
begin

text \<open>
  A run of engine, dispatcher and transport, evaluated by the kernel: a worker claims the one row
  of the outbox and sends it; the answer is lost; the delivery is reconciled and found accepted.
  In another run a second worker takes the row over after the first lease ran out.
\<close>

section \<open>The run\<close>

definition work_engine :: engine where
  "work_engine = after work_request (after start_request demo_engine)"

text \<open>Two workers, known to dispatcher and transport.\<close>

definition second_worker :: authorityValue where
  "second_worker = newAuthorityValue AuthorityWorker ''worker-2'' 1"

definition demo_dispatcher :: DispatcherConfig where
  "demo_dispatcher = \<lparr>dc_MaxBatchSize = 2, dc_LeaseDuration = 100, dc_TransportVersion = OwnedTransportV1,
     dc_Authorities = [demo_worker, second_worker]\<rparr>"

definition demo_transport :: OwnedTransportConfig where
  "demo_transport = \<lparr>oc_SupportedVersion = OwnedTransportV1, oc_Authorities = [demo_worker, second_worker],
     oc_PrerequisiteRetryDelay = 10\<rparr>"

definition no_deliveries :: dispatcherState where
  "no_deliveries = \<lparr>ds_deliveries = [], ds_fault = None\<rparr>"

definition empty_transport :: ownedTransportState where
  "empty_transport = \<lparr>ot_journal = [], ot_latest = []\<rparr>"

fun envelope_sent :: "deliverStart \<Rightarrow> OwnedTransportRequest option" where
  "envelope_sent (DeliverSends q) = Some q"
| "envelope_sent _ = None"

definition fences_free :: "dispatcherState \<Rightarrow> bool" where
  "fences_free d \<longleftrightarrow> list_all (\<lambda>(_, v). dv_LeaseFence v \<noteq> - 1) (ds_deliveries d)"

lemma delivery_evaluated:
  "let p = eg_persistence work_engine; k = ''operation-000001'';
       (r\<^sub>1, d\<^sub>1) = Claim demo_dispatcher False demo_worker 1 1000 p no_deliveries;
       (r\<^sub>2, d\<^sub>2) = Claim demo_dispatcher False second_worker 1 2000 p d\<^sub>1;
       claim = hd (projr r\<^sub>1);
       (start, d\<^sub>3) = beginDeliver demo_dispatcher False claim 1010 p d\<^sub>1;
       q = the (envelope_sent start);
       (answer, t) = transportDeliver run_hash demo_transport False 1020 1020 True q empty_transport;
       (_, d\<^sub>4) = completeDeliver claim q (Inl OwnedTransportUnavailable) 1030 1030 d\<^sub>3;
       (asked, d\<^sub>5) = beginReconcile demo_dispatcher False demo_worker k p d\<^sub>4;
       report = transportInspect demo_transport False (snd (projr asked)) t;
       (_, d\<^sub>6) = completeReconcile demo_dispatcher k (fst (projr asked)) report 1040 d\<^sub>5
   in distinct (map fst (mp_outbox p)) \<and> r\<^sub>1 = Inr [claim] \<and> \<not> isl r\<^sub>2 \<and> start = DeliverSends q \<and> \<not> isl answer \<and>
      \<not> isl asked \<and> \<not> isl report \<and> os_Outcome (projr report) = OwnedTransportAccepted \<and> cl_OperationID claim = k \<and> cl_LeaseFence claim = 1 \<and>
      mo_at (cl_LeaseExpiresAt claim) = 1100 \<and>
      dv_LeaseFence (deliveryOf d\<^sub>2 k) = 2 \<and> dv_Disposition (deliveryOf d\<^sub>4 k) = DeliveryReconciliationRequired \<and>
      dv_Disposition (deliveryOf d\<^sub>6 k) = DeliveryAccepted \<and> dv_Terminal (deliveryOf d\<^sub>6 k) \<and>
      deliverable demo_transport (cl_Request claim) empty_transport \<and>
      list_all fences_free [d\<^sub>1, d\<^sub>2, d\<^sub>3, d\<^sub>4, d\<^sub>5, d\<^sub>6]"
  by code_simp

end
