(* ===== verification/Delivery_Witnesses.thy ===== *)
theory Delivery_Witnesses
  imports Delivery_Runs
begin

text \<open>
  The properties of deliveries at work: each one applied to the runs of \<open>Delivery_Runs\<close>, where its
  hypotheses hold.
\<close>

section \<open>The run, step by step\<close>

abbreviation outbox_row :: ident where "outbox_row \<equiv> ''operation-000001''"
abbreviation working :: memoryPersistence where "working \<equiv> eg_persistence work_engine"

definition claimed :: dispatcherState where
  "claimed = snd (Claim demo_dispatcher False demo_worker 1 1000 working no_deliveries)"
definition row_claim :: DeliveryClaim where
  "row_claim = hd (projr (fst (Claim demo_dispatcher False demo_worker 1 1000 working no_deliveries)))"
definition taken_over :: dispatcherState where
  "taken_over = snd (Claim demo_dispatcher False second_worker 1 2000 working claimed)"
definition sent :: dispatcherState where
  "sent = snd (beginDeliver demo_dispatcher False row_claim 1010 working claimed)"
definition row_envelope :: OwnedTransportRequest where
  "row_envelope = the (envelope_sent (fst (beginDeliver demo_dispatcher False row_claim 1010 working claimed)))"
definition row_answer :: OwnedTransportResponse where
  "row_answer = projr (fst (transportDeliver run_hash demo_transport False 1020 1020 True row_envelope empty_transport))"
definition accepting :: ownedTransportState where
  "accepting = snd (transportDeliver run_hash demo_transport False 1020 1020 True row_envelope empty_transport)"
definition doubted :: dispatcherState where
  "doubted = snd (completeDeliver row_claim row_envelope (Inl OwnedTransportUnavailable) 1030 1030 sent)"
definition asking :: dispatcherState where
  "asking = snd (beginReconcile demo_dispatcher False demo_worker outbox_row working doubted)"
definition row_asked :: "deliveryState \<times> OwnedTransportInspection" where
  "row_asked = projr (fst (beginReconcile demo_dispatcher False demo_worker outbox_row working doubted))"
definition row_report :: OwnedTransportResponse where
  "row_report = projr (transportInspect demo_transport False (snd row_asked) accepting)"
definition settled :: dispatcherState where
  "settled = snd (completeReconcile demo_dispatcher outbox_row (fst row_asked) (Inr row_report) 1040 asking)"

lemmas run_states = claimed_def row_claim_def taken_over_def sent_def row_envelope_def row_answer_def
  accepting_def doubted_def asking_def row_asked_def row_report_def settled_def

lemma delivery_facts:
  "distinct (map fst (mp_outbox working))"
  "Claim demo_dispatcher False demo_worker 1 1000 working no_deliveries = (Inr [row_claim], claimed)"
  "\<not> isl (fst (Claim demo_dispatcher False second_worker 1 2000 working claimed))"
  "beginDeliver demo_dispatcher False row_claim 1010 working claimed = (DeliverSends row_envelope, sent)"
  "transportDeliver run_hash demo_transport False 1020 1020 True row_envelope empty_transport = (Inr row_answer, accepting)"
  "beginReconcile demo_dispatcher False demo_worker outbox_row working doubted = (Inr row_asked, asking)"
  "transportInspect demo_transport False (snd row_asked) accepting = Inr row_report"
  "cl_OperationID row_claim = outbox_row" "cl_LeaseFence row_claim = 1" "mo_at (cl_LeaseExpiresAt row_claim) = 1100"
  "dv_LeaseFence (deliveryOf taken_over outbox_row) = 2"
  "dv_Disposition (deliveryOf doubted outbox_row) = DeliveryReconciliationRequired"
  "dv_Disposition (deliveryOf settled outbox_row) = DeliveryAccepted" "dv_Terminal (deliveryOf settled outbox_row)"
  "deliverable demo_transport (cl_Request row_claim) empty_transport"
  "list_all fences_free [claimed, taken_over, sent, doubted, asking, settled]"
  "os_Outcome row_report = OwnedTransportAccepted"
  using delivery_evaluated unfolding Let_def split_beta run_states
  by (simp_all add: prod_eq_iff sum.collapse(2))

section \<open>The systems of the run\<close>

definition working_system :: deliverySystem where
  "working_system = (newDeliverySystem demo_engine)\<lparr>sy_engine := work_engine\<rparr>"
definition claimed_system :: deliverySystem where
  "claimed_system = working_system\<lparr>sy_dispatch := claimed\<rparr>"
definition taken_system :: deliverySystem where
  "taken_system = claimed_system\<lparr>sy_dispatch := taken_over\<rparr>"
definition sent_system :: deliverySystem where
  "sent_system = claimed_system\<lparr>sy_dispatch := sent, sy_sends := [(row_claim, row_envelope)]\<rparr>"
definition arrived_system :: deliverySystem where
  "arrived_system = sent_system\<lparr>sy_transport := accepting, sy_answers := [(row_envelope, row_answer)]\<rparr>"
definition doubted_system :: deliverySystem where
  "doubted_system = arrived_system\<lparr>sy_dispatch := doubted\<rparr>"
definition asking_system :: deliverySystem where
  "asking_system = doubted_system\<lparr>sy_dispatch := asking, sy_asked := [(outbox_row, row_asked)]\<rparr>"
definition reported_system :: deliverySystem where
  "reported_system = asking_system\<lparr>sy_reports := [(snd row_asked, row_report)]\<rparr>"
definition settled_system :: deliverySystem where
  "settled_system = reported_system\<lparr>sy_dispatch := settled\<rparr>"

lemmas systems = working_system_def claimed_system_def taken_system_def sent_system_def arrived_system_def
  doubted_system_def asking_system_def reported_system_def settled_system_def newDeliverySystem_def

abbreviation demo_step :: "deliverySystem \<Rightarrow> deliverySystem \<Rightarrow> bool" where
  "demo_step \<equiv> delivery_step run_hash demo_dispatcher demo_transport"

abbreviation demo_delivery_run :: "deliverySystem \<Rightarrow> deliverySystem \<Rightarrow> bool" where
  "demo_delivery_run \<equiv> delivery_run run_hash demo_dispatcher demo_transport"

lemma fences_free_left: "fences_free (sy_dispatch s) \<Longrightarrow> fences_left s"
  by (auto simp: fences_free_def fences_left_def deliveryOf_def list_all_iff zeroDelivery_def
      dest!: map_of_SomeD split: option.splits)

lemma all_fences_left:
  "fences_left (newDeliverySystem e)" "fences_left working_system" "fences_left claimed_system"
  "fences_left taken_system" "fences_left sent_system" "fences_left arrived_system" "fences_left doubted_system"
  "fences_left asking_system" "fences_left reported_system" "fences_left settled_system"
  using delivery_facts(16) by (auto intro!: fences_free_left simp: systems) (simp_all add: fences_free_def)

lemma work_steps:
  "demo_step (newDeliverySystem demo_engine)
     ((newDeliverySystem demo_engine)\<lparr>sy_engine := after start_request demo_engine\<rparr>)"
  "demo_step ((newDeliverySystem demo_engine)\<lparr>sy_engine := after start_request demo_engine\<rparr>) working_system"
proof -
  have call: "engine_step run_hash e (after i e)" for i e
    by (rule step_decide [of _ False i _ "answer i e"]) (simp add: answer_def after_def)
  from call show "demo_step (newDeliverySystem demo_engine)
      ((newDeliverySystem demo_engine)\<lparr>sy_engine := after start_request demo_engine\<rparr>)"
    by (intro step_engine) (simp add: newDeliverySystem_def)
  have "demo_step s (s\<lparr>sy_engine := work_engine\<rparr>)" if "sy_engine s = after start_request demo_engine" for s
    using call by (intro step_engine) (simp add: that work_engine_def)
  from this [of "(newDeliverySystem demo_engine)\<lparr>sy_engine := after start_request demo_engine\<rparr>"]
  show "demo_step ((newDeliverySystem demo_engine)\<lparr>sy_engine := after start_request demo_engine\<rparr>) working_system"
    by (simp add: systems)
qed

lemma demo_delivery_steps:
  "demo_step working_system claimed_system" "demo_step claimed_system taken_system"
  "demo_step claimed_system sent_system" "demo_step sent_system arrived_system"
  "demo_step arrived_system doubted_system" "demo_step doubted_system asking_system"
  "demo_step asking_system reported_system" "demo_step reported_system settled_system"
proof -
  have engine: "sy_engine working_system = work_engine" "sy_engine claimed_system = work_engine"
    "sy_engine doubted_system = work_engine" and dispatch: "sy_dispatch working_system = no_deliveries"
    "sy_dispatch claimed_system = claimed" "sy_dispatch arrived_system = sent" "sy_dispatch doubted_system = doubted"
    "sy_dispatch reported_system = asking"
    by (simp_all add: systems no_deliveries_def)
  show "demo_step working_system claimed_system"
    unfolding claimed_system_def using delivery_facts(2) by (intro step_claim) (simp add: engine dispatch)
  show "demo_step claimed_system taken_system"
    unfolding taken_system_def
    by (rule step_claim [of _ False second_worker 1 2000 _ "fst (Claim demo_dispatcher False second_worker 1 2000 working claimed)"])
      (simp add: engine dispatch taken_over_def)
  have "demo_step claimed_system (claimed_system\<lparr>sy_dispatch := sent, sy_sends := (row_claim, row_envelope) # sy_sends claimed_system\<rparr>)"
    using delivery_facts(4) by (intro step_send) (simp add: engine dispatch)
  then show "demo_step claimed_system sent_system" by (simp add: systems)
  have arrive: "transportDeliver run_hash demo_transport False 1020 1020 True row_envelope (sy_transport sent_system) =
      (Inr row_answer, accepting)" and sends: "(row_claim, row_envelope) \<in> set (sy_sends sent_system)"
    using delivery_facts(5) by (simp_all add: systems empty_transport_def)
  from step_arrive [OF sends arrive] show "demo_step sent_system arrived_system" by (simp add: systems)
  show "demo_step arrived_system doubted_system"
    unfolding doubted_system_def
    by (rule step_complete [of row_claim row_envelope _ "Inl OwnedTransportUnavailable" 1030 1030
          "fst (completeDeliver row_claim row_envelope (Inl OwnedTransportUnavailable) 1030 1030 sent)"])
      (simp_all add: dispatch doubted_def, simp add: systems)
  have "beginReconcile demo_dispatcher False demo_worker outbox_row (eg_persistence (sy_engine doubted_system))
      (sy_dispatch doubted_system) = (Inr row_asked, asking)"
    using delivery_facts(6) by (simp add: engine dispatch)
  from step_ask [OF this] show "demo_step doubted_system asking_system" by (simp add: systems split: prod.splits)
  have inspect: "transportInspect demo_transport False (snd row_asked) (sy_transport asking_system) = Inr row_report"
    and asked: "(outbox_row, fst row_asked, snd row_asked) \<in> set (sy_asked asking_system)"
    using delivery_facts(7) by (simp_all add: systems)
  from step_inspect [OF asked inspect] show "demo_step asking_system reported_system" by (simp add: systems)
  show "demo_step reported_system settled_system"
    unfolding settled_system_def
    by (rule step_report [of outbox_row "fst row_asked" "snd row_asked" _ "Inr row_report" demo_dispatcher 1040
          "fst (completeReconcile demo_dispatcher outbox_row (fst row_asked) (Inr row_report) 1040 asking)"])
      (simp_all add: dispatch settled_def, simp_all add: systems)
qed

lemma run_on: "demo_delivery_run s\<^sub>0 s \<Longrightarrow> demo_step s s' \<Longrightarrow> fences_left s \<Longrightarrow> demo_delivery_run s\<^sub>0 s'"
  by (auto intro: rtranclp.rtrancl_into_rtrancl)

lemma demo_delivery_runs:
  "demo_delivery_run (newDeliverySystem demo_engine) working_system"
  "demo_delivery_run (newDeliverySystem demo_engine) claimed_system"
  "demo_delivery_run (newDeliverySystem demo_engine) taken_system"
  "demo_delivery_run (newDeliverySystem demo_engine) settled_system"
proof -
  have "fences_left ((newDeliverySystem demo_engine)\<lparr>sy_engine := after start_request demo_engine\<rparr>)"
    by (rule fences_free_left) (simp add: newDeliverySystem_def fences_free_def)
  from run_on [OF run_on [OF rtranclp.rtrancl_refl work_steps(1) all_fences_left(1)] work_steps(2) this]
  show working: "demo_delivery_run (newDeliverySystem demo_engine) working_system" .
  from run_on [OF this demo_delivery_steps(1)] all_fences_left(2)
  show claimed: "demo_delivery_run (newDeliverySystem demo_engine) claimed_system" by simp
  from run_on [OF this demo_delivery_steps(2)] all_fences_left(3)
  show "demo_delivery_run (newDeliverySystem demo_engine) taken_system" by simp
  from claimed have "demo_delivery_run (newDeliverySystem demo_engine) sent_system"
    by (rule run_on) (simp_all add: demo_delivery_steps all_fences_left)
  then have "demo_delivery_run (newDeliverySystem demo_engine) arrived_system"
    by (rule run_on) (simp_all add: demo_delivery_steps all_fences_left)
  then have "demo_delivery_run (newDeliverySystem demo_engine) doubted_system"
    by (rule run_on) (simp_all add: demo_delivery_steps all_fences_left)
  then have "demo_delivery_run (newDeliverySystem demo_engine) asking_system"
    by (rule run_on) (simp_all add: demo_delivery_steps all_fences_left)
  then have "demo_delivery_run (newDeliverySystem demo_engine) reported_system"
    by (rule run_on) (simp_all add: demo_delivery_steps all_fences_left)
  then show "demo_delivery_run (newDeliverySystem demo_engine) settled_system"
    by (rule run_on) (simp_all add: demo_delivery_steps all_fences_left)
qed

section \<open>Witnesses\<close>


theorem accepted_delivery_took_effect_witness:
  "\<exists>binding r. map_of (ot_journal accepting) outbox_row = Some (binding, r) \<and>
     os_Outcome r = OwnedTransportAccepted \<and> os_ResultDigest r = dv_ResultDigest (deliveryOf settled outbox_row)"
  using accepted_delivery_took_effect [OF demo_engines(1) demo_delivery_runs(4), of outbox_row] delivery_facts(13)
  by (auto simp: systems)

theorem settled_delivery_stays_witness:
  "\<exists>s. demo_step settled_system s \<and> s \<noteq> settled_system \<and> deliveryIn s outbox_row = deliveryIn settled_system outbox_row"
proof -
  let ?armed = "\<lambda>point. settled_system\<lparr>sy_dispatch := deliveryFailNextAt point (sy_dispatch settled_system)\<rparr>"
  obtain point where point: "ds_fault (sy_dispatch settled_system) \<noteq> Some point"
    by (metis DeliveryFaultPoint.distinct(1) option.inject)
  have step: "demo_step settled_system (?armed point)" by (rule step_fault)
  from run_on [OF rtranclp.rtrancl_refl step all_fences_left(10)]
  have run: "demo_delivery_run settled_system (?armed point)" .
  have "dv_Terminal (deliveryIn settled_system outbox_row)" using delivery_facts(14) by (simp add: systems)
  from settled_delivery_stays [OF demo_engines(1) demo_delivery_runs(4) run this]
  have "deliveryIn (?armed point) outbox_row = deliveryIn settled_system outbox_row" .
  moreover have "?armed point \<noteq> settled_system"
  proof
    assume "?armed point = settled_system"
    then have "ds_fault (sy_dispatch (?armed point)) = ds_fault (sy_dispatch settled_system)" by (rule arg_cong)
    with point show False by simp
  qed
  ultimately show ?thesis using step by blast
qed

theorem lost_lease_is_powerless_witness: "powerless demo_dispatcher taken_system row_claim"
proof -
  have "cl_LeaseFence row_claim < dv_LeaseFence (deliveryIn taken_system (cl_OperationID row_claim))"
    using delivery_facts(8,9,11) by (simp add: systems)
  from lost_lease_is_powerless [OF demo_engines(1) demo_delivery_runs(3) rtranclp.rtrancl_refl this] show ?thesis .
qed

theorem due_row_is_accepted_witness:
  "\<exists>result d t. Deliver demo_dispatcher (transportDeliver run_hash demo_transport False 1020 1020 True) False row_claim
     1010 1030 1030 working claimed empty_transport = (Inr result, d, t) \<and> dr_Disposition result = DeliveryAccepted"
proof -
  have system: "sy_engine working_system = work_engine" "sy_dispatch working_system = no_deliveries"
    by (simp_all add: systems no_deliveries_def)
  have "ds_fault (sy_dispatch working_system) = None" by (simp add: system no_deliveries_def)
  from due_row_is_accepted [OF demo_engines(1) demo_delivery_runs(1) all_fences_left(2) this run_hash_proper,
      of demo_worker 1 1000 "[row_claim]" claimed row_claim empty_transport 1010 1020 1030 1020 1030]
  show ?thesis using delivery_facts(2,10,15) by (auto simp: system)
qed

theorem claim_takes_due_rows_witness:
  "[row_claim] = batch demo_dispatcher demo_worker 1000 working 1 (claimOrder (mp_outbox working)) no_deliveries \<and>
     deliveryOf claimed outbox_row = leased demo_dispatcher demo_worker 1000 zeroDelivery"
proof -
  have "dc_MaxBatchSize demo_dispatcher \<noteq> 0" by (simp add: demo_dispatcher_def)
  from claim_takes_due_rows [OF delivery_facts(2,1) this] show ?thesis
    by (simp add: delivery_facts(8) no_deliveries_def deliveryOf_def demo_dispatcher_def)
qed

definition early_envelope :: OwnedTransportRequest where
  "early_envelope =
     \<lparr>or_Version = OwnedTransportV1, or_Authority = demo_worker, or_Deadline = utc 100, or_OperationID = ''early'',
      or_DecisionID = ''decision'', or_TaskID = ''task'', or_PhaseRunID = [], or_RuntimeRunID = [],
      or_Kind = EnactmentPresentConfirmationGate, or_PayloadDigest = replicate 32 CHR ''p'',
      or_ActivityGeneration = 1, or_SafetyEpoch = 1, or_FenceKind = 6, or_Fence = 1, or_CausationID = ''cause'',
      or_TaskRevision = 1, or_AcceptedEvidenceIDs = []\<rparr>"

definition late_envelope :: OwnedTransportRequest where
  "late_envelope = early_envelope\<lparr>or_OperationID := ''late'', or_Fence := 2\<rparr>"

lemma envelopes_evaluated:
  "let (r\<^sub>1, t\<^sub>1) = transportDeliver run_hash demo_transport False 10 10 True early_envelope empty_transport;
       (r\<^sub>2, t\<^sub>2) = transportDeliver run_hash demo_transport False 10 10 True late_envelope t\<^sub>1;
       (r\<^sub>3, t\<^sub>3) = transportDeliver run_hash demo_transport False 10 10 True early_envelope t\<^sub>2
   in \<not> isl r\<^sub>2 \<and> \<not> isl r\<^sub>3 \<and> os_Outcome (projr r\<^sub>2) = OwnedTransportAccepted \<and> \<not> os_Duplicate (projr r\<^sub>2) \<and>
      os_Outcome (projr r\<^sub>3) = OwnedTransportAccepted \<and> requestScope early_envelope = requestScope late_envelope \<and>
      order_before (requestOrder early_envelope) (requestOrder late_envelope)"
  by code_simp

theorem transport_accepts_in_order_witness:
  "\<exists>t t' r. transportDeliver run_hash demo_transport False 10 10 True early_envelope t = (Inr r, t') \<and>
     os_Outcome r = OwnedTransportAccepted \<and> os_Duplicate r"
proof -
  obtain t\<^sub>1 r\<^sub>2 t\<^sub>2 r\<^sub>3 t\<^sub>3 where
    run: "transportDeliver run_hash demo_transport False 10 10 True late_envelope t\<^sub>1 = (r\<^sub>2, t\<^sub>2)" "\<not> isl r\<^sub>2"
    "transportDeliver run_hash demo_transport False 10 10 True early_envelope t\<^sub>2 = (r\<^sub>3, t\<^sub>3)" "\<not> isl r\<^sub>3"
    and facts: "os_Outcome (projr r\<^sub>2) = OwnedTransportAccepted" "\<not> os_Duplicate (projr r\<^sub>2)"
    "os_Outcome (projr r\<^sub>3) = OwnedTransportAccepted" "requestScope early_envelope = requestScope late_envelope"
    "order_before (requestOrder early_envelope) (requestOrder late_envelope)"
    using envelopes_evaluated unfolding Let_def by (auto split: prod.splits)
  from run have calls: "transportDeliver run_hash demo_transport False 10 10 True late_envelope t\<^sub>1 = (Inr (projr r\<^sub>2), t\<^sub>2)"
    "transportDeliver run_hash demo_transport False 10 10 True early_envelope t\<^sub>2 = (Inr (projr r\<^sub>3), t\<^sub>3)"
    by (simp_all add: sum.collapse(2))
  from transport_accepts_in_order [OF calls(1) facts(1,2) rtranclp.rtrancl_refl calls(2) facts(4,5,3)] calls(2) facts(3)
  show ?thesis by blast
qed

definition other_transport :: OwnedTransportConfig where
  "other_transport = demo_transport\<lparr>oc_Authorities := [second_worker]\<rparr>"

theorem refused_inspection_poisons_witness:
  "\<exists>result d r. completeReconcile demo_dispatcher outbox_row (fst row_asked)
       (transportInspect other_transport False (snd row_asked) accepting) 1040 asking = (Inr result, d) \<and>
     dr_Disposition result = DeliveryPoisoned \<and>
     transportInspect demo_transport False (snd row_asked) accepting = Inr r \<and> os_Outcome r = OwnedTransportAccepted"
proof -
  have asked: "beginReconcile demo_dispatcher False demo_worker outbox_row working doubted = (Inr (fst row_asked, snd row_asked), asking)"
    using delivery_facts(6) by simp
  have "dc_TransportVersion demo_dispatcher = oc_SupportedVersion other_transport"
    by (simp add: demo_dispatcher_def other_transport_def demo_transport_def)
  moreover have "\<not> transportAuthorized other_transport demo_worker"
    by (simp add: transportAuthorized_def other_transport_def second_worker_def demo_worker_def newAuthorityValue_def)
  ultimately obtain result d where refused: "completeReconcile demo_dispatcher outbox_row (fst row_asked)
      (transportInspect other_transport False (snd row_asked) accepting) 1040 asking = (Inr result, d)"
    "dr_Disposition result = DeliveryPoisoned"
    using refused_inspection_poisons [OF asked, of other_transport accepting 1040] by blast
  with delivery_facts(7,17) show ?thesis by blast
qed

end
