(* ===== verification/Pub_Types.thy ===== *)
theory Pub_Types
  imports Canonical_Values "HOL-Library.Product_Lexorder"
begin

text \<open>
  Artifact publication, \<open>artifactpublication/types.go\<close> and \<open>manifest.go\<close>: digests, the
  closed errors, the closed vocabularies of the requests, and the manifest and lineage of a
  candidate version with their canonical digests.

  \<^item> Every identity is a Go string; generations, fences, revisions are \<open>uint64\<close>; an instant
    is an \<open>int64\<close>, here an \<open>int\<close> with the conversions to and from 64 bits written out.
  \<^item> A string type that a caller fills in (the kind of a publication, of a member, of an
    authority) is \<open>string\<close> with one constant per declared value, because the code accepts
    any string and then asks \<open>validX\<close>. Values that only the module produces are datatypes.
  \<^item> The digest of a value is \<open>sha256:\<close> and the hexadecimal of the hash of its encoding.
  \<^item> A reading of the clock, the port to another service, and Unicode normalisation (package
    \<open>golang.org/x/text\<close>) are parameters of the operations.
\<close>

type_synonym pub_instant = int

text \<open>Go's conversions between \<open>int64\<close> and \<open>uint64\<close>.\<close>

definition uint64_of :: "pub_instant \<Rightarrow> u64" where
  "uint64_of i = word_of_int i"

definition int64_of :: "u64 \<Rightarrow> pub_instant" where
  "int64_of w = sint w"

section \<open>Schema versions\<close>

definition PubSchemaV1 :: u32 where
  "PubSchemaV1 = push_bit 16 1"

definition NewPubSchemaVersion :: "u16 \<Rightarrow> u16 \<Rightarrow> u32" where
  "NewPubSchemaVersion major minor = or (push_bit 16 (ucast major)) (ucast minor)"

definition schemaMajor :: "u32 \<Rightarrow> u16" where
  "schemaMajor v = ucast (drop_bit 16 v)"

definition schemaMinor :: "u32 \<Rightarrow> u16" where
  "schemaMinor v = ucast v"

section \<open>Digests\<close>

definition lowerHex :: "char \<Rightarrow> bool" where
  "lowerHex c = (let n = (of_char c :: nat) in 48 \<le> n \<and> n \<le> 57 \<or> 97 \<le> n \<and> n \<le> 102)"

definition validDigest :: "string \<Rightarrow> bool" where
  "validDigest value \<longleftrightarrow>
     length value = 7 + 64 \<and> take 7 value = ''sha256:'' \<and> list_all lowerHex (drop 7 value)"

definition canonicalDigest :: "hashing \<Rightarrow> json \<Rightarrow> string" where
  "canonicalDigest h value = ''sha256:'' @ hex_encode (hs_value h [] value)"

lemma lowerHex_digit: "n < 16 \<Longrightarrow> lowerHex (hex_digit n)"
  by (auto simp: lowerHex_def hex_digit_def of_char_of Let_def)

lemma lowerHex_encode: "list_all lowerHex (hex_encode s)"
proof (induction s)
  case Nil
  then show ?case by simp
next
  case (Cons c cs)
  have "of_char c < (256 :: nat)" by simp
  then have "(of_char c :: nat) div 16 < 16" by linarith
  with Cons show ?case by (simp add: Let_def lowerHex_digit)
qed

lemma validDigest_canonical: "proper_hashing h \<Longrightarrow> validDigest (canonicalDigest h v)"
  using lowerHex_encode by (auto simp: validDigest_def canonicalDigest_def)

lemma canonicalDigest_nonempty [simp]: "canonicalDigest h v \<noteq> []"
  by (simp add: canonicalDigest_def)

lemma canonicalDigest_inject [simp]:
  "canonicalDigest h v = canonicalDigest h w \<longleftrightarrow> hs_value h [] v = hs_value h [] w"
  by (simp add: canonicalDigest_def)

lemma validDigest_Nil [simp]: "\<not> validDigest []"
  by (simp add: validDigest_def)

section \<open>Errors\<close>

datatype ErrorCode =
    ErrorInvalidIntent
  | ErrorUnsupportedSchema
  | ErrorIntegrityConflict
  | ErrorIntegrityFailure
  | ErrorOwnershipDenied
  | ErrorStaleAuthority
  | ErrorTerminalConflict
  | ErrorEvidenceMissing
  | ErrorEvidenceCorrupt
  | ErrorDurabilityUnverified
  | ErrorResourceExhausted
  | ErrorRetryableUnavailable
  | ErrorReconciliationRequired
  | ErrorNotFound

record PubError =
  err_code :: ErrorCode
  err_version :: u32

definition SafeErrorSchemaV1 :: u32 where
  "SafeErrorSchemaV1 = push_bit 16 1"

text \<open>The literal \<open>&Error{Code: c}\<close> leaves the version zero; \<open>newError\<close> states it.\<close>

definition coded :: "ErrorCode \<Rightarrow> PubError" where
  "coded c = \<lparr>err_code = c, err_version = 0\<rparr>"

definition newError :: "ErrorCode \<Rightarrow> PubError" where
  "newError c = \<lparr>err_code = c, err_version = SafeErrorSchemaV1\<rparr>"

fun ErrorText :: "ErrorCode \<Rightarrow> string" where
  "ErrorText ErrorInvalidIntent = ''artifact publication intent is invalid''"
| "ErrorText ErrorUnsupportedSchema = ''artifact publication request schema is unsupported''"
| "ErrorText ErrorIntegrityConflict = ''artifact publication operation integrity conflict''"
| "ErrorText ErrorIntegrityFailure = ''artifact publication evidence integrity failure''"
| "ErrorText ErrorOwnershipDenied = ''artifact publication authority denied''"
| "ErrorText ErrorStaleAuthority = ''artifact publication authority is stale''"
| "ErrorText ErrorTerminalConflict = ''artifact publication operation is already terminal''"
| "ErrorText ErrorEvidenceMissing = ''artifact publication required evidence is missing''"
| "ErrorText ErrorEvidenceCorrupt = ''artifact publication evidence is corrupt''"
| "ErrorText ErrorDurabilityUnverified = ''artifact publication durability is unverified''"
| "ErrorText ErrorResourceExhausted = ''artifact publication resource capacity is exhausted''"
| "ErrorText ErrorRetryableUnavailable = ''artifact publication dependency is temporarily unavailable''"
| "ErrorText ErrorReconciliationRequired = ''artifact publication operation requires reconciliation''"
| "ErrorText ErrorNotFound = ''artifact publication object was not found''"

text \<open>The methods of a pointer that may be nil.\<close>

fun SafeCategory :: "PubError option \<Rightarrow> string" where
  "SafeCategory None = []"
| "SafeCategory (Some e) =
     (case err_code e of
        ErrorOwnershipDenied \<Rightarrow> ''authorization_denial''
      | ErrorIntegrityConflict \<Rightarrow> ''idempotency_conflict''
      | ErrorStaleAuthority \<Rightarrow> ''stale_revision_generation_fence''
      | ErrorTerminalConflict \<Rightarrow> ''terminal_conflict''
      | ErrorEvidenceMissing \<Rightarrow> ''binding_unavailable''
      | ErrorEvidenceCorrupt \<Rightarrow> ''binding_unavailable''
      | ErrorIntegrityFailure \<Rightarrow> ''integrity_unavailable_content''
      | ErrorDurabilityUnverified \<Rightarrow> ''durability_unverified''
      | ErrorResourceExhausted \<Rightarrow> ''resource_exhausted''
      | ErrorRetryableUnavailable \<Rightarrow> ''retryable_unavailable''
      | ErrorReconciliationRequired \<Rightarrow> ''ambiguous_reconciliation_required''
      | ErrorNotFound \<Rightarrow> ''not_found''
      | _ \<Rightarrow> ''invalid_intent'')"

fun ErrorSchemaVersion :: "PubError option \<Rightarrow> u32" where
  "ErrorSchemaVersion None = SafeErrorSchemaV1"
| "ErrorSchemaVersion (Some e) = (if err_version e = 0 then SafeErrorSchemaV1 else err_version e)"

definition ErrorRetryable :: "PubError option \<Rightarrow> bool" where
  "ErrorRetryable e \<longleftrightarrow> e \<noteq> None \<and> err_code (the e) = ErrorRetryableUnavailable"

definition NeedsReconciliation :: "PubError option \<Rightarrow> bool" where
  "NeedsReconciliation e \<longleftrightarrow> e \<noteq> None \<and> err_code (the e) = ErrorReconciliationRequired"

text \<open>
  An error from outside the module: one that carries a closed error with a known code, or any
  other. \<open>normalizeError\<close> keeps the code of the first and hides the second.
\<close>

datatype ExternalError = ClosedError PubError | ForeignError

fun normalizeError :: "ExternalError \<Rightarrow> PubError" where
  "normalizeError (ClosedError e) = newError (err_code e)"
| "normalizeError ForeignError = newError ErrorRetryableUnavailable"

section \<open>Vocabularies of a request\<close>

definition PublicationKindFirstGeneration :: string where
  "PublicationKindFirstGeneration = ''first_generation''"
definition PublicationKindManualEdit :: string where
  "PublicationKindManualEdit = ''manual_edit''"

definition validPublicationKind :: "string \<Rightarrow> bool" where
  "validPublicationKind k \<longleftrightarrow> k = PublicationKindFirstGeneration \<or> k = PublicationKindManualEdit"

lemma publication_kinds_differ [simp]:
  "PublicationKindFirstGeneration \<noteq> PublicationKindManualEdit"
  "PublicationKindManualEdit \<noteq> PublicationKindFirstGeneration"
  by (simp_all add: PublicationKindFirstGeneration_def PublicationKindManualEdit_def)

definition validArtifactKind :: "string \<Rightarrow> bool" where
  "validArtifactKind k \<longleftrightarrow> k \<in> {''deck'', ''preview'', ''plan'', ''validation_report''}"

definition MediaTypePPTX :: string where
  "MediaTypePPTX = ''application/vnd.openxmlformats-officedocument.presentationml.presentation''"
definition MediaTypePNG :: string where "MediaTypePNG = ''image/png''"
definition MediaTypeJSON :: string where "MediaTypeJSON = ''application/json''"
definition MediaTypeHTML :: string where "MediaTypeHTML = ''text/html''"
definition MediaTypeSVG :: string where "MediaTypeSVG = ''image/svg+xml''"
definition MediaTypePlain :: string where "MediaTypePlain = ''text/plain''"

definition allowedMediaTypes :: "(string \<times> string list) list" where
  "allowedMediaTypes =
     [(''deck'', [MediaTypePPTX]),
      (''preview'', [MediaTypePNG, MediaTypeSVG]),
      (''plan'', [MediaTypeJSON, MediaTypePlain]),
      (''validation_report'', [MediaTypeJSON, MediaTypeHTML, MediaTypePlain])]"

definition validMediaType :: "string \<Rightarrow> string \<Rightarrow> bool" where
  "validMediaType kind media =
     (case map_of allowedMediaTypes kind of None \<Rightarrow> False | Some ms \<Rightarrow> media \<in> set ms)"

definition ContentPurposePublicationMember :: string where
  "ContentPurposePublicationMember = ''publication_member''"

definition validContentPurpose :: "string \<Rightarrow> bool" where
  "validContentPurpose p \<longleftrightarrow> p = ContentPurposePublicationMember"

definition ChannelDeck :: string where "ChannelDeck = ''deck''"

definition validChannelKind :: "string \<Rightarrow> bool" where
  "validChannelKind c \<longleftrightarrow> c = ChannelDeck"

definition WriteIntentImmutable :: string where "WriteIntentImmutable = ''immutable''"

definition validWriteIntent :: "string \<Rightarrow> bool" where
  "validWriteIntent i \<longleftrightarrow> i = WriteIntentImmutable"

definition VerificationMethodReceiptBound :: string where
  "VerificationMethodReceiptBound = ''receipt_bound_verified''"

definition validVerificationMethod :: "string \<Rightarrow> bool" where
  "validVerificationMethod v \<longleftrightarrow> v = VerificationMethodReceiptBound"

end
