(* ===== verification/Pub_Manifest.thy ===== *)
theory Pub_Manifest
  imports Pub_Types
begin

text \<open>
  \<open>artifactpublication/manifest.go\<close>: logical names, the references a request pins, and the
  manifest and lineage of a candidate with their canonical values.

  Go sorts with \<open>sort.Slice\<close>, which is not stable; the keys it sorts by here are distinct
  (slots and minted identities), so any sorting algorithm gives the list \<open>sort_key\<close> gives.
\<close>

section \<open>Logical names\<close>

text \<open>
  Go reads a string as UTF-8: \<open>runes\<close> splits it into code points, a byte that starts no
  valid sequence being \<open>None\<close> (the replacement character of width 1).
\<close>

definition cont :: "nat \<Rightarrow> nat \<Rightarrow> nat \<Rightarrow> bool" where
  "cont lo hi b \<longleftrightarrow> lo \<le> b \<and> b \<le> hi"

fun rune_at :: "nat \<Rightarrow> nat list \<Rightarrow> (nat \<times> nat) option" where
  "rune_at x s =
     (if x < 128 then Some (x, 0)
      else if 194 \<le> x \<and> x \<le> 223 then
        (case s of b # _ \<Rightarrow> if cont 128 191 b then Some ((x - 192) * 64 + (b - 128), 1) else None
         | [] \<Rightarrow> None)
      else if 224 \<le> x \<and> x \<le> 239 then
        (case s of b # c # _ \<Rightarrow>
           if cont (if x = 224 then 160 else 128) (if x = 237 then 159 else 191) b \<and> cont 128 191 c
           then Some ((x - 224) * 4096 + (b - 128) * 64 + (c - 128), 2) else None
         | _ \<Rightarrow> None)
      else if 240 \<le> x \<and> x \<le> 244 then
        (case s of b # c # d # _ \<Rightarrow>
           if cont (if x = 240 then 144 else 128) (if x = 244 then 143 else 191) b \<and>
              cont 128 191 c \<and> cont 128 191 d
           then Some ((x - 240) * 262144 + (b - 128) * 4096 + (c - 128) * 64 + (d - 128), 3) else None
         | _ \<Rightarrow> None)
      else None)"

fun runes :: "string \<Rightarrow> (nat option \<times> string) list" where
  "runes [] = []"
| "runes (a # s) =
     (case rune_at (of_char a) (map of_char (take 3 s)) of
        None \<Rightarrow> (None, [a]) # runes s
      | Some (r, k) \<Rightarrow> (Some r, a # take k s) # runes (drop k s))"

text \<open>\<open>unicode.IsSpace\<close> and \<open>unicode.IsControl\<close>.\<close>

definition IsSpace :: "nat \<Rightarrow> bool" where
  "IsSpace r \<longleftrightarrow> 9 \<le> r \<and> r \<le> 13 \<or> r = 32 \<or> r = 133 \<or> r = 160 \<or> r = 5760 \<or>
     8192 \<le> r \<and> r \<le> 8202 \<or> r = 8232 \<or> r = 8233 \<or> r = 8239 \<or> r = 8287 \<or> r = 12288"

definition IsControl :: "nat \<Rightarrow> bool" where
  "IsControl r \<longleftrightarrow> r < 32 \<or> 127 \<le> r \<and> r < 160"

fun is_space :: "nat option \<times> string \<Rightarrow> bool" where
  "is_space (Some r, _) = IsSpace r"
| "is_space (None, _) = False"

definition TrimSpace :: "(nat option \<times> string) list \<Rightarrow> (nat option \<times> string) list" where
  "TrimSpace rs = rev (dropWhile is_space (rev (dropWhile is_space rs)))"

fun safe_rune :: "nat option \<times> string \<Rightarrow> bool" where
  "safe_rune (Some r, _) \<longleftrightarrow> r \<noteq> 47 \<and> r \<noteq> 92 \<and> \<not> IsControl r"
| "safe_rune (None, _) = False"

definition normalizedLogicalName :: "(string \<Rightarrow> string) \<Rightarrow> string \<Rightarrow> string option" where
  "normalizedLogicalName nfc raw =
     (let normalized = TrimSpace (runes (nfc raw)) in
      if normalized = [] \<or> \<not> list_all safe_rune normalized then None
      else Some (concat (map snd normalized)))"

declare rune_at.simps [simp del]

lemma runes_concat: "concat (map snd (runes s)) = s"
  by (induction s rule: runes.induct) (auto split: option.splits prod.splits)

lemma runes_nonempty: "(r, b) \<in> set (runes s) \<Longrightarrow> b \<noteq> []"
  by (induction s rule: runes.induct) (auto split: option.splits prod.splits)

lemma normalizedLogicalName_nonempty:
  assumes "normalizedLogicalName nfc raw = Some name"
  shows "name \<noteq> []"
proof -
  let ?n = "TrimSpace (runes (nfc raw))"
  have n: "?n \<noteq> []" "name = concat (map snd ?n)"
    using assms by (auto simp: normalizedLogicalName_def Let_def split: if_splits)
  have "set ?n \<subseteq> set (runes (nfc raw))"
    by (auto simp: TrimSpace_def dest!: set_dropWhileD)
  with n(1) runes_nonempty obtain x where "x \<in> set ?n" "snd x \<noteq> []"
    by (metis list.set_intros(1) neq_Nil_conv prod.collapse subset_iff)
  with n(2) show ?thesis by auto
qed

section \<open>References pinned by a request\<close>

record PinnedRef =
  er_id :: string
  er_digest :: string

definition pinnedRefCanonical :: "PinnedRef \<Rightarrow> json" where
  "pinnedRefCanonical r = jobj [(''evidence_id'', JStr (er_id r)), (''digest'', JStr (er_digest r))]"

record RuntimeEvidenceRef =
  rr_channel :: string
  rr_id :: string
  rr_digest :: string

definition runtimeRefCanonical :: "RuntimeEvidenceRef \<Rightarrow> json" where
  "runtimeRefCanonical r =
     jobj [(''channel'', JStr (rr_channel r)), (''evidence_id'', JStr (rr_id r)),
           (''digest'', JStr (rr_digest r))]"

record ContentCapabilityRef =
  cr_slot :: string
  cr_id :: string
  cr_digest :: string

definition capabilityRefCanonical :: "ContentCapabilityRef \<Rightarrow> json" where
  "capabilityRefCanonical r =
     jobj [(''member_slot'', JStr (cr_slot r)), (''capability_id'', JStr (cr_id r)),
           (''digest'', JStr (cr_digest r))]"

record StagingReference =
  sr_slot :: string
  sr_content :: string
  sr_digest :: string
  sr_size :: u64
  sr_purpose :: string
  sr_physical :: u64
  sr_adapter :: string

definition stagingCanonical :: "StagingReference \<Rightarrow> json" where
  "stagingCanonical r =
     jobj [(''member_slot'', JStr (sr_slot r)), (''content_id'', JStr (sr_content r)),
           (''content_digest'', JStr (sr_digest r)), (''size'', jword (sr_size r)),
           (''purpose'', JStr (sr_purpose r)), (''physical_generation'', jword (sr_physical r)),
           (''adapter_id'', JStr (sr_adapter r))]"

section \<open>Members, manifest and lineage\<close>

record ArtifactMemberSpec =
  sp_slot :: string
  sp_kind :: string
  sp_name :: string
  sp_media :: string
  sp_size :: u64
  sp_digest :: string

record ArtifactMember =
  am_id :: string
  am_kind :: string
  am_name :: string
  am_media :: string
  am_size :: u64
  am_digest :: string

definition memberCanonical :: "ArtifactMember \<Rightarrow> json" where
  "memberCanonical m =
     jobj [(''artifact_id'', JStr (am_id m)), (''kind'', JStr (am_kind m)),
           (''logical_name'', JStr (am_name m)), (''media_type'', JStr (am_media m)),
           (''size'', jword (am_size m)), (''content_digest'', JStr (am_digest m))]"

definition canonicalMembers :: "ArtifactMember list \<Rightarrow> json" where
  "canonicalMembers members =
     JList (map memberCanonical (sort_key (\<lambda>m. (am_id m, am_name m)) members))"

record ArtifactManifest =
  mf_schema :: u32
  mf_version :: string
  mf_task :: string
  mf_kind :: string
  mf_parent :: string
  mf_lineage :: string
  mf_members :: "ArtifactMember list"

definition manifestCanonical :: "ArtifactManifest \<Rightarrow> json" where
  "manifestCanonical m =
     jobj [(''schema_version'', jword (mf_schema m)), (''version_id'', JStr (mf_version m)),
           (''task_id'', JStr (mf_task m)), (''kind'', JStr (mf_kind m)),
           (''parent'', JStr (mf_parent m)), (''lineage_digest'', JStr (mf_lineage m)),
           (''members'', canonicalMembers (mf_members m))]"

definition manifestDigest :: "hashing \<Rightarrow> ArtifactManifest \<Rightarrow> string" where
  "manifestDigest h m = canonicalDigest h (manifestCanonical m)"

record Lineage =
  ln_schema :: u32
  ln_version :: string
  ln_task :: string
  ln_kind :: string
  ln_parent :: string
  ln_operation :: string
  ln_phase_run :: string
  ln_contract :: string
  ln_runtime_root :: string
  ln_validation :: PinnedRef
  ln_c04 :: PinnedRef
  ln_capability_root :: string
  ln_activity :: u64
  ln_generation :: u64
  ln_fence :: u64
  ln_epoch :: u64

definition lineageCanonical :: "Lineage \<Rightarrow> json" where
  "lineageCanonical l =
     jobj [(''schema_version'', jword (ln_schema l)), (''version_id'', JStr (ln_version l)),
           (''task_id'', JStr (ln_task l)), (''kind'', JStr (ln_kind l)),
           (''parent'', JStr (ln_parent l)), (''operation_id'', JStr (ln_operation l)),
           (''phase_run_id'', JStr (ln_phase_run l)), (''contract_id'', JStr (ln_contract l)),
           (''runtime_evidence_root'', JStr (ln_runtime_root l)),
           (''validation_evidence_ref'', pinnedRefCanonical (ln_validation l)),
           (''c04_commit_evidence_ref'', pinnedRefCanonical (ln_c04 l)),
           (''content_capability_root'', JStr (ln_capability_root l)),
           (''activity_generation'', jword (ln_activity l)), (''generation'', jword (ln_generation l)),
           (''fence'', jword (ln_fence l)), (''safety_epoch'', jword (ln_epoch l))]"

definition lineageDigest :: "hashing \<Rightarrow> Lineage \<Rightarrow> string" where
  "lineageDigest h l = canonicalDigest h (lineageCanonical l)"

definition runtimeEvidenceRoot :: "hashing \<Rightarrow> RuntimeEvidenceRef list \<Rightarrow> string" where
  "runtimeEvidenceRoot h refs =
     canonicalDigest h
       (JList (map runtimeRefCanonical (sort_key (\<lambda>r. (rr_channel r, rr_id r)) refs)))"

definition contentCapabilityRoot :: "hashing \<Rightarrow> ContentCapabilityRef list \<Rightarrow> string" where
  "contentCapabilityRoot h refs =
     canonicalDigest h
       (JList (map capabilityRefCanonical (sort_key (\<lambda>r. (cr_slot r, cr_id r)) refs)))"

section \<open>Sorting by distinct keys\<close>

text \<open>A list with distinct keys has one sorted arrangement, whatever order it came in.\<close>

lemma sort_key_order_free:
  fixes f :: "'a \<Rightarrow> 'k::linorder"
  assumes "distinct (map f xs)" and "distinct (map f ys)" and "set xs = set ys"
  shows "sort_key f xs = sort_key f ys"
proof (rule map_sorted_distinct_set_unique [where f = f])
  show "inj_on f (set (sort_key f xs) \<union> set (sort_key f ys))"
    using assms by (simp add: distinct_map)
  show "distinct (map f (sort_key f xs))" and "distinct (map f (sort_key f ys))"
    using assms by (simp_all add: distinct_map)
qed (use assms(3) in simp_all)

text \<open>A list that is sorted stays as it is, and strictly sorted keys stay sorted as pairs.\<close>

lemma sort_key_sorted: "sorted (map f xs) \<Longrightarrow> sort_key f xs = xs"
  by (induction xs) (auto simp: insort_is_Cons)

lemma sorted_pairs:
  fixes f :: "'a \<Rightarrow> 'k::linorder" and g :: "'a \<Rightarrow> 'l::linorder"
  assumes "sorted (map f xs)" and "distinct (map f xs)"
  shows "sorted (map (\<lambda>x. (f x, g x)) xs)"
proof -
  have "sorted_wrt (<) (map f xs)" using assms by (simp add: strict_sorted_iff)
  then have "sorted_wrt (\<lambda>x y. f x < f y) xs" by (simp add: sorted_wrt_map)
  then have "sorted_wrt (\<lambda>x y. (f x, g x) \<le> (f y, g y)) xs"
    by (rule sorted_wrt_mono_rel [rotated]) (simp add: less_eq_prod_def)
  then show ?thesis by (simp add: sorted_wrt_map)
qed

end
