(* ===== verification/Pub_Proofs.thy ===== *)
theory Pub_Proofs
  imports Pub_Manifest
begin

text \<open>
  \<open>artifactpublication/evidence.go\<close>: what the other modules certify about a candidate, and
  the canonical digest each record must carry. The digest field itself is left out of the
  digest; everything else is in it.
\<close>

section \<open>Authorities\<close>

definition AuthorityRuntimeExecution :: string where
  "AuthorityRuntimeExecution = ''runtime_execution''"
definition AuthorityPlatformValidation :: string where
  "AuthorityPlatformValidation = ''platform_validation''"
definition AuthorityTaskWorkspaceLifecycle :: string where
  "AuthorityTaskWorkspaceLifecycle = ''task_workspace_lifecycle''"
definition AuthorityDurableObject :: string where
  "AuthorityDurableObject = ''durable_object''"
definition AuthorityTaskOrchestration :: string where
  "AuthorityTaskOrchestration = ''task_orchestration''"
definition AuthorityRecovery :: string where
  "AuthorityRecovery = ''protected_recovery''"
definition AuthorityPublicationCleanup :: string where
  "AuthorityPublicationCleanup = ''publication_cleanup''"

definition validEvidenceAuthorityKind :: "string \<Rightarrow> bool" where
  "validEvidenceAuthorityKind k \<longleftrightarrow>
     k = AuthorityRuntimeExecution \<or> k = AuthorityPlatformValidation \<or>
     k = AuthorityTaskWorkspaceLifecycle \<or> k = AuthorityDurableObject \<or>
     k = AuthorityTaskOrchestration \<or> k = AuthorityRecovery \<or> k = AuthorityPublicationCleanup"

lemmas authority_defs =
  AuthorityRuntimeExecution_def AuthorityPlatformValidation_def AuthorityTaskWorkspaceLifecycle_def
  AuthorityDurableObject_def AuthorityTaskOrchestration_def AuthorityRecovery_def
  AuthorityPublicationCleanup_def

lemma mutation_authorities_differ [simp]:
  "AuthorityRecovery \<noteq> AuthorityTaskOrchestration"
  "AuthorityRecovery \<noteq> AuthorityPublicationCleanup"
  "AuthorityTaskOrchestration \<noteq> AuthorityRecovery"
  "AuthorityTaskOrchestration \<noteq> AuthorityPublicationCleanup"
  "AuthorityPublicationCleanup \<noteq> AuthorityRecovery"
  "AuthorityPublicationCleanup \<noteq> AuthorityTaskOrchestration"
  by (simp_all add: authority_defs)

record EvidenceProducer =
  pr_authority :: string
  pr_generation :: u64

section \<open>Evidence\<close>

record RuntimeEvidence =
  re_id :: string
  re_digest :: string
  re_producer :: EvidenceProducer
  re_domain :: string
  re_task :: string
  re_phase_run :: string
  re_runtime_run :: string
  re_operation :: string
  re_binding :: string
  re_channel :: string
  re_proposal :: string
  re_proposal_ref :: string
  re_outcome :: string
  re_generation :: u64
  re_fence :: u64
  re_epoch :: u64

definition runtimeEvidenceDigest :: "hashing \<Rightarrow> RuntimeEvidence \<Rightarrow> string" where
  "runtimeEvidenceDigest h e = canonicalDigest h (jobj
     [(''evidence_id'', JStr (re_id e)),
      (''producer_authority_id'', JStr (pr_authority (re_producer e))),
      (''producer_generation'', jword (pr_generation (re_producer e))),
      (''policy_domain_id'', JStr (re_domain e)), (''task_id'', JStr (re_task e)),
      (''phase_run_id'', JStr (re_phase_run e)), (''runtime_run_id'', JStr (re_runtime_run e)),
      (''runtime_operation_id'', JStr (re_operation e)),
      (''runtime_binding_digest'', JStr (re_binding e)), (''channel'', JStr (re_channel e)),
      (''output_proposal_manifest_digest'', JStr (re_proposal e)),
      (''proposal_ref'', JStr (re_proposal_ref e)), (''outcome'', JStr (re_outcome e)),
      (''generation'', jword (re_generation e)), (''fence'', jword (re_fence e)),
      (''safety_epoch'', jword (re_epoch e))])"

record ValidationEvidence =
  ve_id :: string
  ve_digest :: string
  ve_producer :: EvidenceProducer
  ve_domain :: string
  ve_task :: string
  ve_phase_run :: string
  ve_contract :: string
  ve_runtime_refs :: "PinnedRef list"
  ve_proposal :: string
  ve_decision :: string
  ve_generation :: u64
  ve_fence :: u64
  ve_epoch :: u64

definition validationEvidenceDigest :: "hashing \<Rightarrow> ValidationEvidence \<Rightarrow> string" where
  "validationEvidenceDigest h e = canonicalDigest h (jobj
     [(''evidence_id'', JStr (ve_id e)),
      (''producer_authority_id'', JStr (pr_authority (ve_producer e))),
      (''producer_generation'', jword (pr_generation (ve_producer e))),
      (''policy_domain_id'', JStr (ve_domain e)), (''task_id'', JStr (ve_task e)),
      (''phase_run_id'', JStr (ve_phase_run e)), (''contract_id'', JStr (ve_contract e)),
      (''runtime_evidence_refs'', JList (map pinnedRefCanonical (ve_runtime_refs e))),
      (''output_proposal_manifest_digest'', JStr (ve_proposal e)),
      (''decision'', JStr (ve_decision e)), (''generation'', jword (ve_generation e)),
      (''fence'', jword (ve_fence e)), (''safety_epoch'', jword (ve_epoch e))])"

record ValidatedExportEvidence =
  xe_id :: string
  xe_digest :: string
  xe_authority :: string
  xe_domain :: string
  xe_task :: string
  xe_workspace :: string
  xe_source :: string
  xe_reconstruction :: string
  xe_revision :: string
  xe_checkpoint :: string
  xe_validation :: string
  xe_generation :: u64
  xe_fence :: u64

definition exportEvidenceDigest :: "hashing \<Rightarrow> ValidatedExportEvidence \<Rightarrow> string" where
  "exportEvidenceDigest h e = canonicalDigest h (jobj
     [(''id'', JStr (xe_id e)), (''publication_authority_id'', JStr (xe_authority e)),
      (''policy_domain_id'', JStr (xe_domain e)), (''task_id'', JStr (xe_task e)),
      (''task_workspace_id'', JStr (xe_workspace e)),
      (''source_artifact_version_id'', JStr (xe_source e)),
      (''reconstruction_evidence_id'', JStr (xe_reconstruction e)),
      (''revision_id'', JStr (xe_revision e)), (''checkpoint_id'', JStr (xe_checkpoint e)),
      (''validation_evidence_id'', JStr (xe_validation e)),
      (''generation'', jword (xe_generation e)), (''fence'', jword (xe_fence e))])"

record C04CommitEvidence =
  ce_id :: string
  ce_digest :: string
  ce_producer :: EvidenceProducer
  ce_domain :: string
  ce_task :: string
  ce_workspace :: string
  ce_revision :: string
  ce_checkpoint :: string
  ce_validation :: string
  ce_validation_digest :: string
  ce_state_manifest :: string
  ce_content_root :: string
  ce_durability_root :: string
  ce_operation :: string
  ce_generation :: u64
  ce_fence :: u64
  ce_epoch :: u64
  ce_export :: "ValidatedExportEvidence option"

definition exportValue :: "hashing \<Rightarrow> ValidatedExportEvidence option \<Rightarrow> json" where
  "exportValue h x = (case x of None \<Rightarrow> JNull | Some e \<Rightarrow> JStr (exportEvidenceDigest h e))"

definition commitEvidenceDigest :: "hashing \<Rightarrow> C04CommitEvidence \<Rightarrow> string" where
  "commitEvidenceDigest h e = canonicalDigest h (jobj
     [(''evidence_id'', JStr (ce_id e)),
      (''producer_authority_id'', JStr (pr_authority (ce_producer e))),
      (''producer_generation'', jword (pr_generation (ce_producer e))),
      (''policy_domain_id'', JStr (ce_domain e)), (''task_id'', JStr (ce_task e)),
      (''task_workspace_id'', JStr (ce_workspace e)), (''revision_id'', JStr (ce_revision e)),
      (''checkpoint_id'', JStr (ce_checkpoint e)),
      (''validation_evidence_id'', JStr (ce_validation e)),
      (''validation_evidence_digest'', JStr (ce_validation_digest e)),
      (''declared_state_manifest_digest'', JStr (ce_state_manifest e)),
      (''content_evidence_root'', JStr (ce_content_root e)),
      (''durability_evidence_root'', JStr (ce_durability_root e)),
      (''operation_id'', JStr (ce_operation e)), (''generation'', jword (ce_generation e)),
      (''fence'', jword (ce_fence e)), (''safety_epoch'', jword (ce_epoch e)),
      (''validated_export_evidence'', exportValue h (ce_export e))])"

record ContentCapabilityEvidence =
  cc_id :: string
  cc_digest :: string
  cc_producer :: EvidenceProducer
  cc_domain :: string
  cc_purpose :: string
  cc_content :: string
  cc_slot :: string
  cc_content_digest :: string
  cc_size :: u64
  cc_write :: string
  cc_physical :: u64
  cc_method :: string
  cc_adapter :: string
  cc_generation :: u64
  cc_fence :: u64
  cc_epoch :: u64

definition capabilityEvidenceDigest :: "hashing \<Rightarrow> ContentCapabilityEvidence \<Rightarrow> string" where
  "capabilityEvidenceDigest h e = canonicalDigest h (jobj
     [(''capability_id'', JStr (cc_id e)),
      (''producer_authority_id'', JStr (pr_authority (cc_producer e))),
      (''producer_generation'', jword (pr_generation (cc_producer e))),
      (''policy_domain_id'', JStr (cc_domain e)), (''purpose'', JStr (cc_purpose e)),
      (''content_id'', JStr (cc_content e)), (''member_slot'', JStr (cc_slot e)),
      (''content_digest'', JStr (cc_content_digest e)), (''size'', jword (cc_size e)),
      (''write_intent'', JStr (cc_write e)), (''physical_generation'', jword (cc_physical e)),
      (''verification_method'', JStr (cc_method e)), (''adapter_id'', JStr (cc_adapter e)),
      (''generation'', jword (cc_generation e)), (''fence'', jword (cc_fence e)),
      (''safety_epoch'', jword (cc_epoch e))])"

end
