(* ===== verification/Pub_Residue.thy ===== *)
theory Pub_Residue
  imports Pub_Proofs
begin

text \<open>
  \<open>artifactpublication/residue.go\<close> and the records of \<open>state.go\<close> it works on: what is left
  of an operation that never became a version, the receipt that proves its staging is gone,
  the cleanup debt of the one physical resource the module itself may own, and the retry
  schedule of both.
\<close>

section \<open>Closed vocabularies\<close>

datatype ResidueDisposition =
    ResiduePending
  | ResidueReleaseRequested
  | ResidueReleased
  | ResidueAlreadyAbsent
  | ResidueRetainedByAuthority
  | ResidueBlocked
  | ResidueExpired

definition residueClosed :: "ResidueDisposition \<Rightarrow> bool" where
  "residueClosed d \<longleftrightarrow> d \<in> {ResidueReleased, ResidueAlreadyAbsent, ResidueRetainedByAuthority}"

definition residueClosedByEvidence :: "ResidueDisposition \<Rightarrow> bool" where
  "residueClosedByEvidence d \<longleftrightarrow> d = ResidueReleased \<or> d = ResidueAlreadyAbsent"

datatype ResidueErrorCategory =
    ResidueErrorNone
  | ResidueErrorUnavailable
  | ResidueErrorAuthorizationDenied
  | ResidueErrorIntegrityConflict
  | ResidueErrorStale

definition ReleaseOutcomeReleased :: string where "ReleaseOutcomeReleased = ''released''"
definition ReleaseOutcomeAlreadyAbsent :: string where
  "ReleaseOutcomeAlreadyAbsent = ''already_absent''"
definition ReleaseOutcomeRetainedByAuthority :: string where
  "ReleaseOutcomeRetainedByAuthority = ''retained_by_authority''"
definition ReleaseOutcomeAmbiguous :: string where "ReleaseOutcomeAmbiguous = ''ambiguous''"
definition ReleaseOutcomeBlocked :: string where "ReleaseOutcomeBlocked = ''blocked''"

lemmas release_outcome_defs =
  ReleaseOutcomeReleased_def ReleaseOutcomeAlreadyAbsent_def ReleaseOutcomeRetainedByAuthority_def
  ReleaseOutcomeAmbiguous_def ReleaseOutcomeBlocked_def

definition validReleaseOutcome :: "string \<Rightarrow> bool" where
  "validReleaseOutcome r \<longleftrightarrow>
     r = ReleaseOutcomeReleased \<or> r = ReleaseOutcomeAlreadyAbsent \<or>
     r = ReleaseOutcomeRetainedByAuthority \<or> r = ReleaseOutcomeAmbiguous \<or>
     r = ReleaseOutcomeBlocked"

text \<open>Blocker classes are the five low bits of a \<open>uint16\<close>.\<close>

definition CleanupBlockerMask :: u16 where
  "CleanupBlockerMask = 31"

definition validCleanupBlockers :: "u16 \<Rightarrow> bool" where
  "validCleanupBlockers b \<longleftrightarrow> and b (not CleanupBlockerMask) = 0"

datatype CleanupDebtStatus =
    CleanupDebtOpen
  | CleanupDebtClaimed
  | CleanupDebtRetryScheduled
  | CleanupDebtBlocked
  | CleanupDebtResolved

datatype CleanupRetryDisposition =
    CleanupRetryNone
  | CleanupRetryReady
  | CleanupRetryClaimed
  | CleanupRetryScheduled
  | CleanupRetryBlocked

definition CleanupResolutionReclaimed :: string where "CleanupResolutionReclaimed = ''reclaimed''"
definition CleanupResolutionAlreadyAbsent :: string where
  "CleanupResolutionAlreadyAbsent = ''already_absent''"
definition CleanupResolutionRetainedByAuthority :: string where
  "CleanupResolutionRetainedByAuthority = ''retained_by_authority''"
definition CleanupResolutionAcceptedException :: string where
  "CleanupResolutionAcceptedException = ''accepted_exception''"

lemmas resolution_defs =
  CleanupResolutionReclaimed_def CleanupResolutionAlreadyAbsent_def
  CleanupResolutionRetainedByAuthority_def CleanupResolutionAcceptedException_def

text \<open>The three classes that need evidence.\<close>

definition evidenceResolution :: "string \<Rightarrow> bool" where
  "evidenceResolution c \<longleftrightarrow>
     c = CleanupResolutionReclaimed \<or> c = CleanupResolutionAlreadyAbsent \<or>
     c = CleanupResolutionRetainedByAuthority"

lemma exception_needs_no_evidence [simp]: "\<not> evidenceResolution CleanupResolutionAcceptedException"
  by (simp add: evidenceResolution_def resolution_defs)

definition resolutionReasonForClass :: "string \<Rightarrow> string" where
  "resolutionReasonForClass c =
     (if c = CleanupResolutionReclaimed then ''cleanup_proven''
      else if c = CleanupResolutionAlreadyAbsent then ''exact_generation_absent''
      else if c = CleanupResolutionRetainedByAuthority then ''current_authority_retention''
      else if c = CleanupResolutionAcceptedException then ''administrator_exception''
      else [])"

section \<open>Receipts and evidence of a cleanup\<close>

record ReleaseReceipt =
  rc_id :: string
  rc_digest :: string
  rc_producer :: EvidenceProducer
  rc_outcome :: string
  rc_blockers :: u16
  rc_expiry :: pub_instant
  rc_at :: pub_instant

definition releaseReceiptDigest :: "hashing \<Rightarrow> ReleaseReceipt \<Rightarrow> string" where
  "releaseReceiptDigest h r = canonicalDigest h (jobj
     [(''receipt_id'', JStr (rc_id r)), (''producer_id'', JStr (pr_authority (rc_producer r))),
      (''producer_gen'', jword (pr_generation (rc_producer r))), (''outcome'', JStr (rc_outcome r)),
      (''blockers'', jword (rc_blockers r)), (''expiry'', jword (uint64_of (rc_expiry r))),
      (''occurred_at'', jword (uint64_of (rc_at r)))])"

record CleanupResolutionEvidence =
  cv_id :: string
  cv_digest :: string
  cv_producer :: EvidenceProducer
  cv_resource :: string
  cv_generation :: u64
  cv_fence :: u64
  cv_at :: pub_instant

definition resolutionEvidenceDigest :: "hashing \<Rightarrow> CleanupResolutionEvidence \<Rightarrow> string" where
  "resolutionEvidenceDigest h e = canonicalDigest h (jobj
     [(''evidence_id'', JStr (cv_id e)), (''producer_id'', JStr (pr_authority (cv_producer e))),
      (''producer_gen'', jword (pr_generation (cv_producer e))),
      (''resource_identity_digest'', JStr (cv_resource e)),
      (''resource_generation'', jword (cv_generation e)), (''resource_fence'', jword (cv_fence e)),
      (''occurred_at'', jword (uint64_of (cv_at e)))])"

section \<open>Records\<close>

record stagingRecord =
  st_slot :: string
  st_content :: string
  st_digest :: string
  st_size :: u64
  st_purpose :: string
  st_physical :: u64
  st_adapter :: string

record assemblyResource =
  as_reference :: string
  as_identity :: string
  as_generation :: u64
  as_fence :: u64

record residueRecord =
  rs_operation :: string
  rs_domain :: string
  rs_task :: string
  rs_owner :: string
  rs_generation :: u64
  rs_fence :: u64
  rs_intent :: string
  rs_staging :: "stagingRecord list"
  rs_at :: pub_instant
  rs_expiry :: pub_instant
  rs_disposition :: ResidueDisposition
  rs_reconcile :: bool
  rs_attempts :: u64
  rs_failures :: u64
  rs_retry_at :: pub_instant
  rs_claim_generation :: u64
  rs_claim_fence :: u64
  rs_error :: ResidueErrorCategory
  rs_receipt :: "ReleaseReceipt option"
  rs_assembly :: "assemblyResource option"
  rs_debt :: string

record cleanupDebtRecord =
  db_id :: string
  db_revision :: u64
  db_domain :: string
  db_task :: string
  db_operation :: string
  db_owner :: string
  db_resource :: string
  db_identity :: string
  db_generation :: u64
  db_fence :: u64
  db_status :: CleanupDebtStatus
  db_created :: pub_instant
  db_eligible :: pub_instant
  db_first_attempt :: pub_instant
  db_last_attempt :: pub_instant
  db_retry_at :: pub_instant
  db_attempts :: u64
  db_failures :: u64
  db_claim_generation :: u64
  db_claim_fence :: u64
  db_retry :: CleanupRetryDisposition
  db_error :: ResidueErrorCategory
  db_blockers :: u16
  db_resolved_at :: pub_instant
  db_class :: string
  db_reason :: string
  db_evidence :: "CleanupResolutionEvidence option"
  db_audit :: string
  db_approval :: string
  db_exception_expires :: pub_instant

section \<open>Transitions\<close>

definition cleanupBackoffSeconds :: "u64 \<Rightarrow> u64" where
  "cleanupBackoffSeconds failures =
     (if failures = 0 then 0
      else let shift = failures - 1; capped = (if 6 < shift then 6 else shift)
           in push_bit (unat capped) 60)"

definition nextCleanupRetry :: "pub_instant \<Rightarrow> u64 \<Rightarrow> pub_instant" where
  "nextCleanupRetry now failures = int64_of (uint64_of now + cleanupBackoffSeconds failures)"

definition validateReleaseReceipt :: "hashing \<Rightarrow> ReleaseReceipt \<Rightarrow> string \<Rightarrow> bool" where
  "validateReleaseReceipt h receipt durable \<longleftrightarrow>
     rc_id receipt \<noteq> [] \<and> validDigest (rc_digest receipt) \<and>
     pr_authority (rc_producer receipt) = durable \<and> pr_generation (rc_producer receipt) \<noteq> 0 \<and>
     validReleaseOutcome (rc_outcome receipt) \<and> validCleanupBlockers (rc_blockers receipt) \<and>
     rc_at receipt \<noteq> 0 \<and> rc_digest receipt = releaseReceiptDigest h receipt \<and>
     (rc_outcome receipt = ReleaseOutcomeBlocked \<longleftrightarrow> rc_blockers receipt \<noteq> 0)"

definition applyReleaseReceipt :: "string \<Rightarrow> ResidueDisposition" where
  "applyReleaseReceipt outcome =
     (if outcome = ReleaseOutcomeReleased then ResidueReleased
      else if outcome = ReleaseOutcomeAlreadyAbsent then ResidueAlreadyAbsent
      else if outcome = ReleaseOutcomeRetainedByAuthority then ResidueRetainedByAuthority
      else if outcome = ReleaseOutcomeBlocked then ResidueBlocked
      else ResidueReleaseRequested)"

definition validateCleanupResolutionEvidence ::
    "hashing \<Rightarrow> CleanupResolutionEvidence \<Rightarrow> string \<Rightarrow> cleanupDebtRecord \<Rightarrow> bool" where
  "validateCleanupResolutionEvidence h e durable debt \<longleftrightarrow>
     cv_id e \<noteq> [] \<and> validDigest (cv_digest e) \<and> pr_authority (cv_producer e) = durable \<and>
     pr_generation (cv_producer e) \<noteq> 0 \<and> cv_at e \<noteq> 0 \<and>
     cv_digest e = resolutionEvidenceDigest h e \<and> cv_resource e = db_identity debt \<and>
     cv_generation e = db_generation debt \<and> cv_fence e = db_fence debt"

fun releaseErrorCategory :: "PubError \<Rightarrow> ResidueErrorCategory" where
  "releaseErrorCategory e =
     (case err_code e of
        ErrorOwnershipDenied \<Rightarrow> ResidueErrorAuthorizationDenied
      | ErrorIntegrityConflict \<Rightarrow> ResidueErrorIntegrityConflict
      | ErrorIntegrityFailure \<Rightarrow> ResidueErrorIntegrityConflict
      | ErrorStaleAuthority \<Rightarrow> ResidueErrorStale
      | _ \<Rightarrow> ResidueErrorUnavailable)"

definition recordResidueAttempt ::
    "residueRecord \<Rightarrow> ResidueErrorCategory \<Rightarrow> pub_instant \<Rightarrow> residueRecord" where
  "recordResidueAttempt r category now =
     (let failures = (if category = ResidueErrorNone then 0 else rs_failures r + 1)
      in r\<lparr>rs_attempts := rs_attempts r + 1, rs_failures := failures,
          rs_retry_at :=
            (if category = ResidueErrorUnavailable then nextCleanupRetry now failures else 0),
          rs_error := category\<rparr>)"

definition recordDebtAttempt ::
    "cleanupDebtRecord \<Rightarrow> ResidueErrorCategory \<Rightarrow> pub_instant \<Rightarrow> cleanupDebtRecord" where
  "recordDebtAttempt d category now =
     (let failures = (if category = ResidueErrorNone then 0 else db_failures d + 1)
      in d\<lparr>db_attempts := db_attempts d + 1,
          db_first_attempt := (if db_first_attempt d = 0 then now else db_first_attempt d),
          db_last_attempt := now, db_error := category, db_failures := failures,
          db_retry_at :=
            (if category = ResidueErrorUnavailable then nextCleanupRetry now failures else 0),
          db_retry :=
            (if category = ResidueErrorNone then CleanupRetryReady
             else if category = ResidueErrorUnavailable then CleanupRetryScheduled
             else CleanupRetryBlocked)\<rparr>)"

lemma applied_receipt_closes_iff:
  "residueClosedByEvidence (applyReleaseReceipt outcome) \<longleftrightarrow>
     outcome = ReleaseOutcomeReleased \<or> outcome = ReleaseOutcomeAlreadyAbsent"
  by (auto simp: residueClosedByEvidence_def applyReleaseReceipt_def release_outcome_defs)

lemma recordResidueAttempt_simps [simp]:
  "rs_disposition (recordResidueAttempt r c now) = rs_disposition r"
  "rs_staging (recordResidueAttempt r c now) = rs_staging r"
  "rs_receipt (recordResidueAttempt r c now) = rs_receipt r"
  "rs_assembly (recordResidueAttempt r c now) = rs_assembly r"
  "rs_operation (recordResidueAttempt r c now) = rs_operation r"
  "rs_debt (recordResidueAttempt r c now) = rs_debt r"
  "rs_error (recordResidueAttempt r c now) = c"
  by (simp_all add: recordResidueAttempt_def Let_def)

lemma recordDebtAttempt_simps [simp]:
  "db_status (recordDebtAttempt d c now) = db_status d"
  "db_id (recordDebtAttempt d c now) = db_id d"
  "db_identity (recordDebtAttempt d c now) = db_identity d"
  "db_generation (recordDebtAttempt d c now) = db_generation d"
  "db_fence (recordDebtAttempt d c now) = db_fence d"
  "db_class (recordDebtAttempt d c now) = db_class d"
  "db_operation (recordDebtAttempt d c now) = db_operation d"
  by (simp_all add: recordDebtAttempt_def Let_def)

text \<open>The schedule: a minute, doubled with every failure, never more than 64 minutes.\<close>

lemma backoff_bounded: "cleanupBackoffSeconds n \<le> 3840"
proof (cases "n = 0")
  case True
  then show ?thesis by (simp add: cleanupBackoffSeconds_def)
next
  case False
  define k where "k = (if 6 < n - 1 then 6 else n - 1)"
  have "k \<le> 6" by (simp add: k_def not_less)
  then have "unat k \<le> 6" by (simp add: word_le_nat_alt)
  then have "unat k \<in> {0, 1, 2, 3, 4, 5, 6}" by auto
  moreover have "cleanupBackoffSeconds n = push_bit (unat k) 60"
    using False by (simp add: cleanupBackoffSeconds_def k_def Let_def)
  ultimately show ?thesis by (auto simp: push_bit_eq_mult)
qed

end
