(* ===== verification/Pub_Intents.thy ===== *)
theory Pub_Intents
  imports Pub_Residue
begin

text \<open>
  \<open>artifactpublication/intents.go\<close>: the nine intents, the header they share, the canonical
  value whose digest the header must carry, and what makes an intent well formed. The
  interface \<open>PublicationIntent\<close> can only be implemented by the module's own nine types, so it
  is a datatype; a nil interface is the \<open>None\<close> of the operation that takes it.
\<close>

datatype PublicationIntentKind =
    IntentPreparePublication
  | IntentVerifyPublication
  | IntentActivatePublication
  | IntentRejectPublication
  | IntentCancelPublication
  | IntentReconcilePublication
  | IntentRecordResidueAssembly
  | IntentReleaseResidue
  | IntentResolveCleanupDebt

fun intentKindName :: "PublicationIntentKind \<Rightarrow> string" where
  "intentKindName IntentPreparePublication = ''prepare''"
| "intentKindName IntentVerifyPublication = ''verify''"
| "intentKindName IntentActivatePublication = ''activate''"
| "intentKindName IntentRejectPublication = ''reject''"
| "intentKindName IntentCancelPublication = ''cancel''"
| "intentKindName IntentReconcilePublication = ''reconcile''"
| "intentKindName IntentRecordResidueAssembly = ''record_residue_assembly''"
| "intentKindName IntentReleaseResidue = ''release_residue''"
| "intentKindName IntentResolveCleanupDebt = ''resolve_cleanup_debt''"

lemma publicationKindName_inject [simp]: "intentKindName j = intentKindName k \<longleftrightarrow> j = k"
  by (cases j; cases k) simp_all

section \<open>The header\<close>

record PublicationAuthority =
  pa_kind :: string
  pa_id :: string
  pa_generation :: u64

definition authorityCanonical :: "PublicationAuthority \<Rightarrow> json" where
  "authorityCanonical a =
     jobj [(''kind'', JStr (pa_kind a)), (''id'', JStr (pa_id a)),
           (''generation'', jword (pa_generation a))]"

definition validMutationAuthority :: "PublicationAuthority \<Rightarrow> bool" where
  "validMutationAuthority a \<longleftrightarrow>
     (pa_kind a = AuthorityTaskOrchestration \<or> pa_kind a = AuthorityRecovery \<or>
      pa_kind a = AuthorityPublicationCleanup) \<and> pa_id a \<noteq> [] \<and> pa_generation a \<noteq> 0"

record PubOperation =
  po_id :: string
  po_digest :: string

record PublicationIntentHeader =
  ph_schema :: u32
  ph_request :: string
  ph_operation :: PubOperation
  ph_domain :: string
  ph_task :: string
  ph_revision :: u64
  ph_head :: string
  ph_activity :: u64
  ph_generation :: u64
  ph_fence :: u64
  ph_epoch :: u64
  ph_authority :: PublicationAuthority
  ph_at :: pub_instant

definition headerCanonical ::
    "PublicationIntentHeader \<Rightarrow> PublicationIntentKind \<Rightarrow> json \<Rightarrow> json" where
  "headerCanonical h kind payload =
     jobj [(''schema_version'', jword (ph_schema h)), (''request_id'', JStr (ph_request h)),
           (''operation_id'', JStr (po_id (ph_operation h))),
           (''policy_domain_id'', JStr (ph_domain h)), (''task_id'', JStr (ph_task h)),
           (''expected_revision'', jword (ph_revision h)), (''expected_head'', JStr (ph_head h)),
           (''activity_generation'', jword (ph_activity h)),
           (''generation'', jword (ph_generation h)), (''fence'', jword (ph_fence h)),
           (''safety_epoch'', jword (ph_epoch h)),
           (''authority'', authorityCanonical (ph_authority h)),
           (''intent_kind'', JStr (intentKindName kind)), (''payload'', payload)]"

definition validPubHeader :: "PublicationIntentHeader \<Rightarrow> bool" where
  "validPubHeader h \<longleftrightarrow>
     schemaMajor (ph_schema h) = schemaMajor PubSchemaV1 \<and> ph_request h \<noteq> [] \<and>
     po_id (ph_operation h) \<noteq> [] \<and> ph_domain h \<noteq> [] \<and> ph_task h \<noteq> [] \<and>
     ph_activity h \<noteq> 0 \<and> ph_generation h \<noteq> 0 \<and> ph_fence h \<noteq> 0 \<and> ph_epoch h \<noteq> 0 \<and>
     ph_at h \<noteq> 0 \<and> validMutationAuthority (ph_authority h)"

section \<open>The intents\<close>

record PreparePublicationPayload =
  pp_contract :: string
  pp_kind :: string
  pp_parent :: string
  pp_phase_run :: string
  pp_members :: "ArtifactMemberSpec list"
  pp_staging :: "StagingReference list"
  pp_channels :: "string list"
  pp_runtime_refs :: "RuntimeEvidenceRef list"
  pp_validation_ref :: PinnedRef
  pp_c04_ref :: PinnedRef
  pp_capability_refs :: "ContentCapabilityRef list"

record VerifyPublicationPayload =
  vp_runtime :: "RuntimeEvidence list"
  vp_validation :: ValidationEvidence
  vp_c04 :: C04CommitEvidence
  vp_capabilities :: "ContentCapabilityEvidence list"

record EvidenceFailure =
  ef_kind :: string
  ef_evidence :: string
  ef_capability :: string

record AssemblyReference =
  ar_reference :: string
  ar_identity :: string
  ar_generation :: u64
  ar_fence :: u64

record ResolveCleanupDebtPayload =
  rp_class :: string
  rp_evidence :: "CleanupResolutionEvidence option"
  rp_approval :: string
  rp_expires :: pub_instant

datatype PublicationIntent =
    PreparePublication PublicationIntentHeader PreparePublicationPayload
  | VerifyPublication PublicationIntentHeader VerifyPublicationPayload
  | ActivatePublication PublicationIntentHeader
  | RejectPublication PublicationIntentHeader string "EvidenceFailure option"
  | CancelPublication PublicationIntentHeader string
  | ReconcilePublication PublicationIntentHeader string
  | RecordResidueAssembly PublicationIntentHeader AssemblyReference
  | ReleaseResidue PublicationIntentHeader
  | ResolveCleanupDebt PublicationIntentHeader ResolveCleanupDebtPayload

fun intentKind :: "PublicationIntent \<Rightarrow> PublicationIntentKind" where
  "intentKind (PreparePublication _ _) = IntentPreparePublication"
| "intentKind (VerifyPublication _ _) = IntentVerifyPublication"
| "intentKind (ActivatePublication _) = IntentActivatePublication"
| "intentKind (RejectPublication _ _ _) = IntentRejectPublication"
| "intentKind (CancelPublication _ _) = IntentCancelPublication"
| "intentKind (ReconcilePublication _ _) = IntentReconcilePublication"
| "intentKind (RecordResidueAssembly _ _) = IntentRecordResidueAssembly"
| "intentKind (ReleaseResidue _) = IntentReleaseResidue"
| "intentKind (ResolveCleanupDebt _ _) = IntentResolveCleanupDebt"

fun intentHeader :: "PublicationIntent \<Rightarrow> PublicationIntentHeader" where
  "intentHeader (PreparePublication h _) = h"
| "intentHeader (VerifyPublication h _) = h"
| "intentHeader (ActivatePublication h) = h"
| "intentHeader (RejectPublication h _ _) = h"
| "intentHeader (CancelPublication h _) = h"
| "intentHeader (ReconcilePublication h _) = h"
| "intentHeader (RecordResidueAssembly h _) = h"
| "intentHeader (ReleaseResidue h) = h"
| "intentHeader (ResolveCleanupDebt h _) = h"

section \<open>Canonical payloads\<close>

definition specCanonical :: "ArtifactMemberSpec \<Rightarrow> json" where
  "specCanonical m =
     jobj [(''slot'', JStr (sp_slot m)), (''kind'', JStr (sp_kind m)),
           (''logical_name'', JStr (sp_name m)), (''media_type'', JStr (sp_media m)),
           (''size'', jword (sp_size m)), (''content_digest'', JStr (sp_digest m))]"

definition preparePayload :: "PreparePublicationPayload \<Rightarrow> json" where
  "preparePayload p =
     jobj [(''contract_id'', JStr (pp_contract p)), (''kind'', JStr (pp_kind p)),
           (''parent'', JStr (pp_parent p)), (''phase_run_id'', JStr (pp_phase_run p)),
           (''members'', JList (map specCanonical (pp_members p))),
           (''staging'', JList (map stagingCanonical (pp_staging p))),
           (''required_channels'', JList (map JStr (pp_channels p))),
           (''runtime_refs'', JList (map runtimeRefCanonical (pp_runtime_refs p))),
           (''validation_ref'', pinnedRefCanonical (pp_validation_ref p)),
           (''c04_commit_ref'', pinnedRefCanonical (pp_c04_ref p)),
           (''content_capability_refs'',
              JList (map capabilityRefCanonical (pp_capability_refs p)))]"

definition verifyPayload :: "hashing \<Rightarrow> VerifyPublicationPayload \<Rightarrow> json" where
  "verifyPayload h v =
     jobj [(''runtime_evidence'', JList (map (\<lambda>e. JStr (runtimeEvidenceDigest h e)) (vp_runtime v))),
           (''validation_evidence'', JStr (validationEvidenceDigest h (vp_validation v))),
           (''c04_commit_evidence'', JStr (commitEvidenceDigest h (vp_c04 v))),
           (''content_capabilities'',
              JList (map (\<lambda>c. JStr (capabilityEvidenceDigest h c)) (vp_capabilities v))),
           (''validated_export_evidence'', exportValue h (ce_export (vp_c04 v)))]"

definition failureCanonical :: "EvidenceFailure option \<Rightarrow> json" where
  "failureCanonical f =
     (case f of None \<Rightarrow> JNull
      | Some e \<Rightarrow> jobj [(''kind'', JStr (ef_kind e)), (''evidence_id'', JStr (ef_evidence e)),
                       (''capability_id'', JStr (ef_capability e))])"

definition rejectPayload :: "string \<Rightarrow> EvidenceFailure option \<Rightarrow> json" where
  "rejectPayload reason failure =
     jobj [(''reason'', JStr reason), (''failure'', failureCanonical failure)]"

definition cancelPayload :: "string \<Rightarrow> json" where
  "cancelPayload reason = jobj [(''reason'', JStr reason)]"

definition reconcilePayload :: "string \<Rightarrow> json" where
  "reconcilePayload mode = jobj [(''mode'', JStr mode)]"

definition assemblyCanonical :: "AssemblyReference \<Rightarrow> json" where
  "assemblyCanonical a =
     jobj [(''reference'', JStr (ar_reference a)), (''identity_digest'', JStr (ar_identity a)),
           (''generation'', jword (ar_generation a)), (''fence'', jword (ar_fence a))]"

definition resolutionEvidenceCanonical :: "CleanupResolutionEvidence option \<Rightarrow> json" where
  "resolutionEvidenceCanonical x =
     (case x of None \<Rightarrow> JNull
      | Some e \<Rightarrow>
          jobj [(''evidence_id'', JStr (cv_id e)), (''digest'', JStr (cv_digest e)),
                (''producer_id'', JStr (pr_authority (cv_producer e))),
                (''producer_generation'', jword (pr_generation (cv_producer e))),
                (''resource_identity_digest'', JStr (cv_resource e)),
                (''resource_generation'', jword (cv_generation e)),
                (''resource_fence'', jword (cv_fence e)),
                (''occurred_at'', jword (uint64_of (cv_at e)))])"

definition resolvePayload :: "ResolveCleanupDebtPayload \<Rightarrow> json" where
  "resolvePayload r =
     jobj [(''resolution_class'', JStr (rp_class r)),
           (''evidence'', resolutionEvidenceCanonical (rp_evidence r)),
           (''approval_reference'', JStr (rp_approval r)),
           (''expires_at'', jword (uint64_of (rp_expires r)))]"

fun canonicalIntentPayload :: "hashing \<Rightarrow> PublicationIntent \<Rightarrow> json" where
  "canonicalIntentPayload h (PreparePublication _ p) = preparePayload p"
| "canonicalIntentPayload h (VerifyPublication _ v) = verifyPayload h v"
| "canonicalIntentPayload h (ActivatePublication _) = jobj []"
| "canonicalIntentPayload h (RejectPublication _ reason failure) = rejectPayload reason failure"
| "canonicalIntentPayload h (CancelPublication _ reason) = cancelPayload reason"
| "canonicalIntentPayload h (ReconcilePublication _ mode) = reconcilePayload mode"
| "canonicalIntentPayload h (RecordResidueAssembly _ a) = jobj [(''assembly'', assemblyCanonical a)]"
| "canonicalIntentPayload h (ReleaseResidue _) = jobj []"
| "canonicalIntentPayload h (ResolveCleanupDebt _ r) = resolvePayload r"

definition CanonicalRequestDigest :: "hashing \<Rightarrow> PublicationIntent \<Rightarrow> string" where
  "CanonicalRequestDigest h i =
     canonicalDigest h (headerCanonical (intentHeader i) (intentKind i) (canonicalIntentPayload h i))"

section \<open>Well-formed intents\<close>

definition validRejectReason :: "string \<Rightarrow> bool" where
  "validRejectReason r \<longleftrightarrow> r = ''evidence_failure'' \<or> r = ''candidate_superseded''"

definition CancelTaskOrchestration :: string where
  "CancelTaskOrchestration = ''task_orchestration''"
definition CancelRecovery :: string where
  "CancelRecovery = ''protected_recovery''"

definition validCancelReason :: "string \<Rightarrow> bool" where
  "validCancelReason r \<longleftrightarrow> r = CancelTaskOrchestration \<or> r = CancelRecovery"

definition ReconcileInspect :: string where "ReconcileInspect = ''inspect''"
definition ReconcileCompleteVerification :: string where
  "ReconcileCompleteVerification = ''complete_verification''"
definition ReconcileConfirmCancellation :: string where
  "ReconcileConfirmCancellation = ''confirm_cancellation''"
definition ReconcileConfirmRejection :: string where
  "ReconcileConfirmRejection = ''confirm_rejection''"
definition ReconcileCompleteRelease :: string where
  "ReconcileCompleteRelease = ''complete_release''"

lemmas reconcile_mode_defs =
  ReconcileInspect_def ReconcileCompleteVerification_def ReconcileConfirmCancellation_def
  ReconcileConfirmRejection_def ReconcileCompleteRelease_def

definition validReconcileMode :: "string \<Rightarrow> bool" where
  "validReconcileMode m \<longleftrightarrow>
     m = ReconcileInspect \<or> m = ReconcileCompleteVerification \<or>
     m = ReconcileConfirmCancellation \<or> m = ReconcileConfirmRejection \<or>
     m = ReconcileCompleteRelease"

definition validPreparePayload :: "(string \<Rightarrow> string) \<Rightarrow> PreparePublicationPayload \<Rightarrow> bool" where
  "validPreparePayload nfc p \<longleftrightarrow>
     validPublicationKind (pp_kind p) \<and> pp_contract p \<noteq> [] \<and> pp_phase_run p \<noteq> [] \<and>
     pp_members p \<noteq> [] \<and> pp_staging p \<noteq> [] \<and> pp_channels p \<noteq> [] \<and> pp_runtime_refs p \<noteq> [] \<and>
     pp_capability_refs p \<noteq> [] \<and> er_id (pp_validation_ref p) \<noteq> [] \<and> er_id (pp_c04_ref p) \<noteq> [] \<and>
     \<not> (pp_kind p = PublicationKindFirstGeneration \<and> pp_parent p \<noteq> []) \<and>
     \<not> (pp_kind p = PublicationKindManualEdit \<and> pp_parent p = []) \<and>
     length (pp_channels p) = length (pp_runtime_refs p) \<and>
     length (pp_members p) = length (pp_staging p) \<and>
     length (pp_members p) = length (pp_capability_refs p) \<and>
     list_all validChannelKind (pp_channels p) \<and>
     list_all (\<lambda>r. validChannelKind (rr_channel r) \<and> rr_id r \<noteq> [] \<and> validDigest (rr_digest r))
       (pp_runtime_refs p) \<and>
     validDigest (er_digest (pp_validation_ref p)) \<and> validDigest (er_digest (pp_c04_ref p)) \<and>
     list_all (\<lambda>m. sp_slot m \<noteq> [] \<and> validArtifactKind (sp_kind m) \<and>
                   validMediaType (sp_kind m) (sp_media m) \<and> validDigest (sp_digest m) \<and>
                   normalizedLogicalName nfc (sp_name m) \<noteq> None) (pp_members p) \<and>
     distinct (map sp_slot (pp_members p)) \<and>
     list_all (\<lambda>r. sr_slot r \<noteq> [] \<and> sr_content r \<noteq> [] \<and> validDigest (sr_digest r) \<and>
                   validContentPurpose (sr_purpose r) \<and> sr_adapter r \<noteq> [] \<and>
                   sr_slot r \<in> set (map sp_slot (pp_members p))) (pp_staging p) \<and>
     distinct (map sr_slot (pp_staging p)) \<and>
     list_all (\<lambda>s. s \<in> set (map sr_slot (pp_staging p))) (map sp_slot (pp_members p)) \<and>
     list_all (\<lambda>r. cr_slot r \<noteq> [] \<and> cr_id r \<noteq> [] \<and> validDigest (cr_digest r) \<and>
                   cr_slot r \<in> set (map sp_slot (pp_members p))) (pp_capability_refs p) \<and>
     distinct (map cr_slot (pp_capability_refs p)) \<and>
     list_all (\<lambda>s. s \<in> set (map cr_slot (pp_capability_refs p))) (map sp_slot (pp_members p))"

definition validProducer :: "EvidenceProducer \<Rightarrow> bool" where
  "validProducer p \<longleftrightarrow> pr_authority p \<noteq> [] \<and> pr_generation p \<noteq> 0"

definition validVerifyPayload :: "VerifyPublicationPayload \<Rightarrow> bool" where
  "validVerifyPayload v \<longleftrightarrow>
     vp_runtime v \<noteq> [] \<and> vp_capabilities v \<noteq> [] \<and>
     ve_id (vp_validation v) \<noteq> [] \<and> ce_id (vp_c04 v) \<noteq> [] \<and>
     list_all (\<lambda>e. re_id e \<noteq> [] \<and> validDigest (re_digest e) \<and> validDigest (re_proposal e) \<and>
                   re_outcome e \<noteq> [] \<and> validChannelKind (re_channel e) \<and>
                   validProducer (re_producer e)) (vp_runtime v) \<and>
     validProducer (ve_producer (vp_validation v)) \<and> ve_contract (vp_validation v) \<noteq> [] \<and>
     ve_decision (vp_validation v) \<noteq> [] \<and>
     validProducer (ce_producer (vp_c04 v)) \<and> ce_workspace (vp_c04 v) \<noteq> [] \<and>
     ce_revision (vp_c04 v) \<noteq> [] \<and> ce_checkpoint (vp_c04 v) \<noteq> [] \<and>
     ce_validation (vp_c04 v) \<noteq> [] \<and>
     list_all (\<lambda>c. cc_id c \<noteq> [] \<and> validDigest (cc_digest c) \<and> validProducer (cc_producer c) \<and>
                   cc_content c \<noteq> [] \<and> cc_slot c \<noteq> [] \<and> validDigest (cc_content_digest c) \<and>
                   validContentPurpose (cc_purpose c) \<and> validWriteIntent (cc_write c) \<and>
                   validVerificationMethod (cc_method c) \<and> cc_adapter c \<noteq> [])
       (vp_capabilities v)"

definition validAssemblyPayload :: "PublicationIntentHeader \<Rightarrow> AssemblyReference \<Rightarrow> bool" where
  "validAssemblyPayload h a \<longleftrightarrow>
     pa_kind (ph_authority h) = AuthorityPublicationCleanup \<and>
     ar_reference a \<noteq> [] \<and> validDigest (ar_identity a) \<and> ar_generation a \<noteq> 0 \<and> ar_fence a \<noteq> 0"

definition validResolvePayload :: "PublicationIntentHeader \<Rightarrow> ResolveCleanupDebtPayload \<Rightarrow> bool" where
  "validResolvePayload h r \<longleftrightarrow>
     pa_kind (ph_authority h) = AuthorityPublicationCleanup \<and>
     (if evidenceResolution (rp_class r) then
        (case rp_evidence r of None \<Rightarrow> False
         | Some e \<Rightarrow> cv_id e \<noteq> [] \<and> validDigest (cv_digest e) \<and> validProducer (cv_producer e) \<and>
             validDigest (cv_resource e) \<and> cv_generation e \<noteq> 0 \<and> cv_fence e \<noteq> 0 \<and> cv_at e \<noteq> 0 \<and>
             rp_approval r = [] \<and> rp_expires r = 0)
      else if rp_class r = CleanupResolutionAcceptedException then
        rp_evidence r = None \<and> rp_approval r \<noteq> [] \<and> rp_expires r \<noteq> 0 \<and> ph_at h < rp_expires r
      else False)"

fun validIntentPayload :: "(string \<Rightarrow> string) \<Rightarrow> PublicationIntent \<Rightarrow> bool" where
  "validIntentPayload nfc (PreparePublication _ p) = validPreparePayload nfc p"
| "validIntentPayload nfc (VerifyPublication _ v) = validVerifyPayload v"
| "validIntentPayload nfc (ActivatePublication _) = True"
| "validIntentPayload nfc (RejectPublication _ reason _) = validRejectReason reason"
| "validIntentPayload nfc (CancelPublication _ reason) = validCancelReason reason"
| "validIntentPayload nfc (ReconcilePublication _ mode) = validReconcileMode mode"
| "validIntentPayload nfc (RecordResidueAssembly h a) = validAssemblyPayload h a"
| "validIntentPayload nfc (ReleaseResidue _) = True"
| "validIntentPayload nfc (ResolveCleanupDebt h r) = validResolvePayload h r"

definition validIntent :: "(string \<Rightarrow> string) \<Rightarrow> PublicationIntent \<Rightarrow> bool" where
  "validIntent nfc i \<longleftrightarrow> validPubHeader (intentHeader i) \<and> validIntentPayload nfc i"

end
