(* ===== verification/Pub_State.thy ===== *)
theory Pub_State
  imports Pub_Intents
begin

text \<open>
  \<open>artifactpublication/state.go\<close>, \<open>seam.go\<close>, the configuration and the persistence of
  \<open>in_memory.go\<close>, and \<open>mandatory_audit.go\<close>: the durable records, what a mutation answers, the
  ports of the authority, and the audit facts.

  \<^item> A pointer is an \<open>option\<close>, and a copy of the value it points to is the value. A string
    field whose zero value means absent and whose other values are a closed set is an
    \<open>option\<close> of the datatype of the set.
  \<^item> Go's maps are association lists keyed as in the code; \<open>outcomes\<close> is the map of maps of
    the code.
  \<^item> The ports are functions in \<open>PubConfig\<close>, \<open>None\<close> where Go allows nil. One value of it
    holds for one call of the authority: \<open>cf_now n\<close> is the reading of the clock at the
    \<open>n\<close>-th place of that call that reads it, and the other ports answer as they stand then.
\<close>

section \<open>Operation states\<close>

datatype PublicationOperationState =
    OperationPrepared
  | OperationVerified
  | OperationActivated
  | OperationRejected
  | OperationCancelled
  | OperationReconciliationRequired

fun operationStateName :: "PublicationOperationState \<Rightarrow> string" where
  "operationStateName OperationPrepared = ''prepared''"
| "operationStateName OperationVerified = ''verified''"
| "operationStateName OperationActivated = ''activated''"
| "operationStateName OperationRejected = ''rejected''"
| "operationStateName OperationCancelled = ''cancelled''"
| "operationStateName OperationReconciliationRequired = ''reconciliation_required''"

datatype VerificationState =
    VerificationPending
  | VerificationVerified
  | VerificationFailed
  | VerificationAmbiguous

record evidenceAcceptedRecord =
  ea_kind :: string
  ea_id :: string
  ea_digest :: string

record VerificationResult =
  vr_state :: VerificationState
  vr_accepted :: "evidenceAcceptedRecord list"
  vr_failure :: "EvidenceFailure option"

record verificationRecord =
  vf_state :: VerificationState
  vf_accepted :: "evidenceAcceptedRecord list"
  vf_failure :: "EvidenceFailure option"
  vf_pending :: "string list"

section \<open>Committed evidence and versions\<close>

record PublicationEvidence =
  pe_operation :: string
  pe_request :: string
  pe_domain :: string
  pe_task :: string
  pe_phase_run :: string
  pe_version :: string
  pe_manifest :: string
  pe_lineage :: string
  pe_kind :: string
  pe_parent :: string
  pe_revision :: u64
  pe_head :: string
  pe_activity :: u64
  pe_generation :: u64
  pe_fence :: u64
  pe_epoch :: u64
  pe_at :: pub_instant

definition publicationEvidenceDigest :: "hashing \<Rightarrow> PublicationEvidence \<Rightarrow> string" where
  "publicationEvidenceDigest h e = canonicalDigest h (jobj
     [(''operation_id'', JStr (pe_operation e)), (''request_digest'', JStr (pe_request e)),
      (''policy_domain_id'', JStr (pe_domain e)), (''task_id'', JStr (pe_task e)),
      (''phase_run_id'', JStr (pe_phase_run e)), (''artifact_version_id'', JStr (pe_version e)),
      (''manifest_digest'', JStr (pe_manifest e)), (''lineage_digest'', JStr (pe_lineage e)),
      (''publication_kind'', JStr (pe_kind e)), (''parent'', JStr (pe_parent e)),
      (''stream_revision'', jword (pe_revision e)), (''current_head'', JStr (pe_head e)),
      (''activity_generation'', jword (pe_activity e)), (''generation'', jword (pe_generation e)),
      (''fence'', jword (pe_fence e)), (''safety_epoch'', jword (pe_epoch e))])"

record memberRecord =
  mb_slot :: string
  mb_id :: string
  mb_kind :: string
  mb_name :: string
  mb_media :: string
  mb_size :: u64
  mb_digest :: string

record candidateRecord =
  cd_version :: string
  cd_schema :: u32
  cd_kind :: string
  cd_parent :: string
  cd_contract :: string
  cd_phase_run :: string
  cd_members :: "memberRecord list"
  cd_staging :: "stagingRecord list"
  cd_runtime_refs :: "RuntimeEvidenceRef list"
  cd_validation_ref :: PinnedRef
  cd_c04_ref :: PinnedRef
  cd_capability_refs :: "ContentCapabilityRef list"
  cd_channels :: "string list"
  cd_manifest :: string
  cd_lineage :: string

record activatedRecord =
  av_version :: string
  av_schema :: u32
  av_domain :: string
  av_task :: string
  av_kind :: string
  av_parent :: string
  av_contract :: string
  av_phase_run :: string
  av_operation :: string
  av_revision :: u64
  av_manifest :: string
  av_lineage :: string
  av_members :: "memberRecord list"
  av_evidence :: PublicationEvidence
  av_at :: pub_instant

record streamRecord =
  sm_revision :: u64
  sm_head :: string

section \<open>Decisions, outcomes, operations\<close>

record PublicationDecision =
  pd_operation :: PubOperation
  pd_state :: "PublicationOperationState option"
  pd_revision :: u64
  pd_version :: string
  pd_manifest :: string
  pd_lineage :: string
  pd_verification :: "VerificationResult option"
  pd_evidence :: "PublicationEvidence option"
  pd_replay :: bool
  pd_conflict :: bool
  pd_reject :: string
  pd_cancel :: string
  pd_reconcile :: string
  pd_residue :: bool
  pd_disposition :: "ResidueDisposition option"
  pd_expiry :: pub_instant
  pd_receipt :: "ReleaseReceipt option"
  pd_debt :: string
  pd_debt_status :: "CleanupDebtStatus option"
  pd_class :: string
  pd_at :: pub_instant

definition zeroDecision :: PublicationDecision where
  "zeroDecision =
     \<lparr>pd_operation = \<lparr>po_id = [], po_digest = []\<rparr>, pd_state = None, pd_revision = 0, pd_version = [],
      pd_manifest = [], pd_lineage = [], pd_verification = None, pd_evidence = None,
      pd_replay = False, pd_conflict = False, pd_reject = [], pd_cancel = [], pd_reconcile = [],
      pd_residue = False, pd_disposition = None, pd_expiry = 0, pd_receipt = None, pd_debt = [],
      pd_debt_status = None, pd_class = [], pd_at = 0\<rparr>"

text \<open>What \<open>Mutate\<close> returns: a decision and an error, both in some cases.\<close>

type_synonym answer = "PublicationDecision \<times> PubError option"

definition refuse :: "PubError \<Rightarrow> answer" where
  "refuse e = (zeroDecision, Some e)"

definition refuseCode :: "ErrorCode \<Rightarrow> answer" where
  "refuseCode c = refuse (coded c)"

record intentOutcome =
  io_digest :: string
  io_state :: PublicationOperationState
  io_decision :: PublicationDecision
  io_error :: "PubError option"
  io_at :: pub_instant

type_synonym operationScope = "string \<times> string \<times> string"
type_synonym taskScope = "string \<times> string"
type_synonym outcomes = "(PublicationIntentKind \<times> (string \<times> intentOutcome) list) list"

record operationRecord =
  op_scope :: operationScope
  op_id :: string
  op_request :: string
  op_state :: PublicationOperationState
  op_revision :: u64
  op_generation :: u64
  op_fence :: u64
  op_epoch :: u64
  op_activity :: u64
  op_at :: pub_instant
  op_candidate :: "candidateRecord option"
  op_verification :: "verificationRecord option"
  op_evidence :: "PublicationEvidence option"
  op_reject :: string
  op_cancel :: string
  op_reconcile :: string
  op_residue :: "residueRecord option"
  op_debt :: "cleanupDebtRecord option"
  op_conflict :: bool
  op_outcomes :: outcomes

section \<open>Audit facts\<close>

record PublicationAuditFact =
  au_schema :: u32
  au_integrity :: u16
  au_id :: string
  au_digest :: digest
  au_module :: enum8
  au_domain :: string
  au_task :: string
  au_operation :: string
  au_request :: string
  au_request_digest :: string
  au_action :: PublicationIntentKind
  au_result :: enum8
  au_authority_kind :: string
  au_authority :: string
  au_authority_generation :: u64
  au_state :: PublicationOperationState
  au_version :: string
  au_manifest :: string
  au_lineage :: string
  au_revision :: u64
  au_occurred :: pub_instant
  au_recorded :: pub_instant
  au_clock :: enum8

text \<open>\<open>RecordedAt\<close> is the time of a Unix second; Go's zero time is a second of the year 1.\<close>

definition unixTime :: "pub_instant \<Rightarrow> json" where
  "unixTime s = JTime (s * 1000000000)"

definition zeroTimeSecond :: pub_instant where
  "zeroTimeSecond = -62135596800"

definition AuditSchemaV1 :: u32 where "AuditSchemaV1 = push_bit 16 1"
definition AuditIntegrityV1 :: u16 where "AuditIntegrityV1 = 1"
definition AuditModuleArtifactPublication :: enum8 where "AuditModuleArtifactPublication = 1"
definition AuditResultAccepted :: enum8 where "AuditResultAccepted = 1"
definition AuditSourceArtifactPublicationClock :: enum8 where
  "AuditSourceArtifactPublicationClock = 1"

definition PublicationAuditFactDigest :: "hashing \<Rightarrow> PublicationAuditFact \<Rightarrow> digest" where
  "PublicationAuditFactDigest h f = hs_value h [] (jobj
     [(''schema_version'', jword (au_schema f)), (''integrity_version'', jword (au_integrity f)),
      (''audit_fact_id'', JStr (au_id f)), (''owning_module'', jword (au_module f)),
      (''policy_domain_id'', JStr (au_domain f)), (''task_id'', JStr (au_task f)),
      (''operation_id'', JStr (au_operation f)), (''request_id'', JStr (au_request f)),
      (''request_digest'', JStr (au_request_digest f)),
      (''action'', JStr (intentKindName (au_action f))), (''result'', jword (au_result f)),
      (''authority_kind'', JStr (au_authority_kind f)), (''authority_id'', JStr (au_authority f)),
      (''authority_generation'', jword (au_authority_generation f)),
      (''state'', JStr (operationStateName (au_state f))), (''version_id'', JStr (au_version f)),
      (''manifest_digest'', JStr (au_manifest f)), (''lineage_digest'', JStr (au_lineage f)),
      (''stream_revision'', jword (au_revision f)), (''occurred_at'', JNum (au_occurred f)),
      (''recorded_at'', unixTime (au_recorded f)), (''source_clock'', jword (au_clock f))])"

definition newPublicationAuditFact ::
    "hashing \<Rightarrow> string \<Rightarrow> PublicationIntentHeader \<Rightarrow> PublicationIntentKind \<Rightarrow>
     PublicationOperationState \<Rightarrow> string \<Rightarrow> string \<Rightarrow> string \<Rightarrow> u64 \<Rightarrow> pub_instant \<Rightarrow> pub_instant \<Rightarrow>
     PublicationAuditFact" where
  "newPublicationAuditFact hash aid h action state version manifest lineage revision at recorded =
     (let fact =
        \<lparr>au_schema = AuditSchemaV1, au_integrity = AuditIntegrityV1, au_id = aid, au_digest = [],
         au_module = AuditModuleArtifactPublication, au_domain = ph_domain h, au_task = ph_task h,
         au_operation = po_id (ph_operation h), au_request = ph_request h,
         au_request_digest = po_digest (ph_operation h), au_action = action,
         au_result = AuditResultAccepted, au_authority_kind = pa_kind (ph_authority h),
         au_authority = pa_id (ph_authority h),
         au_authority_generation = pa_generation (ph_authority h), au_state = state,
         au_version = version, au_manifest = manifest, au_lineage = lineage,
         au_revision = revision, au_occurred = at, au_recorded = recorded,
         au_clock = AuditSourceArtifactPublicationClock\<rparr>
      in fact\<lparr>au_digest := PublicationAuditFactDigest hash fact\<rparr>)"

definition validPublicationAuditFact :: "hashing \<Rightarrow> PublicationAuditFact \<Rightarrow> bool" where
  "validPublicationAuditFact hash f \<longleftrightarrow>
     au_schema f = AuditSchemaV1 \<and> au_integrity f = AuditIntegrityV1 \<and>
     au_module f = AuditModuleArtifactPublication \<and> au_id f \<noteq> [] \<and> au_digest f \<noteq> zero_digest \<and>
     au_domain f \<noteq> [] \<and> au_task f \<noteq> [] \<and> au_operation f \<noteq> [] \<and> au_request_digest f \<noteq> [] \<and>
     au_result f \<noteq> 0 \<and> validEvidenceAuthorityKind (au_authority_kind f) \<and>
     au_authority f \<noteq> [] \<and> au_authority_generation f \<noteq> 0 \<and> au_recorded f \<noteq> zeroTimeSecond \<and>
     au_clock f = AuditSourceArtifactPublicationClock \<and>
     au_digest f = PublicationAuditFactDigest hash f"

section \<open>The authority\<close>

datatype FaultPoint =
    FaultBeforeOperationJournal
  | FaultBeforeCandidatePersistence
  | FaultBeforeEvidenceAcceptance
  | FaultBeforeVerificationResult
  | FaultBeforeActivationCommit
  | FaultBeforeResponse
  | FaultAfterResponse

record FaultEvent =
  fe_point :: FaultPoint
  fe_operation :: string
  fe_kind :: PublicationIntentKind
  fe_subject :: string

record ContentScope =
  cs_kind :: string
  cs_id :: string
  cs_generation :: u64

record ContentScopeKey =
  ck_domain :: string
  ck_task :: string
  ck_version :: string
  ck_kind :: string
  ck_id :: string

record PubConfig =
  cf_hash :: hashing
  cf_nfc :: "string \<Rightarrow> string"
  cf_now :: "nat \<Rightarrow> pub_instant"
  cf_runtime :: string
  cf_validation :: string
  cf_c04 :: string
  cf_durable :: string
  cf_orchestration :: string
  cf_recovery :: string
  cf_publication :: string
  cf_cleanup :: string
  cf_capability :: "(string \<Rightarrow> ContentCapabilityEvidence option) option"
  cf_scope :: "(ContentScopeKey \<Rightarrow> ContentScope option) option"
  cf_retention :: "(pub_instant \<Rightarrow> pub_instant) option"
  cf_release :: "(stagingRecord list \<Rightarrow> u64 \<Rightarrow> ExternalError + (ReleaseReceipt \<times> bool)) option"
  cf_fault :: "(FaultEvent \<Rightarrow> ExternalError option) option"

record contentFact =
  ct_domain :: string
  ct_task :: string
  ct_version :: string

record InMemoryPersistence =
  ps_next_version :: u64
  ps_next_artifact :: u64
  ps_next_debt :: u64
  ps_next_audit :: u64
  ps_operations :: "(operationScope \<times> operationRecord) list"
  ps_streams :: "(taskScope \<times> streamRecord) list"
  ps_versions :: "(string \<times> contentFact) list"
  ps_artifacts :: "(string \<times> contentFact) list"
  ps_index :: "(string \<times> operationScope) list"
  ps_activated :: "(string \<times> activatedRecord) list"
  ps_audit :: "PublicationAuditFact list"

definition newPersistence :: InMemoryPersistence where
  "newPersistence =
     \<lparr>ps_next_version = 0, ps_next_artifact = 0, ps_next_debt = 0, ps_next_audit = 0,
      ps_operations = [], ps_streams = [], ps_versions = [], ps_artifacts = [], ps_index = [],
      ps_activated = [], ps_audit = []\<rparr>"

definition injectFault ::
    "PubConfig \<Rightarrow> FaultPoint \<Rightarrow> string \<Rightarrow> PublicationIntentKind \<Rightarrow> string \<Rightarrow> ExternalError option" where
  "injectFault c point operation kind subject =
     (case cf_fault c of None \<Rightarrow> None
      | Some hook \<Rightarrow> hook \<lparr>fe_point = point, fe_operation = operation, fe_kind = kind,
                           fe_subject = subject\<rparr>)"

definition currentContentCapability :: "PubConfig \<Rightarrow> string \<Rightarrow> ContentCapabilityEvidence option" where
  "currentContentCapability c i = (case cf_capability c of None \<Rightarrow> None | Some f \<Rightarrow> f i)"

definition currentContentScope :: "PubConfig \<Rightarrow> ContentScopeKey \<Rightarrow> ContentScope option" where
  "currentContentScope c k = (case cf_scope c of None \<Rightarrow> None | Some f \<Rightarrow> f k)"

definition residueExpiry :: "PubConfig \<Rightarrow> pub_instant \<Rightarrow> pub_instant" where
  "residueExpiry c at = (case cf_retention c of None \<Rightarrow> 0 | Some f \<Rightarrow> f at)"

section \<open>Numbered identities\<close>

text \<open>\<open>%016x\<close> of a \<open>uint64\<close>.\<close>

fun hex_digits :: "nat \<Rightarrow> nat \<Rightarrow> string" where
  "hex_digits 0 n = []"
| "hex_digits (Suc k) n = hex_digits k (n div 16) @ [hex_digit (n mod 16)]"

definition hex16 :: "u64 \<Rightarrow> string" where
  "hex16 w = hex_digits 16 (unat w)"

lemma hex_digits_inject:
  "m < 16 ^ k \<Longrightarrow> n < 16 ^ k \<Longrightarrow> hex_digits k m = hex_digits k n \<Longrightarrow> m = n"
proof (induction k arbitrary: m n)
  case 0
  then show ?case by simp
next
  case (Suc k)
  have "hex_value (hex_digit (m mod 16)) = hex_value (hex_digit (n mod 16))"
    using Suc.prems(3) by simp
  then have low: "m mod 16 = n mod 16" by (simp add: hex_value_digit)
  have "m div 16 < 16 ^ k" and "n div 16 < 16 ^ k"
    using Suc.prems by (simp_all add: less_mult_imp_div_less mult.commute)
  then have "m div 16 = n div 16" using Suc.prems(3) Suc.IH by simp
  with low show ?case by (metis div_mult_mod_eq)
qed

lemma hex16_inject [simp]: "hex16 v = hex16 w \<longleftrightarrow> v = w"
proof
  assume "hex16 v = hex16 w"
  moreover have "unat v < 16 ^ 16" "unat w < 16 ^ 16"
    using unsigned_less [of v, where ?'a = nat] unsigned_less [of w, where ?'a = nat] by simp_all
  ultimately have "unat v = unat w"
    unfolding hex16_def by (metis hex_digits_inject)
  then show "v = w" by (simp add: word_unat_eq_iff)
qed simp

section \<open>Reading and writing the records\<close>

definition storeOperation :: "operationRecord \<Rightarrow> InMemoryPersistence \<Rightarrow> InMemoryPersistence" where
  "storeOperation r s = s\<lparr>ps_operations := AList.update (op_scope r) r (ps_operations s)\<rparr>"

definition streamOf :: "InMemoryPersistence \<Rightarrow> taskScope \<Rightarrow> streamRecord" where
  "streamOf s t =
     (case map_of (ps_streams s) t of None \<Rightarrow> \<lparr>sm_revision = 0, sm_head = []\<rparr> | Some m \<Rightarrow> m)"

fun candidateVersion :: "candidateRecord option \<Rightarrow> string" where
  "candidateVersion None = []"
| "candidateVersion (Some c) = cd_version c"

fun candidateManifest :: "candidateRecord option \<Rightarrow> string" where
  "candidateManifest None = []"
| "candidateManifest (Some c) = cd_manifest c"

fun candidateLineage :: "candidateRecord option \<Rightarrow> string" where
  "candidateLineage None = []"
| "candidateLineage (Some c) = cd_lineage c"

definition verificationResult :: "operationRecord \<Rightarrow> VerificationResult option" where
  "verificationResult r =
     map_option (\<lambda>v. \<lparr>vr_state = vf_state v, vr_accepted = vf_accepted v, vr_failure = vf_failure v\<rparr>)
       (op_verification r)"

definition decisionForRecord :: "operationRecord \<Rightarrow> bool \<Rightarrow> pub_instant \<Rightarrow> PublicationDecision" where
  "decisionForRecord r replay at =
     \<lparr>pd_operation = \<lparr>po_id = op_id r, po_digest = op_request r\<rparr>, pd_state = Some (op_state r),
      pd_revision = op_revision r, pd_version = candidateVersion (op_candidate r),
      pd_manifest = candidateManifest (op_candidate r),
      pd_lineage = candidateLineage (op_candidate r),
      pd_verification = verificationResult r, pd_evidence = op_evidence r, pd_replay = replay,
      pd_conflict = op_conflict r, pd_reject = op_reject r, pd_cancel = op_cancel r,
      pd_reconcile = op_reconcile r, pd_residue = (op_residue r \<noteq> None),
      pd_disposition = map_option rs_disposition (op_residue r),
      pd_expiry = (case op_residue r of None \<Rightarrow> 0 | Some x \<Rightarrow> rs_expiry x),
      pd_receipt = Option.bind (op_residue r) rs_receipt,
      pd_debt = (case op_residue r of None \<Rightarrow> [] | Some x \<Rightarrow> rs_debt x),
      pd_debt_status = map_option db_status (op_debt r),
      pd_class = (case op_debt r of None \<Rightarrow> [] | Some d \<Rightarrow> db_class d), pd_at = at\<rparr>"

definition outcomesOf :: "operationRecord \<Rightarrow> PublicationIntentKind \<Rightarrow> (string \<times> intentOutcome) list option" where
  "outcomesOf r kind = map_of (op_outcomes r) kind"

definition recordOutcome ::
    "operationRecord \<Rightarrow> PublicationIntentKind \<Rightarrow> string \<Rightarrow> PublicationOperationState \<Rightarrow>
     PublicationDecision \<Rightarrow> PubError option \<Rightarrow> pub_instant \<Rightarrow> operationRecord" where
  "recordOutcome r kind digest state decision err at =
     (let byKind = (case outcomesOf r kind of None \<Rightarrow> [] | Some m \<Rightarrow> m);
          outcome = \<lparr>io_digest = digest, io_state = state, io_decision = decision,
                     io_error = err, io_at = at\<rparr>
      in r\<lparr>op_outcomes := AList.update kind (AList.update digest outcome byKind) (op_outcomes r),
          op_state := state\<rparr>)"

definition replayOutcome :: "intentOutcome \<Rightarrow> answer" where
  "replayOutcome out = ((io_decision out)\<lparr>pd_replay := True\<rparr>, io_error out)"

definition recordAudit ::
    "PubConfig \<Rightarrow> PublicationIntentHeader \<Rightarrow> PublicationIntentKind \<Rightarrow> PublicationOperationState \<Rightarrow>
     string \<Rightarrow> string \<Rightarrow> string \<Rightarrow> u64 \<Rightarrow> pub_instant \<Rightarrow> pub_instant \<Rightarrow>
     InMemoryPersistence \<Rightarrow> InMemoryPersistence" where
  "recordAudit c h action state version manifest lineage revision at recorded s =
     (let n = ps_next_audit s + 1
      in s\<lparr>ps_next_audit := n,
          ps_audit := ps_audit s @
            [newPublicationAuditFact (cf_hash c) (''audit-'' @ hex16 n) h action state version
               manifest lineage revision at recorded]\<rparr>)"

text \<open>The audit fact of a decision on a record, as most handlers write it.\<close>

definition auditRecord ::
    "PubConfig \<Rightarrow> PublicationIntentHeader \<Rightarrow> PublicationIntentKind \<Rightarrow> operationRecord \<Rightarrow>
     pub_instant \<Rightarrow> pub_instant \<Rightarrow> InMemoryPersistence \<Rightarrow> InMemoryPersistence" where
  "auditRecord c h action r at recorded s =
     recordAudit c h action (op_state r) (candidateVersion (op_candidate r))
       (candidateManifest (op_candidate r)) (candidateLineage (op_candidate r)) (op_revision r)
       at recorded s"

end
