(* ===== verification/Pub_Verify.thy ===== *)
theory Pub_Verify
  imports Pub_State
begin

text \<open>
  The evidence gate of \<open>artifactpublication/lifecycle.go\<close>: who may submit which intent, the
  evaluation of the presented evidence against the references a candidate pins, and the
  \<open>verify\<close> handler that records its result.

  The evaluation stops at the first record that does not fit and names it; a capability the
  durable object authority cannot resolve now is skipped and makes the result ambiguous.
\<close>

section \<open>Authorities\<close>

definition ensureAuthority ::
    "PubConfig \<Rightarrow> PublicationAuthority \<Rightarrow> PublicationIntentKind \<Rightarrow> PubError option" where
  "ensureAuthority c a kind =
     (if pa_kind a = AuthorityRecovery then
        if kind \<noteq> IntentCancelPublication then Some (coded ErrorOwnershipDenied)
        else if pa_id a \<noteq> cf_recovery c then Some (coded ErrorOwnershipDenied)
        else None
      else if pa_kind a = AuthorityPublicationCleanup then
        if kind = IntentRecordResidueAssembly \<or> kind = IntentReleaseResidue \<or>
           kind = IntentResolveCleanupDebt
        then if pa_id a \<noteq> cf_cleanup c then Some (coded ErrorOwnershipDenied) else None
        else Some (coded ErrorOwnershipDenied)
      else if pa_kind a \<noteq> AuthorityTaskOrchestration then Some (coded ErrorOwnershipDenied)
      else if pa_id a \<noteq> cf_orchestration c then Some (coded ErrorOwnershipDenied)
      else None)"

definition ensureReconcileAuthority ::
    "PubConfig \<Rightarrow> PublicationAuthority \<Rightarrow> string \<Rightarrow> PubError option" where
  "ensureReconcileAuthority c a mode =
     (if mode = ReconcileCompleteRelease then
        if pa_kind a \<noteq> AuthorityPublicationCleanup \<or> pa_id a \<noteq> cf_cleanup c
        then Some (coded ErrorOwnershipDenied) else None
      else ensureAuthority c a IntentReconcilePublication)"

section \<open>Evaluation\<close>

record verificationEvaluation =
  el_accepted :: "evidenceAcceptedRecord list"
  el_pending :: "string list"

definition evidenceFailure :: "string \<Rightarrow> string \<Rightarrow> EvidenceFailure" where
  "evidenceFailure kind evidence = \<lparr>ef_kind = kind, ef_evidence = evidence, ef_capability = []\<rparr>"

definition capabilityFailure :: "string \<Rightarrow> string \<Rightarrow> EvidenceFailure" where
  "capabilityFailure kind cap = \<lparr>ef_kind = kind, ef_evidence = [], ef_capability = cap\<rparr>"

definition accept_evidence :: "string \<Rightarrow> string \<Rightarrow> string \<Rightarrow> evidenceAcceptedRecord" where
  "accept_evidence kind i d = \<lparr>ea_kind = kind, ea_id = i, ea_digest = d\<rparr>"

text \<open>
  Evidence by channel, capabilities by slot: a later record replaces an earlier one under the
  same key, if it has the same identity.
\<close>

fun index_by ::
    "('e \<Rightarrow> string) \<Rightarrow> ('e \<Rightarrow> string) \<Rightarrow> 'f \<Rightarrow> 'e list \<Rightarrow> (string \<times> 'e) list \<Rightarrow> 'f + (string \<times> 'e) list" where
  "index_by key identity duplicate [] m = Inr m"
| "index_by key identity duplicate (e # es) m =
     (case map_of m (key e) of
        Some existing \<Rightarrow>
          if identity existing \<noteq> identity e then Inl duplicate
          else index_by key identity duplicate es (AList.update (key e) e m)
      | None \<Rightarrow> index_by key identity duplicate es (AList.update (key e) e m))"

definition runtimeByChannel ::
    "RuntimeEvidence list \<Rightarrow> EvidenceFailure + (string \<times> RuntimeEvidence) list" where
  "runtimeByChannel es =
     index_by re_channel re_id (evidenceFailure ''duplicate_runtime_evidence'' []) es []"

definition capabilityBySlot ::
    "ContentCapabilityEvidence list \<Rightarrow> EvidenceFailure + (string \<times> ContentCapabilityEvidence) list" where
  "capabilityBySlot es =
     index_by cc_slot cc_id (capabilityFailure ''duplicate_capability'' []) es []"

definition acceptRuntime ::
    "hashing \<Rightarrow> PubConfig \<Rightarrow> candidateRecord \<Rightarrow> PublicationIntentHeader \<Rightarrow> RuntimeEvidenceRef \<Rightarrow>
     RuntimeEvidence option \<Rightarrow> EvidenceFailure + RuntimeEvidence" where
  "acceptRuntime hash c cand h ref found =
     (case found of
        None \<Rightarrow> Inl (evidenceFailure ''runtime_evidence_missing'' (rr_id ref))
      | Some e \<Rightarrow>
          if re_id e \<noteq> rr_id ref \<or> re_digest e \<noteq> rr_digest ref
          then Inl (evidenceFailure ''runtime_evidence_mismatch'' (re_id e))
          else if \<not> validDigest (re_digest e) \<or> re_digest e \<noteq> runtimeEvidenceDigest hash e
          then Inl (evidenceFailure ''runtime_evidence_corrupt'' (re_id e))
          else if pr_authority (re_producer e) \<noteq> cf_runtime c \<or> re_domain e \<noteq> ph_domain h \<or>
                  re_task e \<noteq> ph_task h \<or> re_phase_run e \<noteq> cd_phase_run cand \<or>
                  re_epoch e \<noteq> ph_epoch h
          then Inl (evidenceFailure ''runtime_evidence_scope'' (re_id e))
          else if re_outcome e \<noteq> ''completed''
          then Inl (evidenceFailure ''runtime_evidence_outcome'' (re_id e))
          else Inr e)"

fun acceptRuntimeRefs ::
    "hashing \<Rightarrow> PubConfig \<Rightarrow> candidateRecord \<Rightarrow> PublicationIntentHeader \<Rightarrow>
     (string \<times> RuntimeEvidence) list \<Rightarrow> RuntimeEvidenceRef list \<Rightarrow>
     EvidenceFailure + RuntimeEvidence list" where
  "acceptRuntimeRefs hash c cand h m [] = Inr []"
| "acceptRuntimeRefs hash c cand h m (ref # refs) =
     result_bind (acceptRuntime hash c cand h ref (map_of m (rr_channel ref))) (\<lambda>e.
     result_bind (acceptRuntimeRefs hash c cand h m refs) (\<lambda>es. Inr (e # es)))"

definition runtimeEvidenceRefs :: "RuntimeEvidence list \<Rightarrow> PinnedRef list" where
  "runtimeEvidenceRefs es = sort_key er_id (map (\<lambda>e. \<lparr>er_id = re_id e, er_digest = re_digest e\<rparr>) es)"

definition sameEvidenceRefSet :: "PinnedRef list \<Rightarrow> PinnedRef list \<Rightarrow> bool" where
  "sameEvidenceRefSet a b \<longleftrightarrow> sort_key er_id a = sort_key er_id b"

definition acceptValidation ::
    "hashing \<Rightarrow> PubConfig \<Rightarrow> candidateRecord \<Rightarrow> PublicationIntentHeader \<Rightarrow> string \<Rightarrow>
     RuntimeEvidence list \<Rightarrow> ValidationEvidence \<Rightarrow> EvidenceFailure + unit" where
  "acceptValidation hash c cand h proposal runtime v =
     (if ve_id v \<noteq> er_id (cd_validation_ref cand) \<or> ve_digest v \<noteq> er_digest (cd_validation_ref cand)
      then Inl (evidenceFailure ''validation_evidence_mismatch'' (ve_id v))
      else if \<not> validDigest (ve_digest v) \<or> ve_digest v \<noteq> validationEvidenceDigest hash v
      then Inl (evidenceFailure ''validation_evidence_corrupt'' (ve_id v))
      else if pr_authority (ve_producer v) \<noteq> cf_validation c \<or> ve_domain v \<noteq> ph_domain h \<or>
              ve_task v \<noteq> ph_task h \<or> ve_contract v \<noteq> cd_contract cand \<or> ve_epoch v \<noteq> ph_epoch h
      then Inl (evidenceFailure ''validation_evidence_scope'' (ve_id v))
      else if ve_proposal v \<noteq> proposal
      then Inl (evidenceFailure ''validation_evidence_manifest'' (ve_id v))
      else if \<not> sameEvidenceRefSet (ve_runtime_refs v) (runtimeEvidenceRefs runtime)
      then Inl (evidenceFailure ''validation_evidence_binding'' (ve_id v))
      else Inr ())"

definition exportFits ::
    "hashing \<Rightarrow> PubConfig \<Rightarrow> candidateRecord \<Rightarrow> PublicationIntentHeader \<Rightarrow> ValidationEvidence \<Rightarrow>
     C04CommitEvidence \<Rightarrow> ValidatedExportEvidence \<Rightarrow> bool" where
  "exportFits hash c cand h v commit x \<longleftrightarrow>
     xe_authority x = cf_c04 c \<and> xe_source x = cd_parent cand \<and> xe_domain x = ph_domain h \<and>
     xe_task x = ph_task h \<and> xe_validation x = ve_id v \<and> xe_revision x = ce_revision commit \<and>
     xe_checkpoint x = ce_checkpoint commit \<and> validDigest (xe_digest x) \<and>
     xe_digest x = exportEvidenceDigest hash x"

definition acceptCommit ::
    "hashing \<Rightarrow> PubConfig \<Rightarrow> candidateRecord \<Rightarrow> PublicationIntentHeader \<Rightarrow> ValidationEvidence \<Rightarrow>
     C04CommitEvidence \<Rightarrow> EvidenceFailure + unit" where
  "acceptCommit hash c cand h v commit =
     (if ce_id commit \<noteq> er_id (cd_c04_ref cand) \<or> ce_digest commit \<noteq> er_digest (cd_c04_ref cand)
      then Inl (evidenceFailure ''c04_evidence_mismatch'' (ce_id commit))
      else if \<not> validDigest (ce_digest commit) \<or> ce_digest commit \<noteq> commitEvidenceDigest hash commit
      then Inl (evidenceFailure ''c04_evidence_corrupt'' (ce_id commit))
      else if pr_authority (ce_producer commit) \<noteq> cf_c04 c \<or> ce_domain commit \<noteq> ph_domain h \<or>
              ce_task commit \<noteq> ph_task h \<or> ce_validation commit \<noteq> ve_id v \<or>
              ce_validation_digest commit \<noteq> ve_digest v \<or> ce_epoch commit \<noteq> ph_epoch h
      then Inl (evidenceFailure ''c04_evidence_scope'' (ce_id commit))
      else if ce_content_root commit = [] \<or> ce_durability_root commit = []
      then Inl (evidenceFailure ''c04_evidence_roots'' (ce_id commit))
      else if cd_kind cand = PublicationKindManualEdit then
        (case ce_export commit of
           None \<Rightarrow> Inl (evidenceFailure ''c04_export_missing'' (ce_id commit))
         | Some x \<Rightarrow>
             if exportFits hash c cand h v commit x then Inr ()
             else Inl (evidenceFailure ''c04_export_scope'' (ce_id commit)))
      else Inr ())"

definition stagingBySlot :: "candidateRecord \<Rightarrow> string \<Rightarrow> stagingRecord option" where
  "stagingBySlot cand slot = find_elem (\<lambda>s. st_slot s = slot) (cd_staging cand)"

text \<open>Go's map yields the zero record for a slot that is not a member.\<close>

definition zeroMember :: memberRecord where
  "zeroMember = \<lparr>mb_slot = [], mb_id = [], mb_kind = [], mb_name = [], mb_media = [], mb_size = 0,
                 mb_digest = []\<rparr>"

definition memberBySlot :: "candidateRecord \<Rightarrow> string \<Rightarrow> memberRecord" where
  "memberBySlot cand slot =
     (case find_elem (\<lambda>m. mb_slot m = slot) (rev (cd_members cand)) of
        None \<Rightarrow> zeroMember | Some m \<Rightarrow> m)"

definition capabilityFits ::
    "PubConfig \<Rightarrow> PublicationIntentHeader \<Rightarrow> memberRecord \<Rightarrow> stagingRecord \<Rightarrow>
     ContentCapabilityEvidence \<Rightarrow> bool" where
  "capabilityFits c h member staged cap \<longleftrightarrow>
     pr_authority (cc_producer cap) = cf_durable c \<and> cc_domain cap = ph_domain h \<and>
     cc_purpose cap = ContentPurposePublicationMember \<and> cc_content cap = st_content staged \<and>
     cc_content_digest cap = mb_digest member \<and> cc_size cap = mb_size member \<and>
     cc_write cap = WriteIntentImmutable \<and> cc_method cap = VerificationMethodReceiptBound \<and>
     cc_adapter cap = st_adapter staged \<and> cc_epoch cap = ph_epoch h"

text \<open>One pinned capability: accepted with its record, or not resolvable now (\<open>None\<close>).\<close>

definition acceptCapability ::
    "hashing \<Rightarrow> PubConfig \<Rightarrow> candidateRecord \<Rightarrow> PublicationIntentHeader \<Rightarrow> ContentCapabilityRef \<Rightarrow>
     ContentCapabilityEvidence option \<Rightarrow> EvidenceFailure + evidenceAcceptedRecord option" where
  "acceptCapability hash c cand h ref found =
     (case found of
        None \<Rightarrow> Inl (capabilityFailure ''capability_missing'' (cr_id ref))
      | Some cap \<Rightarrow>
          (case stagingBySlot cand (cr_slot ref) of
             None \<Rightarrow> Inl (capabilityFailure ''capability_staging'' (cc_id cap))
           | Some staged \<Rightarrow>
               if cc_id cap \<noteq> cr_id ref \<or> cc_digest cap \<noteq> cr_digest ref
               then Inl (capabilityFailure ''capability_mismatch'' (cc_id cap))
               else if \<not> validDigest (cc_digest cap) \<or> cc_digest cap \<noteq> capabilityEvidenceDigest hash cap
               then Inl (capabilityFailure ''capability_corrupt'' (cc_id cap))
               else if \<not> capabilityFits c h (memberBySlot cand (cr_slot ref)) staged cap
               then Inl (capabilityFailure ''capability_facts'' (cc_id cap))
               else (case currentContentCapability c (cc_id cap) of
                       None \<Rightarrow> Inr None
                     | Some current \<Rightarrow>
                         if cc_digest current \<noteq> cc_digest cap
                         then Inl (capabilityFailure ''capability_stale'' (cc_id cap))
                         else Inr (Some (accept_evidence ''content_capability'' (cc_id cap)
                                           (cc_digest cap))))))"

fun acceptCapabilities ::
    "hashing \<Rightarrow> PubConfig \<Rightarrow> candidateRecord \<Rightarrow> PublicationIntentHeader \<Rightarrow>
     (string \<times> ContentCapabilityEvidence) list \<Rightarrow> ContentCapabilityRef list \<Rightarrow>
     EvidenceFailure + evidenceAcceptedRecord option list" where
  "acceptCapabilities hash c cand h m [] = Inr []"
| "acceptCapabilities hash c cand h m (ref # refs) =
     result_bind (acceptCapability hash c cand h ref (map_of m (cr_slot ref))) (\<lambda>x.
     result_bind (acceptCapabilities hash c cand h m refs) (\<lambda>xs. Inr (x # xs)))"

text \<open>
  The whole evaluation: the failure, or what was accepted and whether the result is ambiguous.
  The pending slots of the evaluation stay empty: the code collects the ambiguous slots in a
  local variable that it only counts.
\<close>

definition evaluateEvidence ::
    "PubConfig \<Rightarrow> candidateRecord \<Rightarrow> PublicationIntentHeader \<Rightarrow> VerifyPublicationPayload \<Rightarrow>
     EvidenceFailure + (verificationEvaluation \<times> bool)" where
  "evaluateEvidence c cand h v =
     (let hash = cf_hash c; validation = vp_validation v; commit = vp_c04 v in
      if length (vp_runtime v) \<noteq> length (cd_channels cand)
      then Inl (evidenceFailure ''runtime_evidence_count'' [])
      else result_bind (runtimeByChannel (vp_runtime v)) (\<lambda>byChannel.
      result_bind (acceptRuntimeRefs hash c cand h byChannel (cd_runtime_refs cand)) (\<lambda>runtime.
      let proposal = re_proposal (hd runtime) in
      if \<not> list_all (\<lambda>e. re_proposal e = proposal) (tl runtime)
      then Inl (evidenceFailure ''runtime_evidence_manifest'' [])
      else result_bind (acceptValidation hash c cand h proposal (vp_runtime v) validation) (\<lambda>_.
      result_bind (acceptCommit hash c cand h validation commit) (\<lambda>_.
      if length (vp_capabilities v) \<noteq> length (cd_members cand)
      then Inl (evidenceFailure ''capability_count'' [])
      else result_bind (capabilityBySlot (vp_capabilities v)) (\<lambda>bySlot.
      result_bind (acceptCapabilities hash c cand h bySlot (cd_capability_refs cand)) (\<lambda>caps.
      let accepted = map (\<lambda>e. accept_evidence ''runtime'' (re_id e) (re_digest e)) runtime @
            [accept_evidence ''validation'' (ve_id validation) (ve_digest validation),
             accept_evidence ''c04_commit'' (ce_id commit) (ce_digest commit)] @
            List.map_filter id caps
      in Inr (\<lparr>el_accepted = accepted, el_pending = []\<rparr>, None \<in> set caps)))))))) "

definition ends_with :: "string \<Rightarrow> string \<Rightarrow> bool" where
  "ends_with suffix s \<longleftrightarrow> length suffix \<le> length s \<and> drop (length s - length suffix) s = suffix"

definition failureErrorCode :: "string \<Rightarrow> ErrorCode" where
  "failureErrorCode kind =
     (if ends_with ''_missing'' kind \<or> kind = ''runtime_evidence_count'' \<or> kind = ''capability_count''
      then ErrorEvidenceMissing
      else if ends_with ''_corrupt'' kind then ErrorEvidenceCorrupt
      else ErrorIntegrityFailure)"

section \<open>The handler\<close>

text \<open>
  Recording a decision on a record: the outcome, the record back in its map, the audit fact.
  The readings of the clock are those of the outcome and of the two audit times.
\<close>

definition commitDecision ::
    "PubConfig \<Rightarrow> PublicationIntentHeader \<Rightarrow> PublicationIntentKind \<Rightarrow> string \<Rightarrow> operationRecord \<Rightarrow>
     PublicationDecision \<Rightarrow> PubError option \<Rightarrow> nat \<Rightarrow> InMemoryPersistence \<Rightarrow> InMemoryPersistence" where
  "commitDecision c h kind digest r decision err n s =
     (let r' = recordOutcome r kind digest (op_state r) decision err (cf_now c n)
      in auditRecord c h kind r' (cf_now c (n + 1)) (cf_now c (n + 2)) (storeOperation r' s))"

definition respond ::
    "PubConfig \<Rightarrow> string \<Rightarrow> PublicationIntentKind \<Rightarrow> string \<Rightarrow> answer \<Rightarrow> answer" where
  "respond c operation kind subject a =
     (case injectFault c FaultBeforeResponse operation kind subject of
        Some e \<Rightarrow> refuse (normalizeError e)
      | None \<Rightarrow> a)"

definition verifyTransition ::
    "operationRecord \<Rightarrow> EvidenceFailure + (verificationEvaluation \<times> bool) \<Rightarrow> operationRecord" where
  "verifyTransition r result =
     (case result of
        Inl failure \<Rightarrow>
          r\<lparr>op_verification :=
              Some \<lparr>vf_state = VerificationFailed, vf_accepted = [], vf_failure = Some failure,
                    vf_pending = []\<rparr>,
            op_state := OperationPrepared\<rparr>
      | Inr (evaluation, ambiguous) \<Rightarrow>
          if ambiguous then
            r\<lparr>op_verification :=
                Some \<lparr>vf_state = VerificationAmbiguous, vf_accepted = el_accepted evaluation,
                      vf_failure = None, vf_pending = el_pending evaluation\<rparr>,
              op_state := OperationReconciliationRequired\<rparr>
          else
            r\<lparr>op_verification :=
                Some \<lparr>vf_state = VerificationVerified, vf_accepted = el_accepted evaluation,
                      vf_failure = None, vf_pending = []\<rparr>,
              op_state := OperationVerified\<rparr>)"

fun verifyError :: "EvidenceFailure + 'a \<Rightarrow> PubError option" where
  "verifyError (Inl failure) = Some (coded (failureErrorCode (ef_kind failure)))"
| "verifyError (Inr _) = None"

definition verify ::
    "PubConfig \<Rightarrow> VerifyPublicationPayload \<Rightarrow> PublicationIntentHeader \<Rightarrow> string \<Rightarrow> operationRecord \<Rightarrow>
     InMemoryPersistence \<Rightarrow> answer \<times> InMemoryPersistence" where
  "verify c v h digest r s =
     (let operation = po_id (ph_operation h) in
      case injectFault c FaultBeforeEvidenceAcceptance operation IntentVerifyPublication [] of
        Some e \<Rightarrow> (refuse (normalizeError e), s)
      | None \<Rightarrow>
      case ensureAuthority c (ph_authority h) IntentVerifyPublication of
        Some e \<Rightarrow> (refuse e, s)
      | None \<Rightarrow>
      case op_candidate r of
        None \<Rightarrow> (refuseCode ErrorInvalidIntent, s)
      | Some cand \<Rightarrow>
      if ph_generation h \<noteq> op_generation r \<or> ph_fence h \<noteq> op_fence r
      then (refuseCode ErrorStaleAuthority, s)
      else if op_state r \<in> {OperationCancelled, OperationRejected, OperationActivated, OperationVerified}
      then (refuseCode ErrorTerminalConflict, s)
      else
      let result = evaluateEvidence c cand h v in
      case injectFault c FaultBeforeVerificationResult operation IntentVerifyPublication [] of
        Some e \<Rightarrow> (refuse (normalizeError e), s)
      | None \<Rightarrow>
      let r' = verifyTransition r result;
          err = verifyError result;
          decision = decisionForRecord r' False (cf_now c 0)
      in (respond c operation IntentVerifyPublication [] (decision, err),
          commitDecision c h IntentVerifyPublication digest r' decision err 1 s))"

end
