(* ===== verification/Pub_Prepare.thy ===== *)
theory Pub_Prepare
  imports Pub_Verify
begin

text \<open>
  \<open>prepare\<close> of \<open>artifactpublication/in_memory.go\<close>: minting the identities of a candidate, its
  manifest and lineage, and the durable operation.

  The minting loops of the code have no bound: \<open>mintLoop\<close>, the loop of both minting functions, is
  partial, and \<open>None\<close> is the run that never returns. \<open>mintLoop_returns\<close> shows that they
  return while an identity is free, and that the identity they return was never used.
\<close>

section \<open>Minting\<close>

definition version_name :: "u64 \<Rightarrow> string" where
  "version_name n = ''artifact-version-'' @ hex16 n"

definition artifact_name :: "u64 \<Rightarrow> string" where
  "artifact_name n = ''artifact-'' @ hex16 n"

definition debt_name :: "u64 \<Rightarrow> string" where
  "debt_name n = ''publication-cleanup-debt-'' @ hex16 n"

lemma minted_names [simp]:
  "version_name m = version_name n \<longleftrightarrow> m = n"
  "artifact_name m = artifact_name n \<longleftrightarrow> m = n"
  "debt_name m = debt_name n \<longleftrightarrow> m = n"
  "version_name n \<noteq> []" "artifact_name n \<noteq> []" "debt_name n \<noteq> []"
  by (simp_all add: version_name_def artifact_name_def debt_name_def)

partial_function (option) mintLoop ::
    "(u64 \<Rightarrow> string) \<Rightarrow> (string \<times> contentFact) list \<Rightarrow> u64 \<Rightarrow> (string \<times> u64) option" where
  "mintLoop name used start =
     (let n = start + 1; i = name n in
      if map_of used i = None then Some (i, n) else mintLoop name used n)"

declare mintLoop.simps [code]

definition mintVersionID :: "InMemoryPersistence \<Rightarrow> (string \<times> InMemoryPersistence) option" where
  "mintVersionID s =
     Option.bind (mintLoop version_name (ps_versions s) (ps_next_version s)) (\<lambda>(i, n).
       Some (i, s\<lparr>ps_next_version := n\<rparr>))"

definition mintArtifactID ::
    "string \<Rightarrow> string \<Rightarrow> InMemoryPersistence \<Rightarrow> (string \<times> InMemoryPersistence) option" where
  "mintArtifactID domain task s =
     Option.bind (mintLoop artifact_name (ps_artifacts s) (ps_next_artifact s)) (\<lambda>(i, n).
       Some (i, s\<lparr>ps_next_artifact := n,
                  ps_artifacts := AList.update i
                    \<lparr>ct_domain = domain, ct_task = task, ct_version = []\<rparr> (ps_artifacts s)\<rparr>))"

section \<open>Bindings of a request\<close>

definition validPrepareBindings :: "PreparePublicationPayload \<Rightarrow> bool" where
  "validPrepareBindings p \<longleftrightarrow>
     list_all (\<lambda>spec.
       (case find_elem (\<lambda>r. sr_slot r = sp_slot spec) (rev (pp_staging p)) of
          None \<Rightarrow> False
        | Some staged \<Rightarrow> sr_digest staged = sp_digest spec \<and> sr_size staged = sp_size spec) \<and>
       (case find_elem (\<lambda>r. cr_slot r = sp_slot spec) (rev (pp_capability_refs p)) of
          None \<Rightarrow> False
        | Some cap \<Rightarrow> cr_id cap \<noteq> [] \<and> validDigest (cr_digest cap))) (pp_members p) \<and>
     distinct (pp_channels p) \<and>
     list_all (\<lambda>r. rr_channel r \<in> set (pp_channels p)) (pp_runtime_refs p)"

section \<open>The candidate\<close>

text \<open>
  The members, in the order of their slots, each with a fresh identity; a name that is not
  acceptable ends the request, with the identities minted so far used up.
\<close>

definition memberOf :: "ArtifactMemberSpec \<Rightarrow> string \<Rightarrow> string \<Rightarrow> memberRecord" where
  "memberOf spec i name =
     \<lparr>mb_slot = sp_slot spec, mb_id = i, mb_kind = sp_kind spec, mb_name = name,
      mb_media = sp_media spec, mb_size = sp_size spec, mb_digest = sp_digest spec\<rparr>"

fun mintMembers ::
    "(string \<Rightarrow> string) \<Rightarrow> string \<Rightarrow> string \<Rightarrow> ArtifactMemberSpec list \<Rightarrow> InMemoryPersistence \<Rightarrow>
     (memberRecord list option \<times> InMemoryPersistence) option" where
  "mintMembers nfc domain task [] s = Some (Some [], s)"
| "mintMembers nfc domain task (spec # specs) s =
     (case normalizedLogicalName nfc (sp_name spec) of
        None \<Rightarrow> Some (None, s)
      | Some name \<Rightarrow>
          Option.bind (mintArtifactID domain task s) (\<lambda>(i, s').
          Option.bind (mintMembers nfc domain task specs s') (\<lambda>(ms, s'').
          Some (map_option (\<lambda>ms. memberOf spec i name # ms) ms, s''))))"

definition stagingOf :: "StagingReference \<Rightarrow> stagingRecord" where
  "stagingOf r =
     \<lparr>st_slot = sr_slot r, st_content = sr_content r, st_digest = sr_digest r, st_size = sr_size r,
      st_purpose = sr_purpose r, st_physical = sr_physical r, st_adapter = sr_adapter r\<rparr>"

definition manifestMember :: "memberRecord \<Rightarrow> ArtifactMember" where
  "manifestMember m =
     \<lparr>am_id = mb_id m, am_kind = mb_kind m, am_name = mb_name m, am_media = mb_media m,
      am_size = mb_size m, am_digest = mb_digest m\<rparr>"

definition lineageOf ::
    "hashing \<Rightarrow> PublicationIntentHeader \<Rightarrow> PreparePublicationPayload \<Rightarrow> string \<Rightarrow> Lineage" where
  "lineageOf hash h p version =
     \<lparr>ln_schema = ph_schema h, ln_version = version, ln_task = ph_task h, ln_kind = pp_kind p,
      ln_parent = pp_parent p, ln_operation = po_id (ph_operation h),
      ln_phase_run = pp_phase_run p, ln_contract = pp_contract p,
      ln_runtime_root = runtimeEvidenceRoot hash (pp_runtime_refs p),
      ln_validation = pp_validation_ref p, ln_c04 = pp_c04_ref p,
      ln_capability_root = contentCapabilityRoot hash (pp_capability_refs p),
      ln_activity = ph_activity h, ln_generation = ph_generation h, ln_fence = ph_fence h,
      ln_epoch = ph_epoch h\<rparr>"

definition manifestOf ::
    "PublicationIntentHeader \<Rightarrow> PreparePublicationPayload \<Rightarrow> string \<Rightarrow> string \<Rightarrow> memberRecord list \<Rightarrow>
     ArtifactManifest" where
  "manifestOf h p version lineage members =
     \<lparr>mf_schema = ph_schema h, mf_version = version, mf_task = ph_task h, mf_kind = pp_kind p,
      mf_parent = pp_parent p, mf_lineage = lineage, mf_members = map manifestMember members\<rparr>"

definition candidateOf ::
    "hashing \<Rightarrow> PublicationIntentHeader \<Rightarrow> PreparePublicationPayload \<Rightarrow> string \<Rightarrow> memberRecord list \<Rightarrow>
     candidateRecord" where
  "candidateOf hash h p version minted =
     (let members = sort_key (\<lambda>m. (mb_slot m, mb_id m)) minted;
          lineage = lineageDigest hash (lineageOf hash h p version);
          manifest = manifestDigest hash (manifestOf h p version lineage members)
      in \<lparr>cd_version = version, cd_schema = ph_schema h, cd_kind = pp_kind p,
          cd_parent = pp_parent p, cd_contract = pp_contract p, cd_phase_run = pp_phase_run p,
          cd_members = members,
          cd_staging = sort_key st_slot (map stagingOf (pp_staging p)),
          cd_runtime_refs = pp_runtime_refs p, cd_validation_ref = pp_validation_ref p,
          cd_c04_ref = pp_c04_ref p, cd_capability_refs = pp_capability_refs p,
          cd_channels = pp_channels p, cd_manifest = manifest, cd_lineage = lineage\<rparr>)"

section \<open>The handler\<close>

definition newOperation ::
    "PublicationIntentHeader \<Rightarrow> string \<Rightarrow> operationScope \<Rightarrow> u64 \<Rightarrow> pub_instant \<Rightarrow> candidateRecord \<Rightarrow>
     operationRecord" where
  "newOperation h digest scope revision at cand =
     \<lparr>op_scope = scope, op_id = po_id (ph_operation h), op_request = digest,
      op_state = OperationPrepared, op_revision = revision, op_generation = ph_generation h,
      op_fence = ph_fence h, op_epoch = ph_epoch h, op_activity = ph_activity h, op_at = at,
      op_candidate = Some cand, op_verification = None, op_evidence = None, op_reject = [],
      op_cancel = [], op_reconcile = [], op_residue = None, op_debt = None, op_conflict = False,
      op_outcomes = []\<rparr>"

text \<open>The checks against the stream that precede the candidate.\<close>

definition prepareRefusal ::
    "InMemoryPersistence \<Rightarrow> PublicationIntentHeader \<Rightarrow> PreparePublicationPayload \<Rightarrow> ErrorCode option" where
  "prepareRefusal s h p =
     (let stream = streamOf s (ph_domain h, ph_task h) in
      if ph_revision h \<noteq> sm_revision stream then Some ErrorStaleAuthority
      else if ph_head h \<noteq> sm_head stream then Some ErrorStaleAuthority
      else if pp_kind p = PublicationKindManualEdit \<and> pp_parent p \<noteq> sm_head stream
      then Some ErrorStaleAuthority
      else if pp_kind p = PublicationKindManualEdit \<and> map_of (ps_versions s) (pp_parent p) = None
      then Some ErrorIntegrityFailure
      else if \<not> validPrepareBindings p then Some ErrorInvalidIntent
      else None)"

definition persistCandidate ::
    "operationRecord \<Rightarrow> PublicationIntentHeader \<Rightarrow> candidateRecord \<Rightarrow> InMemoryPersistence \<Rightarrow>
     InMemoryPersistence" where
  "persistCandidate r h cand s =
     (let task = (ph_domain h, ph_task h) in
      storeOperation r
        (s\<lparr>ps_streams := AList.update task (streamOf s task) (ps_streams s),
          ps_versions := AList.update (cd_version cand)
            \<lparr>ct_domain = ph_domain h, ct_task = ph_task h, ct_version = cd_version cand\<rparr> (ps_versions s),
          ps_index := AList.update (cd_version cand) (op_scope r) (ps_index s)\<rparr>))"

definition prepare ::
    "PubConfig \<Rightarrow> PreparePublicationPayload \<Rightarrow> PublicationIntentHeader \<Rightarrow> string \<Rightarrow> operationScope \<Rightarrow>
     InMemoryPersistence \<Rightarrow> (answer \<times> InMemoryPersistence) option" where
  "prepare c p h digest scope s =
     (let operation = po_id (ph_operation h); hash = cf_hash c in
      case injectFault c FaultBeforeOperationJournal operation IntentPreparePublication [] of
        Some e \<Rightarrow> Some (refuse (normalizeError e), s)
      | None \<Rightarrow>
      case ensureAuthority c (ph_authority h) IntentPreparePublication of
        Some e \<Rightarrow> Some (refuse e, s)
      | None \<Rightarrow>
      case prepareRefusal s h p of
        Some code \<Rightarrow> Some (refuseCode code, s)
      | None \<Rightarrow>
      Option.bind (mintVersionID s) (\<lambda>(version, s1).
      Option.bind (mintMembers (cf_nfc c) (ph_domain h) (ph_task h) (sort_key sp_slot (pp_members p)) s1)
        (\<lambda>(minted, s2).
      case minted of
        None \<Rightarrow> Some (refuseCode ErrorInvalidIntent, s2)
      | Some ms \<Rightarrow>
      let cand = candidateOf hash h p version ms;
          r = newOperation h digest scope (sm_revision (streamOf s (ph_domain h, ph_task h)))
                (cf_now c 0) cand
      in case injectFault c FaultBeforeCandidatePersistence operation IntentPreparePublication version of
        Some e \<Rightarrow> Some (refuse (normalizeError e), s2)
      | None \<Rightarrow>
      let decision = decisionForRecord r False (cf_now c 1)
      in Some (respond c operation IntentPreparePublication version (decision, None),
               commitDecision c h IntentPreparePublication digest r decision None 2
                 (persistCandidate r h cand s2)))))"

section \<open>The minting loops return\<close>

text \<open>
  The loop tries the numbers after a counter in turn: the \<open>n\<close>-th number tried is
  \<open>start + n\<close>, and names of different numbers differ, so among \<open>length used + 1\<close> numbers one is free as long as the counter does not come round.
\<close>

lemma some_number_free:
  fixes start :: u64 and name :: "u64 \<Rightarrow> string"
  assumes inj: "inj name" and room: "length used < 2 ^ 64"
  shows "\<exists>k \<le> length used. map_of used (name (start + of_nat k + 1)) = None"
proof (rule ccontr)
  assume all: "\<not> ?thesis"
  let ?f = "\<lambda>k. name (start + of_nat k + 1)"
  have sub: "?f ` {..length used} \<subseteq> fst ` set used"
    using all by (force simp: map_of_eq_None_iff)
  have "inj_on (of_nat :: nat \<Rightarrow> u64) {..length used}"
  proof (rule inj_onI)
    fix i j :: nat
    assume ij: "i \<in> {..length used}" "j \<in> {..length used}" and eq: "(of_nat i :: u64) = of_nat j"
    from arg_cong [OF eq, of unat] have "i mod 2 ^ 64 = j mod 2 ^ 64"
      by (simp add: unat_of_nat)
    with ij room show "i = j" by simp
  qed
  then have "inj_on ?f {..length used}"
    using injD [OF inj] unfolding inj_on_def by (metis add_left_cancel add_right_cancel)
  then have "card (?f ` {..length used}) = Suc (length used)"
    by (simp add: card_image)
  moreover have "card (?f ` {..length used}) \<le> card (fst ` set used)"
    using sub by (intro card_mono) auto
  moreover have "card (fst ` set used) \<le> length used"
    by (metis card_image_le card_length le_trans List.finite_set)
  ultimately show False by linarith
qed

lemma mintLoop_reaches:
  "map_of used (name (start + of_nat k + 1)) = None \<Longrightarrow>
     \<exists>i n. mintLoop name used start = Some (i, n) \<and> i = name n \<and> map_of used i = None"
proof (induction k arbitrary: start)
  case 0
  then show ?case by (subst mintLoop.simps) (simp add: Let_def)
next
  case (Suc k)
  have "start + of_nat (Suc k) + 1 = start + 1 + of_nat k + 1" by simp
  with Suc.prems Suc.IH [of "start + 1"] show ?case
    by (subst mintLoop.simps) (simp add: Let_def)
qed

lemma mintLoop_returns:
  assumes "inj name" and "length used < 2 ^ 64"
  shows "\<exists>i n. mintLoop name used start = Some (i, n) \<and> i = name n \<and> map_of used i = None"
  using some_number_free [OF assms, of start] mintLoop_reaches by blast

text \<open>What the loop returns, if it returns.\<close>

lemma mintLoop_free:
  assumes "mintLoop name used start = Some r"
  shows "fst r = name (snd r) \<and> map_of used (fst r) = None"
proof (rule mintLoop.raw_induct
    [where P = "\<lambda>name used start r. fst r = name (snd r) \<and> map_of used (fst r) = None", OF _ assms])
  fix f name used start r
  assume IH: "\<And>name used start r. f name used start = Some r \<Longrightarrow>
      fst r = name (snd r) \<and> map_of used (fst r) = None"
    and eq: "(let n = start + 1; i = name n in
      if map_of used i = None then Some (i, n) else f name used n) = Some r"
  show "fst r = name (snd r) \<and> map_of used (fst r) = None"
  proof (cases "map_of used (name (start + 1)) = None")
    case True
    with eq show ?thesis by (auto simp: Let_def)
  next
    case False
    with eq have "f name used (start + 1) = Some r" by (simp add: Let_def)
    then show ?thesis by (rule IH)
  qed
qed

end
