(* ===== verification/Pub_Mutate.thy ===== *)
theory Pub_Mutate
  imports Pub_Prepare
begin

text \<open>
  The other handlers of \<open>artifactpublication\<close> and the seam they enter through:
  \<open>activate\<close> (\<open>activation.go\<close>), \<open>reject\<close>, \<open>cancel\<close>, \<open>reconcile\<close> (\<open>lifecycle.go\<close>), the assembly, release
  and debt flows (\<open>residue_flow.go\<close>), and \<open>Mutate\<close> (\<open>in_memory.go\<close>), which replays a recorded
  outcome or hands the intent to its handler.

  A handler gets the record the code fetched from its map and mutates through the pointer:
  here it answers with the new state, the changed record written back.
\<close>

section \<open>Activation\<close>

definition buildActivationEvidence ::
    "operationRecord \<Rightarrow> PublicationIntentHeader \<Rightarrow> candidateRecord \<Rightarrow> u64 \<Rightarrow> pub_instant \<Rightarrow>
     PublicationEvidence" where
  "buildActivationEvidence r h cand revision now =
     \<lparr>pe_operation = op_id r, pe_request = op_request r, pe_domain = ph_domain h,
      pe_task = ph_task h, pe_phase_run = cd_phase_run cand, pe_version = cd_version cand,
      pe_manifest = cd_manifest cand, pe_lineage = cd_lineage cand, pe_kind = cd_kind cand,
      pe_parent = cd_parent cand, pe_revision = revision, pe_head = cd_version cand,
      pe_activity = ph_activity h, pe_generation = ph_generation h, pe_fence = ph_fence h,
      pe_epoch = ph_epoch h, pe_at = now\<rparr>"

definition activatedOf ::
    "PublicationIntentHeader \<Rightarrow> candidateRecord \<Rightarrow> u64 \<Rightarrow> PublicationEvidence \<Rightarrow> pub_instant \<Rightarrow>
     activatedRecord" where
  "activatedOf h cand revision evidence now =
     \<lparr>av_version = cd_version cand, av_schema = cd_schema cand, av_domain = ph_domain h,
      av_task = ph_task h, av_kind = cd_kind cand, av_parent = cd_parent cand,
      av_contract = cd_contract cand, av_phase_run = cd_phase_run cand,
      av_operation = po_id (ph_operation h), av_revision = revision,
      av_manifest = cd_manifest cand, av_lineage = cd_lineage cand,
      av_members = cd_members cand, av_evidence = evidence, av_at = now\<rparr>"

definition activateRefusal ::
    "InMemoryPersistence \<Rightarrow> PublicationIntentHeader \<Rightarrow> candidateRecord \<Rightarrow> ErrorCode option" where
  "activateRefusal s h cand =
     (let stream = streamOf s (ph_domain h, ph_task h) in
      if ph_revision h \<noteq> sm_revision stream \<or> ph_head h \<noteq> sm_head stream
      then Some ErrorStaleAuthority
      else if cd_kind cand = PublicationKindFirstGeneration \<and> (cd_parent cand \<noteq> [] \<or> ph_head h \<noteq> [])
      then Some ErrorStaleAuthority
      else if cd_kind cand = PublicationKindManualEdit \<and>
              (cd_parent cand = [] \<or> cd_parent cand \<noteq> sm_head stream)
      then Some ErrorStaleAuthority
      else if cd_kind cand = PublicationKindManualEdit \<and>
              map_of (ps_activated s) (cd_parent cand) = None
      then Some ErrorStaleAuthority
      else None)"

definition commitVersion ::
    "activatedRecord \<Rightarrow> InMemoryPersistence \<Rightarrow> InMemoryPersistence" where
  "commitVersion a s =
     s\<lparr>ps_activated := AList.update (av_version a) a (ps_activated s),
       ps_streams := AList.update (av_domain a, av_task a)
         \<lparr>sm_revision = av_revision a, sm_head = av_version a\<rparr> (ps_streams s)\<rparr>"

definition activate ::
    "PubConfig \<Rightarrow> PublicationIntentHeader \<Rightarrow> string \<Rightarrow> operationRecord \<Rightarrow> InMemoryPersistence \<Rightarrow>
     answer \<times> InMemoryPersistence" where
  "activate c h digest r s =
     (let operation = po_id (ph_operation h) in
      case ensureAuthority c (ph_authority h) IntentActivatePublication of
        Some e \<Rightarrow> (refuse e, s)
      | None \<Rightarrow>
      case op_candidate r of
        None \<Rightarrow> (refuseCode ErrorInvalidIntent, s)
      | Some cand \<Rightarrow>
      if ph_generation h \<noteq> op_generation r \<or> ph_fence h \<noteq> op_fence r
      then (refuseCode ErrorStaleAuthority, s)
      else if op_state r \<in> {OperationCancelled, OperationRejected, OperationReconciliationRequired,
                            OperationActivated}
      then (refuseCode ErrorTerminalConflict, s)
      else if op_state r \<noteq> OperationVerified
      then (refuseCode ErrorInvalidIntent, s)
      else
      case activateRefusal s h cand of
        Some code \<Rightarrow> (refuseCode code, s)
      | None \<Rightarrow>
      case injectFault c FaultBeforeActivationCommit operation IntentActivatePublication (cd_version cand) of
        Some e \<Rightarrow> (refuse (normalizeError e), s)
      | None \<Rightarrow>
      let revision = sm_revision (streamOf s (ph_domain h, ph_task h)) + 1;
          evidence = buildActivationEvidence r h cand revision (cf_now c 0);
          s' = commitVersion (activatedOf h cand revision evidence (cf_now c 1)) s;
          r' = r\<lparr>op_revision := revision, op_evidence := Some evidence,
                 op_state := OperationActivated\<rparr>;
          decision = decisionForRecord r' False (cf_now c 2)
      in (respond c operation IntentActivatePublication (cd_version cand) (decision, None),
          commitDecision c h IntentActivatePublication digest r' decision None 3 s'))"

section \<open>Rejection and cancellation\<close>

definition releaseResidue ::
    "PubConfig \<Rightarrow> operationRecord \<Rightarrow> PublicationIntentHeader \<Rightarrow> pub_instant \<Rightarrow> residueRecord option" where
  "releaseResidue c r h now =
     (case op_candidate r of
        None \<Rightarrow> None
      | Some cand \<Rightarrow> Some
          \<lparr>rs_operation = op_id r, rs_domain = ph_domain h, rs_task = ph_task h,
           rs_owner = pa_kind (ph_authority h), rs_generation = op_generation r,
           rs_fence = op_fence r, rs_intent = ''release_staging'', rs_staging = cd_staging cand,
           rs_at = now, rs_expiry = residueExpiry c now, rs_disposition = ResiduePending,
           rs_reconcile = False, rs_attempts = 0, rs_failures = 0, rs_retry_at = 0,
           rs_claim_generation = op_generation r, rs_claim_fence = op_fence r,
           rs_error = ResidueErrorNone, rs_receipt = None, rs_assembly = None, rs_debt = []\<rparr>)"

definition reject ::
    "PubConfig \<Rightarrow> string \<Rightarrow> PublicationIntentHeader \<Rightarrow> string \<Rightarrow> operationRecord \<Rightarrow>
     InMemoryPersistence \<Rightarrow> answer \<times> InMemoryPersistence" where
  "reject c reason h digest r s =
     (let operation = po_id (ph_operation h) in
      case ensureAuthority c (ph_authority h) IntentRejectPublication of
        Some e \<Rightarrow> (refuse e, s)
      | None \<Rightarrow>
      if op_state r \<in> {OperationCancelled, OperationRejected, OperationActivated}
      then (refuseCode ErrorTerminalConflict, s)
      else if ph_generation h \<noteq> op_generation r \<or> ph_fence h \<noteq> op_fence r
      then (refuseCode ErrorStaleAuthority, s)
      else
      let r' = r\<lparr>op_reject := reason, op_state := OperationRejected,
                 op_residue := releaseResidue c r h (cf_now c 0)\<rparr>;
          decision = decisionForRecord r' False (cf_now c 1)
      in (respond c operation IntentRejectPublication [] (decision, None),
          commitDecision c h IntentRejectPublication digest r' decision None 2 s))"

definition cancel ::
    "PubConfig \<Rightarrow> string \<Rightarrow> PublicationIntentHeader \<Rightarrow> string \<Rightarrow> operationRecord \<Rightarrow>
     InMemoryPersistence \<Rightarrow> answer \<times> InMemoryPersistence" where
  "cancel c reason h digest r s =
     (let operation = po_id (ph_operation h); kind = pa_kind (ph_authority h) in
      case ensureAuthority c (ph_authority h) IntentCancelPublication of
        Some e \<Rightarrow> (refuse e, s)
      | None \<Rightarrow>
      if kind = AuthorityRecovery \<and> reason \<noteq> CancelRecovery
      then (refuseCode ErrorInvalidIntent, s)
      else if kind = AuthorityTaskOrchestration \<and> reason \<noteq> CancelTaskOrchestration
      then (refuseCode ErrorInvalidIntent, s)
      else if op_state r \<in> {OperationRejected, OperationCancelled}
      then (refuseCode ErrorTerminalConflict, s)
      else if op_state r = OperationActivated
      then ((decisionForRecord r True (cf_now c 0), None), s)
      else if ph_generation h \<noteq> op_generation r \<or> ph_fence h \<noteq> op_fence r
      then (refuseCode ErrorStaleAuthority, s)
      else
      let r' = r\<lparr>op_cancel := reason, op_state := OperationCancelled,
                 op_residue := releaseResidue c r h (cf_now c 0)\<rparr>;
          decision = decisionForRecord r' False (cf_now c 1)
      in (respond c operation IntentCancelPublication [] (decision, None),
          commitDecision c h IntentCancelPublication digest r' decision None 2 s))"

section \<open>Residue assembly\<close>

definition mintCleanupDebtID :: "InMemoryPersistence \<Rightarrow> string \<times> InMemoryPersistence" where
  "mintCleanupDebtID s =
     (let n = ps_next_debt s + 1 in (debt_name n, s\<lparr>ps_next_debt := n\<rparr>))"

definition newDebt ::
    "operationRecord \<Rightarrow> PublicationIntentHeader \<Rightarrow> AssemblyReference \<Rightarrow> string \<Rightarrow> pub_instant \<Rightarrow>
     cleanupDebtRecord" where
  "newDebt r h a debt now =
     \<lparr>db_id = debt, db_revision = 1, db_domain = ph_domain h, db_task = ph_task h,
      db_operation = po_id (ph_operation h), db_owner = pa_kind (ph_authority h),
      db_resource = ar_reference a, db_identity = ar_identity a, db_generation = ar_generation a,
      db_fence = ar_fence a, db_status = CleanupDebtOpen, db_created = now, db_eligible = now,
      db_first_attempt = 0, db_last_attempt = 0, db_retry_at = 0, db_attempts = 0, db_failures = 0,
      db_claim_generation = op_generation r, db_claim_fence = op_fence r,
      db_retry = CleanupRetryReady, db_error = ResidueErrorNone, db_blockers = 0,
      db_resolved_at = 0, db_class = [], db_reason = [], db_evidence = None, db_audit = [],
      db_approval = [], db_exception_expires = 0\<rparr>"

definition recordResidueAssembly ::
    "PubConfig \<Rightarrow> AssemblyReference \<Rightarrow> PublicationIntentHeader \<Rightarrow> string \<Rightarrow> operationRecord \<Rightarrow>
     InMemoryPersistence \<Rightarrow> answer \<times> InMemoryPersistence" where
  "recordResidueAssembly c a h digest r s =
     (let operation = po_id (ph_operation h); now = cf_now c 0 in
      case ensureAuthority c (ph_authority h) IntentRecordResidueAssembly of
        Some e \<Rightarrow> (refuse e, s)
      | None \<Rightarrow>
      case op_residue r of
        None \<Rightarrow> (refuseCode ErrorInvalidIntent, s)
      | Some residue \<Rightarrow>
      if op_state r \<notin> {OperationRejected, OperationCancelled}
      then (refuseCode ErrorTerminalConflict, s)
      else if ph_generation h \<noteq> op_generation r \<or> ph_fence h \<noteq> op_fence r
      then (refuseCode ErrorStaleAuthority, s)
      else
      case op_debt r of
        Some d \<Rightarrow>
          if db_resource d = ar_reference a \<and> db_identity d = ar_identity a
          then ((decisionForRecord r True now, None), s)
          else (refuseCode ErrorIntegrityConflict, s)
      | None \<Rightarrow>
      let (debt, s') = mintCleanupDebtID s;
          assembly = \<lparr>as_reference = ar_reference a, as_identity = ar_identity a,
                      as_generation = ar_generation a, as_fence = ar_fence a\<rparr>;
          r' = r\<lparr>op_residue := Some (residue\<lparr>rs_assembly := Some assembly, rs_debt := debt\<rparr>),
                 op_debt := Some (newDebt r h a debt now)\<rparr>;
          decision = decisionForRecord r' False now
      in (respond c operation IntentRecordResidueAssembly debt (decision, None),
          commitDecision c h IntentRecordResidueAssembly digest r' decision None 1 s'))"

section \<open>Release\<close>

text \<open>
  The debt of the assembly before an attempt: \<open>None\<close> when it does not name the resource of the
  residue, otherwise the debt, claimed if it was open or due.
\<close>

definition claimDebt ::
    "operationRecord \<Rightarrow> residueRecord \<Rightarrow> cleanupDebtRecord option option" where
  "claimDebt r residue =
     (case op_debt r of
        None \<Rightarrow> Some None
      | Some d \<Rightarrow>
          (case rs_assembly residue of
             None \<Rightarrow> None
           | Some a \<Rightarrow>
               if db_identity d \<noteq> as_identity a \<or> db_generation d \<noteq> as_generation a \<or>
                  db_fence d \<noteq> as_fence a
               then None
               else if db_status d = CleanupDebtOpen \<or> db_status d = CleanupDebtRetryScheduled
               then Some (Some (d\<lparr>db_status := CleanupDebtClaimed, db_retry := CleanupRetryClaimed,
                                  db_claim_generation := op_generation r,
                                  db_claim_fence := op_fence r, db_revision := db_revision d + 1\<rparr>))
               else Some (Some d)))"

definition attemptRelease ::
    "operationRecord \<Rightarrow> residueRecord \<Rightarrow> cleanupDebtRecord option \<Rightarrow> ResidueErrorCategory \<Rightarrow>
     pub_instant \<Rightarrow> operationRecord" where
  "attemptRelease r residue debt category now =
     r\<lparr>op_residue := Some (recordResidueAttempt residue category now),
       op_debt := map_option
         (\<lambda>d. let d' = recordDebtAttempt d category now in d'\<lparr>db_revision := db_revision d' + 1\<rparr>) debt\<rparr>"

text \<open>A valid receipt: what it proves about the residue, and the attempt on the debt.\<close>

definition receiptOnDebt ::
    "cleanupDebtRecord \<Rightarrow> ReleaseReceipt \<Rightarrow> pub_instant \<Rightarrow> cleanupDebtRecord" where
  "receiptOnDebt d receipt now =
     (if residueClosedByEvidence (applyReleaseReceipt (rc_outcome receipt)) then
        let d' = recordDebtAttempt d ResidueErrorNone now
        in d'\<lparr>db_blockers := 0, db_revision := db_revision d' + 1\<rparr>
      else
        let d' = (recordDebtAttempt d ResidueErrorUnavailable now)\<lparr>db_blockers := rc_blockers receipt\<rparr>;
            d'' = (if rc_outcome receipt = ReleaseOutcomeBlocked
                   then d'\<lparr>db_status := CleanupDebtBlocked, db_retry := CleanupRetryBlocked,
                           db_retry_at := 0\<rparr>
                   else d')
        in d''\<lparr>db_revision := db_revision d'' + 1\<rparr>)"

definition receiptOnResidue ::
    "residueRecord \<Rightarrow> ReleaseReceipt \<Rightarrow> pub_instant \<Rightarrow> residueRecord" where
  "receiptOnResidue residue receipt now =
     (let disposition = applyReleaseReceipt (rc_outcome receipt);
          received = residue\<lparr>rs_receipt := Some receipt, rs_disposition := disposition\<rparr>
      in if residueClosedByEvidence disposition
         then recordResidueAttempt (received\<lparr>rs_reconcile := False\<rparr>) ResidueErrorNone now
         else recordResidueAttempt
                (received\<lparr>rs_reconcile := (rc_outcome receipt = ReleaseOutcomeAmbiguous)\<rparr>)
                ResidueErrorUnavailable now)"

definition respondRelease ::
    "PubConfig \<Rightarrow> string \<Rightarrow> bool \<Rightarrow> answer \<Rightarrow> answer" where
  "respondRelease c operation reconciling a =
     respond c operation (if reconciling then IntentReconcilePublication else IntentReleaseResidue)
       operation a"

definition runRelease ::
    "PubConfig \<Rightarrow> PublicationIntentHeader \<Rightarrow> operationRecord \<Rightarrow> string \<Rightarrow> bool \<Rightarrow>
     answer \<times> operationRecord" where
  "runRelease c h r operation reconciling =
     (case op_residue r of
        None \<Rightarrow> (refuseCode ErrorInvalidIntent, r)
      | Some residue \<Rightarrow>
      if op_state r \<notin> {OperationRejected, OperationCancelled}
      then (refuseCode ErrorTerminalConflict, r)
      else if ph_generation h \<noteq> op_generation r \<or> ph_fence h \<noteq> op_fence r
      then (refuseCode ErrorStaleAuthority, r)
      else if residueClosedByEvidence (rs_disposition residue)
      then ((decisionForRecord r True (cf_now c 0), None), r)
      else
      let now = cf_now c 0;
          residue1 = (if rs_expiry residue \<noteq> 0 \<and> rs_expiry residue < now
                      then residue\<lparr>rs_disposition := ResidueExpired\<rparr> else residue) in
      case claimDebt r residue1 of
        None \<Rightarrow> (refuseCode ErrorIntegrityFailure, r\<lparr>op_residue := Some residue1\<rparr>)
      | Some debt \<Rightarrow>
      let residue2 = residue1\<lparr>rs_disposition := ResidueReleaseRequested\<rparr> in
      case cf_release c of
        None \<Rightarrow>
          let r' = attemptRelease r (residue2\<lparr>rs_reconcile := True\<rparr>) debt ResidueErrorUnavailable now
          in ((decisionForRecord r' False now, Some (coded ErrorReconciliationRequired)), r')
      | Some port \<Rightarrow>
      (case port (rs_staging residue2) (ph_epoch h) of
        Inl e \<Rightarrow>
          let err = normalizeError e;
              r' = attemptRelease r residue2 debt (releaseErrorCategory err) now
          in ((decisionForRecord r' False now, Some err), r')
      | Inr (receipt, resolved) \<Rightarrow>
          if \<not> resolved then
            let r' = attemptRelease r (residue2\<lparr>rs_reconcile := True\<rparr>) debt ResidueErrorUnavailable now
            in (respondRelease c operation reconciling
                  (decisionForRecord r' False now, Some (coded ErrorReconciliationRequired)), r')
          else if \<not> validateReleaseReceipt (cf_hash c) receipt (cf_durable c)
          then (refuseCode ErrorIntegrityConflict, r\<lparr>op_residue := Some residue2, op_debt := debt\<rparr>)
          else
            let r' = r\<lparr>op_residue := Some (receiptOnResidue residue2 receipt now),
                       op_debt := map_option (\<lambda>d. receiptOnDebt d receipt now) debt\<rparr>
            in (respondRelease c operation reconciling (decisionForRecord r' False now, None), r')))"

definition releaseResidueFlow ::
    "PubConfig \<Rightarrow> PublicationIntentHeader \<Rightarrow> string \<Rightarrow> operationRecord \<Rightarrow> InMemoryPersistence \<Rightarrow>
     answer \<times> InMemoryPersistence" where
  "releaseResidueFlow c h digest r s =
     (case ensureAuthority c (ph_authority h) IntentReleaseResidue of
        Some e \<Rightarrow> (refuse e, s)
      | None \<Rightarrow>
      let (a, r') = runRelease c h r (po_id (ph_operation h)) False
      in (a, auditRecord c h IntentReleaseResidue r' (cf_now c 1) (cf_now c 2) (storeOperation r' s)))"

section \<open>Resolution of a debt\<close>

text \<open>The closing facts by class; \<open>None\<close> when the evidence does not prove the closure.\<close>

definition resolution ::
    "PubConfig \<Rightarrow> ResolveCleanupDebtPayload \<Rightarrow> cleanupDebtRecord \<Rightarrow> PubError + cleanupDebtRecord" where
  "resolution c p d =
     (if evidenceResolution (rp_class p) then
        (case rp_evidence p of
           None \<Rightarrow> Inl (coded ErrorIntegrityFailure)
         | Some e \<Rightarrow>
             if validateCleanupResolutionEvidence (cf_hash c) e (cf_durable c) d
             then Inr (d\<lparr>db_class := rp_class p, db_reason := resolutionReasonForClass (rp_class p),
                         db_evidence := Some e\<rparr>)
             else Inl (coded ErrorIntegrityFailure))
      else if rp_class p = CleanupResolutionAcceptedException
      then Inr (d\<lparr>db_class := CleanupResolutionAcceptedException,
                  db_reason := ''administrator_exception'', db_approval := rp_approval p,
                  db_exception_expires := rp_expires p\<rparr>)
      else Inl (coded ErrorInvalidIntent))"

definition mintAuditFactID :: "InMemoryPersistence \<Rightarrow> string \<times> InMemoryPersistence" where
  "mintAuditFactID s =
     (let n = ps_next_audit s + 1 in (''audit-'' @ hex16 n, s\<lparr>ps_next_audit := n\<rparr>))"

definition resolveCleanupDebt ::
    "PubConfig \<Rightarrow> ResolveCleanupDebtPayload \<Rightarrow> PublicationIntentHeader \<Rightarrow> string \<Rightarrow> operationRecord \<Rightarrow>
     InMemoryPersistence \<Rightarrow> answer \<times> InMemoryPersistence" where
  "resolveCleanupDebt c p h digest r s =
     (let operation = po_id (ph_operation h); now = cf_now c 0 in
      case ensureAuthority c (ph_authority h) IntentResolveCleanupDebt of
        Some e \<Rightarrow> (refuse e, s)
      | None \<Rightarrow>
      case op_debt r of
        None \<Rightarrow> (refuseCode ErrorNotFound, s)
      | Some d \<Rightarrow>
      if db_status d = CleanupDebtResolved
      then (refuseCode ErrorTerminalConflict, s)
      else if ph_generation h \<noteq> op_generation r \<or> ph_fence h \<noteq> op_fence r
      then (refuseCode ErrorStaleAuthority, s)
      else if db_claim_generation d \<noteq> 0 \<and>
              (ph_generation h \<noteq> db_claim_generation d \<or> ph_fence h \<noteq> db_claim_fence d)
      then (refuseCode ErrorStaleAuthority, s)
      else
      case resolution c p d of
        Inl e \<Rightarrow> (refuse e, s)
      | Inr closed \<Rightarrow>
      let (audit, s') = mintAuditFactID s;
          d' = closed\<lparr>db_resolved_at := now, db_status := CleanupDebtResolved,
                      db_retry := CleanupRetryNone, db_blockers := 0, db_audit := audit,
                      db_revision := db_revision closed + 1\<rparr>;
          r' = r\<lparr>op_debt := Some d'\<rparr>;
          decision = decisionForRecord r' False now
      in (respond c operation IntentResolveCleanupDebt (db_id d') (decision, None),
          commitDecision c h IntentResolveCleanupDebt digest r' decision None 1 s'))"

section \<open>Reconciliation\<close>

text \<open>
  The recorded capabilities against the registry now. The slots left pending by the evaluation
  are never recorded, so all pinned capabilities are looked up again.
\<close>

definition zeroCapabilityRef :: ContentCapabilityRef where
  "zeroCapabilityRef = \<lparr>cr_slot = [], cr_id = [], cr_digest = []\<rparr>"

definition refBySlot :: "candidateRecord \<Rightarrow> string \<Rightarrow> ContentCapabilityRef" where
  "refBySlot cand slot =
     (case find_elem (\<lambda>r. cr_slot r = slot) (rev (cd_capability_refs cand)) of
        None \<Rightarrow> zeroCapabilityRef | Some r \<Rightarrow> r)"

fun resolvePending ::
    "PubConfig \<Rightarrow> candidateRecord \<Rightarrow> string list \<Rightarrow> EvidenceFailure + bool" where
  "resolvePending c cand [] = Inr True"
| "resolvePending c cand (slot # slots) =
     (let ref = refBySlot cand slot in
      case currentContentCapability c (cr_id ref) of
        None \<Rightarrow> Inr False
      | Some current \<Rightarrow>
          if cc_digest current \<noteq> cr_digest ref
          then Inl (capabilityFailure ''capability_stale'' (cr_id ref))
          else resolvePending c cand slots)"

definition completeVerification ::
    "PubConfig \<Rightarrow> operationRecord \<Rightarrow> verificationRecord \<Rightarrow> EvidenceFailure + bool" where
  "completeVerification c r v =
     (case op_candidate r of
        None \<Rightarrow> Inl (evidenceFailure ''candidate_missing'' [])
      | Some cand \<Rightarrow>
          resolvePending c cand
            (if vf_pending v = [] then map cr_slot (cd_capability_refs cand) else vf_pending v))"

definition completedVerification :: "PubConfig \<Rightarrow> operationRecord \<Rightarrow> operationRecord" where
  "completedVerification c r =
     (case op_verification r of
        None \<Rightarrow> r
      | Some v \<Rightarrow>
          if op_state r \<noteq> OperationReconciliationRequired then r
          else (case completeVerification c r v of
                  Inl failure \<Rightarrow>
                    r\<lparr>op_verification := Some (v\<lparr>vf_failure := Some failure, vf_state := VerificationFailed\<rparr>),
                      op_state := OperationPrepared\<rparr>
                | Inr True \<Rightarrow>
                    r\<lparr>op_verification := Some (v\<lparr>vf_state := VerificationVerified\<rparr>),
                      op_state := OperationVerified\<rparr>
                | Inr False \<Rightarrow>
                    r\<lparr>op_verification := Some (v\<lparr>vf_state := VerificationAmbiguous\<rparr>),
                      op_state := OperationReconciliationRequired\<rparr>))"

definition reconciled ::
    "PubConfig \<Rightarrow> PublicationIntentHeader \<Rightarrow> string \<Rightarrow> string \<Rightarrow> operationRecord \<Rightarrow>
     InMemoryPersistence \<Rightarrow> answer \<times> InMemoryPersistence" where
  "reconciled c h digest mode r s =
     (let r' = r\<lparr>op_reconcile := mode\<rparr>; decision = decisionForRecord r' False (cf_now c 0)
      in ((decision, None), commitDecision c h IntentReconcilePublication digest r' decision None 1 s))"

definition reconcilePublication ::
    "PubConfig \<Rightarrow> string \<Rightarrow> PublicationIntentHeader \<Rightarrow> string \<Rightarrow> operationRecord \<Rightarrow>
     InMemoryPersistence \<Rightarrow> answer \<times> InMemoryPersistence" where
  "reconcilePublication c mode h digest r s =
     (case ensureReconcileAuthority c (ph_authority h) mode of
        Some e \<Rightarrow> (refuse e, s)
      | None \<Rightarrow>
      if mode = ReconcileInspect then reconciled c h digest mode r s
      else if mode = ReconcileCompleteRelease then
        let ((decision, err), r') =
              runRelease c h (r\<lparr>op_reconcile := ReconcileCompleteRelease\<rparr>) (op_id r) True
        in ((decision, err),
            commitDecision c h IntentReconcilePublication digest r' decision
              (map_option (\<lambda>e. newError (err_code e)) err) 1 s)
      else if mode = ReconcileCompleteVerification
      then reconciled c h digest mode (completedVerification c r) s
      else if mode = ReconcileConfirmCancellation then
        if op_state r \<noteq> OperationCancelled then (refuseCode ErrorTerminalConflict, s)
        else reconciled c h digest mode r s
      else if mode = ReconcileConfirmRejection then
        if op_state r \<noteq> OperationRejected then (refuseCode ErrorTerminalConflict, s)
        else reconciled c h digest mode r s
      else (refuseCode ErrorInvalidIntent, s))"

section \<open>The seam\<close>

fun continueOperation ::
    "PubConfig \<Rightarrow> PublicationIntent \<Rightarrow> string \<Rightarrow> operationRecord \<Rightarrow> InMemoryPersistence \<Rightarrow>
     answer \<times> InMemoryPersistence" where
  "continueOperation c (VerifyPublication h v) digest r s = verify c v h digest r s"
| "continueOperation c (ActivatePublication h) digest r s = activate c h digest r s"
| "continueOperation c (RejectPublication h reason failure) digest r s = reject c reason h digest r s"
| "continueOperation c (CancelPublication h reason) digest r s = cancel c reason h digest r s"
| "continueOperation c (ReconcilePublication h mode) digest r s =
     reconcilePublication c mode h digest r s"
| "continueOperation c (RecordResidueAssembly h a) digest r s = recordResidueAssembly c a h digest r s"
| "continueOperation c (ReleaseResidue h) digest r s = releaseResidueFlow c h digest r s"
| "continueOperation c (ResolveCleanupDebt h p) digest r s = resolveCleanupDebt c p h digest r s"
| "continueOperation c (PreparePublication h p) digest r s = (refuseCode ErrorInvalidIntent, s)"

definition scopeOf :: "PublicationIntentHeader \<Rightarrow> operationScope" where
  "scopeOf h = (ph_domain h, ph_task h, po_id (ph_operation h))"

definition intentRefusal :: "PubConfig \<Rightarrow> PublicationIntent \<Rightarrow> ErrorCode option" where
  "intentRefusal c i =
     (let h = intentHeader i in
      if schemaMajor (ph_schema h) \<noteq> schemaMajor PubSchemaV1 then Some ErrorUnsupportedSchema
      else if \<not> validIntent (cf_nfc c) i then Some ErrorInvalidIntent
      else if po_digest (ph_operation h) \<noteq> CanonicalRequestDigest (cf_hash c) i
      then Some ErrorInvalidIntent
      else None)"

definition mutateRecord ::
    "PubConfig \<Rightarrow> PublicationIntent \<Rightarrow> string \<Rightarrow> operationRecord \<Rightarrow> InMemoryPersistence \<Rightarrow>
     answer \<times> InMemoryPersistence" where
  "mutateRecord c i digest r s =
     (let kind = intentKind i in
      if kind = IntentReconcilePublication \<or> kind = IntentReleaseResidue
      then continueOperation c i digest r s
      else case outcomesOf r kind of
        Some byKind \<Rightarrow>
          (case map_of byKind digest of
             Some out \<Rightarrow> (replayOutcome out, s)
           | None \<Rightarrow> (refuseCode ErrorIntegrityConflict, storeOperation (r\<lparr>op_conflict := True\<rparr>) s))
      | None \<Rightarrow>
          if kind = IntentPreparePublication
          then (refuseCode ErrorIntegrityConflict, storeOperation (r\<lparr>op_conflict := True\<rparr>) s)
          else continueOperation c i digest r s)"

definition Mutate ::
    "PubConfig \<Rightarrow> PublicationIntent option \<Rightarrow> InMemoryPersistence \<Rightarrow>
     (answer \<times> InMemoryPersistence) option" where
  "Mutate c intent s =
     (case intent of
        None \<Rightarrow> Some (refuseCode ErrorInvalidIntent, s)
      | Some i \<Rightarrow>
      case intentRefusal c i of
        Some code \<Rightarrow> Some (refuseCode code, s)
      | None \<Rightarrow>
      let digest = CanonicalRequestDigest (cf_hash c) i; scope = scopeOf (intentHeader i) in
      case map_of (ps_operations s) scope of
        Some r \<Rightarrow> Some (mutateRecord c i digest r s)
      | None \<Rightarrow>
          (case i of
             PreparePublication h p \<Rightarrow> prepare c p h digest scope s
           | _ \<Rightarrow> Some (refuseCode ErrorNotFound, s)))"

end
