(* ===== verification/Pub_Query.thy ===== *)
theory Pub_Query
  imports Pub_Mutate
begin

text \<open>
  The read side: \<open>artifactpublication/query.go\<close>, \<open>content_target.go\<close> and the history of
  \<open>activation.go\<close>. A query takes the persistence and answers a view or an error; it never
  returns a persistence, so it cannot change one.

  The twelve kinds of query share one struct in the code and read only some of its fields;
  \<open>PublicationQuery\<close> is that struct. Reads of the whole map of operations by a debt identity
  go through the map in some order; identities are unique, so the first hit is the only one.
\<close>

section \<open>Content targets and capabilities\<close>

definition ContentScopeOwner :: string where "ContentScopeOwner = ''owner''"
definition ContentScopeShareLink :: string where "ContentScopeShareLink = ''share_link''"
definition ContentScopeBreakGlass :: string where "ContentScopeBreakGlass = ''break_glass''"

definition validContentScopeKind :: "string \<Rightarrow> bool" where
  "validContentScopeKind k \<longleftrightarrow>
     k = ContentScopeOwner \<or> k = ContentScopeShareLink \<or> k = ContentScopeBreakGlass"

definition validContentScope :: "ContentScope \<Rightarrow> bool" where
  "validContentScope x \<longleftrightarrow> validContentScopeKind (cs_kind x) \<and> cs_id x \<noteq> [] \<and> cs_generation x \<noteq> 0"

definition validContentIntent :: "string \<Rightarrow> bool" where
  "validContentIntent i \<longleftrightarrow> i = ''download'' \<or> i = ''share_link_delivery''"

definition ContentDispositionAttachment :: string where
  "ContentDispositionAttachment = ''attachment''"
definition ContentDispositionActive :: string where
  "ContentDispositionActive = ''active''"

definition validContentDisposition :: "string \<Rightarrow> bool" where
  "validContentDisposition d \<longleftrightarrow> d = ContentDispositionAttachment \<or> d = ContentDispositionActive"

definition dispositionForMediaType :: "string \<Rightarrow> string" where
  "dispositionForMediaType media =
     (if media = MediaTypeHTML \<or> media = MediaTypeSVG then ContentDispositionActive
      else ContentDispositionAttachment)"

record ArtifactContentTarget =
  tg_schema :: u32
  tg_domain :: string
  tg_task :: string
  tg_version :: string
  tg_artifact :: string
  tg_manifest :: string
  tg_member :: string
  tg_size :: u64
  tg_media :: string
  tg_name :: string
  tg_disposition :: string
  tg_generation :: u64
  tg_intent :: string
  tg_scope_kind :: string
  tg_at :: pub_instant
  tg_digest :: string

definition targetDigest :: "hashing \<Rightarrow> ArtifactContentTarget \<Rightarrow> string" where
  "targetDigest h t = canonicalDigest h (jobj
     [(''schema_version'', jword (tg_schema t)), (''policy_domain_id'', JStr (tg_domain t)),
      (''task_id'', JStr (tg_task t)), (''artifact_version_id'', JStr (tg_version t)),
      (''artifact_id'', JStr (tg_artifact t)), (''manifest_digest'', JStr (tg_manifest t)),
      (''member_digest'', JStr (tg_member t)), (''size'', jword (tg_size t)),
      (''media_type'', JStr (tg_media t)), (''logical_name'', JStr (tg_name t)),
      (''disposition'', JStr (tg_disposition t)),
      (''availability_generation'', jword (tg_generation t)), (''intent'', JStr (tg_intent t)),
      (''scope_kind'', JStr (tg_scope_kind t))])"

record C04ReconstructionCapability =
  rcap_schema :: u32
  rcap_authority :: string
  rcap_domain :: string
  rcap_task :: string
  rcap_version :: string
  rcap_manifest :: string
  rcap_generation :: u64
  rcap_expires :: pub_instant
  rcap_at :: pub_instant
  rcap_digest :: string

definition reconstructionDigest :: "hashing \<Rightarrow> C04ReconstructionCapability \<Rightarrow> string" where
  "reconstructionDigest h r = canonicalDigest h (jobj
     [(''schema_version'', jword (rcap_schema r)),
      (''publication_authority_id'', JStr (rcap_authority r)),
      (''policy_domain_id'', JStr (rcap_domain r)), (''task_id'', JStr (rcap_task r)),
      (''artifact_version_id'', JStr (rcap_version r)), (''manifest_digest'', JStr (rcap_manifest r)),
      (''availability_generation'', jword (rcap_generation r)),
      (''expires_at'', JNum (rcap_expires r))])"

section \<open>Queries and views\<close>

record PublicationQuery =
  qy_kind :: string
  qy_domain :: string
  qy_task :: string
  qy_operation :: string
  qy_version :: string
  qy_artifact :: string
  qy_scope :: ContentScope
  qy_intent :: string
  qy_expires :: pub_instant
  qy_authority :: PublicationAuthority
  qy_target :: "ArtifactContentTarget option"
  qy_capability :: "C04ReconstructionCapability option"
  qy_debt :: string

record ArtifactVersionView =
  vv_version :: string
  vv_kind :: string
  vv_parent :: string
  vv_manifest :: string
  vv_lineage :: string
  vv_revision :: u64
  vv_operation :: string
  vv_contract :: string
  vv_members :: "ArtifactMember list"

text \<open>
  \<open>ArtifactMemberView\<close> has the fields of \<open>ArtifactMember\<close>. The views of a residue and of a
  debt repeat the fields of their records; the reference and identity of an assembly are the
  empty strings when there is none.
\<close>

record ResidueView =
  rv_operation :: string
  rv_domain :: string
  rv_task :: string
  rv_owner :: string
  rv_generation :: u64
  rv_fence :: u64
  rv_intent :: string
  rv_staging :: "stagingRecord list"
  rv_at :: pub_instant
  rv_expiry :: pub_instant
  rv_disposition :: ResidueDisposition
  rv_reconcile :: bool
  rv_attempts :: u64
  rv_failures :: u64
  rv_retry_at :: pub_instant
  rv_claim_generation :: u64
  rv_claim_fence :: u64
  rv_error :: ResidueErrorCategory
  rv_receipt :: "ReleaseReceipt option"
  rv_assembly :: string
  rv_identity :: string
  rv_debt :: string

record CleanupDebtView =
  dv_id :: string
  dv_revision :: u64
  dv_operation :: string
  dv_domain :: string
  dv_task :: string
  dv_owner :: string
  dv_resource :: string
  dv_identity :: string
  dv_generation :: u64
  dv_fence :: u64
  dv_status :: CleanupDebtStatus
  dv_created :: pub_instant
  dv_eligible :: pub_instant
  dv_first_attempt :: pub_instant
  dv_last_attempt :: pub_instant
  dv_retry_at :: pub_instant
  dv_attempts :: u64
  dv_failures :: u64
  dv_claim_generation :: u64
  dv_claim_fence :: u64
  dv_retry :: CleanupRetryDisposition
  dv_error :: ResidueErrorCategory
  dv_blockers :: u16
  dv_resolved_at :: pub_instant
  dv_class :: string
  dv_reason :: string
  dv_evidence :: "CleanupResolutionEvidence option"
  dv_audit :: string
  dv_exception_expires :: pub_instant

record PublicationView =
  pv_kind :: string
  pv_domain :: string
  pv_task :: string
  pv_operation :: string
  pv_state :: "PublicationOperationState option"
  pv_revision :: u64
  pv_version :: string
  pv_manifest :: string
  pv_lineage :: string
  pv_publication_kind :: string
  pv_parent :: string
  pv_contract :: string
  pv_artifact :: string
  pv_member :: "ArtifactMember option"
  pv_members :: "ArtifactMember list"
  pv_history :: "ArtifactVersionView list"
  pv_verification :: "VerificationResult option"
  pv_evidence :: "PublicationEvidence option"
  pv_residue_release :: bool
  pv_head :: string
  pv_residue :: "ResidueView option"
  pv_debt :: "CleanupDebtView option"
  pv_target :: "ArtifactContentTarget option"
  pv_capability :: "C04ReconstructionCapability option"
  pv_at :: pub_instant

text \<open>A view with nothing but what every kind sets.\<close>

definition baseView :: "string \<Rightarrow> string \<Rightarrow> string \<Rightarrow> PublicationView" where
  "baseView kind domain task =
     \<lparr>pv_kind = kind, pv_domain = domain, pv_task = task, pv_operation = [], pv_state = None,
      pv_revision = 0, pv_version = [], pv_manifest = [], pv_lineage = [],
      pv_publication_kind = [], pv_parent = [], pv_contract = [], pv_artifact = [],
      pv_member = None, pv_members = [], pv_history = [], pv_verification = None,
      pv_evidence = None, pv_residue_release = False, pv_head = [], pv_residue = None,
      pv_debt = None, pv_target = None, pv_capability = None, pv_at = 0\<rparr>"

type_synonym view_result = "PubError + PublicationView"

definition failQuery :: "ErrorCode \<Rightarrow> view_result" where
  "failQuery code = Inl (coded code)"

section \<open>Operations, candidates, streams\<close>

definition residueView :: "residueRecord \<Rightarrow> ResidueView" where
  "residueView r =
     \<lparr>rv_operation = rs_operation r, rv_domain = rs_domain r, rv_task = rs_task r,
      rv_owner = rs_owner r, rv_generation = rs_generation r, rv_fence = rs_fence r,
      rv_intent = rs_intent r, rv_staging = rs_staging r, rv_at = rs_at r,
      rv_expiry = rs_expiry r, rv_disposition = rs_disposition r, rv_reconcile = rs_reconcile r,
      rv_attempts = rs_attempts r, rv_failures = rs_failures r, rv_retry_at = rs_retry_at r,
      rv_claim_generation = rs_claim_generation r, rv_claim_fence = rs_claim_fence r,
      rv_error = rs_error r, rv_receipt = rs_receipt r,
      rv_assembly = (case rs_assembly r of None \<Rightarrow> [] | Some a \<Rightarrow> as_reference a),
      rv_identity = (case rs_assembly r of None \<Rightarrow> [] | Some a \<Rightarrow> as_identity a),
      rv_debt = rs_debt r\<rparr>"

definition debtView :: "cleanupDebtRecord \<Rightarrow> CleanupDebtView" where
  "debtView d =
     \<lparr>dv_id = db_id d, dv_revision = db_revision d, dv_operation = db_operation d,
      dv_domain = db_domain d, dv_task = db_task d, dv_owner = db_owner d,
      dv_resource = db_resource d, dv_identity = db_identity d, dv_generation = db_generation d,
      dv_fence = db_fence d, dv_status = db_status d, dv_created = db_created d,
      dv_eligible = db_eligible d, dv_first_attempt = db_first_attempt d,
      dv_last_attempt = db_last_attempt d, dv_retry_at = db_retry_at d,
      dv_attempts = db_attempts d, dv_failures = db_failures d,
      dv_claim_generation = db_claim_generation d, dv_claim_fence = db_claim_fence d,
      dv_retry = db_retry d, dv_error = db_error d, dv_blockers = db_blockers d,
      dv_resolved_at = db_resolved_at d, dv_class = db_class d, dv_reason = db_reason d,
      dv_evidence = db_evidence d, dv_audit = db_audit d,
      dv_exception_expires = db_exception_expires d\<rparr>"

definition effectiveDisposition :: "residueRecord \<Rightarrow> pub_instant \<Rightarrow> ResidueView \<Rightarrow> ResidueView" where
  "effectiveDisposition r now view =
     (if rs_expiry r \<noteq> 0 \<and> rs_expiry r < now \<and> \<not> residueClosedByEvidence (rs_disposition r)
      then view\<lparr>rv_disposition := ResidueExpired\<rparr> else view)"

definition queryScope :: "PublicationQuery \<Rightarrow> operationScope" where
  "queryScope q = (qy_domain q, qy_task q, qy_operation q)"

definition queryResidue :: "PubConfig \<Rightarrow> InMemoryPersistence \<Rightarrow> PublicationQuery \<Rightarrow> view_result" where
  "queryResidue c s q =
     (case map_of (ps_operations s) (queryScope q) of
        None \<Rightarrow> failQuery ErrorNotFound
      | Some r \<Rightarrow>
          (case op_residue r of
             None \<Rightarrow> failQuery ErrorNotFound
           | Some residue \<Rightarrow>
               Inr ((baseView ''residue'' (qy_domain q) (qy_task q))
                 \<lparr>pv_operation := op_id r, pv_state := Some (op_state r), pv_at := op_at r,
                  pv_residue := Some (effectiveDisposition residue (cf_now c 0) (residueView residue))\<rparr>)))"

definition debtAnswer :: "PublicationQuery \<Rightarrow> operationRecord \<Rightarrow> cleanupDebtRecord \<Rightarrow> view_result" where
  "debtAnswer q r d =
     Inr ((baseView ''cleanup_debt'' (qy_domain q) (qy_task q))
       \<lparr>pv_operation := op_id r, pv_state := Some (op_state r), pv_at := op_at r,
        pv_debt := Some (debtView d)\<rparr>)"

definition has_debt :: "string \<Rightarrow> operationRecord \<Rightarrow> bool" where
  "has_debt i r = (case op_debt r of None \<Rightarrow> False | Some d \<Rightarrow> db_id d = i)"

definition queryCleanupDebt :: "InMemoryPersistence \<Rightarrow> PublicationQuery \<Rightarrow> view_result" where
  "queryCleanupDebt s q =
     (if qy_debt q = [] \<and> qy_operation q = [] then failQuery ErrorInvalidIntent
      else if qy_debt q \<noteq> [] then
        (case find_elem (\<lambda>(scope, r). has_debt (qy_debt q) r) (ps_operations s) of
           None \<Rightarrow> failQuery ErrorNotFound
         | Some (scope, r) \<Rightarrow>
             if fst scope \<noteq> qy_domain q \<or> fst (snd scope) \<noteq> qy_task q then failQuery ErrorNotFound
             else debtAnswer q r (the (op_debt r)))
      else
        (case map_of (ps_operations s) (queryScope q) of
           None \<Rightarrow> failQuery ErrorNotFound
         | Some r \<Rightarrow>
             (case op_debt r of None \<Rightarrow> failQuery ErrorNotFound | Some d \<Rightarrow> debtAnswer q r d)))"

text \<open>The facts of the candidate, as both operation and candidate queries show them.\<close>

definition candidateView :: "operationRecord \<Rightarrow> PublicationView \<Rightarrow> PublicationView" where
  "candidateView r view =
     (case op_candidate r of
        None \<Rightarrow> view
      | Some cand \<Rightarrow>
          view\<lparr>pv_version := cd_version cand, pv_manifest := cd_manifest cand,
               pv_lineage := cd_lineage cand, pv_publication_kind := cd_kind cand,
               pv_parent := cd_parent cand, pv_contract := cd_contract cand,
               pv_members := map manifestMember (cd_members cand)\<rparr>)"

definition operationView :: "string \<Rightarrow> PublicationQuery \<Rightarrow> operationRecord \<Rightarrow> PublicationView" where
  "operationView kind q r =
     (candidateView r ((baseView kind (qy_domain q) (qy_task q))
       \<lparr>pv_operation := op_id r, pv_state := Some (op_state r), pv_revision := op_revision r,
        pv_at := op_at r, pv_residue_release := (op_residue r \<noteq> None)\<rparr>))
     \<lparr>pv_verification := verificationResult r\<rparr>"

definition queryOperation :: "InMemoryPersistence \<Rightarrow> PublicationQuery \<Rightarrow> view_result" where
  "queryOperation s q =
     (case map_of (ps_operations s) (queryScope q) of
        None \<Rightarrow> failQuery ErrorNotFound
      | Some r \<Rightarrow> Inr ((operationView ''operation'' q r)\<lparr>pv_evidence := op_evidence r\<rparr>))"

definition queryCandidate :: "InMemoryPersistence \<Rightarrow> PublicationQuery \<Rightarrow> view_result" where
  "queryCandidate s q =
     (case map_of (ps_index s) (qy_version q) of
        None \<Rightarrow> failQuery ErrorNotFound
      | Some scope \<Rightarrow>
          if fst scope \<noteq> qy_domain q \<or> fst (snd scope) \<noteq> qy_task q then failQuery ErrorNotFound
          else (case map_of (ps_operations s) scope of
                  None \<Rightarrow> failQuery ErrorNotFound
                | Some r \<Rightarrow>
                    if op_state r \<noteq> OperationVerified then failQuery ErrorNotFound
                    else Inr (operationView ''candidate'' q r)))"

definition queryTaskStream :: "InMemoryPersistence \<Rightarrow> PublicationQuery \<Rightarrow> view_result" where
  "queryTaskStream s q =
     (case map_of (ps_streams s) (qy_domain q, qy_task q) of
        None \<Rightarrow> failQuery ErrorNotFound
      | Some m \<Rightarrow>
          Inr ((baseView ''task_stream'' (qy_domain q) (qy_task q))
            \<lparr>pv_revision := sm_revision m, pv_head := sm_head m\<rparr>))"

section \<open>Versions\<close>

definition versionView :: "string \<Rightarrow> PublicationQuery \<Rightarrow> activatedRecord \<Rightarrow> PublicationView" where
  "versionView kind q a =
     (baseView kind (qy_domain q) (qy_task q))
       \<lparr>pv_operation := av_operation a, pv_state := Some OperationActivated,
        pv_revision := av_revision a, pv_version := av_version a, pv_manifest := av_manifest a,
        pv_lineage := av_lineage a, pv_publication_kind := av_kind a, pv_parent := av_parent a,
        pv_contract := av_contract a, pv_evidence := Some (av_evidence a), pv_at := av_at a,
        pv_members := map manifestMember (av_members a)\<rparr>"

definition artifactVersionView :: "activatedRecord \<Rightarrow> ArtifactVersionView" where
  "artifactVersionView a =
     \<lparr>vv_version = av_version a, vv_kind = av_kind a, vv_parent = av_parent a,
      vv_manifest = av_manifest a, vv_lineage = av_lineage a, vv_revision = av_revision a,
      vv_operation = av_operation a, vv_contract = av_contract a,
      vv_members = map manifestMember (av_members a)\<rparr>"

definition memberByArtifactID :: "activatedRecord \<Rightarrow> string \<Rightarrow> memberRecord option" where
  "memberByArtifactID a i = find_elem (\<lambda>m. mb_id m = i) (av_members a)"

definition activatedVersionsForTask ::
    "InMemoryPersistence \<Rightarrow> string \<Rightarrow> string \<Rightarrow> activatedRecord list" where
  "activatedVersionsForTask s domain task =
     sort_key av_revision
       (filter (\<lambda>a. av_domain a = domain \<and> av_task a = task) (map snd (ps_activated s)))"

definition validateScopeForVersion ::
    "PubConfig \<Rightarrow> ContentScope \<Rightarrow> activatedRecord \<Rightarrow> ErrorCode option" where
  "validateScopeForVersion c x a =
     (case currentContentScope c
         \<lparr>ck_domain = av_domain a, ck_task = av_task a, ck_version = av_version a,
          ck_kind = cs_kind x, ck_id = cs_id x\<rparr> of
        None \<Rightarrow> Some ErrorNotFound
      | Some current \<Rightarrow>
          if cs_kind current \<noteq> cs_kind x \<or> cs_id current \<noteq> cs_id x \<or>
             cs_generation current \<noteq> cs_generation x
          then Some ErrorNotFound else None)"

definition validatePresentedScope ::
    "PubConfig \<Rightarrow> ContentScope \<Rightarrow> activatedRecord \<Rightarrow> ErrorCode option" where
  "validatePresentedScope c x a =
     (if cs_kind x = [] \<and> cs_id x = [] \<and> cs_generation x = 0 then None
      else if \<not> validContentScope x then Some ErrorInvalidIntent
      else validateScopeForVersion c x a)"

text \<open>A committed version, if it belongs to the policy domain and task.\<close>

definition activatedIn ::
    "InMemoryPersistence \<Rightarrow> string \<Rightarrow> string \<Rightarrow> string \<Rightarrow> activatedRecord option" where
  "activatedIn s domain task version =
     (case map_of (ps_activated s) version of
        None \<Rightarrow> None
      | Some a \<Rightarrow> if av_domain a \<noteq> domain \<or> av_task a \<noteq> task then None else Some a)"

definition queryExactVersion :: "PubConfig \<Rightarrow> InMemoryPersistence \<Rightarrow> PublicationQuery \<Rightarrow> view_result" where
  "queryExactVersion c s q =
     (if qy_version q = [] then failQuery ErrorInvalidIntent
      else case activatedIn s (qy_domain q) (qy_task q) (qy_version q) of
        None \<Rightarrow> failQuery ErrorNotFound
      | Some a \<Rightarrow>
          (case validatePresentedScope c (qy_scope q) a of
             Some code \<Rightarrow> failQuery code
           | None \<Rightarrow> Inr (versionView ''exact_version'' q a)))"

definition queryExactMember :: "PubConfig \<Rightarrow> InMemoryPersistence \<Rightarrow> PublicationQuery \<Rightarrow> view_result" where
  "queryExactMember c s q =
     (if qy_version q = [] \<or> qy_artifact q = [] then failQuery ErrorInvalidIntent
      else case activatedIn s (qy_domain q) (qy_task q) (qy_version q) of
        None \<Rightarrow> failQuery ErrorNotFound
      | Some a \<Rightarrow>
          (case validatePresentedScope c (qy_scope q) a of
             Some code \<Rightarrow> failQuery code
           | None \<Rightarrow>
               (case memberByArtifactID a (qy_artifact q) of
                  None \<Rightarrow> failQuery ErrorNotFound
                | Some m \<Rightarrow>
                    Inr ((versionView ''exact_member'' q a)
                      \<lparr>pv_artifact := qy_artifact q, pv_member := Some (manifestMember m)\<rparr>))))"

definition queryVersionHistory :: "InMemoryPersistence \<Rightarrow> PublicationQuery \<Rightarrow> view_result" where
  "queryVersionHistory s q =
     (let versions = activatedVersionsForTask s (qy_domain q) (qy_task q);
          stream = streamOf s (qy_domain q, qy_task q) in
      if versions = [] then failQuery ErrorNotFound
      else Inr ((baseView ''version_history'' (qy_domain q) (qy_task q))
             \<lparr>pv_revision := sm_revision stream, pv_head := sm_head stream,
              pv_history := map artifactVersionView versions\<rparr>))"

section \<open>Content targets\<close>

definition targetOf ::
    "PubConfig \<Rightarrow> PublicationQuery \<Rightarrow> activatedRecord \<Rightarrow> memberRecord \<Rightarrow> ArtifactContentTarget" where
  "targetOf c q a m =
     (let t = \<lparr>tg_schema = av_schema a, tg_domain = qy_domain q, tg_task = qy_task q,
               tg_version = av_version a, tg_artifact = mb_id m, tg_manifest = av_manifest a,
               tg_member = mb_digest m, tg_size = mb_size m, tg_media = mb_media m,
               tg_name = mb_name m, tg_disposition = dispositionForMediaType (mb_media m),
               tg_generation = cs_generation (qy_scope q), tg_intent = qy_intent q,
               tg_scope_kind = cs_kind (qy_scope q), tg_at = cf_now c 0, tg_digest = []\<rparr>
      in t\<lparr>tg_digest := targetDigest (cf_hash c) t\<rparr>)"

definition queryResolveContentTarget ::
    "PubConfig \<Rightarrow> InMemoryPersistence \<Rightarrow> PublicationQuery \<Rightarrow> view_result" where
  "queryResolveContentTarget c s q =
     (if qy_version q = [] \<or> qy_artifact q = [] then failQuery ErrorInvalidIntent
      else if \<not> validContentIntent (qy_intent q) \<or> \<not> validContentScope (qy_scope q)
      then failQuery ErrorInvalidIntent
      else case activatedIn s (qy_domain q) (qy_task q) (qy_version q) of
        None \<Rightarrow> failQuery ErrorNotFound
      | Some a \<Rightarrow>
          (case memberByArtifactID a (qy_artifact q) of
             None \<Rightarrow> failQuery ErrorNotFound
           | Some m \<Rightarrow>
               (case validateScopeForVersion c (qy_scope q) a of
                  Some code \<Rightarrow> failQuery code
                | None \<Rightarrow>
                    if dispositionForMediaType (mb_media m) = ContentDispositionActive
                    then failQuery ErrorInvalidIntent
                    else Inr ((baseView ''resolve_content_target'' (qy_domain q) (qy_task q))
                           \<lparr>pv_version := qy_version q, pv_artifact := qy_artifact q,
                            pv_target := Some (targetOf c q a m),
                            pv_state := Some OperationActivated\<rparr>))))"

definition targetFits :: "ArtifactContentTarget \<Rightarrow> memberRecord \<Rightarrow> bool" where
  "targetFits t m \<longleftrightarrow>
     mb_digest m = tg_member t \<and> mb_size m = tg_size t \<and> mb_media m = tg_media t \<and>
     mb_name m = tg_name t \<and> dispositionForMediaType (mb_media m) = tg_disposition t"

definition queryVerifyContentTarget ::
    "PubConfig \<Rightarrow> InMemoryPersistence \<Rightarrow> PublicationQuery \<Rightarrow> view_result" where
  "queryVerifyContentTarget c s q =
     (case qy_target q of
        None \<Rightarrow> failQuery ErrorInvalidIntent
      | Some t \<Rightarrow>
      if \<not> validContentIntent (tg_intent t) \<or> \<not> validContentScopeKind (tg_scope_kind t) \<or>
         \<not> validContentDisposition (tg_disposition t) \<or> tg_artifact t = []
      then failQuery ErrorInvalidIntent
      else if schemaMajor (tg_schema t) \<noteq> schemaMajor PubSchemaV1
      then failQuery ErrorUnsupportedSchema
      else if \<not> validDigest (tg_digest t) \<or> tg_digest t \<noteq> targetDigest (cf_hash c) t
      then failQuery ErrorIntegrityConflict
      else case activatedIn s (tg_domain t) (tg_task t) (tg_version t) of
        None \<Rightarrow> failQuery ErrorNotFound
      | Some a \<Rightarrow>
      if av_manifest a \<noteq> tg_manifest t then failQuery ErrorIntegrityConflict
      else case memberByArtifactID a (tg_artifact t) of
        None \<Rightarrow> failQuery ErrorNotFound
      | Some m \<Rightarrow>
      if \<not> targetFits t m then failQuery ErrorIntegrityConflict
      else if \<not> validContentScope (qy_scope q) then failQuery ErrorInvalidIntent
      else if cs_kind (qy_scope q) \<noteq> tg_scope_kind t then failQuery ErrorNotFound
      else case validateScopeForVersion c (qy_scope q) a of
        Some code \<Rightarrow> failQuery code
      | None \<Rightarrow>
      if cs_generation (qy_scope q) \<noteq> tg_generation t then failQuery ErrorNotFound
      else Inr ((baseView ''verify_content_target'' (tg_domain t) (tg_task t))
             \<lparr>pv_version := tg_version t, pv_artifact := tg_artifact t, pv_target := Some t,
              pv_state := Some OperationActivated\<rparr>))"

section \<open>Reconstruction capabilities\<close>

definition queryIssueC04ReconstructionCapability ::
    "PubConfig \<Rightarrow> InMemoryPersistence \<Rightarrow> PublicationQuery \<Rightarrow> view_result" where
  "queryIssueC04ReconstructionCapability c s q =
     (if qy_version q = [] then failQuery ErrorInvalidIntent
      else if \<not> validContentScope (qy_scope q) then failQuery ErrorInvalidIntent
      else if qy_expires q \<le> cf_now c 0 then failQuery ErrorInvalidIntent
      else if cf_publication c = [] then failQuery ErrorRetryableUnavailable
      else if pa_kind (qy_authority q) \<noteq> AuthorityTaskOrchestration \<or>
              pa_id (qy_authority q) \<noteq> cf_orchestration c
      then failQuery ErrorOwnershipDenied
      else case activatedIn s (qy_domain q) (qy_task q) (qy_version q) of
        None \<Rightarrow> failQuery ErrorNotFound
      | Some a \<Rightarrow>
          (case validateScopeForVersion c (qy_scope q) a of
             Some code \<Rightarrow> failQuery code
           | None \<Rightarrow>
               let r = \<lparr>rcap_schema = av_schema a, rcap_authority = cf_publication c,
                        rcap_domain = qy_domain q, rcap_task = qy_task q,
                        rcap_version = av_version a, rcap_manifest = av_manifest a,
                        rcap_generation = cs_generation (qy_scope q), rcap_expires = qy_expires q,
                        rcap_at = cf_now c 1, rcap_digest = []\<rparr>
               in Inr ((baseView ''issue_c04_reconstruction_capability'' (qy_domain q) (qy_task q))
                    \<lparr>pv_version := qy_version q,
                     pv_capability := Some (r\<lparr>rcap_digest := reconstructionDigest (cf_hash c) r\<rparr>),
                     pv_state := Some OperationActivated\<rparr>)))"

definition queryVerifyC04ReconstructionCapability ::
    "PubConfig \<Rightarrow> InMemoryPersistence \<Rightarrow> PublicationQuery \<Rightarrow> view_result" where
  "queryVerifyC04ReconstructionCapability c s q =
     (case qy_capability q of
        None \<Rightarrow> failQuery ErrorInvalidIntent
      | Some r \<Rightarrow>
      if schemaMajor (rcap_schema r) \<noteq> schemaMajor PubSchemaV1 then failQuery ErrorUnsupportedSchema
      else if \<not> validDigest (rcap_digest r) \<or> rcap_digest r \<noteq> reconstructionDigest (cf_hash c) r
      then failQuery ErrorIntegrityConflict
      else if rcap_authority r \<noteq> cf_publication c then failQuery ErrorIntegrityConflict
      else if rcap_expires r \<le> cf_now c 0 then failQuery ErrorStaleAuthority
      else case activatedIn s (rcap_domain r) (rcap_task r) (rcap_version r) of
        None \<Rightarrow> failQuery ErrorNotFound
      | Some a \<Rightarrow>
      if av_manifest a \<noteq> rcap_manifest r then failQuery ErrorIntegrityConflict
      else if \<not> validContentScope (qy_scope q) then failQuery ErrorInvalidIntent
      else case validateScopeForVersion c (qy_scope q) a of
        Some code \<Rightarrow> failQuery code
      | None \<Rightarrow>
      if cs_generation (qy_scope q) \<noteq> rcap_generation r then failQuery ErrorNotFound
      else Inr ((baseView ''verify_c04_reconstruction_capability'' (rcap_domain r) (rcap_task r))
             \<lparr>pv_version := rcap_version r, pv_capability := Some r,
              pv_state := Some OperationActivated\<rparr>))"

section \<open>The seam\<close>

definition PubQuery :: "PubConfig \<Rightarrow> InMemoryPersistence \<Rightarrow> PublicationQuery \<Rightarrow> view_result" where
  "PubQuery c s q =
     (if qy_domain q = [] \<or> qy_task q = [] then failQuery ErrorInvalidIntent
      else if qy_kind q = ''operation'' then queryOperation s q
      else if qy_kind q = ''candidate'' then queryCandidate s q
      else if qy_kind q = ''task_stream'' then queryTaskStream s q
      else if qy_kind q = ''exact_version'' then queryExactVersion c s q
      else if qy_kind q = ''exact_member'' then queryExactMember c s q
      else if qy_kind q = ''version_history'' then queryVersionHistory s q
      else if qy_kind q = ''resolve_content_target'' then queryResolveContentTarget c s q
      else if qy_kind q = ''verify_content_target'' then queryVerifyContentTarget c s q
      else if qy_kind q = ''issue_c04_reconstruction_capability''
      then queryIssueC04ReconstructionCapability c s q
      else if qy_kind q = ''verify_c04_reconstruction_capability''
      then queryVerifyC04ReconstructionCapability c s q
      else if qy_kind q = ''residue'' then queryResidue c s q
      else if qy_kind q = ''cleanup_debt'' then queryCleanupDebt s q
      else failQuery ErrorInvalidIntent)"

end
