(* ===== verification/Pub_Steps.thy ===== *)
theory Pub_Steps
  imports Pub_Query
begin

text \<open>
  What a mutation may do to the durable state, as step relations. \<open>core_step\<close> is the change of
  one operation record; \<open>record_step\<close> adds the outcome that is written with it; \<open>mutation\<close> is
  the change of the whole persistence. \<open>Mutate_mutation\<close> shows that every call of \<open>Mutate\<close> is one
  \<open>mutation\<close>, whatever it answers, so the invariants of the later theories are proved by cases
  on a few rules and not on the handlers.
\<close>

section \<open>Fields of the composed updates\<close>

lemma recordOutcome_simps [simp]:
  "op_scope (recordOutcome r k d st dec err at) = op_scope r"
  "op_id (recordOutcome r k d st dec err at) = op_id r"
  "op_request (recordOutcome r k d st dec err at) = op_request r"
  "op_state (recordOutcome r k d st dec err at) = st"
  "op_generation (recordOutcome r k d st dec err at) = op_generation r"
  "op_fence (recordOutcome r k d st dec err at) = op_fence r"
  "op_candidate (recordOutcome r k d st dec err at) = op_candidate r"
  "op_verification (recordOutcome r k d st dec err at) = op_verification r"
  "op_evidence (recordOutcome r k d st dec err at) = op_evidence r"
  "op_revision (recordOutcome r k d st dec err at) = op_revision r"
  "op_residue (recordOutcome r k d st dec err at) = op_residue r"
  "op_debt (recordOutcome r k d st dec err at) = op_debt r"
  by (simp_all add: recordOutcome_def Let_def)

lemma outcomesOf_recordOutcome:
  "outcomesOf (recordOutcome r k d st dec err at) j =
     (if j = k
      then Some (AList.update d
             \<lparr>io_digest = d, io_state = st, io_decision = dec, io_error = err, io_at = at\<rparr>
             (case outcomesOf r k of None \<Rightarrow> [] | Some m \<Rightarrow> m))
      else outcomesOf r j)"
  by (simp add: recordOutcome_def outcomesOf_def Let_def)

lemma auditRecord_simps [simp]:
  "ps_operations (auditRecord c h k r t u s) = ps_operations s"
  "ps_streams (auditRecord c h k r t u s) = ps_streams s"
  "ps_versions (auditRecord c h k r t u s) = ps_versions s"
  "ps_artifacts (auditRecord c h k r t u s) = ps_artifacts s"
  "ps_index (auditRecord c h k r t u s) = ps_index s"
  "ps_activated (auditRecord c h k r t u s) = ps_activated s"
  "ps_next_version (auditRecord c h k r t u s) = ps_next_version s"
  "ps_next_artifact (auditRecord c h k r t u s) = ps_next_artifact s"
  "ps_next_debt (auditRecord c h k r t u s) = ps_next_debt s"
  by (simp_all add: auditRecord_def recordAudit_def Let_def)

lemma storeOperation_simps [simp]:
  "ps_operations (storeOperation r s) = AList.update (op_scope r) r (ps_operations s)"
  "ps_streams (storeOperation r s) = ps_streams s"
  "ps_versions (storeOperation r s) = ps_versions s"
  "ps_artifacts (storeOperation r s) = ps_artifacts s"
  "ps_index (storeOperation r s) = ps_index s"
  "ps_activated (storeOperation r s) = ps_activated s"
  "ps_next_version (storeOperation r s) = ps_next_version s"
  "ps_next_artifact (storeOperation r s) = ps_next_artifact s"
  "ps_next_debt (storeOperation r s) = ps_next_debt s"
  by (simp_all add: storeOperation_def)

lemma commitDecision_simps [simp]:
  "ps_operations (commitDecision c h k d r dec err n s) =
     AList.update (op_scope r) (recordOutcome r k d (op_state r) dec err (cf_now c n)) (ps_operations s)"
  "ps_streams (commitDecision c h k d r dec err n s) = ps_streams s"
  "ps_versions (commitDecision c h k d r dec err n s) = ps_versions s"
  "ps_artifacts (commitDecision c h k d r dec err n s) = ps_artifacts s"
  "ps_index (commitDecision c h k d r dec err n s) = ps_index s"
  "ps_activated (commitDecision c h k d r dec err n s) = ps_activated s"
  "ps_next_version (commitDecision c h k d r dec err n s) = ps_next_version s"
  "ps_next_artifact (commitDecision c h k d r dec err n s) = ps_next_artifact s"
  "ps_next_debt (commitDecision c h k d r dec err n s) = ps_next_debt s"
  by (simp_all add: commitDecision_def Let_def)

section \<open>Steps of a record\<close>

definition open_state :: "PublicationOperationState \<Rightarrow> bool" where
  "open_state st \<longleftrightarrow> st \<in> {OperationPrepared, OperationVerified, OperationReconciliationRequired}"

definition discarded_state :: "PublicationOperationState \<Rightarrow> bool" where
  "discarded_state st \<longleftrightarrow> st \<in> {OperationRejected, OperationCancelled}"

inductive core_step :: "PubConfig \<Rightarrow> operationRecord \<Rightarrow> operationRecord \<Rightarrow> bool" for c where
  conflicted: "core_step c r (r\<lparr>op_conflict := True\<rparr>)"
| evaluated:
    "op_state r = OperationPrepared \<or> op_state r = OperationReconciliationRequired \<Longrightarrow>
     op_candidate r = Some cand \<Longrightarrow> scopeOf h = op_scope r \<Longrightarrow>
     core_step c r (verifyTransition r (evaluateEvidence c cand h v))"
| rejected:
    "open_state (op_state r) \<Longrightarrow>
     core_step c r (r\<lparr>op_reject := reason, op_state := OperationRejected,
                      op_residue := releaseResidue c r h now\<rparr>)"
| cancelled:
    "open_state (op_state r) \<Longrightarrow>
     core_step c r (r\<lparr>op_cancel := reason, op_state := OperationCancelled,
                      op_residue := releaseResidue c r h now\<rparr>)"
| assembled:
    "discarded_state (op_state r) \<Longrightarrow> op_residue r = Some residue \<Longrightarrow> op_debt r = None \<Longrightarrow>
     core_step c r (r\<lparr>op_residue := Some (residue\<lparr>rs_assembly :=
          Some \<lparr>as_reference = ar_reference a, as_identity = ar_identity a,
                as_generation = ar_generation a, as_fence = ar_fence a\<rparr>, rs_debt := debt\<rparr>),
        op_debt := Some (newDebt r h a debt now)\<rparr>)"
| released: "runRelease c h r operation reconciling = (ans, r') \<Longrightarrow> core_step c r r'"
| release_reconciled:
    "runRelease c h (r\<lparr>op_reconcile := mode\<rparr>) operation reconciling = (ans, r') \<Longrightarrow> core_step c r r'"
| resolved:
    "op_debt r = Some d \<Longrightarrow> db_status d \<noteq> CleanupDebtResolved \<Longrightarrow> resolution c p d = Inr closed \<Longrightarrow>
     core_step c r (r\<lparr>op_debt := Some (closed\<lparr>db_resolved_at := now,
        db_status := CleanupDebtResolved, db_retry := CleanupRetryNone, db_blockers := 0,
        db_audit := audit, db_revision := db_revision closed + 1\<rparr>)\<rparr>)"
| inspected: "core_step c r (r\<lparr>op_reconcile := mode\<rparr>)"
| completed: "core_step c r ((completedVerification c r)\<lparr>op_reconcile := mode\<rparr>)"

definition outcome_free :: "operationRecord \<Rightarrow> PublicationIntentKind \<Rightarrow> bool" where
  "outcome_free r k \<longleftrightarrow> k = IntentReconcilePublication \<or> outcomesOf r k = None"

inductive record_step :: "PubConfig \<Rightarrow> operationRecord \<Rightarrow> operationRecord \<Rightarrow> bool" for c where
  silent: "core_step c r q \<Longrightarrow> record_step c r q"
| answered:
    "core_step c r q \<Longrightarrow> outcome_free r k \<Longrightarrow>
     record_step c r (recordOutcome q k d (op_state q) dec err at)"

section \<open>Steps of the persistence\<close>

text \<open>
  What every candidate satisfies: members in the strict order of their slots, each with an
  identity and a name of its own, one staging reference and one pinned capability per member,
  with the digest and the size of the member.
\<close>

definition members_sound :: "candidateRecord \<Rightarrow> bool" where
  "members_sound cand \<longleftrightarrow>
     sorted (map mb_slot (cd_members cand)) \<and> distinct (map mb_slot (cd_members cand)) \<and>
     distinct (map mb_id (cd_members cand)) \<and>
     (\<forall>m \<in> set (cd_members cand). mb_id m \<noteq> [] \<and> mb_name m \<noteq> []) \<and>
     map st_slot (cd_staging cand) = map mb_slot (cd_members cand) \<and>
     map st_digest (cd_staging cand) = map mb_digest (cd_members cand) \<and>
     map st_size (cd_staging cand) = map mb_size (cd_members cand) \<and>
     set (map cr_slot (cd_capability_refs cand)) = set (map mb_slot (cd_members cand))"

definition candidate_sound :: "candidateRecord \<Rightarrow> bool" where
  "candidate_sound cand \<longleftrightarrow>
     validPublicationKind (cd_kind cand) \<and>
     (cd_kind cand = PublicationKindFirstGeneration \<longrightarrow> cd_parent cand = []) \<and>
     (cd_kind cand = PublicationKindManualEdit \<longrightarrow> cd_parent cand \<noteq> []) \<and>
     schemaMajor (cd_schema cand) = schemaMajor PubSchemaV1 \<and>
     cd_version cand \<noteq> [] \<and> cd_runtime_refs cand \<noteq> [] \<and>
     length (cd_channels cand) = length (cd_runtime_refs cand) \<and> members_sound cand"

definition fresh_operation :: "operationRecord \<Rightarrow> candidateRecord \<Rightarrow> bool" where
  "fresh_operation r cand \<longleftrightarrow>
     op_state r = OperationPrepared \<and> op_candidate r = Some cand \<and> candidate_sound cand \<and>
     op_verification r = None \<and> op_evidence r = None \<and> op_residue r = None \<and> op_debt r = None"

definition artifacts_kept :: "InMemoryPersistence \<Rightarrow> InMemoryPersistence \<Rightarrow> bool" where
  "artifacts_kept s s' \<longleftrightarrow>
     (\<forall>k. map_of (ps_artifacts s) k \<noteq> None \<longrightarrow> map_of (ps_artifacts s') k = map_of (ps_artifacts s) k)"

lemma artifacts_kept_refl [simp]: "ps_artifacts s' = ps_artifacts s \<Longrightarrow> artifacts_kept s s'"
  by (simp add: artifacts_kept_def)

inductive mutation :: "PubConfig \<Rightarrow> InMemoryPersistence \<Rightarrow> InMemoryPersistence \<Rightarrow> bool" for c where
  idle:
    "ps_operations s' = ps_operations s \<Longrightarrow> ps_streams s' = ps_streams s \<Longrightarrow>
     ps_versions s' = ps_versions s \<Longrightarrow> ps_index s' = ps_index s \<Longrightarrow>
     ps_activated s' = ps_activated s \<Longrightarrow> artifacts_kept s s' \<Longrightarrow> mutation c s s'"
| prepared:
    "map_of (ps_operations s) (op_scope r) = None \<Longrightarrow> fresh_operation r cand \<Longrightarrow>
     op_scope r = (domain, task, operation) \<Longrightarrow> map_of (ps_versions s) (cd_version cand) = None \<Longrightarrow>
     ps_operations s' = AList.update (op_scope r) r (ps_operations s) \<Longrightarrow>
     ps_streams s' = AList.update (domain, task) (streamOf s (domain, task)) (ps_streams s) \<Longrightarrow>
     ps_versions s' = AList.update (cd_version cand)
       \<lparr>ct_domain = domain, ct_task = task, ct_version = cd_version cand\<rparr> (ps_versions s) \<Longrightarrow>
     ps_index s' = AList.update (cd_version cand) (op_scope r) (ps_index s) \<Longrightarrow>
     ps_activated s' = ps_activated s \<Longrightarrow> artifacts_kept s s' \<Longrightarrow>
     (\<And>m. m \<in> set (cd_members cand) \<Longrightarrow> map_of (ps_artifacts s) (mb_id m) = None \<and>
        map_of (ps_artifacts s') (mb_id m) \<noteq> None) \<Longrightarrow> mutation c s s'"
| stepped:
    "map_of (ps_operations s) (op_scope r) = Some r \<Longrightarrow> record_step c r r' \<Longrightarrow>
     ps_operations s' = AList.update (op_scope r) r' (ps_operations s) \<Longrightarrow>
     ps_streams s' = ps_streams s \<Longrightarrow> ps_versions s' = ps_versions s \<Longrightarrow>
     ps_index s' = ps_index s \<Longrightarrow> ps_activated s' = ps_activated s \<Longrightarrow>
     artifacts_kept s s' \<Longrightarrow> mutation c s s'"
| activated:
    "map_of (ps_operations s) (op_scope r) = Some r \<Longrightarrow> op_state r = OperationVerified \<Longrightarrow>
     op_candidate r = Some cand \<Longrightarrow> activateRefusal s h cand = None \<Longrightarrow> scopeOf h = op_scope r \<Longrightarrow>
     outcome_free r IntentActivatePublication \<Longrightarrow>
     revision = sm_revision (streamOf s (ph_domain h, ph_task h)) + 1 \<Longrightarrow>
     a = activatedOf h cand revision evidence at \<Longrightarrow>
     r' = recordOutcome
            (r\<lparr>op_revision := revision, op_evidence := Some evidence, op_state := OperationActivated\<rparr>)
            IntentActivatePublication d OperationActivated dec err t \<Longrightarrow>
     ps_operations s' = AList.update (op_scope r) r' (ps_operations s) \<Longrightarrow>
     ps_streams s' = AList.update (ph_domain h, ph_task h)
       \<lparr>sm_revision = revision, sm_head = cd_version cand\<rparr> (ps_streams s) \<Longrightarrow>
     ps_versions s' = ps_versions s \<Longrightarrow> ps_index s' = ps_index s \<Longrightarrow>
     ps_activated s' = AList.update (cd_version cand) a (ps_activated s) \<Longrightarrow>
     artifacts_kept s s' \<Longrightarrow> mutation c s s'"

lemma mutation_same [simp]: "mutation c s s"
  by (rule mutation.idle) simp_all

text \<open>A handler that records a decision on the record it changed.\<close>

lemma mutation_commit:
  assumes "map_of (ps_operations s) (op_scope r) = Some r" and "core_step c r q"
    and "outcome_free r k" and "op_scope q = op_scope r"
    and "ps_operations s1 = ps_operations s" "ps_streams s1 = ps_streams s"
    "ps_versions s1 = ps_versions s" "ps_index s1 = ps_index s"
    "ps_activated s1 = ps_activated s" "ps_artifacts s1 = ps_artifacts s"
  shows "mutation c s (commitDecision c h k d q dec err n s1)"
  by (rule mutation.stepped [OF assms(1) record_step.answered [OF assms(2,3)]])
    (simp_all add: assms(4-))

section \<open>The handlers are steps\<close>

lemma verifyTransition_simps [simp]:
  "op_scope (verifyTransition r x) = op_scope r"
  "op_id (verifyTransition r x) = op_id r"
  "op_request (verifyTransition r x) = op_request r"
  "op_generation (verifyTransition r x) = op_generation r"
  "op_fence (verifyTransition r x) = op_fence r"
  "op_candidate (verifyTransition r x) = op_candidate r"
  "op_residue (verifyTransition r x) = op_residue r"
  "op_debt (verifyTransition r x) = op_debt r"
  "op_evidence (verifyTransition r x) = op_evidence r"
  "op_outcomes (verifyTransition r x) = op_outcomes r"
  by (auto simp: verifyTransition_def split: sum.split prod.split)

lemma verify_mutation:
  assumes "map_of (ps_operations s) (op_scope r) = Some r" and "scopeOf h = op_scope r"
    and "outcome_free r IntentVerifyPublication"
  shows "mutation c s (snd (verify c v h d r s))"
proof -
  have step: "mutation c s (commitDecision c h IntentVerifyPublication d
      (verifyTransition r (evaluateEvidence c cand h v)) dec err n s)"
    if "op_candidate r = Some cand"
      and "op_state r \<notin> {OperationCancelled, OperationRejected, OperationActivated, OperationVerified}"
    for cand dec err n
  proof (rule mutation_commit [OF assms(1) core_step.evaluated assms(3)])
    show "op_state r = OperationPrepared \<or> op_state r = OperationReconciliationRequired"
      using that(2) by (cases "op_state r") simp_all
  qed (simp_all add: that(1) assms(2))
  then show ?thesis
    by (simp add: verify_def Let_def split: option.split)
qed

lemma reject_mutation:
  assumes "map_of (ps_operations s) (op_scope r) = Some r" and "outcome_free r IntentRejectPublication"
  shows "mutation c s (snd (reject c reason h d r s))"
proof -
  have "open_state (op_state r)"
    if "op_state r \<notin> {OperationCancelled, OperationRejected, OperationActivated}"
    using that by (cases "op_state r") (simp_all add: open_state_def)
  then show ?thesis
    by (auto simp: reject_def Let_def split: option.split
        intro!: mutation_commit [OF assms(1) core_step.rejected assms(2)])
qed

lemma cancel_mutation:
  assumes "map_of (ps_operations s) (op_scope r) = Some r" and "outcome_free r IntentCancelPublication"
  shows "mutation c s (snd (cancel c reason h d r s))"
proof -
  have "open_state (op_state r)"
    if "op_state r \<notin> {OperationRejected, OperationCancelled}" "op_state r \<noteq> OperationActivated"
    using that by (cases "op_state r") (simp_all add: open_state_def)
  then show ?thesis
    by (auto simp: cancel_def Let_def split: option.split
        intro!: mutation_commit [OF assms(1) core_step.cancelled assms(2)])
qed

lemma assembly_mutation:
  assumes "map_of (ps_operations s) (op_scope r) = Some r"
    and "outcome_free r IntentRecordResidueAssembly"
  shows "mutation c s (snd (recordResidueAssembly c a h d r s))"
  by (auto simp: recordResidueAssembly_def mintCleanupDebtID_def discarded_state_def Let_def
      split: option.split
      intro!: mutation_commit [OF assms(1) core_step.assembled assms(2)])

lemma resolve_mutation:
  assumes "map_of (ps_operations s) (op_scope r) = Some r"
    and "outcome_free r IntentResolveCleanupDebt"
  shows "mutation c s (snd (resolveCleanupDebt c p h d r s))"
  by (auto simp: resolveCleanupDebt_def mintAuditFactID_def Let_def
      split: option.split sum.split
      intro!: mutation_commit [OF assms(1) core_step.resolved assms(2)])

lemma runRelease_identity:
  assumes "runRelease c h r operation reconciling = (ans, r')"
  shows "op_scope r' = op_scope r \<and> op_id r' = op_id r \<and> op_request r' = op_request r \<and>
    op_generation r' = op_generation r \<and> op_fence r' = op_fence r \<and>
    op_candidate r' = op_candidate r \<and> op_state r' = op_state r \<and>
    op_verification r' = op_verification r \<and> op_evidence r' = op_evidence r \<and>
    op_outcomes r' = op_outcomes r \<and> op_revision r' = op_revision r"
  using assms
  by (auto simp: runRelease_def attemptRelease_def Let_def split: option.splits if_splits sum.splits)

lemma release_mutation:
  assumes "map_of (ps_operations s) (op_scope r) = Some r"
  shows "mutation c s (snd (releaseResidueFlow c h d r s))"
proof -
  obtain ans r' where run: "runRelease c h r (po_id (ph_operation h)) False = (ans, r')"
    by fastforce
  have "mutation c s (auditRecord c h IntentReleaseResidue r' t u (storeOperation r' s))" for t u
    by (rule mutation.stepped [OF assms record_step.silent [OF core_step.released [OF run]]])
      (simp_all add: runRelease_identity [OF run])
  then show ?thesis
    by (simp add: releaseResidueFlow_def run split: option.split)
qed

lemma completedVerification_simps [simp]:
  "op_scope (completedVerification c r) = op_scope r"
  "op_id (completedVerification c r) = op_id r"
  "op_request (completedVerification c r) = op_request r"
  "op_generation (completedVerification c r) = op_generation r"
  "op_fence (completedVerification c r) = op_fence r"
  "op_candidate (completedVerification c r) = op_candidate r"
  "op_residue (completedVerification c r) = op_residue r"
  "op_debt (completedVerification c r) = op_debt r"
  "op_evidence (completedVerification c r) = op_evidence r"
  "op_outcomes (completedVerification c r) = op_outcomes r"
  by (auto simp: completedVerification_def split: option.split sum.split bool.split)

lemma reconcile_mutation:
  assumes stored: "map_of (ps_operations s) (op_scope r) = Some r"
  shows "mutation c s (snd (reconcilePublication c mode h d r s))"
proof -
  have free: "outcome_free r IntentReconcilePublication"
    by (simp add: outcome_free_def)
  have plain: "mutation c s (snd (reconciled c h d m r s))" for m
    by (auto simp: reconciled_def Let_def
        intro!: mutation_commit [OF stored core_step.inspected free])
  have complete: "mutation c s (snd (reconciled c h d m (completedVerification c r) s))" for m
    by (auto simp: reconciled_def Let_def
        intro!: mutation_commit [OF stored core_step.completed free])
  have release: "mutation c s (commitDecision c h IntentReconcilePublication d r' dec err n s)"
    if "runRelease c h (r\<lparr>op_reconcile := ReconcileCompleteRelease\<rparr>) (op_id r) True = (ans, r')"
    for ans r' dec err n
    using runRelease_identity [OF that]
    by (auto intro!: mutation_commit [OF stored core_step.release_reconciled [OF that] free])
  obtain dec err r' where
    run: "runRelease c h (r\<lparr>op_reconcile := ReconcileCompleteRelease\<rparr>) (op_id r) True = ((dec, err), r')"
    by (metis prod.collapse)
  show ?thesis
    by (simp add: reconcilePublication_def plain complete run release [OF run] split: option.split)
qed

lemma activate_mutation:
  assumes "map_of (ps_operations s) (op_scope r) = Some r" and "scopeOf h = op_scope r"
    and "outcome_free r IntentActivatePublication"
  shows "mutation c s (snd (activate c h d r s))"
proof -
  have commit: "mutation c s (commitDecision c h IntentActivatePublication d
      (r\<lparr>op_revision := sm_revision (streamOf s (ph_domain h, ph_task h)) + 1,
        op_evidence := Some evidence, op_state := OperationActivated\<rparr>) dec err n
      (commitVersion (activatedOf h cand (sm_revision (streamOf s (ph_domain h, ph_task h)) + 1)
        evidence at) s))"
    if "op_state r = OperationVerified" "op_candidate r = Some cand" "activateRefusal s h cand = None"
    for cand evidence at dec err n
    by (rule mutation.activated [OF assms(1) that assms(2,3) refl refl refl])
      (simp_all add: commitVersion_def activatedOf_def)
  show ?thesis
    by (auto simp: activate_def Let_def split: option.split intro: commit)
qed

lemma continueOperation_mutation:
  assumes "map_of (ps_operations s) (op_scope r) = Some r" and "scopeOf (intentHeader i) = op_scope r"
    and "intentKind i \<noteq> IntentReleaseResidue \<longrightarrow> outcome_free r (intentKind i)"
  shows "mutation c s (snd (continueOperation c i d r s))"
  using assms
  by (cases i) (simp_all add: verify_mutation activate_mutation reject_mutation cancel_mutation
      reconcile_mutation assembly_mutation release_mutation resolve_mutation)

lemma mutateRecord_mutation:
  assumes "map_of (ps_operations s) (op_scope r) = Some r" and "scopeOf (intentHeader i) = op_scope r"
  shows "mutation c s (snd (mutateRecord c i d r s))"
proof -
  have flag: "mutation c s (storeOperation (r\<lparr>op_conflict := True\<rparr>) s)"
    by (rule mutation.stepped [OF assms(1) record_step.silent [OF core_step.conflicted]]) simp_all
  have go: "mutation c s (snd (continueOperation c i d r s))"
    if "intentKind i = IntentReconcilePublication \<or> intentKind i = IntentReleaseResidue \<or>
        outcomesOf r (intentKind i) = None"
    using that continueOperation_mutation [OF assms] by (auto simp: outcome_free_def)
  show ?thesis
    by (auto simp: mutateRecord_def Let_def flag go split: option.split)
qed

section \<open>Preparation is a step\<close>

text \<open>All a minting function changes is its own counter and the identities in use.\<close>

definition minting :: "InMemoryPersistence \<Rightarrow> InMemoryPersistence \<Rightarrow> bool" where
  "minting s s' \<longleftrightarrow>
     ps_operations s' = ps_operations s \<and> ps_streams s' = ps_streams s \<and>
     ps_versions s' = ps_versions s \<and> ps_index s' = ps_index s \<and>
     ps_activated s' = ps_activated s \<and> artifacts_kept s s'"

lemma minting_trans: "minting s s1 \<Longrightarrow> minting s1 s2 \<Longrightarrow> minting s s2"
  by (simp add: minting_def artifacts_kept_def)

lemma minting_idle: "minting s s' \<Longrightarrow> mutation c s s'"
  by (simp add: minting_def mutation.idle)

lemma mintVersionID_fresh:
  assumes "mintVersionID s = Some (v, s')"
  shows "minting s s' \<and> map_of (ps_versions s) v = None \<and> v \<noteq> []"
proof -
  obtain n where loop: "mintLoop version_name (ps_versions s) (ps_next_version s) = Some (v, n)"
    and s': "s' = s\<lparr>ps_next_version := n\<rparr>"
    using assms by (auto simp: mintVersionID_def bind_eq_Some_conv)
  from mintLoop_free [OF loop] have "v = version_name n" and "map_of (ps_versions s) v = None"
    by auto
  then show ?thesis by (simp add: s' minting_def)
qed

lemma mintArtifactID_fresh:
  assumes "mintArtifactID domain task s = Some (i, s')"
  shows "minting s s' \<and> map_of (ps_artifacts s) i = None \<and> i \<noteq> [] \<and>
    map_of (ps_artifacts s') i \<noteq> None"
proof -
  obtain n where loop: "mintLoop artifact_name (ps_artifacts s) (ps_next_artifact s) = Some (i, n)"
    and s': "s' = s\<lparr>ps_next_artifact := n, ps_artifacts := AList.update i
        \<lparr>ct_domain = domain, ct_task = task, ct_version = []\<rparr> (ps_artifacts s)\<rparr>"
    using assms by (auto simp: mintArtifactID_def bind_eq_Some_conv)
  from mintLoop_free [OF loop] have i: "i = artifact_name n" "map_of (ps_artifacts s) i = None"
    by auto
  then show ?thesis by (auto simp: s' minting_def artifacts_kept_def)
qed

lemma mintMembers_minting: "mintMembers nfc domain task specs s = Some (ms, s') \<Longrightarrow> minting s s'"
proof (induction specs arbitrary: s ms s')
  case Nil
  then show ?case by (simp add: minting_def)
next
  case (Cons spec specs)
  show ?case
  proof (cases "normalizedLogicalName nfc (sp_name spec)")
    case None
    with Cons.prems show ?thesis by (auto simp: minting_def)
  next
    case (Some name)
    with Cons.prems obtain i s1 ms1 where "mintArtifactID domain task s = Some (i, s1)"
      and "mintMembers nfc domain task specs s1 = Some (ms1, s')"
      by (auto simp: bind_eq_Some_conv)
    with Cons.IH mintArtifactID_fresh show ?thesis by (blast intro: minting_trans)
  qed
qed

text \<open>The members of a candidate carry identities no other candidate ever had.\<close>

lemma mintMembers_fresh:
  "mintMembers nfc domain task specs s = Some (Some ms, s') \<Longrightarrow>
     map mb_slot ms = map sp_slot specs \<and> map mb_digest ms = map sp_digest specs \<and>
     map mb_size ms = map sp_size specs \<and> distinct (map mb_id ms) \<and>
     (\<forall>m \<in> set ms. mb_id m \<noteq> [] \<and> mb_name m \<noteq> [] \<and> map_of (ps_artifacts s) (mb_id m) = None \<and>
        map_of (ps_artifacts s') (mb_id m) \<noteq> None)"
proof (induction specs arbitrary: s ms s')
  case Nil
  then show ?case by simp
next
  case (Cons spec specs)
  from Cons.prems obtain name i s1 ms1 where
    name: "normalizedLogicalName nfc (sp_name spec) = Some name" and
    mint: "mintArtifactID domain task s = Some (i, s1)" and
    rest: "mintMembers nfc domain task specs s1 = Some (Some ms1, s')" and
    ms: "ms = memberOf spec i name # ms1"
    by (auto simp: bind_eq_Some_conv split: option.splits)
  from mintArtifactID_fresh [OF mint] have i: "minting s s1" "map_of (ps_artifacts s) i = None"
    "i \<noteq> []" "map_of (ps_artifacts s1) i \<noteq> None" by simp_all
  have kept: "artifacts_kept s s1" "artifacts_kept s1 s'"
    using i(1) mintMembers_minting [OF rest] by (simp_all add: minting_def)
  have used: "map_of (ps_artifacts s') i \<noteq> None"
    using kept(2) i(4) by (simp add: artifacts_kept_def)
  have IH: "map mb_slot ms1 = map sp_slot specs" "map mb_digest ms1 = map sp_digest specs"
    "map mb_size ms1 = map sp_size specs" "distinct (map mb_id ms1)"
    "\<And>m. m \<in> set ms1 \<Longrightarrow> mb_id m \<noteq> [] \<and> mb_name m \<noteq> [] \<and> map_of (ps_artifacts s1) (mb_id m) = None \<and>
        map_of (ps_artifacts s') (mb_id m) \<noteq> None"
    using Cons.IH [OF rest] by simp_all
  have new: "mb_id m \<noteq> i" and unused: "map_of (ps_artifacts s) (mb_id m) = None"
    if "m \<in> set ms1" for m
    using IH(5) [OF that] i(4) kept(1) by (auto simp: artifacts_kept_def)
  have "i \<notin> mb_id ` set ms1" using new by auto
  with IH used unused i(2,3) normalizedLogicalName_nonempty [OF name] show ?case
    by (auto simp: ms memberOf_def)
qed

lemma prepareRefusal_bindings: "prepareRefusal s h p = None \<Longrightarrow> validPrepareBindings p"
  by (auto simp: prepareRefusal_def Let_def split: if_splits)

lemma bound_staging:
  assumes "validPrepareBindings p" and "spec \<in> set (pp_members p)" and "ref \<in> set (pp_staging p)"
    and "distinct (map sr_slot (pp_staging p))" and "sr_slot ref = sp_slot spec"
  shows "sr_digest ref = sp_digest spec \<and> sr_size ref = sp_size spec"
proof -
  obtain staged where find: "find_elem (\<lambda>r. sr_slot r = sp_slot spec) (rev (pp_staging p)) = Some staged"
    and facts: "sr_digest staged = sp_digest spec" "sr_size staged = sp_size spec"
  proof -
    have "case find_elem (\<lambda>r. sr_slot r = sp_slot spec) (rev (pp_staging p)) of None \<Rightarrow> False
        | Some staged \<Rightarrow> sr_digest staged = sp_digest spec \<and> sr_size staged = sp_size spec"
      using assms(1,2) unfolding validPrepareBindings_def list_all_iff by blast
    then show ?thesis using that by (auto split: option.splits)
  qed
  from find_elem_Some [OF find] have "staged \<in> set (pp_staging p)" "sr_slot staged = sp_slot spec"
    by simp_all
  with assms(3-5) have "staged = ref" by (simp add: distinct_map inj_on_def)
  with facts show ?thesis by simp
qed

lemma map_by_key:
  assumes "map f xs = map g ys" and "\<And>x y. x \<in> set xs \<Longrightarrow> y \<in> set ys \<Longrightarrow> f x = g y \<Longrightarrow> f' x = g' y"
  shows "map f' xs = map g' ys"
proof (rule nth_equalityI)
  show len: "length (map f' xs) = length (map g' ys)" using map_eq_imp_length_eq [OF assms(1)] by simp
  fix n
  assume n: "n < length (map f' xs)"
  with len have "n < length xs" "n < length ys" by simp_all
  moreover from this have "f (xs ! n) = g (ys ! n)" by (metis assms(1) nth_map)
  ultimately show "map f' xs ! n = map g' ys ! n" using assms(2) by simp
qed

lemma candidateOf_members:
  assumes "sorted (map mb_slot ms)" and "distinct (map mb_slot ms)"
  shows "cd_members (candidateOf hash h p version ms) = ms"
  using sort_key_sorted [OF sorted_pairs [OF assms]] by (simp add: candidateOf_def Let_def)

lemma candidateOf_sound:
  assumes valid: "validPreparePayload nfc p" and bindings: "validPrepareBindings p"
    and v: "version \<noteq> []" and schema: "schemaMajor (ph_schema h) = schemaMajor PubSchemaV1"
    and mint: "mintMembers nfc domain task (sort_key sp_slot (pp_members p)) s = Some (Some ms, s')"
  shows "candidate_sound (candidateOf hash h p version ms)"
proof -
  let ?specs = "sort_key sp_slot (pp_members p)"
  let ?cand = "candidateOf hash h p version ms"
  have d: "distinct (map sp_slot (pp_members p))" "distinct (map sr_slot (pp_staging p))"
    "distinct (map cr_slot (pp_capability_refs p))"
    and sub: "set (map sp_slot (pp_members p)) = set (map sr_slot (pp_staging p))"
    "set (map sp_slot (pp_members p)) = set (map cr_slot (pp_capability_refs p))"
    using valid by (auto simp: validPreparePayload_def list_all_iff)
  note fresh = mintMembers_fresh [OF mint]
  then have slots: "map mb_slot ms = map sp_slot ?specs" and digests: "map mb_digest ms = map sp_digest ?specs"
    and sizes: "map mb_size ms = map sp_size ?specs" by simp_all
  have sorted: "sorted (map mb_slot ms)" and dist: "distinct (map mb_slot ms)"
    using d(1) by (simp_all add: slots distinct_map)
  note members = candidateOf_members [OF sorted dist, of hash h p version]
  have staging: "cd_staging ?cand = sort_key st_slot (map stagingOf (pp_staging p))"
    by (simp add: candidateOf_def Let_def)
  have key: "map st_slot (cd_staging ?cand) = map sp_slot ?specs"
  proof (rule sorted_distinct_set_unique)
    have "map st_slot (map stagingOf (pp_staging p)) = map sr_slot (pp_staging p)"
      by (simp add: stagingOf_def)
    with d(2) have "distinct (map st_slot (map stagingOf (pp_staging p)))" by metis
    then show "distinct (map st_slot (cd_staging ?cand))"
      unfolding staging by (simp only: distinct_map distinct_sort set_sort)
    show "set (map st_slot (cd_staging ?cand)) = set (map sp_slot ?specs)"
      using sub(1) by (simp add: staging image_image stagingOf_def)
  qed (use d(1) in \<open>simp_all add: staging distinct_map\<close>)
  have bound: "st_digest x = sp_digest y \<and> st_size x = sp_size y"
    if "x \<in> set (cd_staging ?cand)" "y \<in> set ?specs" "st_slot x = sp_slot y" for x y
    using that bound_staging [OF bindings _ _ d(2)] by (auto simp: staging stagingOf_def)
  have "map st_digest (cd_staging ?cand) = map mb_digest ms"
    unfolding digests by (rule map_by_key [OF key]) (simp add: bound)
  moreover have "map st_size (cd_staging ?cand) = map mb_size ms"
    unfolding sizes by (rule map_by_key [OF key]) (simp add: bound)
  moreover have "set (map mb_slot ms) = set (map cr_slot (pp_capability_refs p))"
    unfolding slots using sub(2) by simp
  ultimately have "members_sound ?cand"
    using sorted dist fresh key slots members by (simp add: members_sound_def candidateOf_def Let_def)
  then show ?thesis
    using valid v schema by (auto simp: candidate_sound_def candidateOf_def Let_def validPreparePayload_def)
qed

lemma prepare_mutation:
  assumes prep: "prepare c p h d (scopeOf h) s = Some (ans, s')"
    and valid: "validPreparePayload (cf_nfc c) p"
    and schema: "schemaMajor (ph_schema h) = schemaMajor PubSchemaV1"
    and new: "map_of (ps_operations s) (scopeOf h) = None"
  shows "mutation c s s'"
proof -
  let ?specs = "sort_key sp_slot (pp_members p)"
  have step: "mutation c s (commitDecision c h IntentPreparePublication d r dec err n
      (persistCandidate r h cand s2))"
    if v: "mintVersionID s = Some (version, s1)"
      and m: "mintMembers (cf_nfc c) (ph_domain h) (ph_task h) ?specs s1 = Some (Some ms, s2)"
      and cand: "cand = candidateOf (cf_hash c) h p version ms"
      and r: "r = newOperation h d (scopeOf h) revision at cand"
      and bindings: "validPrepareBindings p"
    for version s1 ms s2 cand r revision at dec err n
  proof (rule mutation.prepared)
    have mint: "minting s s1" "minting s1 s2"
      using mintVersionID_fresh [OF v] mintMembers_minting [OF m] by simp_all
    let ?r = "recordOutcome r IntentPreparePublication d (op_state r) dec err (cf_now c n)"
    have cv: "cd_version cand = version" by (simp add: cand candidateOf_def Let_def)
    have sound: "candidate_sound cand"
      unfolding cand using mintVersionID_fresh [OF v]
      by (intro candidateOf_sound [OF valid bindings _ schema m]) simp
    show "op_scope ?r = (ph_domain h, ph_task h, po_id (ph_operation h))"
      by (simp add: r newOperation_def scopeOf_def)
    show "fresh_operation ?r cand"
      using sound by (simp add: fresh_operation_def r newOperation_def)
    show "map_of (ps_versions s) (cd_version cand) = None"
      using mintVersionID_fresh [OF v] by (simp add: cv)
    fix x
    assume "x \<in> set (cd_members cand)"
    then have "x \<in> set ms" by (simp add: cand candidateOf_def Let_def)
    with mintMembers_fresh [OF m] mint(1)
    show "map_of (ps_artifacts s) (mb_id x) = None \<and>
        map_of (ps_artifacts (commitDecision c h IntentPreparePublication d r dec err n
          (persistCandidate r h cand s2))) (mb_id x) \<noteq> None"
      by (auto simp: minting_def artifacts_kept_def persistCandidate_def Let_def)
  qed (use mintVersionID_fresh [OF v] mintMembers_minting [OF m] new in
      \<open>auto simp: minting_def persistCandidate_def streamOf_def artifacts_kept_def r newOperation_def Let_def\<close>)
  have idle: "mutation c s s2"
    if "mintVersionID s = Some (version, s1)"
      and "mintMembers (cf_nfc c) (ph_domain h) (ph_task h) specs s1 = Some (x, s2)"
    for version s1 specs x s2
    using that mintVersionID_fresh mintMembers_minting
    by (blast intro: minting_idle minting_trans)
  show ?thesis
  proof (cases "injectFault c FaultBeforeOperationJournal (po_id (ph_operation h))
      IntentPreparePublication [] = None \<and> ensureAuthority c (ph_authority h) IntentPreparePublication = None
      \<and> prepareRefusal s h p = None")
    case False
    with prep have "s' = s" by (auto simp: prepare_def Let_def split: option.splits)
    then show ?thesis by simp
  next
    case True
    with prep obtain version s1 x s2 where
      v: "mintVersionID s = Some (version, s1)" and
      m: "mintMembers (cf_nfc c) (ph_domain h) (ph_task h) ?specs s1 = Some (x, s2)"
      by (auto simp: prepare_def Let_def bind_eq_Some_conv)
    show ?thesis
    proof (cases "x = None \<or> injectFault c FaultBeforeCandidatePersistence (po_id (ph_operation h))
        IntentPreparePublication version \<noteq> None")
      case True
      with prep v m \<open>_ \<and> _ \<and> _\<close> have "s' = s2"
        by (auto simp: prepare_def Let_def split: option.splits)
      with idle [OF v m] show ?thesis by simp
    next
      case False
      then obtain ms where x: "x = Some ms" by auto
      have bindings: "validPrepareBindings p" using True prepareRefusal_bindings by blast
      show ?thesis
        using prep v m True False step [OF v m [unfolded x] refl refl bindings]
        by (auto simp: prepare_def Let_def x)
    qed
  qed
qed

section \<open>Every call is a step\<close>

lemma intentRefusal_None:
  "intentRefusal c i = None \<Longrightarrow> validIntent (cf_nfc c) i \<and>
     po_digest (ph_operation (intentHeader i)) = CanonicalRequestDigest (cf_hash c) i"
  by (auto simp: intentRefusal_def Let_def split: if_splits)

definition scopes_agree :: "InMemoryPersistence \<Rightarrow> bool" where
  "scopes_agree s \<longleftrightarrow> (\<forall>scope r. map_of (ps_operations s) scope = Some r \<longrightarrow> op_scope r = scope)"

lemma Mutate_mutation:
  assumes mutate: "Mutate c intent s = Some (ans, s')" and agree: "scopes_agree s"
  shows "mutation c s s'"
proof (cases intent)
  case None
  with mutate show ?thesis by (simp add: Mutate_def)
next
  case (Some i)
  show ?thesis
  proof (cases "intentRefusal c i")
    case (Some code)
    with mutate \<open>intent = Some i\<close> show ?thesis by (simp add: Mutate_def)
  next
    case None
    let ?scope = "scopeOf (intentHeader i)"
    show ?thesis
    proof (cases "map_of (ps_operations s) ?scope")
      case (Some r)
      with agree have scope: "op_scope r = ?scope" by (metis scopes_agree_def)
      with Some have "mutation c s (snd (mutateRecord c i d r s))" for d
        by (intro mutateRecord_mutation) simp_all
      moreover have "mutateRecord c i (CanonicalRequestDigest (cf_hash c) i) r s = (ans, s')"
        using mutate \<open>intent = Some i\<close> None Some by (simp add: Mutate_def Let_def)
      ultimately show ?thesis by (metis snd_conv)
    next
      case new: None
      show ?thesis
      proof (cases "\<exists>h p. i = PreparePublication h p")
        case True
        then obtain h p where i: "i = PreparePublication h p" by blast
        with mutate \<open>intent = Some i\<close> None new
        have "prepare c p h (CanonicalRequestDigest (cf_hash c) i) (scopeOf h) s = Some (ans, s')"
          by (simp add: Mutate_def Let_def)
          moreover have "validPreparePayload (cf_nfc c) p"
          and "schemaMajor (ph_schema h) = schemaMajor PubSchemaV1"
          using intentRefusal_None [OF None] by (simp_all add: i validIntent_def validPubHeader_def)
        ultimately show ?thesis using new i by (auto intro: prepare_mutation)
      next
        case False
        with mutate \<open>intent = Some i\<close> None new show ?thesis
          by (cases i) (auto simp: Mutate_def Let_def)
      qed
    qed
  qed
qed

section \<open>Reachable states\<close>

definition publication_call :: "InMemoryPersistence \<Rightarrow> InMemoryPersistence \<Rightarrow> bool" where
  "publication_call s s' \<longleftrightarrow> (\<exists>c intent ans. Mutate c intent s = Some (ans, s'))"

definition publication_reachable :: "InMemoryPersistence \<Rightarrow> bool" where
  "publication_reachable s \<longleftrightarrow> publication_call\<^sup>*\<^sup>* newPersistence s"

lemma core_step_scope: "core_step c r q \<Longrightarrow> op_scope q = op_scope r"
  by (induction rule: core_step.induct) (auto dest: runRelease_identity)

lemma record_step_scope: "record_step c r r' \<Longrightarrow> op_scope r' = op_scope r"
  by (induction rule: record_step.induct) (simp_all add: core_step_scope)

lemma mutation_scopes: "mutation c s s' \<Longrightarrow> scopes_agree s \<Longrightarrow> scopes_agree s'"
  by (induction rule: mutation.induct) (auto simp: scopes_agree_def record_step_scope)

lemma reachable_scopes: "publication_reachable s \<Longrightarrow> scopes_agree s"
  unfolding publication_reachable_def
proof (induction rule: rtranclp_induct)
  case base
  show ?case by (simp add: scopes_agree_def newPersistence_def)
next
  case (step s s')
  then show ?case by (auto simp: publication_call_def dest: Mutate_mutation mutation_scopes)
qed

text \<open>Invariants of the mutations are invariants of the authority.\<close>

lemma reachable_invariant:
  assumes reach: "publication_reachable s" and init: "P newPersistence"
    and step: "\<And>c s s'. mutation c s s' \<Longrightarrow> scopes_agree s \<Longrightarrow> P s \<Longrightarrow> P s'"
  shows "P s"
proof -
  have "publication_call\<^sup>*\<^sup>* newPersistence s" using reach by (simp add: publication_reachable_def)
  then have "scopes_agree s \<and> P s"
  proof (induction rule: rtranclp_induct)
    case base
    then show ?case using init by (simp add: scopes_agree_def newPersistence_def)
  next
    case (step t u)
    then obtain c intent ans where "Mutate c intent t = Some (ans, u)"
      by (auto simp: publication_call_def)
    then have "mutation c t u" using step.IH by (blast intro: Mutate_mutation)
    then show ?case using step.IH assms(3) mutation_scopes by blast
  qed
  then show ?thesis by blast
qed

end
