(* ===== verification/Pub_Lineage.thy ===== *)
theory Pub_Lineage
  imports Pub_Steps
begin

text \<open>
  The invariants of the durable state and the history of a task: version identities belong to
  one operation, a committed version is the snapshot of the candidate of an activated
  operation, and the versions of a task form one line in which each edits the one before.
\<close>

section \<open>Appending to a sorted view\<close>

lemma update_fresh: "map_of m k = None \<Longrightarrow> AList.update k v m = m @ [(k, v)]"
  by (induction m) (auto split: if_splits)

lemma insort_key_snoc: "f x \<le> f a \<Longrightarrow> insort_key f x (ys @ [a]) = insort_key f x ys @ [a]"
  by (induction ys) auto

lemma sort_key_snoc:
  "(\<And>x. x \<in> set xs \<Longrightarrow> f x \<le> f a) \<Longrightarrow> sort_key f (xs @ [a]) = sort_key f xs @ [a]"
  by (induction xs) (auto simp: insort_key_snoc)

section \<open>Records and candidates\<close>

lemma core_step_identity:
  "core_step c r q \<Longrightarrow> op_id q = op_id r \<and> op_request q = op_request r \<and>
     op_generation q = op_generation r \<and> op_fence q = op_fence r \<and>
     op_candidate q = op_candidate r \<and> op_outcomes q = op_outcomes r \<and> op_evidence q = op_evidence r"
  by (induction rule: core_step.induct) (auto dest: runRelease_identity)

lemma record_step_identity:
  "record_step c r r' \<Longrightarrow> op_id r' = op_id r \<and> op_request r' = op_request r \<and>
     op_generation r' = op_generation r \<and> op_fence r' = op_fence r \<and>
     op_candidate r' = op_candidate r \<and> op_evidence r' = op_evidence r"
  by (induction rule: record_step.induct) (simp_all add: core_step_identity)

text \<open>Which states a step can reach: the moves of the code outside activation.\<close>

fun operation_moves :: "PublicationOperationState \<Rightarrow> PublicationOperationState \<Rightarrow> bool" where
  "operation_moves OperationPrepared t \<longleftrightarrow> t \<noteq> OperationActivated"
| "operation_moves OperationReconciliationRequired t \<longleftrightarrow> t \<noteq> OperationActivated"
| "operation_moves OperationVerified t \<longleftrightarrow>
     t \<in> {OperationVerified, OperationActivated, OperationRejected, OperationCancelled}"
| "operation_moves s t \<longleftrightarrow> t = s"

fun operation_settled :: "PublicationOperationState \<Rightarrow> bool" where
  "operation_settled OperationActivated = True"
| "operation_settled OperationRejected = True"
| "operation_settled OperationCancelled = True"
| "operation_settled _ = False"

interpretation pub_ops: transition_table operation_moves operation_settled
proof
  fix s t
  assume "operation_settled s" and "operation_moves s t"
  then show "t = s" by (cases s) simp_all
qed

lemma operation_moves_refl [simp]: "operation_moves s s"
  by (cases s) simp_all

lemma verifyTransition_state:
  "op_state (verifyTransition r x) \<in> {OperationPrepared, OperationVerified, OperationReconciliationRequired}"
  by (auto simp: verifyTransition_def split: sum.split prod.split)

lemma completedVerification_state:
  "op_state (completedVerification c r) = op_state r \<or>
     op_state r = OperationReconciliationRequired \<and>
     op_state (completedVerification c r) \<in> {OperationPrepared, OperationVerified}"
  by (auto simp: completedVerification_def split: option.split sum.split bool.split)

lemma core_step_moves:
  "core_step c r q \<Longrightarrow> operation_moves (op_state r) (op_state q) \<and>
     (op_state q = OperationActivated \<longrightarrow> op_state r = OperationActivated)"
proof (induction rule: core_step.induct)
  case (evaluated r cand h v)
  then show ?case using verifyTransition_state [of r "evaluateEvidence c cand h v"] by auto
next
  case (completed r mode)
  then show ?case using completedVerification_state [of c r] by auto
next
  case (released h r operation reconciling ans r')
  then show ?case by (simp add: runRelease_identity)
next
  case (release_reconciled h r mode operation reconciling ans r')
  then show ?case using runRelease_identity [OF release_reconciled] by simp
qed (auto simp: open_state_def)

lemma record_step_moves:
  "record_step c r r' \<Longrightarrow> operation_moves (op_state r) (op_state r') \<and>
     (op_state r' = OperationActivated \<longrightarrow> op_state r = OperationActivated)"
  by (induction rule: record_step.induct) (simp_all add: core_step_moves)

section \<open>The invariant\<close>

text \<open>Every operation has a sound candidate, whose version belongs to it alone.\<close>

definition owns_version :: "InMemoryPersistence \<Rightarrow> operationScope \<Rightarrow> operationRecord \<Rightarrow> bool" where
  "owns_version s scope r =
     (case op_candidate r of
        None \<Rightarrow> False
      | Some cand \<Rightarrow>
          candidate_sound cand \<and> map_of (ps_versions s) (cd_version cand) \<noteq> None \<and>
          map_of (ps_index s) (cd_version cand) = Some scope)"

definition candidates_ok :: "InMemoryPersistence \<Rightarrow> bool" where
  "candidates_ok s \<longleftrightarrow>
     (\<forall>scope r. map_of (ps_operations s) scope = Some r \<longrightarrow> owns_version s scope r)"

text \<open>A committed version is the snapshot of an activated operation, and the other way round.\<close>

definition snapshot_of :: "activatedRecord \<Rightarrow> operationRecord \<Rightarrow> bool" where
  "snapshot_of a r \<longleftrightarrow>
     op_state r = OperationActivated \<and> op_scope r = (av_domain a, av_task a, av_operation a) \<and>
     op_evidence r = Some (av_evidence a) \<and>
     (\<exists>cand. op_candidate r = Some cand \<and> av_version a = cd_version cand \<and>
        av_kind a = cd_kind cand \<and> av_parent a = cd_parent cand \<and>
        av_members a = cd_members cand \<and> av_manifest a = cd_manifest cand \<and>
        av_lineage a = cd_lineage cand \<and> av_schema a = cd_schema cand)"

definition versions_ok :: "InMemoryPersistence \<Rightarrow> bool" where
  "versions_ok s \<longleftrightarrow>
     distinct (map fst (ps_activated s)) \<and>
     (\<forall>v a. map_of (ps_activated s) v = Some a \<longrightarrow> av_version a = v \<and>
        (\<exists>r. map_of (ps_operations s) (av_domain a, av_task a, av_operation a) = Some r \<and>
             snapshot_of a r))"

lemma candidates_okD:
  "candidates_ok s \<Longrightarrow> map_of (ps_operations s) scope = Some r \<Longrightarrow> owns_version s scope r"
  unfolding candidates_ok_def by blast

lemma owns_version_same:
  "op_candidate r' = op_candidate r \<Longrightarrow> ps_versions s' = ps_versions s \<Longrightarrow> ps_index s' = ps_index s \<Longrightarrow>
     owns_version s' scope r' = owns_version s scope r"
  by (simp add: owns_version_def split: option.split)

lemma candidates_ok_update:
  assumes "candidates_ok s" and "map_of (ps_operations s) scope = Some r"
    and "op_candidate r' = op_candidate r" and "ps_versions s' = ps_versions s"
    and "ps_index s' = ps_index s" and ops: "ps_operations s' = AList.update scope r' (ps_operations s)"
  shows "candidates_ok s'"
  unfolding candidates_ok_def
proof (intro allI impI)
  fix p q
  assume q: "map_of (ps_operations s') p = Some q"
  show "owns_version s' p q"
  proof (cases "p = scope")
    case True
    with q ops have "q = r'" by simp
    with True candidates_okD [OF assms(1,2)] owns_version_same [OF assms(3-5)] show ?thesis by simp
  next
    case False
    with q ops have "map_of (ps_operations s) p = Some q" by simp
    from candidates_okD [OF assms(1) this] owns_version_same [OF refl assms(4,5)] show ?thesis by simp
  qed
qed

lemma mutation_candidates:
  "mutation c s s' \<Longrightarrow> candidates_ok s \<Longrightarrow> candidates_ok s'"
proof (induction rule: mutation.induct)
  case (idle s' s)
  then show ?case unfolding candidates_ok_def by (metis owns_version_same)
next
  case (prepared s r cand domain task operation s')
  show ?case
    unfolding candidates_ok_def
  proof (intro allI impI)
    fix scope q
    assume q: "map_of (ps_operations s') scope = Some q"
    show "owns_version s' scope q"
    proof (cases "scope = op_scope r")
      case True
      with q prepared.hyps have "q = r" by simp
      with True prepared.hyps show ?thesis by (simp add: fresh_operation_def owns_version_def)
    next
      case False
      with q prepared.hyps have "map_of (ps_operations s) scope = Some q" by simp
      from candidates_okD [OF prepared.prems this] show ?thesis
        using prepared.hyps by (auto simp: owns_version_def split: option.splits)
    qed
  qed
next
  case (stepped s r r' s')
  then show ?case by (auto intro: candidates_ok_update dest: record_step_identity)
next
  case (activated s r cand h revision a evidence at r' d dec err t s')
  show ?case
    by (rule candidates_ok_update [OF activated.prems activated.hyps(1)]) (simp_all add: activated.hyps)
qed

lemma same_version_same_operation:
  assumes "candidates_ok s" and "map_of (ps_operations s) p = Some q" "op_candidate q = Some cq"
    and "map_of (ps_operations s) p' = Some q'" "op_candidate q' = Some cq'"
    and "cd_version cq = cd_version cq'"
  shows "p = p'"
  using candidates_okD [OF assms(1,2)] candidates_okD [OF assms(1,4)] assms(3,5,6)
  by (simp add: owns_version_def)

text \<open>A verified operation has not committed its version yet.\<close>

lemma verified_not_committed:
  assumes "candidates_ok s" and "versions_ok s" and "scopes_agree s"
    and r: "map_of (ps_operations s) (op_scope r) = Some r" "op_state r = OperationVerified"
    and cand: "op_candidate r = Some cand"
  shows "map_of (ps_activated s) (cd_version cand) = None"
proof (rule ccontr)
  assume "\<not> ?thesis"
  then obtain a where "map_of (ps_activated s) (cd_version cand) = Some a" by blast
  with assms(2) obtain q where
    q: "map_of (ps_operations s) (av_domain a, av_task a, av_operation a) = Some q"
    "snapshot_of a q" "av_version a = cd_version cand"
    unfolding versions_ok_def by metis
  then obtain cq where "op_candidate q = Some cq" "cd_version cq = cd_version cand"
    by (auto simp: snapshot_of_def)
  with assms(1) r(1) cand q(1) have "(av_domain a, av_task a, av_operation a) = op_scope r"
    by (metis same_version_same_operation)
  with q r(1) have "q = r" by simp
  with q(2) r(2) show False by (simp add: snapshot_of_def)
qed

lemma snapshot_kept:
  assumes "snapshot_of a r" and "record_step c r r'"
  shows "snapshot_of a r'"
proof -
  have "op_state r' = OperationActivated"
    using assms record_step_moves [OF assms(2)] by (simp add: snapshot_of_def)
  then show ?thesis
    using assms record_step_identity [OF assms(2)] record_step_scope [OF assms(2)]
    by (simp add: snapshot_of_def)
qed

lemma mutation_versions:
  "mutation c s s' \<Longrightarrow> scopes_agree s \<Longrightarrow> candidates_ok s \<Longrightarrow> versions_ok s \<Longrightarrow> versions_ok s'"
proof (induction rule: mutation.induct)
  case (idle s' s)
  then show ?case by (simp add: versions_ok_def)
next
  case (prepared s r cand domain task operation s')
  have "map_of (ps_operations s') k = Some q" if "map_of (ps_operations s) k = Some q" for k q
    using that prepared.hyps by auto
  with prepared show ?case unfolding versions_ok_def by metis
next
  case (stepped s r r' s')
  have "\<exists>q'. map_of (ps_operations s') k = Some q' \<and> snapshot_of a q'"
    if "map_of (ps_operations s) k = Some q" "snapshot_of a q" for k q a
    using that stepped.hyps snapshot_kept by (cases "k = op_scope r") auto
  with stepped show ?case unfolding versions_ok_def by metis
next
  case (activated s r cand h revision a evidence at r' d dec err t s')
  have fresh: "map_of (ps_activated s) (cd_version cand) = None"
    using activated by (intro verified_not_committed) simp_all
  have a: "snapshot_of a r'" "(av_domain a, av_task a, av_operation a) = op_scope r"
    "av_version a = cd_version cand"
    using activated.hyps by (simp_all add: snapshot_of_def activatedOf_def scopeOf_def)
  have old: "\<exists>q'. map_of (ps_operations s') k = Some q' \<and> snapshot_of b q'"
    if "map_of (ps_operations s) k = Some q" "snapshot_of b q" for k q b
    using that activated.hyps by (cases "k = op_scope r") (auto simp: snapshot_of_def)
  show ?case
    unfolding versions_ok_def
  proof (intro conjI allI impI)
    show "distinct (map fst (ps_activated s'))"
      using activated.prems(3) activated.hyps by (simp add: versions_ok_def distinct_update)
  next
    fix v b
    assume b: "map_of (ps_activated s') v = Some b"
    show "av_version b = v"
      using b activated.hyps activated.prems(3) a(3) by (auto simp: versions_ok_def split: if_splits)
  next
    fix v b
    assume b: "map_of (ps_activated s') v = Some b"
    show "\<exists>q. map_of (ps_operations s') (av_domain b, av_task b, av_operation b) = Some q \<and> snapshot_of b q"
    proof (cases "v = cd_version cand")
      case True
      with b activated.hyps have "b = a" by simp
      with a activated.hyps show ?thesis by simp
    next
      case False
      with b activated.hyps have "map_of (ps_activated s) v = Some b" by simp
      with activated.prems(3) old show ?thesis unfolding versions_ok_def by metis
    qed
  qed
qed

end
