(* ===== verification/Pub_History.thy ===== *)
theory Pub_History
  imports Pub_Lineage
begin

text \<open>
  The history of a task against its specification. Abstractly the authority keeps, for every
  task, a list of versions, and the one thing that ever happens to it is that a version is
  appended whose parent is the last one (\<open>history_step\<close>). Every call of \<open>Mutate\<close> is such a
  step on the history that \<open>activatedVersionsForTask\<close> reads from the durable state, so the
  lists only grow, at their end, and each is one line of edits.

  The stream revision is a \<open>uint64\<close> that is incremented per version: the results hold while
  fewer than \<open>2 ^ 64\<close> versions are committed.
\<close>

section \<open>The specification\<close>

type_synonym history = "taskScope \<Rightarrow> activatedRecord list"

definition last_version :: "activatedRecord list \<Rightarrow> string" where
  "last_version vs = (if vs = [] then [] else av_version (last vs))"

text \<open>
  The version \<open>a\<close> may follow the list \<open>vs\<close>: it has the next revision; it is a first generation
  exactly on the empty list, and otherwise an edit of the last version.
\<close>

definition follows :: "activatedRecord list \<Rightarrow> activatedRecord \<Rightarrow> bool" where
  "follows vs a \<longleftrightarrow>
     unat (av_revision a) = Suc (length vs) \<and> av_version a \<noteq> [] \<and> av_parent a = last_version vs \<and>
     av_kind a = (if vs = [] then PublicationKindFirstGeneration else PublicationKindManualEdit)"

inductive history_step :: "history \<Rightarrow> history \<Rightarrow> bool" where
  stay: "history_step H H"
| publish: "follows (H t) a \<Longrightarrow> history_step H (H(t := H t @ [a]))"

text \<open>One line of edits, read from its front.\<close>

definition linear :: "activatedRecord list \<Rightarrow> bool" where
  "linear vs \<longleftrightarrow> (\<forall>n < length vs. follows (take n vs) (vs ! n))"

lemma linear_Nil [simp]: "linear []"
  by (simp add: linear_def)

lemma linear_snoc: "linear (vs @ [a]) \<longleftrightarrow> linear vs \<and> follows vs a"
proof
  assume l: "linear (vs @ [a])"
  have "follows (take n vs) (vs ! n)" if "n < length vs" for n
    using l that unfolding linear_def
    by (metis length_append_singleton less_SucI nth_append take_append less_imp_le
        append_Nil2 diff_is_0_eq take_0)
  moreover have "follows vs a"
    using l unfolding linear_def by (metis length_append_singleton lessI nth_append_length
        append_eq_conv_conj)
  ultimately show "linear vs \<and> follows vs a" by (simp add: linear_def)
next
  assume "linear vs \<and> follows vs a"
  then show "linear (vs @ [a])"
    by (auto simp: linear_def nth_append less_Suc_eq)
qed

lemma history_step_linear: "history_step H H' \<Longrightarrow> (\<And>t. linear (H t)) \<Longrightarrow> linear (H' t)"
  by (induction rule: history_step.induct) (simp_all add: linear_snoc)

lemma history_step_prefix: "history_step H H' \<Longrightarrow> \<exists>new. H' t = H t @ new \<and> length new \<le> 1"
  by (induction rule: history_step.induct) auto

section \<open>The history of the durable state\<close>

definition history_of :: "InMemoryPersistence \<Rightarrow> history" where
  "history_of s = (\<lambda>(domain, task). activatedVersionsForTask s domain task)"

definition in_task :: "taskScope \<Rightarrow> activatedRecord \<Rightarrow> bool" where
  "in_task t a \<longleftrightarrow> (av_domain a, av_task a) = t"

lemma history_of_alt:
  "history_of s t = sort_key av_revision (filter (in_task t) (map snd (ps_activated s)))"
  by (cases t) (simp add: history_of_def activatedVersionsForTask_def in_task_def cong: filter_cong)

lemma history_of_same: "ps_activated s' = ps_activated s \<Longrightarrow> history_of s' = history_of s"
  by (simp add: history_of_alt fun_eq_iff)

lemma length_history: "length (history_of s t) \<le> length (ps_activated s)"
  using length_filter_le [of "in_task t" "map snd (ps_activated s)"] by (simp add: history_of_alt)

text \<open>What the stream of a task says of its history.\<close>

definition stream_fits :: "activatedRecord list \<Rightarrow> streamRecord \<Rightarrow> bool" where
  "stream_fits vs m \<longleftrightarrow> unat (sm_revision m) = length vs \<and> sm_head m = last_version vs"

definition histories_ok :: "InMemoryPersistence \<Rightarrow> bool" where
  "histories_ok s \<longleftrightarrow>
     (length (ps_activated s) < 2 ^ 64 \<longrightarrow>
        (\<forall>t. linear (history_of s t) \<and> stream_fits (history_of s t) (streamOf s t)))"

lemma linear_revision:
  assumes "linear vs" and "a \<in> set vs"
  shows "unat (av_revision a) \<le> length vs"
proof -
  from assms(2) obtain n where "n < length vs" "a = vs ! n" by (auto simp: in_set_conv_nth)
  with assms(1) show ?thesis by (simp add: linear_def follows_def)
qed

lemma history_of_commit:
  assumes fresh: "map_of (ps_activated s) v = None"
    and act: "ps_activated s' = AList.update v a (ps_activated s)"
    and lin: "linear (history_of s (av_domain a, av_task a))"
    and rev: "unat (av_revision a) = Suc (length (history_of s (av_domain a, av_task a)))"
  shows "history_of s' = (history_of s)((av_domain a, av_task a) :=
           history_of s (av_domain a, av_task a) @ [a])"
proof (rule ext)
  fix t
  let ?t = "(av_domain a, av_task a)"
  have act': "ps_activated s' = ps_activated s @ [(v, a)]"
    using act fresh by (simp add: update_fresh)
  show "history_of s' t = ((history_of s)(?t := history_of s ?t @ [a])) t"
  proof (cases "t = ?t")
    case True
    have le: "av_revision b \<le> av_revision a" if "b \<in> set (filter (in_task ?t) (map snd (ps_activated s)))" for b
    proof -
      have "b \<in> set (history_of s ?t)" using that by (simp add: history_of_alt)
      from linear_revision [OF lin this] rev show ?thesis by (simp add: word_le_nat_alt)
    qed
    then show ?thesis
      using True sort_key_snoc [of "filter (in_task ?t) (map snd (ps_activated s))" av_revision a] le
      by (simp add: history_of_alt act' in_task_def [of ?t a])
  next
    case False
    then show ?thesis by (simp add: history_of_alt act' in_task_def [of t a])
  qed
qed

lemma activateRefusal_None:
  assumes "activateRefusal s h cand = None"
  shows "ph_head h = sm_head (streamOf s (ph_domain h, ph_task h)) \<and>
    (cd_kind cand = PublicationKindFirstGeneration \<longrightarrow> cd_parent cand = [] \<and> ph_head h = []) \<and>
    (cd_kind cand = PublicationKindManualEdit \<longrightarrow> cd_parent cand \<noteq> [] \<and>
       cd_parent cand = sm_head (streamOf s (ph_domain h, ph_task h)))"
  using assms by (auto simp: activateRefusal_def Let_def split: if_splits)

lemma linear_head_nonempty: "linear vs \<Longrightarrow> vs \<noteq> [] \<Longrightarrow> last_version vs \<noteq> []"
  by (cases vs rule: rev_cases) (simp_all add: linear_snoc last_version_def follows_def)

text \<open>An accepted activation follows the history of its task.\<close>

lemma activation_follows:
  assumes refusal: "activateRefusal s h cand = None" and sound: "candidate_sound cand"
    and lin: "linear vs" and fits: "stream_fits vs (streamOf s (ph_domain h, ph_task h))"
    and room: "Suc (length vs) < 2 ^ 64"
  shows "follows vs (activatedOf h cand (sm_revision (streamOf s (ph_domain h, ph_task h)) + 1) ev at)"
proof -
  let ?m = "streamOf s (ph_domain h, ph_task h)"
  note facts = activateRefusal_None [OF refusal]
  have head: "sm_head ?m = last_version vs" and rev: "unat (sm_revision ?m) = length vs"
    using fits by (simp_all add: stream_fits_def)
  have "unat (sm_revision ?m + 1) = Suc (length vs)"
    using room rev by (simp add: unat_word_ariths)
  moreover have "cd_parent cand = last_version vs \<and>
      cd_kind cand = (if vs = [] then PublicationKindFirstGeneration else PublicationKindManualEdit)"
    using sound facts head linear_head_nonempty [OF lin]
    by (auto simp: candidate_sound_def validPublicationKind_def last_version_def)
  ultimately show ?thesis
    using sound by (simp add: follows_def activatedOf_def candidate_sound_def)
qed

section \<open>Every mutation is a step of the specification\<close>

lemma length_update_mono: "length m \<le> length (AList.update k v m)"
  by (induction m) auto

lemma mutation_activated_grows: "mutation c s s' \<Longrightarrow> length (ps_activated s) \<le> length (ps_activated s')"
  by (induction rule: mutation.induct) (simp_all add: length_update_mono)

lemma streamOf_prepared:
  "ps_streams s' = AList.update t (streamOf s t) (ps_streams s) \<Longrightarrow> streamOf s' u = streamOf s u"
  by (simp add: streamOf_def)

lemma mutation_history:
  assumes mut: "mutation c s s'" and agree: "scopes_agree s" and cands: "candidates_ok s"
    and vers: "versions_ok s" and hist: "histories_ok s"
    and room: "length (ps_activated s') < 2 ^ 64"
  shows "history_step (history_of s) (history_of s') \<and>
    (\<forall>t. stream_fits (history_of s' t) (streamOf s' t))"
proof -
  have room': "length (ps_activated s) < 2 ^ 64"
    using mutation_activated_grows [OF mut] room by simp
  with hist have lin: "linear (history_of s t)" and fits: "stream_fits (history_of s t) (streamOf s t)" for t
    unfolding histories_ok_def by blast+
  have same: "history_step (history_of s) (history_of s') \<and>
      (\<forall>t. stream_fits (history_of s' t) (streamOf s' t))"
    if "ps_activated s' = ps_activated s" and "\<And>t. streamOf s' t = streamOf s t"
    using that fits history_of_same [OF that(1)] by (simp add: stay)
  from mut show ?thesis
  proof cases
    case idle
    then show ?thesis by (intro same) (simp_all add: streamOf_def)
  next
    case (prepared r cand domain task operation)
    then show ?thesis using streamOf_prepared by (intro same) blast+
  next
    case (stepped r r')
    then show ?thesis by (intro same) (simp_all add: streamOf_def)
  next
    case (activated r cand h revision a evidence at r' d dec err t)
    let ?t = "(ph_domain h, ph_task h)"
    have fresh: "map_of (ps_activated s) (cd_version cand) = None"
      using activated agree cands vers by (intro verified_not_committed) simp_all
    have sound: "candidate_sound cand"
      using candidates_okD [OF cands activated(1)] activated(3) by (simp add: owns_version_def)
    have "length (history_of s' ?t) \<le> length (ps_activated s')" by (rule length_history)
    have "length (history_of s ?t) \<le> length (ps_activated s)" by (rule length_history)
    moreover have "length (ps_activated s') = Suc (length (ps_activated s))"
      using activated fresh by (simp add: update_fresh)
    ultimately have more: "Suc (length (history_of s ?t)) < 2 ^ 64" using room by simp
    have fol: "follows (history_of s ?t) a"
      unfolding activated by (rule activation_follows [OF activated(4) sound lin fits more])
    have task: "av_domain a = ph_domain h" "av_task a = ph_task h"
      and ver: "av_version a = cd_version cand" and rev: "av_revision a = revision"
      by (simp_all add: activated activatedOf_def)
    have hist': "history_of s' = (history_of s)(?t := history_of s ?t @ [a])"
      using history_of_commit [OF fresh activated(14)] lin fol task by (simp add: follows_def)
    have "history_step (history_of s) (history_of s')"
      unfolding hist' by (rule history_step.publish [of "history_of s" ?t a, OF fol])
    moreover have "stream_fits (history_of s' u) (streamOf s' u)" for u
    proof (cases "u = ?t")
      case True
      with fol activated ver rev show ?thesis
        by (simp add: hist' stream_fits_def streamOf_def last_version_def follows_def)
    next
      case False
      with fits [of u] activated show ?thesis by (simp add: hist' streamOf_def)
    qed
    ultimately show ?thesis by blast
  qed
qed

definition publication_ok :: "InMemoryPersistence \<Rightarrow> bool" where
  "publication_ok s \<longleftrightarrow> candidates_ok s \<and> versions_ok s \<and> histories_ok s"

lemma mutation_publication_ok:
  assumes "mutation c s s'" and "scopes_agree s" and "publication_ok s"
  shows "publication_ok s'"
proof -
  have ok: "candidates_ok s" "versions_ok s" "histories_ok s"
    using assms(3) by (simp_all add: publication_ok_def)
  have "histories_ok s'"
    unfolding histories_ok_def
  proof (intro impI allI)
    fix t
    assume room: "length (ps_activated s') < 2 ^ 64"
    then have "length (ps_activated s) < 2 ^ 64"
      using mutation_activated_grows [OF assms(1)] by simp
    with ok(3) have "\<And>u. linear (history_of s u)" unfolding histories_ok_def by blast
    with mutation_history [OF assms(1,2) ok room] history_step_linear
    show "linear (history_of s' t) \<and> stream_fits (history_of s' t) (streamOf s' t)" by blast
  qed
  then show ?thesis
    using mutation_candidates [OF assms(1) ok(1)] mutation_versions [OF assms(1,2) ok(1,2)]
    by (simp add: publication_ok_def)
qed

lemma publication_ok_initial: "publication_ok newPersistence"
  by (auto simp: publication_ok_def candidates_ok_def versions_ok_def histories_ok_def history_of_alt
      stream_fits_def streamOf_def last_version_def newPersistence_def)

lemma reachable_ok: "publication_reachable s \<Longrightarrow> publication_ok s"
  by (erule reachable_invariant [where P = publication_ok])
    (auto intro: publication_ok_initial mutation_publication_ok)

text \<open>A call keeps the shape of the history, from the invariant of the state it starts in.\<close>

lemma Mutate_history:
  assumes "publication_reachable s" and "Mutate c intent s = Some (ans, s')"
    and "length (ps_activated s') < 2 ^ 64"
  shows "history_step (history_of s) (history_of s')"
proof -
  note agree = reachable_scopes [OF assms(1)]
  have "candidates_ok s" "versions_ok s" "histories_ok s"
    using reachable_ok [OF assms(1)] by (simp_all add: publication_ok_def)
  from mutation_history [OF Mutate_mutation [OF assms(2) agree] agree this assms(3)]
  show ?thesis by blast
qed

end
