(* ===== verification/Pub_Gate.thy ===== *)
theory Pub_Gate
  imports Pub_History
begin

text \<open>
  The evidence gate against its specification (\<open>evidence_complete\<close>): what the evaluation
  accepts, said record by record without its order of tests; and what that makes of the
  durable state: a verified or activated operation has recorded the acceptance of every
  reference its candidate pins.
\<close>

section \<open>Indexing by a key\<close>

text \<open>The record that counts for a key is the last one presented under it.\<close>

definition last_by :: "('e \<Rightarrow> string) \<Rightarrow> 'e list \<Rightarrow> string \<Rightarrow> 'e option" where
  "last_by key es k = find_elem (\<lambda>e. key e = k) (rev es)"

lemma find_elem_join:
  "find_elem P (xs @ ys) = (case find_elem P xs of None \<Rightarrow> find_elem P ys | Some x \<Rightarrow> Some x)"
  by (induction xs) auto

lemma last_by_simps [simp]:
  "last_by key [] k = None"
  "last_by key (e # es) k = (case last_by key es k of None \<Rightarrow> if key e = k then Some e else None | Some x \<Rightarrow> Some x)"
  by (simp_all add: last_by_def find_elem_join split: option.split)

text \<open>Records under one key carry one identity.\<close>

definition one_identity :: "('e \<Rightarrow> string) \<Rightarrow> ('e \<Rightarrow> string) \<Rightarrow> 'e list \<Rightarrow> bool" where
  "one_identity key identity es \<longleftrightarrow>
     (\<forall>e \<in> set es. \<forall>e' \<in> set es. key e = key e' \<longrightarrow> identity e = identity e')"

lemma one_identity_Cons:
  "one_identity key identity (e # es) \<longleftrightarrow>
     one_identity key identity es \<and> (\<forall>f \<in> set es. key f = key e \<longrightarrow> identity e = identity f)"
proof
  assume "one_identity key identity (e # es)"
  then show "one_identity key identity es \<and> (\<forall>f \<in> set es. key f = key e \<longrightarrow> identity e = identity f)"
    unfolding one_identity_def by (metis list.set_intros)
next
  assume *: "one_identity key identity es \<and> (\<forall>f \<in> set es. key f = key e \<longrightarrow> identity e = identity f)"
  show "one_identity key identity (e # es)"
    unfolding one_identity_def
  proof (intro ballI impI)
    fix a b
    assume "a \<in> set (e # es)" "b \<in> set (e # es)" "key a = key b"
    with * show "identity a = identity b"
      unfolding one_identity_def by (metis set_ConsD)
  qed
qed

lemma index_by_result:
  "index_by key identity dup es m = Inr m' \<Longrightarrow>
     map_of m' k = (case last_by key es k of None \<Rightarrow> map_of m k | Some e \<Rightarrow> Some e)"
  by (induction es arbitrary: m) (auto split: option.splits if_splits)

lemma index_by_accepts:
  "(\<exists>m'. index_by key identity dup es m = Inr m') \<longleftrightarrow>
     one_identity key identity es \<and>
     (\<forall>e \<in> set es. \<forall>x. map_of m (key e) = Some x \<longrightarrow> identity x = identity e)"
proof (induction es arbitrary: m)
  case Nil
  then show ?case by (simp add: one_identity_def)
next
  case (Cons e es)
  show ?case
  proof (cases "\<exists>x. map_of m (key e) = Some x \<and> identity x \<noteq> identity e")
    case True
    then show ?thesis by auto
  next
    case False
    then have "(\<exists>m'. index_by key identity dup (e # es) m = Inr m') \<longleftrightarrow>
        (\<exists>m'. index_by key identity dup es (AList.update (key e) e m) = Inr m')"
      by (auto split: option.split)
    also have "\<dots> \<longleftrightarrow> one_identity key identity es \<and>
        (\<forall>f \<in> set es. \<forall>x. map_of (AList.update (key e) e m) (key f) = Some x \<longrightarrow> identity x = identity f)"
      by (rule Cons.IH)
    also have "\<dots> \<longleftrightarrow> one_identity key identity es \<and>
        (\<forall>f \<in> set es. (key f = key e \<longrightarrow> identity e = identity f) \<and>
           (\<forall>x. map_of m (key f) = Some x \<longrightarrow> identity x = identity f))"
      using False by (intro conj_cong refl ball_cong) (auto split: if_splits; metis)
    also have "\<dots> \<longleftrightarrow> one_identity key identity (e # es) \<and>
        (\<forall>f \<in> set (e # es). \<forall>x. map_of m (key f) = Some x \<longrightarrow> identity x = identity f)"
      using False unfolding one_identity_Cons by (simp add: ball_conj_distrib)
    finally show ?thesis .
  qed
qed

section \<open>Complete evidence\<close>

definition runtime_proved ::
    "PubConfig \<Rightarrow> candidateRecord \<Rightarrow> PublicationIntentHeader \<Rightarrow> RuntimeEvidenceRef \<Rightarrow> RuntimeEvidence \<Rightarrow> bool" where
  "runtime_proved c cand h ref e \<longleftrightarrow>
     re_id e = rr_id ref \<and> re_digest e = rr_digest ref \<and> validDigest (re_digest e) \<and>
     re_digest e = runtimeEvidenceDigest (cf_hash c) e \<and>
     pr_authority (re_producer e) = cf_runtime c \<and> re_domain e = ph_domain h \<and>
     re_task e = ph_task h \<and> re_phase_run e = cd_phase_run cand \<and> re_epoch e = ph_epoch h \<and>
     re_outcome e = ''completed''"

definition validation_proved ::
    "PubConfig \<Rightarrow> candidateRecord \<Rightarrow> PublicationIntentHeader \<Rightarrow> RuntimeEvidence list \<Rightarrow> ValidationEvidence \<Rightarrow> bool" where
  "validation_proved c cand h runtime v \<longleftrightarrow>
     ve_id v = er_id (cd_validation_ref cand) \<and> ve_digest v = er_digest (cd_validation_ref cand) \<and>
     validDigest (ve_digest v) \<and> ve_digest v = validationEvidenceDigest (cf_hash c) v \<and>
     pr_authority (ve_producer v) = cf_validation c \<and> ve_domain v = ph_domain h \<and>
     ve_task v = ph_task h \<and> ve_contract v = cd_contract cand \<and> ve_epoch v = ph_epoch h \<and>
     sameEvidenceRefSet (ve_runtime_refs v) (runtimeEvidenceRefs runtime)"

definition commit_proved ::
    "PubConfig \<Rightarrow> candidateRecord \<Rightarrow> PublicationIntentHeader \<Rightarrow> ValidationEvidence \<Rightarrow> C04CommitEvidence \<Rightarrow> bool" where
  "commit_proved c cand h v e \<longleftrightarrow>
     ce_id e = er_id (cd_c04_ref cand) \<and> ce_digest e = er_digest (cd_c04_ref cand) \<and>
     validDigest (ce_digest e) \<and> ce_digest e = commitEvidenceDigest (cf_hash c) e \<and>
     pr_authority (ce_producer e) = cf_c04 c \<and> ce_domain e = ph_domain h \<and> ce_task e = ph_task h \<and>
     ce_validation e = ve_id v \<and> ce_validation_digest e = ve_digest v \<and> ce_epoch e = ph_epoch h \<and>
     ce_content_root e \<noteq> [] \<and> ce_durability_root e \<noteq> [] \<and>
     (cd_kind cand = PublicationKindManualEdit \<longrightarrow>
        (case ce_export e of None \<Rightarrow> False | Some x \<Rightarrow> exportFits (cf_hash c) c cand h v e x))"

text \<open>A presented capability that fits its reference, and one that is current as well.\<close>

definition capability_presented ::
    "PubConfig \<Rightarrow> candidateRecord \<Rightarrow> PublicationIntentHeader \<Rightarrow> ContentCapabilityRef \<Rightarrow>
     ContentCapabilityEvidence \<Rightarrow> bool" where
  "capability_presented c cand h ref e \<longleftrightarrow>
     cc_id e = cr_id ref \<and> cc_digest e = cr_digest ref \<and> validDigest (cc_digest e) \<and>
     cc_digest e = capabilityEvidenceDigest (cf_hash c) e \<and>
     (case stagingBySlot cand (cr_slot ref) of
        None \<Rightarrow> False
      | Some staged \<Rightarrow> capabilityFits c h (memberBySlot cand (cr_slot ref)) staged e)"

definition capability_current :: "PubConfig \<Rightarrow> ContentCapabilityEvidence \<Rightarrow> bool" where
  "capability_current c e =
     (case currentContentCapability c (cc_id e) of
        None \<Rightarrow> False | Some current \<Rightarrow> cc_digest current = cc_digest e)"

definition pinned_by ::
    "('r \<Rightarrow> string) \<Rightarrow> ('e \<Rightarrow> string) \<Rightarrow> 'e list \<Rightarrow> ('r \<Rightarrow> 'e \<Rightarrow> bool) \<Rightarrow> 'r \<Rightarrow> bool" where
  "pinned_by rkey key es proved ref =
     (case last_by key es (rkey ref) of None \<Rightarrow> False | Some e \<Rightarrow> proved ref e)"

definition evidence_complete ::
    "PubConfig \<Rightarrow> candidateRecord \<Rightarrow> PublicationIntentHeader \<Rightarrow> VerifyPublicationPayload \<Rightarrow> bool" where
  "evidence_complete c cand h v \<longleftrightarrow>
     length (vp_runtime v) = length (cd_channels cand) \<and>
     one_identity re_channel re_id (vp_runtime v) \<and>
     (\<forall>ref \<in> set (cd_runtime_refs cand).
        pinned_by rr_channel re_channel (vp_runtime v)
          (\<lambda>ref e. runtime_proved c cand h ref e \<and> re_proposal e = ve_proposal (vp_validation v)) ref) \<and>
     validation_proved c cand h (vp_runtime v) (vp_validation v) \<and>
     commit_proved c cand h (vp_validation v) (vp_c04 v) \<and>
     length (vp_capabilities v) = length (cd_members cand) \<and>
     one_identity cc_slot cc_id (vp_capabilities v) \<and>
     (\<forall>ref \<in> set (cd_capability_refs cand).
        pinned_by cr_slot cc_slot (vp_capabilities v)
          (\<lambda>ref e. capability_presented c cand h ref e \<and> capability_current c e) ref)"

section \<open>The steps of the evaluation\<close>

lemma acceptRuntime_Inr:
  "acceptRuntime (cf_hash c) c cand h ref found = Inr e \<longleftrightarrow> found = Some e \<and> runtime_proved c cand h ref e"
  by (auto simp: acceptRuntime_def runtime_proved_def split: option.split)

lemma acceptRuntimeRefs_Inr:
  "acceptRuntimeRefs (cf_hash c) c cand h m refs = Inr es \<longleftrightarrow>
     list_all2 (\<lambda>ref e. map_of m (rr_channel ref) = Some e \<and> runtime_proved c cand h ref e) refs es"
proof (induction refs arbitrary: es)
  case Nil
  then show ?case by auto
next
  case (Cons ref refs)
  then show ?case by (auto simp: result_simps acceptRuntime_Inr list_all2_Cons1)
qed

lemma acceptValidation_Inr:
  "acceptValidation (cf_hash c) c cand h proposal runtime v = Inr u \<longleftrightarrow>
     validation_proved c cand h runtime v \<and> ve_proposal v = proposal"
  by (auto simp: acceptValidation_def validation_proved_def)

lemma acceptCommit_Inr:
  "acceptCommit (cf_hash c) c cand h v e = Inr u \<longleftrightarrow> commit_proved c cand h v e"
  by (auto simp: acceptCommit_def commit_proved_def split: option.split)

lemma acceptCapability_Some:
  "acceptCapability (cf_hash c) c cand h ref found = Inr (Some x) \<longleftrightarrow>
     (\<exists>e. found = Some e \<and> capability_presented c cand h ref e \<and> capability_current c e \<and>
          x = accept_evidence ''content_capability'' (cc_id e) (cc_digest e))"
  by (auto simp: acceptCapability_def capability_presented_def capability_current_def
      split: option.split)

lemma acceptCapabilities_all:
  "(\<exists>xs. acceptCapabilities (cf_hash c) c cand h m refs = Inr xs \<and> None \<notin> set xs) \<longleftrightarrow>
     (\<forall>ref \<in> set refs. \<exists>e. map_of m (cr_slot ref) = Some e \<and>
        capability_presented c cand h ref e \<and> capability_current c e)"
proof (induction refs)
  case Nil
  then show ?case by simp
next
  case (Cons ref refs)
  have "(\<exists>xs. acceptCapabilities (cf_hash c) c cand h m (ref # refs) = Inr xs \<and> None \<notin> set xs) \<longleftrightarrow>
      (\<exists>x. acceptCapability (cf_hash c) c cand h ref (map_of m (cr_slot ref)) = Inr (Some x)) \<and>
      (\<exists>xs. acceptCapabilities (cf_hash c) c cand h m refs = Inr xs \<and> None \<notin> set xs)"
    by (auto simp: result_simps) (metis option.exhaust)
  then show ?case by (simp add: Cons.IH acceptCapability_Some)
qed

lemma list_all2_witness:
  "(\<exists>ys. list_all2 P xs ys) \<longleftrightarrow> (\<forall>x \<in> set xs. \<exists>y. P x y)"
  by (induction xs) (auto simp: list_all2_Cons1)

text \<open>All runtime records agree on the proposal that the validation names.\<close>

lemma agreed_proposal:
  assumes "es \<noteq> []"
  shows "list_all (\<lambda>e. re_proposal e = re_proposal (hd es)) (tl es) \<and> p = re_proposal (hd es) \<longleftrightarrow>
     (\<forall>e \<in> set es. re_proposal e = p)"
  using assms by (cases es) (auto simp: list_all_iff)

section \<open>The gate accepts complete evidence\<close>

definition acceptedList ::
    "VerifyPublicationPayload \<Rightarrow> RuntimeEvidence list \<Rightarrow> evidenceAcceptedRecord option list \<Rightarrow>
     evidenceAcceptedRecord list" where
  "acceptedList v runtime caps =
     map (\<lambda>e. accept_evidence ''runtime'' (re_id e) (re_digest e)) runtime @
       [accept_evidence ''validation'' (ve_id (vp_validation v)) (ve_digest (vp_validation v)),
        accept_evidence ''c04_commit'' (ce_id (vp_c04 v)) (ce_digest (vp_c04 v))] @
       List.map_filter id caps"

lemma evaluateEvidence_Inr:
  "evaluateEvidence c cand h v = Inr (x, ambiguous) \<longleftrightarrow>
     length (vp_runtime v) = length (cd_channels cand) \<and>
     (\<exists>m es. runtimeByChannel (vp_runtime v) = Inr m \<and>
        acceptRuntimeRefs (cf_hash c) c cand h m (cd_runtime_refs cand) = Inr es \<and>
        list_all (\<lambda>e. re_proposal e = re_proposal (hd es)) (tl es) \<and>
        validation_proved c cand h (vp_runtime v) (vp_validation v) \<and>
        ve_proposal (vp_validation v) = re_proposal (hd es) \<and>
        commit_proved c cand h (vp_validation v) (vp_c04 v) \<and>
        length (vp_capabilities v) = length (cd_members cand) \<and>
        (\<exists>k caps. capabilityBySlot (vp_capabilities v) = Inr k \<and>
           acceptCapabilities (cf_hash c) c cand h k (cd_capability_refs cand) = Inr caps \<and>
           x = \<lparr>el_accepted = acceptedList v es caps, el_pending = []\<rparr> \<and>
           ambiguous = (None \<in> set caps)))"
  unfolding evaluateEvidence_def Let_def acceptedList_def
  by (simp add: result_simps acceptValidation_Inr acceptCommit_Inr) blast

lemma runtimeByChannel_Inr:
  "runtimeByChannel es = Inr m \<Longrightarrow> map_of m k = last_by re_channel es k"
  unfolding runtimeByChannel_def by (drule index_by_result [where k = k]) (simp split: option.splits)

lemma runtimeByChannel_accepts:
  "(\<exists>m. runtimeByChannel es = Inr m) \<longleftrightarrow> one_identity re_channel re_id es"
  by (simp add: runtimeByChannel_def index_by_accepts)

lemma capabilityBySlot_Inr:
  "capabilityBySlot es = Inr m \<Longrightarrow> map_of m k = last_by cc_slot es k"
  unfolding capabilityBySlot_def by (drule index_by_result [where k = k]) (simp split: option.splits)

lemma capabilityBySlot_accepts:
  "(\<exists>m. capabilityBySlot es = Inr m) \<longleftrightarrow> one_identity cc_slot cc_id es"
  by (simp add: capabilityBySlot_def index_by_accepts)

lemma pinned_by_iff:
  "pinned_by rkey key es proved ref \<longleftrightarrow> (\<exists>e. last_by key es (rkey ref) = Some e \<and> proved ref e)"
  by (simp add: pinned_by_def split: option.split)

lemma runtime_refs_proved:
  assumes m: "runtimeByChannel (vp_runtime v) = Inr m" and refs: "cd_runtime_refs cand \<noteq> []"
  shows "(\<exists>es. acceptRuntimeRefs (cf_hash c) c cand h m (cd_runtime_refs cand) = Inr es \<and>
        list_all (\<lambda>e. re_proposal e = re_proposal (hd es)) (tl es) \<and> p = re_proposal (hd es)) \<longleftrightarrow>
     (\<forall>ref \<in> set (cd_runtime_refs cand).
        pinned_by rr_channel re_channel (vp_runtime v)
          (\<lambda>ref e. runtime_proved c cand h ref e \<and> re_proposal e = p) ref)"
proof -
  let ?P = "\<lambda>ref e. map_of m (rr_channel ref) = Some e \<and> runtime_proved c cand h ref e"
  have "acceptRuntimeRefs (cf_hash c) c cand h m (cd_runtime_refs cand) = Inr es \<and>
        list_all (\<lambda>e. re_proposal e = re_proposal (hd es)) (tl es) \<and> p = re_proposal (hd es) \<longleftrightarrow>
      list_all2 (\<lambda>ref e. ?P ref e \<and> re_proposal e = p) (cd_runtime_refs cand) es" for es
  proof (cases "list_all2 ?P (cd_runtime_refs cand) es")
    case True
    with refs have "es \<noteq> []" by auto
    moreover have "list_all2 (\<lambda>ref e. ?P ref e \<and> re_proposal e = p) (cd_runtime_refs cand) es \<longleftrightarrow>
        (\<forall>e \<in> set es. re_proposal e = p)"
      using True by (auto simp: list_all2_conv_all_nth all_set_conv_all_nth)
    ultimately show ?thesis using True agreed_proposal [of es p] by (simp add: acceptRuntimeRefs_Inr)
  next
    case False
    then have "\<not> list_all2 (\<lambda>ref e. ?P ref e \<and> re_proposal e = p) (cd_runtime_refs cand) es"
      using list_all2_mono [of "\<lambda>ref e. ?P ref e \<and> re_proposal e = p" _ es ?P] by blast
    with False show ?thesis by (simp add: acceptRuntimeRefs_Inr)
  qed
  then show ?thesis
    by (simp add: list_all2_witness pinned_by_iff runtimeByChannel_Inr [OF m] conj_assoc)
qed

lemma evaluation_verified_iff:
  assumes refs: "cd_runtime_refs cand \<noteq> []"
  shows "(\<exists>x. evaluateEvidence c cand h v = Inr (x, False)) \<longleftrightarrow> evidence_complete c cand h v"
proof -
  have caps: "(\<exists>caps. acceptCapabilities (cf_hash c) c cand h k (cd_capability_refs cand) = Inr caps \<and>
        None \<notin> set caps) \<longleftrightarrow>
      (\<forall>ref \<in> set (cd_capability_refs cand). pinned_by cr_slot cc_slot (vp_capabilities v)
         (\<lambda>ref e. capability_presented c cand h ref e \<and> capability_current c e) ref)"
    if "capabilityBySlot (vp_capabilities v) = Inr k" for k
    unfolding acceptCapabilities_all pinned_by_iff capabilityBySlot_Inr [OF that] by simp
  show ?thesis
    unfolding evidence_complete_def evaluateEvidence_Inr
      runtimeByChannel_accepts [symmetric] capabilityBySlot_accepts [symmetric]
    using caps runtime_refs_proved [OF _ refs, of v _ c h "ve_proposal (vp_validation v)"]
    by (simp add: conj_ac) blast
qed

section \<open>What the durable state records of it\<close>

text \<open>A list of accepted references that covers what a candidate pins, capabilities apart.\<close>

definition accepted_covers :: "candidateRecord \<Rightarrow> evidenceAcceptedRecord list \<Rightarrow> bool" where
  "accepted_covers cand accepted \<longleftrightarrow>
     (\<forall>ref \<in> set (cd_runtime_refs cand).
        accept_evidence ''runtime'' (rr_id ref) (rr_digest ref) \<in> set accepted) \<and>
     accept_evidence ''validation'' (er_id (cd_validation_ref cand)) (er_digest (cd_validation_ref cand))
       \<in> set accepted \<and>
     accept_evidence ''c04_commit'' (er_id (cd_c04_ref cand)) (er_digest (cd_c04_ref cand)) \<in> set accepted"

lemma evaluation_covers:
  assumes "evaluateEvidence c cand h v = Inr (x, ambiguous)"
  shows "accepted_covers cand (el_accepted x)"
proof -
  obtain m es caps where
    es: "list_all2 (\<lambda>ref e. map_of m (rr_channel ref) = Some e \<and> runtime_proved c cand h ref e)
          (cd_runtime_refs cand) es" and
    val: "validation_proved c cand h (vp_runtime v) (vp_validation v)" and
    com: "commit_proved c cand h (vp_validation v) (vp_c04 v)" and
    x: "x = \<lparr>el_accepted = acceptedList v es caps, el_pending = []\<rparr>"
    using assms by (auto simp: evaluateEvidence_Inr acceptRuntimeRefs_Inr)
  have "\<exists>e \<in> set es. re_id e = rr_id ref \<and> re_digest e = rr_digest ref"
    if ref: "ref \<in> set (cd_runtime_refs cand)" for ref
  proof -
    obtain i where i: "i < length (cd_runtime_refs cand)" "cd_runtime_refs cand ! i = ref"
      using ref by (auto simp: in_set_conv_nth)
    with es have "i < length es" "runtime_proved c cand h ref (es ! i)"
      by (auto simp: list_all2_conv_all_nth)
    then show ?thesis unfolding runtime_proved_def by (meson nth_mem)
  qed
  then show ?thesis
    using val com unfolding accepted_covers_def x acceptedList_def validation_proved_def commit_proved_def
    by (simp add: image_iff) metis
qed

text \<open>An operation that waits for reconciliation or is past verification carries that list.\<close>

definition verification_ok :: "operationRecord \<Rightarrow> bool" where
  "verification_ok r \<longleftrightarrow>
     (op_state r \<in> {OperationVerified, OperationActivated, OperationReconciliationRequired} \<longrightarrow>
        (\<exists>cand v. op_candidate r = Some cand \<and> op_verification r = Some v \<and>
           accepted_covers cand (vf_accepted v) \<and>
           (op_state r \<noteq> OperationReconciliationRequired \<longrightarrow> vf_state v = VerificationVerified)))"

lemma verification_ok_same:
  "op_state r' = op_state r \<Longrightarrow> op_candidate r' = op_candidate r \<Longrightarrow>
     op_verification r' = op_verification r \<Longrightarrow> verification_ok r' = verification_ok r"
  by (simp add: verification_ok_def)

lemma verifyTransition_ok:
  "op_candidate r = Some cand \<Longrightarrow> verification_ok (verifyTransition r (evaluateEvidence c cand h v))"
proof (cases "evaluateEvidence c cand h v")
  case (Inr p)
  assume cand: "op_candidate r = Some cand"
  obtain x ambiguous where p: "p = (x, ambiguous)" by (cases p)
  with Inr have "accepted_covers cand (el_accepted x)" by (auto dest: evaluation_covers)
  with cand Inr p show ?thesis by (auto simp: verification_ok_def verifyTransition_def)
qed (simp add: verification_ok_def verifyTransition_def)

lemma completedVerification_ok: "verification_ok r \<Longrightarrow> verification_ok (completedVerification c r)"
  by (auto simp: verification_ok_def completedVerification_def split: option.split sum.split bool.split)

lemma core_step_verification: "core_step c r q \<Longrightarrow> verification_ok r \<Longrightarrow> verification_ok q"
proof (induction rule: core_step.induct)
  case (evaluated r cand h v)
  then show ?case by (simp add: verifyTransition_ok)
next
  case (released h r operation reconciling ans r')
  then show ?case using runRelease_identity verification_ok_same by metis
next
  case (release_reconciled h mode r operation reconciling ans r')
  have "verification_ok (r\<lparr>op_reconcile := mode\<rparr>)"
    using release_reconciled.prems by (simp add: verification_ok_def)
  with release_reconciled.hyps show ?case using runRelease_identity verification_ok_same by metis
next
  case (completed r mode)
  then have "verification_ok (completedVerification c r)" by (rule completedVerification_ok)
  then show ?case by (simp add: verification_ok_def)
qed (simp_all add: verification_ok_def)

lemma record_step_verification: "record_step c r r' \<Longrightarrow> verification_ok r \<Longrightarrow> verification_ok r'"
proof (induction rule: record_step.induct)
  case (answered r q k d dec err at)
  then show ?case using core_step_verification by (simp add: verification_ok_def)
qed (rule core_step_verification)

end
