(* ===== verification/Pub_Records.thy ===== *)
theory Pub_Records
  imports Pub_Gate
begin

text \<open>
  What a call may do to one operation record (\<open>record_change\<close>), and the facts of a record that
  follow for every reachable state and every later one: its identity, its settled states, the
  outcomes it replays, the evidence it was verified with, what its residue holds.
\<close>

section \<open>Changes of a record\<close>

inductive record_change :: "PubConfig \<Rightarrow> operationRecord \<Rightarrow> operationRecord \<Rightarrow> bool" for c where
  unchanged: "record_change c r r"
| changed: "record_step c r r' \<Longrightarrow> record_change c r r'"
| published:
    "op_state r = OperationVerified \<Longrightarrow> outcome_free r IntentActivatePublication \<Longrightarrow>
     record_change c r (recordOutcome
       (r\<lparr>op_revision := revision, op_evidence := Some evidence, op_state := OperationActivated\<rparr>)
       IntentActivatePublication d OperationActivated dec err t)"

lemma mutation_change:
  assumes "mutation c s s'" and "scopes_agree s" and "map_of (ps_operations s) scope = Some r"
  shows "\<exists>r'. map_of (ps_operations s') scope = Some r' \<and> record_change c r r'"
  using assms
proof (induction rule: mutation.induct)
  case (idle s' s)
  then show ?case using record_change.unchanged by auto
next
  case (prepared s q cand domain task operation s')
  then show ?case using record_change.unchanged [of c r] by (cases "scope = op_scope q") auto
next
  case (stepped s q q' s')
  then show ?case
    using record_change.unchanged [of c r] record_change.changed [of c q q']
    by (cases "scope = op_scope q") auto
next
  case (activated s q cand h revision a evidence at q' d dec err t s')
  then show ?case
    using record_change.unchanged [of c r] record_change.published [of q]
    by (cases "scope = op_scope q") auto
qed

text \<open>Read backwards: a record after a call was there before, or the call prepared it.\<close>

lemma mutation_origin:
  assumes "mutation c s s'" and "map_of (ps_operations s') scope = Some r'"
  shows "(\<exists>r. map_of (ps_operations s) scope = Some r \<and> record_change c r r') \<or>
    (map_of (ps_operations s) scope = None \<and> (\<exists>cand. fresh_operation r' cand))"
  using assms
proof (induction rule: mutation.induct)
  case (idle s' s)
  then show ?case using record_change.unchanged by auto
next
  case (prepared s q cand domain task operation s')
  then show ?case using record_change.unchanged [of c r'] by (cases "scope = op_scope q") auto
next
  case (stepped s q q' s')
  then show ?case
    using record_change.unchanged [of c r'] record_change.changed [of c q q']
    by (cases "scope = op_scope q") auto
next
  case (activated s q cand h revision a evidence at q' d dec err t s')
  then show ?case
    using record_change.unchanged [of c r'] record_change.published [of q]
    by (cases "scope = op_scope q") auto
qed

text \<open>Invariants of single records.\<close>

lemma reachable_records:
  assumes reach: "publication_reachable s" and stored: "map_of (ps_operations s) scope = Some r"
    and fresh: "\<And>r cand. fresh_operation r cand \<Longrightarrow> P r"
    and change: "\<And>c r r'. record_change c r r' \<Longrightarrow> P r \<Longrightarrow> P r'"
  shows "P r"
proof -
  have "\<forall>scope r. map_of (ps_operations s) scope = Some r \<longrightarrow> P r"
  proof (rule reachable_invariant [OF reach, where P = "\<lambda>s. \<forall>scope r. map_of (ps_operations s) scope = Some r \<longrightarrow> P r"])
    show "\<forall>scope r. map_of (ps_operations newPersistence) scope = Some r \<longrightarrow> P r"
      by (simp add: newPersistence_def)
  next
    fix c s s'
    assume mut: "mutation c s s'" and IH: "\<forall>scope r. map_of (ps_operations s) scope = Some r \<longrightarrow> P r"
    show "\<forall>scope r. map_of (ps_operations s') scope = Some r \<longrightarrow> P r"
      using mutation_origin [OF mut] IH fresh change by meson
  qed
  with stored show ?thesis by blast
qed

text \<open>Relations between a record and what becomes of it.\<close>

lemma calls_reachable:
  "publication_reachable s \<Longrightarrow> publication_call\<^sup>*\<^sup>* s s' \<Longrightarrow> publication_reachable s'"
  unfolding publication_reachable_def by (rule rtranclp_trans)

lemma calls_records:
  assumes reach: "publication_reachable s" and stored: "map_of (ps_operations s) scope = Some r"
    and calls: "publication_call\<^sup>*\<^sup>* s s'"
    and change: "\<And>c p q. record_change c p q \<Longrightarrow> P p \<Longrightarrow> P q" and init: "P r"
  shows "\<exists>r'. map_of (ps_operations s') scope = Some r' \<and> P r'"
  using calls
proof (induction rule: rtranclp_induct)
  case base
  with stored init show ?case by blast
next
  case (step t u)
  then obtain q where q: "map_of (ps_operations t) scope = Some q" "P q" by blast
  have "scopes_agree t" using calls_reachable [OF reach step.hyps(1)] by (rule reachable_scopes)
  moreover obtain c intent ans where "Mutate c intent t = Some (ans, u)"
    using step.hyps(2) by (auto simp: publication_call_def)
  ultimately show ?case using Mutate_mutation mutation_change q change by meson
qed

section \<open>Identity and settled states\<close>

lemma record_change_identity:
  "record_change c r r' \<Longrightarrow> op_scope r' = op_scope r \<and> op_id r' = op_id r \<and> op_request r' = op_request r \<and>
     op_generation r' = op_generation r \<and> op_fence r' = op_fence r \<and> op_candidate r' = op_candidate r"
  by (induction rule: record_change.induct) (simp_all add: record_step_identity record_step_scope)

lemma record_change_moves:
  "record_change c r r' \<Longrightarrow> operation_moves (op_state r) (op_state r')"
  by (induction rule: record_change.induct) (simp_all add: record_step_moves)

lemma record_change_evidence:
  "record_change c r r' \<Longrightarrow> operation_settled (op_state r) \<Longrightarrow> op_evidence r' = op_evidence r"
  by (induction rule: record_change.induct) (simp_all add: record_step_identity)

lemma record_change_settled:
  assumes "record_change c r r'" and "operation_settled (op_state r)"
  shows "op_state r' = op_state r"
  using pub_ops.settled_run [OF assms(2), of "[op_state r']"] record_change_moves [OF assms(1)]
  by simp

section \<open>Outcomes\<close>

definition outcome_of ::
    "operationRecord \<Rightarrow> PublicationIntentKind \<Rightarrow> string \<Rightarrow> intentOutcome option" where
  "outcome_of r k d = Option.bind (outcomesOf r k) (\<lambda>m. map_of m d)"

lemma core_step_outcomes: "core_step c r q \<Longrightarrow> outcomesOf q k = outcomesOf r k"
  by (simp add: outcomesOf_def core_step_identity)

lemma record_change_outcome:
  "record_change c r r' \<Longrightarrow> k \<noteq> IntentReconcilePublication \<Longrightarrow> outcome_of r k d = Some out \<Longrightarrow>
     outcome_of r' k d = Some out"
proof (induction rule: record_change.induct)
  case (unchanged r)
  then show ?case by simp
next
  case (changed r r')
  then show ?case
  proof (induction rule: record_step.induct)
    case (silent r q)
    then show ?case by (simp add: outcome_of_def core_step_outcomes)
  next
    case (answered r q j e dec err at)
    then show ?case
      by (auto simp: outcome_of_def outcomesOf_recordOutcome core_step_outcomes outcome_free_def
          split: option.split)
  qed
next
  case (published r evidence revision d' dec err t)
  have "outcomesOf (r\<lparr>op_revision := revision, op_evidence := Some evidence,
      op_state := OperationActivated\<rparr>) j = outcomesOf r j" for j
    by (simp add: outcomesOf_def)
  with published show ?case
    by (auto simp: outcome_of_def outcomesOf_recordOutcome outcome_free_def split: option.split)
qed

section \<open>Recorded evidence\<close>

lemma record_change_verification:
  "record_change c r r' \<Longrightarrow> verification_ok r \<Longrightarrow> verification_ok r'"
proof (induction rule: record_change.induct)
  case (changed r r')
  then show ?case by (rule record_step_verification)
qed (simp_all add: verification_ok_def)

lemma reachable_verification:
  assumes "publication_reachable s" and "map_of (ps_operations s) scope = Some r"
  shows "verification_ok r"
proof (rule reachable_records [OF assms, where P = verification_ok])
  show "verification_ok q" if "fresh_operation q cand" for q cand
    using that by (simp add: fresh_operation_def verification_ok_def)
qed (rule record_change_verification)

section \<open>Residue and debt\<close>

text \<open>
  A residue belongs to a discarded operation and holds exactly the staging of its candidate; a
  debt is the debt of the assembly the residue names.
\<close>

definition residue_ok :: "operationRecord \<Rightarrow> bool" where
  "residue_ok r \<longleftrightarrow>
     (\<forall>x. op_residue r = Some x \<longrightarrow>
        discarded_state (op_state r) \<and> rs_operation x = op_id r \<and>
        map_option cd_staging (op_candidate r) = Some (rs_staging x)) \<and>
     (\<forall>d. op_debt r = Some d \<longrightarrow> (\<exists>x a. op_residue r = Some x \<and> rs_assembly x = Some a \<and>
        rs_debt x = db_id d \<and> db_identity d = as_identity a \<and>
        db_generation d = as_generation a \<and> db_fence d = as_fence a))"

lemma residue_ok_same:
  "op_state r' = op_state r \<Longrightarrow> op_id r' = op_id r \<Longrightarrow> op_candidate r' = op_candidate r \<Longrightarrow>
     op_residue r' = op_residue r \<Longrightarrow> op_debt r' = op_debt r \<Longrightarrow> residue_ok r' = residue_ok r"
  by (simp add: residue_ok_def)

text \<open>Only a discarded operation has a residue or a debt.\<close>

lemma residue_ok_open:
  "residue_ok r \<Longrightarrow> \<not> discarded_state (op_state r) \<Longrightarrow> op_residue r = None \<and> op_debt r = None"
  by (cases "op_residue r"; cases "op_debt r") (auto simp: residue_ok_def)

lemma residue_ok_none: "op_residue r = None \<Longrightarrow> op_debt r = None \<Longrightarrow> residue_ok r"
  by (simp add: residue_ok_def)

lemma resolution_keeps:
  "resolution c p d = Inr closed \<Longrightarrow> db_id closed = db_id d \<and> db_identity closed = db_identity d \<and>
     db_generation closed = db_generation d \<and> db_fence closed = db_fence d"
  by (auto simp: resolution_def split: if_splits option.splits)

end
