(* ===== verification/Pub_Cleanup.thy ===== *)
theory Pub_Cleanup
  imports Pub_Records
begin

text \<open>
  The cleanup of what a discarded operation leaves behind: the residue and debt invariant
  (\<open>residue_ok\<close>) over every change of a record, and the one way a residue closes, a receipt of
  the release port that validates.
\<close>

section \<open>Receipts and claims\<close>

lemma receiptOnDebt_simps [simp]:
  "db_id (receiptOnDebt d receipt now) = db_id d"
  "db_identity (receiptOnDebt d receipt now) = db_identity d"
  "db_generation (receiptOnDebt d receipt now) = db_generation d"
  "db_fence (receiptOnDebt d receipt now) = db_fence d"
  "db_class (receiptOnDebt d receipt now) = db_class d"
  by (simp_all add: receiptOnDebt_def Let_def)

lemma receiptOnResidue_simps [simp]:
  "rs_staging (receiptOnResidue x receipt now) = rs_staging x"
  "rs_operation (receiptOnResidue x receipt now) = rs_operation x"
  "rs_assembly (receiptOnResidue x receipt now) = rs_assembly x"
  "rs_debt (receiptOnResidue x receipt now) = rs_debt x"
  "rs_receipt (receiptOnResidue x receipt now) = Some receipt"
  "rs_disposition (receiptOnResidue x receipt now) = applyReleaseReceipt (rc_outcome receipt)"
  by (simp_all add: receiptOnResidue_def Let_def)

text \<open>The claim keeps the debt the residue names.\<close>

definition debt_of :: "residueRecord \<Rightarrow> cleanupDebtRecord \<Rightarrow> bool" where
  "debt_of x d \<longleftrightarrow> (\<exists>a. rs_assembly x = Some a \<and> rs_debt x = db_id d \<and>
     db_identity d = as_identity a \<and> db_generation d = as_generation a \<and> db_fence d = as_fence a)"

lemma residue_ok_alt:
  "residue_ok r \<longleftrightarrow>
     (\<forall>x. op_residue r = Some x \<longrightarrow>
        discarded_state (op_state r) \<and> rs_operation x = op_id r \<and>
        map_option cd_staging (op_candidate r) = Some (rs_staging x)) \<and>
     (\<forall>d. op_debt r = Some d \<longrightarrow> (\<exists>x. op_residue r = Some x \<and> debt_of x d))"
  unfolding residue_ok_def debt_of_def by blast

lemma claimDebt_debt:
  assumes "claimDebt r x = Some debt" and "\<And>d. op_debt r = Some d \<Longrightarrow> debt_of x d"
    and "debt = Some d"
  shows "debt_of x d"
  using assms by (auto simp: claimDebt_def debt_of_def split: option.splits if_splits)

section \<open>A release\<close>

text \<open>
  An attempt on a residue: the debt is claimed, what the residue and the debt are about stays,
  and the residue is closed only over a receipt of the port that validates.
\<close>

definition same_debt :: "cleanupDebtRecord \<Rightarrow> cleanupDebtRecord \<Rightarrow> bool" where
  "same_debt d d' \<longleftrightarrow> db_id d' = db_id d \<and> db_identity d' = db_identity d \<and>
     db_generation d' = db_generation d \<and> db_fence d' = db_fence d"

definition release_effect ::
    "PubConfig \<Rightarrow> PublicationIntentHeader \<Rightarrow> operationRecord \<Rightarrow> residueRecord \<Rightarrow> operationRecord \<Rightarrow> bool" where
  "release_effect c h r x r' \<longleftrightarrow>
     (\<exists>debt x' debt'. claimDebt r x = Some debt \<and> r' = r\<lparr>op_residue := Some x', op_debt := debt'\<rparr> \<and>
        rs_staging x' = rs_staging x \<and> rs_operation x' = rs_operation x \<and>
        rs_assembly x' = rs_assembly x \<and> rs_debt x' = rs_debt x \<and>
        (\<forall>d'. debt' = Some d' \<longrightarrow> (\<exists>d. debt = Some d \<and> same_debt d d')) \<and>
        (residueClosedByEvidence (rs_disposition x') \<longrightarrow>
           (\<exists>port receipt. cf_release c = Some port \<and>
              port (rs_staging x) (ph_epoch h) = Inr (receipt, True) \<and>
              validateReleaseReceipt (cf_hash c) receipt (cf_durable c) \<and>
              rs_receipt x' = Some receipt \<and>
              rs_disposition x' = applyReleaseReceipt (rc_outcome receipt))))"

lemma release_effectI:
  assumes "claimDebt r x = Some debt" and "\<And>d. same_debt d (f d)"
    and "rs_staging x' = rs_staging x" "rs_operation x' = rs_operation x"
    "rs_assembly x' = rs_assembly x" "rs_debt x' = rs_debt x"
    and "residueClosedByEvidence (rs_disposition x') \<Longrightarrow>
      (\<exists>port receipt. cf_release c = Some port \<and>
         port (rs_staging x) (ph_epoch h) = Inr (receipt, True) \<and>
         validateReleaseReceipt (cf_hash c) receipt (cf_durable c) \<and>
         rs_receipt x' = Some receipt \<and>
         rs_disposition x' = applyReleaseReceipt (rc_outcome receipt))"
  shows "release_effect c h r x (r\<lparr>op_residue := Some x', op_debt := map_option f debt\<rparr>)"
  unfolding release_effect_def using assms by blast

lemma not_closed_requested [simp]: "\<not> residueClosedByEvidence ResidueReleaseRequested"
  by (simp add: residueClosedByEvidence_def)

lemma attempt_effect:
  assumes "claimDebt r x = Some debt" and "rs_staging y = rs_staging x" "rs_operation y = rs_operation x"
    "rs_assembly y = rs_assembly x" "rs_debt y = rs_debt x" "rs_disposition y = ResidueReleaseRequested"
  shows "release_effect c h r x (attemptRelease r y debt category now)"
  unfolding attemptRelease_def using assms
  by (intro release_effectI) (simp_all add: same_debt_def Let_def)

lemma receipt_effect:
  assumes "claimDebt r x = Some debt" and "rs_staging y = rs_staging x" "rs_operation y = rs_operation x"
    "rs_assembly y = rs_assembly x" "rs_debt y = rs_debt x"
    and "cf_release c = Some port" "port (rs_staging x) (ph_epoch h) = Inr (receipt, True)"
    "validateReleaseReceipt (cf_hash c) receipt (cf_durable c)"
  shows "release_effect c h r x (r\<lparr>op_residue := Some (receiptOnResidue y receipt now),
    op_debt := map_option (\<lambda>d. receiptOnDebt d receipt now) debt\<rparr>)"
  using assms by (intro release_effectI) (simp_all add: same_debt_def)

lemma refused_effect:
  assumes "claimDebt r x = Some debt" and "rs_staging y = rs_staging x" "rs_operation y = rs_operation x"
    "rs_assembly y = rs_assembly x" "rs_debt y = rs_debt x"
  shows "release_effect c h r x
    (r\<lparr>op_residue := Some (y\<lparr>rs_disposition := ResidueReleaseRequested\<rparr>), op_debt := debt\<rparr>)"
  using release_effectI [OF assms(1), where f = "\<lambda>d. d", of "y\<lparr>rs_disposition := ResidueReleaseRequested\<rparr>"]
    assms(2-) by (simp add: same_debt_def option.map_ident)

text \<open>The record a release leaves: untouched, marked as expired, or attempted.\<close>

lemma runRelease_result:
  assumes run: "runRelease c h r operation reconciling = (ans, r')" and x: "op_residue r = Some x"
  shows "r' = r \<or>
    (\<exists>x'. r' = r\<lparr>op_residue := Some x'\<rparr> \<and> x' \<in> {x, x\<lparr>rs_disposition := ResidueExpired\<rparr>}) \<or>
    release_effect c h r x r'"
proof (cases "op_state r \<notin> {OperationRejected, OperationCancelled} \<or>
    ph_generation h \<noteq> op_generation r \<or> ph_fence h \<noteq> op_fence r \<or>
    residueClosedByEvidence (rs_disposition x)")
  case True
  have "snd (runRelease c h r operation reconciling) = r"
    using x True
    by (cases "op_state r = OperationRejected \<or> op_state r = OperationCancelled";
        cases "ph_generation h \<noteq> op_generation r \<or> ph_fence h \<noteq> op_fence r") (simp_all add: runRelease_def)
  with run have "r' = r" by simp
  then show ?thesis by simp
next
  case False
  then have guards: "(op_state r \<noteq> OperationRejected \<and> op_state r \<noteq> OperationCancelled) = False"
    "ph_generation h = op_generation r" "ph_fence h = op_fence r"
    "\<not> residueClosedByEvidence (rs_disposition x)" by auto
  define y where "y = (if rs_expiry x \<noteq> 0 \<and> rs_expiry x < cf_now c 0
      then x\<lparr>rs_disposition := ResidueExpired\<rparr> else x)"
  have y: "y \<in> {x, x\<lparr>rs_disposition := ResidueExpired\<rparr>}" by (simp add: y_def)
  then have same: "rs_staging y = rs_staging x" "rs_operation y = rs_operation x"
    "rs_assembly y = rs_assembly x" "rs_debt y = rs_debt x" by auto
  have claim: "claimDebt r y = claimDebt r x" using same by (simp add: claimDebt_def split: option.split)
  show ?thesis
  proof (cases "claimDebt r x")
    case None
    with run x guards claim have "r' = r\<lparr>op_residue := Some y\<rparr>"
      by (simp add: runRelease_def y_def [symmetric] Let_def)
    with y show ?thesis by blast
  next
    case (Some debt)
    note effects = attempt_effect [OF Some] receipt_effect [OF Some] refused_effect [OF Some]
    have "release_effect c h r x r'"
    proof (cases "cf_release c")
      case None
      with run x guards claim Some
      have "r' = attemptRelease r (y\<lparr>rs_disposition := ResidueReleaseRequested, rs_reconcile := True\<rparr>)
          debt ResidueErrorUnavailable (cf_now c 0)"
        by (simp add: runRelease_def y_def [symmetric] Let_def)
      then show ?thesis using effects(1) same by simp
    next
      case (Some port)
      have answer: "port (rs_staging y) (ph_epoch h) = port (rs_staging x) (ph_epoch h)"
        by (simp add: same)
      show ?thesis
      proof (cases "port (rs_staging x) (ph_epoch h)")
        case (Inl e)
        with run x guards claim \<open>claimDebt r x = Some debt\<close> Some same(1)
        have "r' = attemptRelease r (y\<lparr>rs_disposition := ResidueReleaseRequested\<rparr>)
            debt (releaseErrorCategory (normalizeError e)) (cf_now c 0)"
          by (simp add: runRelease_def y_def [symmetric] Let_def del: releaseErrorCategory.simps)
        then show ?thesis using effects(1) same by simp
      next
        case (Inr result)
        then obtain receipt settled where result: "port (rs_staging x) (ph_epoch h) = Inr (receipt, settled)"
          by (cases result) simp
        note facts = run x guards claim \<open>claimDebt r x = Some debt\<close> Some same(1) result
        consider "\<not> settled" | "settled" "\<not> validateReleaseReceipt (cf_hash c) receipt (cf_durable c)"
          | "settled" "validateReleaseReceipt (cf_hash c) receipt (cf_durable c)" by blast
        then show ?thesis
        proof cases
          case 1
          with facts have "r' = attemptRelease r (y\<lparr>rs_disposition := ResidueReleaseRequested,
              rs_reconcile := True\<rparr>) debt ResidueErrorUnavailable (cf_now c 0)"
            by (simp add: runRelease_def y_def [symmetric] Let_def)
          then show ?thesis using effects(1) same by simp
        next
          case 2
          with facts have "r' = r\<lparr>op_residue := Some (y\<lparr>rs_disposition := ResidueReleaseRequested\<rparr>),
              op_debt := debt\<rparr>"
            by (simp add: runRelease_def y_def [symmetric] Let_def)
          then show ?thesis using effects(3) same by simp
        next
          case 3
          with facts have "r' = r\<lparr>op_residue := Some (receiptOnResidue
              (y\<lparr>rs_disposition := ResidueReleaseRequested\<rparr>) receipt (cf_now c 0)),
              op_debt := map_option (\<lambda>d. receiptOnDebt d receipt (cf_now c 0)) debt\<rparr>"
            by (simp add: runRelease_def y_def [symmetric] Let_def)
          then show ?thesis using effects(2) same 3 Some result by simp
        qed
      qed
    qed
    then show ?thesis by simp
  qed
qed

lemma debt_of_disposition [simp]: "debt_of (x\<lparr>rs_disposition := e\<rparr>) d = debt_of x d"
  by (simp add: debt_of_def)

lemma runRelease_residue_ok:
  assumes run: "runRelease c h r operation reconciling = (ans, r')" and ok: "residue_ok r"
  shows "residue_ok r'"
proof (cases "op_residue r")
  case None
  with run have "r' = r" by (auto simp: runRelease_def)
  with ok show ?thesis by simp
next
  case (Some x)
  from ok Some have debt: "\<And>d. op_debt r = Some d \<Longrightarrow> debt_of x d" and
    x: "discarded_state (op_state r)" "rs_operation x = op_id r"
      "map_option cd_staging (op_candidate r) = Some (rs_staging x)"
    by (auto simp: residue_ok_alt)
  from runRelease_result [OF run Some] show ?thesis
  proof (elim disjE exE conjE)
    assume "r' = r"
    with ok show ?thesis by simp
  next
    fix x'
    assume "r' = r\<lparr>op_residue := Some x'\<rparr>" "x' \<in> {x, x\<lparr>rs_disposition := ResidueExpired\<rparr>}"
    with x debt show ?thesis by (auto simp: residue_ok_alt)
  next
    assume "release_effect c h r x r'"
    then obtain claimed x' debt' where
      claim: "claimDebt r x = Some claimed" and r': "r' = r\<lparr>op_residue := Some x', op_debt := debt'\<rparr>"
      and x': "rs_staging x' = rs_staging x" "rs_operation x' = rs_operation x"
        "rs_assembly x' = rs_assembly x" "rs_debt x' = rs_debt x"
      and d': "\<forall>d'. debt' = Some d' \<longrightarrow> (\<exists>d. claimed = Some d \<and> same_debt d d')"
      unfolding release_effect_def by (elim exE conjE)
    have "debt_of x' d" if "debt' = Some d" for d
    proof -
      from d' that obtain e where e: "claimed = Some e" "same_debt e d" by blast
      from claimDebt_debt [OF claim debt e(1)] e(2) show ?thesis
        using x' by (simp add: debt_of_def same_debt_def)
    qed
    with x x' show ?thesis by (auto simp: r' residue_ok_alt)
  qed
qed

section \<open>The invariant\<close>

lemma releaseResidue_fields:
  "releaseResidue c r h now = Some x \<Longrightarrow> rs_operation x = op_id r \<and>
     map_option cd_staging (op_candidate r) = Some (rs_staging x) \<and> rs_disposition x = ResiduePending"
  by (auto simp: releaseResidue_def split: option.splits)

lemma core_step_residue: "core_step c r q \<Longrightarrow> residue_ok r \<Longrightarrow> residue_ok q"
proof (induction rule: core_step.induct)
  case (conflicted r)
  then show ?case by (simp add: residue_ok_def)
next
  case (evaluated r cand h v)
  then have "op_residue r = None \<and> op_debt r = None"
    by (intro residue_ok_open) (auto simp: discarded_state_def)
  then show ?case by (intro residue_ok_none) simp_all
next
  case (rejected r reason h now)
  then have "op_debt r = None" using residue_ok_open by (auto simp: open_state_def discarded_state_def)
  then show ?case
    by (auto simp: residue_ok_def discarded_state_def dest: releaseResidue_fields)
next
  case (cancelled r reason h now)
  then have "op_debt r = None" using residue_ok_open by (auto simp: open_state_def discarded_state_def)
  then show ?case
    by (auto simp: residue_ok_def discarded_state_def dest: releaseResidue_fields)
next
  case (assembled r residue a debt h now)
  then show ?case by (simp add: residue_ok_def newDebt_def)
next
  case (released h r operation reconciling ans r')
  then show ?case by (rule runRelease_residue_ok)
next
  case (release_reconciled h mode r operation reconciling ans r')
  then have "residue_ok (r\<lparr>op_reconcile := mode\<rparr>)" by (simp add: residue_ok_def)
  with release_reconciled.hyps show ?case by (rule runRelease_residue_ok)
next
  case (resolved r d p closed now audit)
  then show ?case using resolution_keeps [OF resolved.hyps(3)] by (auto simp: residue_ok_def)
next
  case (inspected r mode)
  then show ?case by (simp add: residue_ok_def)
next
  case (completed r mode)
  show ?case
  proof (cases "op_state r = OperationReconciliationRequired")
    case True
    with completed have "op_residue r = None \<and> op_debt r = None"
      by (intro residue_ok_open) (auto simp: discarded_state_def)
    then show ?thesis by (intro residue_ok_none) simp_all
  next
    case False
    then have "completedVerification c r = r"
      by (simp add: completedVerification_def split: option.split)
    with completed show ?thesis by (simp add: residue_ok_def)
  qed
qed

lemma record_change_residue: "record_change c r r' \<Longrightarrow> residue_ok r \<Longrightarrow> residue_ok r'"
proof (induction rule: record_change.induct)
  case (changed r r')
  then show ?case
  proof (induction rule: record_step.induct)
    case (answered r q k d dec err at)
    then have "residue_ok q" using core_step_residue by blast
    then show ?case by (simp add: residue_ok_def)
  qed (rule core_step_residue)
next
  case (published r evidence revision d dec err t)
  then have "op_residue r = None \<and> op_debt r = None"
    by (intro residue_ok_open) (auto simp: discarded_state_def)
  then show ?case by (intro residue_ok_none) simp_all
qed simp

lemma reachable_residue:
  assumes "publication_reachable s" and "map_of (ps_operations s) scope = Some r"
  shows "residue_ok r"
proof (rule reachable_records [OF assms, where P = residue_ok])
  show "residue_ok q" if "fresh_operation q cand" for q cand
    using that by (simp add: fresh_operation_def residue_ok_none)
qed (rule record_change_residue)

section \<open>How a residue closes\<close>

definition residue_closed :: "operationRecord \<Rightarrow> bool" where
  "residue_closed r \<longleftrightarrow> (\<exists>x. op_residue r = Some x \<and> residueClosedByEvidence (rs_disposition x))"

text \<open>The receipt of the port of \<open>c\<close> for a staging, which says the staging is gone.\<close>

definition proven_gone :: "PubConfig \<Rightarrow> stagingRecord list \<Rightarrow> ReleaseReceipt \<Rightarrow> bool" where
  "proven_gone c staging receipt \<longleftrightarrow>
     (\<exists>port epoch. cf_release c = Some port \<and> port staging epoch = Inr (receipt, True)) \<and>
     validateReleaseReceipt (cf_hash c) receipt (cf_durable c) \<and>
     (rc_outcome receipt = ReleaseOutcomeReleased \<or> rc_outcome receipt = ReleaseOutcomeAlreadyAbsent)"

definition closes_by_receipt :: "PubConfig \<Rightarrow> operationRecord \<Rightarrow> operationRecord \<Rightarrow> bool" where
  "closes_by_receipt c r r' \<longleftrightarrow>
     (residue_closed r' \<longrightarrow> residue_closed r \<or>
        (\<exists>x x' receipt. op_residue r = Some x \<and> op_residue r' = Some x' \<and>
           rs_receipt x' = Some receipt \<and> proven_gone c (rs_staging x) receipt))"

lemma closes_by_receipt_same: "op_residue r' = op_residue r \<Longrightarrow> closes_by_receipt c r r'"
  by (simp add: closes_by_receipt_def residue_closed_def)

lemma runRelease_closes:
  assumes run: "runRelease c h r operation reconciling = (ans, r')"
  shows "closes_by_receipt c r r'"
proof (cases "op_residue r")
  case None
  with run have "r' = r" by (auto simp: runRelease_def)
  then show ?thesis by (simp add: closes_by_receipt_same)
next
  case (Some x)
  from runRelease_result [OF run Some] show ?thesis
  proof (elim disjE exE conjE)
    assume "r' = r"
    then show ?thesis by (simp add: closes_by_receipt_same)
  next
    fix x'
    assume "r' = r\<lparr>op_residue := Some x'\<rparr>" "x' \<in> {x, x\<lparr>rs_disposition := ResidueExpired\<rparr>}"
    with Some show ?thesis
      by (auto simp: closes_by_receipt_def residue_closed_def residueClosedByEvidence_def)
  next
    assume "release_effect c h r x r'"
    with Some show ?thesis
      unfolding closes_by_receipt_def residue_closed_def proven_gone_def release_effect_def
      by (clarsimp simp: applied_receipt_closes_iff) blast
  qed
qed

lemma core_step_closes: "core_step c r q \<Longrightarrow> closes_by_receipt c r q"
proof (induction rule: core_step.induct)
  case (rejected r reason h now)
  then show ?case
    by (auto simp: closes_by_receipt_def residue_closed_def residueClosedByEvidence_def
        dest: releaseResidue_fields)
next
  case (cancelled r reason h now)
  then show ?case
    by (auto simp: closes_by_receipt_def residue_closed_def residueClosedByEvidence_def
        dest: releaseResidue_fields)
next
  case (assembled r residue a debt h now)
  then show ?case by (simp add: closes_by_receipt_def residue_closed_def)
next
  case (released h r operation reconciling ans r')
  then show ?case by (rule runRelease_closes)
next
  case (release_reconciled h mode r operation reconciling ans r')
  then have "closes_by_receipt c (r\<lparr>op_reconcile := mode\<rparr>) r'" by (rule runRelease_closes)
  then show ?case by (simp add: closes_by_receipt_def residue_closed_def)
qed (simp_all add: closes_by_receipt_same)

lemma record_change_closes: "record_change c r r' \<Longrightarrow> closes_by_receipt c r r'"
proof (induction rule: record_change.induct)
  case (changed r r')
  then show ?case
  proof (induction rule: record_step.induct)
    case (answered r q k d dec err at)
    then have "closes_by_receipt c r q" by (intro core_step_closes)
    then show ?case by (simp add: closes_by_receipt_def residue_closed_def)
  qed (rule core_step_closes)
qed (simp_all add: closes_by_receipt_same)

end
