(* ===== verification/Pub_Replay.thy ===== *)
theory Pub_Replay
  imports Pub_Cleanup "HOL-Library.Multiset"
begin

text \<open>
  Facts of whole calls: an accepted call has recorded its outcome, and the outcome is what any
  later presentation of the same intent gets; a call returns while identities are left; and a
  preparation does not depend on the order its members and staging are listed in.
\<close>

section \<open>Accepted calls are recorded\<close>

lemma committed_outcome:
  "op_scope q = scope \<Longrightarrow>
     \<exists>r. map_of (ps_operations (commitDecision c h k d q dec err n s)) scope = Some r \<and>
       (\<exists>out. outcome_of r k d = Some out \<and> io_decision out = dec \<and> io_error out = err)"
  by (auto simp: outcome_of_def outcomesOf_recordOutcome)

text \<open>The record of a scope carries the outcome of an intent of kind \<open>k\<close> and digest \<open>d\<close>.\<close>

definition answered_with ::
    "InMemoryPersistence \<Rightarrow> operationScope \<Rightarrow> PublicationIntentKind \<Rightarrow> string \<Rightarrow> PublicationDecision \<Rightarrow>
     PubError option \<Rightarrow> bool" where
  "answered_with s scope k d dec err \<longleftrightarrow>
     (\<exists>r out. map_of (ps_operations s) scope = Some r \<and> outcome_of r k d = Some out \<and>
        io_decision out = dec \<and> io_error out = err)"

lemma answered_commit:
  "op_scope q = scope \<Longrightarrow> answered_with (commitDecision c h k d q dec err n s) scope k d dec err"
  using committed_outcome unfolding answered_with_def by blast

lemma respond_accepts: "respond c operation k subject a = (dec, None) \<Longrightarrow> a = (dec, None)"
  by (auto simp: respond_def refuse_def split: option.splits)

lemma refuse_error [simp]: "refuse e \<noteq> (dec, None)" "refuseCode code \<noteq> (dec, None)"
  by (simp_all add: refuse_def refuseCode_def)

lemma decision_replay [simp]: "pd_replay (decisionForRecord r b at) = b"
  by (simp add: decisionForRecord_def)

lemma verify_answered:
  assumes "verify c v h d r s = ((dec, None), s')"
  shows "answered_with s' (op_scope r) IntentVerifyPublication d dec None"
  using assms
  by (auto simp: verify_def Let_def split: option.splits if_splits
      dest!: respond_accepts intro!: answered_commit)

lemma activate_answered:
  assumes "activate c h d r s = ((dec, None), s')"
  shows "answered_with s' (op_scope r) IntentActivatePublication d dec None"
  using assms
  by (auto simp: activate_def Let_def split: option.splits if_splits
      dest!: respond_accepts intro!: answered_commit)

lemma reject_answered:
  assumes "reject c reason h d r s = ((dec, None), s')"
  shows "answered_with s' (op_scope r) IntentRejectPublication d dec None"
  using assms
  by (auto simp: reject_def Let_def split: option.splits if_splits
      dest!: respond_accepts intro!: answered_commit)

lemma cancel_answered:
  assumes "cancel c reason h d r s = ((dec, None), s')" and "\<not> pd_replay dec"
  shows "answered_with s' (op_scope r) IntentCancelPublication d dec None"
  using assms
  by (auto simp: cancel_def Let_def split: option.splits if_splits
      dest!: respond_accepts intro!: answered_commit)

lemma assembly_answered:
  assumes "recordResidueAssembly c a h d r s = ((dec, None), s')" and "\<not> pd_replay dec"
  shows "answered_with s' (op_scope r) IntentRecordResidueAssembly d dec None"
  using assms
  by (auto simp: recordResidueAssembly_def mintCleanupDebtID_def Let_def split: option.splits if_splits
      dest!: respond_accepts intro!: answered_commit)

lemma resolve_answered:
  assumes "resolveCleanupDebt c p h d r s = ((dec, None), s')"
  shows "answered_with s' (op_scope r) IntentResolveCleanupDebt d dec None"
  using assms
  by (auto simp: resolveCleanupDebt_def mintAuditFactID_def Let_def
      split: option.splits if_splits sum.splits
      dest!: respond_accepts intro!: answered_commit)

lemma prepare_answered:
  assumes "prepare c p h d (scopeOf h) s = Some ((dec, None), s')"
  shows "answered_with s' (scopeOf h) IntentPreparePublication d dec None"
  using assms
  by (auto simp: prepare_def Let_def bind_eq_Some_conv newOperation_def
      split: option.splits if_splits
      dest!: respond_accepts intro!: answered_commit)

text \<open>The kinds whose outcome is replayed: reconciliation and release always run again.\<close>

definition replayed_kind :: "PublicationIntentKind \<Rightarrow> bool" where
  "replayed_kind k \<longleftrightarrow> k \<noteq> IntentReconcilePublication \<and> k \<noteq> IntentReleaseResidue"

lemma continueOperation_answered:
  assumes "continueOperation c i d r s = ((dec, None), s')" and "\<not> pd_replay dec"
    and "replayed_kind (intentKind i)"
  shows "answered_with s' (op_scope r) (intentKind i) d dec None"
  using assms
  by (cases i) (simp_all add: replayed_kind_def verify_answered activate_answered reject_answered
      cancel_answered assembly_answered resolve_answered)

lemma Mutate_answered:
  assumes mutate: "Mutate c (Some i) s = Some ((dec, None), s')" and new: "\<not> pd_replay dec"
    and kind: "replayed_kind (intentKind i)" and agree: "scopes_agree s"
  shows "intentRefusal c i = None \<and>
    answered_with s' (scopeOf (intentHeader i)) (intentKind i) (CanonicalRequestDigest (cf_hash c) i) dec None"
proof -
  let ?d = "CanonicalRequestDigest (cf_hash c) i" and ?scope = "scopeOf (intentHeader i)"
  have valid: "intentRefusal c i = None"
    using mutate by (auto simp: Mutate_def split: option.splits)
  show ?thesis
  proof (cases "map_of (ps_operations s) ?scope")
    case None
    with mutate valid obtain h p where i: "i = PreparePublication h p"
      by (cases i) (auto simp: Mutate_def Let_def)
    with mutate valid None have "prepare c p h ?d (scopeOf h) s = Some ((dec, None), s')"
      by (simp add: Mutate_def Let_def)
    from prepare_answered [OF this] valid i show ?thesis by simp
  next
    case (Some r)
    with mutate valid have run: "mutateRecord c i ?d r s = ((dec, None), s')"
      by (simp add: Mutate_def Let_def)
    then have "continueOperation c i ?d r s = ((dec, None), s')"
      using kind new
      by (auto simp: mutateRecord_def replayed_kind_def replayOutcome_def Let_def
          split: option.splits if_splits)
    moreover have "op_scope r = ?scope" using agree Some by (metis scopes_agree_def)
    ultimately show ?thesis using continueOperation_answered [OF _ new kind] valid by metis
  qed
qed

text \<open>What is recorded is replayed, and nothing else happens.\<close>

lemma answered_replays:
  assumes "answered_with s (scopeOf (intentHeader i)) (intentKind i) (CanonicalRequestDigest (cf_hash c) i) dec err"
    and "replayed_kind (intentKind i)" and "intentRefusal c i = None"
  shows "Mutate c (Some i) s = Some ((dec\<lparr>pd_replay := True\<rparr>, err), s)"
  using assms
  by (auto simp: answered_with_def outcome_of_def bind_eq_Some_conv Mutate_def mutateRecord_def
      replayed_kind_def replayOutcome_def Let_def)

lemma recorded_answer_kept:
  assumes reach: "publication_reachable s" and calls: "publication_call\<^sup>*\<^sup>* s s'"
    and answered: "answered_with s scope k d dec err" and kind: "replayed_kind k"
  shows "answered_with s' scope k d dec err"
proof -
  from answered obtain r out where r: "map_of (ps_operations s) scope = Some r"
    and out: "outcome_of r k d = Some out" "io_decision out = dec" "io_error out = err"
    unfolding answered_with_def by blast
  have "\<exists>r'. map_of (ps_operations s') scope = Some r' \<and> outcome_of r' k d = Some out"
    by (rule calls_records [OF reach r calls])
      (use kind out(1) record_change_outcome in \<open>auto simp: replayed_kind_def\<close>)
  with out show ?thesis unfolding answered_with_def by blast
qed

section \<open>Committed versions stay\<close>

lemma mutation_committed:
  assumes "mutation c s s'" and "scopes_agree s" and "candidates_ok s" and "versions_ok s"
    and "map_of (ps_activated s) v = Some a"
  shows "map_of (ps_activated s') v = Some a"
  using assms
proof cases
  case (activated r cand h revision b evidence at r' d dec err t)
  have "map_of (ps_activated s) (cd_version cand) = None"
    using activated assms(2-4) by (intro verified_not_committed) simp_all
  with activated assms(5) show ?thesis by (auto split: if_splits)
qed simp_all

lemma calls_committed:
  assumes reach: "publication_reachable s" and calls: "publication_call\<^sup>*\<^sup>* s s'"
    and "map_of (ps_activated s) v = Some a"
  shows "map_of (ps_activated s') v = Some a"
  using calls
proof (induction rule: rtranclp_induct)
  case base
  show ?case by (rule assms(3))
next
  case (step t u)
  from step.hyps(2) obtain c intent ans where mut: "Mutate c intent t = Some (ans, u)"
    by (auto simp: publication_call_def)
  have t: "publication_reachable t" by (rule calls_reachable [OF reach step.hyps(1)])
  note agree = reachable_scopes [OF t]
  have ok: "candidates_ok t" "versions_ok t"
    using reachable_ok [OF t] by (simp_all add: publication_ok_def)
  show ?case by (rule mutation_committed [OF Mutate_mutation [OF mut agree] agree ok step.IH])
qed

section \<open>A call returns\<close>

lemma mintVersionID_returns:
  assumes "length (ps_versions s) < 2 ^ 64"
  shows "\<exists>v n. mintVersionID s = Some (v, s\<lparr>ps_next_version := n\<rparr>)"
proof -
  have "inj version_name" by (simp add: inj_def)
  from mintLoop_returns [OF this assms, of "ps_next_version s"] show ?thesis
    by (auto simp: mintVersionID_def)
qed

lemma mintArtifactID_returns:
  assumes "length (ps_artifacts s) < 2 ^ 64"
  shows "\<exists>i s'. mintArtifactID domain task s = Some (i, s') \<and>
    length (ps_artifacts s') = Suc (length (ps_artifacts s))"
proof -
  have "inj artifact_name" by (simp add: inj_def)
  from mintLoop_returns [OF this assms, of "ps_next_artifact s"] obtain i n where
    "mintLoop artifact_name (ps_artifacts s) (ps_next_artifact s) = Some (i, n)"
    "map_of (ps_artifacts s) i = None" by blast
  then show ?thesis by (simp add: mintArtifactID_def update_fresh)
qed

lemma mintMembers_returns:
  "length (ps_artifacts s) + length specs \<le> 2 ^ 64 \<Longrightarrow>
     \<exists>ms s'. mintMembers nfc domain task specs s = Some (ms, s')"
proof (induction specs arbitrary: s)
  case Nil
  then show ?case by simp
next
  case (Cons spec specs)
  then have "length (ps_artifacts s) < 2 ^ 64" by simp
  from mintArtifactID_returns [OF this] obtain i s1 where
    i: "mintArtifactID domain task s = Some (i, s1)" "length (ps_artifacts s1) = Suc (length (ps_artifacts s))"
    by blast
  with Cons.prems have "length (ps_artifacts s1) + length specs \<le> 2 ^ 64" by simp
  from Cons.IH [OF this] i(1) show ?case by (auto split: option.split)
qed

lemma prepare_returns:
  assumes "length (ps_versions s) < 2 ^ 64"
    and "length (ps_artifacts s) + length (pp_members p) \<le> 2 ^ 64"
  shows "\<exists>ans s'. prepare c p h d scope s = Some (ans, s')"
proof -
  obtain v n where v: "mintVersionID s = Some (v, s\<lparr>ps_next_version := n\<rparr>)"
    using mintVersionID_returns [OF assms(1)] by blast
  obtain ms s2 where m: "mintMembers (cf_nfc c) (ph_domain h) (ph_task h)
      (sort_key sp_slot (pp_members p)) (s\<lparr>ps_next_version := n\<rparr>) = Some (ms, s2)"
    using mintMembers_returns [of "s\<lparr>ps_next_version := n\<rparr>" "sort_key sp_slot (pp_members p)"
        "cf_nfc c" "ph_domain h" "ph_task h"] assms(2) by auto
  show ?thesis
    by (auto simp: prepare_def Let_def v m split: option.split)
qed

section \<open>Preparation and order\<close>

lemma find_elem_distinct:
  assumes "distinct (map f xs)" and "set ys = set xs" and "distinct (map f ys)"
  shows "find_elem (\<lambda>x. f x = k) xs = find_elem (\<lambda>x. f x = k) ys"
proof (cases "find_elem (\<lambda>x. f x = k) xs")
  case None
  then have "find_elem (\<lambda>x. f x = k) ys = None" by (simp add: find_elem_None assms(2))
  with None show ?thesis by simp
next
  case (Some x)
  from find_elem_Some [OF Some] assms(2) have x: "x \<in> set ys" "f x = k" by blast+
  then have "find_elem (\<lambda>x. f x = k) ys \<noteq> None" by (auto simp: find_elem_None)
  then obtain y where y: "find_elem (\<lambda>x. f x = k) ys = Some y" by blast
  have "x = y"
    using find_elem_Some [OF y] x assms(3) unfolding distinct_map inj_on_def by blast
  with Some y show ?thesis by simp
qed

text \<open>Another listing of the members and the staging of a payload.\<close>

definition relisted :: "PreparePublicationPayload \<Rightarrow> PreparePublicationPayload \<Rightarrow> bool" where
  "relisted p q \<longleftrightarrow>
     (\<exists>ms st. mset ms = mset (pp_members p) \<and> mset st = mset (pp_staging p) \<and>
        q = p\<lparr>pp_members := ms, pp_staging := st\<rparr>)"

lemma relisted_bindings:
  assumes "distinct (map sr_slot (pp_staging p))" and "mset st = mset (pp_staging p)"
    and "mset ms = mset (pp_members p)"
  shows "validPrepareBindings (p\<lparr>pp_members := ms, pp_staging := st\<rparr>) = validPrepareBindings p"
proof -
  have sets: "set ms = set (pp_members p)" "set st = set (pp_staging p)"
    using assms(2,3) by (metis set_mset_mset)+
  have dist: "distinct (map sr_slot st)"
    using assms(1,2) by (metis mset_map mset_eq_imp_distinct_iff)
  have "find_elem (\<lambda>r. sr_slot r = k) (rev st) = find_elem (\<lambda>r. sr_slot r = k) (rev (pp_staging p))" for k
    by (rule find_elem_distinct) (use dist assms(1) sets in \<open>simp_all add: rev_map [symmetric]\<close>)
  then show ?thesis by (simp add: validPrepareBindings_def list_all_iff sets)
qed

lemma relisted_prepare:
  assumes "relisted p q" and "validPreparePayload nfc p"
  shows "prepare c q h d scope s = prepare c p h d scope s"
proof -
  from assms(1) obtain ms st where ms: "mset ms = mset (pp_members p)" "mset st = mset (pp_staging p)"
    and q: "q = p\<lparr>pp_members := ms, pp_staging := st\<rparr>" unfolding relisted_def by blast
  have d: "distinct (map sp_slot (pp_members p))" "distinct (map sr_slot (pp_staging p))"
    using assms(2) by (simp_all add: validPreparePayload_def)
  have sorted: "sort_key sp_slot ms = sort_key sp_slot (pp_members p)"
    by (rule sort_key_order_free) (use d ms in \<open>metis mset_map mset_eq_imp_distinct_iff set_mset_mset\<close>)+
  have staging: "sort_key st_slot (map stagingOf st) = sort_key st_slot (map stagingOf (pp_staging p))"
  proof (rule sort_key_order_free)
    have slots: "map st_slot (map stagingOf xs) = map sr_slot xs" for xs by (simp add: stagingOf_def)
    show "distinct (map st_slot (map stagingOf (pp_staging p)))" unfolding slots by (rule d(2))
    show "distinct (map st_slot (map stagingOf st))"
      unfolding slots using d(2) ms(2) by (metis mset_map mset_eq_imp_distinct_iff)
    show "set (map stagingOf st) = set (map stagingOf (pp_staging p))"
      using ms(2) by (metis set_map set_mset_mset)
  qed
  have fields: "pp_kind q = pp_kind p" "pp_parent q = pp_parent p"
    "validPrepareBindings q = validPrepareBindings p"
    using relisted_bindings [OF d(2) ms(2,1)] by (simp_all add: q)
  have refusal: "prepareRefusal s h q = prepareRefusal s h p"
    unfolding prepareRefusal_def fields by (rule refl)
  have cand: "candidateOf hash h q version mm = candidateOf hash h p version mm" for hash version mm
    by (simp add: candidateOf_def q staging lineageOf_def manifestOf_def)
  have members: "sort_key sp_slot (pp_members q) = sort_key sp_slot (pp_members p)"
    using sorted by (simp add: q)
  show ?thesis
    unfolding prepare_def refusal cand members by (rule refl)
qed

end
