(* ===== verification/Pub_Example.thy ===== *)
theory Pub_Example
  imports Pub_Replay
begin

text \<open>
  A concrete run of the authority, at which the properties are applied: a first generation is
  prepared, verified and activated; in another run the same preparation is cancelled, its
  assembly recorded, its debt resolved, and its staging released. The hash is a constant, so
  every digest in the run is \<open>ex_digest\<close>.
\<close>

definition ex_hash :: hashing where
  "ex_hash = \<lparr>hs_value = (\<lambda>_ _. replicate 32 CHR ''a''), hs_text = (\<lambda>_. replicate 32 CHR ''a'')\<rparr>"

definition ex_digest :: string where
  "ex_digest = ''sha256:'' @ hex_encode (replicate 32 CHR ''a'')"

definition ex_capability :: ContentCapabilityEvidence where
  "ex_capability =
     \<lparr>cc_id = ''cap'', cc_digest = ex_digest, cc_producer = \<lparr>pr_authority = ''durable'', pr_generation = 1\<rparr>,
      cc_domain = ''d'', cc_purpose = ContentPurposePublicationMember, cc_content = ''c'',
      cc_slot = ''deck'', cc_content_digest = ex_digest, cc_size = 9, cc_write = WriteIntentImmutable,
      cc_physical = 1, cc_method = VerificationMethodReceiptBound, cc_adapter = ''s3'',
      cc_generation = 1, cc_fence = 1, cc_epoch = 1\<rparr>"

definition ex_scope :: ContentScope where
  "ex_scope = \<lparr>cs_kind = ContentScopeShareLink, cs_id = ''link'', cs_generation = 3\<rparr>"

definition ex_receipt :: "string \<Rightarrow> u16 \<Rightarrow> ReleaseReceipt" where
  "ex_receipt outcome blockers =
     \<lparr>rc_id = ''receipt'', rc_digest = ex_digest,
      rc_producer = \<lparr>pr_authority = ''durable'', pr_generation = 1\<rparr>, rc_outcome = outcome,
      rc_blockers = blockers, rc_expiry = 0, rc_at = 5\<rparr>"

definition ex_config :: "string \<Rightarrow> u16 \<Rightarrow> PubConfig" where
  "ex_config outcome blockers =
     \<lparr>cf_hash = ex_hash, cf_nfc = (\<lambda>s. s), cf_now = (\<lambda>n. 1000 + int n), cf_runtime = ''runtime'',
      cf_validation = ''validation'', cf_c04 = ''c04'', cf_durable = ''durable'',
      cf_orchestration = ''orchestration'', cf_recovery = ''recovery'',
      cf_publication = ''publication'', cf_cleanup = ''cleanup'',
      cf_capability = Some (\<lambda>i. if i = ''cap'' then Some ex_capability else None),
      cf_scope = Some (\<lambda>k. if ck_id k = ''link'' then Some ex_scope else None),
      cf_retention = None,
      cf_release = Some (\<lambda>staging epoch. Inr (ex_receipt outcome blockers, True)),
      cf_fault = None\<rparr>"

definition ex_authority :: PublicationAuthority where
  "ex_authority = \<lparr>pa_kind = AuthorityTaskOrchestration, pa_id = ''orchestration'', pa_generation = 1\<rparr>"

definition ex_cleaner :: PublicationAuthority where
  "ex_cleaner = \<lparr>pa_kind = AuthorityPublicationCleanup, pa_id = ''cleanup'', pa_generation = 1\<rparr>"

definition ex_header :: "string \<Rightarrow> string \<Rightarrow> PublicationAuthority \<Rightarrow> PublicationIntentHeader" where
  "ex_header task operation authority =
     \<lparr>ph_schema = PubSchemaV1, ph_request = ''req'',
      ph_operation = \<lparr>po_id = operation, po_digest = ex_digest\<rparr>, ph_domain = ''d'', ph_task = task,
      ph_revision = 0, ph_head = [], ph_activity = 1, ph_generation = 1, ph_fence = 1, ph_epoch = 1,
      ph_authority = authority, ph_at = 7\<rparr>"

definition ex_pinned :: "string \<Rightarrow> PinnedRef" where
  "ex_pinned i = \<lparr>er_id = i, er_digest = ex_digest\<rparr>"

definition ex_payload :: PreparePublicationPayload where
  "ex_payload =
     \<lparr>pp_contract = ''contract'', pp_kind = PublicationKindFirstGeneration, pp_parent = [],
      pp_phase_run = ''run'',
      pp_members = [\<lparr>sp_slot = ''deck'', sp_kind = ''plan'', sp_name = ''Deck'',
                     sp_media = MediaTypePlain, sp_size = 9, sp_digest = ex_digest\<rparr>],
      pp_staging = [\<lparr>sr_slot = ''deck'', sr_content = ''c'', sr_digest = ex_digest, sr_size = 9,
                     sr_purpose = ContentPurposePublicationMember, sr_physical = 1, sr_adapter = ''s3''\<rparr>],
      pp_channels = [ChannelDeck],
      pp_runtime_refs = [\<lparr>rr_channel = ChannelDeck, rr_id = ''r1'', rr_digest = ex_digest\<rparr>],
      pp_validation_ref = ex_pinned ''v1'', pp_c04_ref = ex_pinned ''c1'',
      pp_capability_refs = [\<lparr>cr_slot = ''deck'', cr_id = ''cap'', cr_digest = ex_digest\<rparr>]\<rparr>"

definition ex_runtime :: RuntimeEvidence where
  "ex_runtime =
     \<lparr>re_id = ''r1'', re_digest = ex_digest, re_producer = \<lparr>pr_authority = ''runtime'', pr_generation = 1\<rparr>,
      re_domain = ''d'', re_task = ''t'', re_phase_run = ''run'', re_runtime_run = ''rr'',
      re_operation = ''ro'', re_binding = ''b'', re_channel = ChannelDeck, re_proposal = ex_digest,
      re_proposal_ref = ''pr'', re_outcome = ''completed'', re_generation = 1, re_fence = 1, re_epoch = 1\<rparr>"

definition ex_validation :: ValidationEvidence where
  "ex_validation =
     \<lparr>ve_id = ''v1'', ve_digest = ex_digest,
      ve_producer = \<lparr>pr_authority = ''validation'', pr_generation = 1\<rparr>, ve_domain = ''d'', ve_task = ''t'',
      ve_phase_run = ''run'', ve_contract = ''contract'', ve_runtime_refs = [ex_pinned ''r1''],
      ve_proposal = ex_digest, ve_decision = ''accepted'', ve_generation = 1, ve_fence = 1, ve_epoch = 1\<rparr>"

definition ex_commit :: C04CommitEvidence where
  "ex_commit =
     \<lparr>ce_id = ''c1'', ce_digest = ex_digest, ce_producer = \<lparr>pr_authority = ''c04'', pr_generation = 1\<rparr>,
      ce_domain = ''d'', ce_task = ''t'', ce_workspace = ''w'', ce_revision = ''rev'',
      ce_checkpoint = ''cp'', ce_validation = ''v1'', ce_validation_digest = ex_digest,
      ce_state_manifest = ''m'', ce_content_root = ''root'', ce_durability_root = ''root'',
      ce_operation = ''co'', ce_generation = 1, ce_fence = 1, ce_epoch = 1, ce_export = None\<rparr>"

definition ex_verify :: VerifyPublicationPayload where
  "ex_verify =
     \<lparr>vp_runtime = [ex_runtime], vp_validation = ex_validation, vp_c04 = ex_commit,
      vp_capabilities = [ex_capability]\<rparr>"

definition ex_assembly :: AssemblyReference where
  "ex_assembly = \<lparr>ar_reference = ''a'', ar_identity = ex_digest, ar_generation = 4, ar_fence = 4\<rparr>"

definition ex_resolution :: ResolveCleanupDebtPayload where
  "ex_resolution =
     \<lparr>rp_class = CleanupResolutionAcceptedException, rp_evidence = None, rp_approval = ''ok'',
      rp_expires = 9\<rparr>"

abbreviation ex_c :: PubConfig where
  "ex_c \<equiv> ex_config ReleaseOutcomeReleased 0"

abbreviation ex_h :: PublicationIntentHeader where
  "ex_h \<equiv> ex_header ''t'' ''op'' ex_authority"

abbreviation ex_k :: PublicationIntentHeader where
  "ex_k \<equiv> ex_header ''t'' ''op'' ex_cleaner"

section \<open>Facts of the inputs\<close>

lemma ex_digest_facts [simp]:
  "canonicalDigest ex_hash v = ex_digest" "validDigest ex_digest" "ex_digest \<noteq> []"
  "CanonicalRequestDigest ex_hash i = ex_digest" "runtimeEvidenceDigest ex_hash a = ex_digest"
  "validationEvidenceDigest ex_hash b = ex_digest" "commitEvidenceDigest ex_hash e = ex_digest"
  "capabilityEvidenceDigest ex_hash f = ex_digest" "releaseReceiptDigest ex_hash g = ex_digest"
  "manifestDigest ex_hash m = ex_digest" "lineageDigest ex_hash l = ex_digest"
  "targetDigest ex_hash t = ex_digest"
proof -
  show 1: "canonicalDigest ex_hash v = ex_digest" for v
    by (simp add: canonicalDigest_def ex_hash_def ex_digest_def)
  have "proper_hashing ex_hash"
    by (simp add: proper_hashing_def ex_hash_def zero_digest_def)
  then show "validDigest ex_digest" by (metis 1 validDigest_canonical)
  then show "ex_digest \<noteq> []" by auto
qed (simp_all add: CanonicalRequestDigest_def runtimeEvidenceDigest_def validationEvidenceDigest_def
    commitEvidenceDigest_def capabilityEvidenceDigest_def releaseReceiptDigest_def manifestDigest_def
    lineageDigest_def targetDigest_def canonicalDigest_def ex_hash_def ex_digest_def)

lemma ex_config_facts [simp]:
  "cf_hash (ex_config o1 b) = ex_hash" "cf_nfc (ex_config o1 b) = (\<lambda>s. s)"
  "cf_now (ex_config o1 b) n = 1000 + int n" "injectFault (ex_config o1 b) f op k x = None"
  "cf_cleanup (ex_config o1 b) = ''cleanup''" "cf_orchestration (ex_config o1 b) = ''orchestration''"
  "cf_durable (ex_config o1 b) = ''durable''" "cf_publication (ex_config o1 b) = ''publication''"
  "cf_release (ex_config o1 b) = Some (\<lambda>staging epoch. Inr (ex_receipt o1 b, True))"
  by (simp_all add: ex_config_def injectFault_def)

lemma ex_header_facts [simp]:
  "ph_domain (ex_header task op a) = ''d''" "ph_task (ex_header task op a) = task"
  "po_id (ph_operation (ex_header task op a)) = op"
  "po_digest (ph_operation (ex_header task op a)) = ex_digest"
  "ph_revision (ex_header task op a) = 0" "ph_head (ex_header task op a) = []"
  "ph_generation (ex_header task op a) = 1" "ph_fence (ex_header task op a) = 1"
  "ph_epoch (ex_header task op a) = 1" "ph_authority (ex_header task op a) = a"
  "ph_at (ex_header task op a) = 7" "ph_schema (ex_header task op a) = PubSchemaV1"
  "scopeOf (ex_header task op a) = (''d'', task, op)"
  "scopeOf (ex_header task op a) = scopeOf (ex_header task op b)"
  by (simp_all add: ex_header_def scopeOf_def)

lemma ex_authority_facts [simp]:
  "pa_kind ex_authority = AuthorityTaskOrchestration" "pa_kind ex_cleaner = AuthorityPublicationCleanup"
  "pa_id ex_authority = ''orchestration''" "pa_id ex_cleaner = ''cleanup''"
  by (simp_all add: ex_authority_def ex_cleaner_def)

lemma ex_authorised [simp]:
  "k \<in> {IntentPreparePublication, IntentVerifyPublication, IntentActivatePublication, IntentCancelPublication} \<Longrightarrow>
     ensureAuthority (ex_config o1 b) ex_authority k = None"
  "k \<in> {IntentRecordResidueAssembly, IntentReleaseResidue, IntentResolveCleanupDebt} \<Longrightarrow>
     ensureAuthority (ex_config o1 b) ex_cleaner k = None"
  by (auto simp: ensureAuthority_def)

lemma ex_respond [simp]: "respond (ex_config o1 b) op k x a = a"
  by (simp add: respond_def)

lemma ex_name [simp]: "normalizedLogicalName (\<lambda>s. s) ''Deck'' = Some ''Deck''"
  by (simp add: normalizedLogicalName_def TrimSpace_def rune_at.simps IsSpace_def IsControl_def)

lemma ex_payload_valid [simp]:
  "validPreparePayload (\<lambda>s. s) ex_payload" "validPrepareBindings ex_payload"
  by (simp_all add: validPreparePayload_def validPrepareBindings_def ex_payload_def ex_pinned_def
      validPublicationKind_def validChannelKind_def validArtifactKind_def validMediaType_def
      allowedMediaTypes_def validContentPurpose_def)

lemma ex_verify_valid [simp]: "validVerifyPayload ex_verify"
  by (simp add: validVerifyPayload_def ex_verify_def ex_runtime_def ex_validation_def ex_commit_def
      ex_capability_def validProducer_def validChannelKind_def validContentPurpose_def
      validWriteIntent_def validVerificationMethod_def)

lemma ex_accepted_intents [simp]:
  "intentRefusal (ex_config o1 b) (PreparePublication ex_h ex_payload) = None"
  "intentRefusal (ex_config o1 b) (VerifyPublication ex_h ex_verify) = None"
  "intentRefusal (ex_config o1 b) (ActivatePublication ex_h) = None"
  "intentRefusal (ex_config o1 b) (CancelPublication ex_h CancelTaskOrchestration) = None"
  "intentRefusal (ex_config o1 b) (RecordResidueAssembly ex_k ex_assembly) = None"
  "intentRefusal (ex_config o1 b) (ResolveCleanupDebt ex_k ex_resolution) = None"
  "intentRefusal (ex_config o1 b) (ReleaseResidue ex_k) = None"
proof -
  have h: "validPubHeader ex_h" "validPubHeader ex_k"
    by (simp_all add: validPubHeader_def ex_header_def ex_authority_def ex_cleaner_def
        validMutationAuthority_def)
  note valid = intentRefusal_def validIntent_def h validCancelReason_def validAssemblyPayload_def
    validResolvePayload_def ex_assembly_def ex_resolution_def
  show
    "intentRefusal (ex_config o1 b) (PreparePublication ex_h ex_payload) = None"
    "intentRefusal (ex_config o1 b) (VerifyPublication ex_h ex_verify) = None"
    "intentRefusal (ex_config o1 b) (ActivatePublication ex_h) = None"
    "intentRefusal (ex_config o1 b) (CancelPublication ex_h CancelTaskOrchestration) = None"
    "intentRefusal (ex_config o1 b) (RecordResidueAssembly ex_k ex_assembly) = None"
    "intentRefusal (ex_config o1 b) (ResolveCleanupDebt ex_k ex_resolution) = None"
    "intentRefusal (ex_config o1 b) (ReleaseResidue ex_k) = None"
    by (simp_all add: valid)
qed

section \<open>The run\<close>

definition ex_minted :: InMemoryPersistence where
  "ex_minted = newPersistence
     \<lparr>ps_next_version := 1, ps_next_artifact := 1,
      ps_artifacts := [(artifact_name 1, \<lparr>ct_domain = ''d'', ct_task = ''t'', ct_version = []\<rparr>)]\<rparr>"

definition ex_cand :: candidateRecord where
  "ex_cand = candidateOf ex_hash ex_h ex_payload (version_name 1)
     [memberOf (hd (pp_members ex_payload)) (artifact_name 1) ''Deck'']"

definition ex_r0 :: operationRecord where
  "ex_r0 = newOperation ex_h ex_digest (''d'', ''t'', ''op'') 0 1000 ex_cand"

abbreviation ex_out :: "operationRecord \<Rightarrow> PublicationIntentKind \<Rightarrow> nat \<Rightarrow> operationRecord" where
  "ex_out r k n \<equiv>
     recordOutcome r k ex_digest (op_state r) (decisionForRecord r False (1000 + int n)) None (1001 + int n)"

abbreviation ex_write ::
    "PublicationIntentHeader \<Rightarrow> operationRecord \<Rightarrow> PublicationIntentKind \<Rightarrow> nat \<Rightarrow> InMemoryPersistence \<Rightarrow>
     InMemoryPersistence" where
  "ex_write h r k n s \<equiv>
     commitDecision ex_c h k ex_digest r (decisionForRecord r False (1000 + int n)) None (Suc n) s"

definition ex_s1 :: InMemoryPersistence where
  "ex_s1 = ex_write ex_h ex_r0 IntentPreparePublication 1 (persistCandidate ex_r0 ex_h ex_cand ex_minted)"

lemma ex_prepared:
  "Mutate ex_c (Some (PreparePublication ex_h ex_payload)) newPersistence =
     Some ((decisionForRecord ex_r0 False 1001, None), ex_s1)"
proof -
  have v: "mintVersionID newPersistence = Some (version_name 1, newPersistence\<lparr>ps_next_version := 1\<rparr>)"
    by (simp add: mintVersionID_def mintLoop.simps newPersistence_def)
  have m: "mintMembers (\<lambda>s. s) ''d'' ''t'' (sort_key sp_slot (pp_members ex_payload))
      (newPersistence\<lparr>ps_next_version := 1\<rparr>) =
      Some (Some [memberOf (hd (pp_members ex_payload)) (artifact_name 1) ''Deck''], ex_minted)"
    by (simp add: ex_payload_def mintArtifactID_def mintLoop.simps newPersistence_def ex_minted_def)
  have r: "prepareRefusal newPersistence ex_h ex_payload = None"
    by (simp add: prepareRefusal_def streamOf_def newPersistence_def ex_payload_def [THEN arg_cong, of pp_kind])
  have none: "map_of (ps_operations newPersistence) x = None"
    and stream: "streamOf newPersistence x' = \<lparr>sm_revision = 0, sm_head = []\<rparr>" for x x'
    by (simp_all add: newPersistence_def streamOf_def)
  show ?thesis
    by (simp add: Mutate_def none prepare_def r v m Let_def ex_cand_def [symmetric] stream
        ex_r0_def [symmetric] ex_s1_def numeral_2_eq_2)
qed

text \<open>The record and the state the preparation leaves.\<close>

definition ex_q1 :: operationRecord where "ex_q1 = ex_out ex_r0 IntentPreparePublication 1"

lemma ex_cand_facts [simp]:
  "cd_version ex_cand = version_name 1" "cd_kind ex_cand = PublicationKindFirstGeneration"
  "cd_parent ex_cand = []" "cd_schema ex_cand = PubSchemaV1" "cd_manifest ex_cand = ex_digest"
  "cd_runtime_refs ex_cand \<noteq> []"
  by (simp_all add: ex_cand_def candidateOf_def Let_def ex_payload_def)

lemma ex_r0_facts [simp]:
  "op_scope ex_r0 = (''d'', ''t'', ''op'')" "op_id ex_r0 = ''op''" "op_state ex_r0 = OperationPrepared"
  "op_generation ex_r0 = 1" "op_fence ex_r0 = 1" "op_candidate ex_r0 = Some ex_cand"
  "op_residue ex_r0 = None" "op_debt ex_r0 = None" "outcomesOf ex_r0 k = None"
  by (simp_all add: ex_r0_def newOperation_def outcomesOf_def)

lemma ex_q1_facts [simp]:
  "op_scope ex_q1 = (''d'', ''t'', ''op'')" "op_id ex_q1 = ''op''" "op_state ex_q1 = OperationPrepared"
  "op_generation ex_q1 = 1" "op_fence ex_q1 = 1" "op_candidate ex_q1 = Some ex_cand"
  "op_residue ex_q1 = None" "op_debt ex_q1 = None"
  "k \<noteq> IntentPreparePublication \<Longrightarrow> outcomesOf ex_q1 k = None"
  by (simp_all add: ex_q1_def outcomesOf_recordOutcome)

lemma ex_s1_facts [simp]:
  "map_of (ps_operations ex_s1) (''d'', ''t'', ''op'') = Some ex_q1"
  "streamOf ex_s1 (''d'', ''t'') = \<lparr>sm_revision = 0, sm_head = []\<rparr>"
  "ps_activated ex_s1 = []" "ps_next_debt ex_s1 = 0"
  "ps_operations ex_s1 = [((''d'', ''t'', ''op''), ex_q1)]"
  by (simp_all add: ex_s1_def ex_q1_def persistCandidate_def ex_minted_def newPersistence_def streamOf_def)

section \<open>Verified and activated\<close>

definition ex_r2 :: operationRecord where
  "ex_r2 = verifyTransition ex_q1 (evaluateEvidence ex_c ex_cand ex_h ex_verify)"

definition ex_s2 :: InMemoryPersistence where
  "ex_s2 = ex_write ex_h ex_r2 IntentVerifyPublication 0 ex_s1"

definition ex_q2 :: operationRecord where "ex_q2 = ex_out ex_r2 IntentVerifyPublication 0"

lemma ex_evaluated: "\<exists>x. evaluateEvidence (ex_config o1 b) ex_cand ex_h ex_verify = Inr (x, False)"
proof -
  have "evidence_complete (ex_config o1 b) ex_cand ex_h ex_verify"
    by (simp add: evidence_complete_def pinned_by_def one_identity_def runtime_proved_def
        validation_proved_def commit_proved_def capability_presented_def capability_current_def
        capabilityFits_def sameEvidenceRefSet_def runtimeEvidenceRefs_def stagingBySlot_def
        memberBySlot_def currentContentCapability_def ex_config_def ex_cand_def ex_payload_def
        candidateOf_def ex_verify_def ex_runtime_def ex_validation_def ex_commit_def ex_capability_def
        ex_pinned_def memberOf_def stagingOf_def)
  then show ?thesis by (simp add: evaluation_verified_iff)
qed

lemma ex_r2_facts [simp]:
  "op_scope ex_r2 = (''d'', ''t'', ''op'')" "op_id ex_r2 = ''op''" "op_state ex_r2 = OperationVerified"
  "op_generation ex_r2 = 1" "op_fence ex_r2 = 1" "op_candidate ex_r2 = Some ex_cand"
  "k \<noteq> IntentPreparePublication \<Longrightarrow> outcomesOf ex_r2 k = None"
proof -
  obtain x where "evaluateEvidence ex_c ex_cand ex_h ex_verify = Inr (x, False)"
    using ex_evaluated by blast
  then show "op_state ex_r2 = OperationVerified" by (simp add: ex_r2_def verifyTransition_def)
  show "outcomesOf ex_r2 k = None" if "k \<noteq> IntentPreparePublication"
    using ex_q1_facts(9) [OF that] by (simp add: outcomesOf_def ex_r2_def)
qed (simp_all add: ex_r2_def)

lemma ex_q2_facts [simp]:
  "op_scope ex_q2 = (''d'', ''t'', ''op'')" "op_id ex_q2 = ''op''" "op_state ex_q2 = OperationVerified"
  "op_generation ex_q2 = 1" "op_fence ex_q2 = 1" "op_candidate ex_q2 = Some ex_cand"
  "outcomesOf ex_q2 IntentActivatePublication = None"
  by (simp_all add: ex_q2_def outcomesOf_recordOutcome)

lemma ex_s2_facts [simp]:
  "map_of (ps_operations ex_s2) (''d'', ''t'', ''op'') = Some ex_q2"
  "streamOf ex_s2 (''d'', ''t'') = \<lparr>sm_revision = 0, sm_head = []\<rparr>"
  "ps_activated ex_s2 = []" "ps_operations ex_s2 = [((''d'', ''t'', ''op''), ex_q2)]"
proof -
  show "streamOf ex_s2 (''d'', ''t'') = \<lparr>sm_revision = 0, sm_head = []\<rparr>"
    using ex_s1_facts(2) by (simp add: ex_s2_def streamOf_def)
qed (simp_all add: ex_s2_def ex_q2_def)

lemma ex_verified:
  "Mutate ex_c (Some (VerifyPublication ex_h ex_verify)) ex_s1 =
     Some ((decisionForRecord ex_r2 False 1000, None), ex_s2)"
proof -
  obtain x where x: "evaluateEvidence ex_c ex_cand ex_h ex_verify = Inr (x, False)"
    using ex_evaluated by blast
  have r: "verifyTransition ex_q1 (Inr (x, False)) = ex_r2" by (simp add: ex_r2_def x)
  show ?thesis
    by (simp add: Mutate_def mutateRecord_def verify_def Let_def x r ex_s2_def)
qed

definition ex_ev :: PublicationEvidence where
  "ex_ev = buildActivationEvidence ex_q2 ex_h ex_cand 1 1000"

definition ex_a :: activatedRecord where
  "ex_a = activatedOf ex_h ex_cand 1 ex_ev 1001"

definition ex_r3 :: operationRecord where
  "ex_r3 = ex_q2\<lparr>op_revision := 1, op_evidence := Some ex_ev, op_state := OperationActivated\<rparr>"

definition ex_s3 :: InMemoryPersistence where
  "ex_s3 = ex_write ex_h ex_r3 IntentActivatePublication 2 (commitVersion ex_a ex_s2)"

definition ex_q3 :: operationRecord where "ex_q3 = ex_out ex_r3 IntentActivatePublication 2"

lemma ex_activated:
  "Mutate ex_c (Some (ActivatePublication ex_h)) ex_s2 =
     Some ((decisionForRecord ex_r3 False 1002, None), ex_s3)"
proof -
  have r: "activateRefusal ex_s2 ex_h ex_cand = None" by (simp add: activateRefusal_def)
  show ?thesis
    by (simp add: Mutate_def mutateRecord_def activate_def Let_def r ex_s3_def ex_r3_def ex_a_def
        ex_ev_def numeral_3_eq_3)
qed

lemma ex_a_facts [simp]:
  "av_version ex_a = version_name 1" "av_domain ex_a = ''d''" "av_task ex_a = ''t''"
  "av_schema ex_a = PubSchemaV1" "av_manifest ex_a = ex_digest" "av_revision ex_a = 1"
  "av_members ex_a = cd_members ex_cand"
  by (simp_all add: ex_a_def activatedOf_def)

lemma ex_s3_facts [simp]:
  "map_of (ps_operations ex_s3) (''d'', ''t'', ''op'') = Some ex_q3"
  "op_state ex_q3 = OperationActivated" "ps_activated ex_s3 = [(version_name 1, ex_a)]"
  by (simp_all add: ex_s3_def ex_q3_def ex_r3_def commitVersion_def)

section \<open>Cancelled and cleaned up\<close>

definition ex_r4 :: operationRecord where
  "ex_r4 = ex_q1\<lparr>op_cancel := CancelTaskOrchestration, op_state := OperationCancelled,
     op_residue := releaseResidue ex_c ex_q1 ex_h 1000\<rparr>"

definition ex_s4 :: InMemoryPersistence where
  "ex_s4 = ex_write ex_h ex_r4 IntentCancelPublication 1 ex_s1"

definition ex_q4 :: operationRecord where "ex_q4 = ex_out ex_r4 IntentCancelPublication 1"

definition ex_residue :: residueRecord where
  "ex_residue = the (releaseResidue ex_c ex_q1 ex_h 1000)"

lemma ex_residue_facts [simp]:
  "releaseResidue ex_c ex_q1 ex_h 1000 = Some ex_residue"
  "rs_disposition ex_residue = ResiduePending" "rs_expiry ex_residue = 0"
  "rs_staging ex_residue = cd_staging ex_cand"
  by (simp_all add: ex_residue_def releaseResidue_def residueExpiry_def ex_config_def)

lemma ex_q4_facts [simp]:
  "op_scope ex_q4 = (''d'', ''t'', ''op'')" "op_id ex_q4 = ''op''" "op_state ex_q4 = OperationCancelled"
  "op_generation ex_q4 = 1" "op_fence ex_q4 = 1" "op_candidate ex_q4 = Some ex_cand"
  "op_residue ex_q4 = Some ex_residue" "op_debt ex_q4 = None"
  "outcomesOf ex_q4 IntentRecordResidueAssembly = None"
  "outcomesOf ex_q4 IntentResolveCleanupDebt = None"
proof -
  have "outcomesOf ex_r4 k = outcomesOf ex_q1 k" for k by (simp add: ex_r4_def outcomesOf_def)
  then show "outcomesOf ex_q4 IntentRecordResidueAssembly = None"
    "outcomesOf ex_q4 IntentResolveCleanupDebt = None"
    by (simp_all add: ex_q4_def outcomesOf_recordOutcome)
qed (simp_all add: ex_q4_def ex_r4_def)

lemma ex_s4_facts [simp]:
  "map_of (ps_operations ex_s4) (''d'', ''t'', ''op'') = Some ex_q4"
  by (simp add: ex_s4_def ex_q4_def ex_r4_def)

lemma ex_cancelled:
  "Mutate ex_c (Some (CancelPublication ex_h CancelTaskOrchestration)) ex_s1 =
     Some ((decisionForRecord ex_r4 False 1001, None), ex_s4)"
  by (simp add: Mutate_def mutateRecord_def cancel_def Let_def ex_s4_def ex_r4_def numeral_2_eq_2)

lemma ex_input_facts [simp]:
  "ar_reference ex_assembly = ''a''" "ar_identity ex_assembly = ex_digest"
  "ar_generation ex_assembly = 4" "ar_fence ex_assembly = 4"
  "resolution c ex_resolution d = Inr (d\<lparr>db_class := CleanupResolutionAcceptedException,
     db_reason := ''administrator_exception'', db_approval := ''ok'', db_exception_expires := 9\<rparr>)"
  by (simp_all add: ex_assembly_def ex_resolution_def resolution_def)

definition ex_debt :: cleanupDebtRecord where
  "ex_debt = newDebt ex_q4 ex_k ex_assembly (debt_name (ps_next_debt ex_s4 + 1)) 1000"

definition ex_r5 :: operationRecord where
  "ex_r5 = ex_q4\<lparr>
     op_residue := Some (ex_residue\<lparr>rs_assembly := Some
         \<lparr>as_reference = ''a'', as_identity = ex_digest, as_generation = 4, as_fence = 4\<rparr>,
       rs_debt := debt_name (ps_next_debt ex_s4 + 1)\<rparr>),
     op_debt := Some ex_debt\<rparr>"

definition ex_s5 :: InMemoryPersistence where
  "ex_s5 = ex_write ex_k ex_r5 IntentRecordResidueAssembly 0
     (ex_s4\<lparr>ps_next_debt := ps_next_debt ex_s4 + 1\<rparr>)"

definition ex_q5 :: operationRecord where "ex_q5 = ex_out ex_r5 IntentRecordResidueAssembly 0"

lemma ex_assembled:
  "Mutate ex_c (Some (RecordResidueAssembly ex_k ex_assembly)) ex_s4 =
     Some ((decisionForRecord ex_r5 False 1000, None), ex_s5)"
  by (simp add: Mutate_def mutateRecord_def recordResidueAssembly_def mintCleanupDebtID_def Let_def
      ex_s5_def ex_r5_def ex_debt_def)

lemma ex_q5_facts [simp]:
  "op_scope ex_q5 = (''d'', ''t'', ''op'')" "op_id ex_q5 = ''op''" "op_state ex_q5 = OperationCancelled"
  "op_generation ex_q5 = 1" "op_fence ex_q5 = 1" "op_candidate ex_q5 = Some ex_cand"
  "op_debt ex_q5 = Some ex_debt" "outcomesOf ex_q5 IntentResolveCleanupDebt = None"
proof -
  have "outcomesOf ex_r5 k = outcomesOf ex_q4 k" for k by (simp add: ex_r5_def outcomesOf_def)
  then show "outcomesOf ex_q5 IntentResolveCleanupDebt = None"
    by (simp add: ex_q5_def outcomesOf_recordOutcome)
qed (simp_all add: ex_q5_def ex_r5_def)

lemma ex_s5_facts [simp]:
  "map_of (ps_operations ex_s5) (''d'', ''t'', ''op'') = Some ex_q5"
  by (simp add: ex_s5_def ex_q5_def ex_r5_def)

lemma ex_debt_facts [simp]:
  "db_status ex_debt = CleanupDebtOpen" "db_claim_generation ex_debt = 1" "db_claim_fence ex_debt = 1"
  "db_identity ex_debt = ex_digest" "db_generation ex_debt = 4" "db_fence ex_debt = 4"
  by (simp_all add: ex_debt_def newDebt_def)

definition ex_closed :: cleanupDebtRecord where
  "ex_closed =
     ex_debt\<lparr>db_class := CleanupResolutionAcceptedException, db_reason := ''administrator_exception'',
       db_approval := ''ok'', db_exception_expires := 9, db_resolved_at := 1000,
       db_status := CleanupDebtResolved, db_retry := CleanupRetryNone, db_blockers := 0,
       db_audit := fst (mintAuditFactID ex_s5), db_revision := db_revision ex_debt + 1\<rparr>"

definition ex_r6 :: operationRecord where "ex_r6 = ex_q5\<lparr>op_debt := Some ex_closed\<rparr>"

definition ex_s6 :: InMemoryPersistence where
  "ex_s6 = ex_write ex_k ex_r6 IntentResolveCleanupDebt 0 (snd (mintAuditFactID ex_s5))"

definition ex_q6 :: operationRecord where "ex_q6 = ex_out ex_r6 IntentResolveCleanupDebt 0"

lemma ex_resolved:
  "Mutate ex_c (Some (ResolveCleanupDebt ex_k ex_resolution)) ex_s5 =
     Some ((decisionForRecord ex_r6 False 1000, None), ex_s6)"
  by (simp add: Mutate_def mutateRecord_def resolveCleanupDebt_def
      mintAuditFactID_def Let_def ex_s6_def ex_r6_def ex_closed_def)

lemma ex_q6_facts [simp]:
  "op_scope ex_q6 = (''d'', ''t'', ''op'')" "op_state ex_q6 = OperationCancelled"
  "op_generation ex_q6 = 1" "op_fence ex_q6 = 1" "op_candidate ex_q6 = Some ex_cand"
  "op_debt ex_q6 = Some ex_closed" "db_status ex_closed = CleanupDebtResolved"
  by (simp_all add: ex_q6_def ex_r6_def ex_closed_def)

lemma ex_q6_residue:
  "\<exists>x. op_residue ex_q6 = Some x \<and> rs_disposition x = ResiduePending \<and> rs_expiry x = 0 \<and>
     rs_staging x = cd_staging ex_cand"
  by (simp add: ex_q6_def ex_r6_def ex_q5_def ex_r5_def recordOutcome_def Let_def)

lemma ex_s6_facts [simp]:
  "map_of (ps_operations ex_s6) (''d'', ''t'', ''op'') = Some ex_q6"
  by (simp add: ex_s6_def ex_q6_def ex_r6_def)

section \<open>The states are reachable\<close>

lemma ex_call: "Mutate c i s = Some (ans, s') \<Longrightarrow> publication_call s s'"
  unfolding publication_call_def by blast

lemma ex_calls:
  "publication_call newPersistence ex_s1" "publication_call ex_s1 ex_s2" "publication_call ex_s2 ex_s3"
  "publication_call ex_s1 ex_s4" "publication_call ex_s4 ex_s5" "publication_call ex_s5 ex_s6"
  by (rule ex_call [OF ex_prepared] ex_call [OF ex_verified] ex_call [OF ex_activated]
      ex_call [OF ex_cancelled] ex_call [OF ex_assembled] ex_call [OF ex_resolved])+

lemma ex_reachable:
  "publication_reachable newPersistence" "publication_reachable ex_s1" "publication_reachable ex_s2"
  "publication_reachable ex_s3" "publication_reachable ex_s4" "publication_reachable ex_s5"
  "publication_reachable ex_s6"
proof -
  show init: "publication_reachable newPersistence" by (simp add: publication_reachable_def)
  have step: "publication_reachable u" if "publication_reachable s" "publication_call s u" for s u
    using that unfolding publication_reachable_def by (rule rtranclp.rtrancl_into_rtrancl)
  show 1: "publication_reachable ex_s1" by (rule step [OF init ex_calls(1)])
  show 2: "publication_reachable ex_s2" by (rule step [OF 1 ex_calls(2)])
  show "publication_reachable ex_s3" by (rule step [OF 2 ex_calls(3)])
  show 4: "publication_reachable ex_s4" by (rule step [OF 1 ex_calls(4)])
  show 5: "publication_reachable ex_s5" by (rule step [OF 4 ex_calls(5)])
  show "publication_reachable ex_s6" by (rule step [OF 5 ex_calls(6)])
qed

section \<open>Released\<close>

text \<open>The staging of the run is released, which closes its residue.\<close>

lemma ex_receipts [simp]:
  "validateReleaseReceipt ex_hash (ex_receipt ReleaseOutcomeReleased 0) ''durable''"
  "validateReleaseReceipt ex_hash (ex_receipt ReleaseOutcomeBlocked 1) ''durable''"
  "rc_outcome (ex_receipt outcome b) = outcome"
  by (simp_all add: validateReleaseReceipt_def ex_receipt_def validReleaseOutcome_def
      release_outcome_defs validCleanupBlockers_def CleanupBlockerMask_def)

lemma ex_released:
  "\<exists>ans s' r'. Mutate ex_c (Some (ReleaseResidue ex_k)) ex_s6 = Some (ans, s') \<and>
     map_of (ps_operations s') (''d'', ''t'', ''op'') = Some r' \<and> residue_closed r'"
proof -
  obtain x where x: "op_residue ex_q6 = Some x" "rs_disposition x = ResiduePending" "rs_expiry x = 0"
    using ex_q6_residue by blast
  have "residue_ok ex_q6" by (rule reachable_residue [OF ex_reachable(7) ex_s6_facts])
  then have claim: "claimDebt ex_q6 x = Some (Some ex_closed)"
    using x(1) by (auto simp: residue_ok_def claimDebt_def)
  obtain ans r' where run: "runRelease ex_c ex_k ex_q6 ''op'' False = (ans, r')"
    and residue: "op_residue r' = Some (receiptOnResidue (x\<lparr>rs_disposition := ResidueReleaseRequested\<rparr>)
      (ex_receipt ReleaseOutcomeReleased 0) 1000)"
    using x claim by (simp add: runRelease_def Let_def residueClosedByEvidence_def)
  have "op_scope r' = (''d'', ''t'', ''op'')" using runRelease_identity [OF run] by simp
  moreover have "residue_closed r'"
    using residue by (simp add: residue_closed_def applied_receipt_closes_iff)
  ultimately show ?thesis
    using run by (simp add: Mutate_def mutateRecord_def releaseResidueFlow_def Let_def)
qed

section \<open>A target and a second member\<close>

definition ex_query :: "string \<Rightarrow> string \<Rightarrow> ArtifactContentTarget option \<Rightarrow> PublicationQuery" where
  "ex_query kind link target =
     \<lparr>qy_kind = kind, qy_domain = ''d'', qy_task = ''t'', qy_operation = [], qy_version = version_name 1,
      qy_artifact = artifact_name 1, qy_scope = ex_scope\<lparr>cs_id := link\<rparr>, qy_intent = ''download'',
      qy_expires = 0, qy_authority = ex_authority, qy_target = target, qy_capability = None, qy_debt = []\<rparr>"

definition ex_target :: ArtifactContentTarget where
  "ex_target = targetOf ex_c (ex_query ''resolve_content_target'' ''link'' None) ex_a (hd (cd_members ex_cand))"

lemma ex_target_resolved:
  "\<exists>view. PubQuery ex_c ex_s3 (ex_query ''resolve_content_target'' ''link'' None) = Inr view \<and>
     pv_target view = Some ex_target"
proof -
  define m where "m = memberOf (hd (pp_members ex_payload)) (artifact_name 1) ''Deck''"
  have members: "cd_members ex_cand = [m]"
    by (simp add: ex_cand_def candidateOf_def Let_def m_def)
  have m: "mb_id m = artifact_name 1" "mb_media m = MediaTypePlain"
    by (simp_all add: m_def memberOf_def ex_payload_def)
  have "dispositionForMediaType MediaTypePlain \<noteq> ContentDispositionActive"
    by (simp add: dispositionForMediaType_def MediaTypePlain_def MediaTypeHTML_def MediaTypeSVG_def
        ContentDispositionActive_def ContentDispositionAttachment_def)
  then show ?thesis
    by (simp add: PubQuery_def queryResolveContentTarget_def ex_query_def activatedIn_def
        memberByArtifactID_def members m validContentIntent_def validContentScope_def
        validContentScopeKind_def validateScopeForVersion_def currentContentScope_def ex_config_def
        ex_scope_def ex_target_def)
qed

definition ex_notes :: ArtifactMemberSpec where
  "ex_notes = \<lparr>sp_slot = ''notes'', sp_kind = ''plan'', sp_name = ''Deck'', sp_media = MediaTypePlain,
     sp_size = 9, sp_digest = ex_digest\<rparr>"

definition ex_notes_staging :: StagingReference where
  "ex_notes_staging = \<lparr>sr_slot = ''notes'', sr_content = ''c'', sr_digest = ex_digest, sr_size = 9,
     sr_purpose = ContentPurposePublicationMember, sr_physical = 1, sr_adapter = ''s3''\<rparr>"

definition ex_pair :: "bool \<Rightarrow> PreparePublicationPayload" where
  "ex_pair swapped = ex_payload
     \<lparr>pp_members := (if swapped then rev else id) (ex_notes # pp_members ex_payload),
      pp_staging := (if swapped then rev else id) (ex_notes_staging # pp_staging ex_payload),
      pp_capability_refs := \<lparr>cr_slot = ''notes'', cr_id = ''cap2'', cr_digest = ex_digest\<rparr> #
        pp_capability_refs ex_payload\<rparr>"

end
