(* ===== verification/Pub_Contracts.thy ===== *)
theory Pub_Contracts
  imports Pub_Example
begin

text \<open>
  The contracts of artifact publication, each applied to the run of \<open>Pub_Example\<close>.
\<close>

section \<open>Histories\<close>

text \<open>
  C6. In every reachable state with fewer than \<open>2 ^ 64\<close> committed versions the versions of a
  task form one line: they have the revisions 1, 2, \<dots>, the first one is a first generation,
  and each later one is a manual edit of the version just before it. The stream of the task
  names the length of the line as its revision and the last version as its head.
\<close>

theorem history_is_one_line:
  assumes "publication_reachable s" and "length (ps_activated s) < 2 ^ 64"
  shows "linear (history_of s t) \<and> stream_fits (history_of s t) (streamOf s t)"
  using reachable_ok [OF assms(1)] assms(2) unfolding publication_ok_def histories_ok_def by blast

theorem history_is_one_line_witness:
  "linear (history_of ex_s3 (''d'', ''t'')) \<and>
   stream_fits (history_of ex_s3 (''d'', ''t'')) (streamOf ex_s3 (''d'', ''t''))"
  by (rule history_is_one_line) (simp_all add: ex_reachable)

text \<open>
  C7. Every call of \<open>Mutate\<close>, whatever it answers, is a step of the abstract history: all
  histories stay as they are, or the history of one task grows at its end by one version that
  follows the last one.
\<close>

theorem calls_refine_history:
  assumes "publication_reachable s" and "Mutate c intent s = Some (ans, s')"
    and "length (ps_activated s') < 2 ^ 64"
  shows "history_step (history_of s) (history_of s')"
  by (rule Mutate_history [OF assms])

theorem calls_refine_history_witness:
  "history_step (history_of ex_s2) (history_of ex_s3)"
  by (rule calls_refine_history [OF _ ex_activated]) (simp_all add: ex_reachable)

section \<open>Operations\<close>

text \<open>
  C13. An operation that is activated, rejected or cancelled keeps that state, its candidate and
  its evidence through any later calls.
\<close>

theorem settled_operation_stays:
  assumes "publication_reachable s" and "map_of (ps_operations s) scope = Some r"
    and "operation_settled (op_state r)" and "publication_call\<^sup>*\<^sup>* s s'"
  shows "\<exists>r'. map_of (ps_operations s') scope = Some r' \<and> op_state r' = op_state r \<and>
    op_candidate r' = op_candidate r \<and> op_evidence r' = op_evidence r"
proof (rule calls_records [OF assms(1,2,4)])
  fix c p q
  assume "record_change c p q"
    and "op_state p = op_state r \<and> op_candidate p = op_candidate r \<and> op_evidence p = op_evidence r"
  with assms(3) record_change_settled record_change_identity record_change_evidence
  show "op_state q = op_state r \<and> op_candidate q = op_candidate r \<and> op_evidence q = op_evidence r"
    by metis
qed simp

theorem settled_operation_stays_witness:
  "\<exists>r'. map_of (ps_operations ex_s6) (''d'', ''t'', ''op'') = Some r' \<and>
     op_state r' = op_state ex_q4 \<and> op_candidate r' = op_candidate ex_q4 \<and>
     op_evidence r' = op_evidence ex_q4"
proof (rule settled_operation_stays [OF ex_reachable(5) ex_s4_facts])
  show "publication_call\<^sup>*\<^sup>* ex_s4 ex_s6" using ex_calls(5,6) by (blast intro: rtranclp.intros)
qed simp

text \<open>
  C8. A committed version never changes, and it belongs to an activated operation whose recorded
  verification accepted every runtime, validation and commit reference its candidate pins.
\<close>

theorem committed_version_is_verified:
  assumes "publication_reachable s" and "map_of (ps_activated s) v = Some a"
    and "publication_call\<^sup>*\<^sup>* s s'"
  shows "map_of (ps_activated s') v = Some a \<and>
    (\<exists>r cand f. map_of (ps_operations s') (av_domain a, av_task a, av_operation a) = Some r \<and>
       op_state r = OperationActivated \<and> op_candidate r = Some cand \<and> cd_version cand = v \<and>
       av_members a = cd_members cand \<and> av_manifest a = cd_manifest cand \<and>
       op_verification r = Some f \<and> vf_state f = VerificationVerified \<and>
       accepted_covers cand (vf_accepted f))"
proof -
  have a: "map_of (ps_activated s') v = Some a" by (rule calls_committed [OF assms(1,3,2)])
  have reach: "publication_reachable s'" by (rule calls_reachable [OF assms(1,3)])
  then have "versions_ok s'" using reachable_ok by (simp add: publication_ok_def)
  with a obtain r where r: "map_of (ps_operations s') (av_domain a, av_task a, av_operation a) = Some r"
    "snapshot_of a r" "av_version a = v" unfolding versions_ok_def by blast
  have "verification_ok r" by (rule reachable_verification [OF reach r(1)])
  with r a show ?thesis by (auto simp: snapshot_of_def verification_ok_def)
qed

theorem committed_version_is_verified_witness:
  "map_of (ps_activated ex_s3) (version_name 1) = Some ex_a \<and>
    (\<exists>r cand f. map_of (ps_operations ex_s3) (av_domain ex_a, av_task ex_a, av_operation ex_a) = Some r \<and>
       op_state r = OperationActivated \<and> op_candidate r = Some cand \<and> cd_version cand = version_name 1 \<and>
       av_members ex_a = cd_members cand \<and> av_manifest ex_a = cd_manifest cand \<and>
       op_verification r = Some f \<and> vf_state f = VerificationVerified \<and>
       accepted_covers cand (vf_accepted f))"
  by (rule committed_version_is_verified [OF ex_reachable(4)]) simp_all



text \<open>
  C14. An intent that was accepted is replayed: presented again after any other calls it is
  answered with the same decision, marked as a replay, and changes nothing. Reconciliation and
  release are excepted, they always run again.
\<close>

theorem accepted_intent_is_replayed:
  assumes "publication_reachable s" and "Mutate c (Some i) s = Some ((dec, None), s1)"
    and "\<not> pd_replay dec" and "replayed_kind (intentKind i)"
    and "publication_call\<^sup>*\<^sup>* s1 s2" and "intentRefusal c' i = None"
  shows "Mutate c' (Some i) s2 = Some ((dec\<lparr>pd_replay := True\<rparr>, None), s2)"
proof -
  note agree = reachable_scopes [OF assms(1)]
  note accepted = Mutate_answered [OF assms(2-4) agree]
  have "CanonicalRequestDigest (cf_hash c') i = CanonicalRequestDigest (cf_hash c) i"
    using accepted assms(6) intentRefusal_None by metis
  moreover have "publication_reachable s1"
    using calls_reachable [OF assms(1)] assms(2) unfolding publication_call_def by blast
  ultimately show ?thesis
    using recorded_answer_kept [OF _ assms(5) _ assms(4)] accepted answered_replays [OF _ assms(4,6)] by metis
qed

theorem accepted_intent_is_replayed_witness:
  "Mutate ex_c (Some (VerifyPublication ex_h ex_verify)) ex_s3 =
     Some (((decisionForRecord ex_r2 False 1000)\<lparr>pd_replay := True\<rparr>, None), ex_s3)"
proof (rule accepted_intent_is_replayed [OF ex_reachable(2) ex_verified])
  show "publication_call\<^sup>*\<^sup>* ex_s2 ex_s3" using ex_calls(3) by blast
qed (simp_all add: replayed_kind_def)

text \<open>
  C19. Every call returns. The loops of a preparation that look for an unused identity have no
  bound in the code; they end while fewer than \<open>2 ^ 64\<close> versions exist and the artifacts leave
  room for the members.
\<close>

theorem publication_call_returns:
  assumes "\<And>h p. intent = Some (PreparePublication h p) \<Longrightarrow> length (ps_versions s) < 2 ^ 64 \<and>
    length (ps_artifacts s) + length (pp_members p) \<le> 2 ^ 64"
  shows "\<exists>outcome. Mutate c intent s = Some outcome"
proof (cases intent)
  case None
  then show ?thesis by (simp add: Mutate_def)
next
  case (Some i)
  show ?thesis
  proof (cases "\<exists>h p. i = PreparePublication h p")
    case True
    with Some assms obtain h p where i: "i = PreparePublication h p"
      and room: "length (ps_versions s) < 2 ^ 64" "length (ps_artifacts s) + length (pp_members p) \<le> 2 ^ 64"
      by blast
    from prepare_returns [OF room] have "\<exists>x. prepare c p h d scope s = Some x" for d scope by blast
    with Some i show ?thesis
      by (auto simp: Mutate_def Let_def simp del: split_paired_Ex split: option.split)
  next
    case False
    with Some show ?thesis by (cases i) (auto simp: Mutate_def Let_def simp del: split_paired_Ex split: option.split)
  qed
qed

theorem publication_call_returns_witness:
  "\<exists>outcome. Mutate ex_c (Some (PreparePublication ex_h ex_payload)) newPersistence = Some outcome"
  by (rule publication_call_returns) (auto simp: newPersistence_def ex_payload_def)

text \<open>
  C22. What a preparation does depends on the members and the staging of the request, not on the
  order they are listed in: the identities, the candidate, its manifest and lineage digests and
  the answer are the same.
\<close>

theorem preparation_ignores_order:
  assumes "relisted p q" and "validPreparePayload nfc p"
  shows "prepare c q h d scope s = prepare c p h d scope s"
  by (rule relisted_prepare [OF assms])

theorem preparation_ignores_order_witness:
  "prepare ex_c (ex_pair True) ex_h ex_digest (scopeOf ex_h) newPersistence =
     prepare ex_c (ex_pair False) ex_h ex_digest (scopeOf ex_h) newPersistence"
proof (rule preparation_ignores_order [where nfc = "\<lambda>s. s"])
  show "relisted (ex_pair False) (ex_pair True)"
    unfolding relisted_def
    by (intro exI [of _ "pp_members (ex_pair True)"] exI [of _ "pp_staging (ex_pair True)"])
      (simp add: ex_pair_def)
  show "validPreparePayload (\<lambda>s. s) (ex_pair False)"
    by (simp add: ex_pair_def validPreparePayload_def ex_payload_def ex_pinned_def ex_notes_def
        ex_notes_staging_def validPublicationKind_def validChannelKind_def validArtifactKind_def
        validMediaType_def allowedMediaTypes_def validContentPurpose_def)
qed

text \<open>
  C16. Every operation of a reachable state is well formed: it is stored under its own scope; its
  candidate has the members in the strict order of their slots, with identities and names, one
  staging reference and capability per member of equal digest and size, and a version identity
  that leads back to this operation alone; its residue and debt, if any, fit together; and a
  verification is on record where its state says so.
\<close>

theorem stored_operation_is_well_formed:
  assumes "publication_reachable s" and "map_of (ps_operations s) scope = Some r"
  shows "op_scope r = scope \<and> residue_ok r \<and> verification_ok r \<and>
    (\<exists>cand. op_candidate r = Some cand \<and> candidate_sound cand \<and>
       map_of (ps_index s) (cd_version cand) = Some scope)"
proof -
  have "candidates_ok s" using reachable_ok [OF assms(1)] by (simp add: publication_ok_def)
  from candidates_okD [OF this assms(2)] have "\<exists>cand. op_candidate r = Some cand \<and>
      candidate_sound cand \<and> map_of (ps_index s) (cd_version cand) = Some scope"
    by (auto simp: owns_version_def split: option.splits)
  moreover have "op_scope r = scope"
    using reachable_scopes [OF assms(1)] assms(2) by (metis scopes_agree_def)
  ultimately show ?thesis using reachable_residue [OF assms] reachable_verification [OF assms] by blast
qed

theorem stored_operation_is_well_formed_witness:
  "op_scope ex_q6 = (''d'', ''t'', ''op'') \<and> residue_ok ex_q6 \<and> verification_ok ex_q6 \<and>
    (\<exists>cand. op_candidate ex_q6 = Some cand \<and> candidate_sound cand \<and>
       map_of (ps_index ex_s6) (cd_version cand) = Some (''d'', ''t'', ''op''))"
  by (rule stored_operation_is_well_formed [OF ex_reachable(7) ex_s6_facts])

section \<open>Cleanup\<close>

text \<open>
  C15. A call closes the residue of an operation only over a receipt of the release port: the
  port was given the staging of the operation's candidate, its receipt validates and says that
  the staging was released or is already absent, and the receipt is on record.
\<close>

theorem residue_closes_by_receipt:
  assumes "publication_reachable s" and "Mutate c intent s = Some (ans, s')"
    and "map_of (ps_operations s) scope = Some r" and "\<not> residue_closed r"
    and "map_of (ps_operations s') scope = Some r'" and "residue_closed r'"
  shows "\<exists>cand x receipt. op_candidate r = Some cand \<and> op_residue r' = Some x \<and>
    rs_receipt x = Some receipt \<and> proven_gone c (cd_staging cand) receipt"
proof -
  note agree = reachable_scopes [OF assms(1)]
  from mutation_change [OF Mutate_mutation [OF assms(2) agree] agree assms(3)] assms(5)
  have "record_change c r r'" by simp
  from record_change_closes [OF this] assms(4,6) obtain x x' receipt where
    x: "op_residue r = Some x" "op_residue r' = Some x'" "rs_receipt x' = Some receipt"
      "proven_gone c (rs_staging x) receipt" unfolding closes_by_receipt_def by blast
  moreover obtain cand where "op_candidate r = Some cand" "rs_staging x = cd_staging cand"
    using reachable_residue [OF assms(1,3)] x(1) by (auto simp: residue_ok_def)
  ultimately show ?thesis by auto
qed

text \<open>
  C18. A target that was resolved for a member of a committed version verifies later: after any
  calls, under any current scope of the same kind and generation for that version, whatever
  identity that scope has and whatever task the query names.
\<close>

theorem resolved_target_verifies:
  assumes hash: "proper_hashing (cf_hash c)" and reach: "publication_reachable s"
    and resolve: "PubQuery c s q = Inr view" "qy_kind q = ''resolve_content_target''"
    and target: "pv_target view = Some t"
    and later: "publication_call\<^sup>*\<^sup>* s s'" "cf_hash c' = cf_hash c"
    and verify: "qy_kind q' = ''verify_content_target''" "qy_domain q' \<noteq> []" "qy_task q' \<noteq> []"
      "qy_target q' = Some t"
    and scope: "cs_kind (qy_scope q') = tg_scope_kind t" "cs_generation (qy_scope q') = tg_generation t"
      "cs_id (qy_scope q') \<noteq> []"
      "currentContentScope c' \<lparr>ck_domain = tg_domain t, ck_task = tg_task t, ck_version = tg_version t,
         ck_kind = tg_scope_kind t, ck_id = cs_id (qy_scope q')\<rparr> = Some (qy_scope q')"
  shows "\<exists>view'. PubQuery c' s' q' = Inr view' \<and> pv_target view' = Some t"
proof -
  have "queryResolveContentTarget c s q = Inr view"
    using resolve by (auto simp: PubQuery_def failQuery_def split: if_splits)
  then obtain a m where a: "activatedIn s (qy_domain q) (qy_task q) (qy_version q) = Some a"
    and m: "memberByArtifactID a (qy_artifact q) = Some m" and view: "Some (targetOf c q a m) = Some t"
    and ok: "validContentIntent (qy_intent q)" "validContentScope (qy_scope q)" "qy_artifact q \<noteq> []"
    using target by (auto simp: queryResolveContentTarget_def failQuery_def
        split: if_splits option.splits)
  have stored: "map_of (ps_activated s) (qy_version q) = Some a" "av_domain a = qy_domain q"
    "av_task a = qy_task q"
    using a by (auto simp: activatedIn_def split: option.splits if_splits)
  have ids: "mb_id m = qy_artifact q"
    using m find_elem_Some unfolding memberByArtifactID_def by fast
  have vers: "versions_ok s" "candidates_ok s" using reachable_ok [OF reach] by (simp_all add: publication_ok_def)
  then obtain r where r: "map_of (ps_operations s) (av_domain a, av_task a, av_operation a) = Some r"
    "snapshot_of a r" "av_version a = qy_version q" using stored(1) unfolding versions_ok_def by blast
  have "schemaMajor (av_schema a) = schemaMajor PubSchemaV1"
    using candidates_okD [OF vers(2) r(1)] r(2) by (auto simp: snapshot_of_def owns_version_def candidate_sound_def)
  moreover have fields: "tg_schema t = av_schema a" "tg_domain t = qy_domain q" "tg_task t = qy_task q"
    "tg_version t = qy_version q" "tg_artifact t = qy_artifact q" "tg_manifest t = av_manifest a"
    "tg_intent t = qy_intent q" "tg_scope_kind t = cs_kind (qy_scope q)"
    "tg_generation t = cs_generation (qy_scope q)" "targetFits t m"
    "validContentDisposition (tg_disposition t)" "tg_digest t = targetDigest (cf_hash c) t"
    using view r(3) ids
    by (auto simp: targetOf_def Let_def targetFits_def dispositionForMediaType_def
        validContentDisposition_def targetDigest_def)
  moreover have "validDigest (targetDigest (cf_hash c) t)"
    unfolding targetDigest_def by (rule validDigest_canonical [OF hash])
  moreover have "activatedIn s' (tg_domain t) (tg_task t) (tg_version t) = Some a"
    using calls_committed [OF reach later(1) stored(1)] stored fields by (simp add: activatedIn_def)
  moreover have "validContentScope (qy_scope q')" and "validContentScopeKind (tg_scope_kind t)"
    using ok(2) scope fields by (simp_all add: validContentScope_def)
  moreover have "validateScopeForVersion c' (qy_scope q') a = None"
    using scope(1,4) stored fields r(3) by (simp add: validateScopeForVersion_def)
  ultimately have "queryVerifyContentTarget c' s' q' =
      Inr ((baseView ''verify_content_target'' (tg_domain t) (tg_task t))
             \<lparr>pv_version := tg_version t, pv_artifact := tg_artifact t, pv_target := Some t,
              pv_state := Some OperationActivated\<rparr>)"
    using ok m verify(4) scope(1,2) later(2) by (simp add: queryVerifyContentTarget_def)
  with verify show ?thesis by (simp add: PubQuery_def)
qed

text \<open>
  C31. A release that is answered by a blocked receipt blocks the cleanup debt of the operation
  even if that debt was resolved: the resolution stays on record under a status that denies it.
\<close>

theorem blocked_receipt_reopens_debt:
  assumes "publication_reachable s" and "map_of (ps_operations s) (scopeOf h) = Some r"
    and "intentRefusal c (ReleaseResidue h) = None"
    and "ensureAuthority c (ph_authority h) IntentReleaseResidue = None"
    and "ph_generation h = op_generation r" "ph_fence h = op_fence r"
    and "op_debt r = Some d" "db_status d = CleanupDebtResolved" "\<not> residue_closed r"
    and "cf_release c = Some port" and "\<And>staging. port staging (ph_epoch h) = Inr (receipt, True)"
    and "validateReleaseReceipt (cf_hash c) receipt (cf_durable c)"
    and "rc_outcome receipt = ReleaseOutcomeBlocked"
  shows "\<exists>ans s' r' d'. Mutate c (Some (ReleaseResidue h)) s = Some (ans, s') \<and>
    map_of (ps_operations s') (scopeOf h) = Some r' \<and> op_debt r' = Some d' \<and>
    db_status d' = CleanupDebtBlocked \<and> db_class d' = db_class d \<and>
    db_resolved_at d' = db_resolved_at d"
proof -
  have scope: "op_scope r = scopeOf h"
    using reachable_scopes [OF assms(1)] assms(2) by (metis scopes_agree_def)
  have "residue_ok r" by (rule reachable_residue [OF assms(1,2)])
  with assms(7) obtain x a where x: "op_residue r = Some x" "rs_assembly x = Some a"
    "db_identity d = as_identity a" "db_generation d = as_generation a" "db_fence d = as_fence a"
    and state: "discarded_state (op_state r)" by (auto simp: residue_ok_def)
  then have guards: "(op_state r \<noteq> OperationRejected \<and> op_state r \<noteq> OperationCancelled) = False"
    "\<not> residueClosedByEvidence (rs_disposition x)"
    using assms(9) by (auto simp: discarded_state_def residue_closed_def)
  define y where "y = (if rs_expiry x \<noteq> 0 \<and> rs_expiry x < cf_now c 0
      then x\<lparr>rs_disposition := ResidueExpired\<rparr> else x)"
  have claim: "claimDebt r y = Some (Some d)"
    using x assms(7,8) by (simp add: claimDebt_def y_def)
  obtain ans r' where run: "runRelease c h r (po_id (ph_operation h)) False = (ans, r')"
    and debt: "op_debt r' = Some (receiptOnDebt d receipt (cf_now c 0))"
    using x(1) guards assms(5,6,10-12) claim
    by (simp add: runRelease_def y_def [symmetric] Let_def)
  have "op_scope r' = scopeOf h" using runRelease_identity [OF run] scope by simp
  moreover have "db_status (receiptOnDebt d receipt now) = CleanupDebtBlocked \<and>
      db_resolved_at (receiptOnDebt d receipt now) = db_resolved_at d" for now
    using assms(13)
    by (simp add: receiptOnDebt_def recordDebtAttempt_def Let_def applied_receipt_closes_iff
        release_outcome_defs)
  ultimately show ?thesis
    using assms(2-4) run debt
    by (simp add: Mutate_def mutateRecord_def releaseResidueFlow_def Let_def)
qed

theorem residue_closes_by_receipt_witness:
  "\<exists>(s' :: InMemoryPersistence) r' x receipt. map_of (ps_operations s') (''d'', ''t'', ''op'') = Some r' \<and>
     op_residue r' = Some x \<and> rs_receipt x = Some receipt \<and>
     proven_gone ex_c (cd_staging ex_cand) receipt"
proof -
  obtain ans s' r' where run: "Mutate ex_c (Some (ReleaseResidue ex_k)) ex_s6 = Some (ans, s')"
    and r': "map_of (ps_operations s') (''d'', ''t'', ''op'') = Some r'" "residue_closed r'"
    using ex_released by blast
  have "\<not> residue_closed ex_q6"
    using ex_q6_residue by (auto simp: residue_closed_def residueClosedByEvidence_def)
  from residue_closes_by_receipt [OF ex_reachable(7) run ex_s6_facts this r']
  obtain cand x receipt where "op_candidate ex_q6 = Some cand" "op_residue r' = Some x"
    "rs_receipt x = Some receipt" "proven_gone ex_c (cd_staging cand) receipt" by blast
  moreover from this have "cand = ex_cand" by simp
  ultimately show ?thesis using r'(1) by blast
qed

theorem blocked_receipt_reopens_debt_witness:
  "\<exists>ans s' r' d'. Mutate (ex_config ReleaseOutcomeBlocked 1) (Some (ReleaseResidue ex_k)) ex_s6 = Some (ans, s') \<and>
    map_of (ps_operations s') (scopeOf ex_k) = Some r' \<and> op_debt r' = Some d' \<and>
    db_status d' = CleanupDebtBlocked \<and> db_class d' = db_class ex_closed \<and>
    db_resolved_at d' = db_resolved_at ex_closed"
proof (rule blocked_receipt_reopens_debt [OF ex_reachable(7), where r = ex_q6
      and receipt = "ex_receipt ReleaseOutcomeBlocked 1"])
  show "\<not> residue_closed ex_q6"
    using ex_q6_residue by (auto simp: residue_closed_def residueClosedByEvidence_def)
qed simp_all

text \<open>The target resolved for one link verifies under another link of the same generation.\<close>

theorem resolved_target_verifies_witness:
  "\<exists>view'. PubQuery (ex_c\<lparr>cf_scope := Some (\<lambda>k. Some (ex_scope\<lparr>cs_id := ck_id k\<rparr>))\<rparr>) ex_s3
     (ex_query ''verify_content_target'' ''other'' (Some ex_target)) = Inr view' \<and>
   pv_target view' = Some ex_target"
proof -
  obtain view where view: "PubQuery ex_c ex_s3 (ex_query ''resolve_content_target'' ''link'' None) = Inr view"
    "pv_target view = Some ex_target" using ex_target_resolved by blast
  have "proper_hashing (cf_hash ex_c)" by (simp add: proper_hashing_def ex_hash_def zero_digest_def)
  from resolved_target_verifies [OF this ex_reachable(4) view(1) _ view(2) rtranclp.rtrancl_refl]
  show ?thesis
    by (simp add: ex_query_def ex_target_def targetOf_def Let_def currentContentScope_def ex_scope_def)
qed

end
