(* ===== verification/Spec2Isabelle.thy ===== *)
theory Spec2Isabelle
  imports Service_Pipeline Sched_Examples Runtime_Examples Orch_Witnesses Delivery_Witnesses
    Pub_Contracts
begin

text \<open>
  A verification development of the SlideSmith backend (Go, under \<open>src/backend/internal\<close>): the
  part of it that decides. SlideSmith turns documents into slide decks; a task runs a pipeline of
  phases, and the modules modelled here decide when it may go on, who may say so, and where it may
  run.

  \<^item> \<open>taskorchestration\<close> owns the tasks. Callers send it intents (start, make work available,
    confirm, retry, cancel, evidence of other modules, an operational fence); \<open>Decide\<close> accepts or
    refuses an intent, changes the task's record and orders enactments through an outbox.
  \<^item> \<open>scheduler\<close> takes work items, admits them to a node within capacity limits, and releases the
    capacity of a grant when evidence of its end arrives.
  \<^item> \<open>runtimeexecution\<close> defines the canonical start and cancel requests the orchestration builds,
    stores in its outbox and the scheduler binds a grant to.
  \<^item> \<open>artifactpublication\<close> turns the output of a finished task into immutable versions. Callers send
    it intents (prepare, verify, activate, reject, cancel, reconcile, and those of the cleanup);
    \<open>Mutate\<close> accepts or refuses them, queries read the versions and issue content targets.
  \<^item> \<open>service\<close> is the older task service with its status machine and phase tables.

  How the theories correspond to the code:

  \<^item> \<open>Prelude\<close>: Go's unsigned integers as words, identifiers as strings (the empty one is the zero
    value), maps as association lists, errors as the left part of a sum; the interfaces
    (locales) the components satisfy: a counted admission, a table of transitions, requests that
    are settled once. \<open>Canonical_Values\<close>: JSON values and the parameter \<open>hashing\<close> for SHA-256.
  \<^item> \<open>Sched_State\<close>, \<open>Sched_Admission\<close>, \<open>Sched_Release\<close> model \<open>scheduler/postgres.go\<close> and
    \<open>scheduler/capacity.go\<close>: one record per table row, a transaction as a function of the
    database. \<open>Sched_Capacity\<close> proves the limits, \<open>Sched_Delivery\<close> and \<open>Sched_Redelivery\<close> what a
    caller of the queue relies on, \<open>Sched_Lifecycle\<close> the joint states of a grant and its
    reservations, \<open>Sched_Evidence\<close> that terminal evidence commutes; \<open>Sched_Examples\<close> runs it.
  \<^item> \<open>Runtime_Requests\<close>, \<open>Runtime_Codec\<close>, \<open>Runtime_Encoding\<close> model
    \<open>runtimeexecution/canonical.go\<close>: requests, wire structs, payloads and digests, with the round
    trips; \<open>Runtime_Examples\<close> has concrete requests.
  \<^item> \<open>Orch_Types\<close>, \<open>Orch_Pipeline\<close>, \<open>Orch_Intents\<close> model the values of \<open>taskorchestration\<close>
    (\<open>types.go\<close>, \<open>pipeline.go\<close>, \<open>intents.go\<close>, \<open>canonical.go\<close>): enumerations, phase graphs, pinned
    starts and the sixteen intent payloads with their validity and canonical form.
  \<^item> \<open>Orch_State\<close> (records of \<open>harness.go\<close> and its fixtures), \<open>Orch_Enactment\<close>
    (\<open>runtime_enactment.go\<close>), \<open>Orch_Aggregate\<close> (\<open>applyAggregateIntent\<close> and its handlers),
    \<open>Orch_Coordination\<close> (the operation bindings and their checks), \<open>Orch_Audit\<close>
    (\<open>mandatory_audit.go\<close>), \<open>Orch_Decide\<close> (\<open>Decide\<close>, \<open>Query\<close>, \<open>Restart\<close>) and \<open>Orch_Engine\<close>
    (the construction of the harness and its faults) model the decision engine. The part of
    \<open>Decide\<close> under the lock is split into stages in the order of the code: replay, admission, the
    aggregate, cancellation, reconciliation, the operational fence, the final record, the commit.
  \<^item> \<open>Orch_Replay\<close> and \<open>Orch_Commit\<close> are the library of the engine's properties: what each stage
    keeps (\<open>outline\<close>, \<open>kept\<close>), the relation \<open>commits\<close> of a committed decision and the outcomes of
    a step. \<open>Orch_Decisions\<close> has the properties of decisions, \<open>Orch_Evidence\<close> those of evidence,
    \<open>Orch_Lifecycle\<close> the abstract machine of a task with \<open>Orch_Tasks\<close> the refinement, and
    \<open>Orch_Phases\<close> when a phase is left. \<open>Orch_Runs\<close> evaluates a run from start to completion in
    the kernel, and \<open>Orch_Witnesses\<close> applies each property to it.
  \<^item> \<open>Delivery_Transport\<close> and \<open>Delivery_Dispatch\<close> model \<open>taskorchestration/delivery.go\<close>: the owned
    transport with its journal, and the dispatcher that leases rows of the engine's outbox to
    workers, sends them and settles what it learns. A call that leaves the lock to reach the
    transport is two functions (\<open>beginDeliver\<close> and \<open>completeDeliver\<close>, \<open>beginReconcile\<close> and
    \<open>completeReconcile\<close>), and the code's own functions compose them. \<open>Delivery_Changes\<close> lists the
    nine changes of a delivery, \<open>Delivery_System\<close> puts engine, dispatcher and transport together and
    proves the invariants, \<open>Delivery_Life\<close> has the abstract machine of a delivery and the
    properties of runs, \<open>Delivery_Contracts\<close> those of single calls; \<open>Delivery_Runs\<close> evaluates a run
    and \<open>Delivery_Witnesses\<close> applies each property to it.
  \<^item> \<open>Pub_Types\<close> (\<open>types.go\<close> and the enumerations of \<open>manifest.go\<close>), \<open>Pub_Manifest\<close>
    (\<open>manifest.go\<close>: logical names, references, manifests, lineage), \<open>Pub_Proofs\<close> (\<open>evidence.go\<close>),
    \<open>Pub_Residue\<close> (\<open>residue.go\<close>), \<open>Pub_Intents\<close> (\<open>intents.go\<close>) and \<open>Pub_State\<close> (\<open>state.go\<close>,
    \<open>mandatory_audit.go\<close>, the views of \<open>seam.go\<close>) model the values of \<open>artifactpublication\<close>;
    \<open>Pub_Verify\<close> the evidence matrix and \<open>verify\<close> (\<open>lifecycle.go\<close>), \<open>Pub_Prepare\<close> the
    preparation (\<open>in_memory.go\<close>), \<open>Pub_Mutate\<close> the other handlers (\<open>activation.go\<close>,
    \<open>lifecycle.go\<close>, \<open>residue_flow.go\<close>) and \<open>Mutate\<close>, \<open>Pub_Query\<close> the queries (\<open>query.go\<close>,
    \<open>content_target.go\<close>). A handler takes the configuration, the request and the persistence and
    returns its answer, a decision and an optional error, with the new persistence.
  \<^item> \<open>Pub_Steps\<close> says what each handler does to the record of its operation, \<open>Pub_Lineage\<close> that
    identities are minted once, \<open>Pub_History\<close> has the abstract history of a task and its
    refinement, \<open>Pub_Gate\<close> when evidence is complete, \<open>Pub_Records\<close> the relation of all changes
    of a record with the invariants of its verification, \<open>Pub_Cleanup\<close> those of residue and debt,
    \<open>Pub_Replay\<close> that an accepted intent is answered again and that the order of a request does
    not matter. \<open>Pub_Example\<close> evaluates two runs of one operation (published; cancelled and
    cleaned up) and \<open>Pub_Contracts\<close> has the properties, each applied to it.
  \<^item> \<open>Service_Pipeline\<close> models \<open>service/state_machine.go\<close>, \<open>pipeline_phase.go\<close> and
    \<open>route_policy.go\<close>.

  The modules meet in two places. A runtime run the engine started can be cancelled, because the
  payload in the outbox parses as the request it was built from (\<open>Orch_Enactment\<close>). And what the
  dispatcher reports as accepted is in the transport's journal under the binding of a row the
  engine committed (\<open>Delivery_Life\<close>), in any interleaving of engine, workers and transport.

  Bounds. Counters are 64-bit words and may wrap: the properties that need it say so
  (\<open>revisions_left\<close>: no task has used its last revision; \<open>fences_left\<close>: no delivery its last lease
  fence; \<open>phase_runs_left\<close>: the allocator can still
  name a phase run; fewer than \<open>2 ^ 64\<close> known operations). The search for a free operation
  identifier takes as many attempts as there are known operations plus one, and one of them is
  free. A phase walk ends because it never visits a key twice. No other definition has fuel.
  The loops of a preparation that search for an unused identity have no bound in the code; they are
  partial functions, and \<open>publication_call_returns\<close> proves that they end while fewer than \<open>2 ^ 64\<close>
  identities are taken. The line of versions of a task is stated for fewer than \<open>2 ^ 64\<close> versions.
  The example run of publication uses one constant digest: the properties it applies hold for any
  hash function, and only the form of digests is asked of it.

  Concurrency. The engine holds one lock over \<open>Decide\<close>, and a scheduler operation is one
  serializable transaction: both are functions of their state, and a run is a sequence of them in
  any order. Workers of the dispatcher interleave at the calls of the transport, and an envelope
  arrives late, more than once or never. Crashes, lost responses and failures are injected by the harness and are steps of the
  run.

  Not modelled: SQL persistence, the adapters and the wire formats of the orchestration and of the
  publication (I/O around the modelled cores); their metrics, traces, diagnostics and the copies
  they send to audit and telemetry sinks; the authority of the runtime, whose in-memory form and
  SQL form carry a lease machine of their own; the task workspace, which works on the file system;
  the HTTP service, handlers and repositories, which call the database, language models and
  renderers.
  A time is an integer (nanoseconds; seconds in the publication), a database is a record of its
  tables.
\<close>

end
